(* ===== verification/Prelude.thy ===== *)
theory Prelude
  imports Complex_Main "HOL-Library.AList" "HOL-Library.Sublist"
begin

text \<open>
  The vocabulary every component shares.

  \<^item> Rust's \<open>Result\<close> is the sum type \<open>'e + 'a\<close> with \<open>Inl\<close> for \<open>Err\<close>; the \<open>?\<close>
    operator is \<open>and_then\<close> on values and \<open>try_in\<close> / \<open>try_st\<close> on operations that
    thread a state, where the state reached so far survives the early return (Rust does not
    roll a mutation back when a later \<open>?\<close> returns).
  \<^item> \<open>std::collections::HashMap\<close> is an association list with distinct keys; its order
    stands for the unspecified iteration order of the map.  \<open>HashSet\<close> is a list without
    repetition.
  \<^item> The collections \<open>keeps\<close> (an operation keeps an invariant) and \<open>core_simps\<close>
    carry the component proofs.
\<close>

named_theorems core_simps \<open>unfolding rules for the small helpers of the code\<close>
named_theorems keeps \<open>rules that show an operation keeps an invariant\<close>

subsection \<open>Results and early returns\<close>

definition and_then :: "'e + 'a \<Rightarrow> ('a \<Rightarrow> 'e + 'b) \<Rightarrow> 'e + 'b" where
  "and_then r k = (case r of Inl e \<Rightarrow> Inl e | Inr x \<Rightarrow> k x)"

definition try_in :: "'s \<Rightarrow> 'e + 'a \<Rightarrow> ('a \<Rightarrow> 's \<times> ('e + 'b)) \<Rightarrow> 's \<times> ('e + 'b)" where
  "try_in s r k = (case r of Inl e \<Rightarrow> (s, Inl e) | Inr x \<Rightarrow> k x)"

definition try_st :: "'s \<times> ('e + 'a) \<Rightarrow> ('s \<Rightarrow> 'a \<Rightarrow> 's \<times> ('e + 'b)) \<Rightarrow> 's \<times> ('e + 'b)" where
  "try_st m k = (case m of (s, Inl e) \<Rightarrow> (s, Inl e) | (s, Inr x) \<Rightarrow> k s x)"

definition ok_or :: "'a option \<Rightarrow> 'e \<Rightarrow> 'e + 'a" where
  "ok_or x e = (case x of None \<Rightarrow> Inl e | Some y \<Rightarrow> Inr y)"

definition ok :: "'e + 'a \<Rightarrow> 'a option" where
  "ok r = (case r of Inl _ \<Rightarrow> None | Inr x \<Rightarrow> Some x)"

definition ensure :: "bool \<Rightarrow> 'e \<Rightarrow> 'e + unit" where
  "ensure b e = (if b then Inr () else Inl e)"

lemma and_then_Inl [simp]: "and_then (Inl e) k = Inl e"
  and and_then_Inr [simp]: "and_then (Inr x) k = k x"
  by (simp_all add: and_then_def)

lemma try_in_Inl [simp]: "try_in s (Inl e) k = (s, Inl e)"
  and try_in_Inr [simp]: "try_in s (Inr x) k = k x"
  by (simp_all add: try_in_def)

lemma try_st_Inl [simp]: "try_st (s, Inl e) k = (s, Inl e)"
  and try_st_Inr [simp]: "try_st (s, Inr x) k = k s x"
  by (simp_all add: try_st_def)

lemma ok_or_simps [simp]: "ok_or None e = Inl e" "ok_or (Some x) e = Inr x"
  by (simp_all add: ok_or_def)

lemma ok_simps [simp]: "ok (Inl e) = None" "ok (Inr x) = Some x"
  by (simp_all add: ok_def)

lemma ensure_simps [simp]: "ensure True e = Inr ()" "ensure False e = Inl e"
  by (simp_all add: ensure_def)

lemma and_then_eq_Inr: "and_then r k = Inr y \<longleftrightarrow> (\<exists>x. r = Inr x \<and> k x = Inr y)"
  by (cases r) auto

lemma and_then_eq_Inl: "and_then r k = Inl e \<longleftrightarrow> r = Inl e \<or> (\<exists>x. r = Inr x \<and> k x = Inl e)"
  by (cases r) auto

lemma try_in_eq: "try_in s r k = (t, Inr y) \<longleftrightarrow> (\<exists>x. r = Inr x \<and> k x = (t, Inr y))"
  by (cases r) auto

lemma try_in_eq_Inl:
  "try_in s r k = (t, Inl e) \<longleftrightarrow> (r = Inl e \<and> t = s) \<or> (\<exists>x. r = Inr x \<and> k x = (t, Inl e))"
  by (cases r) auto

lemma try_st_eq:
  "try_st m k = (t, Inr y) \<longleftrightarrow> (\<exists>s x. m = (s, Inr x) \<and> k s x = (t, Inr y))"
  by (cases m; cases "snd m") auto

lemma try_st_eq_Inl:
  "try_st m k = (t, Inl e) \<longleftrightarrow> m = (t, Inl e) \<or> (\<exists>s x. m = (s, Inr x) \<and> k s x = (t, Inl e))"
  by (cases m; cases "snd m") auto

lemma ok_or_eq_Inr: "ok_or x e = Inr y \<longleftrightarrow> x = Some y"
  by (cases x) auto

lemma ok_or_eq_Inl: "ok_or x e = Inl e' \<longleftrightarrow> x = None \<and> e' = e"
  by (cases x) auto

lemma ok_eq_Some: "ok r = Some x \<longleftrightarrow> r = Inr x"
  by (cases r) auto

lemma ensure_eq_Inr: "ensure b e = Inr u \<longleftrightarrow> b"
  by (cases b) auto

lemma ensure_eq_Inl: "ensure b e = Inl e' \<longleftrightarrow> \<not> b \<and> e' = e"
  by (cases b) auto

lemmas result_eqs = and_then_eq_Inr and_then_eq_Inl try_in_eq try_in_eq_Inl try_st_eq try_st_eq_Inl
  ok_or_eq_Inr ok_or_eq_Inl ok_eq_Some ensure_eq_Inr ensure_eq_Inl

text \<open>
  \<open>leaves P m\<close>: the operation \<open>m\<close>, run on some state, leaves a state with \<open>P\<close>, whether it
  succeeds or fails.  The rules follow the control flow; at an early return the state is the state
  so far.
\<close>

definition leaves :: "('s \<Rightarrow> bool) \<Rightarrow> 's \<times> 'r \<Rightarrow> bool" where
  "leaves P m \<longleftrightarrow> P (fst m)"

lemma leaves_pair [keeps]: "P s \<Longrightarrow> leaves P (s, r)"
  by (simp add: leaves_def)

lemma leaves_try_in [keeps]:
  "P s \<Longrightarrow> (\<And>x. r = Inr x \<Longrightarrow> leaves P (k x)) \<Longrightarrow> leaves P (try_in s r k)"
  by (cases r) (auto simp: leaves_def)

lemma leaves_try_st [keeps]:
  "leaves P m \<Longrightarrow> (\<And>s x. m = (s, Inr x) \<Longrightarrow> P s \<Longrightarrow> leaves P (k s x)) \<Longrightarrow> leaves P (try_st m k)"
  by (cases m; cases "snd m") (auto simp: leaves_def)

lemma leaves_if [keeps]:
  "(b \<Longrightarrow> leaves P x) \<Longrightarrow> (\<not> b \<Longrightarrow> leaves P y) \<Longrightarrow> leaves P (if b then x else y)"
  by simp

lemma leaves_case_option [keeps]:
  "(c = None \<Longrightarrow> leaves P x) \<Longrightarrow> (\<And>v. c = Some v \<Longrightarrow> leaves P (f v)) \<Longrightarrow>
   leaves P (case c of None \<Rightarrow> x | Some v \<Rightarrow> f v)"
  by (cases c) auto

lemma leaves_case_prod [keeps]:
  "(\<And>a b. c = (a, b) \<Longrightarrow> leaves P (f a b)) \<Longrightarrow> leaves P (case c of (a, b) \<Rightarrow> f a b)"
  by (cases c) auto

lemma leaves_case_sum [keeps]:
  "(\<And>e. c = Inl e \<Longrightarrow> leaves P (f e)) \<Longrightarrow> (\<And>v. c = Inr v \<Longrightarrow> leaves P (g v)) \<Longrightarrow>
   leaves P (case c of Inl e \<Rightarrow> f e | Inr v \<Rightarrow> g v)"
  by (cases c) auto

lemma leaves_case_list [keeps]:
  "(c = [] \<Longrightarrow> leaves P x) \<Longrightarrow> (\<And>a as. c = a # as \<Longrightarrow> leaves P (f a as)) \<Longrightarrow>
   leaves P (case c of [] \<Rightarrow> x | a # as \<Rightarrow> f a as)"
  by (cases c) auto

lemma leaves_Let [keeps]: "leaves P (f x) \<Longrightarrow> leaves P (Let x f)"
  by simp

lemma leavesD: "leaves P m \<Longrightarrow> m = (s, r) \<Longrightarrow> P s"
  by (simp add: leaves_def)

subsection \<open>Options and lists\<close>

fun find_map :: "('a \<Rightarrow> 'b option) \<Rightarrow> 'a list \<Rightarrow> 'b option" where
  "find_map f [] = None"
| "find_map f (x # xs) = (case f x of None \<Rightarrow> find_map f xs | Some y \<Rightarrow> Some y)"

definition or_else :: "'a option \<Rightarrow> 'a option \<Rightarrow> 'a option" where
  "or_else x y = (case x of None \<Rightarrow> y | Some _ \<Rightarrow> x)"

definition unwrap_or :: "'a option \<Rightarrow> 'a \<Rightarrow> 'a" where
  "unwrap_or x d = (case x of None \<Rightarrow> d | Some y \<Rightarrow> y)"

definition filter_opt :: "('a \<Rightarrow> bool) \<Rightarrow> 'a option \<Rightarrow> 'a option" where
  "filter_opt p x = (case x of None \<Rightarrow> None | Some y \<Rightarrow> if p y then Some y else None)"

definition is_some_and :: "'a option \<Rightarrow> ('a \<Rightarrow> bool) \<Rightarrow> bool" where
  "is_some_and x p = (case x of None \<Rightarrow> False | Some y \<Rightarrow> p y)"

definition is_none_or :: "'a option \<Rightarrow> ('a \<Rightarrow> bool) \<Rightarrow> bool" where
  "is_none_or x p = (case x of None \<Rightarrow> True | Some y \<Rightarrow> p y)"

lemma option_helper_simps [simp]:
  "or_else None y = y" "or_else (Some a) y = Some a"
  "unwrap_or None d = d" "unwrap_or (Some a) d = a"
  "filter_opt p None = None" "filter_opt p (Some a) = (if p a then Some a else None)"
  "is_some_and None p = False" "is_some_and (Some a) p = p a"
  "is_none_or None p = True" "is_none_or (Some a) p = p a"
  by (simp_all add: or_else_def unwrap_or_def filter_opt_def is_some_and_def is_none_or_def)

lemma or_else_eq_Some: "or_else x y = Some a \<longleftrightarrow> x = Some a \<or> (x = None \<and> y = Some a)"
  by (cases x) auto

lemma or_else_eq_None: "or_else x y = None \<longleftrightarrow> x = None \<and> y = None"
  by (cases x) auto

lemma filter_opt_eq_Some: "filter_opt p x = Some a \<longleftrightarrow> x = Some a \<and> p a"
  by (cases x) auto

lemma find_map_Some: "find_map f xs = Some y \<Longrightarrow> \<exists>x \<in> set xs. f x = Some y"
  by (induction xs) (auto split: option.splits)

lemma find_map_None: "find_map f xs = None \<longleftrightarrow> (\<forall>x \<in> set xs. f x = None)"
  by (induction xs) (auto split: option.splits)

text \<open>
  Reading a list of fallible items, as \<open>collect::<Result<Vec<_>, _>>()\<close> does: the first
  error wins.
\<close>

fun collect_results :: "('e + 'a) list \<Rightarrow> 'e + 'a list" where
  "collect_results [] = Inr []"
| "collect_results (r # rs) =
     and_then r (\<lambda>x. and_then (collect_results rs) (\<lambda>xs. Inr (x # xs)))"

lemma collect_results_Inr:
  "collect_results (map f xs) = Inr ys \<Longrightarrow> list_all2 (\<lambda>x y. f x = Inr y) xs ys"
  by (induction xs arbitrary: ys) (auto simp: result_eqs)

lemma collect_results_item:
  "collect_results (map f xs) = Inr ys \<Longrightarrow> y \<in> set ys \<Longrightarrow> \<exists>x \<in> set xs. f x = Inr y"
  by (induction xs arbitrary: ys) (auto simp: result_eqs)

text \<open>\<open>Iterator::max_by_key\<close>: the last of the greatest elements.\<close>

fun max_by :: "('a \<Rightarrow> 'b::linorder) \<Rightarrow> 'a list \<Rightarrow> 'a option" where
  "max_by f [] = None"
| "max_by f (x # xs) =
     (case max_by f xs of None \<Rightarrow> Some x | Some y \<Rightarrow> if f y < f x then Some x else Some y)"

lemma max_by_None [simp]: "max_by f xs = None \<longleftrightarrow> xs = []"
  by (cases xs) (auto split: option.splits)

lemma max_by_Some: "max_by f xs = Some y \<Longrightarrow> y \<in> set xs \<and> (\<forall>x \<in> set xs. f x \<le> f y)"
  by (induction xs arbitrary: y) (fastforce split: option.splits if_splits)+

end
