(* ===== verification/Hash_Store.thy ===== *)
theory Hash_Store
  imports Prelude
begin

text \<open>
  \<open>HashMap\<close> and \<open>HashSet\<close> of the Rust standard library, as the code uses them, and the
  two interfaces the components rely on: a store with its lookup laws, and a store whose records
  carry their own key.
\<close>

subsection \<open>The operations\<close>

type_synonym ('k, 'v) hmap = "('k \<times> 'v) list"

definition hm_get :: "('k, 'v) hmap \<Rightarrow> 'k \<Rightarrow> 'v option" where
  "hm_get m k = map_of m k"

definition hm_insert :: "'k \<Rightarrow> 'v \<Rightarrow> ('k, 'v) hmap \<Rightarrow> ('k, 'v) hmap" where
  "hm_insert k v m = AList.update k v m"

definition hm_remove :: "'k \<Rightarrow> ('k, 'v) hmap \<Rightarrow> ('k, 'v) hmap" where
  "hm_remove k m = AList.delete k m"

definition hm_contains :: "('k, 'v) hmap \<Rightarrow> 'k \<Rightarrow> bool" where
  "hm_contains m k \<longleftrightarrow> hm_get m k \<noteq> None"

definition hm_values :: "('k, 'v) hmap \<Rightarrow> 'v list" where
  "hm_values m = map snd m"

definition hm_retain :: "('k \<Rightarrow> 'v \<Rightarrow> bool) \<Rightarrow> ('k, 'v) hmap \<Rightarrow> ('k, 'v) hmap" where
  "hm_retain p m = filter (\<lambda>(k, v). p k v) m"

definition hm_map_values :: "('v \<Rightarrow> 'v) \<Rightarrow> ('k, 'v) hmap \<Rightarrow> ('k, 'v) hmap" where
  "hm_map_values f m = map (\<lambda>(k, v). (k, f v)) m"

definition hm_wf :: "('k, 'v) hmap \<Rightarrow> bool" where
  "hm_wf m \<longleftrightarrow> distinct (map fst m)"

definition hs_insert :: "'a \<Rightarrow> 'a list \<Rightarrow> 'a list" where
  "hs_insert x s = (if x \<in> set s then s else s @ [x])"

definition hs_remove :: "'a \<Rightarrow> 'a list \<Rightarrow> 'a list" where
  "hs_remove x s = removeAll x s"

definition hs_retain :: "('a \<Rightarrow> bool) \<Rightarrow> 'a list \<Rightarrow> 'a list" where
  "hs_retain p s = filter p s"

definition hs_extend :: "'a list \<Rightarrow> 'a list \<Rightarrow> 'a list" where
  "hs_extend s xs = fold hs_insert xs s"

subsection \<open>Their laws\<close>

lemma hm_get_Nil [simp]: "hm_get [] k = None"
  by (simp add: hm_get_def)

lemma hm_get_Cons [simp]: "hm_get ((k', v) # m) k = (if k = k' then Some v else hm_get m k)"
  by (simp add: hm_get_def)

lemma hm_get_insert [simp]:
  "hm_get (hm_insert k v m) k' = (if k' = k then Some v else hm_get m k')"
  by (simp add: hm_get_def hm_insert_def update_conv)

lemma hm_get_remove [simp]:
  "hm_get (hm_remove k m) k' = (if k' = k then None else hm_get m k')"
  by (simp add: hm_get_def hm_remove_def delete_conv)

lemma hm_contains_insert [simp]:
  "hm_contains (hm_insert k v m) k' \<longleftrightarrow> k' = k \<or> hm_contains m k'"
  by (simp add: hm_contains_def)

lemma hm_contains_remove [simp]:
  "hm_contains (hm_remove k m) k' \<longleftrightarrow> k' \<noteq> k \<and> hm_contains m k'"
  by (simp add: hm_contains_def)

lemma hm_contains_get: "hm_get m k = Some v \<Longrightarrow> hm_contains m k"
  by (simp add: hm_contains_def)

lemma hm_get_in_values: "hm_get m k = Some v \<Longrightarrow> v \<in> set (hm_values m)"
  unfolding hm_get_def hm_values_def by (force dest: map_of_SomeD)

lemma hm_get_iff_in: "hm_wf m \<Longrightarrow> hm_get m k = Some v \<longleftrightarrow> (k, v) \<in> set m"
  by (simp add: hm_get_def hm_wf_def)

lemma hm_in_values: "hm_wf m \<Longrightarrow> v \<in> set (hm_values m) \<Longrightarrow> \<exists>k. hm_get m k = Some v"
  by (auto simp: hm_values_def hm_get_iff_in)

lemma hm_wf_Nil [simp]: "hm_wf []"
  by (simp add: hm_wf_def)

lemma hm_wf_insert [simp]: "hm_wf m \<Longrightarrow> hm_wf (hm_insert k v m)"
  by (simp add: hm_wf_def hm_insert_def distinct_update)

lemma hm_wf_remove [simp]: "hm_wf m \<Longrightarrow> hm_wf (hm_remove k m)"
  by (simp add: hm_wf_def hm_remove_def distinct_delete)

lemma hm_wf_retain [simp]: "hm_wf m \<Longrightarrow> hm_wf (hm_retain p m)"
  by (simp add: hm_wf_def hm_retain_def distinct_map_filter)

lemma hm_keys_map_values [simp]: "map fst (hm_map_values f m) = map fst m"
  by (simp add: hm_map_values_def split_def)

lemma hm_wf_map_values [simp]: "hm_wf (hm_map_values f m) = hm_wf m"
  by (simp add: hm_wf_def)

lemma hm_get_map_values [simp]: "hm_get (hm_map_values f m) k = map_option f (hm_get m k)"
  by (induction m) (auto simp: hm_map_values_def)

lemma hm_contains_map_values [simp]: "hm_contains (hm_map_values f m) k = hm_contains m k"
  by (simp add: hm_contains_def)

lemma hm_get_retain:
  assumes "hm_wf m"
  shows "hm_get (hm_retain p m) k = filter_opt (p k) (hm_get m k)"
  using assms
proof (induction m)
  case Nil
  then show ?case by (simp add: hm_retain_def)
next
  case (Cons x m)
  obtain k' v where x: "x = (k', v)" by (cases x)
  from Cons.prems have wf: "hm_wf m" and fresh: "k' \<notin> fst ` set m"
    by (simp_all add: hm_wf_def x)
  from fresh have "hm_get m k' = None"
    by (simp add: hm_get_def map_of_eq_None_iff)
  with Cons.IH [OF wf] show ?case
    by (auto simp: hm_retain_def x)
qed

lemma hm_insert_fresh: "\<not> hm_contains m k \<Longrightarrow> hm_insert k v m = m @ [(k, v)]"
  by (induction m) (auto simp: hm_insert_def hm_contains_def split: if_splits)

lemma hm_values_insert: "set (hm_values (hm_insert k v m)) \<subseteq> insert v (set (hm_values m))"
  by (induction m) (auto simp: hm_values_def hm_insert_def)

lemma hm_values_remove: "set (hm_values (hm_remove k m)) \<subseteq> set (hm_values m)"
  by (auto simp: hm_values_def hm_remove_def AList.delete_eq)

lemma hs_insert_set [simp]: "set (hs_insert x s) = insert x (set s)"
  by (auto simp: hs_insert_def)

lemma hs_insert_distinct [simp]: "distinct s \<Longrightarrow> distinct (hs_insert x s)"
  by (simp add: hs_insert_def)

lemma hs_remove_set [simp]: "set (hs_remove x s) = set s - {x}"
  by (simp add: hs_remove_def)

lemma hs_retain_set [simp]: "set (hs_retain p s) = {x \<in> set s. p x}"
  by (auto simp: hs_retain_def)

lemma hs_extend_set [simp]: "set (hs_extend s xs) = set s \<union> set xs"
  by (induction xs arbitrary: s) (auto simp: hs_extend_def)

lemma hs_extend_distinct [simp]: "distinct s \<Longrightarrow> distinct (hs_extend s xs)"
  by (induction xs arbitrary: s) (auto simp: hs_extend_def)

subsection \<open>The interface of a store\<close>

text \<open>
  What a component needs of a store, whatever its representation: lookups see the last write
  to a key and nothing else.
\<close>

locale store =
  fixes get :: "'m \<Rightarrow> 'k \<Rightarrow> 'v option"
    and put :: "'k \<Rightarrow> 'v \<Rightarrow> 'm \<Rightarrow> 'm"
    and del :: "'k \<Rightarrow> 'm \<Rightarrow> 'm"
  assumes get_put: "get (put k v m) k' = (if k' = k then Some v else get m k')"
    and get_del: "get (del k m) k' = (if k' = k then None else get m k')"
begin

lemma get_put_same: "get (put k v m) k = Some v"
  by (simp add: get_put)

lemma get_put_other: "k' \<noteq> k \<Longrightarrow> get (put k v m) k' = get m k'"
  by (simp add: get_put)

lemma get_del_same: "get (del k m) k = None"
  by (simp add: get_del)

lemma dom_put: "dom (get (put k v m)) = insert k (dom (get m))"
  by (auto simp: get_put split: if_splits)

lemma put_keeps_contents:
  "(\<forall>k v. get m k = Some v \<longrightarrow> P k v) \<Longrightarrow> P k v \<Longrightarrow> (\<forall>k' v'. get (put k v m) k' = Some v' \<longrightarrow> P k' v')"
  by (simp add: get_put)

lemma del_keeps_contents:
  "(\<forall>k v. get m k = Some v \<longrightarrow> P k v) \<Longrightarrow> (\<forall>k' v'. get (del k m) k' = Some v' \<longrightarrow> P k' v')"
  by (simp add: get_del)

end

text \<open>A store whose records hold the key they are stored under.\<close>

definition keyed_by :: "('v \<Rightarrow> 'k) \<Rightarrow> ('m \<Rightarrow> 'k \<Rightarrow> 'v option) \<Rightarrow> 'm \<Rightarrow> bool" where
  "keyed_by key_of get m \<longleftrightarrow> (\<forall>k v. get m k = Some v \<longrightarrow> key_of v = k)"

locale keyed_store = store get put del
  for get :: "'m \<Rightarrow> 'k \<Rightarrow> 'v option"
    and put :: "'k \<Rightarrow> 'v \<Rightarrow> 'm \<Rightarrow> 'm"
    and del :: "'k \<Rightarrow> 'm \<Rightarrow> 'm" +
  fixes key_of :: "'v \<Rightarrow> 'k"
begin

lemma keyed_put: "keyed_by key_of get m \<Longrightarrow> key_of v = k \<Longrightarrow> keyed_by key_of get (put k v m)"
  unfolding keyed_by_def by (rule put_keeps_contents) simp_all

lemma keyed_del: "keyed_by key_of get m \<Longrightarrow> keyed_by key_of get (del k m)"
  unfolding keyed_by_def by (rule del_keeps_contents)

lemma keyed_modify:
  "keyed_by key_of get m \<Longrightarrow> get m k = Some v \<Longrightarrow> key_of (f v) = key_of v \<Longrightarrow>
   keyed_by key_of get (put k (f v) m)"
  by (rule keyed_put) (simp_all add: keyed_by_def)

end

interpretation hm: store hm_get hm_insert hm_remove
  by unfold_locales simp_all

end
