(* ===== verification/Text.thy ===== *)
theory Text
  imports Hash_Store "HOL-Library.List_Lexorder" "HOL-Library.Char_ord" "HOL-Library.Product_Lexorder"
begin

text \<open>
  Rust strings.  A \<open>String\<close> or \<open>&str\<close> is its UTF-8 encoding, a list of bytes, and a
  \<open>string\<close> of HOL is exactly a list of bytes, so \<open>len\<close>, \<open>==\<close> and the order of
  strings (byte-wise, as \<open>str::cmp\<close>) are those of the code.  \<open>trim\<close> removes the
  characters with the Unicode property White_Space, given by their encodings.  The ASCII case
  mappings are those of \<open>to_ascii_lowercase\<close> and \<open>to_ascii_uppercase\<close>.  These are
  functions of Rust's standard library; the code under \<open>src/\<close> is modelled in the
  theories that follow.
\<close>

subsection \<open>Bytes\<close>

definition code :: "char \<Rightarrow> nat" where
  "code c = of_char c"

definition ascii_lower :: "char \<Rightarrow> char" where
  "ascii_lower c = (if 65 \<le> code c \<and> code c \<le> 90 then char_of (code c + 32) else c)"

definition ascii_upper :: "char \<Rightarrow> char" where
  "ascii_upper c = (if 97 \<le> code c \<and> code c \<le> 122 then char_of (code c - 32) else c)"

definition is_ascii_digit :: "char \<Rightarrow> bool" where
  "is_ascii_digit c \<longleftrightarrow> 48 \<le> code c \<and> code c \<le> 57"

definition is_ascii_alpha :: "char \<Rightarrow> bool" where
  "is_ascii_alpha c \<longleftrightarrow> (65 \<le> code c \<and> code c \<le> 90) \<or> (97 \<le> code c \<and> code c \<le> 122)"

definition is_ascii_hexdigit :: "char \<Rightarrow> bool" where
  "is_ascii_hexdigit c \<longleftrightarrow> is_ascii_digit c
     \<or> (65 \<le> code c \<and> code c \<le> 70) \<or> (97 \<le> code c \<and> code c \<le> 102)"

definition is_continuation :: "char \<Rightarrow> bool" where
  "is_continuation c \<longleftrightarrow> 128 \<le> code c \<and> code c \<le> 191"

lemma code_less [simp]: "code c < 256"
  using nat_of_char_less_256 [of c] by (simp add: code_def)

lemma code_char_of: "n < 256 \<Longrightarrow> code (char_of n) = n"
  by (simp add: code_def)

lemma code_ascii_lower:
  "code (ascii_lower c) = (if 65 \<le> code c \<and> code c \<le> 90 then code c + 32 else code c)"
  by (simp add: ascii_lower_def code_char_of)

lemma ascii_lower_idem [simp]: "ascii_lower (ascii_lower c) = ascii_lower c"
proof (cases "65 \<le> code c \<and> code c \<le> 90")
  case True
  then have "code (ascii_lower c) = code c + 32"
    by (simp add: code_ascii_lower)
  with True show ?thesis by (simp add: ascii_lower_def [of "ascii_lower c"])
next
  case False
  then have "ascii_lower c = c"
    by (auto simp: ascii_lower_def)
  then show ?thesis by simp
qed

lemma code_ascii_upper:
  "code (ascii_upper c) = (if 97 \<le> code c \<and> code c \<le> 122 then code c - 32 else code c)"
  using code_less [of c] by (simp add: ascii_upper_def code_char_of del: code_less)

lemma ascii_upper_idem [simp]: "ascii_upper (ascii_upper c) = ascii_upper c"
proof (cases "97 \<le> code c \<and> code c \<le> 122")
  case True
  then have "code (ascii_upper c) = code c - 32"
    by (simp add: code_ascii_upper)
  moreover from True have "\<not> 97 \<le> code c - 32" by linarith
  ultimately show ?thesis by (simp add: ascii_upper_def [of "ascii_upper c"])
next
  case False
  then have "ascii_upper c = c"
    by (auto simp: ascii_upper_def)
  then show ?thesis by simp
qed

subsection \<open>White space and trimming\<close>

definition ws1 :: "char \<Rightarrow> bool" where
  "ws1 a \<longleftrightarrow> (9 \<le> code a \<and> code a \<le> 13) \<or> code a = 32"

definition ws2 :: "char \<Rightarrow> char \<Rightarrow> bool" where
  "ws2 a b \<longleftrightarrow> code a = 194 \<and> (code b = 133 \<or> code b = 160)"

definition ws3 :: "char \<Rightarrow> char \<Rightarrow> char \<Rightarrow> bool" where
  "ws3 a b c \<longleftrightarrow>
     (code a = 226 \<and> code b = 128 \<and>
        ((128 \<le> code c \<and> code c \<le> 138) \<or> code c = 168 \<or> code c = 169 \<or> code c = 175))
   \<or> (code a = 226 \<and> code b = 129 \<and> code c = 159)
   \<or> (code a = 225 \<and> code b = 154 \<and> code c = 128)
   \<or> (code a = 227 \<and> code b = 128 \<and> code c = 128)"

text \<open>The number of bytes of the white-space character a string starts or ends with, 0 for none.\<close>

fun ws_head :: "string \<Rightarrow> nat" where
  "ws_head [] = 0"
| "ws_head [a] = (if ws1 a then 1 else 0)"
| "ws_head [a, b] = (if ws1 a then 1 else if ws2 a b then 2 else 0)"
| "ws_head (a # b # c # s) =
     (if ws1 a then 1 else if ws2 a b then 2 else if ws3 a b c then 3 else 0)"

fun ws_tail :: "string \<Rightarrow> nat" where
  "ws_tail [] = 0"
| "ws_tail [a] = (if ws1 a then 1 else 0)"
| "ws_tail [b, a] = (if ws1 b then 1 else if ws2 a b then 2 else 0)"
| "ws_tail (c # b # a # s) =
     (if ws1 c then 1 else if ws2 b c then 2 else if ws3 a b c then 3 else 0)"

function strip :: "(string \<Rightarrow> nat) \<Rightarrow> string \<Rightarrow> string" where
  "strip w s = (if s = [] \<or> w s = 0 then s else strip w (drop (w s) s))"
  by pat_completeness auto
termination
  by (relation "measure (\<lambda>(w, s). length s)") auto

declare strip.simps [simp del]

definition trim_start :: "string \<Rightarrow> string" where
  "trim_start s = strip ws_head s"

definition trim_end :: "string \<Rightarrow> string" where
  "trim_end s = rev (strip ws_tail (rev s))"

definition trim :: "string \<Rightarrow> string" where
  "trim s = trim_end (trim_start s)"

lemma strip_suffix: "\<exists>p. s = p @ strip w s"
proof (induction w s rule: strip.induct)
  case (1 w s)
  show ?case
  proof (cases "s = [] \<or> w s = 0")
    case True
    then show ?thesis by (simp add: strip.simps [of w s])
  next
    case False
    with 1 obtain p where "drop (w s) s = p @ strip w (drop (w s) s)" by blast
    then have "s = (take (w s) s @ p) @ strip w (drop (w s) s)"
      by (metis append.assoc append_take_drop_id)
    moreover from False have "strip w s = strip w (drop (w s) s)"
      by (simp add: strip.simps [of w s])
    ultimately show ?thesis by metis
  qed
qed

lemma strip_done: "strip w s = [] \<or> w (strip w s) = 0"
proof (induction w s rule: strip.induct)
  case (1 w s)
  then show ?case
    by (cases "s = [] \<or> w s = 0") (auto simp: strip.simps [of w s])
qed

lemma strip_fix: "w s = 0 \<Longrightarrow> strip w s = s"
  by (simp add: strip.simps [of w s])

lemma strip_Nil [simp]: "strip w [] = []"
  by (simp add: strip.simps)

lemma strip_idem [simp]: "strip w (strip w s) = strip w s"
  using strip_done [of w s] strip_fix [of w "strip w s"] by fastforce

lemma ws_head_append: "ws_head (s @ t) = 0 \<Longrightarrow> ws_head s = 0"
  by (cases s rule: ws_head.cases; cases t rule: ws_head.cases) (auto split: if_splits)

lemma trim_end_prefix: "\<exists>t. s = trim_end s @ t"
proof -
  obtain p where "rev s = p @ strip ws_tail (rev s)"
    using strip_suffix [of "rev s" ws_tail] by blast
  then have "s = rev (p @ strip ws_tail (rev s))"
    by (simp add: rev_swap)
  then show ?thesis
    unfolding trim_end_def by (metis rev_append)
qed

lemma trim_end_idem [simp]: "trim_end (trim_end s) = trim_end s"
  by (simp add: trim_end_def)

lemma trim_start_fix: "ws_head s = 0 \<Longrightarrow> trim_start s = s"
  by (simp add: trim_start_def strip_fix)

lemma trim_head: "trim s = [] \<or> ws_head (trim s) = 0"
proof (cases "trim_start s = []")
  case True
  then show ?thesis by (simp add: trim_def trim_end_def)
next
  case False
  then have "ws_head (trim_start s) = 0"
    using strip_done [of ws_head s] by (simp add: trim_start_def)
  then show ?thesis
    using trim_end_prefix [of "trim_start s"] ws_head_append unfolding trim_def by metis
qed

lemma trim_idem [simp]: "trim (trim s) = trim s"
proof -
  have "ws_head (trim s) = 0"
    using trim_head [of s] by auto
  then have "trim_start (trim s) = trim s"
    by (rule trim_start_fix)
  then show ?thesis
    by (simp add: trim_def [of "trim s"]) (simp add: trim_def)
qed

lemma trim_Nil [simp]: "trim [] = []"
  by (simp add: trim_def trim_start_def trim_end_def)

subsection \<open>Case mapping\<close>

definition to_ascii_lowercase :: "string \<Rightarrow> string" where
  "to_ascii_lowercase s = map ascii_lower s"

definition to_ascii_uppercase :: "string \<Rightarrow> string" where
  "to_ascii_uppercase s = map ascii_upper s"

definition eq_ignore_ascii_case :: "string \<Rightarrow> string \<Rightarrow> bool" where
  "eq_ignore_ascii_case s t \<longleftrightarrow> to_ascii_lowercase s = to_ascii_lowercase t"

lemma to_ascii_lowercase_idem [simp]:
  "to_ascii_lowercase (to_ascii_lowercase s) = to_ascii_lowercase s"
  by (simp add: to_ascii_lowercase_def)

lemma to_ascii_uppercase_idem [simp]:
  "to_ascii_uppercase (to_ascii_uppercase s) = to_ascii_uppercase s"
  by (simp add: to_ascii_uppercase_def)

lemma case_Nil_iff [simp]:
  "to_ascii_lowercase s = [] \<longleftrightarrow> s = []" "to_ascii_uppercase s = [] \<longleftrightarrow> s = []"
  by (simp_all add: to_ascii_lowercase_def to_ascii_uppercase_def)

text \<open>White space is left alone by a case mapping, so trimming commutes with it.\<close>

lemma ws_lower [simp]:
  "ws1 (ascii_lower a) = ws1 a"
  "ws2 (ascii_lower a) (ascii_lower b) = ws2 a b"
  "ws3 (ascii_lower a) (ascii_lower b) (ascii_lower c) = ws3 a b c"
  by (auto simp: ws1_def ws2_def ws3_def code_ascii_lower)

lemma ws_head_lower [simp]: "ws_head (map ascii_lower s) = ws_head s"
  by (cases s rule: ws_head.cases) simp_all

lemma ws_tail_lower [simp]: "ws_tail (map ascii_lower s) = ws_tail s"
  by (cases s rule: ws_tail.cases) simp_all

lemma strip_map:
  assumes "\<And>s. w (map f s) = w s"
  shows "strip w (map f s) = map f (strip w s)"
proof (induction "length s" arbitrary: s rule: less_induct)
  case less
  show ?case
  proof (cases "s = [] \<or> w s = 0")
    case True
    with assms show ?thesis by (auto simp: strip_fix)
  next
    case False
    then have "strip w (drop (w s) (map f s)) = map f (strip w (drop (w s) s))"
      unfolding drop_map by (intro less) auto
    with False assms show ?thesis
      by (simp add: strip.simps [of w s] strip.simps [of w "map f s"])
  qed
qed

lemma trim_lower: "trim (to_ascii_lowercase s) = to_ascii_lowercase (trim s)"
proof -
  have "trim_start (map ascii_lower s) = map ascii_lower (trim_start s)" for s
    by (simp add: trim_start_def strip_map)
  moreover have "trim_end (map ascii_lower s) = map ascii_lower (trim_end s)" for s
    by (simp add: trim_end_def rev_map strip_map)
  ultimately show ?thesis
    by (simp add: trim_def to_ascii_lowercase_def)
qed

subsection \<open>Numbers in decimal, splitting and joining\<close>

definition i64_min :: int where "i64_min = - (2 ^ 63)"
definition i64_max :: int where "i64_max = 2 ^ 63 - 1"
definition u64_max :: int where "u64_max = 2 ^ 64 - 1"

definition in_i64 :: "int \<Rightarrow> bool" where
  "in_i64 n \<longleftrightarrow> i64_min \<le> n \<and> n \<le> i64_max"

text \<open>Arithmetic on \<open>i64\<close> as a release build does it: two's complement, wrapping;
  \<open>saturating_*\<close> is \<open>sat_i64\<close>.\<close>

definition wrap_i64 :: "int \<Rightarrow> int" where
  "wrap_i64 n = (n + 2 ^ 63) mod 2 ^ 64 - 2 ^ 63"

definition sat_i64 :: "int \<Rightarrow> int" where
  "sat_i64 n = max i64_min (min i64_max n)"

lemma wrap_i64_id: "in_i64 n \<Longrightarrow> wrap_i64 n = n"
  by (simp add: in_i64_def wrap_i64_def i64_min_def i64_max_def)

lemma wrap_i64_range [simp]: "in_i64 (wrap_i64 n)"
  by (simp add: in_i64_def wrap_i64_def i64_min_def i64_max_def)

fun digits_value :: "string \<Rightarrow> nat \<Rightarrow> nat option" where
  "digits_value [] acc = Some acc"
| "digits_value (c # s) acc =
     (if is_ascii_digit c then digits_value s (10 * acc + (code c - 48)) else None)"

text \<open>\<open>str::parse::<i64>()\<close>: an optional sign, at least one digit, no other character, in range.\<close>

definition parse_i64 :: "string \<Rightarrow> int option" where
  "parse_i64 s =
     (let neg = (case s of [] \<Rightarrow> False | c # _ \<Rightarrow> code c = 45);
          ds = (case s of [] \<Rightarrow> [] | c # r \<Rightarrow> if code c = 45 \<or> code c = 43 then r else s)
      in if ds = [] then None
         else case digits_value ds 0 of
                None \<Rightarrow> None
              | Some n \<Rightarrow>
                  (let v = (if neg then - int n else int n)
                   in if in_i64 v then Some v else None))"

fun show_nat :: "nat \<Rightarrow> string" where
  "show_nat n = (if n < 10 then [char_of (48 + n)] else show_nat (n div 10) @ [char_of (48 + n mod 10)])"

declare show_nat.simps [simp del]

definition show_int :: "int \<Rightarrow> string" where
  "show_int n = (if n < 0 then CHR ''-'' # show_nat (nat (- n)) else show_nat (nat n))"

fun split_on :: "char \<Rightarrow> string \<Rightarrow> string list" where
  "split_on d [] = [[]]"
| "split_on d (c # s) =
     (if c = d then [] # split_on d s
      else case split_on d s of [] \<Rightarrow> [[c]] | p # ps \<Rightarrow> (c # p) # ps)"

fun join :: "string \<Rightarrow> string list \<Rightarrow> string" where
  "join sep [] = []"
| "join sep [x] = x"
| "join sep (x # y # ys) = x @ sep @ join sep (y # ys)"

definition char_count :: "string \<Rightarrow> nat" where
  "char_count s = length (filter (\<lambda>c. \<not> is_continuation c) s)"

definition quoted :: "string \<Rightarrow> string" where
  "quoted s = CHR 0x27 # s @ [CHR 0x27]"

lemma split_on_not_Nil [simp]: "split_on d s \<noteq> []"
  by (cases s) (auto split: list.splits)

lemma parse_i64_range: "parse_i64 s = Some v \<Longrightarrow> in_i64 v"
  by (auto simp: parse_i64_def Let_def split: if_splits option.splits)

end
