(* ===== verification/Args.thy ===== *)
theory Args
  imports Doubles
begin

text \<open>
  The error type of the core, JSON values, and the functions that read a command's arguments
  (\<open>crates/r3akt-rch-core/src/lib.rs\<close>, \<open>RchCoreError\<close> and the helpers from
  \<open>value_as_str\<close> to \<open>normalize_enum\<close>).

  \<open>serde_json::Value\<close> is the datatype \<open>json\<close>: an integer of the \<open>i64\<close> or
  \<open>u64\<close> range is \<open>JInt\<close>, any other number \<open>JFloat\<close>; an object is its list
  of members with distinct keys.

  The record \<open>host\<close> holds what the code takes from outside \<open>src/\<close>: the clock
  (chrono), the v4 UUIDs and the UUID parser (uuid), RFC 3339 formatting and parsing (chrono), the
  text serde_json writes for a double, the announce window of the shared mesh delivery crate, the
  base64 decoder (base64) and the CSV reader (csv: the error text or the records).
  Every definition that needs one takes the host as an argument; the clock is read once per
  operation.
\<close>

subsection \<open>Errors\<close>

datatype core_error =
    Delivery string
  | InvalidPayload string
  | Forbidden string
  | TopicNotFound
  | MissionNotFound
  | TeamNotFound
  | TeamMemberNotFound
  | AssetNotFound
  | SkillNotFound
  | AssignmentNotFound
  | EamNotFound
  | UnsupportedCommand string
  | EncodeError string
  | DecodeError string
  | SqliteError string

type_synonym 'a result = "core_error + 'a"

text \<open>The text of an error, as derived by \<open>#[error(...)]\<close>.\<close>

fun error_text :: "core_error \<Rightarrow> string" where
  "error_text (Delivery m) = ''delivery contract violation: '' @ m"
| "error_text (InvalidPayload m) = ''invalid command payload: '' @ m"
| "error_text (Forbidden m) = ''forbidden: '' @ m"
| "error_text TopicNotFound = ''topic not found''"
| "error_text MissionNotFound = ''mission not found''"
| "error_text TeamNotFound = ''team not found''"
| "error_text TeamMemberNotFound = ''team member not found''"
| "error_text AssetNotFound = ''asset not found''"
| "error_text SkillNotFound = ''skill not found''"
| "error_text AssignmentNotFound = ''assignment not found''"
| "error_text EamNotFound = ''emergency action message not found''"
| "error_text (UnsupportedCommand c) = ''unsupported command: '' @ c"
| "error_text (EncodeError m) = ''RCH state encode failed: '' @ m"
| "error_text (DecodeError m) = ''RCH state decode failed: '' @ m"
| "error_text (SqliteError m) = ''sqlite operation failed: '' @ m"

fun reason_code :: "core_error \<Rightarrow> string" where
  "reason_code (Delivery _) = ''invalid_payload''"
| "reason_code (InvalidPayload _) = ''invalid_payload''"
| "reason_code (Forbidden _) = ''forbidden''"
| "reason_code TopicNotFound = ''not_found''"
| "reason_code MissionNotFound = ''not_found''"
| "reason_code TeamNotFound = ''not_found''"
| "reason_code TeamMemberNotFound = ''not_found''"
| "reason_code AssetNotFound = ''not_found''"
| "reason_code SkillNotFound = ''not_found''"
| "reason_code AssignmentNotFound = ''not_found''"
| "reason_code EamNotFound = ''not_found''"
| "reason_code (UnsupportedCommand _) = ''unknown_command''"
| "reason_code (EncodeError _) = ''internal_error''"
| "reason_code (DecodeError _) = ''internal_error''"
| "reason_code (SqliteError _) = ''internal_error''"

subsection \<open>JSON values\<close>

datatype json =
    JNull
  | JBool bool
  | JInt int
  | JFloat f64
  | JStr string
  | JArr "json list"
  | JObj "(string \<times> json) list"

record host =
  utc_now_ms :: int
  utc_now_rfc3339 :: string
  uuid_v4 :: "nat \<Rightarrow> string"
  uuid_parse :: "string \<Rightarrow> string option"
  millis_to_rfc3339 :: "int \<Rightarrow> string"
  parse_rfc3339 :: "string \<Rightarrow> int option"
  f64_text :: "f64 \<Rightarrow> string"
  recent_announce_window_ms :: int
  base64_decode :: "string \<Rightarrow> string option"
  csv_records :: "string \<Rightarrow> string + string list list"

fun as_object :: "json \<Rightarrow> (string \<times> json) list option" where
  "as_object (JObj ms) = Some ms"
| "as_object _ = None"

fun as_array :: "json \<Rightarrow> json list option" where
  "as_array (JArr xs) = Some xs"
| "as_array _ = None"

fun as_str :: "json \<Rightarrow> string option" where
  "as_str (JStr s) = Some s"
| "as_str _ = None"

fun as_bool :: "json \<Rightarrow> bool option" where
  "as_bool (JBool b) = Some b"
| "as_bool _ = None"

fun as_i64 :: "json \<Rightarrow> int option" where
  "as_i64 (JInt n) = (if in_i64 n then Some n else None)"
| "as_i64 _ = None"

fun as_f64 :: "json \<Rightarrow> f64 option" where
  "as_f64 (JInt n) = Some (f64_of_int n)"
| "as_f64 (JFloat x) = Some x"
| "as_f64 _ = None"

definition is_object :: "json \<Rightarrow> bool" where
  "is_object v \<longleftrightarrow> as_object v \<noteq> None"

definition jget :: "json \<Rightarrow> string \<Rightarrow> json option" where
  "jget v k = (case as_object v of None \<Rightarrow> None | Some ms \<Rightarrow> map_of ms k)"

text \<open>\<open>args.as_object().is_some_and(|object| object.contains_key(key))\<close>\<close>

definition has_key :: "json \<Rightarrow> string \<Rightarrow> bool" where
  "has_key v k \<longleftrightarrow> jget v k \<noteq> None"

definition jopt :: "string option \<Rightarrow> json" where
  "jopt x = (case x of None \<Rightarrow> JNull | Some s \<Rightarrow> JStr s)"

definition jopt_int :: "int option \<Rightarrow> json" where
  "jopt_int x = (case x of None \<Rightarrow> JNull | Some n \<Rightarrow> JInt n)"

definition jstrs :: "string list \<Rightarrow> json" where
  "jstrs xs = JArr (map JStr xs)"

text \<open>A double as a JSON value: \<open>serde_json\<close> writes a non-finite one as null.\<close>

definition jf64 :: "f64 \<Rightarrow> json" where
  "jf64 x = (case x of Fin _ \<Rightarrow> JFloat x | _ \<Rightarrow> JNull)"

lemma as_i64_range: "as_i64 v = Some n \<Longrightarrow> in_i64 n"
  by (cases v) (auto split: if_splits)

subsection \<open>Reading arguments\<close>

fun value_as_str :: "host \<Rightarrow> json \<Rightarrow> string option" where
  "value_as_str h (JStr s) = Some s"
| "value_as_str h (JInt n) = Some (show_int n)"
| "value_as_str h (JFloat x) = Some (f64_text h x)"
| "value_as_str h (JBool b) = Some (if b then ''true'' else ''false'')"
| "value_as_str h JNull = None"
| "value_as_str h (JArr _) = None"
| "value_as_str h (JObj _) = None"

definition value_as_i64 :: "json \<Rightarrow> int option" where
  "value_as_i64 v =
     or_else (as_i64 v) (case as_str v of None \<Rightarrow> None | Some t \<Rightarrow> parse_i64 t)"

definition value_as_f64 :: "json \<Rightarrow> f64 option" where
  "value_as_f64 v =
     or_else (as_f64 v) (case as_str v of None \<Rightarrow> None | Some t \<Rightarrow> f64_parse t)"

definition lookup_text :: "host \<Rightarrow> json \<Rightarrow> string list \<Rightarrow> string option" where
  "lookup_text h args keys =
     (case as_object args of
        None \<Rightarrow> None
      | Some object \<Rightarrow>
          map_option trim
            (find_map (\<lambda>key. case map_of object key of None \<Rightarrow> None | Some v \<Rightarrow> value_as_str h v) keys))"

definition optional_text :: "host \<Rightarrow> json \<Rightarrow> string list \<Rightarrow> string option" where
  "optional_text h args keys = filter_opt (\<lambda>value. value \<noteq> []) (lookup_text h args keys)"

definition optional_text_or_empty :: "host \<Rightarrow> json \<Rightarrow> string list \<Rightarrow> string option" where
  "optional_text_or_empty h args keys = lookup_text h args keys"

definition required_text :: "host \<Rightarrow> json \<Rightarrow> string list \<Rightarrow> string result" where
  "required_text h args keys =
     ok_or (filter_opt (\<lambda>value. trim value \<noteq> []) (optional_text h args keys))
       (InvalidPayload (hd keys @ '' is required''))"

definition required_non_empty :: "string \<Rightarrow> string \<Rightarrow> string result" where
  "required_non_empty value field_name =
     (let value = trim value
      in if value = [] then Inl (InvalidPayload (field_name @ '' is required'')) else Inr value)"

definition none_if_empty :: "string \<Rightarrow> string option" where
  "none_if_empty value = (if trim value = [] then None else Some value)"

definition optional_bool :: "json \<Rightarrow> string \<Rightarrow> bool option" where
  "optional_bool args key =
     (case jget args key of
        None \<Rightarrow> None
      | Some value \<Rightarrow>
          or_else (as_bool value)
            (map_option (\<lambda>text. text \<in> {''true'', ''1'', ''yes''}) (as_str value)))"

definition optional_i64 :: "json \<Rightarrow> string \<Rightarrow> int option result" where
  "optional_i64 args key =
     (case jget args key of
        None \<Rightarrow> Inr None
      | Some value \<Rightarrow>
          if value = JNull then Inr None
          else ok_or (map_option Some (value_as_i64 value))
                 (InvalidPayload (key @ '' must be an integer'')))"

definition optional_f64 :: "json \<Rightarrow> string \<Rightarrow> f64 option result" where
  "optional_f64 args key =
     (case jget args key of
        None \<Rightarrow> Inr None
      | Some value \<Rightarrow>
          if value = JNull then Inr None
          else ok_or (map_option Some (value_as_f64 value))
                 (InvalidPayload (key @ '' must be numeric'')))"

definition required_f64 :: "json \<Rightarrow> string \<Rightarrow> f64 result" where
  "required_f64 args key =
     and_then (ok_or (as_object args) (InvalidPayload (key @ '' is required''))) (\<lambda>object.
     ok_or (case map_of object key of None \<Rightarrow> None | Some v \<Rightarrow> value_as_f64 v)
       (InvalidPayload (key @ '' is required and must be numeric'')))"

definition optional_timestamp_ms :: "host \<Rightarrow> json \<Rightarrow> string list \<Rightarrow> int option result" where
  "optional_timestamp_ms h args keys =
     (case find_map (jget args) keys of
        None \<Rightarrow> Inr None
      | Some value \<Rightarrow>
          if value = JNull then Inr None
          else case value_as_i64 value of
            Some timestamp \<Rightarrow>
              Inr (Some (if timestamp < 10000000000 then wrap_i64 (timestamp * 1000) else timestamp))
          | None \<Rightarrow>
              (case as_str value of
                 None \<Rightarrow> Inl (InvalidPayload ''timestamp must be RFC3339 or Unix time'')
               | Some text \<Rightarrow>
                   (case parse_rfc3339 h text of
                      Some secs \<Rightarrow> Inr (Some (wrap_i64 (secs * 1000)))
                    | None \<Rightarrow> Inl (InvalidPayload ''timestamp must be RFC3339''))))"

definition string_item :: "host \<Rightarrow> string \<Rightarrow> json \<Rightarrow> string result" where
  "string_item h field_name item =
     ok_or (filter_opt (\<lambda>value. value \<noteq> []) (map_option trim (value_as_str h item)))
       (InvalidPayload (field_name @ '' must contain strings''))"

definition string_list :: "host \<Rightarrow> json option \<Rightarrow> string \<Rightarrow> string list result" where
  "string_list h value field_name =
     (case value of
        None \<Rightarrow> Inr []
      | Some v \<Rightarrow>
         (case v of
            JNull \<Rightarrow> Inr []
          | JArr items \<Rightarrow> collect_results (map (string_item h field_name) items)
          | JStr text \<Rightarrow> Inr (filter (\<lambda>item. item \<noteq> []) (map trim (split_on (CHR '','') text)))
          | _ \<Rightarrow> Inl (InvalidPayload (field_name @ '' must be a list of strings''))))"

fun dedupe_loop :: "string list \<Rightarrow> string list \<Rightarrow> string list" where
  "dedupe_loop normalized [] = normalized"
| "dedupe_loop normalized (value # values) =
     (let value = trim value
      in if value \<noteq> [] \<and> value \<notin> set normalized
         then dedupe_loop (normalized @ [value]) values
         else dedupe_loop normalized values)"

definition dedupe_non_empty :: "string list \<Rightarrow> string list" where
  "dedupe_non_empty values = dedupe_loop [] values"

definition normalize_enum :: "string \<Rightarrow> string \<Rightarrow> string list \<Rightarrow> string result" where
  "normalize_enum value field_name allowed_values =
     (let value = to_ascii_uppercase (trim value)
      in if value = [] then Inr []
         else if value \<in> set allowed_values then Inr value
         else Inl (InvalidPayload (field_name @ '' must be one of: '' @ join '', '' allowed_values)))"

subsection \<open>What the readers return\<close>

lemma lookup_text_trimmed: "lookup_text h args keys = Some t \<Longrightarrow> trim t = t"
  by (auto simp: lookup_text_def split: option.splits)

lemma optional_text_trimmed:
  "optional_text h args keys = Some t \<Longrightarrow> trim t = t \<and> t \<noteq> []"
  by (auto simp: optional_text_def filter_opt_eq_Some dest: lookup_text_trimmed)

lemma required_text_Inr: "required_text h args keys = Inr t \<longleftrightarrow> optional_text h args keys = Some t"
  by (auto simp: required_text_def result_eqs filter_opt_eq_Some dest: optional_text_trimmed)

lemma required_text_Inl:
  "required_text h args keys = Inl e \<longleftrightarrow>
     optional_text h args keys = None \<and> e = InvalidPayload (hd keys @ '' is required'')"
  by (cases "optional_text h args keys")
     (auto simp: required_text_def result_eqs dest: optional_text_trimmed)

lemma required_non_empty_Inr:
  "required_non_empty v f = Inr t \<longleftrightarrow> t = trim v \<and> trim v \<noteq> []"
  by (auto simp: required_non_empty_def Let_def)

lemma none_if_empty_Some: "none_if_empty v = Some t \<longleftrightarrow> t = v \<and> trim v \<noteq> []"
  by (auto simp: none_if_empty_def)

lemma value_as_i64_range: "value_as_i64 v = Some n \<Longrightarrow> in_i64 n"
  by (auto simp: value_as_i64_def or_else_eq_Some
           dest: as_i64_range parse_i64_range split: option.splits)

lemma optional_i64_range: "optional_i64 args key = Inr (Some n) \<Longrightarrow> in_i64 n"
  by (auto simp: optional_i64_def result_eqs dest: value_as_i64_range split: option.splits if_splits)

lemma optional_timestamp_ms_range:
  assumes "optional_timestamp_ms h args keys = Inr (Some n)"
  shows "in_i64 n"
  using assms unfolding optional_timestamp_ms_def
  by (auto dest: value_as_i64_range split: option.splits if_splits)

lemma dedupe_loop_distinct: "distinct acc \<Longrightarrow> distinct (dedupe_loop acc vs)"
  by (induction acc vs rule: dedupe_loop.induct) (auto simp: Let_def)

lemma dedupe_loop_set: "set (dedupe_loop acc vs) = set acc \<union> (trim ` set vs - {[]})"
  by (induction acc vs rule: dedupe_loop.induct) (auto simp: Let_def)

lemma dedupe_distinct [simp]: "distinct (dedupe_non_empty vs)"
  by (simp add: dedupe_non_empty_def dedupe_loop_distinct)

lemma dedupe_set: "set (dedupe_non_empty vs) = trim ` set vs - {[]}"
  by (simp add: dedupe_non_empty_def dedupe_loop_set)

lemma dedupe_loop_fix:
  "distinct (acc @ vs) \<Longrightarrow> \<forall>v \<in> set vs. trim v = v \<and> v \<noteq> [] \<Longrightarrow> dedupe_loop acc vs = acc @ vs"
  by (induction acc vs rule: dedupe_loop.induct) (auto simp: Let_def)

lemma dedupe_idem [simp]: "dedupe_non_empty (dedupe_non_empty vs) = dedupe_non_empty vs"
  unfolding dedupe_non_empty_def [of "dedupe_non_empty vs"]
  by (subst dedupe_loop_fix) (auto simp: dedupe_set)

lemma string_list_items:
  assumes "string_list h v f = Inr xs" and "x \<in> set xs"
  shows "trim x = x \<and> x \<noteq> []"
proof -
  have arr: "trim x = x \<and> x \<noteq> []" if "collect_results (map (string_item h f) items) = Inr xs" for items
  proof -
    from collect_results_item [OF that assms(2)] obtain item where "string_item h f item = Inr x"
      by blast
    then show ?thesis
      by (auto simp: string_item_def result_eqs filter_opt_eq_Some)
  qed
  show ?thesis
  proof (cases v)
    case None
    with assms show ?thesis by (simp add: string_list_def)
  next
    case (Some w)
    show ?thesis
    proof (cases w)
      case (JArr items)
      with assms(1) Some have "collect_results (map (string_item h f) items) = Inr xs"
        by (simp add: string_list_def)
      then show ?thesis by (rule arr)
    qed (use assms Some in \<open>auto simp: string_list_def\<close>)
  qed
qed

lemma normalize_enum_Inr:
  "normalize_enum v f allowed = Inr t \<Longrightarrow> t = [] \<or> t \<in> set allowed"
  by (auto simp: normalize_enum_def Let_def split: if_splits)

lemma normalize_enum_non_empty:
  "normalize_enum v f allowed = Inr t \<Longrightarrow> trim v \<noteq> [] \<Longrightarrow> t \<in> set allowed"
  by (auto simp: normalize_enum_def Let_def split: if_splits)

end
