(* ===== verification/Normalize.thy ===== *)
theory Normalize
  imports Args
begin

text \<open>
  Canonical forms: the role operation lists, the enumerations of the domain, the identifiers
  (identity hashes, topic ids, message ids, subscriber keys) and the canonical teams
  (\<open>crates/r3akt-rch-core/src/lib.rs\<close>, the constants and the \<open>normalize_*\<close> functions).
  The lemmas show that a normal form is a fixed point of its normalizer and that an accepted
  value lies in its enumeration.
\<close>

subsection \<open>The operations of the roles\<close>

definition ROLE_FIELD_OPERATOR :: string where
  "ROLE_FIELD_OPERATOR = ''FIELD_OPERATOR''"

definition ROLE_TEAM_LEAD :: string where
  "ROLE_TEAM_LEAD = ''TEAM_LEAD''"

definition ROLE_INCIDENT_COMMANDER :: string where
  "ROLE_INCIDENT_COMMANDER = ''INCIDENT_COMMANDER''"

definition ROLE_LOGISTICS_RESOURCE_MANAGER :: string where
  "ROLE_LOGISTICS_RESOURCE_MANAGER = ''LOGISTICS_RESOURCE_MANAGER''"

definition ROLE_COMMUNICATIONS_OPERATOR :: string where
  "ROLE_COMMUNICATIONS_OPERATOR = ''COMMUNICATIONS_OPERATOR''"

definition ROLE_SYSTEM_ADMIN :: string where
  "ROLE_SYSTEM_ADMIN = ''SYSTEM_ADMIN''"

definition DEFAULT_LOG_MISSION_UID :: string where
  "DEFAULT_LOG_MISSION_UID = ''mission-default''"

definition MISSION_READONLY_OPERATION_LIST :: "string list" where
  "MISSION_READONLY_OPERATION_LIST =
     [''checklist.join'',
      ''checklist.read'',
      ''mission.audit.read'',
      ''mission.content.read'',
      ''mission.join'',
      ''mission.leave'',
      ''mission.pause'',
      ''mission.resume'',
      ''mission.nick'',
      ''mission.users'',
      ''mission.registry.asset.read'',
      ''mission.registry.assignment.read'',
      ''mission.registry.log.read'',
      ''mission.registry.mission.read'',
      ''mission.registry.skill.read'',
      ''mission.registry.status.read'',
      ''mission.registry.team.read'',
      ''mission.zone.read'',
      ''topic.read'']"

definition MISSION_WRITE_OPERATION_LIST :: "string list" where
  "MISSION_WRITE_OPERATION_LIST =
     [''checklist.feed.publish'',
      ''checklist.join'',
      ''checklist.read'',
      ''checklist.upload'',
      ''checklist.write'',
      ''mission.audit.read'',
      ''mission.content.read'',
      ''mission.content.write'',
      ''mission.join'',
      ''mission.leave'',
      ''mission.pause'',
      ''mission.resume'',
      ''mission.nick'',
      ''mission.users'',
      ''mission.message.send'',
      ''mission.registry.assignment.read'',
      ''mission.registry.assignment.write'',
      ''mission.registry.asset.read'',
      ''mission.registry.log.read'',
      ''mission.registry.log.write'',
      ''mission.registry.mission.read'',
      ''mission.registry.skill.read'',
      ''mission.registry.status.read'',
      ''mission.registry.status.write'',
      ''mission.registry.team.read'',
      ''mission.zone.read'',
      ''mission.zone.write'',
      ''topic.read'',
      ''topic.subscribe'']"

definition MISSION_OWNER_OPERATION_LIST :: "string list" where
  "MISSION_OWNER_OPERATION_LIST =
     [''checklist.feed.publish'',
      ''checklist.join'',
      ''checklist.read'',
      ''checklist.upload'',
      ''checklist.write'',
      ''mission.audit.read'',
      ''mission.content.read'',
      ''mission.content.write'',
      ''mission.join'',
      ''mission.leave'',
      ''mission.pause'',
      ''mission.resume'',
      ''mission.nick'',
      ''mission.users'',
      ''mission.message.send'',
      ''mission.registry.asset.read'',
      ''mission.registry.asset.write'',
      ''mission.registry.assignment.read'',
      ''mission.registry.assignment.write'',
      ''mission.registry.log.read'',
      ''mission.registry.log.write'',
      ''mission.registry.mission.read'',
      ''mission.registry.mission.write'',
      ''mission.registry.skill.read'',
      ''mission.registry.skill.write'',
      ''mission.registry.status.read'',
      ''mission.registry.status.write'',
      ''mission.registry.team.read'',
      ''mission.registry.team.write'',
      ''mission.zone.delete'',
      ''mission.zone.read'',
      ''mission.zone.write'',
      ''topic.create'',
      ''topic.delete'',
      ''topic.read'',
      ''topic.subscribe'',
      ''topic.write'']"

definition FIELD_OPERATOR_OPERATION_LIST :: "string list" where
  "FIELD_OPERATOR_OPERATION_LIST =
     [''checklist.join'',
      ''checklist.read'',
      ''checklist.write'',
      ''emergency.alert.send'',
      ''mission.content.read'',
      ''mission.join'',
      ''mission.leave'',
      ''mission.message.send'',
      ''mission.registry.assignment.read'',
      ''mission.registry.assignment.write'',
      ''mission.registry.status.read'',
      ''mission.registry.status.write'',
      ''mission.zone.read'',
      ''topic.read'',
      ''topic.subscribe'']"

definition TEAM_LEAD_OPERATION_LIST :: "string list" where
  "TEAM_LEAD_OPERATION_LIST =
     [''checklist.feed.publish'',
      ''checklist.join'',
      ''checklist.read'',
      ''checklist.upload'',
      ''checklist.write'',
      ''emergency.alert.send'',
      ''mission.audit.read'',
      ''mission.content.read'',
      ''mission.content.write'',
      ''mission.join'',
      ''mission.leave'',
      ''mission.message.send'',
      ''mission.registry.assignment.read'',
      ''mission.registry.assignment.write'',
      ''mission.registry.status.read'',
      ''mission.registry.status.write'',
      ''mission.registry.team.read'',
      ''mission.zone.read'',
      ''mission.zone.write'',
      ''topic.read'',
      ''topic.subscribe'']"

definition INCIDENT_COMMANDER_OPERATION_LIST :: "string list" where
  "INCIDENT_COMMANDER_OPERATION_LIST =
     [''checklist.feed.publish'',
      ''checklist.join'',
      ''checklist.read'',
      ''checklist.template.read'',
      ''checklist.upload'',
      ''checklist.write'',
      ''emergency.alert.send'',
      ''mission.audit.read'',
      ''mission.content.read'',
      ''mission.content.write'',
      ''mission.join'',
      ''mission.leave'',
      ''mission.message.send'',
      ''mission.registry.asset.read'',
      ''mission.registry.asset.write'',
      ''mission.registry.assignment.read'',
      ''mission.registry.assignment.write'',
      ''mission.registry.log.read'',
      ''mission.registry.log.write'',
      ''mission.registry.mission.read'',
      ''mission.registry.mission.write'',
      ''mission.registry.skill.read'',
      ''mission.registry.skill.write'',
      ''mission.registry.status.read'',
      ''mission.registry.status.write'',
      ''mission.registry.team.read'',
      ''mission.registry.team.write'',
      ''mission.zone.delete'',
      ''mission.zone.read'',
      ''mission.zone.write'',
      ''topic.create'',
      ''topic.delete'',
      ''topic.read'',
      ''topic.subscribe'',
      ''topic.write'']"

definition LOGISTICS_RESOURCE_MANAGER_OPERATION_LIST :: "string list" where
  "LOGISTICS_RESOURCE_MANAGER_OPERATION_LIST =
     [''checklist.join'',
      ''checklist.read'',
      ''checklist.upload'',
      ''checklist.write'',
      ''mission.audit.read'',
      ''mission.content.read'',
      ''mission.join'',
      ''mission.leave'',
      ''mission.message.send'',
      ''mission.registry.asset.read'',
      ''mission.registry.asset.write'',
      ''mission.registry.assignment.read'',
      ''mission.registry.assignment.write'',
      ''mission.registry.log.read'',
      ''mission.registry.log.write'',
      ''mission.registry.skill.read'',
      ''mission.registry.status.read'',
      ''mission.registry.status.write'',
      ''mission.registry.team.read'',
      ''mission.zone.read'',
      ''topic.read'',
      ''topic.subscribe'']"

definition COMMUNICATIONS_OPERATOR_OPERATION_LIST :: "string list" where
  "COMMUNICATIONS_OPERATOR_OPERATION_LIST =
     [''diagnostics.network.read'',
      ''mission.audit.read'',
      ''mission.content.read'',
      ''mission.join'',
      ''mission.leave'',
      ''mission.message.send'',
      ''mission.registry.log.read'',
      ''mission.registry.log.write'',
      ''mission.registry.status.read'',
      ''mission.registry.status.write'',
      ''mission.registry.team.read'',
      ''runtime.delivery.read'',
      ''runtime.node.read'',
      ''runtime.routing.read'',
      ''topic.create'',
      ''topic.delete'',
      ''topic.read'',
      ''topic.subscribe'',
      ''topic.write'']"

definition SYSTEM_ADMIN_OPERATION_LIST :: "string list" where
  "SYSTEM_ADMIN_OPERATION_LIST =
     [''admin.backup.write'',
      ''admin.config.write'',
      ''admin.enrollment.write'',
      ''admin.identity.revoke'',
      ''diagnostics.network.read'',
      ''mission.audit.read'',
      ''mission.registry.log.read'',
      ''mission.registry.mission.read'',
      ''mission.registry.status.read'',
      ''mission.registry.team.read'',
      ''mission.registry.team.write'',
      ''r3akt'',
      ''runtime.delivery.read'',
      ''runtime.node.read'',
      ''runtime.routing.read'']"

text \<open>A role bundle: its role, the scopes it may be given in, and its operations.\<close>

record role_bundle =
  rb_role :: string
  rb_scope_types :: "string list"
  rb_operations :: "string list"

definition RCH_ROLE_BUNDLES :: "role_bundle list" where
  "RCH_ROLE_BUNDLES =
     [\<lparr>rb_role = ROLE_FIELD_OPERATOR, rb_scope_types = [''mission''],
       rb_operations = FIELD_OPERATOR_OPERATION_LIST\<rparr>,
      \<lparr>rb_role = ROLE_TEAM_LEAD, rb_scope_types = [''mission''],
       rb_operations = TEAM_LEAD_OPERATION_LIST\<rparr>,
      \<lparr>rb_role = ROLE_INCIDENT_COMMANDER, rb_scope_types = [''mission''],
       rb_operations = INCIDENT_COMMANDER_OPERATION_LIST\<rparr>,
      \<lparr>rb_role = ROLE_LOGISTICS_RESOURCE_MANAGER, rb_scope_types = [''mission''],
       rb_operations = LOGISTICS_RESOURCE_MANAGER_OPERATION_LIST\<rparr>,
      \<lparr>rb_role = ROLE_COMMUNICATIONS_OPERATOR, rb_scope_types = [''global'', ''mission''],
       rb_operations = COMMUNICATIONS_OPERATOR_OPERATION_LIST\<rparr>,
      \<lparr>rb_role = ROLE_SYSTEM_ADMIN, rb_scope_types = [''global''],
       rb_operations = SYSTEM_ADMIN_OPERATION_LIST\<rparr>]"

definition rch_operation_definitions :: "string list" where
  "rch_operation_definitions =
     remdups_adj (sort
       ([''checklist.feed.publish'',
        ''checklist.join'',
        ''checklist.read'',
        ''checklist.template.delete'',
        ''checklist.template.read'',
        ''checklist.template.write'',
        ''checklist.upload'',
        ''checklist.write'',
        ''emergency.alert.send'',
        ''mission.audit.read'',
        ''mission.content.read'',
        ''mission.content.write'',
        ''mission.join'',
        ''mission.leave'',
        ''mission.message.send'',
        ''mission.registry.asset.read'',
        ''mission.registry.asset.write'',
        ''mission.registry.assignment.read'',
        ''mission.registry.assignment.write'',
        ''mission.registry.log.read'',
        ''mission.registry.log.write'',
        ''mission.registry.mission.read'',
        ''mission.registry.mission.write'',
        ''mission.registry.skill.read'',
        ''mission.registry.skill.write'',
        ''mission.registry.status.read'',
        ''mission.registry.status.write'',
        ''mission.registry.team.read'',
        ''mission.registry.team.write'',
        ''mission.zone.delete'',
        ''mission.zone.read'',
        ''mission.zone.write'',
        ''r3akt'',
        ''topic.create'',
        ''topic.delete'',
        ''topic.read'',
        ''topic.subscribe'',
        ''topic.write'',
        ''admin.backup.write'',
        ''admin.config.write'',
        ''admin.enrollment.write'',
        ''admin.identity.revoke'',
        ''diagnostics.network.read'',
        ''runtime.delivery.read'',
        ''runtime.node.read'',
        ''runtime.routing.read'']
        @ concat (map rb_operations RCH_ROLE_BUNDLES)))"

definition rch_mission_role_bundle_definitions :: "(string \<times> string list) list" where
  "rch_mission_role_bundle_definitions =
     fold (\<lambda>bundle bundles.
             if ''mission'' \<in> set (rb_scope_types bundle)
             then hm_insert (rb_role bundle) (rb_operations bundle) bundles else bundles)
       RCH_ROLE_BUNDLES
       (hm_insert ''MISSION_OWNER'' MISSION_OWNER_OPERATION_LIST
         (hm_insert ''MISSION_SUBSCRIBER'' MISSION_WRITE_OPERATION_LIST
           (hm_insert ''MISSION_READONLY_SUBSCRIBER'' MISSION_READONLY_OPERATION_LIST [])))"

definition mission_role_operations :: "string \<Rightarrow> string list" where
  "mission_role_operations role =
     (if role = ''MISSION_OWNER'' then MISSION_OWNER_OPERATION_LIST
      else if role = ''MISSION_SUBSCRIBER'' then MISSION_WRITE_OPERATION_LIST
      else if role = ''MISSION_READONLY_SUBSCRIBER'' then MISSION_READONLY_OPERATION_LIST
      else if role = ROLE_FIELD_OPERATOR then FIELD_OPERATOR_OPERATION_LIST
      else if role = ROLE_TEAM_LEAD then TEAM_LEAD_OPERATION_LIST
      else if role = ROLE_INCIDENT_COMMANDER then INCIDENT_COMMANDER_OPERATION_LIST
      else if role = ROLE_LOGISTICS_RESOURCE_MANAGER then LOGISTICS_RESOURCE_MANAGER_OPERATION_LIST
      else if role = ROLE_COMMUNICATIONS_OPERATOR then COMMUNICATIONS_OPERATOR_OPERATION_LIST
      else if role = ROLE_SYSTEM_ADMIN then SYSTEM_ADMIN_OPERATION_LIST
      else [])"

subsection \<open>The enumerations\<close>

definition mission_roles :: "string list" where
  "mission_roles =
     [''MISSION_OWNER'', ''MISSION_SUBSCRIBER'', ''MISSION_READONLY_SUBSCRIBER'',
      ROLE_FIELD_OPERATOR, ROLE_TEAM_LEAD, ROLE_INCIDENT_COMMANDER,
      ROLE_LOGISTICS_RESOURCE_MANAGER, ROLE_COMMUNICATIONS_OPERATOR, ROLE_SYSTEM_ADMIN]"

definition normalize_mission_role :: "string \<Rightarrow> string \<Rightarrow> string result" where
  "normalize_mission_role value field_name = normalize_enum value field_name mission_roles"

definition mission_statuses :: "string list" where
  "mission_statuses =
     [''MISSION_ACTIVE'', ''MISSION_PENDING'', ''MISSION_DELETED'',
      ''MISSION_COMPLETED_SUCCESS'', ''MISSION_COMPLETED_FAILED'']"

definition normalize_mission_status :: "string option \<Rightarrow> string result" where
  "normalize_mission_status value =
     normalize_enum (unwrap_or value ''MISSION_ACTIVE'') ''mission_status'' mission_statuses"

definition team_colors :: "string list" where
  "team_colors =
     [''YELLOW'', ''RED'', ''BLUE'', ''ORANGE'', ''MAGENTA'', ''MAROON'', ''PURPLE'',
      ''DARK_BLUE'', ''CYAN'', ''TEAL'', ''GREEN'', ''DARK_GREEN'', ''BROWN'']"

definition normalize_team_color :: "string \<Rightarrow> string result" where
  "normalize_team_color value = normalize_enum value ''color'' team_colors"

definition team_roles :: "string list" where
  "team_roles =
     [''TEAM_MEMBER'', ''TEAM_LEAD'', ROLE_FIELD_OPERATOR, ROLE_INCIDENT_COMMANDER,
      ROLE_LOGISTICS_RESOURCE_MANAGER, ROLE_COMMUNICATIONS_OPERATOR, ROLE_SYSTEM_ADMIN,
      ''HQ'', ''SNIPER'', ''MEDIC'', ''FORWARD_OBSERVER'', ''RTO'', ''K9'']"

definition normalize_team_role :: "string \<Rightarrow> string result" where
  "normalize_team_role value = normalize_enum value ''role'' team_roles"

definition asset_statuses :: "string list" where
  "asset_statuses = [''AVAILABLE'', ''IN_USE'', ''LOST'', ''MAINTENANCE'', ''RETIRED'']"

definition normalize_asset_status :: "string \<Rightarrow> string result" where
  "normalize_asset_status value = normalize_enum value ''status'' asset_statuses"

definition task_statuses :: "string list" where
  "task_statuses = [''PENDING'', ''COMPLETE'', ''COMPLETE_LATE'', ''LATE'']"

definition normalize_task_status :: "string \<Rightarrow> string result" where
  "normalize_task_status value = normalize_enum value ''status'' task_statuses"

definition normalize_skill_level :: "int \<Rightarrow> string \<Rightarrow> int result" where
  "normalize_skill_level value field_name =
     (if 0 \<le> value \<and> value \<le> 10 then Inr value
      else Inl (InvalidPayload (field_name @ '' must be between 0 and 10'')))"

definition normalize_checklist_mode :: "string \<Rightarrow> string result" where
  "normalize_checklist_mode value = normalize_enum value ''mode'' [''ONLINE'', ''OFFLINE'']"

definition normalize_checklist_sync_state :: "string \<Rightarrow> string result" where
  "normalize_checklist_sync_state value =
     normalize_enum value ''sync_state'' [''LOCAL_ONLY'', ''UPLOAD_PENDING'', ''SYNCED'']"

definition normalize_checklist_origin :: "string \<Rightarrow> string result" where
  "normalize_checklist_origin value =
     normalize_enum value ''origin_type'' [''BLANK_TEMPLATE'', ''RCH_TEMPLATE'', ''CSV_IMPORT'']"

definition normalize_checklist_column_type :: "string \<Rightarrow> string result" where
  "normalize_checklist_column_type value =
     normalize_enum value ''column_type''
       [''SHORT_STRING'', ''LONG_STRING'', ''RELATIVE_TIME'', ''CHECKBOX'']"

definition normalize_checklist_user_status :: "string \<Rightarrow> string result" where
  "normalize_checklist_user_status value =
     normalize_enum value ''user_status'' [''PENDING'', ''COMPLETE'']"

definition mission_change_types :: "string list" where
  "mission_change_types =
     [''CREATE_MISSION'', ''DELETE_MISSION'', ''ADD_CONTENT'', ''REMOVE_CONTENT'',
      ''CREATE_DATA_FEED'', ''DELETE_DATA_FEED'', ''MAP_LAYER'', ''SITREP_IMPORTED'']"

definition normalize_mission_change_type :: "string option \<Rightarrow> string result" where
  "normalize_mission_change_type value =
     normalize_enum (unwrap_or value ''ADD_CONTENT'') ''change_type'' mission_change_types"

definition normalize_eam_status :: "string option \<Rightarrow> string result" where
  "normalize_eam_status value =
     (let v = to_ascii_lowercase (trim (unwrap_or value ''Unknown''))
      in if v = [] \<or> v = ''unknown'' then Inr ''Unknown''
         else if v = ''green'' then Inr ''Green''
         else if v = ''yellow'' then Inr ''Yellow''
         else if v = ''red'' then Inr ''Red''
         else Inl (InvalidPayload ''status must be one of: Green, Red, Unknown, Yellow''))"

definition derive_task_status :: "host \<Rightarrow> string \<Rightarrow> int option \<Rightarrow> int option \<Rightarrow> string \<times> bool" where
  "derive_task_status h user_status due_ts_ms completed_ts_ms =
     (if user_status = ''COMPLETE'' then
        (case (due_ts_ms, completed_ts_ms) of
           (Some due, Some completed) \<Rightarrow>
             if completed > due then (''COMPLETE_LATE'', True) else (''COMPLETE'', False)
         | _ \<Rightarrow> (''COMPLETE'', False))
      else if is_some_and due_ts_ms (\<lambda>due. utc_now_ms h > due) then (''LATE'', True)
      else (''PENDING'', False))"

subsection \<open>Identifiers\<close>

definition normalize_topic_id :: "host \<Rightarrow> string option \<Rightarrow> string option" where
  "normalize_topic_id h value =
     (case value of
        None \<Rightarrow> None
      | Some v \<Rightarrow>
          (let text = trim v
           in if text = [] then None else or_else (uuid_parse h text) (Some text)))"

definition normalize_subscriber_node_id :: "string option \<Rightarrow> string option" where
  "normalize_subscriber_node_id value =
     (case value of
        None \<Rightarrow> None
      | Some v \<Rightarrow>
          (let text = trim v
           in if text = [] then None
              else if length text = 32 \<and> list_all is_ascii_hexdigit text
              then Some (to_ascii_lowercase text) else Some text))"

definition normalize_subscriber_topic_id :: "host \<Rightarrow> string \<Rightarrow> string option" where
  "normalize_subscriber_topic_id h value =
     (let text = trim value
      in if text = [] then Some [] else normalize_topic_id h (Some text))"

definition hex_digit :: "nat \<Rightarrow> char" where
  "hex_digit n = (if n < 10 then char_of (48 + n) else char_of (87 + n))"

definition bytes_to_lower_hex :: "string \<Rightarrow> string" where
  "bytes_to_lower_hex value =
     concat (map (\<lambda>byte. [hex_digit (code byte div 16), hex_digit (code byte mod 16)]) value)"

definition normalize_hash_bytes :: "string \<Rightarrow> string option" where
  "normalize_hash_bytes value = (if value = [] then None else Some (bytes_to_lower_hex value))"

definition normalize_hash :: "string option \<Rightarrow> string option" where
  "normalize_hash value =
     (case value of
        None \<Rightarrow> None
      | Some v \<Rightarrow>
          (let text = to_ascii_lowercase (trim v) in if text = [] then None else Some text))"

definition normalize_announce_capabilities :: "string list \<Rightarrow> string list" where
  "normalize_announce_capabilities values =
     fold (\<lambda>value normalized.
             let value = to_ascii_lowercase (trim value)
             in if value = [] \<or> value \<in> set normalized then normalized else normalized @ [value])
       values []"

definition classify_client_type :: "string list \<Rightarrow> string" where
  "classify_client_type announce_capabilities =
     (if ''r3akt'' \<in> set announce_capabilities \<and> ''emergencymessages'' \<in> set announce_capabilities
      then ''rem'' else ''generic_lxmf'')"

definition normalize_rem_mode :: "string \<Rightarrow> string result" where
  "normalize_rem_mode value =
     (let mode = to_ascii_lowercase (trim value)
      in if mode \<in> {''autonomous'', ''semi_autonomous'', ''connected''} then Inr mode
         else Inl (InvalidPayload ''mode must be one of: autonomous, semi_autonomous, connected''))"

definition normalize_subject_type :: "string \<Rightarrow> string result" where
  "normalize_subject_type value =
     (let subject_type = to_ascii_lowercase (trim value)
      in if subject_type \<in> {''identity'', ''team_member''} then Inr subject_type
         else Inl (InvalidPayload ''subject_type must be one of: identity, team_member''))"

definition normalize_subject_id :: "string \<Rightarrow> string \<Rightarrow> string result" where
  "normalize_subject_id subject_type subject_id =
     and_then (required_non_empty subject_id ''subject_id'') (\<lambda>subject_id.
       if subject_type = ''identity'' then Inr (to_ascii_lowercase subject_id) else Inr subject_id)"

definition normalize_scope_type :: "string \<Rightarrow> string result" where
  "normalize_scope_type value =
     (let scope_type = to_ascii_lowercase (trim value)
      in if scope_type \<in> {[], ''global''} then Inr ''global''
         else if scope_type = ''mission'' then Inr scope_type
         else Inl (InvalidPayload ''scope_type must be one of: global, mission''))"

definition normalize_scope_id :: "string \<Rightarrow> string \<Rightarrow> string" where
  "normalize_scope_id scope_type scope_id =
     (let scope_id = trim scope_id in if scope_type = ''global'' then [] else scope_id)"

text \<open>A missing message id is a fresh UUID: the argument \<open>fresh\<close> is the one drawn.\<close>

definition normalize_message_id :: "host \<Rightarrow> string \<Rightarrow> string option \<Rightarrow> string" where
  "normalize_message_id h fresh value =
     unwrap_or
       (case value of
          None \<Rightarrow> None
        | Some text \<Rightarrow>
            (let trimmed = trim text
             in if trimmed = [] then None
                else Some (unwrap_or (uuid_parse h trimmed) (to_ascii_lowercase trimmed))))
       fresh"

definition normalize_required_identity :: "string option \<Rightarrow> string \<Rightarrow> string result" where
  "normalize_required_identity value field_name =
     (let text = to_ascii_lowercase (trim (unwrap_or value []))
      in if text = [] then Inl (InvalidPayload (field_name @ '' is required'')) else Inr text)"

subsection \<open>The canonical teams\<close>

text \<open>The two matches of the code, one from the identifier and one from the color.\<close>

definition canonical_team_colors :: "(string \<times> string) list" where
  "canonical_team_colors =
     [(''d6b6e188b910d6bdd24d04b7a7ec5444'', ''YELLOW''),
      (''65ce79a3a3e4b51ec0ec52d1d3d2b0b9'', ''RED''),
      (''43341e5c822d99857fa6e8641f2ca9c0'', ''BLUE''),
      (''a83eb640e4c4884be14831e3d7ef5ae0'', ''ORANGE''),
      (''7ac50a910f42b06cd9cb68dad3def681'', ''MAGENTA''),
      (''372824ef4f15881291455562f7570233'', ''MAROON''),
      (''4bf2a1d2217c8668942658137f2a6824'', ''PURPLE''),
      (''cbb35fc9a8f5a91d7bd2b5e5b644edcd'', ''DARK_BLUE''),
      (''d4cd5030b68df059ec6beabe416dd6a6'', ''CYAN''),
      (''4d7a7a974beec395bf83491604768499'', ''TEAL''),
      (''612a32262163b73a80eca944c2158546'', ''GREEN''),
      (''341653613d4c76d56bee99c1f38177b1'', ''DARK_GREEN''),
      (''4efe72ac30f5b85142fdcab6d96c7631'', ''BROWN'')]"

definition canonical_team_for_uid :: "string \<Rightarrow> (string \<times> string) option" where
  "canonical_team_for_uid team_uid =
     map_option (\<lambda>color. (team_uid, color)) (map_of canonical_team_colors team_uid)"

definition canonical_team_color_for_uid :: "string \<Rightarrow> string option" where
  "canonical_team_color_for_uid team_uid =
     map_option (\<lambda>(_, color). color) (canonical_team_for_uid team_uid)"

definition canonical_team_uids :: "(string \<times> string) list" where
  "canonical_team_uids =
     [(''YELLOW'', ''d6b6e188b910d6bdd24d04b7a7ec5444''),
      (''RED'', ''65ce79a3a3e4b51ec0ec52d1d3d2b0b9''),
      (''BLUE'', ''43341e5c822d99857fa6e8641f2ca9c0''),
      (''ORANGE'', ''a83eb640e4c4884be14831e3d7ef5ae0''),
      (''MAGENTA'', ''7ac50a910f42b06cd9cb68dad3def681''),
      (''MAROON'', ''372824ef4f15881291455562f7570233''),
      (''PURPLE'', ''4bf2a1d2217c8668942658137f2a6824''),
      (''DARK_BLUE'', ''cbb35fc9a8f5a91d7bd2b5e5b644edcd''),
      (''CYAN'', ''d4cd5030b68df059ec6beabe416dd6a6''),
      (''TEAL'', ''4d7a7a974beec395bf83491604768499''),
      (''GREEN'', ''612a32262163b73a80eca944c2158546''),
      (''DARK_GREEN'', ''341653613d4c76d56bee99c1f38177b1''),
      (''BROWN'', ''4efe72ac30f5b85142fdcab6d96c7631'')]"

definition canonical_team_uid_for_color :: "string \<Rightarrow> string option" where
  "canonical_team_uid_for_color color = map_of canonical_team_uids color"

fun first_canonical_team :: "host \<Rightarrow> json \<Rightarrow> bool \<Rightarrow> string list \<Rightarrow> (string \<times> string) option" where
  "first_canonical_team h args has_noncanonical_name [] = None"
| "first_canonical_team h args has_noncanonical_name (key # keys) =
     (if key = ''color'' \<and> has_noncanonical_name
      then first_canonical_team h args has_noncanonical_name keys
      else case optional_text h args [key] of
        None \<Rightarrow> first_canonical_team h args has_noncanonical_name keys
      | Some value \<Rightarrow>
          (case normalize_team_color value of
             Inl _ \<Rightarrow> first_canonical_team h args has_noncanonical_name keys
           | Inr color \<Rightarrow>
               (case canonical_team_uid_for_color color of
                  None \<Rightarrow> first_canonical_team h args has_noncanonical_name keys
                | Some uid \<Rightarrow> map_option (\<lambda>color. (uid, color)) (canonical_team_color_for_uid uid))))"

definition canonical_team_from_team_args :: "host \<Rightarrow> json \<Rightarrow> string option \<Rightarrow> (string \<times> string) option" where
  "canonical_team_from_team_args h args requested_uid =
     (case requested_uid of
        Some uid \<Rightarrow> canonical_team_for_uid uid
      | None \<Rightarrow>
          (let has_noncanonical_name =
                 list_ex (\<lambda>key.
                    case optional_text h args [key] of
                      None \<Rightarrow> True
                    | Some value \<Rightarrow> ok (normalize_team_color value) = None)
                   [''team_name'', ''name'', ''group_name'']
           in first_canonical_team h args has_noncanonical_name
                [''color'', ''team_name'', ''name'', ''group_name'']))"

subsection \<open>Normal forms are fixed points\<close>

lemma normalize_hash_Some:
  "normalize_hash v = Some t \<Longrightarrow> trim t = t \<and> to_ascii_lowercase t = t \<and> t \<noteq> []"
  by (auto simp: normalize_hash_def Let_def trim_lower split: option.splits if_splits)

lemma normalize_hash_fix: "trim t = t \<Longrightarrow> to_ascii_lowercase t = t \<Longrightarrow> t \<noteq> [] \<Longrightarrow> normalize_hash (Some t) = Some t"
  by (simp add: normalize_hash_def)

lemma normalize_hash_again: "normalize_hash v = Some t \<Longrightarrow> normalize_hash (Some t) = Some t"
  by (blast dest: normalize_hash_Some intro: normalize_hash_fix)

lemma normalize_subscriber_node_id_Some:
  "normalize_subscriber_node_id v = Some t \<Longrightarrow> trim t = t \<and> t \<noteq> []"
  by (auto simp: normalize_subscriber_node_id_def Let_def trim_lower split: option.splits if_splits)

lemma is_ascii_hexdigit_lower: "is_ascii_hexdigit c \<Longrightarrow> is_ascii_hexdigit (ascii_lower c)"
  by (auto simp: is_ascii_hexdigit_def is_ascii_digit_def code_ascii_lower)

lemma normalize_subscriber_node_id_again:
  assumes "normalize_subscriber_node_id v = Some t"
  shows "normalize_subscriber_node_id (Some t) = Some t"
proof -
  from assms obtain x where x: "v = Some x" by (cases v) (auto simp: normalize_subscriber_node_id_def)
  let ?h = "length (trim x) = 32 \<and> list_all is_ascii_hexdigit (trim x)"
  from assms have fix_t: "trim t = t" "t \<noteq> []" by (auto dest: normalize_subscriber_node_id_Some)
  show ?thesis
  proof (cases ?h)
    case True
    with assms have t: "t = to_ascii_lowercase (trim x)"
      by (auto simp: normalize_subscriber_node_id_def Let_def x split: if_splits)
    with True have "length t = 32 \<and> list_all is_ascii_hexdigit t"
      by (auto simp: to_ascii_lowercase_def list_all_iff is_ascii_hexdigit_lower)
    with fix_t show ?thesis
      by (simp add: normalize_subscriber_node_id_def t)
  next
    case False
    with assms have "t = trim x"
      by (auto simp: normalize_subscriber_node_id_def Let_def x split: if_splits)
    with False fix_t show ?thesis
      by (auto simp: normalize_subscriber_node_id_def Let_def)
  qed
qed

text \<open>
  The UUID parser as documented: it accepts its own canonical output, and that output is not
  empty and has no white space around it.
\<close>

definition uuid_canonical :: "host \<Rightarrow> bool" where
  "uuid_canonical h \<longleftrightarrow>
     (\<forall>s u. uuid_parse h s = Some u \<longrightarrow> uuid_parse h u = Some u \<and> trim u = u \<and> u \<noteq> [])"

lemma normalize_topic_id_again:
  assumes "uuid_canonical h" and "normalize_topic_id h v = Some t"
  shows "normalize_topic_id h (Some t) = Some t"
proof -
  from assms(2) obtain x where "v = Some x" "trim x \<noteq> []"
    and "or_else (uuid_parse h (trim x)) (Some (trim x)) = Some t"
    by (auto simp: normalize_topic_id_def Let_def split: option.splits if_splits)
  then consider "uuid_parse h (trim x) = Some t" | "uuid_parse h (trim x) = None" "t = trim x"
    by (auto simp: or_else_eq_Some)
  then show ?thesis
  proof cases
    case 1
    with assms(1) have "uuid_parse h t = Some t" "trim t = t" "t \<noteq> []"
      unfolding uuid_canonical_def by blast+
    then show ?thesis by (simp add: normalize_topic_id_def)
  next
    case 2
    with \<open>trim x \<noteq> []\<close> show ?thesis by (simp add: normalize_topic_id_def)
  qed
qed

lemma normalize_topic_id_non_empty:
  "uuid_canonical h \<Longrightarrow> normalize_topic_id h v = Some t \<Longrightarrow> t \<noteq> [] \<and> trim t = t"
  unfolding uuid_canonical_def normalize_topic_id_def
  by (auto simp: Let_def or_else_eq_Some split: option.splits if_splits)

lemma normalize_subscriber_topic_id_total: "normalize_subscriber_topic_id h v \<noteq> None"
  by (cases "uuid_parse h (trim v)") (simp_all add: normalize_subscriber_topic_id_def normalize_topic_id_def Let_def)

lemma normalize_subscriber_topic_id_again:
  assumes "uuid_canonical h" and "normalize_subscriber_topic_id h v = Some t"
  shows "normalize_subscriber_topic_id h t = Some t"
proof (cases "trim v = []")
  case True
  with assms(2) show ?thesis by (simp add: normalize_subscriber_topic_id_def)
next
  case False
  with assms(2) have "normalize_topic_id h (Some (trim v)) = Some t"
    by (simp add: normalize_subscriber_topic_id_def)
  with assms(1) have "normalize_topic_id h (Some t) = Some t" "t \<noteq> []" "trim t = t"
    by (auto dest: normalize_topic_id_again normalize_topic_id_non_empty)
  then show ?thesis
    by (simp add: normalize_subscriber_topic_id_def)
qed

subsection \<open>Accepted values lie in their enumerations\<close>

lemma normalize_rem_mode_Inr:
  "normalize_rem_mode v = Inr m \<Longrightarrow> m \<in> {''autonomous'', ''semi_autonomous'', ''connected''}"
  unfolding normalize_rem_mode_def Let_def by (metis Inl_Inr_False Inr_inject)

lemma normalize_subject_type_Inr:
  "normalize_subject_type v = Inr m \<Longrightarrow> m \<in> {''identity'', ''team_member''}"
  unfolding normalize_subject_type_def Let_def by (metis Inl_Inr_False Inr_inject)

lemma normalize_scope_type_Inr:
  "normalize_scope_type v = Inr m \<Longrightarrow> m \<in> {''global'', ''mission''}"
  unfolding normalize_scope_type_def Let_def by (auto split: if_splits)

lemma normalize_eam_status_Inr:
  "normalize_eam_status v = Inr m \<Longrightarrow> m \<in> {''Unknown'', ''Green'', ''Yellow'', ''Red''}"
  unfolding normalize_eam_status_def Let_def by (auto split: if_splits)

lemma normalize_skill_level_Inr:
  "normalize_skill_level n f = Inr m \<longleftrightarrow> m = n \<and> 0 \<le> n \<and> n \<le> 10"
  by (auto simp: normalize_skill_level_def)

lemma normalize_required_identity_Inr:
  "normalize_required_identity v f = Inr t \<longleftrightarrow> normalize_hash (Some (unwrap_or v [])) = Some t"
  by (auto simp: normalize_required_identity_def normalize_hash_def Let_def)

lemmas normalizer_range =
  normalize_rem_mode_Inr normalize_subject_type_Inr normalize_scope_type_Inr normalize_eam_status_Inr

end
