(* ===== verification/Commands.thy ===== *)
theory Commands
  imports Normalize
begin

text \<open>
  The messages the core exchanges (\<open>crates/r3akt-profile-rch/src/lib.rs\<close>: commands,
  results, events; \<open>MissionSyncResponse\<close> of the core) and the tables of
  \<open>crates/r3akt-rch-core/src/lib.rs\<close> that say which commands exist and which capability
  each needs.  A \<open>match\<close> on the command type is a list of arms tried in order.
\<close>

subsection \<open>Messages\<close>

record rch_source =
  src_rns_identity :: string
  src_display_name :: "string option"

record mission_command =
  cmd_id :: string
  cmd_source :: rch_source
  cmd_timestamp :: string
  cmd_type :: string
  cmd_args :: json
  cmd_correlation_id :: "string option"
  cmd_topics :: "string list"

datatype command_result_status = Accepted | Rejected | Completed

record command_result =
  res_command_id :: string
  res_status :: command_result_status
  res_detail :: "string option"
  res_reason_code :: "string option"
  res_reason :: "string option"
  res_required_capabilities :: "string list"
  res_accepted_at :: "string option"
  res_by_identity :: "string option"
  res_correlation_id :: "string option"
  res_result :: json

record event_envelope =
  ev_event_id :: "string option"
  ev_source :: "rch_source option"
  ev_timestamp :: "string option"
  ev_event_type :: string
  ev_command_id :: "string option"
  ev_correlation_id :: "string option"
  ev_topics :: "string list"
  ev_payload :: json

text \<open>\<open>MissionCommandEnvelope::stable_dedupe_key\<close>\<close>

definition command_dedupe_key :: "mission_command \<Rightarrow> string" where
  "command_dedupe_key command =
     (case filter_opt (\<lambda>value. trim value \<noteq> []) (cmd_correlation_id command) of
        Some correlation \<Rightarrow> ''rch:'' @ cmd_id command @ '':'' @ correlation
      | None \<Rightarrow> ''rch:'' @ cmd_id command)"

definition event_by_parts ::
  "string \<Rightarrow> string \<Rightarrow> string option \<Rightarrow> json \<Rightarrow> event_envelope" where
  "event_by_parts event_type command_id correlation_id payload =
     \<lparr>ev_event_id = None, ev_source = None, ev_timestamp = None, ev_event_type = event_type,
      ev_command_id = Some command_id, ev_correlation_id = correlation_id, ev_topics = [],
      ev_payload = payload\<rparr>"

definition event :: "string \<Rightarrow> mission_command \<Rightarrow> json \<Rightarrow> event_envelope" where
  "event event_type command payload =
     event_by_parts event_type (cmd_id command) (cmd_correlation_id command) payload"

definition accepted_result :: "host \<Rightarrow> mission_command \<Rightarrow> command_result" where
  "accepted_result h command =
     \<lparr>res_command_id = cmd_id command, res_status = Accepted, res_detail = None,
      res_reason_code = None, res_reason = None, res_required_capabilities = [],
      res_accepted_at = Some (utc_now_rfc3339 h), res_by_identity = None,
      res_correlation_id = cmd_correlation_id command, res_result = JNull\<rparr>"

definition completed_result :: "mission_command \<Rightarrow> json \<Rightarrow> command_result" where
  "completed_result command result =
     \<lparr>res_command_id = cmd_id command, res_status = Completed, res_detail = None,
      res_reason_code = None, res_reason = None, res_required_capabilities = [],
      res_accepted_at = None, res_by_identity = None,
      res_correlation_id = cmd_correlation_id command, res_result = result\<rparr>"

definition rejected_result_with_capabilities ::
  "mission_command \<Rightarrow> string \<Rightarrow> string \<Rightarrow> string list \<Rightarrow> command_result" where
  "rejected_result_with_capabilities command rcode reason required_capabilities =
     \<lparr>res_command_id = cmd_id command, res_status = Rejected, res_detail = Some reason,
      res_reason_code = Some rcode, res_reason = Some reason,
      res_required_capabilities = required_capabilities,
      res_accepted_at = None, res_by_identity = None,
      res_correlation_id = cmd_correlation_id command, res_result = JNull\<rparr>"

definition rejected_result :: "mission_command \<Rightarrow> string \<Rightarrow> string \<Rightarrow> command_result" where
  "rejected_result command rcode reason =
     rejected_result_with_capabilities command rcode reason []"

text \<open>
  A response: its content and its two fields, \<open>FIELD_RESULTS\<close> (always present) and
  \<open>FIELD_EVENT\<close>.
\<close>

record mission_sync_response =
  rsp_content :: string
  rsp_results_field :: command_result
  rsp_event_field :: "json option"

definition with_content_and_event ::
  "string \<Rightarrow> command_result \<Rightarrow> json option \<Rightarrow> mission_sync_response" where
  "with_content_and_event content result ev =
     \<lparr>rsp_content = content, rsp_results_field = result, rsp_event_field = ev\<rparr>"

definition results_with_event :: "command_result \<Rightarrow> json option \<Rightarrow> mission_sync_response" where
  "results_with_event result ev = with_content_and_event ''mission-sync'' result ev"

definition rem_results_with_event :: "command_result \<Rightarrow> json option \<Rightarrow> mission_sync_response" where
  "rem_results_with_event result ev = with_content_and_event [] result ev"

definition results :: "command_result \<Rightarrow> mission_sync_response" where
  "results result = results_with_event result None"

definition rem_results :: "command_result \<Rightarrow> mission_sync_response" where
  "rem_results result = rem_results_with_event result None"

lemma results_field [simp]:
  "rsp_results_field (results r) = r" "rsp_results_field (rem_results r) = r"
  "rsp_results_field (results_with_event r e) = r" "rsp_results_field (rem_results_with_event r e) = r"
  by (simp_all add: results_def rem_results_def results_with_event_def rem_results_with_event_def
        with_content_and_event_def)

lemma result_status [simp]:
  "res_status (accepted_result h c) = Accepted" "res_status (completed_result c v) = Completed"
  "res_status (rejected_result c rcode reason) = Rejected"
  "res_status (rejected_result_with_capabilities c rcode reason caps) = Rejected"
  by (simp_all add: accepted_result_def completed_result_def rejected_result_def
        rejected_result_with_capabilities_def)

lemma result_command_id [simp]:
  "res_command_id (accepted_result h c) = cmd_id c"
  "res_command_id (completed_result c v) = cmd_id c"
  "res_command_id (rejected_result c rcode reason) = cmd_id c"
  "res_command_id (rejected_result_with_capabilities c rcode reason caps) = cmd_id c"
  by (simp_all add: accepted_result_def completed_result_def rejected_result_def
        rejected_result_with_capabilities_def)

lemma result_reason_code [simp]:
  "res_reason_code (rejected_result c rcode reason) = Some rcode"
  "res_reason_code (rejected_result_with_capabilities c rcode reason caps) = Some rcode"
  by (simp_all add: rejected_result_def rejected_result_with_capabilities_def)

subsection \<open>The tables\<close>

fun first_arm :: "(string list \<times> 'a) list \<Rightarrow> string \<Rightarrow> 'a option" where
  "first_arm [] command_type = None"
| "first_arm ((patterns, result) # arms) command_type =
     (if command_type \<in> set patterns then Some result else first_arm arms command_type)"

lemma first_arm_None: "first_arm t c = None \<longleftrightarrow> c \<notin> set (concat (map fst t))"
  by (induction t c rule: first_arm.induct) auto

lemma first_arm_Some: "first_arm t c = Some r \<Longrightarrow> r \<in> set (map snd t)"
  by (induction t c rule: first_arm.induct) (auto split: if_splits)

definition rem_registry_commands :: "string list" where
  "rem_registry_commands =
     [''rem.registry.mode.set'',
      ''rem.registry.peers.list'',
      ''rem.registry.team_peers.list'']"

definition is_supported_rem_registry_command :: "string \<Rightarrow> bool" where
  "is_supported_rem_registry_command command_type \<longleftrightarrow> command_type \<in> set rem_registry_commands"

definition mission_commands :: "string list" where
  "mission_commands =
     [''mission.join'',
      ''mission.leave'',
      ''mission.pause'',
      ''mission.resume'',
      ''mission.nick'',
      ''mission.users'',
      ''mission.events.list'',
      ''mission.marker.list'',
      ''mission.marker.create'',
      ''mission.marker.position.patch'',
      ''mission.marker.patch'',
      ''mission.marker.delete'',
      ''mission.zone.list'',
      ''mission.zone.create'',
      ''mission.zone.patch'',
      ''mission.zone.delete'',
      ''mission.registry.mission.upsert'',
      ''mission.registry.mission.get'',
      ''mission.registry.mission.list'',
      ''mission.registry.mission.patch'',
      ''mission.registry.mission.delete'',
      ''mission.registry.mission.parent.set'',
      ''mission.registry.mission.zone.link'',
      ''mission.registry.mission.zone.unlink'',
      ''mission.registry.mission.marker.link'',
      ''mission.registry.mission.marker.unlink'',
      ''mission.registry.mission.rde.set'',
      ''mission.registry.mission_change.upsert'',
      ''mission.registry.mission_change.list'',
      ''mission.registry.log_entry.upsert'',
      ''mission.registry.log_entry.list'',
      ''mission.registry.eam.list'',
      ''mission.registry.eam.upsert'',
      ''mission.registry.eam.get'',
      ''mission.registry.eam.latest'',
      ''mission.registry.eam.delete'',
      ''mission.registry.eam.team.summary'',
      ''mission.registry.team.upsert'',
      ''mission.registry.team.get'',
      ''mission.registry.team.list'',
      ''mission.registry.team.delete'',
      ''mission.registry.team.mission.link'',
      ''mission.registry.team.mission.unlink'',
      ''mission.registry.team_member.upsert'',
      ''mission.registry.team_member.get'',
      ''mission.registry.team_member.list'',
      ''mission.registry.team_member.delete'',
      ''mission.registry.team_member.client.link'',
      ''mission.registry.team_member.client.unlink'',
      ''mission.registry.asset.upsert'',
      ''mission.registry.asset.get'',
      ''mission.registry.asset.list'',
      ''mission.registry.asset.delete'',
      ''mission.registry.skill.upsert'',
      ''mission.registry.skill.list'',
      ''mission.registry.team_member_skill.upsert'',
      ''mission.registry.team_member_skill.list'',
      ''mission.registry.task_skill_requirement.upsert'',
      ''mission.registry.task_skill_requirement.list'',
      ''mission.registry.assignment.upsert'',
      ''mission.registry.assignment.list'',
      ''mission.registry.assignment.asset.set'',
      ''mission.registry.assignment.asset.link'',
      ''mission.registry.assignment.asset.unlink'',
      ''mission.registry.rights.subjects.list'',
      ''mission.registry.rights.mission_access.assign'',
      ''mission.registry.rights.mission_access.list'',
      ''mission.registry.rights.mission_access.revoke'',
      ''ListTopic'',
      ''topic.list'',
      ''CreateTopic'',
      ''topic.create'',
      ''topic.patch'',
      ''topic.delete'',
      ''SubscribeTopic'',
      ''CreateSubscriber'',
      ''AddSubscriber'',
      ''topic.subscribe'',
      ''topic.subscriber.patch'',
      ''topic.subscriber.delete'',
      ''mission.message.send'',
      ''PublishMessage'']"

definition is_supported_mission_command :: "string \<Rightarrow> bool" where
  "is_supported_mission_command command_type \<longleftrightarrow>
     is_supported_rem_registry_command command_type \<or> command_type \<in> set mission_commands"

definition checklist_commands :: "string list" where
  "checklist_commands =
     [''checklist.template.list'',
      ''checklist.template.get'',
      ''checklist.template.create'',
      ''checklist.template.update'',
      ''checklist.template.clone'',
      ''checklist.template.delete'',
      ''checklist.create.online'',
      ''checklist.create.offline'',
      ''checklist.list.active'',
      ''checklist.get'',
      ''checklist.update'',
      ''checklist.delete'',
      ''checklist.join'',
      ''checklist.upload'',
      ''checklist.import.csv'',
      ''checklist.feed.publish'',
      ''checklist.task.row.add'',
      ''checklist.task.row.delete'',
      ''checklist.task.row.style.set'',
      ''checklist.task.cell.set'',
      ''checklist.task.status.set'']"

definition is_supported_checklist_command :: "string \<Rightarrow> bool" where
  "is_supported_checklist_command command_type \<longleftrightarrow> command_type \<in> set checklist_commands"

definition capability_arms :: "(string list \<times> string) list" where
  "capability_arms =
     [([''mission.join''], ''mission.join''),
      ([''mission.leave'', ''mission.pause'', ''mission.resume'', ''mission.nick''], ''mission.leave''),
      ([''mission.users'', ''mission.events.list''], ''mission.audit.read''),
      ([''mission.marker.list''], ''mission.content.read''),
      ([''mission.marker.create'', ''mission.marker.position.patch'',
         ''mission.marker.patch'', ''mission.marker.delete''], ''mission.content.write''),
      ([''mission.zone.list''], ''mission.zone.read''),
      ([''mission.zone.create'', ''mission.zone.patch''], ''mission.zone.write''),
      ([''mission.zone.delete''], ''mission.zone.delete''),
      ([''mission.registry.mission.upsert'', ''mission.registry.mission.patch'',
         ''mission.registry.mission.delete'', ''mission.registry.mission.parent.set'',
         ''mission.registry.mission.rde.set''], ''mission.registry.mission.write''),
      ([''mission.registry.mission.zone.link'', ''mission.registry.mission.zone.unlink''], ''mission.zone.write''),
      ([''mission.registry.mission.marker.link'', ''mission.registry.mission.marker.unlink''], ''mission.content.write''),
      ([''mission.registry.mission.get'', ''mission.registry.mission.list''], ''mission.registry.mission.read''),
      ([''mission.registry.mission_change.upsert'', ''mission.registry.log_entry.upsert''], ''mission.registry.log.write''),
      ([''mission.registry.mission_change.list'', ''mission.registry.log_entry.list''], ''mission.registry.log.read''),
      ([''mission.registry.eam.upsert'', ''mission.registry.eam.delete''], ''mission.registry.status.write''),
      ([''mission.registry.eam.list'', ''mission.registry.eam.get'',
         ''mission.registry.eam.latest'', ''mission.registry.eam.team.summary''], ''mission.registry.status.read''),
      ([''mission.registry.team.upsert'', ''mission.registry.team.delete'',
         ''mission.registry.team.mission.link'', ''mission.registry.team.mission.unlink'',
         ''mission.registry.team_member.upsert'', ''mission.registry.team_member.delete'',
         ''mission.registry.team_member.client.link'',
         ''mission.registry.team_member.client.unlink'',
         ''mission.registry.rights.mission_access.assign'',
         ''mission.registry.rights.mission_access.revoke''], ''mission.registry.team.write''),
      ([''mission.registry.team.get'', ''mission.registry.team.list'',
         ''mission.registry.team_member.get'', ''mission.registry.team_member.list''], ''mission.registry.team.read''),
      ([''mission.registry.asset.upsert'', ''mission.registry.asset.delete''], ''mission.registry.asset.write''),
      ([''mission.registry.asset.get'', ''mission.registry.asset.list''], ''mission.registry.asset.read''),
      ([''mission.registry.skill.upsert'', ''mission.registry.team_member_skill.upsert'',
         ''mission.registry.task_skill_requirement.upsert''], ''mission.registry.skill.write''),
      ([''mission.registry.skill.list'', ''mission.registry.team_member_skill.list'',
         ''mission.registry.task_skill_requirement.list''], ''mission.registry.skill.read''),
      ([''mission.registry.assignment.upsert'', ''mission.registry.assignment.asset.set'',
         ''mission.registry.assignment.asset.link'',
         ''mission.registry.assignment.asset.unlink''], ''mission.registry.assignment.write''),
      ([''mission.registry.assignment.list''], ''mission.registry.assignment.read''),
      ([''mission.registry.rights.subjects.list'',
         ''mission.registry.rights.mission_access.list''], ''mission.registry.team.read''),
      ([''ListTopic'', ''topic.list''], ''topic.read''),
      ([''CreateTopic'', ''topic.create''], ''topic.create''),
      ([''topic.patch'', ''topic.subscriber.patch''], ''topic.write''),
      ([''topic.delete'', ''topic.subscriber.delete''], ''topic.delete''),
      ([''SubscribeTopic'', ''CreateSubscriber'', ''AddSubscriber'', ''topic.subscribe''], ''topic.subscribe''),
      ([''mission.message.send'', ''PublishMessage''], ''mission.message.send'')]"

definition required_capability :: "string \<Rightarrow> string option" where
  "required_capability command_type = first_arm capability_arms command_type"

definition checklist_capability_arms :: "(string list \<times> string) list" where
  "checklist_capability_arms =
     [([''checklist.template.list'', ''checklist.template.get''], ''checklist.template.read''),
      ([''checklist.template.create'', ''checklist.template.update'',
         ''checklist.template.clone''], ''checklist.template.write''),
      ([''checklist.template.delete''], ''checklist.template.delete''),
      ([''checklist.list.active'', ''checklist.get''], ''checklist.read''),
      ([''checklist.join''], ''checklist.join''),
      ([''checklist.upload''], ''checklist.upload''),
      ([''checklist.feed.publish''], ''checklist.feed.publish''),
      ([''checklist.create.online'', ''checklist.create.offline'', ''checklist.update'',
         ''checklist.delete'', ''checklist.import.csv'', ''checklist.task.row.add'',
         ''checklist.task.row.delete'', ''checklist.task.row.style.set'',
         ''checklist.task.cell.set'', ''checklist.task.status.set''], ''checklist.write'')]"

definition checklist_required_capability :: "string \<Rightarrow> string option" where
  "checklist_required_capability command_type = first_arm checklist_capability_arms command_type"

definition checklist_event_arms :: "(string list \<times> string) list" where
  "checklist_event_arms =
     [([''checklist.template.create'', ''checklist.template.clone''], ''checklist.template.created''),
      ([''checklist.template.delete''], ''checklist.template.deleted''),
      ([''checklist.template.list'', ''checklist.template.get'', ''checklist.template.update''], ''checklist.template.updated''),
      ([''checklist.create.online'', ''checklist.create.offline''], ''checklist.created''),
      ([''checklist.list.active'', ''checklist.get'', ''checklist.task.row.add'',
         ''checklist.task.row.delete'', ''checklist.task.row.style.set'',
         ''checklist.task.cell.set''], ''checklist.progress.changed''),
      ([''checklist.delete''], ''checklist.deleted''),
      ([''checklist.join''], ''checklist.joined''),
      ([''checklist.upload''], ''checklist.uploaded''),
      ([''checklist.import.csv''], ''checklist.imported.csv''),
      ([''checklist.feed.publish''], ''checklist.feed.published''),
      ([''checklist.task.status.set''], ''checklist.task.status.changed'')]"

definition checklist_event_type :: "string \<Rightarrow> string" where
  "checklist_event_type command_type =
     unwrap_or (first_arm checklist_event_arms command_type) ''checklist.updated''"

end
