(* ===== verification/State.thy ===== *)
theory State
  imports Commands
begin

text \<open>
  The records of the core and its state (\<open>crates/r3akt-rch-core/src/lib.rs\<close>,
  \<open>TopicRecord\<close> to \<open>SubjectOperationRight\<close> and \<open>RchCore\<close>), field by field.
  The field names carry a prefix of their record.  The state adds the
  number of UUIDs drawn so far: \<open>Uuid::new_v4()\<close> is \<open>new_uuid\<close>, which returns the next
  element of the host's sequence.
\<close>

subsection \<open>Records\<close>

datatype retention_policy = Ephemeral | Persistent

datatype visibility = Public | Restricted

datatype delivery_mode = Targeted | Fanout | Broadcast

record topic_record =
  tp_topic_id :: string
  tp_topic_name :: string
  tp_topic_path :: string
  tp_topic_description :: string
  tp_retention :: retention_policy
  tp_visibility :: visibility
  tp_created_ts_ms :: int
  tp_last_activity_ts_ms :: int

record subscriber_record =
  sb_node_id :: string
  sb_topic_id :: string
  sb_first_seen_ts_ms :: int
  sb_last_seen_ts_ms :: int
  sb_reject_tests :: "int option"
  sb_metadata :: json

record chat_attachment_record =
  ca_file_id :: int
  ca_category :: string
  ca_name :: string
  ca_size :: int
  ca_media_type :: "string option"

record message_record =
  mg_message_id :: string
  mg_topic_id :: "string option"
  mg_destination :: "string option"
  mg_sender :: string
  mg_content :: string
  mg_delivery_mode :: delivery_mode
  mg_delivery_method :: string
  mg_delivery_policy_reason :: string
  mg_delivery_state :: string
  mg_delivery_metadata :: json
  mg_created_ts_ms :: int
  mg_attachments :: "chat_attachment_record list"

record client_record =
  cl_identity :: string
  cl_first_seen_ts_ms :: int
  cl_last_seen_ts_ms :: int
  cl_nickname :: "string option"
  cl_role :: string
  cl_paused :: bool
  cl_text_only :: bool
  cl_last_chat_ts_ms :: "int option"

record identity_announce_record =
  ia_destination_hash :: string
  ia_announced_identity_hash :: "string option"
  ia_display_name :: "string option"
  ia_source_interface :: "string option"
  ia_announce_capabilities :: "string list"
  ia_client_type :: string
  ia_first_seen_ts_ms :: int
  ia_last_seen_ts_ms :: int

record identity_state_record =
  ist_identity :: string
  ist_is_banned :: bool
  ist_is_blackholed :: bool
  ist_updated_ts_ms :: int

record identity_rem_mode_record =
  irm_identity :: string
  irm_mode :: string
  irm_updated_ts_ms :: int

record mission_audit_event =
  ae_event_id :: string
  ae_event_type :: string
  ae_command_type :: string
  ae_command_id :: string
  ae_source_identity :: string
  ae_timestamp_ms :: int
  ae_payload :: json

record system_event_record =
  sy_event_id :: string
  sy_event_type :: string
  sy_message :: string
  sy_timestamp_ms :: int
  sy_metadata :: json

record telemetry_record =
  tlm_peer_destination :: string
  tlm_timestamp_s :: int
  tlm_telemetry :: json
  tlm_display_name :: "string option"
  tlm_identity_label :: "string option"

record marker_record =
  mk_local_id :: string
  mk_object_destination_hash :: string
  mk_origin_rch :: string
  mk_marker_type :: string
  mk_symbol :: string
  mk_name :: string
  mk_category :: string
  mk_lat :: f64
  mk_lon :: f64
  mk_notes :: "string option"
  mk_created_ts_ms :: int
  mk_updated_ts_ms :: int

record zone_point =
  zp_lat :: f64
  zp_lon :: f64

record zone_record =
  zn_zone_id :: string
  zn_name :: string
  zn_points :: "zone_point list"
  zn_created_ts_ms :: int
  zn_updated_ts_ms :: int

record mission_record =
  mi_uid :: string
  mi_mission_name :: string
  mi_description :: string
  mi_topic_id :: "string option"
  mi_path :: "string option"
  mi_classification :: "string option"
  mi_tool :: "string option"
  mi_keywords :: "string list"
  mi_parent_uid :: "string option"
  mi_feeds :: "string list"
  mi_password_hash :: "string option"
  mi_default_role :: "string option"
  mi_mission_priority :: "int option"
  mi_mission_status :: string
  mi_owner_role :: "string option"
  mi_token :: "string option"
  mi_invite_only :: bool
  mi_expiration :: "string option"
  mi_mission_rde_role :: "string option"
  mi_created_ts_ms :: int
  mi_updated_ts_ms :: int

record mission_change_record =
  mc_uid :: string
  mc_mission_uid :: string
  mc_name :: "string option"
  mc_team_member_rns_identity :: "string option"
  mc_timestamp_ms :: int
  mc_notes :: "string option"
  mc_change_type :: string
  mc_is_federated_change :: bool
  mc_hashes :: "string list"
  mc_delta :: json

record log_entry_record =
  le_entry_uid :: string
  le_mission_uid :: string
  le_callsign :: "string option"
  le_content :: string
  le_server_time_ms :: int
  le_client_time :: "string option"
  le_content_hashes :: "string list"
  le_keywords :: "string list"
  le_created_ts_ms :: int
  le_updated_ts_ms :: int

record file_attachment_record =
  fa_file_id :: int
  fa_name :: string
  fa_path :: string
  fa_category :: string
  fa_size :: int
  fa_media_type :: "string option"
  fa_topic_id :: "string option"
  fa_created_ts_ms :: int
  fa_updated_ts_ms :: int

record eam_snapshot_record =
  ea_eam_uid :: string
  ea_callsign :: string
  ea_group_name :: "string option"
  ea_team_member_uid :: string
  ea_team_uid :: string
  ea_reported_by :: "string option"
  ea_reported_ts_ms :: int
  ea_overall_status :: string
  ea_security_status :: string
  ea_capability_status :: string
  ea_preparedness_status :: string
  ea_medical_status :: string
  ea_mobility_status :: string
  ea_comms_status :: string
  ea_notes :: "string option"
  ea_confidence :: "f64 option"
  ea_ttl_seconds :: "int option"
  ea_source :: "json option"
  ea_updated_ts_ms :: int
  ea_deleted_ts_ms :: "int option"

record team_record =
  te_uid :: string
  te_mission_uid :: "string option"
  te_mission_uids :: "string list"
  te_color :: "string option"
  te_team_name :: string
  te_team_description :: string
  te_created_ts_ms :: int
  te_updated_ts_ms :: int

record team_member_record =
  tm_uid :: string
  tm_team_uid :: "string option"
  tm_rns_identity :: string
  tm_display_name :: string
  tm_icon :: "string option"
  tm_role :: "string option"
  tm_callsign :: "string option"
  tm_freq :: "f64 option"
  tm_email :: "string option"
  tm_phone :: "string option"
  tm_modulation :: "string option"
  tm_availability :: "string option"
  tm_certifications :: "string list"
  tm_last_active :: "string option"
  tm_client_identities :: "string list"
  tm_created_ts_ms :: int
  tm_updated_ts_ms :: int

record asset_record =
  at_asset_uid :: string
  at_team_member_uid :: "string option"
  at_name :: string
  at_asset_type :: string
  at_serial_number :: "string option"
  at_status :: string
  at_location :: "string option"
  at_notes :: "string option"
  at_created_ts_ms :: int
  at_updated_ts_ms :: int

record skill_record =
  sk_skill_uid :: string
  sk_name :: string
  sk_category :: "string option"
  sk_description :: "string option"
  sk_proficiency_scale :: "string option"
  sk_created_ts_ms :: int
  sk_updated_ts_ms :: int

record team_member_skill_record =
  ts_uid :: string
  ts_team_member_rns_identity :: string
  ts_skill_uid :: string
  ts_level :: int
  ts_validated_by :: "string option"
  ts_validated_at :: "string option"
  ts_expires_at :: "string option"

record task_skill_requirement_record =
  rq_uid :: string
  rq_task_uid :: string
  rq_skill_uid :: string
  rq_minimum_level :: int
  rq_is_mandatory :: bool

record assignment_record =
  an_assignment_uid :: string
  an_mission_uid :: string
  an_task_uid :: string
  an_team_member_rns_identity :: string
  an_assigned_by :: "string option"
  an_assigned_ts_ms :: int
  an_due_dtg :: "string option"
  an_status :: string
  an_notes :: "string option"
  an_assets :: "string list"

record checklist_record =
  ck_uid :: string
  ck_mission_uid :: "string option"
  ck_template_uid :: "string option"
  ck_template_version :: "int option"
  ck_template_name :: "string option"
  ck_name :: string
  ck_description :: string
  ck_start_ts_ms :: int
  ck_mode :: string
  ck_sync_state :: string
  ck_origin_type :: string
  ck_checklist_status :: string
  ck_created_by_team_member_rns_identity :: string
  ck_created_ts_ms :: int
  ck_updated_ts_ms :: int
  ck_uploaded_ts_ms :: "int option"
  ck_progress_percent :: f64
  ck_pending_count :: int
  ck_late_count :: int
  ck_complete_count :: int

record checklist_column_record =
  cc_column_uid :: string
  cc_checklist_uid :: "string option"
  cc_template_uid :: "string option"
  cc_column_name :: string
  cc_display_order :: int
  cc_column_type :: string
  cc_column_editable :: bool
  cc_background_color :: "string option"
  cc_text_color :: "string option"
  cc_is_removable :: bool
  cc_system_key :: "string option"
  cc_created_ts_ms :: int
  cc_updated_ts_ms :: int

record checklist_template_record =
  ct_uid :: string
  ct_template_name :: string
  ct_description :: string
  ct_created_by_team_member_rns_identity :: string
  ct_source_template_uid :: "string option"
  ct_server_only :: bool
  ct_created_ts_ms :: int
  ct_updated_ts_ms :: int

record checklist_task_record =
  tk_task_uid :: string
  tk_checklist_uid :: string
  tk_number :: int
  tk_user_status :: string
  tk_task_status :: string
  tk_is_late :: bool
  tk_custom_status :: "string option"
  tk_due_relative_minutes :: "int option"
  tk_due_ts_ms :: "int option"
  tk_notes :: "string option"
  tk_row_background_color :: "string option"
  tk_line_break_enabled :: bool
  tk_completed_ts_ms :: "int option"
  tk_completed_by_team_member_rns_identity :: "string option"
  tk_legacy_value :: "string option"
  tk_created_ts_ms :: int
  tk_updated_ts_ms :: int

record checklist_cell_record =
  ce_cell_uid :: string
  ce_task_uid :: string
  ce_column_uid :: string
  ce_value :: "string option"
  ce_updated_ts_ms :: int
  ce_updated_by_team_member_rns_identity :: "string option"

record checklist_feed_publication_record =
  pb_publication_uid :: string
  pb_checklist_uid :: string
  pb_mission_feed_uid :: string
  pb_published_ts_ms :: int
  pb_published_by_team_member_rns_identity :: string

record mission_access_assignment =
  ma_mission_uid :: string
  ma_subject_type :: string
  ma_subject_id :: string
  ma_role :: string

record subject_operation_right =
  rt_grant_uid :: string
  rt_subject_type :: string
  rt_subject_id :: string
  rt_operation :: string
  rt_scope_type :: string
  rt_scope_id :: string
  rt_granted :: bool

subsection \<open>The state\<close>

record rch_core =
  topics :: "(string, topic_record) hmap"
  subscribers :: "(string \<times> string, subscriber_record) hmap"
  messages :: "message_record list"
  clients :: "(string, client_record) hmap"
  identity_announces :: "(string, identity_announce_record) hmap"
  identity_states :: "(string, identity_state_record) hmap"
  identity_rem_modes :: "(string, identity_rem_mode_record) hmap"
  audit_events :: "mission_audit_event list"
  system_events :: "system_event_record list"
  telemetry_records :: "telemetry_record list"
  markers :: "(string, marker_record) hmap"
  zones :: "(string, zone_record) hmap"
  missions :: "(string, mission_record) hmap"
  mission_changes :: "(string, mission_change_record) hmap"
  log_entries :: "(string, log_entry_record) hmap"
  file_attachments :: "(int, file_attachment_record) hmap"
  eam_snapshots :: "(string, eam_snapshot_record) hmap"
  teams :: "(string, team_record) hmap"
  mission_team_links :: "(string \<times> string) list"
  mission_zone_links :: "(string \<times> string) list"
  mission_marker_links :: "(string \<times> string) list"
  team_members :: "(string, team_member_record) hmap"
  team_member_client_links :: "(string \<times> string) list"
  assets :: "(string, asset_record) hmap"
  skills :: "(string, skill_record) hmap"
  team_member_skills :: "(string, team_member_skill_record) hmap"
  task_skill_requirements :: "(string, task_skill_requirement_record) hmap"
  assignments :: "(string, assignment_record) hmap"
  assignment_asset_links :: "(string \<times> string) list"
  checklists :: "(string, checklist_record) hmap"
  checklist_templates :: "(string, checklist_template_record) hmap"
  checklist_columns :: "(string, checklist_column_record) hmap"
  checklist_tasks :: "(string, checklist_task_record) hmap"
  checklist_cells :: "(string, checklist_cell_record) hmap"
  checklist_feed_publications :: "(string, checklist_feed_publication_record) hmap"
  command_results :: "(string, command_result) hmap"
  identity_capabilities :: "(string, string list) hmap"
  mission_access_assignments :: "(string \<times> string \<times> string, mission_access_assignment) hmap"
  subject_operation_rights :: "(string \<times> string \<times> string \<times> string \<times> string, subject_operation_right) hmap"
  authorization_required :: bool
  next_uuid :: nat

definition new_core :: rch_core where
  "new_core =
     \<lparr>topics = [],
      subscribers = [],
      messages = [],
      clients = [],
      identity_announces = [],
      identity_states = [],
      identity_rem_modes = [],
      audit_events = [],
      system_events = [],
      telemetry_records = [],
      markers = [],
      zones = [],
      missions = [],
      mission_changes = [],
      log_entries = [],
      file_attachments = [],
      eam_snapshots = [],
      teams = [],
      mission_team_links = [],
      mission_zone_links = [],
      mission_marker_links = [],
      team_members = [],
      team_member_client_links = [],
      assets = [],
      skills = [],
      team_member_skills = [],
      task_skill_requirements = [],
      assignments = [],
      assignment_asset_links = [],
      checklists = [],
      checklist_templates = [],
      checklist_columns = [],
      checklist_tasks = [],
      checklist_cells = [],
      checklist_feed_publications = [],
      command_results = [],
      identity_capabilities = [],
      mission_access_assignments = [],
      subject_operation_rights = [],
      authorization_required = False,
      next_uuid = 0\<rparr>"

definition new_uuid :: "host \<Rightarrow> rch_core \<Rightarrow> string \<times> rch_core" where
  "new_uuid h s = (uuid_v4 h (next_uuid s), s\<lparr>next_uuid := Suc (next_uuid s)\<rparr>)"

text \<open>\<open>x.unwrap_or_else(|| Uuid::new_v4().simple().to_string())\<close>\<close>

definition or_new_uuid :: "host \<Rightarrow> rch_core \<Rightarrow> string option \<Rightarrow> string \<times> rch_core" where
  "or_new_uuid h s x = (case x of Some u \<Rightarrow> (u, s) | None \<Rightarrow> new_uuid h s)"

text \<open>An operation of the core: the state it leaves and its result.\<close>

type_synonym 'a op = "rch_core \<times> 'a result"

lemma new_uuid_state: "snd (new_uuid h s) = s\<lparr>next_uuid := Suc (next_uuid s)\<rparr>"
  by (simp add: new_uuid_def)

lemma or_new_uuid_cases:
  "or_new_uuid h s x = (u, s') \<Longrightarrow>
     (x = Some u \<and> s' = s) \<or>
     (x = None \<and> u = uuid_v4 h (next_uuid s) \<and> s' = s\<lparr>next_uuid := Suc (next_uuid s)\<rparr>)"
  by (auto simp: or_new_uuid_def new_uuid_def split: option.splits)

end
