(* ===== verification/Mecp.thy ===== *)
theory Mecp
  imports Args
begin

text \<open>
  The compact MECP event body (\<open>crates/r3akt-profile-rch/src/lib.rs\<close>, \<open>mecp_category_label\<close>
  to \<open>decode_mecp_message\<close>) and what the core makes of it
  (\<open>append_mecp_keywords\<close>, \<open>mecp_log_entry_value\<close>). The lemmas say when a message is valid and what a valid message holds.
\<close>

subsection \<open>Splitting\<close>

fun take_token :: "string \<Rightarrow> string \<times> string" where
  "take_token [] = ([], [])"
| "take_token (c # s) =
     (if ws_head (c # s) \<noteq> 0 then ([], c # s)
      else (let (t, r) = take_token s in (c # t, r)))"

lemma take_token_length: "length (snd (take_token s)) \<le> length s"
  by (induction s rule: take_token.induct) (auto simp: Let_def split: prod.splits)

lemma take_token_append: "fst (take_token s) @ snd (take_token s) = s"
  by (induction s rule: take_token.induct) (auto simp: Let_def split: prod.splits)

lemma take_token_empty: "s \<noteq> [] \<Longrightarrow> ws_head s = 0 \<Longrightarrow> fst (take_token s) \<noteq> []"
  by (cases s) (auto simp: Let_def split: prod.splits)

text \<open>\<open>str::split_whitespace\<close>\<close>

function split_whitespace :: "string \<Rightarrow> string list" where
  "split_whitespace s =
     (let t = trim_start s
      in if t = [] then []
         else fst (take_token t) # split_whitespace (snd (take_token t)))"
  by pat_completeness auto
termination
proof (relation "measure length")
  fix s t :: string
  assume t: "t = trim_start s" and ne: "t \<noteq> []"
  then have "ws_head t = 0"
    using strip_done [of ws_head s] by (auto simp: trim_start_def)
  with ne have "fst (take_token t) \<noteq> []" by (rule take_token_empty)
  moreover have "length t \<le> length s"
    using strip_suffix [of s ws_head] by (auto simp: t trim_start_def) (metis le_add2 length_append)
  moreover have "length (fst (take_token t)) + length (snd (take_token t)) = length t"
    using take_token_append [of t] by (metis length_append)
  ultimately show "(snd (take_token t), s) \<in> measure length"
    by (cases "fst (take_token t)") auto
qed simp

declare split_whitespace.simps [simp del]

definition strip_prefix :: "string \<Rightarrow> string \<Rightarrow> string option" where
  "strip_prefix p s = (if take (length p) s = p then Some (drop (length p) s) else None)"

definition strip_suffix_of :: "string \<Rightarrow> string \<Rightarrow> string option" where
  "strip_suffix_of p s =
     (if length p \<le> length s \<and> drop (length s - length p) s = p
      then Some (take (length s - length p) s) else None)"

text \<open>\<open>str::parse::<u16>()\<close>: an optional plus sign and at least one digit, in range.\<close>

definition parse_u16 :: "string \<Rightarrow> nat option" where
  "parse_u16 s =
     (let ds = (case s of [] \<Rightarrow> [] | c # r \<Rightarrow> if c = CHR ''+'' then r else s)
      in if ds = [] then None
         else filter_opt (\<lambda>n. n < 65536) (digits_value ds 0))"

fun split_once :: "char \<Rightarrow> string \<Rightarrow> (string \<times> string) option" where
  "split_once d [] = None"
| "split_once d (c # s) =
     (if c = d then Some ([], s)
      else map_option (\<lambda>(a, b). (c # a, b)) (split_once d s))"

text \<open>\<open>(a..=b).contains(&x)\<close> on doubles\<close>

definition f64_in :: "rat \<Rightarrow> f64 \<Rightarrow> rat \<Rightarrow> bool" where
  "f64_in a x b = (case x of Fin r \<Rightarrow> a \<le> r \<and> r \<le> b | _ \<Rightarrow> False)"

subsection \<open>The tables\<close>

definition MECP_PREFIX :: string where
  "MECP_PREFIX = ''MECP/''"

definition mecp_categories :: "(string \<times> string) list" where
  "mecp_categories =
     [(''M'', ''Medical''),
      (''T'', ''Terrain / Infrastructure''),
      (''W'', ''Weather / Environment''),
      (''S'', ''Supplies''),
      (''P'', ''Position / Movement''),
      (''C'', ''Coordination''),
      (''R'', ''Response''),
      (''D'', ''Drill / Test''),
      (''L'', ''Life / Leisure''),
      (''X'', ''Threat / Security''),
      (''H'', ''Have / Offer Resources''),
      (''B'', ''Beacon'')]"

definition mecp_category_label :: "string \<Rightarrow> string" where
  "mecp_category_label category = unwrap_or (map_of mecp_categories category) ''MECP''"

definition mecp_severity_label :: "nat \<Rightarrow> string" where
  "mecp_severity_label severity =
     (if severity = 0 then ''Mayday'' else if severity = 1 then ''Urgent''
      else if severity = 2 then ''Safety'' else if severity = 3 then ''Routine'' else ''Unknown'')"

definition mecp_severity_status :: "nat \<Rightarrow> string" where
  "mecp_severity_status severity =
     (if severity = 0 then ''red'' else if severity = 1 then ''yellow''
      else if severity = 2 then ''green'' else ''unknown'')"

definition mecp_events :: "(string \<times> string) list" where
  "mecp_events =
     [(''M01'', ''Injury''),
      (''M02'', ''Unconscious person''),
      (''M03'', ''Breathing difficulty''),
      (''M04'', ''Cardiac event''),
      (''M05'', ''Hypothermia''),
      (''M06'', ''Severe bleeding''),
      (''M07'', ''Fracture / immobile''),
      (''M08'', ''Burns''),
      (''M09'', ''Multiple casualties''),
      (''M10'', ''Deceased''),
      (''M11'', ''Animal bite / sting''),
      (''M12'', ''Allergic reaction / anaphylaxis''),
      (''M13'', ''Poisoning / toxic exposure''),
      (''M14'', ''Persons located alive''),
      (''M15'', ''Area searched, no victims found''),
      (''T01'', ''Road blocked''),
      (''T02'', ''Bridge out''),
      (''T03'', ''Building collapsed''),
      (''T04'', ''Flooding''),
      (''T05'', ''Landslide''),
      (''T06'', ''Power out''),
      (''T07'', ''Fire''),
      (''T08'', ''Avalanche''),
      (''T09'', ''Path impassable''),
      (''T10'', ''Shelter available''),
      (''T11'', ''Drowning / water rescue needed''),
      (''T12'', ''Water contamination''),
      (''T13'', ''Earthquake''),
      (''T14'', ''Gas leak''),
      (''T15'', ''Chemical spill / HAZMAT''),
      (''T16'', ''Vehicle accident''),
      (''T17'', ''Vehicle fire''),
      (''W01'', ''Storm approaching''),
      (''W02'', ''Visibility zero''),
      (''W03'', ''Extreme cold''),
      (''W04'', ''Extreme heat''),
      (''W05'', ''Air quality danger''),
      (''W06'', ''Tsunami / tidal surge warning''),
      (''S01'', ''Need water''),
      (''S02'', ''Need food''),
      (''S03'', ''Need medication''),
      (''S04'', ''Need battery / power''),
      (''S05'', ''Need fuel''),
      (''S06'', ''Need tools / equipment''),
      (''P01'', ''Stranded / stuck''),
      (''P02'', ''Evacuating toward''),
      (''P03'', ''Sheltering in place''),
      (''P04'', ''En route to''),
      (''P05'', ''At GPS coordinates''),
      (''P06'', ''Lost''),
      (''P07'', ''Group separated''),
      (''C01'', ''Send rescue''),
      (''C02'', ''Need transport''),
      (''C03'', ''Relay this message''),
      (''C04'', ''Confirm received''),
      (''C05'', ''How many people''),
      (''C06'', ''What is status''),
      (''C07'', ''Can you reach''),
      (''C08'', ''Rendezvous at''),
      (''R01'', ''Acknowledged''),
      (''R02'', ''Help coming''),
      (''R03'', ''ETA [minutes]''),
      (''R04'', ''Cannot assist''),
      (''R05'', ''Redirecting to''),
      (''R06'', ''Stand by''),
      (''R07'', ''Situation resolved / all clear''),
      (''D01'', ''This is a drill''),
      (''D02'', ''This is a test''),
      (''D03'', ''End of drill''),
      (''D04'', ''Ignore previous - sent in error''),
      (''L01'', ''Beer / drinks''),
      (''L02'', ''Coffee''),
      (''L03'', ''Food ready''),
      (''L04'', ''Summit reached''),
      (''L05'', ''At camp''),
      (''L06'', ''Running late''),
      (''L07'', ''Good signal here''),
      (''L08'', ''Photo opportunity''),
      (''L09'', ''Wildlife spotted''),
      (''L10'', ''Beautiful view''),
      (''L11'', ''Trail conditions good''),
      (''L12'', ''Trail conditions bad''),
      (''L13'', ''Need a break''),
      (''L14'', ''Heading home''),
      (''L15'', ''Good morning / check-in''),
      (''L16'', ''Good night''),
      (''L17'', ''Thank you''),
      (''L18'', ''Having fun''),
      (''L19'', ''Festival / event here''),
      (''L20'', ''Node test / ping''),
      (''X01'', ''Dangerous person / threat nearby''),
      (''X02'', ''Area unsafe - avoid''),
      (''X03'', ''Gunfire / explosions heard''),
      (''X04'', ''Civil unrest / crowd danger''),
      (''X05'', ''Theft / looting reported''),
      (''X06'', ''Authorities / emergency services present''),
      (''X07'', ''Checkpoint / road closure''),
      (''H01'', ''Have water available''),
      (''H02'', ''Have food available''),
      (''H03'', ''Have medical supplies''),
      (''H04'', ''Have power / charging''),
      (''H05'', ''Have fuel''),
      (''H06'', ''Have tools / equipment''),
      (''H07'', ''Have shelter / space for [N]pax''),
      (''H08'', ''Have transport / vehicle''),
      (''B01'', ''Automated distress beacon active''),
      (''B02'', ''Beacon acknowledged''),
      (''B03'', ''Cancel beacon - I am OK'')]"

definition mecp_event_label :: "string \<Rightarrow> string option" where
  "mecp_event_label mecp_code = map_of mecp_events mecp_code"

definition is_mecp_category_code :: "string \<Rightarrow> bool" where
  "is_mecp_category_code value \<longleftrightarrow>
     value \<in> {''M'', ''T'', ''W'', ''S'', ''P'', ''C'', ''R'', ''D'', ''L'', ''X'', ''H'', ''B''}"

subsection \<open>Decoding\<close>

record mecp_extras =
  mx_callsign :: "string option"
  mx_eta_minutes :: "nat option"
  mx_language :: "string option"
  mx_pax :: "nat option"
  mx_references :: "string list"
  mx_coordinates :: "(f64 \<times> f64) option"
  mx_timestamp :: "string option"

record mecp_code_detail =
  md_code :: string
  md_category :: string
  md_label :: string
  md_known :: bool

record mecp_message =
  mm_valid :: bool
  mm_severity :: "nat option"
  mm_codes :: "string list"
  mm_category :: "string option"
  mm_details :: string
  mm_raw :: string
  mm_byte_length :: nat
  mm_code_details :: "mecp_code_detail list"
  mm_extras :: mecp_extras
  mm_warnings :: "string list"

definition no_extras :: mecp_extras where
  "no_extras = \<lparr>mx_callsign = None, mx_eta_minutes = None, mx_language = None, mx_pax = None,
     mx_references = [], mx_coordinates = None, mx_timestamp = None\<rparr>"

definition invalid_mecp_message :: "string \<Rightarrow> string list \<Rightarrow> mecp_message" where
  "invalid_mecp_message raw warnings =
     \<lparr>mm_valid = False, mm_severity = None, mm_codes = [], mm_category = None, mm_details = [],
      mm_raw = raw, mm_byte_length = length raw, mm_code_details = [], mm_extras = no_extras,
      mm_warnings = warnings\<rparr>"

definition is_ascii_upper :: "char \<Rightarrow> bool" where
  "is_ascii_upper c \<longleftrightarrow> 65 \<le> code c \<and> code c \<le> 90"

fun is_mecp_code :: "string \<Rightarrow> bool" where
  "is_mecp_code [a, b, c] \<longleftrightarrow> is_ascii_upper a \<and> is_ascii_digit b \<and> is_ascii_digit c"
| "is_mecp_code _ \<longleftrightarrow> False"

definition parse_token_u16_prefix :: "string \<Rightarrow> string \<Rightarrow> nat option" where
  "parse_token_u16_prefix token sfx =
     (case or_else (strip_suffix_of sfx token)
             (strip_suffix_of (to_ascii_uppercase sfx) token) of
        None \<Rightarrow> None | Some value \<Rightarrow> parse_u16 value)"

text \<open>The codes at the front of the tokens, and the tokens that remain.\<close>

fun leading_codes :: "string list \<Rightarrow> string list \<times> string list" where
  "leading_codes [] = ([], [])"
| "leading_codes (token # tokens) =
     (let mcode = to_ascii_uppercase token
      in if is_mecp_code mcode
         then (let (codes, rest) = leading_codes tokens in (mcode # codes, rest))
         else ([], token # tokens))"

fun describe_codes ::
  "string list \<Rightarrow> mecp_code_detail list \<Rightarrow> string list \<Rightarrow> string + (mecp_code_detail list \<times> string list)"
  where
  "describe_codes [] details warnings = Inr (details, warnings)"
| "describe_codes (mcode # codes) details warnings =
     (let category = take 1 mcode
      in if \<not> is_mecp_category_code category
         then Inl (''Invalid MECP category '' @ CHR 0x22 # category @ [CHR 0x22, CHR ''.''])
         else
           (let label = mecp_event_label mcode;
                warnings = (if label = None
                  then warnings @ [''Unknown MECP event code '' @ CHR 0x22 # mcode @ [CHR 0x22, CHR ''.'']]
                  else warnings)
            in describe_codes codes
                 (details @ [\<lparr>md_code = mcode, md_category = category,
                    md_label = unwrap_or label mcode, md_known = (label \<noteq> None)\<rparr>]) warnings))"

text \<open>One token of the details; the state is the extras, the warnings and whether an ETA was read.\<close>

definition mecp_eta :: "string \<Rightarrow> nat option" where
  "mecp_eta lower =
     or_else (parse_u16 lower)
       (or_else (parse_token_u16_prefix lower ''m'') (parse_token_u16_prefix lower ''min''))"

definition eta_step ::
  "string list \<Rightarrow> string \<Rightarrow> mecp_extras \<times> string list \<times> bool \<Rightarrow> mecp_extras \<times> string list \<times> bool" where
  "eta_step codes token st =
     (case st of (extras, warnings, eta_consumed) \<Rightarrow>
        if \<not> eta_consumed \<and> ''R03'' \<in> set codes
        then (case mecp_eta (to_ascii_lowercase token) of
                None \<Rightarrow> (extras, warnings, eta_consumed)
              | Some eta \<Rightarrow> (extras\<lparr>mx_eta_minutes := Some eta\<rparr>, warnings, True))
        else (extras, warnings, eta_consumed))"

definition extra_step ::
  "string list \<Rightarrow> mecp_extras \<times> string list \<times> bool \<Rightarrow> string
     \<Rightarrow> mecp_extras \<times> string list \<times> bool" where
  "extra_step codes st token =
     (case st of (extras, warnings, eta_consumed) \<Rightarrow>
        (case filter_opt (\<lambda>value. value \<noteq> []) (strip_prefix ''~'' token) of
           Some value \<Rightarrow> (extras\<lparr>mx_callsign := Some value\<rparr>, warnings, eta_consumed)
         | None \<Rightarrow>
        (case filter_opt (\<lambda>value. value \<noteq> []) (strip_prefix ''#'' token) of
           Some value \<Rightarrow>
             (extras\<lparr>mx_references := mx_references extras @ [CHR ''#'' # value]\<rparr>, warnings, eta_consumed)
         | None \<Rightarrow>
        (case strip_prefix ''@'' token of
           Some value \<Rightarrow>
             (if length value = 4 \<and> list_all is_ascii_digit value
              then (extras\<lparr>mx_timestamp := Some value\<rparr>, warnings, eta_consumed)
              else if (length value = 2 \<or> length value = 3) \<and> list_all is_ascii_alpha value
              then (extras\<lparr>mx_language := Some (to_ascii_lowercase value)\<rparr>, warnings, eta_consumed)
              else (extras, warnings, eta_consumed))
         | None \<Rightarrow>
        (case parse_token_u16_prefix (to_ascii_lowercase token) ''pax'' of
           Some value \<Rightarrow> (extras\<lparr>mx_pax := Some value\<rparr>, warnings, eta_consumed)
         | None \<Rightarrow>
        (case split_once (CHR '','') token of
           Some (latitude, longitude) \<Rightarrow>
             (case (f64_parse latitude, f64_parse longitude) of
                (Some latitude, Some longitude) \<Rightarrow>
                  if f64_in (- 90) latitude 90 \<and> f64_in (- 180) longitude 180
                  then (extras\<lparr>mx_coordinates := Some (latitude, longitude)\<rparr>, warnings, eta_consumed)
                  else (extras,
                        warnings @ [''Coordinates outside valid range: '' @ CHR 0x22 # token @ [CHR 0x22, CHR ''.'']],
                        eta_consumed)
              | _ \<Rightarrow> eta_step codes token st)
         | None \<Rightarrow> eta_step codes token st))))))"

definition decode_mecp_message :: "string \<Rightarrow> mecp_message" where
  "decode_mecp_message input =
     (let raw = trim input;
          bad_header = invalid_mecp_message raw [''Invalid MECP severity or separator.'']
      in if strip_prefix MECP_PREFIX raw = None then invalid_mecp_message raw []
         else if \<not> (length raw > 5 \<and> is_ascii_digit (raw ! 5) \<and> code (raw ! 5) - 48 \<le> 3) then bad_header
         else if \<not> (length raw > 6 \<and> raw ! 6 = CHR ''/'') then bad_header
         else
           (let severity = code (raw ! 5) - 48;
                (codes, rest) = leading_codes (split_whitespace (drop 7 raw))
            in if codes = []
               then invalid_mecp_message raw [''MECP message does not contain an event code.'']
               else case describe_codes codes [] [] of
                 Inl warning \<Rightarrow> invalid_mecp_message raw [warning]
               | Inr (details, warnings) \<Rightarrow>
                   (let (extras, warnings, _) = foldl (extra_step codes) (no_extras, warnings, False) rest
                    in \<lparr>mm_valid = True, mm_severity = Some severity, mm_codes = codes,
                        mm_category = map_option md_category (case details of [] \<Rightarrow> None | d # _ \<Rightarrow> Some d),
                        mm_details = join '' '' rest, mm_raw = raw, mm_byte_length = length raw,
                        mm_code_details = details, mm_extras = extras, mm_warnings = warnings\<rparr>)))"

subsection \<open>Keywords and values\<close>

definition push_unique_keyword :: "string \<Rightarrow> string list \<Rightarrow> string list" where
  "push_unique_keyword keyword keywords =
     (if list_ex (\<lambda>existing. existing = keyword) keywords then keywords else keywords @ [keyword])"

definition append_mecp_keywords :: "string \<Rightarrow> string list \<Rightarrow> string list" where
  "append_mecp_keywords content keywords =
     (let decoded = decode_mecp_message content
      in if \<not> mm_valid decoded then keywords
         else
           (let keywords = (case mm_category decoded of None \<Rightarrow> keywords
                 | Some category \<Rightarrow> push_unique_keyword (''r3akt:event-type:'' @ category) keywords)
            in fold (\<lambda>mcode. push_unique_keyword (''r3akt:event-code:'' @ mcode)) (mm_codes decoded) keywords))"

definition jopt_nat :: "nat option \<Rightarrow> json" where
  "jopt_nat x = jopt_int (map_option int x)"

definition mecp_log_entry_value :: "string \<Rightarrow> json" where
  "mecp_log_entry_value content =
     (let decoded = decode_mecp_message content; extras = mm_extras decoded
      in if \<not> mm_valid decoded then JNull
         else
           (let category_label = (case mm_category decoded of None \<Rightarrow> ''MECP''
                  | Some category \<Rightarrow> mecp_category_label category);
                severity = unwrap_or (mm_severity decoded) 0
            in JObj [(''valid'', JBool (mm_valid decoded)),
                     (''severity'', jopt_nat (mm_severity decoded)),
                     (''codes'', jstrs (mm_codes decoded)),
                     (''category'', jopt (mm_category decoded)),
                     (''details'', JStr (mm_details decoded)),
                     (''raw'', JStr (mm_raw decoded)),
                     (''byte_length'', JInt (int (mm_byte_length decoded))),
                     (''code_details'', JArr (map (\<lambda>d.
                        JObj [(''code'', JStr (md_code d)), (''category'', JStr (md_category d)),
                              (''label'', JStr (md_label d)), (''known'', JBool (md_known d))])
                        (mm_code_details decoded))),
                     (''extras'',
                      JObj [(''callsign'', jopt (mx_callsign extras)),
                            (''eta_minutes'', jopt_nat (mx_eta_minutes extras)),
                            (''language'', jopt (mx_language extras)),
                            (''pax'', jopt_nat (mx_pax extras)),
                            (''references'', jstrs (mx_references extras)),
                            (''coordinates'',
                             (case mx_coordinates extras of None \<Rightarrow> JNull
                              | Some (latitude, longitude) \<Rightarrow>
                                  JObj [(''latitude'', jf64 latitude), (''longitude'', jf64 longitude)])),
                            (''timestamp'', jopt (mx_timestamp extras))]),
                     (''warnings'', jstrs (mm_warnings decoded)),
                     (''category_label'', JStr category_label),
                     (''severity_label'', JStr (mecp_severity_label severity)),
                     (''severity_status'', JStr (mecp_severity_status severity))]))"

subsection \<open>What a valid message holds\<close>

definition coordinates_in_range :: "mecp_extras \<Rightarrow> bool" where
  "coordinates_in_range x \<longleftrightarrow>
     (\<forall>lat lon. mx_coordinates x = Some (lat, lon) \<longrightarrow> f64_in (- 90) lat 90 \<and> f64_in (- 180) lon 180)"

lemma leading_codes_ok: "leading_codes tokens = (codes, rest) \<Longrightarrow> \<forall>c \<in> set codes. is_mecp_code c"
  by (induction tokens arbitrary: codes rest rule: leading_codes.induct)
     (auto simp: Let_def split: if_splits prod.splits)

lemma leading_codes_split:
  "leading_codes tokens = (codes, rest) \<Longrightarrow>
     map to_ascii_uppercase tokens = codes @ map to_ascii_uppercase rest"
  by (induction tokens arbitrary: codes rest rule: leading_codes.induct)
     (auto simp: Let_def split: if_splits prod.splits)

lemma leading_codes_maximal:
  "leading_codes tokens = (codes, t # rest) \<Longrightarrow> \<not> is_mecp_code (to_ascii_uppercase t)"
  by (induction tokens arbitrary: codes t rest rule: leading_codes.induct)
     (auto simp: Let_def split: if_splits prod.splits)

lemma describe_codes_ok:
  "describe_codes codes ds ws = Inr (details, warnings) \<Longrightarrow>
     map md_code details = map md_code ds @ codes
     \<and> (\<forall>c \<in> set codes. is_mecp_category_code (take 1 c))
     \<and> map md_category details = map md_category ds @ map (take 1) codes"
  by (induction codes ds ws rule: describe_codes.induct) (auto simp: Let_def split: if_splits)

lemma range_updates [simp]:
  "coordinates_in_range (x\<lparr>mx_callsign := a\<rparr>) = coordinates_in_range x"
  "coordinates_in_range (x\<lparr>mx_eta_minutes := b\<rparr>) = coordinates_in_range x"
  "coordinates_in_range (x\<lparr>mx_language := a\<rparr>) = coordinates_in_range x"
  "coordinates_in_range (x\<lparr>mx_pax := b\<rparr>) = coordinates_in_range x"
  "coordinates_in_range (x\<lparr>mx_references := d\<rparr>) = coordinates_in_range x"
  "coordinates_in_range (x\<lparr>mx_timestamp := a\<rparr>) = coordinates_in_range x"
  "coordinates_in_range (x\<lparr>mx_coordinates := Some (lat, lon)\<rparr>) \<longleftrightarrow>
     f64_in (- 90) lat 90 \<and> f64_in (- 180) lon 180"
  by (simp_all add: coordinates_in_range_def)

lemma eta_step_range: "coordinates_in_range x \<Longrightarrow> coordinates_in_range (fst (eta_step cs t (x, w, e)))"
  by (simp add: eta_step_def split: option.split)

lemma extra_step_range:
  assumes "coordinates_in_range (fst st)"
  shows "coordinates_in_range (fst (extra_step cs st t))"
proof -
  obtain x w e where st: "st = (x, w, e)" by (cases st)
  with assms have "coordinates_in_range x" by simp
  then show ?thesis
    unfolding extra_step_def st prod.case
    by (simp add: eta_step_range split: option.split)
qed

lemma extras_range:
  "coordinates_in_range (fst st) \<Longrightarrow> coordinates_in_range (fst (foldl (extra_step cs) st ts))"
  by (induction ts arbitrary: st) (auto simp: extra_step_range)

lemma extras_range_start:
  "foldl (extra_step cs) (no_extras, w, False) ts = (x, w', e) \<Longrightarrow> coordinates_in_range x"
  using extras_range [of "(no_extras, w, False)" cs ts]
  by (simp add: coordinates_in_range_def no_extras_def)

definition mecp_message_ok :: "mecp_message \<Rightarrow> bool" where
  "mecp_message_ok m \<longleftrightarrow>
     (\<exists>sev. mm_severity m = Some sev \<and> sev \<le> 3)
     \<and> mm_codes m \<noteq> []
     \<and> (\<forall>c \<in> set (mm_codes m). is_mecp_code c \<and> is_mecp_category_code (take 1 c))
     \<and> map md_code (mm_code_details m) = mm_codes m
     \<and> mm_category m = Some (take 1 (hd (mm_codes m)))
     \<and> coordinates_in_range (mm_extras m)"

lemma decode_mecp_valid:
  assumes "mm_valid (decode_mecp_message input)"
  shows "mecp_message_ok (decode_mecp_message input)"
proof -
  obtain codes rest where lc: "leading_codes (split_whitespace (drop 7 (trim input))) = (codes, rest)"
    by (cases "leading_codes (split_whitespace (drop 7 (trim input)))")
  from assms obtain details ws where
    sev: "code (trim input ! 5) - 48 \<le> 3" and ne: "codes \<noteq> []"
    and dc: "describe_codes codes [] [] = Inr (details, ws)"
    by (auto simp: decode_mecp_message_def Let_def lc invalid_mecp_message_def
             split: if_splits sum.splits)
  obtain x w e where fx: "foldl (extra_step codes) (no_extras, ws, False) rest = (x, w, e)"
    by (cases "foldl (extra_step codes) (no_extras, ws, False) rest")
  from describe_codes_ok [OF dc]
  have d: "map md_code details = codes" "map md_category details = map (take 1) codes"
    "\<forall>c \<in> set codes. is_mecp_category_code (take 1 c)" by auto
  with ne obtain d0 ds where ds: "details = d0 # ds" "md_category d0 = take 1 (hd codes)"
    by (cases details; cases codes) auto
  have "decode_mecp_message input =
      \<lparr>mm_valid = True, mm_severity = Some (code (trim input ! 5) - 48), mm_codes = codes,
       mm_category = Some (take 1 (hd codes)),
       mm_details = join '' '' rest, mm_raw = trim input, mm_byte_length = length (trim input),
       mm_code_details = details, mm_extras = x, mm_warnings = w\<rparr>"
    using assms ds
    by (auto simp: decode_mecp_message_def Let_def lc dc fx invalid_mecp_message_def split: if_splits)
  with sev ne d leading_codes_ok [OF lc] extras_range_start [OF fx] show ?thesis
    by (auto simp: mecp_message_ok_def)
qed

end
