(* ===== verification/Listings.thy ===== *)
theory Listings
  imports State Mecp
begin

text \<open>
  What the core shows of its state (\<open>crates/r3akt-rch-core/src/lib.rs\<close>): the sorted
  listings (\<open>topics\<close> to \<open>checklist_feed_publications\<close>) and the JSON of each record
  (\<open>marker_value\<close> to \<open>subscriber_value\<close>).  A listing sorts the values of a map by the
  keys the code compares, in that order; \<open>sort_key\<close> is stable, as \<open>sort_by\<close> is.
  Descending timestamps are ascending negated ones.
\<close>

subsection \<open>Helpers\<close>

definition jopt_f64 :: "f64 option \<Rightarrow> json" where
  "jopt_f64 x = (case x of None \<Rightarrow> JNull | Some y \<Rightarrow> jf64 y)"

text \<open>\<open>payload[key] = value\<close> on an object\<close>

definition jset :: "string \<Rightarrow> json \<Rightarrow> json \<Rightarrow> json" where
  "jset key value payload =
     (case payload of JObj ms \<Rightarrow> JObj (AList.update key value ms) | _ \<Rightarrow> payload)"

lemma jget_jset [simp]: "is_object v \<Longrightarrow> jget (jset k x v) k' = (if k' = k then Some x else jget v k')"
  by (cases v) (auto simp: jset_def jget_def is_object_def update_conv)

lemma sort_key_set [simp]: "set (sort_key f xs) = set xs"
  by simp

subsection \<open>Listings\<close>

text \<open>\<open>Option<String>\<close> is ordered with \<open>None\<close> first.\<close>

definition opt_key :: "string option \<Rightarrow> bool \<times> string" where
  "opt_key x = (case x of None \<Rightarrow> (False, []) | Some t \<Rightarrow> (True, t))"

definition list_topics :: "rch_core \<Rightarrow> topic_record list" where
  "list_topics s = sort_key (\<lambda>r. (tp_created_ts_ms r, tp_topic_id r)) (hm_values (topics s))"

definition list_subscribers :: "host \<Rightarrow> rch_core \<Rightarrow> string \<Rightarrow> subscriber_record list" where
  "list_subscribers h s topic_id =
     (case normalize_topic_id h (Some topic_id) of
        None \<Rightarrow> []
      | Some topic_id \<Rightarrow>
          sort_key sb_node_id
            (map snd (filter (\<lambda>((_, subscribed_topic), _). subscribed_topic = topic_id) (subscribers s))))"

definition list_clients :: "rch_core \<Rightarrow> client_record list" where
  "list_clients s = sort_key (\<lambda>r. cl_identity r) (hm_values (clients s))"

definition list_identity_announces :: "rch_core \<Rightarrow> identity_announce_record list" where
  "list_identity_announces s = sort_key (\<lambda>r. ia_destination_hash r) (hm_values (identity_announces s))"

definition list_identity_states :: "rch_core \<Rightarrow> identity_state_record list" where
  "list_identity_states s = sort_key (\<lambda>r. ist_identity r) (hm_values (identity_states s))"

definition list_identity_rem_modes :: "rch_core \<Rightarrow> identity_rem_mode_record list" where
  "list_identity_rem_modes s = sort_key (\<lambda>r. irm_identity r) (hm_values (identity_rem_modes s))"

definition list_markers :: "rch_core \<Rightarrow> marker_record list" where
  "list_markers s = sort_key (\<lambda>r. mk_object_destination_hash r) (hm_values (markers s))"

definition list_zones :: "rch_core \<Rightarrow> zone_record list" where
  "list_zones s = sort_key (\<lambda>r. zn_zone_id r) (hm_values (zones s))"

definition list_missions :: "rch_core \<Rightarrow> mission_record list" where
  "list_missions s = sort_key (\<lambda>r. (- mi_created_ts_ms r, mi_uid r)) (hm_values (missions s))"

definition list_mission_changes :: "rch_core \<Rightarrow> mission_change_record list" where
  "list_mission_changes s = sort_key (\<lambda>r. (- mc_timestamp_ms r, mc_uid r)) (hm_values (mission_changes s))"

definition list_log_entries :: "rch_core \<Rightarrow> log_entry_record list" where
  "list_log_entries s = sort_key (\<lambda>r. (- le_server_time_ms r, le_entry_uid r)) (hm_values (log_entries s))"

definition list_eam_snapshots :: "rch_core \<Rightarrow> eam_snapshot_record list" where
  "list_eam_snapshots s = sort_key (\<lambda>r. (ea_callsign r, ea_team_member_uid r)) (hm_values (eam_snapshots s))"

definition list_teams :: "rch_core \<Rightarrow> team_record list" where
  "list_teams s = sort_key (\<lambda>r. te_team_name r) (hm_values (teams s))"

definition list_team_members :: "rch_core \<Rightarrow> team_member_record list" where
  "list_team_members s = sort_key (\<lambda>r. tm_display_name r) (hm_values (team_members s))"

definition list_assets :: "rch_core \<Rightarrow> asset_record list" where
  "list_assets s = sort_key (\<lambda>r. at_name r) (hm_values (assets s))"

definition list_skills :: "rch_core \<Rightarrow> skill_record list" where
  "list_skills s = sort_key (\<lambda>r. sk_name r) (hm_values (skills s))"

definition list_team_member_skills :: "rch_core \<Rightarrow> team_member_skill_record list" where
  "list_team_member_skills s = sort_key (\<lambda>r. (ts_team_member_rns_identity r, ts_skill_uid r)) (hm_values (team_member_skills s))"

definition list_task_skill_requirements :: "rch_core \<Rightarrow> task_skill_requirement_record list" where
  "list_task_skill_requirements s = sort_key (\<lambda>r. (rq_task_uid r, rq_skill_uid r)) (hm_values (task_skill_requirements s))"

definition list_assignments :: "rch_core \<Rightarrow> assignment_record list" where
  "list_assignments s = sort_key (\<lambda>r. (- an_assigned_ts_ms r, an_assignment_uid r)) (hm_values (assignments s))"

definition list_checklists :: "rch_core \<Rightarrow> checklist_record list" where
  "list_checklists s = sort_key (\<lambda>r. ck_name r) (hm_values (checklists s))"

definition list_checklist_templates :: "rch_core \<Rightarrow> checklist_template_record list" where
  "list_checklist_templates s = sort_key (\<lambda>r. ct_template_name r) (hm_values (checklist_templates s))"

definition list_checklist_columns :: "rch_core \<Rightarrow> checklist_column_record list" where
  "list_checklist_columns s = sort_key (\<lambda>r. (opt_key (cc_checklist_uid r), opt_key (cc_template_uid r), cc_display_order r)) (hm_values (checklist_columns s))"

definition list_checklist_tasks :: "rch_core \<Rightarrow> checklist_task_record list" where
  "list_checklist_tasks s = sort_key (\<lambda>r. (tk_checklist_uid r, tk_number r)) (hm_values (checklist_tasks s))"

definition list_checklist_cells :: "rch_core \<Rightarrow> checklist_cell_record list" where
  "list_checklist_cells s = sort_key (\<lambda>r. (ce_task_uid r, ce_column_uid r)) (hm_values (checklist_cells s))"

definition list_checklist_feed_publications :: "rch_core \<Rightarrow> checklist_feed_publication_record list" where
  "list_checklist_feed_publications s = sort_key (\<lambda>r. (pb_checklist_uid r, - pb_published_ts_ms r, pb_publication_uid r)) (hm_values (checklist_feed_publications s))"

subsection \<open>Values\<close>

definition retention_value :: "retention_policy \<Rightarrow> json" where
  "retention_value r = JStr (case r of Ephemeral \<Rightarrow> ''ephemeral'' | Persistent \<Rightarrow> ''persistent'')"

definition visibility_value :: "visibility \<Rightarrow> json" where
  "visibility_value v = JStr (case v of Public \<Rightarrow> ''public'' | Restricted \<Rightarrow> ''restricted'')"

definition topic_value :: "topic_record \<Rightarrow> nat \<Rightarrow> json" where
  "topic_value topic subscriber_count =
     JObj [(''topic_id'', JStr (tp_topic_id topic)),
           (''TopicID'', JStr (tp_topic_id topic)),
           (''topic_name'', JStr (tp_topic_name topic)),
           (''TopicName'', JStr (tp_topic_name topic)),
           (''topic_path'', JStr (tp_topic_path topic)),
           (''TopicPath'', JStr (tp_topic_path topic)),
           (''topic_description'', JStr (tp_topic_description topic)),
           (''TopicDescription'', JStr (tp_topic_description topic)),
           (''visibility'', visibility_value (tp_visibility topic)),
           (''retention'', retention_value (tp_retention topic)),
           (''subscriber_count'', JInt (int subscriber_count)),
           (''SubscriberCount'', JInt (int subscriber_count)),
           (''created_ts'', JInt (tp_created_ts_ms topic)),
           (''last_activity_ts'', JInt (tp_last_activity_ts_ms topic))]"

definition subscriber_value :: "subscriber_record \<Rightarrow> json" where
  "subscriber_value subscriber =
     JObj [(''subscriber_id'', JStr (sb_node_id subscriber)),
           (''SubscriberID'', JStr (sb_node_id subscriber)),
           (''destination'', JStr (sb_node_id subscriber)),
           (''Destination'', JStr (sb_node_id subscriber)),
           (''topic_id'', JStr (sb_topic_id subscriber)),
           (''TopicID'', JStr (sb_topic_id subscriber)),
           (''reject_tests'', jopt_int (sb_reject_tests subscriber)),
           (''RejectTests'', jopt_int (sb_reject_tests subscriber)),
           (''metadata'', sb_metadata subscriber),
           (''Metadata'', sb_metadata subscriber)]"

definition topic_values :: "host \<Rightarrow> rch_core \<Rightarrow> json list" where
  "topic_values h s =
     map (\<lambda>topic. topic_value topic (length (list_subscribers h s (tp_topic_id topic)))) (list_topics s)"

definition client_values :: "rch_core \<Rightarrow> json list" where
  "client_values s =
     map (\<lambda>client. JObj [(''identity'', JStr (cl_identity client)),
           (''nickname'', jopt (cl_nickname client)),
           (''role'', JStr (cl_role client)),
           (''paused'', JBool (cl_paused client)),
           (''text_only'', JBool (cl_text_only client)),
           (''first_seen_ts_ms'', JInt (cl_first_seen_ts_ms client)),
           (''last_seen_ts_ms'', JInt (cl_last_seen_ts_ms client)),
           (''last_chat_ts_ms'', jopt_int (cl_last_chat_ts_ms client))]) (list_clients s)"

definition marker_value :: "host \<Rightarrow> marker_record \<Rightarrow> json" where
  "marker_value h marker =
     JObj [(''object_destination_hash'', JStr (mk_object_destination_hash marker)),
           (''origin_rch'', JStr (mk_origin_rch marker)),
           (''type'', JStr (mk_marker_type marker)),
           (''name'', JStr (mk_name marker)),
           (''category'', JStr (mk_category marker)),
           (''symbol'', JStr (mk_symbol marker)),
           (''notes'', jopt (mk_notes marker)),
           (''position'', JObj [(''lat'', jf64 (mk_lat marker)), (''lon'', jf64 (mk_lon marker))]),
           (''time'', JStr (millis_to_rfc3339 h (mk_updated_ts_ms marker))),
           (''stale_at'', JStr (millis_to_rfc3339 h (mk_updated_ts_ms marker))),
           (''created_at'', JStr (millis_to_rfc3339 h (mk_created_ts_ms marker))),
           (''updated_at'', JStr (millis_to_rfc3339 h (mk_updated_ts_ms marker)))]"

definition zone_value :: "host \<Rightarrow> zone_record \<Rightarrow> json" where
  "zone_value h zone =
     JObj [(''zone_id'', JStr (zn_zone_id zone)),
           (''name'', JStr (zn_name zone)),
           (''points'', JArr (map (\<lambda>point. JObj [(''lat'', jf64 (zp_lat point)), (''lon'', jf64 (zp_lon point))]) (zn_points zone))),
           (''created_at'', JStr (millis_to_rfc3339 h (zn_created_ts_ms zone))),
           (''updated_at'', JStr (millis_to_rfc3339 h (zn_updated_ts_ms zone)))]"

definition marker_values :: "host \<Rightarrow> rch_core \<Rightarrow> json list" where
  "marker_values h s = map (marker_value h) (list_markers s)"

definition zone_values :: "host \<Rightarrow> rch_core \<Rightarrow> json list" where
  "zone_values h s = map (zone_value h) (list_zones s)"

definition mission_zone_ids :: "rch_core \<Rightarrow> string \<Rightarrow> string list" where
  "mission_zone_ids s mission_uid =
     sort (map snd (filter (\<lambda>(linked_mission_uid, _). linked_mission_uid = mission_uid) (mission_zone_links s)))"

definition mission_marker_ids :: "rch_core \<Rightarrow> string \<Rightarrow> string list" where
  "mission_marker_ids s mission_uid =
     sort (map snd (filter (\<lambda>(linked_mission_uid, _). linked_mission_uid = mission_uid) (mission_marker_links s)))"

definition mission_children :: "rch_core \<Rightarrow> string \<Rightarrow> string list" where
  "mission_children s mission_uid =
     sort (map mi_uid (filter (\<lambda>mission. mi_parent_uid mission = Some mission_uid) (hm_values (missions s))))"

definition mission_value :: "host \<Rightarrow> rch_core \<Rightarrow> mission_record \<Rightarrow> json" where
  "mission_value h s mission =
     JObj [(''uid'', JStr (mi_uid mission)),
           (''mission_name'', JStr (mi_mission_name mission)),
           (''description'', JStr (mi_description mission)),
           (''topic_id'', jopt (mi_topic_id mission)),
           (''path'', jopt (mi_path mission)),
           (''classification'', jopt (mi_classification mission)),
           (''tool'', jopt (mi_tool mission)),
           (''keywords'', jstrs (mi_keywords mission)),
           (''parent_uid'', jopt (mi_parent_uid mission)),
           (''children'', jstrs (mission_children s (mi_uid mission))),
           (''feeds'', jstrs (mi_feeds mission)),
           (''zones'', jstrs (mission_zone_ids s (mi_uid mission))),
           (''markers'', jstrs (mission_marker_ids s (mi_uid mission))),
           (''password_hash'', jopt (mi_password_hash mission)),
           (''default_role'', jopt (mi_default_role mission)),
           (''mission_priority'', jopt_int (mi_mission_priority mission)),
           (''mission_status'', JStr (mi_mission_status mission)),
           (''owner_role'', jopt (mi_owner_role mission)),
           (''token'', jopt (mi_token mission)),
           (''invite_only'', JBool (mi_invite_only mission)),
           (''expiration'', jopt (mi_expiration mission)),
           (''mission_rde_role'', jopt (mi_mission_rde_role mission)),
           (''created_at'', JStr (millis_to_rfc3339 h (mi_created_ts_ms mission))),
           (''updated_at'', JStr (millis_to_rfc3339 h (mi_updated_ts_ms mission)))]"

definition mission_change_value :: "host \<Rightarrow> mission_change_record \<Rightarrow> json" where
  "mission_change_value h change =
     JObj [(''uid'', JStr (mc_uid change)),
           (''mission_uid'', JStr (mc_mission_uid change)),
           (''mission_id'', JStr (mc_mission_uid change)),
           (''name'', jopt (mc_name change)),
           (''team_member_rns_identity'', jopt (mc_team_member_rns_identity change)),
           (''timestamp'', JStr (millis_to_rfc3339 h (mc_timestamp_ms change))),
           (''notes'', jopt (mc_notes change)),
           (''change_type'', JStr (mc_change_type change)),
           (''is_federated_change'', JBool (mc_is_federated_change change)),
           (''hashes'', jstrs (mc_hashes change)),
           (''delta'', mc_delta change)]"

definition mission_change_values :: "host \<Rightarrow> rch_core \<Rightarrow> string option \<Rightarrow> json list" where
  "mission_change_values h s mission_uid =
     map (mission_change_value h)
       (filter (\<lambda>change. is_none_or mission_uid (\<lambda>uid. mc_mission_uid change = uid)) (list_mission_changes s))"

definition log_entry_value :: "host \<Rightarrow> log_entry_record \<Rightarrow> json" where
  "log_entry_value h entry =
     JObj [(''entry_uid'', JStr (le_entry_uid entry)),
           (''mission_uid'', JStr (le_mission_uid entry)),
           (''callsign'', jopt (le_callsign entry)),
           (''content'', JStr (le_content entry)),
           (''server_time'', JStr (millis_to_rfc3339 h (le_server_time_ms entry))),
           (''client_time'', jopt (le_client_time entry)),
           (''content_hashes'', jstrs (le_content_hashes entry)),
           (''keywords'', jstrs (le_keywords entry)),
           (''mecp'', mecp_log_entry_value (le_content entry)),
           (''created_at'', JStr (millis_to_rfc3339 h (le_created_ts_ms entry))),
           (''updated_at'', JStr (millis_to_rfc3339 h (le_updated_ts_ms entry)))]"

definition log_entry_values ::
  "host \<Rightarrow> rch_core \<Rightarrow> string option \<Rightarrow> string option \<Rightarrow> json list" where
  "log_entry_values h s mission_uid marker_ref =
     map (log_entry_value h)
       (filter (\<lambda>entry. is_none_or marker_ref (\<lambda>r. list_ex (\<lambda>hash. hash = r) (le_content_hashes entry)))
         (filter (\<lambda>entry. is_none_or mission_uid (\<lambda>uid. le_mission_uid entry = uid)) (list_log_entries s)))"

definition team_value :: "host \<Rightarrow> team_record \<Rightarrow> json" where
  "team_value h team =
     JObj [(''uid'', JStr (te_uid team)),
           (''mission_uid'', jopt (te_mission_uid team)),
           (''mission_uids'', jstrs (te_mission_uids team)),
           (''color'', jopt (te_color team)),
           (''team_name'', JStr (te_team_name team)),
           (''team_description'', JStr (te_team_description team)),
           (''created_at'', JStr (millis_to_rfc3339 h (te_created_ts_ms team))),
           (''updated_at'', JStr (millis_to_rfc3339 h (te_updated_ts_ms team)))]"

definition team_values :: "host \<Rightarrow> rch_core \<Rightarrow> string option \<Rightarrow> json list" where
  "team_values h s mission_uid =
     map (team_value h)
       (filter (\<lambda>team. is_none_or mission_uid (\<lambda>uid. list_ex (\<lambda>item. item = uid) (te_mission_uids team)))
         (list_teams s))"

definition team_mission_ids :: "rch_core \<Rightarrow> string \<Rightarrow> string list" where
  "team_mission_ids s team_uid =
     dedupe_non_empty
       (map fst (filter (\<lambda>(_, linked_team_uid). linked_team_uid = team_uid) (mission_team_links s))
        @ (case hm_get (teams s) team_uid of
             None \<Rightarrow> []
           | Some team \<Rightarrow> (case te_mission_uid team of None \<Rightarrow> [] | Some uid \<Rightarrow> [uid])))"

definition team_member_value :: "host \<Rightarrow> team_member_record \<Rightarrow> json" where
  "team_member_value h member =
     JObj [(''uid'', JStr (tm_uid member)),
           (''team_uid'', jopt (tm_team_uid member)),
           (''rns_identity'', JStr (tm_rns_identity member)),
           (''display_name'', JStr (tm_display_name member)),
           (''icon'', jopt (tm_icon member)),
           (''role'', jopt (tm_role member)),
           (''callsign'', jopt (tm_callsign member)),
           (''freq'', jopt_f64 (tm_freq member)),
           (''email'', jopt (tm_email member)),
           (''phone'', jopt (tm_phone member)),
           (''modulation'', jopt (tm_modulation member)),
           (''availability'', jopt (tm_availability member)),
           (''certifications'', jstrs (tm_certifications member)),
           (''last_active'', jopt (tm_last_active member)),
           (''client_identities'', jstrs (tm_client_identities member)),
           (''created_at'', JStr (millis_to_rfc3339 h (tm_created_ts_ms member))),
           (''updated_at'', JStr (millis_to_rfc3339 h (tm_updated_ts_ms member)))]"

definition team_member_values :: "host \<Rightarrow> rch_core \<Rightarrow> string option \<Rightarrow> json list" where
  "team_member_values h s team_uid =
     map (team_member_value h)
       (filter (\<lambda>member. is_none_or team_uid (\<lambda>uid. tm_team_uid member = Some uid)) (list_team_members s))"

definition member_mission_ids :: "rch_core \<Rightarrow> team_member_record \<Rightarrow> string list" where
  "member_mission_ids s member =
     (case tm_team_uid member of None \<Rightarrow> [] | Some team_uid \<Rightarrow> team_mission_ids s team_uid)"

definition team_member_subject_values :: "rch_core \<Rightarrow> string option \<Rightarrow> json list" where
  "team_member_subject_values s mission_uid =
     map (\<lambda>member.
            JObj [(''subject_type'', JStr ''team_member''),
                  (''subject_id'', JStr (tm_uid member)),
                  (''team_member_uid'', JStr (tm_uid member)),
                  (''rns_identity'', JStr (tm_rns_identity member)),
                  (''display_name'', JStr (tm_display_name member)),
                  (''team_uid'', jopt (tm_team_uid member)),
                  (''team_name'',
                   jopt (case tm_team_uid member of
                           None \<Rightarrow> None
                         | Some team_uid \<Rightarrow> map_option te_team_name (hm_get (teams s) team_uid))),
                  (''client_identities'', jstrs (tm_client_identities member)),
                  (''mission_uids'', jstrs (member_mission_ids s member))])
       (filter (\<lambda>member. is_none_or mission_uid
                  (\<lambda>uid. list_ex (\<lambda>item. item = uid) (member_mission_ids s member)))
         (list_team_members s))"

definition mission_access_assignment_value :: "mission_access_assignment \<Rightarrow> json" where
  "mission_access_assignment_value assignment =
     JObj [(''mission_uid'', JStr (ma_mission_uid assignment)),
           (''subject_type'', JStr (ma_subject_type assignment)),
           (''subject_id'', JStr (ma_subject_id assignment)),
           (''role'', JStr (ma_role assignment))]"

definition mission_access_assignment_records :: "rch_core \<Rightarrow> mission_access_assignment list" where
  "mission_access_assignment_records s =
     sort_key (\<lambda>r. (ma_mission_uid r, ma_subject_type r, ma_subject_id r))
       (hm_values (mission_access_assignments s))"

definition mission_access_assignment_values ::
  "rch_core \<Rightarrow> string option \<Rightarrow> string option \<Rightarrow> string option \<Rightarrow> json list" where
  "mission_access_assignment_values s mission_uid subject_type subject_id =
     (let normalized_subject_type =
            (case subject_type of None \<Rightarrow> None | Some value \<Rightarrow> ok (normalize_subject_type value));
          normalized_subject_id =
            (case (normalized_subject_type, subject_id) of
               (Some subject_type, Some subject_id) \<Rightarrow> ok (normalize_subject_id subject_type subject_id)
             | _ \<Rightarrow> None)
      in map mission_access_assignment_value
           (filter (\<lambda>assignment.
                 is_none_or mission_uid (\<lambda>uid. ma_mission_uid assignment = uid)
                 \<and> is_none_or normalized_subject_type (\<lambda>value. ma_subject_type assignment = value)
                 \<and> is_none_or normalized_subject_id (\<lambda>value. ma_subject_id assignment = value))
             (mission_access_assignment_records s)))"

definition asset_value :: "host \<Rightarrow> asset_record \<Rightarrow> json" where
  "asset_value h asset =
     JObj [(''asset_uid'', JStr (at_asset_uid asset)),
           (''team_member_uid'', jopt (at_team_member_uid asset)),
           (''name'', JStr (at_name asset)),
           (''asset_type'', JStr (at_asset_type asset)),
           (''serial_number'', jopt (at_serial_number asset)),
           (''status'', JStr (at_status asset)),
           (''location'', jopt (at_location asset)),
           (''notes'', jopt (at_notes asset)),
           (''created_at'', JStr (millis_to_rfc3339 h (at_created_ts_ms asset))),
           (''updated_at'', JStr (millis_to_rfc3339 h (at_updated_ts_ms asset)))]"

definition asset_values :: "host \<Rightarrow> rch_core \<Rightarrow> string option \<Rightarrow> json list" where
  "asset_values h s team_member_uid =
     map (asset_value h)
       (filter (\<lambda>asset. is_none_or team_member_uid (\<lambda>uid. at_team_member_uid asset = Some uid)) (list_assets s))"

definition skill_value :: "host \<Rightarrow> skill_record \<Rightarrow> json" where
  "skill_value h skill =
     JObj [(''skill_uid'', JStr (sk_skill_uid skill)),
           (''name'', JStr (sk_name skill)),
           (''category'', jopt (sk_category skill)),
           (''description'', jopt (sk_description skill)),
           (''proficiency_scale'', jopt (sk_proficiency_scale skill)),
           (''created_at'', JStr (millis_to_rfc3339 h (sk_created_ts_ms skill))),
           (''updated_at'', JStr (millis_to_rfc3339 h (sk_updated_ts_ms skill)))]"

definition skill_values :: "host \<Rightarrow> rch_core \<Rightarrow> json list" where
  "skill_values h s = map (skill_value h) (list_skills s)"

definition team_member_skill_value :: "team_member_skill_record \<Rightarrow> json" where
  "team_member_skill_value record =
     JObj [(''uid'', JStr (ts_uid record)),
           (''team_member_rns_identity'', JStr (ts_team_member_rns_identity record)),
           (''skill_uid'', JStr (ts_skill_uid record)),
           (''level'', JInt (ts_level record)),
           (''validated_by'', jopt (ts_validated_by record)),
           (''validated_at'', jopt (ts_validated_at record)),
           (''expires_at'', jopt (ts_expires_at record))]"

definition team_member_skill_values :: "rch_core \<Rightarrow> string option \<Rightarrow> json list" where
  "team_member_skill_values s identity =
     map team_member_skill_value
       (filter (\<lambda>record. is_none_or identity (\<lambda>identity. ts_team_member_rns_identity record = identity))
         (list_team_member_skills s))"

definition task_skill_requirement_value :: "task_skill_requirement_record \<Rightarrow> json" where
  "task_skill_requirement_value record =
     JObj [(''uid'', JStr (rq_uid record)),
           (''task_uid'', JStr (rq_task_uid record)),
           (''skill_uid'', JStr (rq_skill_uid record)),
           (''minimum_level'', JInt (rq_minimum_level record)),
           (''is_mandatory'', JBool (rq_is_mandatory record))]"

definition task_skill_requirement_values :: "rch_core \<Rightarrow> string option \<Rightarrow> json list" where
  "task_skill_requirement_values s task_uid =
     map task_skill_requirement_value
       (filter (\<lambda>record. is_none_or task_uid (\<lambda>task_uid. rq_task_uid record = task_uid))
         (list_task_skill_requirements s))"

definition assignment_assets :: "rch_core \<Rightarrow> string \<Rightarrow> string list \<Rightarrow> string list" where
  "assignment_assets s assignment_uid fallback_assets =
     (let assets = sort (map snd (filter (\<lambda>(linked, _). linked = assignment_uid) (assignment_asset_links s)))
      in if assets = [] then fallback_assets else assets)"

definition assignment_value :: "host \<Rightarrow> rch_core \<Rightarrow> assignment_record \<Rightarrow> json" where
  "assignment_value h s assignment =
     JObj [(''assignment_uid'', JStr (an_assignment_uid assignment)),
           (''mission_uid'', JStr (an_mission_uid assignment)),
           (''task_uid'', JStr (an_task_uid assignment)),
           (''team_member_rns_identity'', JStr (an_team_member_rns_identity assignment)),
           (''assigned_by'', jopt (an_assigned_by assignment)),
           (''assigned_at'', JStr (millis_to_rfc3339 h (an_assigned_ts_ms assignment))),
           (''due_dtg'', jopt (an_due_dtg assignment)),
           (''status'', JStr (an_status assignment)),
           (''notes'', jopt (an_notes assignment)),
           (''assets'', jstrs (assignment_assets s (an_assignment_uid assignment) (an_assets assignment)))]"

definition assignment_values :: "host \<Rightarrow> rch_core \<Rightarrow> string option \<Rightarrow> string option \<Rightarrow> json list" where
  "assignment_values h s mission_uid task_uid =
     map (assignment_value h s)
       (filter (\<lambda>record. is_none_or task_uid (\<lambda>uid. an_task_uid record = uid))
         (filter (\<lambda>record. is_none_or mission_uid (\<lambda>uid. an_mission_uid record = uid)) (list_assignments s)))"

subsection \<open>Checklist values\<close>

definition columns_for_checklist :: "rch_core \<Rightarrow> string \<Rightarrow> checklist_column_record list" where
  "columns_for_checklist s checklist_uid =
     sort_key cc_display_order
       (filter (\<lambda>column. cc_checklist_uid column = Some checklist_uid) (hm_values (checklist_columns s)))"

definition checklist_column_record_value :: "checklist_column_record \<Rightarrow> json" where
  "checklist_column_record_value column =
     JObj [(''column_uid'', JStr (cc_column_uid column)),
           (''column_name'', JStr (cc_column_name column)),
           (''display_order'', JInt (cc_display_order column)),
           (''column_type'', JStr (cc_column_type column)),
           (''column_editable'', JBool (cc_column_editable column)),
           (''background_color'', jopt (cc_background_color column)),
           (''text_color'', jopt (cc_text_color column)),
           (''is_removable'', JBool (cc_is_removable column)),
           (''system_key'', jopt (cc_system_key column))]"

definition checklist_column_values :: "rch_core \<Rightarrow> string \<Rightarrow> json list" where
  "checklist_column_values s checklist_uid =
     map checklist_column_record_value (columns_for_checklist s checklist_uid)"

definition template_column_values :: "rch_core \<Rightarrow> string \<Rightarrow> json list" where
  "template_column_values s template_uid =
     map checklist_column_record_value
       (sort_key cc_display_order
         (filter (\<lambda>column. cc_template_uid column = Some template_uid) (hm_values (checklist_columns s))))"

definition checklist_feed_publication_value :: "host \<Rightarrow> checklist_feed_publication_record \<Rightarrow> json" where
  "checklist_feed_publication_value h publication =
     JObj [(''publication_uid'', JStr (pb_publication_uid publication)),
           (''checklist_uid'', JStr (pb_checklist_uid publication)),
           (''mission_feed_uid'', JStr (pb_mission_feed_uid publication)),
           (''published_at'', JStr (millis_to_rfc3339 h (pb_published_ts_ms publication))),
           (''published_by_team_member_rns_identity'', JStr (pb_published_by_team_member_rns_identity publication))]"

definition checklist_feed_publication_values :: "host \<Rightarrow> rch_core \<Rightarrow> string \<Rightarrow> json list" where
  "checklist_feed_publication_values h s checklist_uid =
     map (checklist_feed_publication_value h)
       (sort_key (\<lambda>p. (- pb_published_ts_ms p, pb_publication_uid p))
         (filter (\<lambda>p. pb_checklist_uid p = checklist_uid) (hm_values (checklist_feed_publications s))))"

definition checklist_cell_values :: "host \<Rightarrow> rch_core \<Rightarrow> string \<Rightarrow> json list" where
  "checklist_cell_values h s task_uid =
     map (\<lambda>cell. JObj [(''cell_uid'', JStr (ce_cell_uid cell)),
           (''task_uid'', JStr (ce_task_uid cell)),
           (''column_uid'', JStr (ce_column_uid cell)),
           (''value'', jopt (ce_value cell)),
           (''updated_at'', JStr (millis_to_rfc3339 h (ce_updated_ts_ms cell))),
           (''updated_by_team_member_rns_identity'', jopt (ce_updated_by_team_member_rns_identity cell))])
       (sort_key ce_column_uid (filter (\<lambda>cell. ce_task_uid cell = task_uid) (hm_values (checklist_cells s))))"

definition checklist_task_values :: "host \<Rightarrow> rch_core \<Rightarrow> string \<Rightarrow> json list" where
  "checklist_task_values h s checklist_uid =
     map (\<lambda>task. JObj [(''task_uid'', JStr (tk_task_uid task)),
           (''number'', JInt (tk_number task)),
           (''user_status'', JStr (tk_user_status task)),
           (''task_status'', JStr (tk_task_status task)),
           (''is_late'', JBool (tk_is_late task)),
           (''custom_status'', jopt (tk_custom_status task)),
           (''due_relative_minutes'', jopt_int (tk_due_relative_minutes task)),
           (''due_dtg'', jopt (map_option (millis_to_rfc3339 h) (tk_due_ts_ms task))),
           (''notes'', jopt (tk_notes task)),
           (''row_background_color'', jopt (tk_row_background_color task)),
           (''line_break_enabled'', JBool (tk_line_break_enabled task)),
           (''completed_at'', jopt (map_option (millis_to_rfc3339 h) (tk_completed_ts_ms task))),
           (''completed_by_team_member_rns_identity'', jopt (tk_completed_by_team_member_rns_identity task)),
           (''legacy_value'', jopt (tk_legacy_value task)),
           (''cells'', JArr (checklist_cell_values h s (tk_task_uid task)))])
       (sort_key tk_number (filter (\<lambda>task. tk_checklist_uid task = checklist_uid) (hm_values (checklist_tasks s))))"

definition checklist_value :: "host \<Rightarrow> rch_core \<Rightarrow> checklist_record \<Rightarrow> json" where
  "checklist_value h s checklist =
     JObj [(''uid'', JStr (ck_uid checklist)),
           (''mission_id'', jopt (ck_mission_uid checklist)),
           (''mission_uid'', jopt (ck_mission_uid checklist)),
           (''template_uid'', jopt (ck_template_uid checklist)),
           (''template_version'', jopt_int (ck_template_version checklist)),
           (''template_name'', jopt (ck_template_name checklist)),
           (''name'', JStr (ck_name checklist)),
           (''description'', JStr (ck_description checklist)),
           (''start_time'', JStr (millis_to_rfc3339 h (ck_start_ts_ms checklist))),
           (''mode'', JStr (ck_mode checklist)),
           (''sync_state'', JStr (ck_sync_state checklist)),
           (''origin_type'', JStr (ck_origin_type checklist)),
           (''checklist_status'', JStr (ck_checklist_status checklist)),
           (''created_at'', JStr (millis_to_rfc3339 h (ck_created_ts_ms checklist))),
           (''created_by_team_member_rns_identity'', JStr (ck_created_by_team_member_rns_identity checklist)),
           (''updated_at'', JStr (millis_to_rfc3339 h (ck_updated_ts_ms checklist))),
           (''uploaded_at'', jopt (map_option (millis_to_rfc3339 h) (ck_uploaded_ts_ms checklist))),
           (''progress_percent'', jf64 (ck_progress_percent checklist)),
           (''counts'', JObj [(''pending_count'', JInt (ck_pending_count checklist)), (''late_count'', JInt (ck_late_count checklist)), (''complete_count'', JInt (ck_complete_count checklist))]),
           (''columns'', JArr (checklist_column_values s (ck_uid checklist))),
           (''tasks'', JArr (checklist_task_values h s (ck_uid checklist))),
           (''feed_publications'', JArr (checklist_feed_publication_values h s (ck_uid checklist)))]"

definition checklist_template_value :: "host \<Rightarrow> rch_core \<Rightarrow> checklist_template_record \<Rightarrow> json" where
  "checklist_template_value h s template =
     JObj [(''uid'', JStr (ct_uid template)),
           (''template_name'', JStr (ct_template_name template)),
           (''description'', JStr (ct_description template)),
           (''created_at'', JStr (millis_to_rfc3339 h (ct_created_ts_ms template))),
           (''created_by_team_member_rns_identity'', JStr (ct_created_by_team_member_rns_identity template)),
           (''updated_at'', JStr (millis_to_rfc3339 h (ct_updated_ts_ms template))),
           (''source_template_uid'', jopt (ct_source_template_uid template)),
           (''server_only'', JBool (ct_server_only template)),
           (''columns'', JArr (template_column_values s (ct_uid template)))]"

definition checklist_values :: "host \<Rightarrow> rch_core \<Rightarrow> json list" where
  "checklist_values h s = map (checklist_value h s) (list_checklists s)"

definition checklist_template_values :: "host \<Rightarrow> rch_core \<Rightarrow> json list" where
  "checklist_template_values h s = map (checklist_template_value h s) (list_checklist_templates s)"

subsection \<open>Missions with their parts\<close>

text \<open>
  The tokens of \<open>expand\<close>.  A value that is neither a string nor an array is printed as JSON by
  the code, which is none of the tokens.
\<close>

definition expand_tokens :: "string list" where
  "expand_tokens =
     [''topic'', ''teams'', ''team_members'', ''assets'', ''mission_changes'', ''log_entries'',
      ''assignments'', ''checklists'', ''mission_rde'']"

definition expand_aliases :: "(string list \<times> string) list" where
  "expand_aliases =
     [([''team''], ''teams''),
      ([''members'', ''member'', ''team_members'', ''teammembers''], ''team_members''),
      ([''changes'', ''change''], ''mission_changes''),
      ([''logs'', ''log'', ''entries''], ''log_entries''),
      ([''assignment''], ''assignments''),
      ([''checklist''], ''checklists''),
      ([''rde''], ''mission_rde'')]"

definition mission_expand_values :: "json \<Rightarrow> string list" where
  "mission_expand_values args =
     (case jget args ''expand'' of
        None \<Rightarrow> []
      | Some expand \<Rightarrow>
          (let raw_values = (case expand of
                 JStr text \<Rightarrow> split_on (CHR '','') text
               | JArr values \<Rightarrow> List.map_filter as_str values
               | _ \<Rightarrow> [])
           in fold (\<lambda>raw tokens.
                (let token = to_ascii_lowercase (trim raw)
                 in if token = [] then tokens
                    else
                      (let mapped = unwrap_or (first_arm expand_aliases token) token
                       in if mapped = ''all'' then hs_extend tokens expand_tokens
                          else if mapped \<in> set expand_tokens then hs_insert mapped tokens
                          else tokens)))
                raw_values []))"

definition mission_team_ids_for_expand :: "rch_core \<Rightarrow> string \<Rightarrow> string list" where
  "mission_team_ids_for_expand s mission_uid =
     dedupe_non_empty
       (map snd (filter (\<lambda>(linked_mission_uid, _). linked_mission_uid = mission_uid) (mission_team_links s))
        @ map te_uid (filter (\<lambda>team. te_mission_uid team = Some mission_uid) (hm_values (teams s))))"

definition mission_value_with_args ::
  "host \<Rightarrow> rch_core \<Rightarrow> mission_record \<Rightarrow> json \<Rightarrow> json" where
  "mission_value_with_args h s mission args =
     (let expand = mission_expand_values args;
          put = (\<lambda>token v payload. if token \<in> set expand then jset token v payload else payload);
          team_uids = mission_team_ids_for_expand s (mi_uid mission);
          members = filter (\<lambda>member. is_some_and (tm_team_uid member) (\<lambda>uid. uid \<in> set team_uids))
                      (list_team_members s);
          member_uids = map tm_uid members;
          payload = mission_value h s mission;
          payload = put ''topic''
            (case (case mi_topic_id mission of None \<Rightarrow> None | Some t \<Rightarrow> hm_get (topics s) t) of
               None \<Rightarrow> JNull
             | Some topic \<Rightarrow> topic_value topic (length (list_subscribers h s (tp_topic_id topic)))) payload;
          payload = put ''teams''
            (JArr (map (team_value h) (filter (\<lambda>team. te_uid team \<in> set team_uids) (list_teams s)))) payload;
          payload = put ''team_members'' (JArr (map (team_member_value h) members)) payload;
          payload = put ''assets''
            (JArr (map (asset_value h)
              (filter (\<lambda>asset. is_some_and (at_team_member_uid asset) (\<lambda>uid. uid \<in> set member_uids))
                (list_assets s)))) payload;
          payload = put ''mission_changes'' (JArr (mission_change_values h s (Some (mi_uid mission)))) payload;
          payload = put ''log_entries'' (JArr (log_entry_values h s (Some (mi_uid mission)) None)) payload;
          payload = put ''assignments'' (JArr (assignment_values h s (Some (mi_uid mission)) None)) payload;
          payload = put ''checklists''
            (JArr (map (checklist_value h s)
              (filter (\<lambda>checklist. ck_mission_uid checklist = Some (mi_uid mission)) (list_checklists s)))) payload
      in put ''mission_rde''
           (JObj [(''mission_uid'', JStr (mi_uid mission)), (''role'', jopt (mi_mission_rde_role mission)),
                  (''updated_at'', JStr (millis_to_rfc3339 h (mi_updated_ts_ms mission)))]) payload)"

definition limited_mission_values :: "host \<Rightarrow> rch_core \<Rightarrow> json \<Rightarrow> json list" where
  "limited_mission_values h s args =
     (let limit = (case (case jget args ''limit'' of None \<Rightarrow> None | Some v \<Rightarrow> value_as_i64 v) of
            None \<Rightarrow> 200 | Some value \<Rightarrow> nat (max 1 (min 2000 value)))
      in map (\<lambda>mission. mission_value_with_args h s mission args) (take limit (list_missions s)))"

end
