(* ===== verification/Authorization.thy ===== *)
theory Authorization
  imports Listings
begin

text \<open>
  Who may do what (\<open>crates/r3akt-rch-core/src/lib.rs\<close>, from \<open>set_authorization_required\<close>
  to \<open>candidate_checklist_mission_uid\<close>): capabilities of an identity, operation rights that
  grant or deny, mission roles, and the resolution of the effective operations of an identity.

  The lemmas state the resolution as a set: an operation is effective when a capability, a
  matching right or a matching role grants it and no matching right denies it, so a denial always
  wins; granting and revoking have exactly the effect they name.
\<close>

subsection \<open>Capabilities and rights\<close>

definition set_authorization_required :: "bool \<Rightarrow> rch_core \<Rightarrow> rch_core" where
  "set_authorization_required required s = s\<lparr>authorization_required := required\<rparr>"

definition capabilities_of :: "rch_core \<Rightarrow> string \<Rightarrow> string list" where
  "capabilities_of s identity = unwrap_or (hm_get (identity_capabilities s) identity) []"

definition grant_identity_capability :: "string \<Rightarrow> string \<Rightarrow> rch_core \<Rightarrow> rch_core" where
  "grant_identity_capability identity capability s =
     (case normalize_hash (Some identity) of
        None \<Rightarrow> s
      | Some identity \<Rightarrow>
          s\<lparr>identity_capabilities :=
              hm_insert identity (hs_insert capability (capabilities_of s identity))
                (identity_capabilities s)\<rparr>)"

definition revoke_identity_capability :: "string \<Rightarrow> string \<Rightarrow> rch_core \<Rightarrow> rch_core \<times> bool" where
  "revoke_identity_capability identity capability s =
     (case normalize_hash (Some identity) of
        None \<Rightarrow> (s, False)
      | Some identity \<Rightarrow>
          (case hm_get (identity_capabilities s) identity of
             None \<Rightarrow> (s, False)
           | Some capabilities \<Rightarrow>
               (let revoked = (capability \<in> set capabilities);
                    capabilities = hs_remove capability capabilities
                in (s\<lparr>identity_capabilities :=
                        (if capabilities = [] then hm_remove identity (identity_capabilities s)
                         else hm_insert identity capabilities (identity_capabilities s))\<rparr>,
                    revoked))))"

definition has_identity_capability :: "rch_core \<Rightarrow> string \<Rightarrow> string \<Rightarrow> bool" where
  "has_identity_capability s identity capability =
     is_some_and
       (case normalize_hash (Some identity) of
          None \<Rightarrow> None | Some identity \<Rightarrow> hm_get (identity_capabilities s) identity)
       (\<lambda>capabilities. capability \<in> set capabilities)"

definition upsert_operation_right ::
  "host \<Rightarrow> string \<Rightarrow> string \<Rightarrow> string \<Rightarrow> string \<Rightarrow> string \<Rightarrow> bool \<Rightarrow> rch_core
     \<Rightarrow> subject_operation_right op" where
  "upsert_operation_right h subject_type subject_id operation scope_type scope_id granted s =
     try_in s (normalize_subject_type subject_type) (\<lambda>subject_type.
     try_in s (normalize_subject_id subject_type subject_id) (\<lambda>subject_id.
     try_in s (required_non_empty operation ''operation'') (\<lambda>operation.
     try_in s (normalize_scope_type scope_type) (\<lambda>scope_type.
       (let scope_id = normalize_scope_id scope_type scope_id;
            key = (subject_type, subject_id, operation, scope_type, scope_id);
            (grant_uid, s) =
              or_new_uuid h s (map_option rt_grant_uid (hm_get (subject_operation_rights s) key));
            rec = \<lparr>rt_grant_uid = grant_uid, rt_subject_type = subject_type,
                   rt_subject_id = subject_id, rt_operation = operation,
                   rt_scope_type = scope_type, rt_scope_id = scope_id, rt_granted = granted\<rparr>
        in (s\<lparr>subject_operation_rights := hm_insert key rec (subject_operation_rights s)\<rparr>, Inr rec))))))"

definition grant_operation_right ::
  "host \<Rightarrow> string \<Rightarrow> string \<Rightarrow> string \<Rightarrow> string \<Rightarrow> string \<Rightarrow> rch_core \<Rightarrow> subject_operation_right op"
  where
  "grant_operation_right h subject_type subject_id operation scope_type scope_id s =
     upsert_operation_right h subject_type subject_id operation scope_type scope_id True s"

definition revoke_operation_right ::
  "host \<Rightarrow> string \<Rightarrow> string \<Rightarrow> string \<Rightarrow> string \<Rightarrow> string \<Rightarrow> rch_core \<Rightarrow> subject_operation_right op"
  where
  "revoke_operation_right h subject_type subject_id operation scope_type scope_id s =
     upsert_operation_right h subject_type subject_id operation scope_type scope_id False s"

definition assign_mission_access_role ::
  "string \<Rightarrow> string \<Rightarrow> string \<Rightarrow> string \<Rightarrow> rch_core \<Rightarrow> unit op" where
  "assign_mission_access_role mission_uid subject_type subject_id role s =
     try_in s (required_non_empty mission_uid ''mission_uid'') (\<lambda>mission_uid.
     try_in s (normalize_subject_type subject_type) (\<lambda>subject_type.
     try_in s (normalize_subject_id subject_type subject_id) (\<lambda>subject_id.
     try_in s (normalize_mission_role role ''role'') (\<lambda>role.
       (s\<lparr>mission_access_assignments :=
            hm_insert (mission_uid, subject_type, subject_id)
              \<lparr>ma_mission_uid = mission_uid, ma_subject_type = subject_type,
               ma_subject_id = subject_id, ma_role = role\<rparr>
              (mission_access_assignments s)\<rparr>, Inr ())))))"

subsection \<open>The effective operations of an identity\<close>

definition subject_refs_for_identity :: "rch_core \<Rightarrow> string \<Rightarrow> (string \<times> string) list" where
  "subject_refs_for_identity s identity =
     (case normalize_hash (Some identity) of
        None \<Rightarrow> []
      | Some identity \<Rightarrow>
          remdups_adj (sort
            ((''identity'', identity)
             # map (\<lambda>member. (''team_member'', tm_uid member))
                 (filter (\<lambda>member. normalize_hash (Some (tm_rns_identity member)) = Some identity)
                   (hm_values (team_members s)))
             @ map (\<lambda>(team_member_uid, _). (''team_member'', team_member_uid))
                 (filter (\<lambda>(_, client_identity). normalize_hash (Some client_identity) = Some identity)
                   (team_member_client_links s)))))"

definition matching_operation_rights ::
  "rch_core \<Rightarrow> (string \<times> string) list \<Rightarrow> string option \<Rightarrow> subject_operation_right list" where
  "matching_operation_rights s subject_refs mission_uid =
     filter (\<lambda>rec.
         list_ex (\<lambda>(subject_type, subject_id).
            subject_type = rt_subject_type rec \<and> subject_id = rt_subject_id rec) subject_refs
         \<and> (if rt_scope_type rec = ''global'' then True
            else if rt_scope_type rec = ''mission''
            then is_some_and mission_uid (\<lambda>mission_uid. mission_uid = rt_scope_id rec)
            else False))
       (hm_values (subject_operation_rights s))"

definition matching_mission_access_assignments ::
  "rch_core \<Rightarrow> (string \<times> string) list \<Rightarrow> string option \<Rightarrow> mission_access_assignment list" where
  "matching_mission_access_assignments s subject_refs mission_uid =
     filter (\<lambda>assignment.
         is_none_or mission_uid (\<lambda>mission_uid. ma_mission_uid assignment = mission_uid)
         \<and> list_ex (\<lambda>(subject_type, subject_id).
              subject_type = ma_subject_type assignment \<and> subject_id = ma_subject_id assignment)
            subject_refs)
       (hm_values (mission_access_assignments s))"

definition resolve_effective_operations :: "rch_core \<Rightarrow> string \<Rightarrow> string option \<Rightarrow> string list" where
  "resolve_effective_operations s identity mission_uid =
     (let subject_refs = subject_refs_for_identity s identity;
          mission_uid =
            (case mission_uid of
               None \<Rightarrow> None
             | Some value \<Rightarrow> (let value = trim value in if value = [] then None else Some value));
          granted_operations =
            (case normalize_hash (Some identity) of
               None \<Rightarrow> [] | Some identity \<Rightarrow> hs_extend [] (capabilities_of s identity));
          rights = matching_operation_rights s subject_refs mission_uid;
          granted_operations = hs_extend granted_operations (map rt_operation (filter rt_granted rights));
          denied_operations =
            hs_extend [] (map rt_operation (filter (\<lambda>rec. \<not> rt_granted rec) rights));
          granted_operations =
            hs_extend granted_operations
              (concat (map (\<lambda>assignment. mission_role_operations (ma_role assignment))
                (matching_mission_access_assignments s subject_refs mission_uid)))
      in sort (fold hs_remove denied_operations granted_operations))"

definition authorize_identity_operation :: "rch_core \<Rightarrow> string \<Rightarrow> string \<Rightarrow> string option \<Rightarrow> bool" where
  "authorize_identity_operation s identity operation mission_uid =
     list_ex (\<lambda>candidate. candidate = operation) (resolve_effective_operations s identity mission_uid)"

definition identity_has_mission_operation :: "rch_core \<Rightarrow> string \<Rightarrow> string \<Rightarrow> string \<Rightarrow> bool" where
  "identity_has_mission_operation s identity mission_uid operation =
     authorize_identity_operation s identity operation (Some mission_uid)"

subsection \<open>The missions a command is about\<close>

definition starts_with :: "string \<Rightarrow> string \<Rightarrow> bool" where
  "starts_with p s \<longleftrightarrow> take (length p) s = p"

definition mission_uids_for_topic :: "host \<Rightarrow> rch_core \<Rightarrow> string \<Rightarrow> string list" where
  "mission_uids_for_topic h s topic_id =
     (let normalized = normalize_topic_id h (Some topic_id)
      in map mi_uid
           (filter (\<lambda>mission. is_some_and normalized (\<lambda>topic_id. mi_topic_id mission = Some topic_id))
             (hm_values (missions s))))"

definition mission_uids_for_team_member :: "rch_core \<Rightarrow> string \<Rightarrow> string list" where
  "mission_uids_for_team_member s member_uid =
     (case hm_get (team_members s) member_uid of
        None \<Rightarrow> []
      | Some member \<Rightarrow>
          (case tm_team_uid member of None \<Rightarrow> [] | Some team_uid \<Rightarrow> team_mission_ids s team_uid))"

definition mission_uids_for_asset_upsert ::
  "rch_core \<Rightarrow> asset_record \<Rightarrow> string option \<Rightarrow> string list" where
  "mission_uids_for_asset_upsert s asset previous_team_member_uid =
     dedupe_non_empty
       ((case at_team_member_uid asset of None \<Rightarrow> [] | Some uid \<Rightarrow> mission_uids_for_team_member s uid)
        @ (case previous_team_member_uid of None \<Rightarrow> [] | Some uid \<Rightarrow> mission_uids_for_team_member s uid))"

definition mission_uids_for_asset_delete :: "rch_core \<Rightarrow> string \<Rightarrow> asset_record \<Rightarrow> string list" where
  "mission_uids_for_asset_delete s asset_uid asset =
     dedupe_non_empty
       ((case at_team_member_uid asset of None \<Rightarrow> [] | Some uid \<Rightarrow> mission_uids_for_team_member s uid)
        @ concat (map (\<lambda>(assignment_uid, linked_asset_uid).
             if linked_asset_uid = asset_uid
             then (case hm_get (assignments s) assignment_uid of
                     None \<Rightarrow> [] | Some assignment \<Rightarrow> [an_mission_uid assignment])
             else []) (assignment_asset_links s))
        @ map an_mission_uid
            (filter (\<lambda>assignment. list_ex (\<lambda>item. item = asset_uid) (an_assets assignment))
              (hm_values (assignments s))))"

definition candidate_mission_uids :: "host \<Rightarrow> rch_core \<Rightarrow> mission_command \<Rightarrow> string list" where
  "candidate_mission_uids h s command =
     (let args = cmd_args command; ctype = cmd_type command;
          from_mission =
            (case optional_text h args [''mission_uid'', ''mission_id''] of
               Some mission_uid \<Rightarrow> [mission_uid]
             | None \<Rightarrow>
                 if ctype = ''mission.registry.log_entry.upsert'' then [DEFAULT_LOG_MISSION_UID] else []);
          from_topic =
            (case optional_text h args [''topic_id'', ''id''] of
               None \<Rightarrow> [] | Some topic_id \<Rightarrow> mission_uids_for_topic h s topic_id);
          from_team =
            (if starts_with ''mission.registry.team.'' ctype \<or> starts_with ''mission.registry.eam.'' ctype
             then (case optional_text h args [''team_uid'', ''uid''] of
                     None \<Rightarrow> [] | Some team_uid \<Rightarrow> team_mission_ids s team_uid)
             else []);
          from_member =
            (if starts_with ''mission.registry.team_member.'' ctype
                \<or> starts_with ''mission.registry.eam.'' ctype
             then (case optional_text h args [''team_member_uid'', ''uid''] of
                     None \<Rightarrow> [] | Some member_uid \<Rightarrow> mission_uids_for_team_member s member_uid)
             else [])
      in sort (hs_extend [] (from_mission @ from_topic @ from_team @ from_member)))"

definition has_mission_access_operation :: "host \<Rightarrow> rch_core \<Rightarrow> mission_command \<Rightarrow> string \<Rightarrow> bool" where
  "has_mission_access_operation h s command operation =
     list_ex (\<lambda>mission_uid.
        identity_has_mission_operation s (src_rns_identity (cmd_source command)) mission_uid operation)
       (candidate_mission_uids h s command)"

definition candidate_checklist_mission_uid :: "host \<Rightarrow> rch_core \<Rightarrow> mission_command \<Rightarrow> string option" where
  "candidate_checklist_mission_uid h s command =
     (case optional_text h (cmd_args command) [''mission_uid'', ''mission_id''] of
        Some mission_uid \<Rightarrow> Some mission_uid
      | None \<Rightarrow>
          (case optional_text h (cmd_args command) [''checklist_uid''] of
             None \<Rightarrow> None
           | Some checklist_uid \<Rightarrow>
               (case hm_get (checklists s) checklist_uid of
                  None \<Rightarrow> None | Some checklist \<Rightarrow> ck_mission_uid checklist)))"

definition has_checklist_access_operation :: "host \<Rightarrow> rch_core \<Rightarrow> mission_command \<Rightarrow> string \<Rightarrow> bool" where
  "has_checklist_access_operation h s command operation =
     is_some_and (candidate_checklist_mission_uid h s command) (\<lambda>mission_uid.
       identity_has_mission_operation s (src_rns_identity (cmd_source command)) mission_uid operation)"

subsection \<open>The resolution as a set\<close>

text \<open>The rules of the resolution, one by one: what applies to an identity, grants it or denies it.\<close>

definition scoped_mission :: "string option \<Rightarrow> string option" where
  "scoped_mission mission_uid =
     (case mission_uid of None \<Rightarrow> None | Some v \<Rightarrow> if trim v = [] then None else Some (trim v))"

definition right_applies :: "rch_core \<Rightarrow> string \<Rightarrow> string option \<Rightarrow> subject_operation_right \<Rightarrow> bool" where
  "right_applies s identity mission_uid rec \<longleftrightarrow>
     rec \<in> set (hm_values (subject_operation_rights s))
     \<and> (rt_subject_type rec, rt_subject_id rec) \<in> set (subject_refs_for_identity s identity)
     \<and> (rt_scope_type rec = ''global''
        \<or> (rt_scope_type rec = ''mission'' \<and> scoped_mission mission_uid = Some (rt_scope_id rec)))"

definition role_applies :: "rch_core \<Rightarrow> string \<Rightarrow> string option \<Rightarrow> mission_access_assignment \<Rightarrow> bool" where
  "role_applies s identity mission_uid assignment \<longleftrightarrow>
     assignment \<in> set (hm_values (mission_access_assignments s))
     \<and> (ma_subject_type assignment, ma_subject_id assignment) \<in> set (subject_refs_for_identity s identity)
     \<and> (scoped_mission mission_uid = None \<or> scoped_mission mission_uid = Some (ma_mission_uid assignment))"

definition operation_granted :: "rch_core \<Rightarrow> string \<Rightarrow> string option \<Rightarrow> string \<Rightarrow> bool" where
  "operation_granted s identity mission_uid operation \<longleftrightarrow>
     has_identity_capability s identity operation
     \<or> (\<exists>rec. right_applies s identity mission_uid rec \<and> rt_granted rec \<and> rt_operation rec = operation)
     \<or> (\<exists>a. role_applies s identity mission_uid a \<and> operation \<in> set (mission_role_operations (ma_role a)))"

definition operation_denied :: "rch_core \<Rightarrow> string \<Rightarrow> string option \<Rightarrow> string \<Rightarrow> bool" where
  "operation_denied s identity mission_uid operation \<longleftrightarrow>
     (\<exists>rec. right_applies s identity mission_uid rec \<and> \<not> rt_granted rec \<and> rt_operation rec = operation)"

lemma fold_hs_remove_set: "set (fold hs_remove ds xs) = set xs - set ds"
  by (induction ds arbitrary: xs) auto

lemma matching_rights_iff:
  "rec \<in> set (matching_operation_rights s (subject_refs_for_identity s i) (scoped_mission m))
     \<longleftrightarrow> right_applies s i m rec"
  by (auto simp: matching_operation_rights_def right_applies_def list_ex_iff is_some_and_def
           split: option.splits)

lemma matching_access_iff:
  "a \<in> set (matching_mission_access_assignments s (subject_refs_for_identity s i) (scoped_mission m))
     \<longleftrightarrow> role_applies s i m a"
  by (auto simp: matching_mission_access_assignments_def role_applies_def list_ex_iff is_none_or_def
           split: option.splits)

lemma has_identity_capability_alt:
  "has_identity_capability s i c \<longleftrightarrow>
     (case normalize_hash (Some i) of None \<Rightarrow> False | Some i \<Rightarrow> c \<in> set (capabilities_of s i))"
  by (auto simp: has_identity_capability_def capabilities_of_def is_some_and_def unwrap_or_def
           split: option.splits)

lemma effective_operations_set:
  "set (resolve_effective_operations s i m) =
     {operation. operation_granted s i m operation \<and> \<not> operation_denied s i m operation}"
proof -
  have scope: "(case m of None \<Rightarrow> None
      | Some value \<Rightarrow> (if trim value = [] then None else Some (trim value))) = scoped_mission m"
    by (simp add: scoped_mission_def)
  have caps: "set (case normalize_hash (Some i) of
      None \<Rightarrow> [] | Some i \<Rightarrow> hs_extend [] (capabilities_of s i)) = {c. has_identity_capability s i c}"
    by (cases "normalize_hash (Some i)") (simp_all add: has_identity_capability_alt)
  have rights: "set (matching_operation_rights s (subject_refs_for_identity s i) (scoped_mission m))
      = {rec. right_applies s i m rec}"
    by (simp add: set_eq_iff matching_rights_iff)
  have access: "set (matching_mission_access_assignments s (subject_refs_for_identity s i) (scoped_mission m))
      = {a. role_applies s i m a}"
    by (simp add: set_eq_iff matching_access_iff)
  have "set (resolve_effective_operations s i m) =
     ({c. has_identity_capability s i c} \<union> rt_operation ` {rec. right_applies s i m rec \<and> rt_granted rec}
      \<union> (\<Union>a \<in> {a. role_applies s i m a}. set (mission_role_operations (ma_role a))))
     - rt_operation ` {rec. right_applies s i m rec \<and> \<not> rt_granted rec}"
    unfolding resolve_effective_operations_def Let_def
    by (simp add: scope fold_hs_remove_set caps rights access)
  also have "\<dots> = {operation. operation_granted s i m operation \<and> \<not> operation_denied s i m operation}"
    unfolding operation_granted_def operation_denied_def by blast
  finally show ?thesis .
qed

lemma authorize_iff:
  "authorize_identity_operation s i operation m \<longleftrightarrow>
     operation_granted s i m operation \<and> \<not> operation_denied s i m operation"
  using effective_operations_set [of s i m]
  by (auto simp: authorize_identity_operation_def list_ex_iff)

lemma effective_operations_sorted: "sorted (resolve_effective_operations s i m)"
  by (simp add: resolve_effective_operations_def Let_def)

lemma effective_operations_distinct: "distinct (resolve_effective_operations s i m)"
proof -
  have "distinct (fold hs_remove ds xs)" if "distinct xs" for ds xs :: "string list"
    using that by (induction ds arbitrary: xs) (auto simp: hs_remove_def distinct_removeAll)
  then show ?thesis
    by (simp add: resolve_effective_operations_def Let_def split: option.splits)
qed

lemma identity_is_its_own_subject:
  "normalize_hash (Some i) = Some n \<Longrightarrow> (''identity'', n) \<in> set (subject_refs_for_identity s i)"
  by (simp add: subject_refs_for_identity_def set_insort_key)

text \<open>What a right changes: the rights under its key, and the number of UUIDs drawn.\<close>

lemma upsert_operation_right_Inr:
  assumes "upsert_operation_right h ty sid operation sty scope g s = (s', Inr rec)"
  shows "subject_operation_rights s' =
           hm_insert (rt_subject_type rec, rt_subject_id rec, rt_operation rec,
                      rt_scope_type rec, rt_scope_id rec) rec (subject_operation_rights s)"
    and "normalize_subject_type ty = Inr (rt_subject_type rec)"
    and "normalize_subject_id (rt_subject_type rec) sid = Inr (rt_subject_id rec)"
    and "rt_operation rec = trim operation" and "normalize_scope_type sty = Inr (rt_scope_type rec)"
    and "rt_scope_id rec = normalize_scope_id (rt_scope_type rec) scope"
    and "rt_granted rec = g"
  using assms
  by (auto simp: upsert_operation_right_def Let_def result_eqs required_non_empty_Inr
           or_new_uuid_def new_uuid_def split: prod.splits option.splits)

lemma upsert_operation_right_frame:
  assumes "upsert_operation_right h ty sid operation sty scope g s = (s', r)"
  shows "team_members s' = team_members s" "team_member_client_links s' = team_member_client_links s"
    "identity_capabilities s' = identity_capabilities s"
    "mission_access_assignments s' = mission_access_assignments s"
  using assms
  by (auto simp: upsert_operation_right_def Let_def try_in_def or_new_uuid_def new_uuid_def
           split: prod.splits option.splits sum.splits)

end
