(* ===== verification/Roster.thy ===== *)
theory Roster
  imports Authorization
begin

text \<open>
  Identities and the roster of clients (\<open>crates/r3akt-rch-core/src/lib.rs\<close>:
  \<open>record_identity_announce\<close>, \<open>upsert_team_member_from_identity_announce\<close>,
  \<open>set_identity_state\<close>, \<open>set_identity_rem_mode\<close>, \<open>join_client\<close> to
  \<open>identity_blocked\<close>, \<open>apply_client_event_command\<close>).

  The invariant \<open>roster_ok\<close>: a client is stored under the normal form of its identity, every
  nickname is well formed, and no operation of a blocked identity adds it to the roster.
\<close>

subsection \<open>Identities\<close>

definition trimmed_non_empty :: "string option \<Rightarrow> string option" where
  "trimmed_non_empty value =
     (case value of None \<Rightarrow> None
      | Some value \<Rightarrow> (let value = trim value in if value = [] then None else Some value))"

definition record_identity_announce ::
  "host \<Rightarrow> string \<Rightarrow> string option \<Rightarrow> string option \<Rightarrow> string option \<Rightarrow> string list \<Rightarrow> rch_core
     \<Rightarrow> unit op" where
  "record_identity_announce h identity announced_identity_hash display_name source_interface
       announce_capabilities s =
     try_in s (ok_or (normalize_hash (Some identity)) (InvalidPayload ''identity is required'')) (\<lambda>destination_hash.
       (let announced_identity_hash = normalize_hash announced_identity_hash;
            display_name = trimmed_non_empty display_name;
            source_interface = map_option to_ascii_lowercase (trimmed_non_empty source_interface);
            announce_capabilities = normalize_announce_capabilities announce_capabilities;
            client_type = classify_client_type announce_capabilities;
            now = utc_now_ms h;
            rec = (case hm_get (identity_announces s) destination_hash of
                Some rec \<Rightarrow>
                  rec\<lparr>ia_last_seen_ts_ms := now,
                      ia_announced_identity_hash :=
                        or_else announced_identity_hash (ia_announced_identity_hash rec),
                      ia_display_name := or_else display_name (ia_display_name rec),
                      ia_source_interface := or_else source_interface (ia_source_interface rec),
                      ia_announce_capabilities :=
                        (if announce_capabilities \<noteq> [] then announce_capabilities
                         else ia_announce_capabilities rec),
                      ia_client_type :=
                        (if announce_capabilities \<noteq> [] then client_type else ia_client_type rec)\<rparr>
              | None \<Rightarrow>
                  \<lparr>ia_destination_hash = destination_hash,
                   ia_announced_identity_hash = announced_identity_hash,
                   ia_display_name = display_name, ia_source_interface = source_interface,
                   ia_announce_capabilities = announce_capabilities, ia_client_type = client_type,
                   ia_first_seen_ts_ms = now, ia_last_seen_ts_ms = now\<rparr>)
        in (s\<lparr>identity_announces := hm_insert destination_hash rec (identity_announces s)\<rparr>, Inr ())))"

definition team_member_client_ids :: "rch_core \<Rightarrow> string \<Rightarrow> string list" where
  "team_member_client_ids s uid =
     sort (map snd (filter (\<lambda>(member_uid, _). member_uid = uid) (team_member_client_links s)))"

definition announce_identity :: "identity_announce_record \<Rightarrow> string option" where
  "announce_identity announce =
     or_else (normalize_hash (ia_announced_identity_hash announce))
       (normalize_hash (Some (ia_destination_hash announce)))"

definition upsert_team_member_from_identity_announce ::
  "host \<Rightarrow> identity_announce_record \<Rightarrow> rch_core \<Rightarrow> team_member_record op" where
  "upsert_team_member_from_identity_announce h announce s =
     try_in s (ok_or (announce_identity announce) (InvalidPayload ''identity announce key is required'')) (\<lambda>identity.
       (let display_name = unwrap_or (trimmed_non_empty (ia_display_name announce)) identity;
            uid = unwrap_or
              (find_map (\<lambda>(uid, member).
                 if normalize_hash (Some (tm_rns_identity member)) = Some identity then Some uid else None)
                (team_members s)) identity;
            client_identities = team_member_client_ids s uid;
            now = utc_now_ms h;
            member = (case hm_get (team_members s) uid of
                Some member \<Rightarrow>
                  member\<lparr>tm_rns_identity := identity, tm_display_name := display_name,
                         tm_client_identities := client_identities, tm_updated_ts_ms := now\<rparr>
              | None \<Rightarrow>
                  \<lparr>tm_uid = uid, tm_team_uid = None, tm_rns_identity = identity,
                   tm_display_name = display_name, tm_icon = None, tm_role = None,
                   tm_callsign = None, tm_freq = None, tm_email = None, tm_phone = None,
                   tm_modulation = None, tm_availability = None, tm_certifications = [],
                   tm_last_active = None, tm_client_identities = client_identities,
                   tm_created_ts_ms = now, tm_updated_ts_ms = now\<rparr>)
        in (s\<lparr>team_members := hm_insert uid member (team_members s)\<rparr>, Inr member)))"

definition set_identity_state ::
  "host \<Rightarrow> string \<Rightarrow> bool \<Rightarrow> bool \<Rightarrow> rch_core \<Rightarrow> identity_state_record op" where
  "set_identity_state h identity is_banned is_blackholed s =
     try_in s (ok_or (normalize_hash (Some identity)) (InvalidPayload ''identity is required'')) (\<lambda>identity.
       (let rec = \<lparr>ist_identity = identity, ist_is_banned = is_banned,
                   ist_is_blackholed = is_blackholed, ist_updated_ts_ms = utc_now_ms h\<rparr>
        in (s\<lparr>identity_states := hm_insert identity rec (identity_states s)\<rparr>, Inr rec)))"

definition set_identity_rem_mode ::
  "host \<Rightarrow> string \<Rightarrow> string \<Rightarrow> rch_core \<Rightarrow> identity_rem_mode_record op" where
  "set_identity_rem_mode h identity mode s =
     try_in s (ok_or (normalize_hash (Some identity)) (InvalidPayload ''identity is required'')) (\<lambda>identity.
     try_in s (normalize_rem_mode mode) (\<lambda>mode.
       (let rec = \<lparr>irm_identity = identity, irm_mode = mode, irm_updated_ts_ms = utc_now_ms h\<rparr>
        in (s\<lparr>identity_rem_modes := hm_insert identity rec (identity_rem_modes s)\<rparr>, Inr rec))))"

definition identity_blocked :: "rch_core \<Rightarrow> string \<Rightarrow> bool" where
  "identity_blocked s identity =
     is_some_and (hm_get (identity_states s) identity)
       (\<lambda>state. ist_is_banned state \<or> ist_is_blackholed state)"

subsection \<open>The roster\<close>

definition DEFAULT_ROSTER_ROLE :: string where
  "DEFAULT_ROSTER_ROLE = ''user''"

definition nickname_char :: "char \<Rightarrow> bool" where
  "nickname_char c \<longleftrightarrow> is_ascii_alpha c \<or> is_ascii_digit c
     \<or> c = CHR ''_'' \<or> c = CHR ''-'' \<or> c = CHR ''.''"

definition normalize_roster_nickname :: "string \<Rightarrow> string result" where
  "normalize_roster_nickname value =
     and_then (required_non_empty value ''nickname'') (\<lambda>value.
       if char_count value > 32
       then Inl (InvalidPayload ''nickname cannot exceed 32 characters'')
       else if \<not> list_all nickname_char value
       then Inl (InvalidPayload
              ''nickname may contain only letters, numbers, underscore, dash, or dot'')
       else Inr value)"

definition join_client :: "host \<Rightarrow> string \<Rightarrow> rch_core \<Rightarrow> string op" where
  "join_client h identity s =
     (let display_identity = trim identity
      in try_in s (ok_or (normalize_hash (Some identity)) (InvalidPayload ''identity is required'')) (\<lambda>identity.
           if identity_blocked s identity
           then (s, Inl (Forbidden ''identity is banned or blackholed''))
           else
             (let now = utc_now_ms h;
                  client = (case hm_get (clients s) identity of
                      Some client \<Rightarrow>
                        client\<lparr>cl_identity := display_identity, cl_last_seen_ts_ms := now\<rparr>
                    | None \<Rightarrow>
                        \<lparr>cl_identity = display_identity, cl_first_seen_ts_ms = now,
                         cl_last_seen_ts_ms = now, cl_nickname = None,
                         cl_role = DEFAULT_ROSTER_ROLE, cl_paused = False, cl_text_only = False,
                         cl_last_chat_ts_ms = None\<rparr>)
              in (s\<lparr>clients := hm_insert identity client (clients s)\<rparr>, Inr identity))))"

definition leave_client :: "string \<Rightarrow> rch_core \<Rightarrow> (string \<times> bool) op" where
  "leave_client identity s =
     try_in s (ok_or (normalize_hash (Some identity)) (InvalidPayload ''identity is required'')) (\<lambda>identity.
       (s\<lparr>clients := hm_remove identity (clients s)\<rparr>, Inr (identity, hm_contains (clients s) identity)))"

definition ensure_roster_client :: "host \<Rightarrow> string \<Rightarrow> rch_core \<Rightarrow> string op" where
  "ensure_roster_client h identity s =
     try_in s (ok_or (normalize_hash (Some identity)) (InvalidPayload ''identity is required'')) (\<lambda>normalized.
       if hm_contains (clients s) normalized then (s, Inr normalized)
       else try_st (join_client h identity s) (\<lambda>s _. (s, Inr normalized)))"

text \<open>\<open>if let Some(client) = self.clients.get_mut(identity) { ... }\<close>\<close>

definition modify_client :: "string \<Rightarrow> (client_record \<Rightarrow> client_record) \<Rightarrow> rch_core \<Rightarrow> rch_core" where
  "modify_client identity f s =
     (case hm_get (clients s) identity of
        None \<Rightarrow> s | Some client \<Rightarrow> s\<lparr>clients := hm_insert identity (f client) (clients s)\<rparr>)"

definition pause_client :: "host \<Rightarrow> string \<Rightarrow> rch_core \<Rightarrow> string op" where
  "pause_client h identity s =
     try_st (ensure_roster_client h identity s) (\<lambda>s identity.
       (modify_client identity
          (\<lambda>client. client\<lparr>cl_paused := True, cl_last_seen_ts_ms := utc_now_ms h\<rparr>) s, Inr identity))"

definition resume_client :: "host \<Rightarrow> string \<Rightarrow> rch_core \<Rightarrow> string op" where
  "resume_client h identity s =
     try_st (ensure_roster_client h identity s) (\<lambda>s identity.
       (modify_client identity
          (\<lambda>client. client\<lparr>cl_paused := False, cl_last_seen_ts_ms := utc_now_ms h\<rparr>) s, Inr identity))"

definition set_client_nickname :: "host \<Rightarrow> string \<Rightarrow> string \<Rightarrow> rch_core \<Rightarrow> (string \<times> string) op" where
  "set_client_nickname h identity nickname s =
     try_st (ensure_roster_client h identity s) (\<lambda>s identity.
     try_in s (normalize_roster_nickname nickname) (\<lambda>nickname.
       (modify_client identity
          (\<lambda>client. client\<lparr>cl_nickname := Some nickname, cl_last_seen_ts_ms := utc_now_ms h\<rparr>) s,
        Inr (identity, nickname))))"

subsection \<open>Audit\<close>

definition record_audit_event :: "host \<Rightarrow> mission_command \<Rightarrow> event_envelope \<Rightarrow> rch_core \<Rightarrow> rch_core" where
  "record_audit_event h command ev s =
     (let (event_id, s) = new_uuid h s;
          rns = src_rns_identity (cmd_source command)
      in s\<lparr>audit_events := audit_events s @
             [\<lparr>ae_event_id = event_id, ae_event_type = ev_event_type ev,
               ae_command_type = cmd_type command, ae_command_id = cmd_id command,
               ae_source_identity = unwrap_or (normalize_hash (Some rns)) rns,
               ae_timestamp_ms = utc_now_ms h, ae_payload = ev_payload ev\<rparr>]\<rparr>)"

definition recent_audit_event_values :: "host \<Rightarrow> rch_core \<Rightarrow> nat \<Rightarrow> json list" where
  "recent_audit_event_values h s limit =
     map (\<lambda>event.
            JObj [(''id'', JStr (ae_event_id event)),
                  (''timestamp'', JStr (millis_to_rfc3339 h (ae_timestamp_ms event))),
                  (''type'', JStr ''mission_command_processed''),
                  (''message'', JStr ''mission command processed''),
                  (''metadata'',
                   JObj [(''command_id'', JStr (ae_command_id event)),
                         (''command_type'',
                          (if ae_command_type event = [] then JNull else JStr (ae_command_type event))),
                         (''identity'', JStr (ae_source_identity event)),
                         (''event_type'', JStr (ae_event_type event))]),
                  (''origin'', JNull)])
       (take limit (rev (audit_events s)))"

definition apply_client_event_command :: "host \<Rightarrow> mission_command \<Rightarrow> rch_core \<Rightarrow> event_envelope option op"
  where
  "apply_client_event_command h command s =
     (let rns = src_rns_identity (cmd_source command); ctype = cmd_type command
      in if ctype = ''mission.join'' then
           try_st (join_client h rns s) (\<lambda>s identity.
             (s, Inr (Some (event ''mission.joined'' command
                (JObj [(''identity'', JStr identity), (''joined'', JBool True)])))))
         else if ctype = ''mission.leave'' then
           try_st (leave_client rns s) (\<lambda>s (identity, left).
             (s, Inr (Some (event ''mission.left'' command
                (JObj [(''identity'', JStr identity), (''left'', JBool left)])))))
         else if ctype = ''mission.pause'' then
           try_st (pause_client h rns s) (\<lambda>s identity.
             (s, Inr (Some (event ''mission.paused'' command
                (JObj [(''identity'', JStr identity), (''paused'', JBool True)])))))
         else if ctype = ''mission.resume'' then
           try_st (resume_client h rns s) (\<lambda>s identity.
             (s, Inr (Some (event ''mission.resumed'' command
                (JObj [(''identity'', JStr identity), (''paused'', JBool False)])))))
         else if ctype = ''mission.nick'' then
           try_in s (required_text h (cmd_args command) [''nickname'', ''nick'', ''name'']) (\<lambda>nickname.
           try_st (set_client_nickname h rns nickname s) (\<lambda>s (identity, nickname).
             (s, Inr (Some (event ''mission.nickname.updated'' command
                (JObj [(''identity'', JStr identity), (''nickname'', JStr nickname)]))))))
         else if ctype = ''mission.users'' then
           (s, Inr (Some (event ''mission.users.listed'' command
              (JObj [(''users'', JArr (client_values s))]))))
         else if ctype = ''mission.events.list'' then
           (s, Inr (Some (event ''mission.events.listed'' command
              (JObj [(''events'', JArr (recent_audit_event_values h s 50))]))))
         else (s, Inl (UnsupportedCommand ctype)))"

subsection \<open>The roster invariant\<close>

definition nickname_ok :: "string \<Rightarrow> bool" where
  "nickname_ok n \<longleftrightarrow> n \<noteq> [] \<and> length n \<le> 32 \<and> list_all nickname_char n"

definition client_ok :: "string \<Rightarrow> client_record \<Rightarrow> bool" where
  "client_ok k c \<longleftrightarrow> normalize_hash (Some (cl_identity c)) = Some k
     \<and> (\<forall>n. cl_nickname c = Some n \<longrightarrow> nickname_ok n)"

definition roster_ok :: "rch_core \<Rightarrow> bool" where
  "roster_ok s \<longleftrightarrow> hm_wf (clients s) \<and> (\<forall>k c. hm_get (clients s) k = Some c \<longrightarrow> client_ok k c)"

lemma nickname_char_ascii: "nickname_char c \<Longrightarrow> \<not> is_continuation c"
  by (auto simp: nickname_char_def is_ascii_alpha_def is_ascii_digit_def is_continuation_def code_def)

lemma normalize_roster_nickname_Inr:
  assumes "normalize_roster_nickname v = Inr n"
  shows "n = trim v \<and> nickname_ok n"
proof -
  from assms have n: "n = trim v" "n \<noteq> []" "list_all nickname_char n" "char_count n \<le> 32"
    by (auto simp: normalize_roster_nickname_def result_eqs required_non_empty_Inr not_less
             split: if_splits)
  from n(3) have "filter (\<lambda>c. \<not> is_continuation c) n = n"
    by (simp add: filter_id_conv list_all_iff nickname_char_ascii)
  with n show ?thesis
    by (simp add: nickname_ok_def char_count_def)
qed

lemma normalize_hash_trim [simp]: "normalize_hash (Some (trim i)) = normalize_hash (Some i)"
  by (simp add: normalize_hash_def)

lemma roster_put: "roster_ok s \<Longrightarrow> client_ok k c \<Longrightarrow> roster_ok (s\<lparr>clients := hm_insert k c (clients s)\<rparr>)"
  by (simp add: roster_ok_def)

lemma roster_get: "roster_ok s \<Longrightarrow> hm_get (clients s) k = Some c \<Longrightarrow> client_ok k c"
  by (simp add: roster_ok_def)

lemma roster_modify:
  assumes "roster_ok s" and "\<And>c. client_ok k c \<Longrightarrow> client_ok k (f c)"
  shows "roster_ok (modify_client k f s)"
  using assms by (auto simp: modify_client_def roster_put roster_get split: option.splits)

lemma roster_join [keeps]: "roster_ok s \<Longrightarrow> leaves roster_ok (join_client h i s)"
  unfolding join_client_def Let_def
  by (intro keeps roster_put)
     (auto simp: client_ok_def result_eqs dest: roster_get split: option.splits)

lemma roster_leave [keeps]: "roster_ok s \<Longrightarrow> leaves roster_ok (leave_client i s)"
  unfolding leave_client_def by (intro keeps) (auto simp: roster_ok_def)

lemma roster_ensure [keeps]: "roster_ok s \<Longrightarrow> leaves roster_ok (ensure_roster_client h i s)"
  unfolding ensure_roster_client_def by (intro keeps)

lemma roster_pause [keeps]: "roster_ok s \<Longrightarrow> leaves roster_ok (pause_client h i s)"
  unfolding pause_client_def by (intro keeps roster_modify) (auto simp: client_ok_def)

lemma roster_resume [keeps]: "roster_ok s \<Longrightarrow> leaves roster_ok (resume_client h i s)"
  unfolding resume_client_def by (intro keeps roster_modify) (auto simp: client_ok_def)

lemma roster_nickname [keeps]: "roster_ok s \<Longrightarrow> leaves roster_ok (set_client_nickname h i n s)"
  unfolding set_client_nickname_def
  by (intro keeps roster_modify) (auto simp: client_ok_def dest: normalize_roster_nickname_Inr)

lemma roster_command [keeps]: "roster_ok s \<Longrightarrow> leaves roster_ok (apply_client_event_command h c s)"
  unfolding apply_client_event_command_def Let_def by (intro keeps)

text \<open>The client commands change nothing but the roster.\<close>

definition only_clients :: "rch_core \<Rightarrow> rch_core \<Rightarrow> bool" where
  "only_clients s t \<longleftrightarrow> (\<exists>c. t = s\<lparr>clients := c\<rparr>)"

lemma only_clients_refl [simp]: "only_clients s s"
  unfolding only_clients_def by (rule exI [of _ "clients s"]) simp

lemma only_clients_update [simp]: "only_clients s t \<Longrightarrow> only_clients s (t\<lparr>clients := c\<rparr>)"
  by (auto simp: only_clients_def)

lemma only_clients_modify [simp]: "only_clients s t \<Longrightarrow> only_clients s (modify_client k f t)"
  by (simp add: modify_client_def split: option.splits)

lemma client_command_frame: "leaves (only_clients s) (apply_client_event_command h c s)"
  unfolding apply_client_event_command_def join_client_def leave_client_def pause_client_def
    resume_client_def set_client_nickname_def ensure_roster_client_def Let_def
  by (intro keeps) auto

text \<open>A blocked identity does not enter the roster.\<close>

lemma join_blocked:
  "normalize_hash (Some i) = Some n \<Longrightarrow> identity_blocked s n \<Longrightarrow>
     join_client h i s = (s, Inl (Forbidden ''identity is banned or blackholed''))"
  by (simp add: join_client_def)

lemma modify_client_dom [simp]: "hm_contains (clients (modify_client k f s)) k' = hm_contains (clients s) k'"
  by (auto simp: modify_client_def hm_contains_def split: option.splits)

definition stays_out :: "string \<Rightarrow> rch_core \<Rightarrow> bool" where
  "stays_out n s \<longleftrightarrow> identity_blocked s n \<and> \<not> hm_contains (clients s) n"

lemma stays_out_modify [simp]: "stays_out n (modify_client k f s) = stays_out n s"
  by (auto simp: stays_out_def identity_blocked_def modify_client_def hm_contains_def split: option.splits)

lemma stays_out_join [keeps]: "stays_out n s \<Longrightarrow> leaves (stays_out n) (join_client h i s)"
  unfolding join_client_def Let_def
  by (intro keeps) (auto simp: stays_out_def identity_blocked_def)

lemma stays_out_remove [simp]: "stays_out n s \<Longrightarrow> stays_out n (s\<lparr>clients := hm_remove k (clients s)\<rparr>)"
  by (simp add: stays_out_def identity_blocked_def)

lemma stays_out_ensure [keeps]: "stays_out n s \<Longrightarrow> leaves (stays_out n) (ensure_roster_client h i s)"
  unfolding ensure_roster_client_def by (intro keeps)

lemma blocked_stays_out:
  "stays_out n s \<Longrightarrow> leaves (stays_out n) (apply_client_event_command h c s)"
  unfolding apply_client_event_command_def leave_client_def pause_client_def resume_client_def
    set_client_nickname_def Let_def
  by (intro keeps) auto

end
