(* ===== verification/Markers.thy ===== *)
theory Markers
  imports Roster
begin

text \<open>
  Map objects (\<open>crates/r3akt-rch-core/src/lib.rs\<close>: \<open>apply_marker_command\<close>,
  \<open>apply_zone_command\<close>, \<open>create_marker_from_args\<close> to \<open>delete_zone_from_args\<close>,
  \<open>required_zone_points\<close> to \<open>zone_is_self_intersecting\<close> and the marker symbols).

  The lemmas show that a stored zone is a polygon in range that does not cross itself, and that a
  stored marker has a supported symbol and type.
\<close>

subsection \<open>Zone polygons\<close>

definition MIN_ZONE_POINTS :: nat where "MIN_ZONE_POINTS = 3"
definition MAX_ZONE_POINTS :: nat where "MAX_ZONE_POINTS = 200"
definition COORD_EPSILON :: f64 where "COORD_EPSILON = round_f64 (1 / 1000000000)"

definition zone_points_equal :: "zone_point \<Rightarrow> zone_point \<Rightarrow> bool" where
  "zone_points_equal left right \<longleftrightarrow>
     f64_le (f64_abs (f64_sub (zp_lat left) (zp_lat right))) COORD_EPSILON
     \<and> f64_le (f64_abs (f64_sub (zp_lon left) (zp_lon right))) COORD_EPSILON"

definition zone_orientation :: "zone_point \<Rightarrow> zone_point \<Rightarrow> zone_point \<Rightarrow> f64" where
  "zone_orientation a b c =
     f64_sub (f64_mul (f64_sub (zp_lon b) (zp_lon a)) (f64_sub (zp_lat c) (zp_lat a)))
             (f64_mul (f64_sub (zp_lat b) (zp_lat a)) (f64_sub (zp_lon c) (zp_lon a)))"

definition zone_on_segment :: "zone_point \<Rightarrow> zone_point \<Rightarrow> zone_point \<Rightarrow> bool" where
  "zone_on_segment a b c \<longleftrightarrow>
     f64_le (f64_sub (f64_min (zp_lon a) (zp_lon c)) COORD_EPSILON) (zp_lon b)
     \<and> f64_le (zp_lon b) (f64_add (f64_max (zp_lon a) (zp_lon c)) COORD_EPSILON)
     \<and> f64_le (f64_sub (f64_min (zp_lat a) (zp_lat c)) COORD_EPSILON) (zp_lat b)
     \<and> f64_le (zp_lat b) (f64_add (f64_max (zp_lat a) (zp_lat c)) COORD_EPSILON)"

definition opposite_sides :: "f64 \<Rightarrow> f64 \<Rightarrow> bool" where
  "opposite_sides x y \<longleftrightarrow>
     (f64_lt COORD_EPSILON x \<and> f64_lt y (f64_neg COORD_EPSILON))
     \<or> (f64_lt x (f64_neg COORD_EPSILON) \<and> f64_lt COORD_EPSILON y)"

definition zone_segments_intersect ::
  "zone_point \<Rightarrow> zone_point \<Rightarrow> zone_point \<Rightarrow> zone_point \<Rightarrow> bool" where
  "zone_segments_intersect a1 a2 b1 b2 =
     (let o1 = zone_orientation a1 a2 b1; o2 = zone_orientation a1 a2 b2;
          o3 = zone_orientation b1 b2 a1; o4 = zone_orientation b1 b2 a2
      in if opposite_sides o1 o2 \<and> opposite_sides o3 o4 then True
         else if f64_le (f64_abs o1) COORD_EPSILON \<and> zone_on_segment a1 b1 a2 then True
         else if f64_le (f64_abs o2) COORD_EPSILON \<and> zone_on_segment a1 b2 a2 then True
         else if f64_le (f64_abs o3) COORD_EPSILON \<and> zone_on_segment b1 a1 b2 then True
         else if f64_le (f64_abs o4) COORD_EPSILON \<and> zone_on_segment b1 a2 b2 then True
         else False)"

definition zone_is_self_intersecting :: "zone_point list \<Rightarrow> bool" where
  "zone_is_self_intersecting points =
     (let edge_count = length points
      in list_ex (\<lambda>i.
           let a1 = points ! i; a2 = points ! (Suc i mod edge_count)
           in list_ex (\<lambda>j.
                if i = j \<or> Suc i mod edge_count = j \<or> i = Suc j mod edge_count then False
                else zone_segments_intersect a1 a2 (points ! j) (points ! (Suc j mod edge_count)))
              [Suc i..<edge_count])
         [0..<edge_count])"

fun check_zone_points :: "zone_point list \<Rightarrow> unit result" where
  "check_zone_points [] = Inr ()"
| "check_zone_points (point # points) =
     (if \<not> is_finite (zp_lat point) \<or> \<not> is_finite (zp_lon point)
      then Inl (InvalidPayload ''zone point lat/lon must be numeric'')
      else if f64_lt (zp_lat point) (Fin (- 90)) \<or> f64_lt (Fin 90) (zp_lat point)
      then Inl (InvalidPayload ''Zone point latitude must be between -90 and 90'')
      else if f64_lt (zp_lon point) (Fin (- 180)) \<or> f64_lt (Fin 180) (zp_lon point)
      then Inl (InvalidPayload ''Zone point longitude must be between -180 and 180'')
      else check_zone_points points)"

definition validate_zone_points :: "zone_point list \<Rightarrow> unit result" where
  "validate_zone_points points =
     (if points = [] then Inl (InvalidPayload ''Zone points are required'')
      else if length points < MIN_ZONE_POINTS
      then Inl (InvalidPayload (''Zone must contain at least '' @ show_nat MIN_ZONE_POINTS @ '' points''))
      else if length points > MAX_ZONE_POINTS
      then Inl (InvalidPayload (''Zone cannot contain more than '' @ show_nat MAX_ZONE_POINTS @ '' points''))
      else and_then (check_zone_points points) (\<lambda>_.
        if zone_is_self_intersecting points
        then Inl (InvalidPayload ''Zone polygon cannot self-intersect'') else Inr ()))"

definition zone_point_from :: "host \<Rightarrow> json \<Rightarrow> zone_point result" where
  "zone_point_from h point =
     (let field = (\<lambda>key. ok_or (case jget point key of None \<Rightarrow> None | Some v \<Rightarrow> value_as_f64 v)
                           (InvalidPayload ''zone point lat/lon must be numeric''))
      in and_then (field ''lat'') (\<lambda>lat. and_then (field ''lon'') (\<lambda>lon.
           Inr \<lparr>zp_lat = lat, zp_lon = lon\<rparr>)))"

definition drop_closing_point :: "zone_point list \<Rightarrow> zone_point list" where
  "drop_closing_point resolved =
     (if resolved \<noteq> [] \<and> zone_points_equal (hd resolved) (last resolved)
      then butlast resolved else resolved)"

definition required_zone_points :: "host \<Rightarrow> json \<Rightarrow> zone_point list result" where
  "required_zone_points h args =
     and_then (ok_or (case jget args ''points'' of None \<Rightarrow> None | Some v \<Rightarrow> as_array v)
        (InvalidPayload ''points must be a list'')) (\<lambda>points.
     and_then (collect_results (map (zone_point_from h) points)) (\<lambda>resolved.
       (let resolved = drop_closing_point resolved
        in and_then (validate_zone_points resolved) (\<lambda>_. Inr resolved))))"

subsection \<open>Marker symbols\<close>

text \<open>
  \<open>to_lowercase\<close> as far as the marker symbols see it: every character outside ASCII is a
  separator for them, save the two whose lower case starts with an ASCII letter, the Kelvin sign
  (U+212A) and the dotted capital I (U+0130).
\<close>

fun lowercase_symbol :: "string \<Rightarrow> string" where
  "lowercase_symbol [] = []"
| "lowercase_symbol [a] = [ascii_lower a]"
| "lowercase_symbol [a, b] =
     (if code a = 196 \<and> code b = 176 then [CHR ''i'', char_of (204::nat), char_of (135::nat)]
      else [ascii_lower a, ascii_lower b])"
| "lowercase_symbol (a # b # c # s) =
     (if code a = 226 \<and> code b = 132 \<and> code c = 170 then CHR ''k'' # lowercase_symbol s
      else if code a = 196 \<and> code b = 176
      then CHR ''i'' # char_of (204::nat) # char_of (135::nat) # lowercase_symbol (c # s)
      else ascii_lower a # lowercase_symbol (b # c # s))"

definition is_ascii_lower :: "char \<Rightarrow> bool" where
  "is_ascii_lower c \<longleftrightarrow> 97 \<le> code c \<and> code c \<le> 122"

definition segment_step :: "char \<Rightarrow> string \<times> bool \<Rightarrow> string \<times> bool" where
  "segment_step character st =
     (case st of (normalized, pending_separator) \<Rightarrow>
        if is_ascii_lower character \<or> is_ascii_digit character
        then ((if pending_separator \<and> normalized \<noteq> [] then normalized @ ''-'' else normalized)
                @ [character], False)
        else (normalized, True))"

definition normalize_marker_symbol_segment :: "string \<Rightarrow> string" where
  "normalize_marker_symbol_segment value =
     fst (fold segment_step (lowercase_symbol (trim value)) ([], False))"

definition marker_aliases :: "(string list \<times> string) list" where
  "marker_aliases =
     [([''pin'', ''location''], ''marker''),
      ([''car'', ''truck'', ''auto'', ''automobile''], ''vehicle''),
      ([''uav'', ''uas''], ''drone''),
      ([''wildlife'', ''pet''], ''animal''),
      ([''radar'', ''telemetry'', ''vehicle-sensor''], ''sensor''),
      ([''cctv''], ''camera''),
      ([''flame'', ''wildfire''], ''fire''),
      ([''water''], ''flood''),
      ([''human'', ''operator''], ''person''),
      ([''community'', ''group-community'', ''team''], ''group''),
      ([''building'', ''facility''], ''infrastructure''),
      ([''medical'', ''hospital''], ''medic''),
      ([''alarm'', ''warning''], ''alert''),
      ([''mission'', ''assignment''], ''task'')]"

definition normalize_marker_symbol :: "string \<Rightarrow> string option" where
  "normalize_marker_symbol symbol =
     (let raw = lowercase_symbol (trim symbol)
      in if raw = [] then None
         else
           (let normalized = join ''.'' (filter (\<lambda>segment. segment \<noteq> [])
                  (map normalize_marker_symbol_segment (split_on (CHR ''.'') raw)))
            in if normalized = [] then None
               else Some (unwrap_or (first_arm marker_aliases normalized) normalized)))"

definition supported_marker_symbols :: "string list" where
  "supported_marker_symbols =
     [''marker'', ''friendly'', ''hostile'', ''neutral'', ''unknown'', ''vehicle'', ''drone'',
      ''animal'', ''sensor'', ''radio'', ''antenna'', ''camera'', ''fire'', ''flood'', ''person'',
      ''group'', ''infrastructure'', ''medic'', ''alert'', ''task'']"

definition is_supported_marker_symbol :: "string \<Rightarrow> bool" where
  "is_supported_marker_symbol symbol \<longleftrightarrow> symbol \<in> set supported_marker_symbols"

subsection \<open>Markers\<close>

definition create_marker_from_args :: "host \<Rightarrow> mission_command \<Rightarrow> json \<Rightarrow> rch_core \<Rightarrow> marker_record op" where
  "create_marker_from_args h command args s =
     try_in s (required_f64 args ''lat'') (\<lambda>lat.
     try_in s (required_f64 args ''lon'') (\<lambda>lon.
       (let (local_id, s) = new_uuid h s;
            (object_destination_hash, s) = new_uuid h s;
            now = utc_now_ms h;
            marker_type = unwrap_or (normalize_marker_symbol
              (unwrap_or (optional_text h args [''marker_type'', ''type'']) ''marker'')) ''marker''
        in if \<not> is_supported_marker_symbol marker_type
           then (s, Inl (InvalidPayload ''Unsupported marker type''))
           else
             (let symbol = unwrap_or (normalize_marker_symbol
                    (unwrap_or (optional_text h args [''symbol'']) ''marker'')) ''marker''
              in if \<not> is_supported_marker_symbol symbol
                 then (s, Inl (InvalidPayload ''Unsupported marker symbol''))
                 else
                   (let category = unwrap_or (normalize_marker_symbol
                          (unwrap_or (optional_text h args [''category'']) ''marker'')) [];
                        category = (if category = [] then symbol else category);
                        marker = \<lparr>mk_local_id = local_id,
                          mk_object_destination_hash = object_destination_hash,
                          mk_origin_rch =
                            unwrap_or (normalize_hash (Some (src_rns_identity (cmd_source command)))) [],
                          mk_marker_type = marker_type, mk_symbol = symbol,
                          mk_name = unwrap_or (optional_text h args [''name'']) ''Marker'',
                          mk_category = category, mk_lat = lat, mk_lon = lon,
                          mk_notes = optional_text h args [''notes''],
                          mk_created_ts_ms = now, mk_updated_ts_ms = now\<rparr>
                    in (s\<lparr>markers := hm_insert object_destination_hash marker (markers s)\<rparr>,
                        Inr marker))))))"

definition marker_hash_from_args :: "host \<Rightarrow> json \<Rightarrow> string result" where
  "marker_hash_from_args h args =
     and_then (required_text h args [''object_destination_hash'']) (\<lambda>marker_hash.
       ok_or (normalize_hash (Some marker_hash)) (InvalidPayload ''object_destination_hash is required''))"

definition patch_marker_position_from_args :: "host \<Rightarrow> json \<Rightarrow> rch_core \<Rightarrow> marker_record op" where
  "patch_marker_position_from_args h args s =
     try_in s (marker_hash_from_args h args) (\<lambda>marker_hash.
     try_in s (required_f64 args ''lat'') (\<lambda>lat.
     try_in s (required_f64 args ''lon'') (\<lambda>lon.
     try_in s (ok_or (hm_get (markers s) marker_hash) TopicNotFound) (\<lambda>marker.
       (let marker = marker\<lparr>mk_lat := lat, mk_lon := lon, mk_updated_ts_ms := utc_now_ms h\<rparr>
        in (s\<lparr>markers := hm_insert marker_hash marker (markers s)\<rparr>, Inr marker))))))"

definition patch_marker_from_args :: "host \<Rightarrow> json \<Rightarrow> rch_core \<Rightarrow> marker_record op" where
  "patch_marker_from_args h args s =
     try_in s (marker_hash_from_args h args) (\<lambda>marker_hash.
     try_in s (ok_or (hm_get (markers s) marker_hash) TopicNotFound) (\<lambda>marker.
     try_in s (case optional_text h args [''name''] of
          None \<Rightarrow> Inr marker
        | Some name \<Rightarrow>
            if trim name = [] then Inl (InvalidPayload ''Marker name is required'')
            else Inr (marker\<lparr>mk_name := trim name\<rparr>)) (\<lambda>marker.
       (let marker = marker\<lparr>mk_updated_ts_ms := utc_now_ms h\<rparr>
        in (s\<lparr>markers := hm_insert marker_hash marker (markers s)\<rparr>, Inr marker)))))"

definition delete_marker_from_args :: "host \<Rightarrow> json \<Rightarrow> rch_core \<Rightarrow> marker_record op" where
  "delete_marker_from_args h args s =
     try_in s (marker_hash_from_args h args) (\<lambda>marker_hash.
     try_in s (ok_or (hm_get (markers s) marker_hash) TopicNotFound) (\<lambda>marker.
       (s\<lparr>markers := hm_remove marker_hash (markers s)\<rparr>, Inr marker)))"

definition apply_marker_command :: "host \<Rightarrow> mission_command \<Rightarrow> rch_core \<Rightarrow> event_envelope option op" where
  "apply_marker_command h command s =
     (let args = cmd_args command; ctype = cmd_type command;
          done = (\<lambda>name s marker. (s, Inr (Some (event name command (marker_value h marker)))))
      in if ctype = ''mission.marker.list'' then
           (s, Inr (Some (event ''mission.marker.listed'' command
              (JObj [(''markers'', JArr (marker_values h s))]))))
         else if ctype = ''mission.marker.create'' then
           try_st (create_marker_from_args h command args s) (done ''mission.marker.created'')
         else if ctype = ''mission.marker.position.patch'' then
           try_st (patch_marker_position_from_args h args s) (done ''mission.marker.position.updated'')
         else if ctype = ''mission.marker.patch'' then
           try_st (patch_marker_from_args h args s) (done ''mission.marker.updated'')
         else if ctype = ''mission.marker.delete'' then
           try_st (delete_marker_from_args h args s) (done ''mission.marker.deleted'')
         else (s, Inl (UnsupportedCommand ctype)))"

subsection \<open>Zones\<close>

text \<open>
  The UUID of a new zone is drawn before its points are read; patching renames the zone in place
  before its points are read.
\<close>

definition create_zone_from_args :: "host \<Rightarrow> json \<Rightarrow> rch_core \<Rightarrow> zone_record op" where
  "create_zone_from_args h args s =
     (let now = utc_now_ms h; (zone_id, s) = new_uuid h s
      in try_in s (required_zone_points h args) (\<lambda>points.
           (let zone = \<lparr>zn_zone_id = zone_id,
                  zn_name = unwrap_or (optional_text h args [''name'']) ''Zone'',
                  zn_points = points, zn_created_ts_ms = now, zn_updated_ts_ms = now\<rparr>
            in (s\<lparr>zones := hm_insert zone_id zone (zones s)\<rparr>, Inr zone))))"

definition patch_zone_from_args :: "host \<Rightarrow> json \<Rightarrow> rch_core \<Rightarrow> zone_record op" where
  "patch_zone_from_args h args s =
     try_in s (required_text h args [''zone_id'']) (\<lambda>zone_id.
     try_in s (ok_or (hm_get (zones s) zone_id) TopicNotFound) (\<lambda>zone.
       (let zone = (case optional_text h args [''name''] of
              None \<Rightarrow> zone | Some name \<Rightarrow> zone\<lparr>zn_name := name\<rparr>);
            s = s\<lparr>zones := hm_insert zone_id zone (zones s)\<rparr>
        in try_in s (if has_key args ''points'' then required_zone_points h args
                     else Inr (zn_points zone)) (\<lambda>points.
             (let zone = zone\<lparr>zn_points := points, zn_updated_ts_ms := utc_now_ms h\<rparr>
              in (s\<lparr>zones := hm_insert zone_id zone (zones s)\<rparr>, Inr zone))))))"

definition delete_zone_from_args :: "host \<Rightarrow> json \<Rightarrow> rch_core \<Rightarrow> zone_record op" where
  "delete_zone_from_args h args s =
     try_in s (required_text h args [''zone_id'']) (\<lambda>zone_id.
     try_in s (ok_or (hm_get (zones s) zone_id) TopicNotFound) (\<lambda>zone.
       (s\<lparr>zones := hm_remove zone_id (zones s)\<rparr>, Inr zone)))"

definition apply_zone_command :: "host \<Rightarrow> mission_command \<Rightarrow> rch_core \<Rightarrow> event_envelope option op" where
  "apply_zone_command h command s =
     (let args = cmd_args command; ctype = cmd_type command;
          done = (\<lambda>name s zone. (s, Inr (Some (event name command (zone_value h zone)))))
      in if ctype = ''mission.zone.list'' then
           (s, Inr (Some (event ''mission.zone.listed'' command
              (JObj [(''zones'', JArr (zone_values h s))]))))
         else if ctype = ''mission.zone.create'' then
           try_st (create_zone_from_args h args s) (done ''mission.zone.created'')
         else if ctype = ''mission.zone.patch'' then
           try_st (patch_zone_from_args h args s) (done ''mission.zone.updated'')
         else if ctype = ''mission.zone.delete'' then
           try_st (delete_zone_from_args h args s) (done ''mission.zone.deleted'')
         else (s, Inl (UnsupportedCommand ctype)))"

subsection \<open>Stored zones are polygons\<close>

definition point_in_range :: "zone_point \<Rightarrow> bool" where
  "point_in_range p \<longleftrightarrow>
     (\<exists>lat lon. zp_lat p = Fin lat \<and> zp_lon p = Fin lon
        \<and> - 90 \<le> lat \<and> lat \<le> 90 \<and> - 180 \<le> lon \<and> lon \<le> 180)"

text \<open>Two edges, by the index of their first point, that share no end point cross.\<close>

definition edges_cross :: "zone_point list \<Rightarrow> nat \<Rightarrow> nat \<Rightarrow> bool" where
  "edges_cross ps i j \<longleftrightarrow>
     Suc i mod length ps \<noteq> j \<and> Suc j mod length ps \<noteq> i
     \<and> zone_segments_intersect (ps ! i) (ps ! (Suc i mod length ps)) (ps ! j) (ps ! (Suc j mod length ps))"

definition simple_polygon :: "zone_point list \<Rightarrow> bool" where
  "simple_polygon ps \<longleftrightarrow> 3 \<le> length ps \<and> length ps \<le> 200 \<and> (\<forall>p \<in> set ps. point_in_range p)
     \<and> (\<forall>i < length ps. \<forall>j < length ps. i \<noteq> j \<longrightarrow> \<not> edges_cross ps i j)"

lemma segments_intersect_sym:
  "zone_segments_intersect a1 a2 b1 b2 = zone_segments_intersect b1 b2 a1 a2"
  unfolding zone_segments_intersect_def Let_def by auto

lemma edges_cross_sym: "edges_cross ps i j = edges_cross ps j i"
  unfolding edges_cross_def using segments_intersect_sym by blast

lemma self_intersecting_iff:
  "zone_is_self_intersecting ps \<longleftrightarrow> (\<exists>i < length ps. \<exists>j < length ps. i \<noteq> j \<and> edges_cross ps i j)"
proof -
  have pair: "(if i = j \<or> Suc i mod length ps = j \<or> i = Suc j mod length ps then False
      else zone_segments_intersect (ps ! i) (ps ! (Suc i mod length ps)) (ps ! j) (ps ! (Suc j mod length ps)))
      = (i \<noteq> j \<and> edges_cross ps i j)" for i j
    unfolding edges_cross_def by metis
  have "zone_is_self_intersecting ps \<longleftrightarrow>
      (\<exists>i \<in> {0..<length ps}. \<exists>j \<in> {Suc i..<length ps}. i \<noteq> j \<and> edges_cross ps i j)"
    unfolding zone_is_self_intersecting_def Let_def pair list_ex_iff set_upt ..
  also have "\<dots> \<longleftrightarrow> (\<exists>i < length ps. \<exists>j < length ps. i < j \<and> edges_cross ps i j)"
    unfolding Bex_def atLeastLessThan_iff Suc_le_eq by (metis le0 less_irrefl_nat)
  also have "\<dots> \<longleftrightarrow> (\<exists>i < length ps. \<exists>j < length ps. i \<noteq> j \<and> edges_cross ps i j)"
    using edges_cross_sym by (metis linorder_neqE_nat less_irrefl_nat)
  finally show ?thesis .
qed

lemma simple_polygon_alt:
  "simple_polygon ps \<longleftrightarrow> 3 \<le> length ps \<and> length ps \<le> 200 \<and> (\<forall>p \<in> set ps. point_in_range p)
     \<and> \<not> zone_is_self_intersecting ps"
  unfolding simple_polygon_def self_intersecting_iff by blast

lemma check_zone_points_iff: "check_zone_points ps = Inr () \<longleftrightarrow> (\<forall>p \<in> set ps. point_in_range p)"
proof (induction ps)
  case (Cons p ps)
  have "point_in_range p \<longleftrightarrow> is_finite (zp_lat p) \<and> is_finite (zp_lon p)
     \<and> \<not> f64_lt (zp_lat p) (Fin (- 90)) \<and> \<not> f64_lt (Fin 90) (zp_lat p)
     \<and> \<not> f64_lt (zp_lon p) (Fin (- 180)) \<and> \<not> f64_lt (Fin 180) (zp_lon p)"
    by (cases "zp_lat p"; cases "zp_lon p") (auto simp: point_in_range_def is_finite_def)
  with Cons show ?case by auto
qed simp

lemma validate_zone_points_iff: "validate_zone_points ps = Inr () \<longleftrightarrow> simple_polygon ps"
  by (auto simp: validate_zone_points_def simple_polygon_alt MIN_ZONE_POINTS_def MAX_ZONE_POINTS_def
        result_eqs check_zone_points_iff not_less split: if_splits)

lemma required_zone_points_Inr: "required_zone_points h args = Inr ps \<Longrightarrow> simple_polygon ps"
  by (auto simp: required_zone_points_def Let_def result_eqs validate_zone_points_iff)

text \<open>The invariant of the map objects: zones are simple polygons, markers have known symbols.\<close>

definition map_objects_ok :: "rch_core \<Rightarrow> bool" where
  "map_objects_ok s \<longleftrightarrow> hm_wf (zones s) \<and> hm_wf (markers s)
     \<and> (\<forall>k z. hm_get (zones s) k = Some z \<longrightarrow> zn_zone_id z = k \<and> simple_polygon (zn_points z))
     \<and> (\<forall>k m. hm_get (markers s) k = Some m \<longrightarrow> mk_object_destination_hash m = k
          \<and> is_supported_marker_symbol (mk_marker_type m) \<and> is_supported_marker_symbol (mk_symbol m))"

lemma map_objects_marker:
  "map_objects_ok s \<Longrightarrow> leaves map_objects_ok (apply_marker_command h c s)"
  unfolding apply_marker_command_def create_marker_from_args_def patch_marker_position_from_args_def
    patch_marker_from_args_def delete_marker_from_args_def Let_def
  by (intro keeps)
     (auto simp: map_objects_ok_def result_eqs new_uuid_def split: option.splits if_splits)

lemma map_objects_zone:
  "map_objects_ok s \<Longrightarrow> leaves map_objects_ok (apply_zone_command h c s)"
  unfolding apply_zone_command_def create_zone_from_args_def patch_zone_from_args_def
    delete_zone_from_args_def Let_def
  by (intro keeps)
     (auto simp: map_objects_ok_def result_eqs new_uuid_def dest: required_zone_points_Inr
           split: option.splits if_splits)

text \<open>What the commands change.\<close>

definition hide_map :: "rch_core \<Rightarrow> rch_core" where
  "hide_map t = t\<lparr>markers := [], zones := [], next_uuid := 0\<rparr>"

definition only_map :: "rch_core \<Rightarrow> rch_core \<Rightarrow> bool" where
  "only_map s t \<longleftrightarrow> hide_map t = hide_map s"

lemma only_map_simps [simp]:
  "only_map s s"
  "only_map s (t\<lparr>markers := x\<rparr>) = only_map s t"
  "only_map s (t\<lparr>zones := y\<rparr>) = only_map s t"
  "only_map s (t\<lparr>next_uuid := n\<rparr>) = only_map s t"
  by (simp_all add: only_map_def hide_map_def)

lemma marker_command_frame: "leaves (only_map s) (apply_marker_command h c s)"
  unfolding apply_marker_command_def create_marker_from_args_def patch_marker_position_from_args_def
    patch_marker_from_args_def delete_marker_from_args_def Let_def new_uuid_def
  by (intro keeps) auto

lemma zone_command_frame: "leaves (only_map s) (apply_zone_command h c s)"
  unfolding apply_zone_command_def create_zone_from_args_def patch_zone_from_args_def
    delete_zone_from_args_def Let_def new_uuid_def
  by (intro keeps) auto

end
