(* ===== verification/Topics.thy ===== *)
theory Topics
  imports Roster
begin

text \<open>
  Topics, subscriptions and messages (\<open>crates/r3akt-rch-core/src/lib.rs\<close>:
  \<open>create_topic_from_args\<close> to \<open>record_message\<close>, \<open>apply_topic_command\<close> and
  \<open>validate_subscriber_invariants\<close>).

  The invariant \<open>subscribers_ok\<close> is what \<open>validate_subscriber_invariants\<close> checks when a
  snapshot is loaded; every topic command keeps it, so a saved state always loads.
  \<open>subscriptions_have_topics\<close> says that no subscription is left behind by a deleted topic.
\<close>

subsection \<open>Topics\<close>

definition create_topic_from_args :: "host \<Rightarrow> json \<Rightarrow> rch_core \<Rightarrow> string op" where
  "create_topic_from_args h args s =
     (let raw_topic_id = optional_text h args [''topic_id'', ''TopicID''];
          missing = InvalidPayload ''topic_name and topic_path are required''
      in try_in s (ok_or (filter_opt (\<lambda>value. trim value \<noteq> [])
             (or_else (optional_text h args [''topic_name'', ''TopicName'']) raw_topic_id)) missing) (\<lambda>topic_name.
         try_in s (ok_or (filter_opt (\<lambda>value. trim value \<noteq> [])
             (or_else (optional_text h args [''topic_path'', ''TopicPath'']) raw_topic_id)) missing) (\<lambda>topic_path.
           (let topic_description =
                  unwrap_or (optional_text h args [''topic_description'', ''TopicDescription'']) [];
                (topic_id, s) = or_new_uuid h s (normalize_topic_id h raw_topic_id);
                retention = (if optional_text h args [''retention'', ''Retention''] = Some ''ephemeral''
                             then Ephemeral else Persistent);
                visibility = (if optional_text h args [''visibility'', ''Visibility''] = Some ''restricted''
                              then Restricted else Public);
                now = utc_now_ms h
            in (s\<lparr>topics := hm_insert topic_id
                    \<lparr>tp_topic_id = topic_id, tp_topic_name = topic_name, tp_topic_path = topic_path,
                     tp_topic_description = topic_description, tp_retention = retention,
                     tp_visibility = visibility, tp_created_ts_ms = now,
                     tp_last_activity_ts_ms = now\<rparr> (topics s)\<rparr>, Inr topic_id)))))"

definition topic_id_from_args :: "host \<Rightarrow> json \<Rightarrow> string result" where
  "topic_id_from_args h args =
     and_then (required_text h args [''topic_id'', ''TopicID'', ''id'', ''ID'']) (\<lambda>topic_id.
       ok_or (normalize_topic_id h (Some topic_id)) (InvalidPayload ''topic_id is required''))"

definition patch_topic_from_args :: "host \<Rightarrow> json \<Rightarrow> rch_core \<Rightarrow> topic_record op" where
  "patch_topic_from_args h args s =
     try_in s (topic_id_from_args h args) (\<lambda>topic_id.
     try_in s (ok_or (hm_get (topics s) topic_id) TopicNotFound) (\<lambda>topic.
       (let topic = (case optional_text h args [''topic_name'', ''TopicName''] of
              None \<Rightarrow> topic | Some topic_name \<Rightarrow> topic\<lparr>tp_topic_name := topic_name\<rparr>);
            topic = (case optional_text h args [''topic_path'', ''TopicPath''] of
              None \<Rightarrow> topic | Some topic_path \<Rightarrow> topic\<lparr>tp_topic_path := topic_path\<rparr>);
            topic = (if has_key args ''topic_description'' \<or> has_key args ''TopicDescription''
              then topic\<lparr>tp_topic_description :=
                     unwrap_or (optional_text h args [''topic_description'', ''TopicDescription'']) []\<rparr>
              else topic);
            topic = topic\<lparr>tp_last_activity_ts_ms := utc_now_ms h\<rparr>
        in (s\<lparr>topics := hm_insert topic_id topic (topics s)\<rparr>, Inr topic))))"

definition delete_topic_from_args :: "host \<Rightarrow> json \<Rightarrow> rch_core \<Rightarrow> topic_record op" where
  "delete_topic_from_args h args s =
     try_in s (topic_id_from_args h args) (\<lambda>topic_id.
     try_in s (ok_or (hm_get (topics s) topic_id) TopicNotFound) (\<lambda>topic.
       (s\<lparr>topics := hm_remove topic_id (topics s),
          file_attachments :=
            hm_map_values (\<lambda>attachment.
              if (case fa_topic_id attachment of None \<Rightarrow> None
                  | Some value \<Rightarrow> normalize_topic_id h (Some value)) = Some topic_id
              then attachment\<lparr>fa_topic_id := None, fa_updated_ts_ms := utc_now_ms h\<rparr>
              else attachment) (file_attachments s),
          subscribers :=
            hm_retain (\<lambda>(_, subscribed_topic_id) _. subscribed_topic_id \<noteq> topic_id) (subscribers s)\<rparr>,
        Inr topic)))"

subsection \<open>Subscriptions\<close>

definition subscription_from_args ::
  "host \<Rightarrow> mission_command \<Rightarrow> json \<Rightarrow> (string \<times> string \<times> int option \<times> json) result" where
  "subscription_from_args h command args =
     and_then (required_text h args [''topic_id'', ''TopicID'', ''topic_path'', ''TopicPath'']) (\<lambda>topic_id.
     and_then (ok_or (normalize_topic_id h (Some topic_id)) (InvalidPayload ''TopicID is required'')) (\<lambda>topic_id.
       (let subscriber_id =
              unwrap_or (optional_text h args
                  [''subscriber_id'', ''SubscriberID'', ''destination'', ''Destination''])
                (src_rns_identity (cmd_source command));
            metadata = unwrap_or (jget args ''metadata'') JNull;
            reject_tests =
              (case or_else (jget args ''reject_tests'') (jget args ''RejectTests'') of
                 None \<Rightarrow> None | Some v \<Rightarrow> value_as_i64 v)
        in Inr (topic_id, subscriber_id, reject_tests, metadata))))"

definition subscribe ::
  "host \<Rightarrow> string \<Rightarrow> string \<Rightarrow> int option \<Rightarrow> json \<Rightarrow> rch_core \<Rightarrow> unit op" where
  "subscribe h topic_id subscriber_id reject_tests metadata s =
     try_in s (ensure (hm_contains (topics s) topic_id) TopicNotFound) (\<lambda>_.
     try_in s (ok_or (normalize_subscriber_node_id (Some subscriber_id))
                 (InvalidPayload ''Destination is required'')) (\<lambda>subscriber_id.
       (let now = utc_now_ms h; key = (subscriber_id, topic_id);
            rec = (case hm_get (subscribers s) key of
                Some rec \<Rightarrow>
                  rec\<lparr>sb_last_seen_ts_ms := now, sb_reject_tests := reject_tests,
                      sb_metadata := metadata\<rparr>
              | None \<Rightarrow>
                  \<lparr>sb_node_id = subscriber_id, sb_topic_id = topic_id, sb_first_seen_ts_ms = now,
                   sb_last_seen_ts_ms = now, sb_reject_tests = reject_tests, sb_metadata = metadata\<rparr>)
        in (s\<lparr>subscribers := hm_insert key rec (subscribers s)\<rparr>, Inr ()))))"

text \<open>\<open>self.subscribers.keys().find(...)\<close>: the first subscription of the node.\<close>

definition subscriber_key :: "rch_core \<Rightarrow> string \<Rightarrow> (string \<times> string) option" where
  "subscriber_key s subscriber_id =
     find_map (\<lambda>((node_id, topic_id), _).
       if node_id = subscriber_id then Some (node_id, topic_id) else None) (subscribers s)"

definition patched_node_id :: "host \<Rightarrow> json \<Rightarrow> string \<Rightarrow> string result" where
  "patched_node_id h args node_id =
     (case optional_text h args [''destination'', ''Destination''] of
        None \<Rightarrow> Inr node_id
      | Some destination \<Rightarrow>
          ok_or (normalize_subscriber_node_id (Some destination))
            (InvalidPayload ''Destination is required''))"

definition patched_topic_id :: "host \<Rightarrow> rch_core \<Rightarrow> json \<Rightarrow> string \<Rightarrow> string result" where
  "patched_topic_id h s args topic_id =
     (case optional_text h args [''topic_id'', ''TopicID''] of
        None \<Rightarrow> Inr topic_id
      | Some topic_id \<Rightarrow>
          and_then (ok_or (normalize_topic_id h (Some topic_id)) (InvalidPayload ''TopicID is required''))
            (\<lambda>topic_id.
              if hm_contains (topics s) topic_id then Inr topic_id else Inl TopicNotFound))"

definition patched_reject_tests :: "json \<Rightarrow> int option \<Rightarrow> int option result" where
  "patched_reject_tests args reject_tests =
     (if has_key args ''reject_tests'' \<or> has_key args ''RejectTests''
      then and_then (optional_i64 args ''reject_tests'') (\<lambda>a.
           and_then (optional_i64 args ''RejectTests'') (\<lambda>b. Inr (or_else a b)))
      else Inr reject_tests)"

definition patch_subscriber_from_args :: "host \<Rightarrow> json \<Rightarrow> rch_core \<Rightarrow> subscriber_record op" where
  "patch_subscriber_from_args h args s =
     try_in s (required_text h args [''subscriber_id'', ''SubscriberID'']) (\<lambda>subscriber_id.
     try_in s (ok_or (normalize_subscriber_node_id (Some subscriber_id))
                 (InvalidPayload ''SubscriberID is required'')) (\<lambda>subscriber_id.
     try_in s (ok_or (subscriber_key s subscriber_id) TopicNotFound) (\<lambda>existing_key.
     try_in s (ok_or (hm_get (subscribers s) existing_key) TopicNotFound) (\<lambda>subscriber.
     try_in s (patched_node_id h args (sb_node_id subscriber)) (\<lambda>node_id.
     try_in s (patched_topic_id h s args (sb_topic_id subscriber)) (\<lambda>topic_id.
       (let metadata = unwrap_or (or_else (jget args ''metadata'') (jget args ''Metadata''))
                         (sb_metadata subscriber)
        in try_in s (patched_reject_tests args (sb_reject_tests subscriber)) (\<lambda>reject_tests.
           (let subscriber = subscriber\<lparr>sb_node_id := node_id, sb_topic_id := topic_id,
                  sb_metadata := metadata, sb_reject_tests := reject_tests,
                  sb_last_seen_ts_ms := utc_now_ms h\<rparr>;
                updated_key = (node_id, topic_id)
            in if updated_key \<noteq> existing_key \<and> hm_contains (subscribers s) updated_key
               then (s, Inl (InvalidPayload
                        ''normalized subscriber destination/topic pair already exists''))
               else (s\<lparr>subscribers := hm_insert updated_key subscriber
                         (hm_remove existing_key (subscribers s))\<rparr>, Inr subscriber))))))))))"

definition delete_subscriber_from_args :: "host \<Rightarrow> json \<Rightarrow> rch_core \<Rightarrow> subscriber_record op" where
  "delete_subscriber_from_args h args s =
     try_in s (required_text h args [''subscriber_id'', ''SubscriberID'', ''id'', ''ID'']) (\<lambda>subscriber_id.
     try_in s (ok_or (normalize_subscriber_node_id (Some subscriber_id))
                 (InvalidPayload ''SubscriberID is required'')) (\<lambda>subscriber_id.
     try_in s (ok_or (subscriber_key s subscriber_id) TopicNotFound) (\<lambda>key.
     try_in s (ok_or (hm_get (subscribers s) key) TopicNotFound) (\<lambda>subscriber.
       (s\<lparr>subscribers := hm_remove key (subscribers s)\<rparr>, Inr subscriber)))))"

fun validate_subscribers ::
  "host \<Rightarrow> (string \<times> string) list \<Rightarrow> ((string \<times> string) \<times> subscriber_record) list \<Rightarrow> unit result"
  where
  "validate_subscribers h normalized_pairs [] = Inr ()"
| "validate_subscribers h normalized_pairs (((node_id, topic_id), subscriber) # rest) =
     and_then (ok_or (normalize_subscriber_node_id (Some node_id))
        (InvalidPayload ''subscriber invariant violation: destination is empty'')) (\<lambda>normalized_node_id.
     and_then (ok_or (normalize_subscriber_topic_id h topic_id)
        (InvalidPayload ''subscriber invariant violation: topic_id is invalid'')) (\<lambda>normalized_topic_id.
       if normalized_node_id \<noteq> node_id \<or> normalized_topic_id \<noteq> topic_id
          \<or> sb_node_id subscriber \<noteq> node_id \<or> sb_topic_id subscriber \<noteq> topic_id
       then Inl (InvalidPayload
          ''subscriber invariant violation: key and record are not normalized or do not match'')
       else if (normalized_node_id, normalized_topic_id) \<in> set normalized_pairs
       then Inl (InvalidPayload
          ''subscriber invariant violation: duplicate normalized destination/topic pair'')
       else validate_subscribers h ((normalized_node_id, normalized_topic_id) # normalized_pairs) rest))"

definition validate_subscriber_invariants :: "host \<Rightarrow> rch_core \<Rightarrow> unit result" where
  "validate_subscriber_invariants h s = validate_subscribers h [] (subscribers s)"

subsection \<open>Messages\<close>

definition delivery_mode_text :: "delivery_mode \<Rightarrow> string" where
  "delivery_mode_text mode =
     (case mode of Targeted \<Rightarrow> ''targeted'' | Fanout \<Rightarrow> ''fanout'' | Broadcast \<Rightarrow> ''broadcast'')"

definition record_message ::
  "host \<Rightarrow> string \<Rightarrow> string \<Rightarrow> string option \<Rightarrow> string option \<Rightarrow> string \<Rightarrow> rch_core \<Rightarrow> event_envelope op"
  where
  "record_message h message_id content topic_id destination sender s =
     try_in s (ensure (trim content \<noteq> []) (InvalidPayload ''content is required'')) (\<lambda>_.
       (let normalized_topic = normalize_topic_id h topic_id;
            destination = normalize_hash destination;
            mode = (if normalized_topic \<noteq> None then Fanout
                    else if destination \<noteq> None then Targeted else Broadcast);
            touched = (case normalized_topic of
                None \<Rightarrow> Inr s
              | Some topic_id \<Rightarrow>
                  and_then (ok_or (hm_get (topics s) topic_id) TopicNotFound) (\<lambda>topic.
                    Inr (s\<lparr>topics := hm_insert topic_id
                            (topic\<lparr>tp_last_activity_ts_ms := utc_now_ms h\<rparr>) (topics s)\<rparr>)))
        in try_in s touched (\<lambda>s.
             (s\<lparr>messages := messages s @
                  [\<lparr>mg_message_id = message_id, mg_topic_id = normalized_topic,
                    mg_destination = destination,
                    mg_sender = unwrap_or (normalize_hash (Some sender)) sender,
                    mg_content = content, mg_delivery_mode = mode,
                    mg_delivery_method = ''direct'', mg_delivery_policy_reason = ''default_direct'',
                    mg_delivery_state = ''queued'', mg_delivery_metadata = JObj [],
                    mg_created_ts_ms = utc_now_ms h, mg_attachments = []\<rparr>]\<rparr>,
              Inr (event_by_parts ''mission.message.sent'' message_id None
                (JObj [(''sent'', JBool True), (''content'', JStr content),
                       (''topic_id'', jopt normalized_topic), (''destination'', jopt destination),
                       (''mode'', JStr (delivery_mode_text mode))]))))))"

subsection \<open>The topic commands\<close>

definition apply_topic_command :: "host \<Rightarrow> mission_command \<Rightarrow> rch_core \<Rightarrow> event_envelope option op" where
  "apply_topic_command h command s =
     (let args = cmd_args command; ctype = cmd_type command
      in if ctype \<in> {''ListTopic'', ''topic.list''} then
           (s, Inr (Some (event ''mission.topic.listed'' command
              (JObj [(''topics'', JArr (topic_values h s))]))))
         else if ctype \<in> {''CreateTopic'', ''topic.create''} then
           try_st (create_topic_from_args h args s) (\<lambda>s topic_id.
             (s, Inr (Some (event ''mission.topic.created'' command
                (JObj [(''topic_id'', JStr topic_id), (''TopicID'', JStr topic_id)])))))
         else if ctype = ''topic.patch'' then
           try_st (patch_topic_from_args h args s) (\<lambda>s topic.
             (s, Inr (Some (event ''mission.topic.updated'' command
                (topic_value topic (length (list_subscribers h s (tp_topic_id topic))))))))
         else if ctype = ''topic.delete'' then
           try_st (delete_topic_from_args h args s) (\<lambda>s topic.
             (s, Inr (Some (event ''mission.topic.deleted'' command (topic_value topic 0)))))
         else if ctype \<in> {''SubscribeTopic'', ''CreateSubscriber'', ''AddSubscriber'', ''topic.subscribe''} then
           try_in s (subscription_from_args h command args)
             (\<lambda>(topic_id, subscriber_id, reject_tests, metadata).
           try_st (subscribe h topic_id subscriber_id reject_tests metadata s) (\<lambda>s _.
             (s, Inr (Some (event ''mission.topic.subscribed'' command
                (JObj [(''topic_id'', JStr topic_id), (''TopicID'', JStr topic_id),
                       (''subscriber_id'', JStr subscriber_id),
                       (''Destination'', JStr subscriber_id)]))))))
         else if ctype = ''topic.subscriber.patch'' then
           try_st (patch_subscriber_from_args h args s) (\<lambda>s subscriber.
             (s, Inr (Some (event ''mission.topic.subscriber.updated'' command
                (subscriber_value subscriber)))))
         else if ctype = ''topic.subscriber.delete'' then
           try_st (delete_subscriber_from_args h args s) (\<lambda>s subscriber.
             (s, Inr (Some (event ''mission.topic.subscriber.deleted'' command
                (subscriber_value subscriber)))))
         else if ctype \<in> {''mission.message.send'', ''PublishMessage''} then
           try_in s (required_text h args [''content'', ''Content'']) (\<lambda>content.
             (let topic_id = optional_text h args [''topic_id'', ''TopicID'', ''topic_path''];
                  destination = optional_text h args [''destination'', ''Destination'']
              in try_st (record_message h (cmd_id command) content topic_id destination
                   (src_rns_identity (cmd_source command)) s) (\<lambda>s ev. (s, Inr (Some ev)))))
         else (s, Inl (UnsupportedCommand ctype)))"

subsection \<open>The subscriber invariant\<close>

fun subscriber_ok :: "host \<Rightarrow> string \<times> string \<Rightarrow> subscriber_record \<Rightarrow> bool" where
  "subscriber_ok h (node_id, topic_id) rec \<longleftrightarrow>
     normalize_subscriber_node_id (Some node_id) = Some node_id
     \<and> normalize_subscriber_topic_id h topic_id = Some topic_id
     \<and> sb_node_id rec = node_id \<and> sb_topic_id rec = topic_id"

definition subscribers_ok :: "host \<Rightarrow> rch_core \<Rightarrow> bool" where
  "subscribers_ok h s \<longleftrightarrow> hm_wf (subscribers s)
     \<and> (\<forall>k rec. hm_get (subscribers s) k = Some rec \<longrightarrow> subscriber_ok h k rec)"

definition subscriptions_have_topics :: "rch_core \<Rightarrow> bool" where
  "subscriptions_have_topics s \<longleftrightarrow> hm_wf (subscribers s)
     \<and> (\<forall>n t rec. hm_get (subscribers s) (n, t) = Some rec \<longrightarrow> sb_topic_id rec = t \<and> hm_contains (topics s) t)"

lemma validate_subscribers_ok:
  "distinct (map fst m) \<Longrightarrow> set (map fst m) \<inter> set acc = {} \<Longrightarrow>
   \<forall>(k, rec) \<in> set m. subscriber_ok h k rec \<Longrightarrow> validate_subscribers h acc m = Inr ()"
  by (induction h acc m rule: validate_subscribers.induct) auto

lemma validate_subscribers_sound:
  "validate_subscribers h acc m = Inr () \<Longrightarrow>
     distinct (map fst m) \<and> set (map fst m) \<inter> set acc = {} \<and> (\<forall>(k, rec) \<in> set m. subscriber_ok h k rec)"
  by (induction h acc m rule: validate_subscribers.induct) (auto simp: result_eqs split: if_splits)

lemma validate_iff: "validate_subscriber_invariants h s = Inr () \<longleftrightarrow> subscribers_ok h s"
proof
  assume "validate_subscriber_invariants h s = Inr ()"
  from validate_subscribers_sound [OF this [unfolded validate_subscriber_invariants_def]]
  show "subscribers_ok h s"
    by (auto simp: subscribers_ok_def hm_wf_def hm_get_def dest: map_of_SomeD)
next
  assume ok: "subscribers_ok h s"
  then show "validate_subscriber_invariants h s = Inr ()"
    unfolding validate_subscriber_invariants_def
    by (intro validate_subscribers_ok) (auto simp: subscribers_ok_def hm_wf_def hm_get_def)
qed

lemma subscriber_key_Some: "subscriber_key s n = Some k \<Longrightarrow> fst k = n \<and> hm_contains (subscribers s) k"
  unfolding subscriber_key_def
  by (drule find_map_Some) (force split: if_splits simp: hm_contains_def hm_get_def map_of_eq_None_iff)

lemma topic_subscriber_id:
  assumes "uuid_canonical h" and "normalize_topic_id h v = Some t"
  shows "normalize_subscriber_topic_id h t = Some t"
  using normalize_topic_id_again [OF assms] normalize_topic_id_non_empty [OF assms]
  by (simp add: normalize_subscriber_topic_id_def)

lemma subscribers_ok_put:
  "subscribers_ok h s \<Longrightarrow> subscriber_ok h k rec \<Longrightarrow>
     subscribers_ok h (s\<lparr>subscribers := hm_insert k rec (subscribers s)\<rparr>)"
  by (cases k) (simp add: subscribers_ok_def)

lemma subscribers_ok_del:
  "subscribers_ok h s \<Longrightarrow> subscribers_ok h (s\<lparr>subscribers := hm_remove k (subscribers s)\<rparr>)"
  by (simp add: subscribers_ok_def)

lemma subscribers_ok_get:
  "subscribers_ok h s \<Longrightarrow> hm_get (subscribers s) k = Some rec \<Longrightarrow> subscriber_ok h k rec"
  by (cases k) (simp add: subscribers_ok_def)

lemma subscribers_ok_cong: "subscribers t = subscribers s \<Longrightarrow> subscribers_ok h t = subscribers_ok h s"
  by (simp add: subscribers_ok_def)

lemma or_new_uuid_frame:
  "or_new_uuid h s x = (u, t) \<Longrightarrow> \<exists>n. t = s\<lparr>next_uuid := n\<rparr>"
  by (auto simp: or_new_uuid_def new_uuid_def split: option.splits intro: exI [of _ "next_uuid s"])

lemma subscribers_ok_create [keeps]:
  "subscribers_ok h s \<Longrightarrow> leaves (subscribers_ok h) (create_topic_from_args h' args s)"
  unfolding create_topic_from_args_def Let_def
  by (intro keeps) (auto dest: or_new_uuid_frame simp: subscribers_ok_def)

lemma subscribers_ok_patch_topic [keeps]:
  "subscribers_ok h s \<Longrightarrow> leaves (subscribers_ok h) (patch_topic_from_args h' args s)"
  unfolding patch_topic_from_args_def Let_def
  by (intro keeps) (auto simp: subscribers_ok_def)

lemma subscribers_ok_delete_topic [keeps]:
  "subscribers_ok h s \<Longrightarrow> leaves (subscribers_ok h) (delete_topic_from_args h' args s)"
  unfolding delete_topic_from_args_def
  by (intro keeps) (auto simp: subscribers_ok_def hm_get_retain filter_opt_eq_Some)

lemma subscribers_ok_subscribe [keeps]:
  assumes "subscribers_ok h s" and "normalize_subscriber_topic_id h topic_id = Some topic_id"
  shows "leaves (subscribers_ok h) (subscribe h' topic_id subscriber_id rj md s)"
  unfolding subscribe_def Let_def using assms
  by (intro keeps subscribers_ok_put)
     (auto simp: result_eqs dest: normalize_subscriber_node_id_again subscribers_ok_get split: option.splits)

lemma patched_node_id_ok:
  "patched_node_id h args n = Inr m \<Longrightarrow> normalize_subscriber_node_id (Some n) = Some n \<Longrightarrow>
     normalize_subscriber_node_id (Some m) = Some m"
  by (auto simp: patched_node_id_def result_eqs dest: normalize_subscriber_node_id_again split: option.splits)

lemma patched_topic_id_ok:
  "uuid_canonical h \<Longrightarrow> patched_topic_id h s args n = Inr m \<Longrightarrow>
     normalize_subscriber_topic_id h n = Some n \<Longrightarrow> normalize_subscriber_topic_id h m = Some m"
  by (auto simp: patched_topic_id_def result_eqs dest: topic_subscriber_id split: option.splits if_splits)

lemma subscribers_ok_patch [keeps]:
  assumes "subscribers_ok h s" and "uuid_canonical h"
  shows "leaves (subscribers_ok h) (patch_subscriber_from_args h args s)"
  unfolding patch_subscriber_from_args_def Let_def
proof (intro keeps)
  fix sid sid' key rec node_id topic_id rj
  assume "ok_or (hm_get (subscribers s) key) TopicNotFound = Inr rec"
    and node: "patched_node_id h args (sb_node_id rec) = Inr node_id"
    and topic: "patched_topic_id h s args (sb_topic_id rec) = Inr topic_id"
  with assms(1) have "subscriber_ok h key rec"
    by (simp add: result_eqs subscribers_ok_get)
  then have "normalize_subscriber_node_id (Some (sb_node_id rec)) = Some (sb_node_id rec)"
    "normalize_subscriber_topic_id h (sb_topic_id rec) = Some (sb_topic_id rec)"
    by (cases key; simp)+
  with node topic assms(2)
  have new: "normalize_subscriber_node_id (Some node_id) = Some node_id"
    "normalize_subscriber_topic_id h topic_id = Some topic_id"
    by (auto dest: patched_node_id_ok patched_topic_id_ok)
  from subscribers_ok_put [OF subscribers_ok_del [OF assms(1), of key], of "(node_id, topic_id)"] new
  show "subscribers_ok h (s\<lparr>subscribers := hm_insert (node_id, topic_id)
      (rec\<lparr>sb_node_id := node_id, sb_topic_id := topic_id,
           sb_metadata := unwrap_or (or_else (jget args ''metadata'') (jget args ''Metadata'')) (sb_metadata rec),
           sb_reject_tests := rj, sb_last_seen_ts_ms := utc_now_ms h\<rparr>)
      (hm_remove key (subscribers s))\<rparr>)"
    by simp
qed (use assms in simp_all)

lemma subscribers_ok_delete [keeps]:
  "subscribers_ok h s \<Longrightarrow> leaves (subscribers_ok h) (delete_subscriber_from_args h' args s)"
  unfolding delete_subscriber_from_args_def by (intro keeps subscribers_ok_del)

lemma subscribers_ok_message [keeps]:
  "subscribers_ok h s \<Longrightarrow> leaves (subscribers_ok h) (record_message h' mid content topic dest sender s)"
  unfolding record_message_def Let_def
  by (intro keeps) (auto simp: result_eqs subscribers_ok_def split: option.splits)

lemma subscription_topic_ok:
  "uuid_canonical h \<Longrightarrow> subscription_from_args h c args = Inr (topic_id, r) \<Longrightarrow>
     normalize_subscriber_topic_id h topic_id = Some topic_id"
  by (auto simp: subscription_from_args_def Let_def result_eqs dest: topic_subscriber_id)

lemma subscribers_ok_command:
  "subscribers_ok h s \<Longrightarrow> uuid_canonical h \<Longrightarrow> leaves (subscribers_ok h) (apply_topic_command h c s)"
  unfolding apply_topic_command_def Let_def
  by (intro keeps) (auto dest: subscription_topic_ok)

text \<open>No subscription without its topic.\<close>

lemma with_topics_create [keeps]:
  "subscriptions_have_topics s \<Longrightarrow> leaves subscriptions_have_topics (create_topic_from_args h args s)"
  unfolding create_topic_from_args_def Let_def
  by (intro keeps) (auto dest!: or_new_uuid_frame simp: subscriptions_have_topics_def)

lemma with_topics_patch_topic [keeps]:
  "subscriptions_have_topics s \<Longrightarrow> leaves subscriptions_have_topics (patch_topic_from_args h args s)"
  unfolding patch_topic_from_args_def Let_def
  by (intro keeps) (auto simp: subscriptions_have_topics_def)

lemma with_topics_delete_topic [keeps]:
  "subscriptions_have_topics s \<Longrightarrow> leaves subscriptions_have_topics (delete_topic_from_args h args s)"
  unfolding delete_topic_from_args_def
  by (intro keeps) (auto simp: subscriptions_have_topics_def hm_get_retain filter_opt_eq_Some)

lemma with_topics_subscribe [keeps]:
  "subscriptions_have_topics s \<Longrightarrow> leaves subscriptions_have_topics (subscribe h topic_id sid rj md s)"
  unfolding subscribe_def Let_def
  by (intro keeps) (auto simp: subscriptions_have_topics_def result_eqs split: option.splits)

lemma with_topics_patch [keeps]:
  assumes "subscriptions_have_topics s"
  shows "leaves subscriptions_have_topics (patch_subscriber_from_args h args s)"
  unfolding patch_subscriber_from_args_def Let_def
proof (intro keeps)
  fix sid sid' key rec node_id topic_id rj
  assume "ok_or (hm_get (subscribers s) key) TopicNotFound = Inr rec"
    and topic: "patched_topic_id h s args (sb_topic_id rec) = Inr topic_id"
  with assms have "hm_contains (topics s) (sb_topic_id rec)"
    by (cases key) (auto simp: result_eqs subscriptions_have_topics_def)
  with topic have "hm_contains (topics s) topic_id"
    by (auto simp: patched_topic_id_def result_eqs split: option.splits if_splits)
  with assms
  show "subscriptions_have_topics (s\<lparr>subscribers := hm_insert (node_id, topic_id)
      (rec\<lparr>sb_node_id := node_id, sb_topic_id := topic_id,
           sb_metadata := unwrap_or (or_else (jget args ''metadata'') (jget args ''Metadata'')) (sb_metadata rec),
           sb_reject_tests := rj, sb_last_seen_ts_ms := utc_now_ms h\<rparr>)
      (hm_remove key (subscribers s))\<rparr>)"
    by (simp add: subscriptions_have_topics_def)
qed (use assms in simp_all)

lemma with_topics_delete [keeps]:
  "subscriptions_have_topics s \<Longrightarrow> leaves subscriptions_have_topics (delete_subscriber_from_args h args s)"
  unfolding delete_subscriber_from_args_def
  by (intro keeps) (auto simp: subscriptions_have_topics_def)

lemma with_topics_message [keeps]:
  "subscriptions_have_topics s \<Longrightarrow>
     leaves subscriptions_have_topics (record_message h mid content topic dest sender s)"
  unfolding record_message_def Let_def
  by (intro keeps) (auto simp: result_eqs subscriptions_have_topics_def split: option.splits)

lemma with_topics_command:
  "subscriptions_have_topics s \<Longrightarrow> leaves subscriptions_have_topics (apply_topic_command h c s)"
  unfolding apply_topic_command_def Let_def by (intro keeps)

text \<open>What the topic commands change.\<close>

definition hide_topics :: "rch_core \<Rightarrow> rch_core" where
  "hide_topics t = t\<lparr>topics := [], subscribers := [], messages := [], file_attachments := [], next_uuid := 0\<rparr>"

definition only_topics :: "rch_core \<Rightarrow> rch_core \<Rightarrow> bool" where
  "only_topics s t \<longleftrightarrow> hide_topics t = hide_topics s"

lemma only_topics_refl [simp]: "only_topics s s"
  by (simp add: only_topics_def)

lemma only_topics_update [simp]:
  "only_topics s (t\<lparr>topics := x\<rparr>) = only_topics s t"
  "only_topics s (t\<lparr>subscribers := y\<rparr>) = only_topics s t"
  "only_topics s (t\<lparr>messages := z\<rparr>) = only_topics s t"
  "only_topics s (t\<lparr>file_attachments := w\<rparr>) = only_topics s t"
  "only_topics s (t\<lparr>next_uuid := n\<rparr>) = only_topics s t"
  by (simp_all add: only_topics_def hide_topics_def)

lemma only_topicsD:
  assumes "only_topics s t"
  shows "missions t = missions s" "clients t = clients s" "teams t = teams s"
  using assms
  by (auto simp: only_topics_def hide_topics_def dest: arg_cong [of _ _ missions]
        arg_cong [of _ _ clients] arg_cong [of _ _ teams])

lemma message_frame: "leaves (only_topics s) (record_message h mid content topic dest sender s)"
  unfolding record_message_def Let_def
  by (intro keeps) (auto simp: result_eqs split: option.splits)

lemma topic_command_frame: "leaves (only_topics s) (apply_topic_command h c s)"
  unfolding apply_topic_command_def create_topic_from_args_def patch_topic_from_args_def
    delete_topic_from_args_def subscribe_def patch_subscriber_from_args_def
    delete_subscriber_from_args_def record_message_def Let_def
  by (intro keeps) (auto dest!: or_new_uuid_frame simp: result_eqs split: option.splits)

end
