(* ===== verification/Missions.thy ===== *)
theory Missions
  imports Markers Topics
begin

text \<open>
  Missions (\<open>crates/r3akt-rch-core/src/lib.rs\<close>: \<open>apply_registry_mission_command\<close>,
  \<open>upsert_mission_from_args\<close> to \<open>set_mission_rde\<close>, \<open>resolve_parent_uid\<close>,
  \<open>ensure_parent_chain_acyclic\<close>).

  The parent links of the missions form a forest: \<open>mission_forest\<close> says that every parent
  exists and that walking up from any mission ends.  The walk of the code, a loop with a set of
  the missions seen, is a recursion whose measure is the number of missions not yet seen.  It
  accepts a parent exactly when the new link keeps the forest, and every mission command keeps it.
\<close>

subsection \<open>The parent chain\<close>

definition resolve_parent_uid :: "host \<Rightarrow> json \<Rightarrow> string option \<Rightarrow> string option" where
  "resolve_parent_uid h args current =
     (case as_object args of
        None \<Rightarrow> current
      | Some object \<Rightarrow>
          (let raw_parent = (if map_of object ''parent_uid'' \<noteq> None then map_of object ''parent_uid''
                             else map_of object ''parent'')
           in case raw_parent of
                None \<Rightarrow> current
              | Some raw_parent \<Rightarrow>
                  (let parent = unwrap_or (jget raw_parent ''uid'') raw_parent
                   in case value_as_str h parent of
                        None \<Rightarrow> None | Some text \<Rightarrow> none_if_empty text)))"

definition unseen_missions :: "rch_core \<Rightarrow> string list \<Rightarrow> nat" where
  "unseen_missions s seen = length (filter (\<lambda>u. u \<notin> set seen) (map fst (missions s)))"

lemma unseen_missions_decr:
  assumes "hm_get (missions s) uid = Some m" and "uid \<notin> set seen"
  shows "unseen_missions s (uid # seen) < unseen_missions s seen"
proof -
  have "uid \<in> set (map fst (missions s))"
    using assms(1) unfolding hm_get_def by (force dest: map_of_SomeD)
  then have "length (filter (\<lambda>u. u \<notin> set (uid # seen)) xs) < length (filter (\<lambda>u. u \<notin> set seen) xs)"
    if "xs = map fst (missions s)" for xs
    unfolding that [symmetric] using assms(2)
  proof (induction xs)
    case (Cons x xs)
    have "length (filter (\<lambda>u. u \<notin> set (uid # seen)) xs) \<le> length (filter (\<lambda>u. u \<notin> set seen) xs)"
      by (induction xs) auto
    with Cons show ?case by (cases "x = uid") auto
  qed simp
  then show ?thesis by (simp add: unseen_missions_def)
qed

text \<open>\<open>while let Some(uid) = current.take()\<close>\<close>

function walk_parents :: "rch_core \<Rightarrow> string list \<Rightarrow> string option \<Rightarrow> unit result" where
  "walk_parents s seen None = Inr ()"
| "walk_parents s seen (Some uid) =
     (if uid \<in> set seen
      then Inl (InvalidPayload ''mission parent relationship would create a cycle'')
      else case hm_get (missions s) uid of
        None \<Rightarrow> Inl (InvalidPayload (''Parent mission '' @ quoted uid @ '' not found''))
      | Some parent \<Rightarrow> walk_parents s (uid # seen) (mi_parent_uid parent))"
  by pat_completeness auto
termination
  by (relation "measure (\<lambda>(s, seen, _). unseen_missions s seen)") (auto intro: unseen_missions_decr)

definition ensure_parent_chain_acyclic :: "rch_core \<Rightarrow> string \<Rightarrow> string option \<Rightarrow> unit result" where
  "ensure_parent_chain_acyclic s mission_uid parent_uid =
     (case parent_uid of
        None \<Rightarrow> Inr ()
      | Some parent_uid \<Rightarrow>
          if parent_uid = mission_uid
          then Inl (InvalidPayload ''parent_uid cannot reference itself'')
          else walk_parents s [mission_uid] (Some parent_uid))"

subsection \<open>Missions\<close>

definition new_mission :: "string \<Rightarrow> int \<Rightarrow> mission_record" where
  "new_mission uid now =
     \<lparr>mi_uid = uid, mi_mission_name = ''Mission'', mi_description = [], mi_topic_id = None,
      mi_path = None, mi_classification = None, mi_tool = None, mi_keywords = [],
      mi_parent_uid = None, mi_feeds = [], mi_password_hash = None, mi_default_role = None,
      mi_mission_priority = None, mi_mission_status = ''MISSION_ACTIVE'', mi_owner_role = None,
      mi_token = None, mi_invite_only = False, mi_expiration = None, mi_mission_rde_role = None,
      mi_created_ts_ms = now, mi_updated_ts_ms = now\<rparr>"

text \<open>\<open>if let Some(text) = optional_text_or_empty(args, [key])\<close> sets a field from the text.\<close>

definition set_text ::
  "host \<Rightarrow> json \<Rightarrow> string \<Rightarrow> (string option \<Rightarrow> 'r \<Rightarrow> 'r) \<Rightarrow> 'r \<Rightarrow> 'r" where
  "set_text h args key f r =
     (case optional_text_or_empty h args [key] of None \<Rightarrow> r | Some text \<Rightarrow> f (none_if_empty text) r)"

definition set_role ::
  "host \<Rightarrow> json \<Rightarrow> string \<Rightarrow> (string option \<Rightarrow> mission_record \<Rightarrow> mission_record) \<Rightarrow> mission_record
     \<Rightarrow> mission_record result" where
  "set_role h args key f mission =
     (case optional_text_or_empty h args [key] of
        None \<Rightarrow> Inr mission
      | Some role \<Rightarrow>
          and_then (normalize_mission_role role key) (\<lambda>role. Inr (f (none_if_empty role) mission)))"

definition apply_optional_role_fields :: "host \<Rightarrow> json \<Rightarrow> mission_record \<Rightarrow> mission_record result" where
  "apply_optional_role_fields h args mission =
     (let mission = set_text h args ''password_hash'' (\<lambda>x m. m\<lparr>mi_password_hash := x\<rparr>) mission
      in and_then (set_role h args ''default_role'' (\<lambda>x m. m\<lparr>mi_default_role := x\<rparr>) mission) (\<lambda>mission.
         and_then (set_role h args ''owner_role'' (\<lambda>x m. m\<lparr>mi_owner_role := x\<rparr>) mission) (\<lambda>mission.
           set_role h args ''mission_rde_role'' (\<lambda>x m. m\<lparr>mi_mission_rde_role := x\<rparr>) mission)))"

definition apply_optional_mission_status_fields ::
  "host \<Rightarrow> json \<Rightarrow> mission_record \<Rightarrow> mission_record result" where
  "apply_optional_mission_status_fields h args mission =
     and_then
       (if has_key args ''mission_status''
        then and_then (normalize_mission_status
               (case jget args ''mission_status'' of None \<Rightarrow> None | Some v \<Rightarrow> value_as_str h v))
               (\<lambda>status. Inr (mission\<lparr>mi_mission_status := status\<rparr>))
        else Inr mission) (\<lambda>mission.
       if has_key args ''mission_priority''
       then and_then (optional_i64 args ''mission_priority'') (\<lambda>priority.
              if is_some_and priority (\<lambda>priority. \<not> (0 \<le> priority \<and> priority \<le> 100))
              then Inl (InvalidPayload ''mission_priority must be between 0 and 100'')
              else Inr (mission\<lparr>mi_mission_priority := priority\<rparr>))
       else Inr mission)"

definition apply_mission_identity_fields ::
  "host \<Rightarrow> rch_core \<Rightarrow> json \<Rightarrow> mission_record \<Rightarrow> mission_record result" where
  "apply_mission_identity_fields h s args mission =
     (let mission = (case optional_text h args [''mission_name'', ''name''] of
            None \<Rightarrow> mission | Some name \<Rightarrow> mission\<lparr>mi_mission_name := name\<rparr>)
      in if trim (mi_mission_name mission) = []
         then Inl (InvalidPayload ''mission_name is required'')
         else
           (let mission = (case optional_text_or_empty h args [''description''] of
                  None \<Rightarrow> mission | Some description \<Rightarrow> mission\<lparr>mi_description := description\<rparr>)
            in and_then
                 (case optional_text_or_empty h args [''topic_id''] of
                    None \<Rightarrow> Inr mission
                  | Some topic_id \<Rightarrow>
                      if topic_id = [] then Inr (mission\<lparr>mi_topic_id := None\<rparr>)
                      else if \<not> hm_contains (topics s) topic_id then Inl TopicNotFound
                      else Inr (mission\<lparr>mi_topic_id := Some topic_id\<rparr>)) (\<lambda>mission.
                 (let mission = set_text h args ''path'' (\<lambda>x m. m\<lparr>mi_path := x\<rparr>) mission;
                      mission = set_text h args ''classification'' (\<lambda>x m. m\<lparr>mi_classification := x\<rparr>) mission;
                      mission = set_text h args ''tool'' (\<lambda>x m. m\<lparr>mi_tool := x\<rparr>) mission
                  in Inr (mission\<lparr>mi_parent_uid := resolve_parent_uid h args (mi_parent_uid mission)\<rparr>)))))"

definition apply_mission_metadata_fields :: "host \<Rightarrow> json \<Rightarrow> mission_record \<Rightarrow> mission_record result" where
  "apply_mission_metadata_fields h args mission =
     and_then (if has_key args ''keywords''
               then and_then (string_list h (jget args ''keywords'') ''keywords'') (\<lambda>keywords.
                      Inr (mission\<lparr>mi_keywords := keywords\<rparr>))
               else Inr mission) (\<lambda>mission.
     and_then (if has_key args ''feeds''
               then and_then (string_list h (jget args ''feeds'') ''feeds'') (\<lambda>feeds.
                      Inr (mission\<lparr>mi_feeds := feeds\<rparr>))
               else Inr mission) (\<lambda>mission.
     and_then (apply_optional_role_fields h args mission) (\<lambda>mission.
     and_then (apply_optional_mission_status_fields h args mission) (\<lambda>mission.
       (let mission = set_text h args ''token'' (\<lambda>x m. m\<lparr>mi_token := x\<rparr>) mission;
            mission = (case optional_bool args ''invite_only'' of
              None \<Rightarrow> mission | Some invite_only \<Rightarrow> mission\<lparr>mi_invite_only := invite_only\<rparr>)
        in Inr (set_text h args ''expiration'' (\<lambda>x m. m\<lparr>mi_expiration := x\<rparr>) mission))))))"

definition upsert_mission_from_args :: "host \<Rightarrow> json \<Rightarrow> rch_core \<Rightarrow> mission_record op" where
  "upsert_mission_from_args h args s =
     (let (uid, s) = or_new_uuid h s (optional_text h args [''uid'', ''mission_id''])
      in if trim uid = [] then (s, Inl (InvalidPayload ''uid is required''))
         else
           (let now = utc_now_ms h;
                mission = unwrap_or (hm_get (missions s) uid) (new_mission uid now)
            in try_in s (apply_mission_identity_fields h s args mission) (\<lambda>mission.
               try_in s (apply_mission_metadata_fields h args mission) (\<lambda>mission.
               try_in s (ensure_parent_chain_acyclic s uid (mi_parent_uid mission)) (\<lambda>_.
                 (let mission = mission\<lparr>mi_updated_ts_ms := now\<rparr>
                  in (s\<lparr>missions := hm_insert uid mission (missions s)\<rparr>, Inr mission)))))))"

text \<open>\<open>merged["uid"] = ...\<close> on the patch, an object because \<open>mission_uid\<close> was read from it.\<close>

definition patch_mission_from_args :: "host \<Rightarrow> json \<Rightarrow> rch_core \<Rightarrow> mission_record op" where
  "patch_mission_from_args h args s =
     try_in s (required_text h args [''mission_uid'', ''uid'']) (\<lambda>mission_uid.
       if \<not> hm_contains (missions s) mission_uid then (s, Inl MissionNotFound)
       else
         (let patch = unwrap_or (filter_opt is_object (jget args ''patch'')) args
          in upsert_mission_from_args h (jset ''uid'' (JStr mission_uid) patch) s))"

text \<open>\<open>let mission = self.missions.get_mut(uid).ok_or(MissionNotFound)?; ...; Ok(mission.clone())\<close>\<close>

definition modify_mission ::
  "string \<Rightarrow> (mission_record \<Rightarrow> mission_record) \<Rightarrow> rch_core \<Rightarrow> mission_record op" where
  "modify_mission uid f s =
     try_in s (ok_or (hm_get (missions s) uid) MissionNotFound) (\<lambda>mission.
       (s\<lparr>missions := hm_insert uid (f mission) (missions s)\<rparr>, Inr (f mission)))"

definition delete_mission_from_args :: "host \<Rightarrow> json \<Rightarrow> rch_core \<Rightarrow> mission_record op" where
  "delete_mission_from_args h args s =
     try_in s (required_text h args [''mission_uid'', ''uid'']) (\<lambda>mission_uid.
       modify_mission mission_uid
         (\<lambda>mission. mission\<lparr>mi_mission_status := ''MISSION_DELETED'',
                            mi_updated_ts_ms := utc_now_ms h\<rparr>) s)"

definition set_mission_parent_from_args :: "host \<Rightarrow> json \<Rightarrow> rch_core \<Rightarrow> mission_record op" where
  "set_mission_parent_from_args h args s =
     try_in s (required_text h args [''mission_uid'', ''uid'']) (\<lambda>mission_uid.
       if \<not> hm_contains (missions s) mission_uid then (s, Inl MissionNotFound)
       else
         (let parent_uid = (case optional_text_or_empty h args [''parent_uid''] of
                None \<Rightarrow> None | Some text \<Rightarrow> none_if_empty text)
          in try_in s (ensure_parent_chain_acyclic s mission_uid parent_uid) (\<lambda>_.
               modify_mission mission_uid
                 (\<lambda>mission. mission\<lparr>mi_parent_uid := parent_uid, mi_updated_ts_ms := utc_now_ms h\<rparr>) s)))"

definition touch_mission :: "host \<Rightarrow> string \<Rightarrow> rch_core \<Rightarrow> mission_record op" where
  "touch_mission h mission_uid s =
     modify_mission mission_uid (\<lambda>mission. mission\<lparr>mi_updated_ts_ms := utc_now_ms h\<rparr>) s"

definition link_mission_zone :: "host \<Rightarrow> string \<Rightarrow> string \<Rightarrow> rch_core \<Rightarrow> mission_record op" where
  "link_mission_zone h mission_uid zone_id s =
     try_in s (ensure (hm_contains (missions s) mission_uid) MissionNotFound) (\<lambda>_.
       if \<not> hm_contains (zones s) zone_id
       then (s, Inl (InvalidPayload (''Zone '' @ quoted zone_id @ '' not found'')))
       else touch_mission h mission_uid
              (s\<lparr>mission_zone_links := hs_insert (mission_uid, zone_id) (mission_zone_links s)\<rparr>))"

definition unlink_mission_zone :: "host \<Rightarrow> string \<Rightarrow> string \<Rightarrow> rch_core \<Rightarrow> mission_record op" where
  "unlink_mission_zone h mission_uid zone_id s =
     try_in s (ensure (hm_contains (missions s) mission_uid) MissionNotFound) (\<lambda>_.
       touch_mission h mission_uid
         (s\<lparr>mission_zone_links := hs_remove (mission_uid, zone_id) (mission_zone_links s)\<rparr>))"

definition ensure_marker_exists :: "rch_core \<Rightarrow> string \<Rightarrow> unit result" where
  "ensure_marker_exists s marker_ref =
     (let marker_ref = trim marker_ref
      in if marker_ref = [] then Inl (InvalidPayload ''marker reference cannot be empty'')
         else if hm_contains (markers s) marker_ref
              \<or> list_ex (\<lambda>marker. mk_local_id marker = marker_ref) (hm_values (markers s))
         then Inr ()
         else Inl (InvalidPayload (''Marker '' @ quoted marker_ref @ '' not found'')))"

definition link_mission_marker :: "host \<Rightarrow> string \<Rightarrow> string \<Rightarrow> rch_core \<Rightarrow> mission_record op" where
  "link_mission_marker h mission_uid marker_id s =
     try_in s (ensure_marker_exists s marker_id) (\<lambda>_.
     try_in s (ensure (hm_contains (missions s) mission_uid) MissionNotFound) (\<lambda>_.
       touch_mission h mission_uid
         (s\<lparr>mission_marker_links := hs_insert (mission_uid, marker_id) (mission_marker_links s)\<rparr>)))"

definition unlink_mission_marker :: "host \<Rightarrow> string \<Rightarrow> string \<Rightarrow> rch_core \<Rightarrow> mission_record op" where
  "unlink_mission_marker h mission_uid marker_id s =
     try_in s (ensure (hm_contains (missions s) mission_uid) MissionNotFound) (\<lambda>_.
       touch_mission h mission_uid
         (s\<lparr>mission_marker_links := hs_remove (mission_uid, marker_id) (mission_marker_links s)\<rparr>))"

definition set_mission_rde :: "host \<Rightarrow> string \<Rightarrow> string \<Rightarrow> rch_core \<Rightarrow> json op" where
  "set_mission_rde h mission_uid role s =
     try_in s (normalize_mission_role role ''role'') (\<lambda>role.
     try_st (modify_mission mission_uid
         (\<lambda>mission. mission\<lparr>mi_mission_rde_role := Some role, mi_updated_ts_ms := utc_now_ms h\<rparr>) s) (\<lambda>s _.
       (s, Inr (JObj [(''mission_uid'', JStr mission_uid), (''role'', JStr role),
                      (''updated_at'', JStr (millis_to_rfc3339 h (utc_now_ms h)))]))))"

subsection \<open>The mission commands\<close>

definition apply_registry_mission_marker_command ::
  "host \<Rightarrow> mission_command \<Rightarrow> rch_core \<Rightarrow> event_envelope option op" where
  "apply_registry_mission_marker_command h command s =
     (let args = cmd_args command; ctype = cmd_type command
      in try_in s (required_text h args [''mission_uid'']) (\<lambda>mission_uid.
         try_in s (required_text h args [''marker_id'', ''marker_ref'']) (\<lambda>marker_id.
           if ctype = ''mission.registry.mission.marker.link'' then
             try_st (link_mission_marker h mission_uid marker_id s) (\<lambda>s mission.
               (s, Inr (Some (event ''mission.registry.mission.marker.linked'' command
                  (mission_value h s mission)))))
           else if ctype = ''mission.registry.mission.marker.unlink'' then
             try_st (unlink_mission_marker h mission_uid marker_id s) (\<lambda>s mission.
               (s, Inr (Some (event ''mission.registry.mission.marker.unlinked'' command
                  (mission_value h s mission)))))
           else (s, Inl (UnsupportedCommand ctype)))))"

definition apply_registry_mission_command ::
  "host \<Rightarrow> mission_command \<Rightarrow> rch_core \<Rightarrow> event_envelope option op" where
  "apply_registry_mission_command h command s =
     (let args = cmd_args command; ctype = cmd_type command;
          full = (\<lambda>name s mission. (s, Inr (Some (event name command
                    (mission_value_with_args h s mission args)))));
          short = (\<lambda>name s mission. (s, Inr (Some (event name command (mission_value h s mission)))))
      in if ctype = ''mission.registry.mission.upsert'' then
           try_st (upsert_mission_from_args h args s) (full ''mission.registry.mission.upserted'')
         else if ctype = ''mission.registry.mission.get'' then
           try_in s (required_text h args [''mission_uid'', ''uid'']) (\<lambda>mission_uid.
           try_in s (ok_or (hm_get (missions s) mission_uid) MissionNotFound)
             (full ''mission.registry.mission.retrieved'' s))
         else if ctype = ''mission.registry.mission.list'' then
           (s, Inr (Some (event ''mission.registry.mission.listed'' command
              (JObj [(''missions'', JArr (limited_mission_values h s args))]))))
         else if ctype = ''mission.registry.mission.patch'' then
           try_st (patch_mission_from_args h args s) (full ''mission.registry.mission.updated'')
         else if ctype = ''mission.registry.mission.delete'' then
           try_st (delete_mission_from_args h args s) (short ''mission.registry.mission.deleted'')
         else if ctype = ''mission.registry.mission.parent.set'' then
           try_st (set_mission_parent_from_args h args s) (short ''mission.registry.mission.parent.updated'')
         else if ctype = ''mission.registry.mission.zone.link'' then
           try_in s (required_text h args [''mission_uid'']) (\<lambda>mission_uid.
           try_in s (required_text h args [''zone_id'']) (\<lambda>zone_id.
           try_st (link_mission_zone h mission_uid zone_id s) (short ''mission.registry.mission.zone.linked'')))
         else if ctype = ''mission.registry.mission.zone.unlink'' then
           try_in s (required_text h args [''mission_uid'']) (\<lambda>mission_uid.
           try_in s (required_text h args [''zone_id'']) (\<lambda>zone_id.
           try_st (unlink_mission_zone h mission_uid zone_id s) (short ''mission.registry.mission.zone.unlinked'')))
         else if ctype \<in> {''mission.registry.mission.marker.link'', ''mission.registry.mission.marker.unlink''} then
           apply_registry_mission_marker_command h command s
         else if ctype = ''mission.registry.mission.rde.set'' then
           try_in s (required_text h args [''mission_uid'']) (\<lambda>mission_uid.
           try_in s (required_text h args [''role'']) (\<lambda>role.
           try_st (set_mission_rde h mission_uid role s) (\<lambda>s payload.
             (s, Inr (Some (event ''mission.registry.mission.rde.updated'' command payload))))))
         else (s, Inl (UnsupportedCommand ctype)))"

subsection \<open>The forest of missions\<close>

definition parents :: "rch_core \<Rightarrow> (string \<times> string) set" where
  "parents s = {(u, p). \<exists>m. hm_get (missions s) u = Some m \<and> mi_parent_uid m = Some p}"

definition mission_forest :: "rch_core \<Rightarrow> bool" where
  "mission_forest s \<longleftrightarrow> (\<forall>(u, p) \<in> parents s. hm_contains (missions s) p) \<and> acyclic (parents s)"

lemma parents_step:
  "hm_get (missions s) u = Some m \<Longrightarrow>
     (u, q) \<in> (parents s)\<^sup>* \<longleftrightarrow> q = u \<or> (\<exists>p. mi_parent_uid m = Some p \<and> (p, q) \<in> (parents s)\<^sup>*)"
  by (auto simp: parents_def elim: converse_rtranclE intro: converse_rtrancl_into_rtrancl)

lemma walk_parents_sound:
  assumes "walk_parents s seen start = Inr ()" and "start = Some p"
  shows "hm_contains (missions s) p
    \<and> (\<forall>q. (p, q) \<in> (parents s)\<^sup>* \<longrightarrow> q \<notin> set seen \<and> hm_contains (missions s) q)"
  using assms
proof (induction s seen start arbitrary: p rule: walk_parents.induct)
  case (2 s seen uid)
  from "2.prems"(2) have [simp]: "uid = p" by simp
  from "2.prems"(1) obtain m where fresh: "p \<notin> set seen" and m: "hm_get (missions s) p = Some m"
    and rest: "walk_parents s (p # seen) (mi_parent_uid m) = Inr ()"
    by (auto split: if_splits option.splits)
  have "q \<notin> set seen \<and> hm_contains (missions s) q" if "(p, q) \<in> (parents s)\<^sup>*" for q
  proof (cases "q = p")
    case True
    with fresh m show ?thesis by (simp add: hm_contains_get)
  next
    case False
    with that parents_step [OF m] obtain p' where p': "mi_parent_uid m = Some p'" "(p', q) \<in> (parents s)\<^sup>*"
      by auto
    from "2.IH" [OF _ _ _ p'(1)] fresh m rest p'(2) show ?thesis by simp
  qed
  with m show ?case by (auto simp: hm_contains_get)
qed simp

lemma walk_parents_complete:
  assumes "mission_forest s" and "\<forall>p. start = Some p \<longrightarrow> hm_contains (missions s) p
      \<and> (\<forall>q. (p, q) \<in> (parents s)\<^sup>* \<longrightarrow> q \<notin> set seen)"
  shows "walk_parents s seen start = Inr ()"
  using assms
proof (induction s seen start rule: walk_parents.induct)
  case (2 s seen uid)
  from "2.prems"(2) have fresh: "uid \<notin> set seen" and "hm_contains (missions s) uid"
    and below: "\<And>q. (uid, q) \<in> (parents s)\<^sup>* \<Longrightarrow> q \<notin> set seen" by auto
  then obtain m where m: "hm_get (missions s) uid = Some m" by (auto simp: hm_contains_def)
  have "walk_parents s (uid # seen) (mi_parent_uid m) = Inr ()"
  proof (rule "2.IH" [OF fresh m "2.prems"(1)], intro allI impI conjI)
    fix p assume p: "mi_parent_uid m = Some p"
    with m have edge: "(uid, p) \<in> parents s" by (auto simp: parents_def)
    with "2.prems"(1) show "hm_contains (missions s) p" by (auto simp: mission_forest_def)
    fix q assume q: "(p, q) \<in> (parents s)\<^sup>*"
    with edge have "(uid, q) \<in> (parents s)\<^sup>+" by (rule rtrancl_into_trancl2)
    with "2.prems"(1) have "q \<noteq> uid" unfolding mission_forest_def acyclic_def by blast
    moreover from edge q have "(uid, q) \<in> (parents s)\<^sup>*" by (rule converse_rtrancl_into_rtrancl)
    ultimately show "q \<notin> set (uid # seen)" using below by simp
  qed
  with fresh m show ?case by simp
qed simp

lemma ensure_parent_iff:
  assumes "mission_forest s"
  shows "ensure_parent_chain_acyclic s u (Some p) = Inr () \<longleftrightarrow>
    hm_contains (missions s) p \<and> (p, u) \<notin> (parents s)\<^sup>*"
proof
  assume "ensure_parent_chain_acyclic s u (Some p) = Inr ()"
  then have "walk_parents s [u] (Some p) = Inr ()"
    by (simp add: ensure_parent_chain_acyclic_def split: if_splits)
  from walk_parents_sound [OF this] show "hm_contains (missions s) p \<and> (p, u) \<notin> (parents s)\<^sup>*"
    by auto
next
  assume a: "hm_contains (missions s) p \<and> (p, u) \<notin> (parents s)\<^sup>*"
  then have "walk_parents s [u] (Some p) = Inr ()"
    by (intro walk_parents_complete [OF assms]) auto
  moreover from a have "p \<noteq> u" by auto
  ultimately show "ensure_parent_chain_acyclic s u (Some p) = Inr ()"
    unfolding ensure_parent_chain_acyclic_def by (simp only: option.case if_False)
qed

lemma parents_insert:
  "parents (s\<lparr>missions := hm_insert u m (missions s)\<rparr>) \<subseteq>
     parents s \<union> {(u, p) | p. mi_parent_uid m = Some p}"
  by (auto simp: parents_def split: if_splits)

lemma forest_insert:
  assumes "mission_forest s" and "ensure_parent_chain_acyclic s u (mi_parent_uid m) = Inr ()"
  shows "mission_forest (s\<lparr>missions := hm_insert u m (missions s)\<rparr>)"
proof -
  let ?t = "s\<lparr>missions := hm_insert u m (missions s)\<rparr>"
  have link: "hm_contains (missions s) p \<and> (p, u) \<notin> (parents s)\<^sup>*" if "mi_parent_uid m = Some p" for p
    using assms(2) that ensure_parent_iff [OF assms(1)] by simp
  have "acyclic (parents s \<union> {(u, p) | p. mi_parent_uid m = Some p})"
    using link assms(1) by (cases "mi_parent_uid m") (auto simp: mission_forest_def acyclic_insert)
  then have "acyclic (parents ?t)" by (rule acyclic_subset) (rule parents_insert)
  moreover have "hm_contains (missions ?t) p" if "(v, p) \<in> parents ?t" for v p
    using parents_insert [of u m s] that link assms(1) unfolding mission_forest_def by auto
  ultimately show ?thesis unfolding mission_forest_def by blast
qed

lemma forest_keep_parent:
  assumes "mission_forest s" and "hm_get (missions s) u = Some m" and "mi_parent_uid m' = mi_parent_uid m"
  shows "mission_forest (s\<lparr>missions := hm_insert u m' (missions s)\<rparr>)"
proof -
  have "parents (s\<lparr>missions := hm_insert u m' (missions s)\<rparr>) = parents s"
    using assms(2,3) by (auto simp: parents_def split: if_splits)
  with assms(1) show ?thesis by (auto simp: mission_forest_def)
qed

lemma forest_cong: "missions t = missions s \<Longrightarrow> mission_forest t = mission_forest s"
  by (simp add: mission_forest_def parents_def)

subsection \<open>The invariant of the missions\<close>

definition role_ok :: "string option \<Rightarrow> bool" where
  "role_ok r \<longleftrightarrow> (case r of None \<Rightarrow> True | Some role \<Rightarrow> role \<in> set mission_roles)"

definition mission_ok :: "mission_record \<Rightarrow> bool" where
  "mission_ok m \<longleftrightarrow> trim (mi_mission_name m) \<noteq> []
     \<and> mi_mission_status m \<in> insert [] (set mission_statuses)
     \<and> (\<forall>p. mi_mission_priority m = Some p \<longrightarrow> 0 \<le> p \<and> p \<le> 100)
     \<and> role_ok (mi_default_role m) \<and> role_ok (mi_owner_role m) \<and> role_ok (mi_mission_rde_role m)"

definition missions_ok :: "rch_core \<Rightarrow> bool" where
  "missions_ok s \<longleftrightarrow> hm_wf (missions s) \<and> keyed_by mi_uid hm_get (missions s) \<and> mission_forest s
     \<and> (\<forall>u m. hm_get (missions s) u = Some m \<longrightarrow> mission_ok m)"

interpretation mi: keyed_store hm_get hm_insert hm_remove mi_uid
  by unfold_locales

lemma missions_ok_cong: "missions t = missions s \<Longrightarrow> missions_ok t = missions_ok s"
  by (simp add: missions_ok_def mission_forest_def parents_def)

lemma missions_ok_uuid: "missions_ok (s\<lparr>next_uuid := n\<rparr>) = missions_ok s"
  by (rule missions_ok_cong) simp

lemma missions_ok_get:
  "missions_ok s \<Longrightarrow> hm_get (missions s) u = Some m \<Longrightarrow> mission_ok m \<and> mi_uid m = u"
  by (auto simp: missions_ok_def keyed_by_def)

lemma missions_ok_insert:
  assumes "missions_ok s" and "mission_ok m" and "mi_uid m = u"
    and "ensure_parent_chain_acyclic s u (mi_parent_uid m) = Inr ()"
  shows "missions_ok (s\<lparr>missions := hm_insert u m (missions s)\<rparr>)"
  using assms mi.keyed_put [of "missions s" m u] forest_insert [of s u m]
  by (simp add: missions_ok_def)

lemma missions_ok_modify:
  assumes "missions_ok s" and "hm_get (missions s) u = Some m" and "mission_ok m'"
    and "mi_uid m' = mi_uid m" and "mi_parent_uid m' = mi_parent_uid m"
  shows "missions_ok (s\<lparr>missions := hm_insert u m' (missions s)\<rparr>)"
proof -
  from assms(1,2,4) have "mi_uid m' = u" by (auto dest: missions_ok_get)
  with assms mi.keyed_put [of "missions s" m' u] forest_keep_parent [of s u m m'] show ?thesis
    by (simp add: missions_ok_def)
qed

lemma mission_ok_new: "mission_ok (new_mission u now)"
proof -
  have "trim ''Mission'' \<noteq> []" by code_simp
  then show ?thesis by (simp add: mission_ok_def new_mission_def role_ok_def mission_statuses_def)
qed

text \<open>What a field may become.\<close>

lemma mission_ok_updates [simp]:
  "mission_ok (m\<lparr>mi_description := a\<rparr>) = mission_ok m"
  "mission_ok (m\<lparr>mi_topic_id := b\<rparr>) = mission_ok m"
  "mission_ok (m\<lparr>mi_path := b\<rparr>) = mission_ok m"
  "mission_ok (m\<lparr>mi_classification := b\<rparr>) = mission_ok m"
  "mission_ok (m\<lparr>mi_tool := b\<rparr>) = mission_ok m"
  "mission_ok (m\<lparr>mi_keywords := c\<rparr>) = mission_ok m"
  "mission_ok (m\<lparr>mi_parent_uid := b\<rparr>) = mission_ok m"
  "mission_ok (m\<lparr>mi_feeds := c\<rparr>) = mission_ok m"
  "mission_ok (m\<lparr>mi_password_hash := b\<rparr>) = mission_ok m"
  "mission_ok (m\<lparr>mi_token := b\<rparr>) = mission_ok m"
  "mission_ok (m\<lparr>mi_invite_only := d\<rparr>) = mission_ok m"
  "mission_ok (m\<lparr>mi_expiration := b\<rparr>) = mission_ok m"
  "mission_ok (m\<lparr>mi_updated_ts_ms := e\<rparr>) = mission_ok m"
  by (simp_all add: mission_ok_def)

lemma mission_ok_new_values:
  assumes "mission_ok m"
  shows "trim a \<noteq> [] \<Longrightarrow> mission_ok (m\<lparr>mi_mission_name := a\<rparr>)"
    and "role_ok r \<Longrightarrow> mission_ok (m\<lparr>mi_default_role := r\<rparr>)"
    and "role_ok r \<Longrightarrow> mission_ok (m\<lparr>mi_owner_role := r\<rparr>)"
    and "role_ok r \<Longrightarrow> mission_ok (m\<lparr>mi_mission_rde_role := r\<rparr>)"
    and "st \<in> insert [] (set mission_statuses) \<Longrightarrow> mission_ok (m\<lparr>mi_mission_status := st\<rparr>)"
    and "(\<And>q. p = Some q \<Longrightarrow> 0 \<le> q \<and> q \<le> 100) \<Longrightarrow> mission_ok (m\<lparr>mi_mission_priority := p\<rparr>)"
  using assms by (simp_all add: mission_ok_def)

text \<open>\<open>m'\<close> is \<open>m\<close> with other contents: the same mission under the same parent, still well formed.\<close>

definition same_mission :: "mission_record \<Rightarrow> mission_record \<Rightarrow> bool" where
  "same_mission m m' \<longleftrightarrow> mi_uid m' = mi_uid m \<and> mi_parent_uid m' = mi_parent_uid m
     \<and> (mission_ok m \<longrightarrow> mission_ok m')"

lemma same_mission_refl [simp]: "same_mission m m"
  by (simp add: same_mission_def)

lemma same_mission_trans: "same_mission a b \<Longrightarrow> same_mission b c \<Longrightarrow> same_mission a c"
  by (simp add: same_mission_def)

lemma same_mission_updates [simp]:
  "same_mission m (m'\<lparr>mi_keywords := a\<rparr>) = same_mission m m'"
  "same_mission m (m'\<lparr>mi_feeds := a\<rparr>) = same_mission m m'"
  "same_mission m (m'\<lparr>mi_token := b\<rparr>) = same_mission m m'"
  "same_mission m (m'\<lparr>mi_invite_only := c\<rparr>) = same_mission m m'"
  "same_mission m (m'\<lparr>mi_expiration := b\<rparr>) = same_mission m m'"
  "same_mission m (m'\<lparr>mi_password_hash := b\<rparr>) = same_mission m m'"
  by (simp_all add: same_mission_def)

lemma set_text_same:
  "same_mission m r \<Longrightarrow> (\<And>x. same_mission m (f x r) = same_mission m r) \<Longrightarrow>
     same_mission m (set_text h args key f r)"
  by (simp add: set_text_def split: option.split)

lemma set_text_rule: "P r \<Longrightarrow> (\<And>x. P (f x r)) \<Longrightarrow> P (set_text h args key f r)"
  by (simp add: set_text_def split: option.split)

lemma role_ok_normalized: "normalize_mission_role v f = Inr t \<Longrightarrow> role_ok (none_if_empty t)"
  by (auto simp: normalize_mission_role_def role_ok_def none_if_empty_def dest: normalize_enum_Inr)

lemma set_role_same:
  assumes "set_role h args key f m = Inr m'" and "\<And>r. role_ok r \<Longrightarrow> same_mission m (f r m)"
  shows "same_mission m m'"
  using assms by (auto simp: set_role_def result_eqs dest: role_ok_normalized split: option.splits)

lemma role_fields_same:
  assumes "apply_optional_role_fields h args m = Inr m'"
  shows "same_mission m m'"
proof -
  let ?m0 = "set_text h args ''password_hash'' (\<lambda>x m. m\<lparr>mi_password_hash := x\<rparr>) m"
  from assms [unfolded apply_optional_role_fields_def Let_def and_then_eq_Inr] obtain m1 m2 where
    "set_role h args ''default_role'' (\<lambda>x m. m\<lparr>mi_default_role := x\<rparr>) ?m0 = Inr m1"
    "set_role h args ''owner_role'' (\<lambda>x m. m\<lparr>mi_owner_role := x\<rparr>) m1 = Inr m2"
    "set_role h args ''mission_rde_role'' (\<lambda>x m. m\<lparr>mi_mission_rde_role := x\<rparr>) m2 = Inr m'"
    by blast
  note roles = this [THEN set_role_same]
  have "same_mission ?m0 m1" "same_mission m1 m2" "same_mission m2 m'"
    by (rule roles, simp add: same_mission_def mission_ok_new_values)+
  moreover have "same_mission m ?m0"
    by (rule set_text_rule) (simp_all add: same_mission_def)
  ultimately show ?thesis by (blast intro: same_mission_trans)
qed

lemma mission_status_ok:
  "normalize_mission_status v = Inr st \<Longrightarrow> st \<in> insert [] (set mission_statuses)"
  by (auto simp: normalize_mission_status_def dest: normalize_enum_Inr)

lemma status_fields_same:
  assumes "apply_optional_mission_status_fields h args m = Inr m'"
  shows "same_mission m m'"
proof -
  from assms [unfolded apply_optional_mission_status_fields_def and_then_eq_Inr] obtain m1 where
    st: "(if has_key args ''mission_status''
        then and_then (normalize_mission_status
               (case jget args ''mission_status'' of None \<Rightarrow> None | Some v \<Rightarrow> value_as_str h v))
               (\<lambda>status. Inr (m\<lparr>mi_mission_status := status\<rparr>))
        else Inr m) = Inr m1"
    and pr: "(if has_key args ''mission_priority''
       then and_then (optional_i64 args ''mission_priority'') (\<lambda>priority.
              if is_some_and priority (\<lambda>priority. \<not> (0 \<le> priority \<and> priority \<le> 100))
              then Inl (InvalidPayload ''mission_priority must be between 0 and 100'')
              else Inr (m1\<lparr>mi_mission_priority := priority\<rparr>))
       else Inr m1) = Inr m'"
    by auto
  from st have "same_mission m m1"
    by (auto simp: result_eqs same_mission_def mission_ok_new_values split: if_splits
             dest: mission_status_ok)
  moreover from pr have "same_mission m1 m'"
    by (auto simp: result_eqs same_mission_def is_some_and_def intro!: mission_ok_new_values(6)
             split: if_splits option.splits)
  ultimately show ?thesis by (rule same_mission_trans)
qed

lemma metadata_fields_same:
  assumes "apply_mission_metadata_fields h args m = Inr m'"
  shows "same_mission m m'"
proof -
  from assms [unfolded apply_mission_metadata_fields_def and_then_eq_Inr Let_def] obtain m1 m2 m3 m4 where
    k: "(if has_key args ''keywords''
         then and_then (string_list h (jget args ''keywords'') ''keywords'') (\<lambda>keywords.
                Inr (m\<lparr>mi_keywords := keywords\<rparr>)) else Inr m) = Inr m1"
    and f: "(if has_key args ''feeds''
         then and_then (string_list h (jget args ''feeds'') ''feeds'') (\<lambda>feeds.
                Inr (m1\<lparr>mi_feeds := feeds\<rparr>)) else Inr m1) = Inr m2"
    and r: "apply_optional_role_fields h args m2 = Inr m3"
    and st: "apply_optional_mission_status_fields h args m3 = Inr m4"
    and m': "m' = set_text h args ''expiration'' (\<lambda>x m. m\<lparr>mi_expiration := x\<rparr>)
         (case optional_bool args ''invite_only'' of
            None \<Rightarrow> set_text h args ''token'' (\<lambda>x m. m\<lparr>mi_token := x\<rparr>) m4
          | Some b \<Rightarrow> set_text h args ''token'' (\<lambda>x m. m\<lparr>mi_token := x\<rparr>) m4\<lparr>mi_invite_only := b\<rparr>)"
    by blast
  from k f have "same_mission m m2"
    by (auto simp: same_mission_def result_eqs split: if_splits)
  moreover have "same_mission m2 m4"
    using role_fields_same [OF r] status_fields_same [OF st] by (rule same_mission_trans)
  moreover have "same_mission m4 (set_text h args ''token'' (\<lambda>x m. m\<lparr>mi_token := x\<rparr>) m4)"
    by (rule set_text_same) simp_all
  then have "same_mission m4 m'"
    unfolding m' by (intro set_text_same) (simp_all split: option.split)
  ultimately show ?thesis by (blast intro: same_mission_trans)
qed

lemma identity_fields_ok:
  assumes fields: "apply_mission_identity_fields h s args m = Inr m'" and "mission_ok m"
  shows "mi_uid m' = mi_uid m \<and> mission_ok m'"
proof -
  define m1 where "m1 = (case optional_text h args [''mission_name'', ''name''] of
      None \<Rightarrow> m | Some name \<Rightarrow> m\<lparr>mi_mission_name := name\<rparr>)"
  define m2 where "m2 = (case optional_text_or_empty h args [''description''] of
      None \<Rightarrow> m1 | Some description \<Rightarrow> m1\<lparr>mi_description := description\<rparr>)"
  have "mi_uid m1 = mi_uid m \<and> mission_ok m1"
    using assms(2) by (auto simp: m1_def mission_ok_new_values dest: optional_text_trimmed split: option.split)
  then have m2: "mi_uid m2 = mi_uid m \<and> mission_ok m2"
    by (simp add: m2_def split: option.split)
  from fields obtain m3 where m3: "m3 = m2 \<or> (\<exists>t. m3 = m2\<lparr>mi_topic_id := t\<rparr>)"
    and m': "m' = set_text h args ''tool'' (\<lambda>x m. m\<lparr>mi_tool := x\<rparr>)
        (set_text h args ''classification'' (\<lambda>x m. m\<lparr>mi_classification := x\<rparr>)
          (set_text h args ''path'' (\<lambda>x m. m\<lparr>mi_path := x\<rparr>) m3))
        \<lparr>mi_parent_uid := resolve_parent_uid h args (mi_parent_uid
          (set_text h args ''tool'' (\<lambda>x m. m\<lparr>mi_tool := x\<rparr>)
            (set_text h args ''classification'' (\<lambda>x m. m\<lparr>mi_classification := x\<rparr>)
              (set_text h args ''path'' (\<lambda>x m. m\<lparr>mi_path := x\<rparr>) m3))))\<rparr>"
    unfolding apply_mission_identity_fields_def Let_def m1_def [symmetric] m2_def [symmetric]
    by (auto simp: result_eqs split: if_splits option.splits)
  have step: "mi_uid (set_text h args key f r) = mi_uid m \<and> mission_ok (set_text h args key f r)"
    if "mi_uid r = mi_uid m \<and> mission_ok r" "\<And>x. mi_uid (f x r) = mi_uid r \<and> mission_ok (f x r) = mission_ok r"
    for key f r using that by (simp add: set_text_def split: option.split)
  from m2 m3 have "mi_uid m3 = mi_uid m \<and> mission_ok m3" by auto
  then show ?thesis
    unfolding m' by (simp add: step)
qed

lemma missions_ok_upsert [keeps]:
  assumes "missions_ok s"
  shows "leaves missions_ok (upsert_mission_from_args h args s)"
  unfolding upsert_mission_from_args_def Let_def
proof (intro keeps)
  fix uid t m1 m2 u
  assume t: "or_new_uuid h s (optional_text h args [''uid'', ''mission_id'']) = (uid, t)"
    and m1: "apply_mission_identity_fields h t args
        (unwrap_or (hm_get (missions t) uid) (new_mission uid (utc_now_ms h))) = Inr m1"
    and m2: "apply_mission_metadata_fields h args m1 = Inr m2"
    and chain: "ensure_parent_chain_acyclic t uid (mi_parent_uid m2) = Inr u"
  from or_new_uuid_frame [OF t] assms have t_ok: "missions_ok t" by (auto simp: missions_ok_uuid)
  let ?m0 = "unwrap_or (hm_get (missions t) uid) (new_mission uid (utc_now_ms h))"
  have "mission_ok ?m0 \<and> mi_uid ?m0 = uid"
    using t_ok by (cases "hm_get (missions t) uid")
      (auto simp: mission_ok_new dest: missions_ok_get, simp add: new_mission_def)
  with identity_fields_ok [OF m1] metadata_fields_same [OF m2]
  have "mission_ok m2" "mi_uid m2 = uid" by (auto simp: same_mission_def)
  then show "missions_ok (t\<lparr>missions := hm_insert uid (m2\<lparr>mi_updated_ts_ms := utc_now_ms h\<rparr>) (missions t)\<rparr>)"
    using chain by (intro missions_ok_insert [OF t_ok]) auto
qed (use assms in \<open>auto dest!: or_new_uuid_frame simp: missions_ok_uuid\<close>)

lemma missions_ok_patch [keeps]: "missions_ok s \<Longrightarrow> leaves missions_ok (patch_mission_from_args h args s)"
  unfolding patch_mission_from_args_def Let_def by (intro keeps)

lemma missions_ok_modify_op [keeps]:
  assumes "missions_ok s"
    and "\<And>m. mission_ok m \<Longrightarrow> mission_ok (f m) \<and> mi_uid (f m) = mi_uid m \<and> mi_parent_uid (f m) = mi_parent_uid m"
  shows "leaves missions_ok (modify_mission u f s)"
  unfolding modify_mission_def
  by (intro keeps assms(1)) (use assms in \<open>auto simp: result_eqs intro!: missions_ok_modify dest: missions_ok_get\<close>)

lemma missions_ok_delete [keeps]: "missions_ok s \<Longrightarrow> leaves missions_ok (delete_mission_from_args h args s)"
  unfolding delete_mission_from_args_def
  by (intro keeps) (auto simp: mission_ok_new_values mission_statuses_def)

lemma missions_ok_set_parent [keeps]:
  assumes "missions_ok s"
  shows "leaves missions_ok (set_mission_parent_from_args h args s)"
  unfolding set_mission_parent_from_args_def modify_mission_def Let_def
proof (intro keeps)
  fix uid u m
  let ?p = "case optional_text_or_empty h args [''parent_uid''] of None \<Rightarrow> None | Some text \<Rightarrow> none_if_empty text"
  assume chain: "ensure_parent_chain_acyclic s uid ?p = Inr u"
    and m: "ok_or (hm_get (missions s) uid) MissionNotFound = Inr m"
  from m assms have "mission_ok m" "mi_uid m = uid" by (auto simp: result_eqs dest: missions_ok_get)
  then show "missions_ok (s\<lparr>missions :=
      hm_insert uid (m\<lparr>mi_parent_uid := ?p, mi_updated_ts_ms := utc_now_ms h\<rparr>) (missions s)\<rparr>)"
    using chain by (intro missions_ok_insert [OF assms]) auto
qed (use assms in auto)

lemma missions_ok_touch [keeps]: "missions_ok s \<Longrightarrow> leaves missions_ok (touch_mission h u s)"
  unfolding touch_mission_def by (intro keeps) auto

lemma missions_ok_links [simp]:
  "missions_ok (s\<lparr>mission_zone_links := x\<rparr>) = missions_ok s"
  "missions_ok (s\<lparr>mission_marker_links := y\<rparr>) = missions_ok s"
  by (rule missions_ok_cong, simp)+

lemma missions_ok_rde [keeps]: "missions_ok s \<Longrightarrow> trim role \<noteq> [] \<Longrightarrow> leaves missions_ok (set_mission_rde h u role s)"
  unfolding set_mission_rde_def
  by (intro keeps)
     (auto simp: mission_ok_new_values role_ok_def normalize_mission_role_def dest: normalize_enum_non_empty)

lemma missions_ok_command: "missions_ok s \<Longrightarrow> leaves missions_ok (apply_registry_mission_command h c s)"
  unfolding apply_registry_mission_command_def apply_registry_mission_marker_command_def
    link_mission_zone_def unlink_mission_zone_def link_mission_marker_def unlink_mission_marker_def Let_def
  by (intro keeps) (auto simp: required_text_Inr dest: optional_text_trimmed)

text \<open>What the mission commands change.\<close>

definition hide_missions :: "rch_core \<Rightarrow> rch_core" where
  "hide_missions t = t\<lparr>missions := [], mission_zone_links := [], mission_marker_links := [], next_uuid := 0\<rparr>"

definition only_missions :: "rch_core \<Rightarrow> rch_core \<Rightarrow> bool" where
  "only_missions s t \<longleftrightarrow> hide_missions t = hide_missions s"

lemma only_missions_simps [simp]:
  "only_missions s s"
  "only_missions s (t\<lparr>missions := a\<rparr>) = only_missions s t"
  "only_missions s (t\<lparr>mission_zone_links := b\<rparr>) = only_missions s t"
  "only_missions s (t\<lparr>mission_marker_links := c\<rparr>) = only_missions s t"
  "only_missions s (t\<lparr>next_uuid := n\<rparr>) = only_missions s t"
  by (simp_all add: only_missions_def hide_missions_def)

lemma mission_command_frame: "leaves (only_missions s) (apply_registry_mission_command h c s)"
  unfolding apply_registry_mission_command_def apply_registry_mission_marker_command_def
    link_mission_zone_def unlink_mission_zone_def link_mission_marker_def unlink_mission_marker_def
    upsert_mission_from_args_def patch_mission_from_args_def delete_mission_from_args_def
    set_mission_parent_from_args_def set_mission_rde_def touch_mission_def modify_mission_def Let_def
  by (intro keeps) (auto dest!: or_new_uuid_frame)

end
