(* ===== verification/Logs.thy ===== *)
theory Logs
  imports Missions
begin

text \<open>
  Mission changes and log entries (\<open>crates/r3akt-rch-core/src/lib.rs\<close>:
  \<open>apply_registry_log_command\<close>, \<open>upsert_mission_change_from_args\<close> to
  \<open>record_auto_log_change\<close>).  A log entry without a mission goes to the default mission,
  which is created on demand; every stored entry also records a mission change.

  The invariant \<open>logs_ok\<close>: every mission change and every log entry carries its own key and
  belongs to a mission (the change a checklist without a mission records has an empty mission), and
  the delta of a change is an object.
\<close>

subsection \<open>Mission changes\<close>

fun ensure_markers_exist :: "rch_core \<Rightarrow> string list \<Rightarrow> unit result" where
  "ensure_markers_exist s [] = Inr ()"
| "ensure_markers_exist s (marker_ref # refs) =
     and_then (ensure_marker_exists s marker_ref) (\<lambda>_. ensure_markers_exist s refs)"

definition upsert_mission_change_from_args :: "host \<Rightarrow> json \<Rightarrow> rch_core \<Rightarrow> mission_change_record op" where
  "upsert_mission_change_from_args h args s =
     (let (uid, s) = or_new_uuid h s (optional_text h args [''uid''])
      in try_in s (required_text h args [''mission_uid'', ''mission_id'']) (\<lambda>mission_uid.
         if \<not> hm_contains (missions s) mission_uid then (s, Inl MissionNotFound)
         else
           try_in s (string_list h (jget args ''hashes'') ''hashes'') (\<lambda>hashes.
           try_in s (ensure_markers_exist s hashes) (\<lambda>_.
           (let current = hm_get (mission_changes s) uid
            in try_in s (optional_timestamp_ms h args [''timestamp'']) (\<lambda>timestamp.
               try_in s
                 (if has_key args ''change_type''
                  then normalize_mission_change_type
                         (case jget args ''change_type'' of None \<Rightarrow> None | Some v \<Rightarrow> value_as_str h v)
                  else Inr (case current of None \<Rightarrow> ''ADD_CONTENT'' | Some item \<Rightarrow> mc_change_type item)) (\<lambda>change_type.
               (let change = \<lparr>mc_uid = uid, mc_mission_uid = mission_uid,
                      mc_name = or_else (optional_text_or_empty h args [''name''])
                        (case current of None \<Rightarrow> None | Some item \<Rightarrow> mc_name item),
                      mc_team_member_rns_identity =
                        or_else (optional_text_or_empty h args [''team_member_rns_identity''])
                          (case current of None \<Rightarrow> None | Some item \<Rightarrow> mc_team_member_rns_identity item),
                      mc_timestamp_ms =
                        unwrap_or (or_else timestamp (map_option mc_timestamp_ms current)) (utc_now_ms h),
                      mc_notes = or_else (optional_text_or_empty h args [''notes''])
                        (case current of None \<Rightarrow> None | Some item \<Rightarrow> mc_notes item),
                      mc_change_type = change_type,
                      mc_is_federated_change =
                        unwrap_or (or_else (optional_bool args ''is_federated_change'')
                          (map_option mc_is_federated_change current)) False,
                      mc_hashes = hashes,
                      mc_delta = unwrap_or (jget args ''delta'') (JObj [])\<rparr>
                in if \<not> is_object (mc_delta change)
                   then (s, Inl (InvalidPayload ''delta must be an object''))
                   else (s\<lparr>mission_changes := hm_insert uid change (mission_changes s)\<rparr>,
                         Inr change)))))))))"

subsection \<open>Log entries\<close>

definition default_log_mission :: "int \<Rightarrow> mission_record" where
  "default_log_mission now =
     (new_mission ''mission-default'' now)
       \<lparr>mi_mission_name := ''Mission Default'',
        mi_description := ''Synthetic mission used for missionless log submissions.''\<rparr>"

definition ensure_default_log_mission :: "host \<Rightarrow> rch_core \<Rightarrow> rch_core" where
  "ensure_default_log_mission h s =
     (if hm_contains (missions s) ''mission-default'' then s
      else s\<lparr>missions := hm_insert ''mission-default'' (default_log_mission (utc_now_ms h)) (missions s)\<rparr>)"

definition resolve_log_mission_uid :: "host \<Rightarrow> json \<Rightarrow> rch_core \<Rightarrow> string op" where
  "resolve_log_mission_uid h args s =
     (case optional_text h args [''mission_uid'', ''mission_id''] of
        Some mission_uid \<Rightarrow>
          if \<not> hm_contains (missions s) mission_uid then (s, Inl MissionNotFound) else (s, Inr mission_uid)
      | None \<Rightarrow> (ensure_default_log_mission h s, Inr ''mission-default''))"

definition resolve_log_callsign ::
  "host \<Rightarrow> mission_command \<Rightarrow> json \<Rightarrow> log_entry_record option \<Rightarrow> string option" where
  "resolve_log_callsign h command args current =
     or_else (case optional_text_or_empty h args [''callsign'', ''author_callsign''] of
                None \<Rightarrow> None | Some text \<Rightarrow> none_if_empty text)
       (or_else (case current of None \<Rightarrow> None | Some entry \<Rightarrow> le_callsign entry)
         (src_display_name (cmd_source command)))"

definition record_auto_log_change :: "host \<Rightarrow> log_entry_record \<Rightarrow> rch_core \<Rightarrow> rch_core" where
  "record_auto_log_change h entry s =
     (let (change_uid, s) = new_uuid h s;
          log_delta = JObj
            [(''op'', JStr ''upsert''), (''entry_uid'', JStr (le_entry_uid entry)),
             (''mission_uid'', JStr (le_mission_uid entry)), (''callsign'', jopt (le_callsign entry)),
             (''content'', JStr (le_content entry)),
             (''server_time'', JStr (millis_to_rfc3339 h (le_server_time_ms entry))),
             (''client_time'', jopt (le_client_time entry)), (''keywords'', jstrs (le_keywords entry)),
             (''mecp'', mecp_log_entry_value (le_content entry)),
             (''content_hashes'', jstrs (le_content_hashes entry))]
      in s\<lparr>mission_changes := hm_insert change_uid
             \<lparr>mc_uid = change_uid, mc_mission_uid = le_mission_uid entry,
              mc_name = Some ''mission.log_entry.upserted'', mc_team_member_rns_identity = None,
              mc_timestamp_ms = utc_now_ms h, mc_notes = None, mc_change_type = ''ADD_CONTENT'',
              mc_is_federated_change = False, mc_hashes = le_content_hashes entry,
              mc_delta = JObj
                [(''version'', JInt 1), (''contract_version'', JStr ''mission.delta.v1''),
                 (''source_event_type'', JStr ''mission.log_entry.upserted''),
                 (''emitted_at'', JStr (utc_now_rfc3339 h)), (''logs'', JArr [log_delta]),
                 (''assets'', JArr []), (''tasks'', JArr []), (''checklists'', JArr [])]\<rparr>
             (mission_changes s)\<rparr>)"

definition log_content_hashes ::
  "host \<Rightarrow> rch_core \<Rightarrow> json \<Rightarrow> log_entry_record option \<Rightarrow> string list result" where
  "log_content_hashes h s args current =
     (if has_key args ''content_hashes'' \<or> has_key args ''contenthashes''
      then and_then (string_list h (or_else (jget args ''content_hashes'') (jget args ''contenthashes''))
                       ''content_hashes'') (\<lambda>hashes.
           and_then (ensure_markers_exist s hashes) (\<lambda>_. Inr hashes))
      else Inr (case current of None \<Rightarrow> [] | Some entry \<Rightarrow> le_content_hashes entry))"

definition log_keywords :: "host \<Rightarrow> json \<Rightarrow> string \<Rightarrow> log_entry_record option \<Rightarrow> string list result" where
  "log_keywords h args content current =
     (if has_key args ''keywords''
      then and_then (string_list h (jget args ''keywords'') ''keywords'') (\<lambda>keywords.
             Inr (append_mecp_keywords content keywords))
      else Inr (append_mecp_keywords content
             (case current of None \<Rightarrow> [] | Some entry \<Rightarrow> le_keywords entry)))"

definition upsert_log_entry_from_args ::
  "host \<Rightarrow> mission_command \<Rightarrow> json \<Rightarrow> rch_core \<Rightarrow> log_entry_record op" where
  "upsert_log_entry_from_args h command args s =
     (let (entry_uid, s) = or_new_uuid h s (optional_text h args [''entry_uid'', ''uid''])
      in try_st (resolve_log_mission_uid h args s) (\<lambda>s mission_uid.
         (let current = hm_get (log_entries s) entry_uid
          in try_in s (ok_or (or_else (optional_text h args [''content'']) (map_option le_content current))
               (InvalidPayload ''content is required'')) (\<lambda>content.
             (let now = utc_now_ms h
              in try_in s (log_content_hashes h s args current) (\<lambda>content_hashes.
                 try_in s (log_keywords h args content current) (\<lambda>keywords.
                 try_in s (optional_timestamp_ms h args [''server_time'', ''servertime'']) (\<lambda>server_time.
                   (let entry = \<lparr>le_entry_uid = entry_uid, le_mission_uid = mission_uid,
                          le_callsign = resolve_log_callsign h command args current,
                          le_content = content,
                          le_server_time_ms =
                            unwrap_or (or_else server_time (map_option le_server_time_ms current)) now,
                          le_client_time =
                            or_else (optional_text_or_empty h args [''client_time'', ''clientTime'', ''clienttime''])
                              (case current of None \<Rightarrow> None | Some entry \<Rightarrow> le_client_time entry),
                          le_content_hashes = content_hashes, le_keywords = keywords,
                          le_created_ts_ms = (case current of None \<Rightarrow> now | Some entry \<Rightarrow> le_created_ts_ms entry),
                          le_updated_ts_ms = now\<rparr>;
                        s = s\<lparr>log_entries := hm_insert entry_uid entry (log_entries s)\<rparr>
                    in (record_auto_log_change h entry s, Inr entry))))))))))"

definition apply_registry_log_command :: "host \<Rightarrow> mission_command \<Rightarrow> rch_core \<Rightarrow> event_envelope option op"
  where
  "apply_registry_log_command h command s =
     (let args = cmd_args command; ctype = cmd_type command
      in if ctype = ''mission.registry.mission_change.upsert'' then
           try_st (upsert_mission_change_from_args h args s) (\<lambda>s change.
             (s, Inr (Some (event ''mission.registry.mission_change.upserted'' command
                (mission_change_value h change)))))
         else if ctype = ''mission.registry.mission_change.list'' then
           (s, Inr (Some (event ''mission.registry.mission_change.listed'' command
              (JObj [(''mission_changes'', JArr (mission_change_values h s
                 (optional_text h args [''mission_uid'', ''mission_id''])))]))))
         else if ctype = ''mission.registry.log_entry.upsert'' then
           try_st (upsert_log_entry_from_args h command args s) (\<lambda>s entry.
             (s, Inr (Some (event ''mission.registry.log_entry.upserted'' command
                (log_entry_value h entry)))))
         else if ctype = ''mission.registry.log_entry.list'' then
           (s, Inr (Some (event ''mission.registry.log_entry.listed'' command
              (JObj [(''log_entries'', JArr (log_entry_values h s
                 (optional_text h args [''mission_uid'', ''mission_id''])
                 (optional_text h args [''marker_ref''])))]))))
         else (s, Inl (UnsupportedCommand ctype)))"

subsection \<open>The invariant of the log\<close>

definition logs_ok :: "rch_core \<Rightarrow> bool" where
  "logs_ok s \<longleftrightarrow> hm_wf (mission_changes s) \<and> hm_wf (log_entries s)
     \<and> (\<forall>k c. hm_get (mission_changes s) k = Some c \<longrightarrow> mc_uid c = k
        \<and> (mc_mission_uid c = [] \<or> hm_contains (missions s) (mc_mission_uid c)) \<and> is_object (mc_delta c))
     \<and> (\<forall>k e. hm_get (log_entries s) k = Some e \<longrightarrow> le_entry_uid e = k
        \<and> hm_contains (missions s) (le_mission_uid e))"

lemma logs_ok_uuid [simp]: "logs_ok (s\<lparr>next_uuid := n\<rparr>) = logs_ok s"
  by (simp add: logs_ok_def)

lemma logs_ok_change:
  "logs_ok s \<Longrightarrow> mc_uid c = k \<Longrightarrow> mc_mission_uid c = [] \<or> hm_contains (missions s) (mc_mission_uid c) \<Longrightarrow>
     is_object (mc_delta c) \<Longrightarrow>
     logs_ok (s\<lparr>mission_changes := hm_insert k c (mission_changes s)\<rparr>)"
  by (simp add: logs_ok_def)

lemma logs_ok_entry:
  "logs_ok s \<Longrightarrow> le_entry_uid e = k \<Longrightarrow> hm_contains (missions s) (le_mission_uid e) \<Longrightarrow>
     logs_ok (s\<lparr>log_entries := hm_insert k e (log_entries s)\<rparr>)"
  by (simp add: logs_ok_def)

lemma logs_ok_new_mission: "logs_ok s \<Longrightarrow> logs_ok (s\<lparr>missions := hm_insert u m (missions s)\<rparr>)"
  by (auto simp: logs_ok_def)

lemma logs_ok_change_op [keeps]:
  "logs_ok s \<Longrightarrow> leaves logs_ok (upsert_mission_change_from_args h args s)"
  unfolding upsert_mission_change_from_args_def Let_def
  by (intro keeps logs_ok_change) (auto dest!: or_new_uuid_frame)

lemma resolve_log_mission:
  assumes "resolve_log_mission_uid h args s = (t, Inr uid)"
  shows "hm_contains (missions t) uid"
  using assms
  by (auto simp: resolve_log_mission_uid_def ensure_default_log_mission_def split: option.splits if_splits)

lemma logs_ok_resolve [keeps]: "logs_ok s \<Longrightarrow> leaves logs_ok (resolve_log_mission_uid h args s)"
  unfolding resolve_log_mission_uid_def ensure_default_log_mission_def
  by (intro keeps) (auto intro: logs_ok_new_mission)

lemma logs_ok_auto [simp]:
  "logs_ok s \<Longrightarrow> hm_contains (missions s) (le_mission_uid e) \<Longrightarrow> logs_ok (record_auto_log_change h e s)"
  by (simp add: record_auto_log_change_def new_uuid_def Let_def is_object_def logs_ok_def)

lemma logs_ok_entry_op [keeps]:
  "logs_ok s \<Longrightarrow> leaves logs_ok (upsert_log_entry_from_args h c args s)"
  unfolding upsert_log_entry_from_args_def Let_def
  by (intro keeps logs_ok_auto logs_ok_entry) (auto dest!: or_new_uuid_frame dest: resolve_log_mission)

lemma logs_ok_command: "logs_ok s \<Longrightarrow> leaves logs_ok (apply_registry_log_command h c s)"
  unfolding apply_registry_log_command_def Let_def by (intro keeps)

text \<open>The default mission joins the forest as a root.\<close>

lemma default_log_mission_ok: "mission_ok (default_log_mission now)"
proof -
  have "trim ''Mission Default'' \<noteq> []" by code_simp
  then show ?thesis
    by (simp add: default_log_mission_def mission_ok_new_values mission_ok_new)
qed

lemma default_log_mission_fields [simp]:
  "mi_uid (default_log_mission now) = ''mission-default''"
  "mi_parent_uid (default_log_mission now) = None"
  by (simp_all add: default_log_mission_def new_mission_def)

lemma missions_ok_resolve [keeps]: "missions_ok s \<Longrightarrow> leaves missions_ok (resolve_log_mission_uid h args s)"
  unfolding resolve_log_mission_uid_def ensure_default_log_mission_def
  by (intro keeps)
     (auto intro!: missions_ok_insert default_log_mission_ok
        simp: ensure_parent_chain_acyclic_def)

lemma missions_ok_logs [simp]:
  "missions_ok (s\<lparr>log_entries := x\<rparr>) = missions_ok s"
  "missions_ok (s\<lparr>mission_changes := y\<rparr>) = missions_ok s"
  by (rule missions_ok_cong, simp)+

lemma missions_ok_log_command: "missions_ok s \<Longrightarrow> leaves missions_ok (apply_registry_log_command h c s)"
  unfolding apply_registry_log_command_def upsert_log_entry_from_args_def
    upsert_mission_change_from_args_def record_auto_log_change_def new_uuid_def Let_def
  by (intro keeps) (auto dest!: or_new_uuid_frame simp: missions_ok_uuid)

text \<open>What the log commands change.\<close>

definition hide_logs :: "rch_core \<Rightarrow> rch_core" where
  "hide_logs t = t\<lparr>missions := [], mission_changes := [], log_entries := [], next_uuid := 0\<rparr>"

definition only_logs :: "rch_core \<Rightarrow> rch_core \<Rightarrow> bool" where
  "only_logs s t \<longleftrightarrow> hide_logs t = hide_logs s"

lemma only_logs_simps [simp]:
  "only_logs s s"
  "only_logs s (t\<lparr>missions := a\<rparr>) = only_logs s t"
  "only_logs s (t\<lparr>mission_changes := b\<rparr>) = only_logs s t"
  "only_logs s (t\<lparr>log_entries := c\<rparr>) = only_logs s t"
  "only_logs s (t\<lparr>next_uuid := n\<rparr>) = only_logs s t"
  by (simp_all add: only_logs_def hide_logs_def)

lemma log_command_frame: "leaves (only_logs s) (apply_registry_log_command h c s)"
  unfolding apply_registry_log_command_def upsert_log_entry_from_args_def
    upsert_mission_change_from_args_def record_auto_log_change_def resolve_log_mission_uid_def
    ensure_default_log_mission_def new_uuid_def Let_def
  by (intro keeps) (auto dest!: or_new_uuid_frame)

end
