(* ===== verification/Teams.thy ===== *)
theory Teams
  imports Logs
begin

text \<open>
  Teams and their members (\<open>crates/r3akt-rch-core/src/lib.rs\<close>:
  \<open>apply_registry_team_command\<close>, \<open>apply_registry_team_member_command\<close>,
  \<open>upsert_team_from_args\<close>, \<open>delete_team_from_args\<close> to \<open>team_member_client_ids\<close>).

  The invariant \<open>teams_ok\<close> is the referential integrity of this part of the registry: a team
  and a link name only missions that exist, a member names only a team that exists (deleting a team
  clears its members), and the client identities a member carries are exactly its links.
\<close>

subsection \<open>Teams\<close>

definition team_refs_provided :: "json \<Rightarrow> bool" where
  "team_refs_provided args \<longleftrightarrow>
     has_key args ''mission_uid'' \<or> has_key args ''mission_id'' \<or> has_key args ''mission_uids''"

definition team_mission_uids_from_args :: "host \<Rightarrow> rch_core \<Rightarrow> json \<Rightarrow> string list result" where
  "team_mission_uids_from_args h s args =
     and_then (if has_key args ''mission_uids''
               then string_list h (jget args ''mission_uids'') ''mission_uids'' else Inr []) (\<lambda>mission_uids.
       (let mission_uids =
              (case optional_text h args [''mission_uid'', ''mission_id''] of
                 None \<Rightarrow> mission_uids | Some mission_uid \<Rightarrow> mission_uids @ [mission_uid]);
            mission_uids = dedupe_non_empty mission_uids
        in if list_all (hm_contains (missions s)) mission_uids then Inr mission_uids
           else Inl MissionNotFound))"

definition set_team_mission_links :: "string \<Rightarrow> string list \<Rightarrow> rch_core \<Rightarrow> rch_core" where
  "set_team_mission_links team_uid mission_uids s =
     s\<lparr>mission_team_links :=
         hs_extend (hs_retain (\<lambda>(_, linked_team_uid). linked_team_uid \<noteq> team_uid) (mission_team_links s))
           (map (\<lambda>mission_uid. (mission_uid, team_uid)) mission_uids)\<rparr>"

definition first_of :: "'a list \<Rightarrow> 'a option" where
  "first_of xs = (case xs of [] \<Rightarrow> None | x # _ \<Rightarrow> Some x)"

definition update_team_mission_refs ::
  "host \<Rightarrow> string \<Rightarrow> string list \<Rightarrow> rch_core \<Rightarrow> team_record op" where
  "update_team_mission_refs h team_uid mission_uids s =
     try_in s (ok_or (hm_get (teams s) team_uid) TeamNotFound) (\<lambda>team.
       (let team = team\<lparr>te_mission_uid := first_of mission_uids, te_mission_uids := mission_uids,
                        te_updated_ts_ms := utc_now_ms h\<rparr>
        in (s\<lparr>teams := hm_insert team_uid team (teams s)\<rparr>, Inr team)))"

definition new_team :: "string \<Rightarrow> int \<Rightarrow> team_record" where
  "new_team uid now =
     \<lparr>te_uid = uid, te_mission_uid = None, te_mission_uids = [], te_color = None,
      te_team_name = ''Team'', te_team_description = [], te_created_ts_ms = now,
      te_updated_ts_ms = now\<rparr>"

definition team_name_fields ::
  "host \<Rightarrow> json \<Rightarrow> (string \<times> string) option \<Rightarrow> team_record \<Rightarrow> team_record result" where
  "team_name_fields h args canonical_team team =
     (case canonical_team of
        Some (_, canonical_color) \<Rightarrow>
          Inr (team\<lparr>te_color := Some canonical_color, te_team_name := canonical_color\<rparr>)
      | None \<Rightarrow>
          and_then
            (case optional_text_or_empty h args [''color''] of
               None \<Rightarrow> Inr team
             | Some color \<Rightarrow>
                 and_then (normalize_team_color color) (\<lambda>c. Inr (team\<lparr>te_color := none_if_empty c\<rparr>)))
            (\<lambda>team. Inr (case optional_text h args [''team_name'', ''name''] of
                           None \<Rightarrow> team | Some name \<Rightarrow> team\<lparr>te_team_name := name\<rparr>)))"

definition upsert_team_from_args :: "host \<Rightarrow> json \<Rightarrow> rch_core \<Rightarrow> team_record op" where
  "upsert_team_from_args h args s =
     (let requested_uid = optional_text h args [''uid''];
          canonical_team = canonical_team_from_team_args h args requested_uid;
          (uid, s) = or_new_uuid h s (or_else (map_option fst canonical_team) requested_uid);
          now = utc_now_ms h;
          team = unwrap_or (hm_get (teams s) uid) (new_team uid now)
      in try_st
           (if team_refs_provided args
            then try_in s (team_mission_uids_from_args h s args) (\<lambda>mission_uids.
                   (set_team_mission_links uid mission_uids s,
                    Inr (team\<lparr>te_mission_uids := mission_uids, te_mission_uid := first_of mission_uids\<rparr>)))
            else (s, Inr team)) (\<lambda>s team.
         try_in s (team_name_fields h args canonical_team team) (\<lambda>team.
           (let team = (case optional_text_or_empty h args [''team_description'', ''description''] of
                    None \<Rightarrow> team | Some description \<Rightarrow> team\<lparr>te_team_description := description\<rparr>);
                team = team\<lparr>te_updated_ts_ms := now\<rparr>
            in (s\<lparr>teams := hm_insert uid team (teams s)\<rparr>, Inr team)))))"

definition clear_team :: "host \<Rightarrow> string \<Rightarrow> team_member_record \<Rightarrow> team_member_record" where
  "clear_team h team_uid member =
     (if tm_team_uid member = Some team_uid
      then member\<lparr>tm_team_uid := None, tm_updated_ts_ms := utc_now_ms h\<rparr> else member)"

definition delete_team_from_args :: "host \<Rightarrow> json \<Rightarrow> rch_core \<Rightarrow> team_record op" where
  "delete_team_from_args h args s =
     try_in s (required_text h args [''team_uid'', ''uid'']) (\<lambda>team_uid.
     try_in s (ok_or (hm_get (teams s) team_uid) TeamNotFound) (\<lambda>team.
       (s\<lparr>teams := hm_remove team_uid (teams s),
          team_members := hm_map_values (clear_team h team_uid) (team_members s),
          mission_team_links :=
            hs_retain (\<lambda>(_, linked_team_uid). linked_team_uid \<noteq> team_uid) (mission_team_links s)\<rparr>,
        Inr team)))"

definition link_team_mission_from_args :: "host \<Rightarrow> json \<Rightarrow> rch_core \<Rightarrow> team_record op" where
  "link_team_mission_from_args h args s =
     try_in s (required_text h args [''team_uid'', ''uid'']) (\<lambda>team_uid.
     try_in s (required_text h args [''mission_uid'', ''mission_id'']) (\<lambda>mission_uid.
       if \<not> hm_contains (missions s) mission_uid then (s, Inl MissionNotFound)
       else
         (let mission_uids = team_mission_ids s team_uid;
              mission_uids = (if mission_uid \<in> set mission_uids then mission_uids
                              else mission_uids @ [mission_uid]);
              mission_uids = dedupe_non_empty mission_uids
          in update_team_mission_refs h team_uid mission_uids
               (set_team_mission_links team_uid mission_uids s))))"

definition unlink_team_mission_from_args :: "host \<Rightarrow> json \<Rightarrow> rch_core \<Rightarrow> team_record op" where
  "unlink_team_mission_from_args h args s =
     try_in s (required_text h args [''team_uid'', ''uid'']) (\<lambda>team_uid.
     try_in s (required_text h args [''mission_uid'', ''mission_id'']) (\<lambda>mission_uid.
       (let mission_uids = filter (\<lambda>uid. uid \<noteq> mission_uid) (team_mission_ids s team_uid)
        in update_team_mission_refs h team_uid mission_uids
             (set_team_mission_links team_uid mission_uids s))))"

definition apply_registry_team_command :: "host \<Rightarrow> mission_command \<Rightarrow> rch_core \<Rightarrow> event_envelope option op"
  where
  "apply_registry_team_command h command s =
     (let args = cmd_args command; ctype = cmd_type command;
          answer = (\<lambda>event_type s team. (s, Inr (Some (event event_type command (team_value h team)))))
      in if ctype = ''mission.registry.team.upsert'' then
           try_st (upsert_team_from_args h args s) (answer ''mission.registry.team.upserted'')
         else if ctype = ''mission.registry.team.get'' then
           try_in s (required_text h args [''team_uid'', ''uid'']) (\<lambda>team_uid.
           try_in s (ok_or (hm_get (teams s) team_uid) TeamNotFound)
             (answer ''mission.registry.team.retrieved'' s))
         else if ctype = ''mission.registry.team.list'' then
           (s, Inr (Some (event ''mission.registry.team.listed'' command
              (JObj [(''teams'', JArr (team_values h s (optional_text h args [''mission_uid''])))]))))
         else if ctype = ''mission.registry.team.delete'' then
           try_st (delete_team_from_args h args s) (answer ''mission.registry.team.deleted'')
         else if ctype = ''mission.registry.team.mission.link'' then
           try_st (link_team_mission_from_args h args s) (answer ''mission.registry.team.mission.linked'')
         else if ctype = ''mission.registry.team.mission.unlink'' then
           try_st (unlink_team_mission_from_args h args s) (answer ''mission.registry.team.mission.unlinked'')
         else (s, Inl (UnsupportedCommand ctype)))"

subsection \<open>Team members\<close>

definition new_team_member :: "string \<Rightarrow> string \<Rightarrow> int \<Rightarrow> team_member_record" where
  "new_team_member uid identity now =
     \<lparr>tm_uid = uid, tm_team_uid = None, tm_rns_identity = identity, tm_display_name = identity,
      tm_icon = None, tm_role = None, tm_callsign = None, tm_freq = None, tm_email = None,
      tm_phone = None, tm_modulation = None, tm_availability = None, tm_certifications = [],
      tm_last_active = None, tm_client_identities = [], tm_created_ts_ms = now,
      tm_updated_ts_ms = now\<rparr>"

text \<open>\<open>if let Some(text) = optional_text_or_empty(args, &[key]) { field = none_if_empty(text) }\<close>\<close>

definition set_optional ::
  "host \<Rightarrow> json \<Rightarrow> string \<Rightarrow> (string option \<Rightarrow> 'a \<Rightarrow> 'a) \<Rightarrow> 'a \<Rightarrow> 'a" where
  "set_optional h args key update x =
     (case optional_text_or_empty h args [key] of None \<Rightarrow> x | Some text \<Rightarrow> update (none_if_empty text) x)"

definition apply_optional_member_contact_fields ::
  "host \<Rightarrow> json \<Rightarrow> team_member_record \<Rightarrow> team_member_record result" where
  "apply_optional_member_contact_fields h args member =
     (let member = set_optional h args ''email'' (\<lambda>v m. m\<lparr>tm_email := v\<rparr>) member;
          member = set_optional h args ''phone'' (\<lambda>v m. m\<lparr>tm_phone := v\<rparr>) member;
          member = set_optional h args ''modulation'' (\<lambda>v m. m\<lparr>tm_modulation := v\<rparr>) member;
          member = set_optional h args ''availability'' (\<lambda>v m. m\<lparr>tm_availability := v\<rparr>) member
      in and_then (if has_key args ''certifications''
                   then and_then (string_list h (jget args ''certifications'') ''certifications'')
                          (\<lambda>certifications. Inr (member\<lparr>tm_certifications := certifications\<rparr>))
                   else Inr member) (\<lambda>member.
           Inr (set_optional h args ''last_active'' (\<lambda>v m. m\<lparr>tm_last_active := v\<rparr>) member)))"

definition member_team_field ::
  "host \<Rightarrow> rch_core \<Rightarrow> json \<Rightarrow> team_member_record \<Rightarrow> team_member_record result" where
  "member_team_field h s args member =
     (if has_key args ''team_uid''
      then (let team_uid = (case optional_text_or_empty h args [''team_uid''] of
                  None \<Rightarrow> None | Some text \<Rightarrow> none_if_empty text)
            in if is_none_or team_uid (hm_contains (teams s))
               then Inr (member\<lparr>tm_team_uid := team_uid\<rparr>) else Inl TeamNotFound)
      else Inr member)"

definition member_role_field :: "host \<Rightarrow> json \<Rightarrow> team_member_record \<Rightarrow> team_member_record result" where
  "member_role_field h args member =
     (case optional_text_or_empty h args [''role''] of
        None \<Rightarrow> Inr member
      | Some role \<Rightarrow> and_then (normalize_team_role role) (\<lambda>role. Inr (member\<lparr>tm_role := none_if_empty role\<rparr>)))"

definition apply_team_member_fields ::
  "host \<Rightarrow> rch_core \<Rightarrow> json \<Rightarrow> team_member_record \<Rightarrow> team_member_record result" where
  "apply_team_member_fields h s args member =
     and_then (member_team_field h s args member) (\<lambda>member.
     (let member = (case optional_text h args [''display_name'', ''callsign''] of
              None \<Rightarrow> member | Some display_name \<Rightarrow> member\<lparr>tm_display_name := display_name\<rparr>);
          member = set_optional h args ''icon'' (\<lambda>v m. m\<lparr>tm_icon := v\<rparr>) member
      in and_then (member_role_field h args member) (\<lambda>member.
         (let member = set_optional h args ''callsign'' (\<lambda>v m. m\<lparr>tm_callsign := v\<rparr>) member
          in and_then (optional_f64 args ''freq'') (\<lambda>freq.
               apply_optional_member_contact_fields h args
                 (member\<lparr>tm_freq := or_else freq (tm_freq member)\<rparr>))))))"

definition upsert_team_member_from_args :: "host \<Rightarrow> json \<Rightarrow> rch_core \<Rightarrow> team_member_record op" where
  "upsert_team_member_from_args h args s =
     (let (uid, s) = or_new_uuid h s (optional_text h args [''uid''])
      in try_in s (required_text h args [''rns_identity'', ''team_member_rns_identity'']) (\<lambda>identity.
         (let now = utc_now_ms h;
              member = unwrap_or (hm_get (team_members s) uid) (new_team_member uid identity now);
              member = member\<lparr>tm_rns_identity := identity\<rparr>
          in try_in s (apply_team_member_fields h s args member) (\<lambda>member.
             (let member = member\<lparr>tm_client_identities := team_member_client_ids s uid,
                                  tm_updated_ts_ms := now\<rparr>
              in (s\<lparr>team_members := hm_insert uid member (team_members s)\<rparr>, Inr member))))))"

definition clear_asset_member :: "host \<Rightarrow> string \<Rightarrow> asset_record \<Rightarrow> asset_record" where
  "clear_asset_member h uid asset =
     (if at_team_member_uid asset = Some uid
      then asset\<lparr>at_team_member_uid := None, at_updated_ts_ms := utc_now_ms h\<rparr> else asset)"

definition delete_team_member_from_args :: "host \<Rightarrow> json \<Rightarrow> rch_core \<Rightarrow> team_member_record op" where
  "delete_team_member_from_args h args s =
     try_in s (required_text h args [''team_member_uid'', ''uid'']) (\<lambda>uid.
     try_in s (ok_or (hm_get (team_members s) uid) TeamMemberNotFound) (\<lambda>member.
       (s\<lparr>team_members := hm_remove uid (team_members s),
          assets := hm_map_values (clear_asset_member h uid) (assets s),
          team_member_client_links :=
            hs_retain (\<lambda>(member_uid, _). member_uid \<noteq> uid) (team_member_client_links s),
          team_member_skills :=
            hm_retain (\<lambda>_ skill. ts_team_member_rns_identity skill \<noteq> tm_rns_identity member)
              (team_member_skills s)\<rparr>,
        Inr member)))"

definition refresh_team_member_clients :: "host \<Rightarrow> string \<Rightarrow> rch_core \<Rightarrow> team_member_record op" where
  "refresh_team_member_clients h uid s =
     (let client_identities = team_member_client_ids s uid
      in try_in s (ok_or (hm_get (team_members s) uid) TeamMemberNotFound) (\<lambda>member.
         (let member = member\<lparr>tm_client_identities := client_identities, tm_updated_ts_ms := utc_now_ms h\<rparr>
          in (s\<lparr>team_members := hm_insert uid member (team_members s)\<rparr>, Inr member))))"

definition link_team_member_client_from_args :: "host \<Rightarrow> json \<Rightarrow> rch_core \<Rightarrow> team_member_record op" where
  "link_team_member_client_from_args h args s =
     try_in s (required_text h args [''team_member_uid'', ''uid'']) (\<lambda>uid.
     try_in s (normalize_required_identity (optional_text h args [''client_identity'']) ''client_identity'') (\<lambda>identity.
       if \<not> hm_contains (team_members s) uid then (s, Inl TeamMemberNotFound)
       else refresh_team_member_clients h uid
              (s\<lparr>team_member_client_links := hs_insert (uid, identity) (team_member_client_links s)\<rparr>)))"

definition unlink_team_member_client_from_args :: "host \<Rightarrow> json \<Rightarrow> rch_core \<Rightarrow> team_member_record op" where
  "unlink_team_member_client_from_args h args s =
     try_in s (required_text h args [''team_member_uid'', ''uid'']) (\<lambda>uid.
     try_in s (normalize_required_identity (optional_text h args [''client_identity'']) ''client_identity'') (\<lambda>identity.
       refresh_team_member_clients h uid
         (s\<lparr>team_member_client_links := hs_remove (uid, identity) (team_member_client_links s)\<rparr>)))"

definition apply_registry_team_member_command ::
  "host \<Rightarrow> mission_command \<Rightarrow> rch_core \<Rightarrow> event_envelope option op" where
  "apply_registry_team_member_command h command s =
     (let args = cmd_args command; ctype = cmd_type command;
          answer = (\<lambda>event_type s member.
            (s, Inr (Some (event event_type command (team_member_value h member)))))
      in if ctype = ''mission.registry.team_member.upsert'' then
           try_st (upsert_team_member_from_args h args s) (answer ''mission.registry.team_member.upserted'')
         else if ctype = ''mission.registry.team_member.get'' then
           try_in s (required_text h args [''team_member_uid'', ''uid'']) (\<lambda>uid.
           try_in s (ok_or (hm_get (team_members s) uid) TeamMemberNotFound)
             (answer ''mission.registry.team_member.retrieved'' s))
         else if ctype = ''mission.registry.team_member.list'' then
           (s, Inr (Some (event ''mission.registry.team_member.listed'' command
              (JObj [(''team_members'', JArr (team_member_values h s (optional_text h args [''team_uid''])))]))))
         else if ctype = ''mission.registry.team_member.delete'' then
           try_st (delete_team_member_from_args h args s) (answer ''mission.registry.team_member.deleted'')
         else if ctype = ''mission.registry.team_member.client.link'' then
           try_st (link_team_member_client_from_args h args s)
             (answer ''mission.registry.team_member.client.linked'')
         else if ctype = ''mission.registry.team_member.client.unlink'' then
           try_st (unlink_team_member_client_from_args h args s)
             (answer ''mission.registry.team_member.client.unlinked'')
         else (s, Inl (UnsupportedCommand ctype)))"

subsection \<open>Referential integrity: teams and missions\<close>

definition known_mission :: "rch_core \<Rightarrow> string \<Rightarrow> bool" where
  "known_mission s u \<longleftrightarrow> hm_contains (missions s) u \<and> trim u = u \<and> u \<noteq> []"

definition team_ok :: "rch_core \<Rightarrow> string \<Rightarrow> team_record \<Rightarrow> bool" where
  "team_ok s k t \<longleftrightarrow> te_uid t = k \<and> list_all (known_mission s) (te_mission_uids t)
     \<and> te_mission_uid t = first_of (te_mission_uids t)"

definition teams_ok :: "rch_core \<Rightarrow> bool" where
  "teams_ok s \<longleftrightarrow> hm_wf (teams s) \<and> (\<forall>k t. hm_get (teams s) k = Some t \<longrightarrow> team_ok s k t)
     \<and> (\<forall>l \<in> set (mission_team_links s). known_mission s (fst l))"

lemma known_mission_update [simp]:
  "known_mission (s\<lparr>teams := a\<rparr>) = known_mission s"
  "known_mission (s\<lparr>mission_team_links := b\<rparr>) = known_mission s"
  "known_mission (s\<lparr>team_members := c\<rparr>) = known_mission s"
  "known_mission (s\<lparr>next_uuid := n\<rparr>) = known_mission s"
  by (simp_all add: known_mission_def fun_eq_iff)

lemma team_ok_update [simp]:
  "team_ok (s\<lparr>teams := a\<rparr>) = team_ok s"
  "team_ok (s\<lparr>mission_team_links := b\<rparr>) = team_ok s"
  "team_ok (s\<lparr>team_members := c\<rparr>) = team_ok s"
  "team_ok (s\<lparr>next_uuid := n\<rparr>) = team_ok s"
  by (simp_all add: team_ok_def fun_eq_iff)

lemma teams_ok_uuid [simp]: "teams_ok (s\<lparr>next_uuid := n\<rparr>) = teams_ok s"
  by (simp add: teams_ok_def)

lemma teams_ok_get: "teams_ok s \<Longrightarrow> hm_get (teams s) k = Some t \<Longrightarrow> team_ok s k t"
  by (simp add: teams_ok_def)

lemma teams_ok_put: "teams_ok s \<Longrightarrow> team_ok s k t \<Longrightarrow> teams_ok (s\<lparr>teams := hm_insert k t (teams s)\<rparr>)"
  by (simp add: teams_ok_def)

lemma teams_ok_links:
  "teams_ok s \<Longrightarrow> list_all (known_mission s) us \<Longrightarrow> teams_ok (set_team_mission_links u us s)"
  by (auto simp: teams_ok_def set_team_mission_links_def list_all_iff)

lemma team_ok_links [simp]: "team_ok (set_team_mission_links u us s) = team_ok s"
  by (simp add: set_team_mission_links_def)

lemma first_of_known: "list_all p us \<Longrightarrow> first_of us = Some u \<Longrightarrow> p u"
  by (cases us) (auto simp: first_of_def)

lemma dedupe_known:
  "list_all (hm_contains (missions s)) (dedupe_non_empty us) \<Longrightarrow> list_all (known_mission s) (dedupe_non_empty us)"
  by (auto simp: list_all_iff dedupe_set known_mission_def)

lemma dedupe_keeps_known:
  "list_all (known_mission s) us \<Longrightarrow> list_all (known_mission s) (dedupe_non_empty us)"
  by (auto simp: list_all_iff dedupe_set known_mission_def)

lemma team_missions_known:
  assumes "teams_ok s"
  shows "list_all (known_mission s) (team_mission_ids s u)"
proof -
  have "list_all (known_mission s) (map fst (filter (\<lambda>(_, t). t = u) (mission_team_links s)))"
    using assms by (auto simp: teams_ok_def list_all_iff)
  moreover have "known_mission s v" if "hm_get (teams s) u = Some t" "te_mission_uid t = Some v" for t v
    using teams_ok_get [OF assms that(1)] that(2) by (metis first_of_known team_ok_def)
  then have "list_all (known_mission s) (case hm_get (teams s) u of None \<Rightarrow> []
      | Some t \<Rightarrow> (case te_mission_uid t of None \<Rightarrow> [] | Some v \<Rightarrow> [v]))"
    by (simp split: option.split)
  ultimately show ?thesis
    unfolding team_mission_ids_def by (intro dedupe_keeps_known) (simp only: list_all_append simp_thms)
qed

lemma team_mission_uids_known:
  "team_mission_uids_from_args h s args = Inr us \<Longrightarrow> list_all (known_mission s) us"
  by (auto simp: team_mission_uids_from_args_def Let_def result_eqs split: if_splits intro: dedupe_known)

lemma required_text_known:
  "required_text h args keys = Inr u \<Longrightarrow> hm_contains (missions s) u \<Longrightarrow> known_mission s u"
  by (auto simp: required_text_Inr known_mission_def dest: optional_text_trimmed)

lemma team_name_fields_same:
  "team_name_fields h args c t = Inr t' \<Longrightarrow> te_uid t' = te_uid t \<and> te_mission_uids t' = te_mission_uids t
     \<and> te_mission_uid t' = te_mission_uid t"
  by (auto simp: team_name_fields_def result_eqs split: option.splits)

lemma teams_ok_refs [keeps]:
  "teams_ok s \<Longrightarrow> list_all (known_mission s) us \<Longrightarrow> leaves teams_ok (update_team_mission_refs h u us s)"
  unfolding update_team_mission_refs_def Let_def
  by (intro keeps teams_ok_put) (auto simp: team_ok_def result_eqs dest: teams_ok_get)

lemma known_after_links [simp]: "known_mission (set_team_mission_links u us s) = known_mission s"
  by (simp add: set_team_mission_links_def)

lemma teams_ok_link [keeps]: "teams_ok s \<Longrightarrow> leaves teams_ok (link_team_mission_from_args h args s)"
  unfolding link_team_mission_from_args_def Let_def
  by (intro keeps teams_ok_links)
     (auto intro!: dedupe_keeps_known simp: team_missions_known required_text_known)

lemma teams_ok_unlink [keeps]: "teams_ok s \<Longrightarrow> leaves teams_ok (unlink_team_mission_from_args h args s)"
  unfolding unlink_team_mission_from_args_def Let_def
  by (intro keeps teams_ok_links)
     (use team_missions_known in \<open>auto simp: list_all_iff\<close>)

lemma teams_ok_delete [keeps]: "teams_ok s \<Longrightarrow> leaves teams_ok (delete_team_from_args h args s)"
  unfolding delete_team_from_args_def by (intro keeps) (auto simp: teams_ok_def)

lemma team_ok_new: "team_ok s u (new_team u now)"
  by (simp add: team_ok_def new_team_def first_of_def)

lemma teams_ok_current:
  "teams_ok s \<Longrightarrow> team_ok s u (unwrap_or (hm_get (teams s) u) (new_team u now))"
  by (cases "hm_get (teams s) u") (simp_all add: team_ok_new teams_ok_get)

lemma teams_ok_current_parts:
  assumes "teams_ok s"
  defines "t u now \<equiv> unwrap_or (hm_get (teams s) u) (new_team u now)"
  shows "te_uid (t u now) = u" "list_all (known_mission s) (te_mission_uids (t u now))"
    "te_mission_uid (t u now) = first_of (te_mission_uids (t u now))"
  using teams_ok_current [OF assms(1)] by (simp_all add: t_def team_ok_def)

lemma teams_ok_upsert [keeps]: "teams_ok s \<Longrightarrow> leaves teams_ok (upsert_team_from_args h args s)"
  unfolding upsert_team_from_args_def Let_def
  by (intro keeps teams_ok_put teams_ok_links)
     (auto dest!: or_new_uuid_frame team_name_fields_same team_mission_uids_known
        simp: result_eqs team_ok_def teams_ok_current_parts
        split: if_splits option.splits)

subsection \<open>Referential integrity: members, teams and clients\<close>

definition member_ok :: "rch_core \<Rightarrow> string \<Rightarrow> team_member_record \<Rightarrow> bool" where
  "member_ok s k m \<longleftrightarrow> tm_uid m = k \<and> is_none_or (tm_team_uid m) (hm_contains (teams s))
     \<and> tm_client_identities m = team_member_client_ids s k"

definition members_ok :: "rch_core \<Rightarrow> bool" where
  "members_ok s \<longleftrightarrow> hm_wf (team_members s) \<and> (\<forall>k m. hm_get (team_members s) k = Some m \<longrightarrow> member_ok s k m)
     \<and> (\<forall>l \<in> set (team_member_client_links s). hm_contains (team_members s) (fst l))"

lemma client_ids_cong:
  "team_member_client_links t = team_member_client_links s \<Longrightarrow> team_member_client_ids t = team_member_client_ids s"
  by (simp add: team_member_client_ids_def fun_eq_iff)

lemma client_ids_other:
  assumes "u' \<noteq> u"
  shows "team_member_client_ids (s\<lparr>team_member_client_links := hs_insert (u, i) L\<rparr>) u' =
           team_member_client_ids (s\<lparr>team_member_client_links := L\<rparr>) u'"
    and "team_member_client_ids (s\<lparr>team_member_client_links := hs_remove (u, i) L\<rparr>) u' =
           team_member_client_ids (s\<lparr>team_member_client_links := L\<rparr>) u'"
    and "team_member_client_ids (s\<lparr>team_member_client_links := hs_retain (\<lambda>(v, _). v \<noteq> u) L\<rparr>) u' =
           team_member_client_ids (s\<lparr>team_member_client_links := L\<rparr>) u'"
proof -
  show "team_member_client_ids (s\<lparr>team_member_client_links := hs_insert (u, i) L\<rparr>) u' =
           team_member_client_ids (s\<lparr>team_member_client_links := L\<rparr>) u'"
    using assms by (simp add: team_member_client_ids_def hs_insert_def)
  have "filter (\<lambda>(v, _). v = u') (hs_remove (u, i) L) = filter (\<lambda>(v, _). v = u') L"
    using assms by (induction L) (auto simp: hs_remove_def)
  then show "team_member_client_ids (s\<lparr>team_member_client_links := hs_remove (u, i) L\<rparr>) u' =
           team_member_client_ids (s\<lparr>team_member_client_links := L\<rparr>) u'"
    by (simp add: team_member_client_ids_def)
  have "filter (\<lambda>(v, _). v = u') (hs_retain (\<lambda>(v, _). v \<noteq> u) L) = filter (\<lambda>(v, _). v = u') L"
    using assms by (induction L) (auto simp: hs_retain_def)
  then show "team_member_client_ids (s\<lparr>team_member_client_links := hs_retain (\<lambda>(v, _). v \<noteq> u) L\<rparr>) u' =
           team_member_client_ids (s\<lparr>team_member_client_links := L\<rparr>) u'"
    by (simp add: team_member_client_ids_def)
qed

lemma members_ok_get: "members_ok s \<Longrightarrow> hm_get (team_members s) k = Some m \<Longrightarrow> member_ok s k m"
  by (simp add: members_ok_def)

lemma members_ok_cong:
  assumes "team_members t = team_members s" "teams t = teams s"
    and "team_member_client_links t = team_member_client_links s"
  shows "members_ok t = members_ok s"
  using assms client_ids_cong [OF assms(3)] by (simp add: members_ok_def member_ok_def)

lemma members_ok_uuid [simp]: "members_ok (s\<lparr>next_uuid := n\<rparr>) = members_ok s"
  by (rule members_ok_cong) simp_all

lemma members_ok_fresh: "members_ok s \<Longrightarrow> or_new_uuid h s x = (u, t) \<Longrightarrow> members_ok t"
  by (auto dest!: or_new_uuid_frame)

lemma members_ok_put:
  assumes "members_ok s" and "member_ok s k m"
  shows "members_ok (s\<lparr>team_members := hm_insert k m (team_members s)\<rparr>)"
  using assms client_ids_cong [of "s\<lparr>team_members := hm_insert k m (team_members s)\<rparr>" s]
  by (auto simp: members_ok_def member_ok_def)

lemma members_ok_more_teams:
  assumes "members_ok s"
  shows "members_ok (s\<lparr>teams := hm_insert u t (teams s)\<rparr>)"
  using assms client_ids_cong [of "s\<lparr>teams := hm_insert u t (teams s)\<rparr>" s]
  by (auto simp: members_ok_def member_ok_def is_none_or_def split: option.splits)

lemma members_ok_links [simp]: "members_ok (set_team_mission_links u us s) = members_ok s"
  by (rule members_ok_cong) (simp_all add: set_team_mission_links_def)

lemma members_ok_refs [keeps]: "members_ok s \<Longrightarrow> leaves members_ok (update_team_mission_refs h u us s)"
  unfolding update_team_mission_refs_def Let_def by (intro keeps members_ok_more_teams)

lemma members_ok_link [keeps]: "members_ok s \<Longrightarrow> leaves members_ok (link_team_mission_from_args h args s)"
  unfolding link_team_mission_from_args_def Let_def by (intro keeps) simp_all

lemma members_ok_unlink [keeps]: "members_ok s \<Longrightarrow> leaves members_ok (unlink_team_mission_from_args h args s)"
  unfolding unlink_team_mission_from_args_def Let_def by (intro keeps) simp_all

lemma members_ok_upsert_team [keeps]: "members_ok s \<Longrightarrow> leaves members_ok (upsert_team_from_args h args s)"
  unfolding upsert_team_from_args_def Let_def
  by (intro keeps members_ok_more_teams) (auto dest: members_ok_fresh)

lemma member_ok_clear:
  assumes "member_ok s k m"
  shows "member_ok (s\<lparr>teams := hm_remove u (teams s), team_members := a, mission_team_links := b\<rparr>) k
           (clear_team h u m)"
  using assms
  by (auto simp: member_ok_def clear_team_def is_none_or_def team_member_client_ids_def split: option.splits)

lemma members_ok_delete_team [keeps]: "members_ok s \<Longrightarrow> leaves members_ok (delete_team_from_args h args s)"
  unfolding delete_team_from_args_def
  by (intro keeps) (auto simp: members_ok_def intro: member_ok_clear)

lemma members_ok_team_command: "members_ok s \<Longrightarrow> leaves members_ok (apply_registry_team_command h c s)"
  unfolding apply_registry_team_command_def Let_def by (intro keeps)

lemma teams_ok_command: "teams_ok s \<Longrightarrow> leaves teams_ok (apply_registry_team_command h c s)"
  unfolding apply_registry_team_command_def Let_def by (intro keeps)


definition same_member :: "team_member_record \<Rightarrow> team_member_record \<Rightarrow> bool" where
  "same_member a b \<longleftrightarrow> tm_uid b = tm_uid a \<and> tm_team_uid b = tm_team_uid a
     \<and> tm_rns_identity b = tm_rns_identity a"

lemma same_member_simps [simp]:
  "same_member m m"
  "same_member m (x\<lparr>tm_display_name := a1\<rparr>) = same_member m x"
  "same_member m (x\<lparr>tm_icon := a2\<rparr>) = same_member m x"
  "same_member m (x\<lparr>tm_role := a3\<rparr>) = same_member m x"
  "same_member m (x\<lparr>tm_callsign := a4\<rparr>) = same_member m x"
  "same_member m (x\<lparr>tm_freq := a5\<rparr>) = same_member m x"
  "same_member m (x\<lparr>tm_email := a6\<rparr>) = same_member m x"
  "same_member m (x\<lparr>tm_phone := a7\<rparr>) = same_member m x"
  "same_member m (x\<lparr>tm_modulation := a8\<rparr>) = same_member m x"
  "same_member m (x\<lparr>tm_availability := a9\<rparr>) = same_member m x"
  "same_member m (x\<lparr>tm_certifications := b1\<rparr>) = same_member m x"
  "same_member m (x\<lparr>tm_last_active := b2\<rparr>) = same_member m x"
  by (simp_all add: same_member_def)

lemma set_optional_keeps: "P x \<Longrightarrow> (\<And>v. P (update v x)) \<Longrightarrow> P (set_optional h args key update x)"
  by (simp add: set_optional_def split: option.split)

lemma same_member_optional [simp]:
  "(\<And>v. same_member m (update v x) = same_member m x) \<Longrightarrow>
     same_member m (set_optional h args key update x) = same_member m x"
  by (simp add: set_optional_def split: option.split)

lemma contact_fields_same:
  "apply_optional_member_contact_fields h args m = Inr m' \<Longrightarrow> same_member k m' = same_member k m"
  by (auto simp: apply_optional_member_contact_fields_def Let_def result_eqs split: if_splits)

lemma role_field_same:
  "member_role_field h args m = Inr m' \<Longrightarrow> same_member k m' = same_member k m"
  by (auto simp: member_role_field_def result_eqs split: option.splits)

lemma member_team_field_ok:
  assumes "member_team_field h s args m = Inr m'"
    and "is_none_or (tm_team_uid m) (hm_contains (teams s))"
  shows "tm_uid m' = tm_uid m \<and> tm_rns_identity m' = tm_rns_identity m
    \<and> is_none_or (tm_team_uid m') (hm_contains (teams s))"
  using assms by (auto simp: member_team_field_def Let_def split: if_splits)

lemma team_member_fields_ok:
  assumes "apply_team_member_fields h s args m = Inr m'"
    and "is_none_or (tm_team_uid m) (hm_contains (teams s))"
  shows "tm_uid m' = tm_uid m \<and> tm_rns_identity m' = tm_rns_identity m
    \<and> is_none_or (tm_team_uid m') (hm_contains (teams s))"
proof -
  from assms(1) obtain m1 m2 where m1: "member_team_field h s args m = Inr m1"
    and m2: "member_role_field h args (set_optional h args ''icon'' (\<lambda>v m. m\<lparr>tm_icon := v\<rparr>)
      (case optional_text h args [''display_name'', ''callsign''] of
         None \<Rightarrow> m1 | Some n \<Rightarrow> m1\<lparr>tm_display_name := n\<rparr>)) = Inr m2"
    and "same_member m2 m'"
    unfolding apply_team_member_fields_def Let_def
    by (auto simp: result_eqs dest!: contact_fields_same [where k = "_ :: team_member_record"])
  moreover have "same_member m1 m2"
    using role_field_same [OF m2, of m1] by (simp split: option.splits)
  ultimately have "same_member m1 m'"
    by (simp add: same_member_def)
  with member_team_field_ok [OF m1 assms(2)] show ?thesis
    by (simp add: same_member_def)
qed


lemma member_ok_current:
  assumes "members_ok s"
  shows "is_none_or (tm_team_uid (unwrap_or (hm_get (team_members s) u) (new_team_member u i now)))
           (hm_contains (teams s))"
    and "tm_uid (unwrap_or (hm_get (team_members s) u) (new_team_member u i now)) = u"
  using members_ok_get [OF assms, of u]
  by (cases "hm_get (team_members s) u"; simp add: member_ok_def new_team_member_def)+

lemma members_ok_upsert [keeps]: "members_ok s \<Longrightarrow> leaves members_ok (upsert_team_member_from_args h args s)"
  unfolding upsert_team_member_from_args_def Let_def
  by (intro keeps members_ok_put)
     (auto dest: members_ok_fresh dest!: team_member_fields_ok simp: member_ok_def member_ok_current)

lemma member_ok_client_link:
  assumes "member_ok s k m" and "k \<noteq> u"
  shows "member_ok (s\<lparr>team_member_client_links := hs_insert (u, i) (team_member_client_links s)\<rparr>) k m"
    "member_ok (s\<lparr>team_member_client_links := hs_remove (u, i) (team_member_client_links s)\<rparr>) k m"
  using assms by (simp_all add: member_ok_def client_ids_other)

lemma members_ok_refresh:
  assumes "\<And>k m. k \<noteq> u \<Longrightarrow> hm_get (team_members s) k = Some m \<Longrightarrow> member_ok s k m"
    and "\<And>m. hm_get (team_members s) u = Some m \<Longrightarrow> tm_uid m = u \<and> is_none_or (tm_team_uid m) (hm_contains (teams s))"
    and "\<forall>l \<in> set (team_member_client_links s). hm_contains (team_members s) (fst l)"
    and "hm_contains (team_members s) u" and "hm_wf (team_members s)"
  shows "leaves members_ok (refresh_team_member_clients h u s)"
proof -
  from assms(4) obtain m where m: "hm_get (team_members s) u = Some m"
    by (auto simp: hm_contains_def)
  let ?m = "m\<lparr>tm_client_identities := team_member_client_ids s u, tm_updated_ts_ms := utc_now_ms h\<rparr>"
  let ?t = "s\<lparr>team_members := hm_insert u ?m (team_members s)\<rparr>"
  have "member_ok ?t k m'" if "hm_get (team_members ?t) k = Some m'" for k m'
    using that assms(1) [of k m'] assms(2) [OF m] client_ids_cong [of ?t s]
    by (auto simp: member_ok_def split: if_splits)
  then show ?thesis
    using m assms(3,5) by (auto simp: refresh_team_member_clients_def Let_def leaves_def members_ok_def)
qed

lemma members_ok_client_link [keeps]:
  assumes "members_ok s"
  shows "leaves members_ok (link_team_member_client_from_args h args s)"
  unfolding link_team_member_client_from_args_def
  by (intro keeps members_ok_refresh)
     (use assms in \<open>auto simp: members_ok_def member_ok_client_link\<close>, auto simp: member_ok_def)


lemma members_ok_unlinked:
  assumes "members_ok s" and "\<not> hm_contains (team_members s) u"
  shows "members_ok (s\<lparr>team_member_client_links := hs_remove (u, i) (team_member_client_links s)\<rparr>)"
proof -
  have "k \<noteq> u" if "hm_get (team_members s) k = Some m" for k m
    using that assms(2) by (auto simp: hm_contains_def)
  with assms(1) show ?thesis
    by (auto simp: members_ok_def member_ok_client_link)
qed

lemma members_ok_client_unlink [keeps]:
  assumes "members_ok s"
  shows "leaves members_ok (unlink_team_member_client_from_args h args s)"
  unfolding unlink_team_member_client_from_args_def
proof (intro keeps assms)
  fix u i
  let ?s = "s\<lparr>team_member_client_links := hs_remove (u, i) (team_member_client_links s)\<rparr>"
  show "leaves members_ok (refresh_team_member_clients h u ?s)"
  proof (cases "hm_contains (team_members s) u")
    case True
    with assms show ?thesis
      by (intro members_ok_refresh) (auto simp: members_ok_def member_ok_client_link, auto simp: member_ok_def)
  next
    case False
    then show ?thesis
      using members_ok_unlinked [OF assms False]
      by (auto simp: refresh_team_member_clients_def hm_contains_def leaves_def ok_or_def split: option.splits)
  qed
qed

lemma members_ok_delete [keeps]:
  assumes "members_ok s"
  shows "leaves members_ok (delete_team_member_from_args h args s)"
  unfolding delete_team_member_from_args_def
proof (intro keeps assms)
  fix u and m :: team_member_record
  let ?L = "hs_retain (\<lambda>(member_uid, _). member_uid \<noteq> u) (team_member_client_links s)"
  let ?s = "s\<lparr>team_members := hm_remove u (team_members s),
      assets := hm_map_values (clear_asset_member h u) (assets s), team_member_client_links := ?L,
      team_member_skills := hm_retain (\<lambda>_ skill. ts_team_member_rns_identity skill \<noteq> tm_rns_identity m)
        (team_member_skills s)\<rparr>"
  have ids: "team_member_client_ids ?s k = team_member_client_ids s k" if "k \<noteq> u" for k
    using client_ids_other(3) [OF that, where s = s and L = "team_member_client_links s"]
    by (simp add: team_member_client_ids_def)
  show "members_ok ?s"
    using assms by (auto simp: members_ok_def member_ok_def ids split: if_splits)
qed

lemma members_ok_member_command:
  "members_ok s \<Longrightarrow> leaves members_ok (apply_registry_team_member_command h c s)"
  unfolding apply_registry_team_member_command_def Let_def by (intro keeps)

lemma members_ok_announce [keeps]:
  assumes "members_ok s"
  shows "leaves members_ok (upsert_team_member_from_identity_announce h a s)"
  unfolding upsert_team_member_from_identity_announce_def Let_def
  by (intro keeps members_ok_put)
     (use assms in \<open>auto simp: member_ok_def dest: members_ok_get split: option.splits\<close>)

subsection \<open>What the team commands change\<close>

definition hide_teams :: "rch_core \<Rightarrow> rch_core" where
  "hide_teams t = t\<lparr>teams := [], mission_team_links := [], team_members := [],
     team_member_client_links := [], team_member_skills := [], assets := [], next_uuid := 0\<rparr>"

definition only_teams :: "rch_core \<Rightarrow> rch_core \<Rightarrow> bool" where
  "only_teams s t \<longleftrightarrow> hide_teams t = hide_teams s"

lemma only_teams_simps [simp]:
  "only_teams s s"
  "only_teams s (t\<lparr>teams := a\<rparr>) = only_teams s t"
  "only_teams s (t\<lparr>mission_team_links := b\<rparr>) = only_teams s t"
  "only_teams s (t\<lparr>team_members := c\<rparr>) = only_teams s t"
  "only_teams s (t\<lparr>team_member_client_links := d\<rparr>) = only_teams s t"
  "only_teams s (t\<lparr>team_member_skills := e\<rparr>) = only_teams s t"
  "only_teams s (t\<lparr>assets := f\<rparr>) = only_teams s t"
  "only_teams s (t\<lparr>next_uuid := n\<rparr>) = only_teams s t"
  by (simp_all add: only_teams_def hide_teams_def)

lemma only_teams_links [simp]: "only_teams s (set_team_mission_links u us t) = only_teams s t"
  by (simp add: set_team_mission_links_def)

lemma only_teams_refs [keeps]: "only_teams s t \<Longrightarrow> leaves (only_teams s) (update_team_mission_refs h u us t)"
  unfolding update_team_mission_refs_def Let_def by (intro keeps) simp_all

lemma only_teams_refresh [keeps]: "only_teams s t \<Longrightarrow> leaves (only_teams s) (refresh_team_member_clients h u t)"
  unfolding refresh_team_member_clients_def Let_def by (intro keeps) simp_all

lemma team_command_frame: "leaves (only_teams s) (apply_registry_team_command h c s)"
  unfolding apply_registry_team_command_def upsert_team_from_args_def delete_team_from_args_def
    link_team_mission_from_args_def unlink_team_mission_from_args_def Let_def
  by (intro keeps) (auto dest!: or_new_uuid_frame)

lemma team_member_command_frame: "leaves (only_teams s) (apply_registry_team_member_command h c s)"
  unfolding apply_registry_team_member_command_def upsert_team_member_from_args_def
    delete_team_member_from_args_def link_team_member_client_from_args_def
    unlink_team_member_client_from_args_def Let_def
  by (intro keeps) (auto dest!: or_new_uuid_frame)


end
