(* ===== verification/Assets.thy ===== *)
theory Assets
  imports Teams
begin

text \<open>
  Assets and skills (\<open>crates/r3akt-rch-core/src/lib.rs\<close>:
  \<open>apply_registry_asset_command\<close>, \<open>emit_auto_asset_mission_changes\<close>,
  \<open>apply_registry_skill_command\<close>, \<open>upsert_asset_from_args\<close> to
  \<open>upsert_task_skill_requirement_from_args\<close>).  An asset command also records a mission change
  and an audit event for every mission the asset's holder serves.

  The invariants: an asset is held by a member that exists and has a known status
  (\<open>assets_ok\<close>); a skill of a member and a requirement of a task name a skill that exists,
  with a level from 0 to 10 (\<open>skills_ok\<close>).
\<close>

subsection \<open>Assets\<close>

definition new_asset :: "string \<Rightarrow> int \<Rightarrow> asset_record" where
  "new_asset uid now =
     \<lparr>at_asset_uid = uid, at_team_member_uid = None, at_name = ''Asset'', at_asset_type = ''generic'',
      at_serial_number = None, at_status = ''AVAILABLE'', at_location = None, at_notes = None,
      at_created_ts_ms = now, at_updated_ts_ms = now\<rparr>"

definition asset_holder_field :: "host \<Rightarrow> rch_core \<Rightarrow> json \<Rightarrow> asset_record \<Rightarrow> asset_record result" where
  "asset_holder_field h s args asset =
     (case optional_text_or_empty h args [''team_member_uid''] of
        None \<Rightarrow> Inr asset
      | Some text \<Rightarrow>
          (let team_member_uid = none_if_empty text
           in if is_none_or team_member_uid (hm_contains (team_members s))
              then Inr (asset\<lparr>at_team_member_uid := team_member_uid\<rparr>) else Inl TeamMemberNotFound))"

definition asset_status_field :: "host \<Rightarrow> json \<Rightarrow> asset_record \<Rightarrow> asset_record result" where
  "asset_status_field h args asset =
     (case optional_text h args [''status''] of
        None \<Rightarrow> Inr asset
      | Some status \<Rightarrow> and_then (normalize_asset_status status) (\<lambda>status. Inr (asset\<lparr>at_status := status\<rparr>)))"

definition upsert_asset_from_args :: "host \<Rightarrow> json \<Rightarrow> rch_core \<Rightarrow> asset_record op" where
  "upsert_asset_from_args h args s =
     (let (asset_uid, s) = or_new_uuid h s (optional_text h args [''asset_uid'']);
          now = utc_now_ms h;
          asset = unwrap_or (hm_get (assets s) asset_uid) (new_asset asset_uid now)
      in try_in s (asset_holder_field h s args asset) (\<lambda>asset.
         (let asset = (case optional_text h args [''name''] of None \<Rightarrow> asset | Some v \<Rightarrow> asset\<lparr>at_name := v\<rparr>);
              asset = (case optional_text h args [''asset_type''] of
                         None \<Rightarrow> asset | Some v \<Rightarrow> asset\<lparr>at_asset_type := v\<rparr>);
              asset = set_optional h args ''serial_number'' (\<lambda>v a. a\<lparr>at_serial_number := v\<rparr>) asset
          in try_in s (asset_status_field h args asset) (\<lambda>asset.
             (let asset = set_optional h args ''location'' (\<lambda>v a. a\<lparr>at_location := v\<rparr>) asset;
                  asset = set_optional h args ''notes'' (\<lambda>v a. a\<lparr>at_notes := v\<rparr>) asset;
                  asset = asset\<lparr>at_updated_ts_ms := now\<rparr>
              in (s\<lparr>assets := hm_insert asset_uid asset (assets s)\<rparr>, Inr asset))))))"

definition remove_asset :: "string \<Rightarrow> assignment_record \<Rightarrow> assignment_record" where
  "remove_asset asset_uid assignment =
     assignment\<lparr>an_assets := filter (\<lambda>item. item \<noteq> asset_uid) (an_assets assignment)\<rparr>"

definition delete_asset :: "string \<Rightarrow> rch_core \<Rightarrow> asset_record op" where
  "delete_asset asset_uid s =
     try_in s (ok_or (hm_get (assets s) asset_uid) AssetNotFound) (\<lambda>asset.
       (s\<lparr>assets := hm_remove asset_uid (assets s),
          assignment_asset_links :=
            hs_retain (\<lambda>(_, linked_asset_uid). linked_asset_uid \<noteq> asset_uid) (assignment_asset_links s),
          assignments := hm_map_values (remove_asset asset_uid) (assignments s)\<rparr>,
        Inr asset))"

definition asset_mission_delta :: "asset_record \<Rightarrow> string \<Rightarrow> json" where
  "asset_mission_delta asset source_event_type =
     JObj [(''op'', JStr (if source_event_type = ''mission.asset.deleted'' then ''delete'' else ''upsert'')),
           (''asset_uid'', JStr (at_asset_uid asset)),
           (''team_member_uid'', jopt (at_team_member_uid asset)), (''name'', JStr (at_name asset)),
           (''asset_type'', JStr (at_asset_type asset)), (''status'', JStr (at_status asset)),
           (''location'', jopt (at_location asset)), (''notes'', jopt (at_notes asset))]"

text \<open>Recording a mission change and its audit event, shared by the automatic changes.\<close>

definition record_mission_change :: "host \<Rightarrow> mission_command \<Rightarrow> mission_change_record \<Rightarrow> rch_core \<Rightarrow> rch_core"
  where
  "record_mission_change h command change s =
     record_audit_event h command
       (event ''mission.registry.mission_change.upserted'' command (mission_change_value h change))
       (s\<lparr>mission_changes := hm_insert (mc_uid change) change (mission_changes s)\<rparr>)"

definition auto_change ::
  "host \<Rightarrow> string \<Rightarrow> string \<Rightarrow> string \<Rightarrow> string option \<Rightarrow> string \<Rightarrow> json list \<Rightarrow> json list \<Rightarrow> json list
     \<Rightarrow> mission_change_record"
  where
  "auto_change h uid mission_uid source_event_type member change_type asset_deltas task_deltas checklist_deltas =
     \<lparr>mc_uid = uid, mc_mission_uid = mission_uid, mc_name = Some source_event_type,
      mc_team_member_rns_identity = member, mc_timestamp_ms = utc_now_ms h, mc_notes = None,
      mc_change_type = change_type, mc_is_federated_change = False, mc_hashes = [],
      mc_delta = JObj
        [(''version'', JInt 1), (''contract_version'', JStr ''r3akt.mission.change.v1''),
         (''source_event_type'', JStr source_event_type),
         (''emitted_at'', JStr (millis_to_rfc3339 h (utc_now_ms h))), (''logs'', JArr []),
         (''assets'', JArr asset_deltas), (''tasks'', JArr task_deltas),
         (''checklists'', JArr checklist_deltas)]\<rparr>"

fun emit_auto_asset_mission_changes ::
  "host \<Rightarrow> mission_command \<Rightarrow> string list \<Rightarrow> string \<Rightarrow> string \<Rightarrow> asset_record \<Rightarrow> rch_core \<Rightarrow> rch_core" where
  "emit_auto_asset_mission_changes h command [] source_event_type change_type asset s = s"
| "emit_auto_asset_mission_changes h command (mission_uid # mission_uids) source_event_type change_type asset s =
     emit_auto_asset_mission_changes h command mission_uids source_event_type change_type asset
       (if \<not> hm_contains (missions s) mission_uid then s
        else (let (uid, s) = new_uuid h s
              in record_mission_change h command
                   (auto_change h uid mission_uid source_event_type None change_type
                      [asset_mission_delta asset source_event_type] [] []) s))"

definition apply_registry_asset_command :: "host \<Rightarrow> mission_command \<Rightarrow> rch_core \<Rightarrow> event_envelope option op"
  where
  "apply_registry_asset_command h command s =
     (let args = cmd_args command; ctype = cmd_type command;
          answer = (\<lambda>event_type s asset. (s, Inr (Some (event event_type command (asset_value h asset)))))
      in if ctype = ''mission.registry.asset.upsert'' then
           (let previous_team_member_uid =
                  (case optional_text h args [''asset_uid''] of
                     None \<Rightarrow> None
                   | Some asset_uid \<Rightarrow>
                       (case hm_get (assets s) asset_uid of None \<Rightarrow> None | Some asset \<Rightarrow> at_team_member_uid asset))
            in try_st (upsert_asset_from_args h args s) (\<lambda>s asset.
                 answer ''mission.registry.asset.upserted''
                   (emit_auto_asset_mission_changes h command
                      (mission_uids_for_asset_upsert s asset previous_team_member_uid)
                      ''mission.asset.upserted'' ''ADD_CONTENT'' asset s) asset))
         else if ctype = ''mission.registry.asset.get'' then
           try_in s (required_text h args [''asset_uid'']) (\<lambda>asset_uid.
           try_in s (ok_or (hm_get (assets s) asset_uid) AssetNotFound)
             (answer ''mission.registry.asset.retrieved'' s))
         else if ctype = ''mission.registry.asset.list'' then
           (s, Inr (Some (event ''mission.registry.asset.listed'' command
              (JObj [(''assets'', JArr (asset_values h s (optional_text h args [''team_member_uid''])))]))))
         else if ctype = ''mission.registry.asset.delete'' then
           try_in s (required_text h args [''asset_uid'']) (\<lambda>asset_uid.
           try_in s (ok_or (hm_get (assets s) asset_uid) AssetNotFound) (\<lambda>asset.
             (let mission_uids = mission_uids_for_asset_delete s asset_uid asset
              in try_st (delete_asset asset_uid s) (\<lambda>s asset.
                   answer ''mission.registry.asset.deleted''
                     (emit_auto_asset_mission_changes h command mission_uids
                        ''mission.asset.deleted'' ''REMOVE_CONTENT'' asset s) asset))))
         else (s, Inl (UnsupportedCommand ctype)))"

subsection \<open>Skills\<close>

definition new_skill :: "string \<Rightarrow> int \<Rightarrow> skill_record" where
  "new_skill uid now =
     \<lparr>sk_skill_uid = uid, sk_name = ''Skill'', sk_category = None, sk_description = None,
      sk_proficiency_scale = None, sk_created_ts_ms = now, sk_updated_ts_ms = now\<rparr>"

definition upsert_skill_from_args :: "host \<Rightarrow> json \<Rightarrow> rch_core \<Rightarrow> rch_core \<times> skill_record" where
  "upsert_skill_from_args h args s =
     (let (skill_uid, s) = or_new_uuid h s (optional_text h args [''skill_uid'']);
          now = utc_now_ms h;
          skill = unwrap_or (hm_get (skills s) skill_uid) (new_skill skill_uid now);
          skill = (case optional_text h args [''name''] of None \<Rightarrow> skill | Some v \<Rightarrow> skill\<lparr>sk_name := v\<rparr>);
          skill = set_optional h args ''category'' (\<lambda>v a. a\<lparr>sk_category := v\<rparr>) skill;
          skill = set_optional h args ''description'' (\<lambda>v a. a\<lparr>sk_description := v\<rparr>) skill;
          skill = set_optional h args ''proficiency_scale'' (\<lambda>v a. a\<lparr>sk_proficiency_scale := v\<rparr>) skill;
          skill = skill\<lparr>sk_updated_ts_ms := now\<rparr>
      in (s\<lparr>skills := hm_insert skill_uid skill (skills s)\<rparr>, skill))"

text \<open>\<open>optional_text_or_empty(args, &[key]).and_then(none_if_empty).or_else(|| current...)\<close>\<close>

definition text_or_kept :: "host \<Rightarrow> json \<Rightarrow> string \<Rightarrow> string option \<Rightarrow> string option" where
  "text_or_kept h args key kept =
     or_else (case optional_text_or_empty h args [key] of None \<Rightarrow> None | Some t \<Rightarrow> none_if_empty t) kept"

definition upsert_team_member_skill_from_args :: "host \<Rightarrow> json \<Rightarrow> rch_core \<Rightarrow> team_member_skill_record op"
  where
  "upsert_team_member_skill_from_args h args s =
     try_in s (required_text h args [''team_member_rns_identity'']) (\<lambda>identity.
       if \<not> list_ex (\<lambda>member. tm_rns_identity member = identity) (hm_values (team_members s))
       then (s, Inl TeamMemberNotFound)
       else
         try_in s (required_text h args [''skill_uid'']) (\<lambda>skill_uid.
           if \<not> hm_contains (skills s) skill_uid then (s, Inl SkillNotFound)
           else
             (let key = identity @ '':'' @ skill_uid;
                  current = hm_get (team_member_skills s) key;
                  kept = (\<lambda>f. case current of None \<Rightarrow> None | Some rec \<Rightarrow> f rec)
              in try_in s (optional_i64 args ''level'') (\<lambda>level.
                 (let level = unwrap_or (or_else level (map_option ts_level current)) 0;
                      (uid, s) = or_new_uuid h s (or_else (optional_text h args [''uid'']) (map_option ts_uid current))
                  in try_in s (normalize_skill_level level ''level'') (\<lambda>level.
                     (let rec = \<lparr>ts_uid = uid, ts_team_member_rns_identity = identity,
                            ts_skill_uid = skill_uid, ts_level = level,
                            ts_validated_by = text_or_kept h args ''validated_by'' (kept ts_validated_by),
                            ts_validated_at = text_or_kept h args ''validated_at'' (kept ts_validated_at),
                            ts_expires_at = text_or_kept h args ''expires_at'' (kept ts_expires_at)\<rparr>
                      in (s\<lparr>team_member_skills := hm_insert key rec (team_member_skills s)\<rparr>, Inr rec))))))))"

definition upsert_task_skill_requirement_from_args ::
  "host \<Rightarrow> json \<Rightarrow> rch_core \<Rightarrow> task_skill_requirement_record op" where
  "upsert_task_skill_requirement_from_args h args s =
     try_in s (required_text h args [''task_uid'']) (\<lambda>task_uid.
     try_in s (required_text h args [''skill_uid'']) (\<lambda>skill_uid.
       if \<not> hm_contains (checklist_tasks s) task_uid
       then (s, Inl (InvalidPayload (''Checklist task '' @ quoted task_uid @ '' not found'')))
       else if \<not> hm_contains (skills s) skill_uid then (s, Inl SkillNotFound)
       else
         (let key = task_uid @ '':'' @ skill_uid;
              current = hm_get (task_skill_requirements s) key
          in try_in s (optional_i64 args ''minimum_level'') (\<lambda>minimum_level.
             (let minimum_level = unwrap_or (or_else minimum_level (map_option rq_minimum_level current)) 0;
                  (uid, s) = or_new_uuid h s (or_else (optional_text h args [''uid'']) (map_option rq_uid current))
              in try_in s (normalize_skill_level minimum_level ''minimum_level'') (\<lambda>minimum_level.
                 (let rec = \<lparr>rq_uid = uid, rq_task_uid = task_uid, rq_skill_uid = skill_uid,
                        rq_minimum_level = minimum_level,
                        rq_is_mandatory = unwrap_or (or_else (optional_bool args ''is_mandatory'')
                          (map_option rq_is_mandatory current)) True\<rparr>
                  in (s\<lparr>task_skill_requirements := hm_insert key rec (task_skill_requirements s)\<rparr>,
                      Inr rec))))))))"

definition apply_registry_skill_command :: "host \<Rightarrow> mission_command \<Rightarrow> rch_core \<Rightarrow> event_envelope option op"
  where
  "apply_registry_skill_command h command s =
     (let args = cmd_args command; ctype = cmd_type command;
          answer = (\<lambda>event_type s v. (s, Inr (Some (event event_type command v))))
      in if ctype = ''mission.registry.skill.upsert'' then
           (case upsert_skill_from_args h args s of (s, skill) \<Rightarrow>
              answer ''mission.registry.skill.upserted'' s (skill_value h skill))
         else if ctype = ''mission.registry.skill.list'' then
           answer ''mission.registry.skill.listed'' s (JObj [(''skills'', JArr (skill_values h s))])
         else if ctype = ''mission.registry.team_member_skill.upsert'' then
           try_st (upsert_team_member_skill_from_args h args s) (\<lambda>s rec.
             answer ''mission.registry.team_member_skill.upserted'' s (team_member_skill_value rec))
         else if ctype = ''mission.registry.team_member_skill.list'' then
           answer ''mission.registry.team_member_skill.listed'' s
             (JObj [(''team_member_skills'', JArr (team_member_skill_values s
                (optional_text h args [''team_member_rns_identity''])))])
         else if ctype = ''mission.registry.task_skill_requirement.upsert'' then
           try_st (upsert_task_skill_requirement_from_args h args s) (\<lambda>s rec.
             answer ''mission.registry.task_skill_requirement.upserted'' s (task_skill_requirement_value rec))
         else if ctype = ''mission.registry.task_skill_requirement.list'' then
           answer ''mission.registry.task_skill_requirement.listed'' s
             (JObj [(''task_skill_requirements'', JArr (task_skill_requirement_values s
                (optional_text h args [''task_uid''])))])
         else (s, Inl (UnsupportedCommand ctype)))"

subsection \<open>Assets have a holder that exists\<close>

definition asset_ok :: "rch_core \<Rightarrow> string \<Rightarrow> asset_record \<Rightarrow> bool" where
  "asset_ok s k a \<longleftrightarrow> at_asset_uid a = k \<and> is_none_or (at_team_member_uid a) (hm_contains (team_members s))
     \<and> at_status a \<in> set asset_statuses"

definition assets_ok :: "rch_core \<Rightarrow> bool" where
  "assets_ok s \<longleftrightarrow> hm_wf (assets s) \<and> (\<forall>k a. hm_get (assets s) k = Some a \<longrightarrow> asset_ok s k a)"

lemma assets_ok_get: "assets_ok s \<Longrightarrow> hm_get (assets s) k = Some a \<Longrightarrow> asset_ok s k a"
  by (simp add: assets_ok_def)

lemma assets_ok_cong: "assets t = assets s \<Longrightarrow> team_members t = team_members s \<Longrightarrow> assets_ok t = assets_ok s"
  by (simp add: assets_ok_def asset_ok_def)

lemma assets_ok_fresh: "assets_ok s \<Longrightarrow> or_new_uuid h s x = (u, t) \<Longrightarrow> assets_ok t"
  by (auto dest!: or_new_uuid_frame simp: assets_ok_def asset_ok_def)

lemma assets_ok_put: "assets_ok s \<Longrightarrow> asset_ok s k a \<Longrightarrow> assets_ok (s\<lparr>assets := hm_insert k a (assets s)\<rparr>)"
  by (auto simp: assets_ok_def asset_ok_def)

lemma assets_ok_more_members:
  "assets_ok s \<Longrightarrow> assets_ok (s\<lparr>team_members := hm_insert u m (team_members s)\<rparr>)"
  by (auto simp: assets_ok_def asset_ok_def is_none_or_def split: option.splits)

lemma asset_ok_new: "asset_ok s k (new_asset k now)"
  by (simp add: asset_ok_def new_asset_def asset_statuses_def)

lemma asset_status_normal: "normalize_asset_status v = Inr t \<Longrightarrow> trim v \<noteq> [] \<Longrightarrow> t \<in> set asset_statuses"
  unfolding normalize_asset_status_def by (drule normalize_enum_non_empty) auto

lemma asset_ok_holder: "asset_ok s k a \<Longrightarrow> asset_holder_field h s args a = Inr a' \<Longrightarrow> asset_ok s k a'"
  by (auto simp: asset_holder_field_def asset_ok_def Let_def split: option.splits if_splits)

lemma asset_ok_status: "asset_ok s k a \<Longrightarrow> asset_status_field h args a = Inr a' \<Longrightarrow> asset_ok s k a'"
  by (auto simp: asset_status_field_def asset_ok_def result_eqs asset_status_normal
        dest: optional_text_trimmed split: option.splits)

lemma asset_ok_updates [simp]:
  "asset_ok s k (a\<lparr>at_name := v1\<rparr>) = asset_ok s k a"
  "asset_ok s k (a\<lparr>at_asset_type := v2\<rparr>) = asset_ok s k a"
  "asset_ok s k (a\<lparr>at_serial_number := v3\<rparr>) = asset_ok s k a"
  "asset_ok s k (a\<lparr>at_location := v4\<rparr>) = asset_ok s k a"
  "asset_ok s k (a\<lparr>at_notes := v5\<rparr>) = asset_ok s k a"
  "asset_ok s k (a\<lparr>at_updated_ts_ms := v6\<rparr>) = asset_ok s k a"
  by (simp_all add: asset_ok_def)

lemma asset_ok_optional [simp]:
  "(\<And>v. asset_ok s k (update v a) = asset_ok s k a) \<Longrightarrow>
     asset_ok s k (set_optional h args key update a) = asset_ok s k a"
  by (simp add: set_optional_def split: option.split)

lemma asset_ok_current: "assets_ok s \<Longrightarrow> asset_ok s k (unwrap_or (hm_get (assets s) k) (new_asset k now))"
  by (cases "hm_get (assets s) k") (simp_all add: assets_ok_get asset_ok_new)

lemma assets_ok_upsert [keeps]: "assets_ok s \<Longrightarrow> leaves assets_ok (upsert_asset_from_args h args s)"
  unfolding upsert_asset_from_args_def Let_def
  by (intro keeps assets_ok_put)
     (auto dest: assets_ok_fresh split: option.splits,
      (erule asset_ok_status [rotated], simp, erule asset_ok_holder [rotated], rule asset_ok_current,
        erule (1) assets_ok_fresh)+)

lemma assets_ok_delete_asset [keeps]: "assets_ok s \<Longrightarrow> leaves assets_ok (delete_asset u s)"
  unfolding delete_asset_def
  by (intro keeps) (auto simp: assets_ok_def asset_ok_def split: if_splits)

text \<open>A deleted member holds nothing any more.\<close>

lemma asset_ok_clear:
  assumes "asset_ok s k a"
  shows "asset_ok (s\<lparr>team_members := hm_remove u (team_members s), assets := x,
           team_member_client_links := l, team_member_skills := r\<rparr>) k (clear_asset_member h u a)"
  using assms by (auto simp: asset_ok_def clear_asset_member_def is_none_or_def split: option.splits)

lemma assets_ok_delete_member [keeps]:
  "assets_ok s \<Longrightarrow> leaves assets_ok (delete_team_member_from_args h args s)"
  unfolding delete_team_member_from_args_def
  by (intro keeps) (auto simp: assets_ok_def intro: asset_ok_clear)

lemma assets_ok_member_ops [keeps]:
  "assets_ok s \<Longrightarrow> leaves assets_ok (upsert_team_member_from_args h args s)"
  "assets_ok s \<Longrightarrow> leaves assets_ok (refresh_team_member_clients h u s)"
  unfolding upsert_team_member_from_args_def refresh_team_member_clients_def Let_def
  by (intro keeps assets_ok_more_members; auto dest: assets_ok_fresh)+

lemma assets_ok_member_links [simp]: "assets_ok (s\<lparr>team_member_client_links := l\<rparr>) = assets_ok s"
  by (rule assets_ok_cong) simp_all

lemma assets_ok_member_command: "assets_ok s \<Longrightarrow> leaves assets_ok (apply_registry_team_member_command h c s)"
  unfolding apply_registry_team_member_command_def link_team_member_client_from_args_def
    unlink_team_member_client_from_args_def Let_def
  by (intro keeps) simp_all

subsection \<open>The automatic mission changes\<close>

definition only_changes :: "rch_core \<Rightarrow> rch_core \<Rightarrow> bool" where
  "only_changes s t \<longleftrightarrow>
     t\<lparr>mission_changes := [], audit_events := [], next_uuid := 0\<rparr> =
     s\<lparr>mission_changes := [], audit_events := [], next_uuid := 0\<rparr>"

lemma only_changes_simps [simp]:
  "only_changes s s"
  "only_changes s (t\<lparr>mission_changes := a\<rparr>) = only_changes s t"
  "only_changes s (t\<lparr>audit_events := b\<rparr>) = only_changes s t"
  "only_changes s (t\<lparr>next_uuid := n\<rparr>) = only_changes s t"
  by (simp_all add: only_changes_def)

lemma only_changes_record [simp]: "only_changes s (record_mission_change h c m t) = only_changes s t"
  by (simp add: record_mission_change_def record_audit_event_def new_uuid_def Let_def)

lemma only_changes_emit [simp]: "only_changes s (emit_auto_asset_mission_changes h c us e ty a t) = only_changes s t"
  by (induction h c us e ty a t rule: emit_auto_asset_mission_changes.induct) (simp add: new_uuid_def Let_def)+

lemma only_changesD:
  assumes "only_changes s t"
  shows "missions t = missions s" "assets t = assets s" "team_members t = team_members s"
    "assignments t = assignments s" "assignment_asset_links t = assignment_asset_links s"
    "log_entries t = log_entries s" "skills t = skills s"
  using assms
  by (auto simp: only_changes_def dest: arg_cong [of _ _ missions] arg_cong [of _ _ assets]
        arg_cong [of _ _ team_members] arg_cong [of _ _ assignments]
        arg_cong [of _ _ assignment_asset_links] arg_cong [of _ _ log_entries] arg_cong [of _ _ skills])

lemma assets_ok_emit [simp]: "assets_ok (emit_auto_asset_mission_changes h c us e ty a t) = assets_ok t"
  using only_changesD [of t "emit_auto_asset_mission_changes h c us e ty a t"]
  by (intro assets_ok_cong) simp_all

lemma assets_ok_command: "assets_ok s \<Longrightarrow> leaves assets_ok (apply_registry_asset_command h c s)"
  unfolding apply_registry_asset_command_def Let_def by (intro keeps) simp_all

lemma logs_ok_audit [simp]: "logs_ok (record_audit_event h c e s) = logs_ok s"
  by (simp add: record_audit_event_def new_uuid_def logs_ok_def Let_def)

lemma logs_ok_record:
  "logs_ok s \<Longrightarrow> mc_mission_uid m = [] \<or> hm_contains (missions s) (mc_mission_uid m) \<Longrightarrow>
     is_object (mc_delta m) \<Longrightarrow> logs_ok (record_mission_change h c m s)"
  by (simp add: record_mission_change_def logs_ok_change)

lemma auto_change_fields [simp]:
  "mc_mission_uid (auto_change h u m e tm ty xs ys zs) = m" "mc_uid (auto_change h u m e tm ty xs ys zs) = u"
  "is_object (mc_delta (auto_change h u m e tm ty xs ys zs))"
  by (simp_all add: auto_change_def is_object_def)

lemma logs_ok_emit: "logs_ok s \<Longrightarrow> logs_ok (emit_auto_asset_mission_changes h c us e ty a s)"
  by (induction h c us e ty a s rule: emit_auto_asset_mission_changes.induct)
     (simp_all add: new_uuid_def logs_ok_record)

subsection \<open>Skills have levels from 0 to 10\<close>

definition skills_ok :: "rch_core \<Rightarrow> bool" where
  "skills_ok s \<longleftrightarrow> hm_wf (skills s) \<and> keyed_by sk_skill_uid hm_get (skills s) \<and> hm_wf (team_member_skills s) \<and> hm_wf (task_skill_requirements s)
     \<and> (\<forall>k r. hm_get (team_member_skills s) k = Some r \<longrightarrow>
        k = ts_team_member_rns_identity r @ '':'' @ ts_skill_uid r
        \<and> hm_contains (skills s) (ts_skill_uid r) \<and> 0 \<le> ts_level r \<and> ts_level r \<le> 10)
     \<and> (\<forall>k r. hm_get (task_skill_requirements s) k = Some r \<longrightarrow>
        k = rq_task_uid r @ '':'' @ rq_skill_uid r
        \<and> hm_contains (skills s) (rq_skill_uid r) \<and> 0 \<le> rq_minimum_level r \<and> rq_minimum_level r \<le> 10)"

lemma skills_ok_fresh: "skills_ok s \<Longrightarrow> or_new_uuid h s x = (u, t) \<Longrightarrow> skills_ok t"
  by (auto dest!: or_new_uuid_frame simp: skills_ok_def)

lemma skill_level_Inr: "normalize_skill_level v f = Inr n \<longleftrightarrow> n = v \<and> 0 \<le> v \<and> v \<le> 10"
  by (auto simp: normalize_skill_level_def)

lemma skills_ok_more_skills:
  "skills_ok s \<Longrightarrow> sk_skill_uid k = u \<Longrightarrow> skills_ok (s\<lparr>skills := hm_insert u k (skills s)\<rparr>)"
  by (auto simp: skills_ok_def keyed_by_def)

lemma skills_ok_put_member:
  "skills_ok s \<Longrightarrow> hm_contains (skills s) (ts_skill_uid r) \<Longrightarrow> 0 \<le> ts_level r \<and> ts_level r \<le> 10 \<Longrightarrow>
   k = ts_team_member_rns_identity r @ '':'' @ ts_skill_uid r \<Longrightarrow>
   skills_ok (s\<lparr>team_member_skills := hm_insert k r (team_member_skills s)\<rparr>)"
  by (auto simp: skills_ok_def)

lemma skills_ok_put_requirement:
  "skills_ok s \<Longrightarrow> hm_contains (skills s) (rq_skill_uid r) \<Longrightarrow> 0 \<le> rq_minimum_level r \<and> rq_minimum_level r \<le> 10 \<Longrightarrow>
   k = rq_task_uid r @ '':'' @ rq_skill_uid r \<Longrightarrow>
   skills_ok (s\<lparr>task_skill_requirements := hm_insert k r (task_skill_requirements s)\<rparr>)"
  by (auto simp: skills_ok_def)

lemma skills_ok_upsert_skill: "skills_ok s \<Longrightarrow> upsert_skill_from_args h args s = (t, x) \<Longrightarrow> skills_ok t"
proof -
  have same: "sk_skill_uid (set_optional h args key f x) = sk_skill_uid x"
    if "\<And>v x. sk_skill_uid (f v x) = sk_skill_uid x" for key f x
    using that by (simp add: set_optional_def split: option.split)
  have current: "sk_skill_uid (unwrap_or (hm_get (skills r) u) (new_skill u now)) = u" if "skills_ok r" for r u now
    using that by (cases "hm_get (skills r) u") (auto simp: skills_ok_def keyed_by_def new_skill_def)
  show "skills_ok s \<Longrightarrow> upsert_skill_from_args h args s = (t, x) \<Longrightarrow> skills_ok t"
    by (auto simp: upsert_skill_from_args_def Let_def same current dest: skills_ok_fresh
          intro!: skills_ok_more_skills split: prod.splits option.splits)
qed

lemma skills_ok_member_skill [keeps]:
  "skills_ok s \<Longrightarrow> leaves skills_ok (upsert_team_member_skill_from_args h args s)"
  unfolding upsert_team_member_skill_from_args_def Let_def
  by (intro keeps skills_ok_put_member)
     (auto dest: skills_ok_fresh or_new_uuid_frame simp: skill_level_Inr)

lemma skills_ok_requirement [keeps]:
  "skills_ok s \<Longrightarrow> leaves skills_ok (upsert_task_skill_requirement_from_args h args s)"
  unfolding upsert_task_skill_requirement_from_args_def Let_def
  by (intro keeps skills_ok_put_requirement)
     (auto dest: skills_ok_fresh or_new_uuid_frame simp: skill_level_Inr)

lemma skills_ok_command: "skills_ok s \<Longrightarrow> leaves skills_ok (apply_registry_skill_command h c s)"
  unfolding apply_registry_skill_command_def Let_def
  by (intro keeps) (auto dest: skills_ok_upsert_skill)

subsection \<open>What the asset and skill commands change\<close>

definition hide_assets :: "rch_core \<Rightarrow> rch_core" where
  "hide_assets t = t\<lparr>assets := [], assignments := [], assignment_asset_links := [], mission_changes := [],
     audit_events := [], next_uuid := 0\<rparr>"

definition only_assets :: "rch_core \<Rightarrow> rch_core \<Rightarrow> bool" where
  "only_assets s t \<longleftrightarrow> hide_assets t = hide_assets s"

lemma only_assets_simps [simp]:
  "only_assets s s"
  "only_assets s (t\<lparr>assets := a\<rparr>) = only_assets s t"
  "only_assets s (t\<lparr>assignments := b\<rparr>) = only_assets s t"
  "only_assets s (t\<lparr>assignment_asset_links := c\<rparr>) = only_assets s t"
  "only_assets s (t\<lparr>mission_changes := d\<rparr>) = only_assets s t"
  "only_assets s (t\<lparr>audit_events := e\<rparr>) = only_assets s t"
  "only_assets s (t\<lparr>next_uuid := n\<rparr>) = only_assets s t"
  by (simp_all add: only_assets_def hide_assets_def)

lemma only_assets_record [simp]: "only_assets s (record_mission_change h c m t) = only_assets s t"
  by (simp add: record_mission_change_def record_audit_event_def new_uuid_def Let_def)

lemma only_assets_emit [simp]: "only_assets s (emit_auto_asset_mission_changes h c us e ty a t) = only_assets s t"
  by (induction h c us e ty a t rule: emit_auto_asset_mission_changes.induct) (simp add: new_uuid_def Let_def)+

lemma asset_command_frame: "leaves (only_assets s) (apply_registry_asset_command h c s)"
  unfolding apply_registry_asset_command_def upsert_asset_from_args_def delete_asset_def Let_def
  by (intro keeps) (auto dest!: or_new_uuid_frame)

definition hide_skills :: "rch_core \<Rightarrow> rch_core" where
  "hide_skills t = t\<lparr>skills := [], team_member_skills := [], task_skill_requirements := [], next_uuid := 0\<rparr>"

definition only_skills :: "rch_core \<Rightarrow> rch_core \<Rightarrow> bool" where
  "only_skills s t \<longleftrightarrow> hide_skills t = hide_skills s"

lemma only_skills_simps [simp]:
  "only_skills s s"
  "only_skills s (t\<lparr>skills := a\<rparr>) = only_skills s t"
  "only_skills s (t\<lparr>team_member_skills := b\<rparr>) = only_skills s t"
  "only_skills s (t\<lparr>task_skill_requirements := c\<rparr>) = only_skills s t"
  "only_skills s (t\<lparr>next_uuid := n\<rparr>) = only_skills s t"
  by (simp_all add: only_skills_def hide_skills_def)

lemma only_skills_upsert: "upsert_skill_from_args h args s = (t, x) \<Longrightarrow> only_skills s t"
  by (auto simp: upsert_skill_from_args_def Let_def dest!: or_new_uuid_frame split: prod.splits)

lemma skill_command_frame: "leaves (only_skills s) (apply_registry_skill_command h c s)"
  unfolding apply_registry_skill_command_def upsert_team_member_skill_from_args_def
    upsert_task_skill_requirement_from_args_def Let_def
  by (intro keeps) (auto dest!: or_new_uuid_frame dest: only_skills_upsert)

end
