(* ===== verification/Assignments.thy ===== *)
theory Assignments
  imports Assets
begin

text \<open>
  Assignments of checklist tasks to team members (\<open>crates/r3akt-rch-core/src/lib.rs\<close>:
  \<open>apply_registry_assignment_command\<close>, \<open>emit_auto_assignment_mission_change\<close>,
  \<open>upsert_assignment_from_args\<close> to \<open>ensure_team_member_identity_exists\<close>).

  The invariant \<open>assignments_ok\<close>: an assignment belongs to a mission that exists, its
  assets exist and are listed once, and the asset links are exactly the assets of the assignments.
\<close>

subsection \<open>Operations\<close>

definition set_assignment_asset_links :: "string \<Rightarrow> string list \<Rightarrow> rch_core \<Rightarrow> rch_core" where
  "set_assignment_asset_links assignment_uid asset_uids s =
     s\<lparr>assignment_asset_links :=
         hs_extend (hs_retain (\<lambda>(linked, _). linked \<noteq> assignment_uid) (assignment_asset_links s))
           (map (\<lambda>asset_uid. (assignment_uid, asset_uid)) asset_uids)\<rparr>"

definition validate_asset_refs :: "rch_core \<Rightarrow> string list \<Rightarrow> string list result" where
  "validate_asset_refs s asset_uids =
     (let asset_uids = dedupe_non_empty asset_uids
      in if list_all (hm_contains (assets s)) asset_uids then Inr asset_uids else Inl AssetNotFound)"

definition ensure_team_member_identity_exists :: "rch_core \<Rightarrow> string \<Rightarrow> unit result" where
  "ensure_team_member_identity_exists s identity =
     ensure (list_ex (\<lambda>member. tm_rns_identity member = identity) (hm_values (team_members s)))
       TeamMemberNotFound"

definition assignment_required :: core_error where
  "assignment_required = InvalidPayload ''mission_uid, task_uid and team_member_rns_identity are required''"

definition assignment_asset_field ::
  "host \<Rightarrow> rch_core \<Rightarrow> json \<Rightarrow> assignment_record option \<Rightarrow> string list result" where
  "assignment_asset_field h s args current =
     (if has_key args ''assets''
      then and_then (string_list h (jget args ''assets'') ''assets'') (validate_asset_refs s)
      else Inr (case current of None \<Rightarrow> [] | Some rec \<Rightarrow> an_assets rec))"

definition assignment_status_field :: "host \<Rightarrow> json \<Rightarrow> assignment_record option \<Rightarrow> string result" where
  "assignment_status_field h args current =
     and_then (case optional_text h args [''status''] of
                 None \<Rightarrow> Inr None | Some v \<Rightarrow> and_then (normalize_task_status v) (\<lambda>v. Inr (Some v)))
       (\<lambda>status. Inr (unwrap_or (or_else status (map_option an_status current)) ''PENDING''))"

definition upsert_assignment_from_args :: "host \<Rightarrow> json \<Rightarrow> rch_core \<Rightarrow> assignment_record op" where
  "upsert_assignment_from_args h args s =
     (let (assignment_uid, s) = or_new_uuid h s (optional_text h args [''assignment_uid'']);
          current = hm_get (assignments s) assignment_uid;
          kept = (\<lambda>f. case current of None \<Rightarrow> None | Some rec \<Rightarrow> f rec)
      in try_in s (ok_or (or_else (optional_text h args [''mission_uid'', ''mission_id''])
                            (map_option an_mission_uid current)) assignment_required) (\<lambda>mission_uid.
         try_in s (ok_or (or_else (optional_text h args [''task_uid''])
                            (map_option an_task_uid current)) assignment_required) (\<lambda>task_uid.
         try_in s (ok_or (or_else (optional_text h args [''team_member_rns_identity''])
                            (map_option an_team_member_rns_identity current)) assignment_required) (\<lambda>member.
           if \<not> hm_contains (missions s) mission_uid then (s, Inl MissionNotFound)
           else if \<not> hm_contains (checklist_tasks s) task_uid
           then (s, Inl (InvalidPayload (''Checklist task '' @ quoted task_uid @ '' not found'')))
           else
             try_in s (ensure_team_member_identity_exists s member) (\<lambda>_.
             try_in s (assignment_asset_field h s args current) (\<lambda>asset_uids.
             (let now = utc_now_ms h
              in try_in s (optional_timestamp_ms h args [''assigned_at'']) (\<lambda>assigned_at.
                 try_in s (assignment_status_field h args current) (\<lambda>status.
                 (let assignment = \<lparr>an_assignment_uid = assignment_uid, an_mission_uid = mission_uid,
                        an_task_uid = task_uid, an_team_member_rns_identity = member,
                        an_assigned_by = text_or_kept h args ''assigned_by'' (kept an_assigned_by),
                        an_assigned_ts_ms =
                          unwrap_or (or_else assigned_at (map_option an_assigned_ts_ms current)) now,
                        an_due_dtg = text_or_kept h args ''due_dtg'' (kept an_due_dtg),
                        an_status = status,
                        an_notes = text_or_kept h args ''notes'' (kept an_notes),
                        an_assets = asset_uids\<rparr>
                  in (set_assignment_asset_links assignment_uid asset_uids
                        (s\<lparr>assignments := hm_insert assignment_uid assignment (assignments s)\<rparr>),
                      Inr assignment)))))))))))"

text \<open>Replacing the assets of an assignment, and its links with them.\<close>

definition put_assignment_assets ::
  "string \<Rightarrow> (assignment_record \<Rightarrow> string list) \<Rightarrow> rch_core \<Rightarrow> assignment_record op" where
  "put_assignment_assets assignment_uid f s =
     try_in s (ok_or (hm_get (assignments s) assignment_uid) AssignmentNotFound) (\<lambda>assignment.
       (let assignment = assignment\<lparr>an_assets := f assignment\<rparr>
        in (set_assignment_asset_links assignment_uid (an_assets assignment)
              (s\<lparr>assignments := hm_insert assignment_uid assignment (assignments s)\<rparr>),
            Inr assignment)))"

definition set_assignment_assets :: "string \<Rightarrow> string list \<Rightarrow> rch_core \<Rightarrow> assignment_record op" where
  "set_assignment_assets assignment_uid asset_uids s =
     try_in s (validate_asset_refs s asset_uids) (\<lambda>asset_uids.
       put_assignment_assets assignment_uid (\<lambda>_. asset_uids) s)"

definition link_assignment_asset :: "string \<Rightarrow> string \<Rightarrow> rch_core \<Rightarrow> assignment_record op" where
  "link_assignment_asset assignment_uid asset_uid s =
     try_in s (required_non_empty asset_uid ''asset_uid'') (\<lambda>asset_uid.
     try_in s (validate_asset_refs s [asset_uid]) (\<lambda>_.
       put_assignment_assets assignment_uid
         (\<lambda>assignment. if asset_uid \<in> set (an_assets assignment) then an_assets assignment
                       else an_assets assignment @ [asset_uid]) s))"

definition unlink_assignment_asset :: "string \<Rightarrow> string \<Rightarrow> rch_core \<Rightarrow> assignment_record op" where
  "unlink_assignment_asset assignment_uid asset_uid s =
     try_in s (required_non_empty asset_uid ''asset_uid'') (\<lambda>asset_uid.
       put_assignment_assets assignment_uid
         (\<lambda>assignment. filter (\<lambda>item. item \<noteq> asset_uid) (an_assets assignment)) s)"

definition assignment_mission_delta ::
  "rch_core \<Rightarrow> assignment_record \<Rightarrow> string \<Rightarrow> string option \<Rightarrow> json" where
  "assignment_mission_delta s assignment operation asset_uid =
     (let delta = JObj
        [(''op'', JStr operation), (''mission_uid'', JStr (an_mission_uid assignment)),
         (''task_uid'', JStr (an_task_uid assignment)),
         (''assignment_uid'', JStr (an_assignment_uid assignment)),
         (''team_member_rns_identity'', JStr (an_team_member_rns_identity assignment)),
         (''status'', JStr (an_status assignment)), (''due_dtg'', jopt (an_due_dtg assignment)),
         (''notes'', jopt (an_notes assignment)),
         (''assets'', jstrs (assignment_assets s (an_assignment_uid assignment) (an_assets assignment)))]
      in case asset_uid of None \<Rightarrow> delta | Some asset_uid \<Rightarrow> jset ''asset_uid'' (JStr asset_uid) delta)"

definition emit_auto_assignment_mission_change ::
  "host \<Rightarrow> mission_command \<Rightarrow> assignment_record \<Rightarrow> string \<Rightarrow> string \<Rightarrow> string \<Rightarrow> string option \<Rightarrow> rch_core
     \<Rightarrow> unit op" where
  "emit_auto_assignment_mission_change h command assignment source_event_type operation change_type asset_uid s =
     (if \<not> hm_contains (missions s) (an_mission_uid assignment) then (s, Inl MissionNotFound)
      else
        (let task_delta = assignment_mission_delta s assignment operation asset_uid;
             (uid, s) = new_uuid h s
         in (record_mission_change h command
               (auto_change h uid (an_mission_uid assignment) source_event_type
                  (Some (an_team_member_rns_identity assignment)) change_type [] [task_delta] []) s,
             Inr ())))"

definition apply_registry_assignment_command ::
  "host \<Rightarrow> mission_command \<Rightarrow> rch_core \<Rightarrow> event_envelope option op" where
  "apply_registry_assignment_command h command s =
     (let args = cmd_args command; ctype = cmd_type command;
          finish = (\<lambda>source operation change_type asset_uid event_type s assignment.
            try_st (emit_auto_assignment_mission_change h command assignment source operation change_type
                      asset_uid s) (\<lambda>s _.
              (s, Inr (Some (event event_type command (assignment_value h s assignment))))))
      in if ctype = ''mission.registry.assignment.upsert'' then
           try_st (upsert_assignment_from_args h args s)
             (finish ''mission.assignment.upserted'' ''assignment_upsert'' ''ADD_CONTENT'' None
                ''mission.registry.assignment.upserted'')
         else if ctype = ''mission.registry.assignment.list'' then
           (s, Inr (Some (event ''mission.registry.assignment.listed'' command
              (JObj [(''assignments'', JArr (assignment_values h s
                 (optional_text h args [''mission_uid'', ''mission_id''])
                 (optional_text h args [''task_uid''])))]))))
         else if ctype = ''mission.registry.assignment.asset.set'' then
           try_in s (required_text h args [''assignment_uid'']) (\<lambda>assignment_uid.
           try_in s (string_list h (jget args ''assets'') ''assets'') (\<lambda>asset_uids.
           try_st (set_assignment_assets assignment_uid asset_uids s)
             (finish ''mission.assignment.assets.updated'' ''assignment_assets_set'' ''ADD_CONTENT'' None
                ''mission.registry.assignment.asset.set'')))
         else if ctype = ''mission.registry.assignment.asset.link'' then
           try_in s (required_text h args [''assignment_uid'']) (\<lambda>assignment_uid.
           try_in s (required_text h args [''asset_uid'']) (\<lambda>asset_uid.
           try_st (link_assignment_asset assignment_uid asset_uid s)
             (finish ''mission.assignment.asset.linked'' ''assignment_asset_linked'' ''ADD_CONTENT''
                (Some asset_uid) ''mission.registry.assignment.asset.linked'')))
         else if ctype = ''mission.registry.assignment.asset.unlink'' then
           try_in s (required_text h args [''assignment_uid'']) (\<lambda>assignment_uid.
           try_in s (required_text h args [''asset_uid'']) (\<lambda>asset_uid.
           try_st (unlink_assignment_asset assignment_uid asset_uid s)
             (finish ''mission.assignment.asset.unlinked'' ''assignment_asset_unlinked'' ''REMOVE_CONTENT''
                (Some asset_uid) ''mission.registry.assignment.asset.unlinked'')))
         else (s, Inl (UnsupportedCommand ctype)))"

subsection \<open>Assignments, assets and links agree\<close>

definition assignment_ok :: "rch_core \<Rightarrow> string \<Rightarrow> assignment_record \<Rightarrow> bool" where
  "assignment_ok s k r \<longleftrightarrow> an_assignment_uid r = k \<and> hm_contains (missions s) (an_mission_uid r)
     \<and> list_all (hm_contains (assets s)) (an_assets r) \<and> distinct (an_assets r)"

definition links_agree :: "rch_core \<Rightarrow> bool" where
  "links_agree s \<longleftrightarrow> (\<forall>k x. (k, x) \<in> set (assignment_asset_links s) \<longleftrightarrow>
     (\<exists>r. hm_get (assignments s) k = Some r \<and> x \<in> set (an_assets r)))"

definition assignments_ok :: "rch_core \<Rightarrow> bool" where
  "assignments_ok s \<longleftrightarrow> hm_wf (assignments s)
     \<and> (\<forall>k r. hm_get (assignments s) k = Some r \<longrightarrow> assignment_ok s k r) \<and> links_agree s"

lemma assignments_ok_cong:
  assumes "assignments t = assignments s" "assets t = assets s" "missions t = missions s"
    and "assignment_asset_links t = assignment_asset_links s"
  shows "assignments_ok t = assignments_ok s"
  using assms by (simp add: assignments_ok_def assignment_ok_def links_agree_def)

lemma assignments_ok_fresh: "assignments_ok s \<Longrightarrow> or_new_uuid h s x = (u, t) \<Longrightarrow> assignments_ok t"
  by (auto dest!: or_new_uuid_frame simp: assignments_ok_def assignment_ok_def links_agree_def)

lemma assignments_ok_get: "assignments_ok s \<Longrightarrow> hm_get (assignments s) k = Some r \<Longrightarrow> assignment_ok s k r"
  by (simp add: assignments_ok_def)

lemma assignments_ok_put:
  assumes "assignments_ok s" and "assignment_ok s k r"
  shows "assignments_ok (set_assignment_asset_links k (an_assets r)
           (s\<lparr>assignments := hm_insert k r (assignments s)\<rparr>))"
  using assms
  by (auto simp: assignments_ok_def assignment_ok_def links_agree_def set_assignment_asset_links_def)

lemma validate_asset_refs_Inr:
  "validate_asset_refs s us = Inr vs \<Longrightarrow> list_all (hm_contains (assets s)) vs \<and> distinct vs"
  by (auto simp: validate_asset_refs_def Let_def split: if_splits)

lemma validate_asset_ref:
  assumes "validate_asset_refs s [trim u] = Inr vs" and "trim u \<noteq> []"
  shows "hm_contains (assets s) (trim u)"
proof -
  have "set (dedupe_non_empty [trim u]) = {trim u}"
    using assms(2) by (auto simp: dedupe_set)
  with assms(1) show ?thesis
    by (auto simp: validate_asset_refs_def Let_def list_all_iff split: if_splits)
qed

lemma assignment_asset_field_ok:
  assumes "assignment_asset_field h s args (hm_get (assignments s) k) = Inr us" and "assignments_ok s"
  shows "list_all (hm_contains (assets s)) us \<and> distinct us"
proof (cases "has_key args ''assets''")
  case True
  with assms(1) show ?thesis
    by (auto simp: assignment_asset_field_def result_eqs dest: validate_asset_refs_Inr)
next
  case False
  with assms show ?thesis
    by (auto simp: assignment_asset_field_def assignment_ok_def dest: assignments_ok_get split: option.splits)
qed

lemma assignments_ok_upsert [keeps]:
  "assignments_ok s \<Longrightarrow> leaves assignments_ok (upsert_assignment_from_args h args s)"
  unfolding upsert_assignment_from_args_def Let_def
  by (intro keeps assignments_ok_put [where r = "\<lparr>an_assignment_uid = _, an_mission_uid = _, an_task_uid = _,
        an_team_member_rns_identity = _, an_assigned_by = _, an_assigned_ts_ms = _, an_due_dtg = _,
        an_status = _, an_notes = _, an_assets = _\<rparr>", simplified])
     (auto dest: assignments_ok_fresh assignment_asset_field_ok simp: assignment_ok_def)

lemma assignments_ok_put_assets [keeps]:
  assumes "assignments_ok s"
    and "\<And>r. hm_get (assignments s) k = Some r \<Longrightarrow> list_all (hm_contains (assets s)) (f r) \<and> distinct (f r)"
  shows "leaves assignments_ok (put_assignment_assets k f s)"
proof (cases "hm_get (assignments s) k")
  case None
  with assms(1) show ?thesis by (simp add: put_assignment_assets_def leaves_def)
next
  case (Some r)
  with assms have "assignment_ok s k (r\<lparr>an_assets := f r\<rparr>)"
    using assignments_ok_get [OF assms(1) Some] by (simp add: assignment_ok_def)
  from assignments_ok_put [OF assms(1) this] Some show ?thesis
    by (simp add: put_assignment_assets_def leaves_def Let_def)
qed

lemma assignments_ok_asset_ops [keeps]:
  assumes "assignments_ok s"
  shows "leaves assignments_ok (set_assignment_assets k us s)"
    "leaves assignments_ok (link_assignment_asset k u s)"
    "leaves assignments_ok (unlink_assignment_asset k u s)"
proof -
  note ok = assignments_ok_get [OF assms]
  show "leaves assignments_ok (set_assignment_assets k us s)"
    unfolding set_assignment_assets_def by (intro keeps assms) (auto dest: validate_asset_refs_Inr)
  show "leaves assignments_ok (link_assignment_asset k u s)"
    unfolding link_assignment_asset_def
    by (intro keeps assms)
       (auto simp: required_non_empty_Inr assignment_ok_def dest: validate_asset_ref dest!: ok)
  show "leaves assignments_ok (unlink_assignment_asset k u s)"
    unfolding unlink_assignment_asset_def
    by (intro keeps assms) (auto simp: assignment_ok_def list_all_iff dest!: ok)
qed

lemma assignments_ok_emit [keeps]:
  "assignments_ok s \<Longrightarrow> leaves assignments_ok (emit_auto_assignment_mission_change h c r e op ty u s)"
  unfolding emit_auto_assignment_mission_change_def record_mission_change_def record_audit_event_def
    new_uuid_def Let_def
  by (intro keeps) (auto simp: assignments_ok_def assignment_ok_def links_agree_def)

lemma assignments_ok_command:
  "assignments_ok s \<Longrightarrow> leaves assignments_ok (apply_registry_assignment_command h c s)"
  unfolding apply_registry_assignment_command_def Let_def by (intro keeps)

text \<open>Deleting an asset takes it out of the assignments and out of the links.\<close>

lemma assignments_ok_delete_asset [keeps]:
  "assignments_ok s \<Longrightarrow> leaves assignments_ok (delete_asset u s)"
  unfolding delete_asset_def
  by (intro keeps)
     (auto simp: assignments_ok_def assignment_ok_def links_agree_def remove_asset_def list_all_iff)

lemma assignments_ok_more_assets:
  "assignments_ok s \<Longrightarrow> assignments_ok (s\<lparr>assets := hm_insert u a (assets s)\<rparr>)"
  by (auto simp: assignments_ok_def assignment_ok_def links_agree_def list_all_iff)

lemma assignments_ok_upsert_asset [keeps]:
  "assignments_ok s \<Longrightarrow> leaves assignments_ok (upsert_asset_from_args h args s)"
  unfolding upsert_asset_from_args_def Let_def
  by (intro keeps assignments_ok_more_assets) (auto dest: assignments_ok_fresh)

lemma assignments_ok_emit_asset [simp]:
  "assignments_ok (emit_auto_asset_mission_changes h c us e ty a t) = assignments_ok t"
  using only_changesD [of t "emit_auto_asset_mission_changes h c us e ty a t"]
  by (intro assignments_ok_cong) simp_all

lemma assignments_ok_asset_command:
  "assignments_ok s \<Longrightarrow> leaves assignments_ok (apply_registry_asset_command h c s)"
  unfolding apply_registry_asset_command_def Let_def by (intro keeps) simp_all

text \<open>The assets a value shows are those of the record.\<close>

lemma assignment_assets_set:
  assumes "assignments_ok s" and "hm_get (assignments s) k = Some r"
  shows "set (assignment_assets s k (an_assets r)) = set (an_assets r)"
proof -
  have "set (map snd (filter (\<lambda>(linked, _). linked = k) (assignment_asset_links s))) = set (an_assets r)"
    using assms by (force simp: assignments_ok_def links_agree_def)
  then show ?thesis
    by (auto simp: assignment_assets_def Let_def)
qed

subsection \<open>What the assignment commands change\<close>

definition hide_assignments :: "rch_core \<Rightarrow> rch_core" where
  "hide_assignments t = t\<lparr>assignments := [], assignment_asset_links := [], mission_changes := [],
     audit_events := [], next_uuid := 0\<rparr>"

definition only_assignments :: "rch_core \<Rightarrow> rch_core \<Rightarrow> bool" where
  "only_assignments s t \<longleftrightarrow> hide_assignments t = hide_assignments s"

lemma only_assignments_simps [simp]:
  "only_assignments s s"
  "only_assignments s (t\<lparr>assignments := a\<rparr>) = only_assignments s t"
  "only_assignments s (t\<lparr>assignment_asset_links := b\<rparr>) = only_assignments s t"
  "only_assignments s (t\<lparr>mission_changes := c\<rparr>) = only_assignments s t"
  "only_assignments s (t\<lparr>audit_events := d\<rparr>) = only_assignments s t"
  "only_assignments s (t\<lparr>next_uuid := n\<rparr>) = only_assignments s t"
  by (simp_all add: only_assignments_def hide_assignments_def)

lemma only_assignments_put [keeps]:
  "only_assignments s t \<Longrightarrow> leaves (only_assignments s) (put_assignment_assets k f t)"
  unfolding put_assignment_assets_def set_assignment_asset_links_def Let_def by (intro keeps) simp_all

lemma assignment_command_frame: "leaves (only_assignments s) (apply_registry_assignment_command h c s)"
  unfolding apply_registry_assignment_command_def upsert_assignment_from_args_def
    emit_auto_assignment_mission_change_def set_assignment_assets_def link_assignment_asset_def
    unlink_assignment_asset_def record_mission_change_def record_audit_event_def new_uuid_def
    set_assignment_asset_links_def Let_def
  by (intro keeps) (auto dest!: or_new_uuid_frame)

lemma logs_ok_update [simp]:
  "logs_ok (s\<lparr>assignments := a\<rparr>) = logs_ok s"
  "logs_ok (s\<lparr>assignment_asset_links := b\<rparr>) = logs_ok s"
  "logs_ok (s\<lparr>assets := c\<rparr>) = logs_ok s"
  by (simp_all add: logs_ok_def)

lemma logs_ok_assignment_ops [keeps]:
  "logs_ok s \<Longrightarrow> leaves logs_ok (upsert_assignment_from_args h args s)"
  "logs_ok s \<Longrightarrow> leaves logs_ok (put_assignment_assets k f s)"
  unfolding upsert_assignment_from_args_def put_assignment_assets_def set_assignment_asset_links_def Let_def
  by (intro keeps; auto dest!: or_new_uuid_frame)+

lemma logs_ok_emit_assignment [keeps]:
  "logs_ok s \<Longrightarrow> leaves logs_ok (emit_auto_assignment_mission_change h c r e op ty u s)"
  unfolding emit_auto_assignment_mission_change_def new_uuid_def Let_def
  by (intro keeps) (auto intro: logs_ok_record)

lemma logs_ok_assignment_command:
  "logs_ok s \<Longrightarrow> leaves logs_ok (apply_registry_assignment_command h c s)"
  unfolding apply_registry_assignment_command_def set_assignment_assets_def link_assignment_asset_def
    unlink_assignment_asset_def Let_def
  by (intro keeps)

lemma logs_ok_asset_command: "logs_ok s \<Longrightarrow> leaves logs_ok (apply_registry_asset_command h c s)"
  unfolding apply_registry_asset_command_def upsert_asset_from_args_def delete_asset_def Let_def
  by (intro keeps) (auto intro!: logs_ok_emit dest!: or_new_uuid_frame)

end
