(* ===== verification/Rights.thy ===== *)
theory Rights
  imports Assignments
begin

text \<open>
  The commands that manage mission access (\<open>crates/r3akt-rch-core/src/lib.rs\<close>:
  \<open>apply_registry_rights_command\<close>): listing the subjects, assigning a role on a mission to an
  identity or a team member, listing and revoking the assignments.

  The invariant \<open>access_ok\<close>: an assignment is stored under its own mission and subject, the
  subject type is known, a team member subject exists when it is assigned, and the role is a mission
  role.
\<close>

definition mission_access_subject ::
  "host \<Rightarrow> json \<Rightarrow> (string \<times> string) result" where
  "mission_access_subject h args =
     and_then (required_text h args [''subject_type'']) (\<lambda>raw_subject_type.
     and_then (normalize_subject_type raw_subject_type) (\<lambda>subject_type.
     and_then (required_text h args [''subject_id'']) (\<lambda>raw_subject_id.
     and_then (normalize_subject_id subject_type raw_subject_id) (\<lambda>subject_id.
       Inr (subject_type, subject_id)))))"

definition assign_mission_access :: "host \<Rightarrow> json \<Rightarrow> rch_core \<Rightarrow> mission_access_assignment op" where
  "assign_mission_access h args s =
     try_in s (required_text h args [''mission_uid'']) (\<lambda>mission_uid.
       if \<not> hm_contains (missions s) mission_uid then (s, Inl MissionNotFound)
       else
         try_in s (mission_access_subject h args) (\<lambda>(subject_type, subject_id).
           if subject_type = ''team_member'' \<and> \<not> hm_contains (team_members s) subject_id
           then (s, Inl TeamMemberNotFound)
           else
             (let role = unwrap_or (or_else (optional_text h args [''role''])
                    (case hm_get (missions s) mission_uid of
                       None \<Rightarrow> None | Some mission \<Rightarrow> mi_default_role mission)) ''MISSION_SUBSCRIBER''
              in try_st (assign_mission_access_role mission_uid subject_type subject_id role s) (\<lambda>s _.
                   (s, ok_or (hm_get (mission_access_assignments s) (mission_uid, subject_type, subject_id))
                         AssignmentNotFound)))))"

definition revoke_mission_access ::
  "host \<Rightarrow> json \<Rightarrow> rch_core \<Rightarrow> (string \<times> string \<times> string \<times> bool) op" where
  "revoke_mission_access h args s =
     try_in s (required_text h args [''mission_uid'']) (\<lambda>mission_uid.
     try_in s (mission_access_subject h args) (\<lambda>(subject_type, subject_id).
       (let key = (mission_uid, subject_type, subject_id);
            deleted = hm_contains (mission_access_assignments s) key
        in (s\<lparr>mission_access_assignments := hm_remove key (mission_access_assignments s)\<rparr>,
            Inr (mission_uid, subject_type, subject_id, deleted)))))"

definition apply_registry_rights_command :: "host \<Rightarrow> mission_command \<Rightarrow> rch_core \<Rightarrow> event_envelope option op"
  where
  "apply_registry_rights_command h command s =
     (let args = cmd_args command; ctype = cmd_type command;
          answer = (\<lambda>event_type s v. (s, Inr (Some (event event_type command v))))
      in if ctype = ''mission.registry.rights.subjects.list'' then
           answer ''mission.registry.rights.subjects.listed'' s
             (JObj [(''subjects'', JArr (team_member_subject_values s (optional_text h args [''mission_uid''])))])
         else if ctype = ''mission.registry.rights.mission_access.assign'' then
           try_st (assign_mission_access h args s) (\<lambda>s assignment.
             answer ''mission.registry.rights.mission_access.assigned'' s
               (mission_access_assignment_value assignment))
         else if ctype = ''mission.registry.rights.mission_access.list'' then
           answer ''mission.registry.rights.mission_access.listed'' s
             (JObj [(''mission_access_assignments'', JArr (mission_access_assignment_values s
                (optional_text h args [''mission_uid'']) (optional_text h args [''subject_type''])
                (optional_text h args [''subject_id''])))])
         else if ctype = ''mission.registry.rights.mission_access.revoke'' then
           try_st (revoke_mission_access h args s) (\<lambda>s (mission_uid, subject_type, subject_id, deleted).
             answer ''mission.registry.rights.mission_access.revoked'' s
               (JObj [(''mission_uid'', JStr mission_uid), (''subject_type'', JStr subject_type),
                      (''subject_id'', JStr subject_id), (''deleted'', JBool deleted)]))
         else (s, Inl (UnsupportedCommand ctype)))"

subsection \<open>The access assignments are well formed\<close>

definition access_record_ok :: "string \<times> string \<times> string \<Rightarrow> mission_access_assignment \<Rightarrow> bool" where
  "access_record_ok k a \<longleftrightarrow> k = (ma_mission_uid a, ma_subject_type a, ma_subject_id a)
     \<and> ma_subject_type a \<in> {''identity'', ''team_member''}
     \<and> (ma_role a = [] \<or> ma_role a \<in> set mission_roles)"

definition access_ok :: "rch_core \<Rightarrow> bool" where
  "access_ok s \<longleftrightarrow> hm_wf (mission_access_assignments s) \<and> (\<forall>k a. hm_get (mission_access_assignments s) k = Some a \<longrightarrow> access_record_ok k a)"

lemma access_ok_put:
  "access_ok s \<Longrightarrow> access_record_ok k a \<Longrightarrow>
     access_ok (s\<lparr>mission_access_assignments := hm_insert k a (mission_access_assignments s)\<rparr>)"
  by (simp add: access_ok_def)

lemma subject_type_range: "normalize_subject_type v = Inr t \<Longrightarrow> t \<in> {''identity'', ''team_member''}"
  by (auto simp: normalize_subject_type_def Let_def split: if_splits)

lemma role_range: "normalize_mission_role v f = Inr r \<Longrightarrow> r = [] \<or> r \<in> set mission_roles"
  by (auto simp: normalize_mission_role_def normalize_enum_Inr)

lemma access_ok_assign [keeps]:
  "access_ok s \<Longrightarrow> leaves access_ok (assign_mission_access_role m ty i r s)"
  unfolding assign_mission_access_role_def
  by (intro keeps access_ok_put) (auto simp: access_record_ok_def dest: subject_type_range role_range)

lemma access_ok_remove:
  "access_ok s \<Longrightarrow> access_ok (s\<lparr>mission_access_assignments := hm_remove k (mission_access_assignments s)\<rparr>)"
  by (simp add: access_ok_def)

lemma access_ok_command: "access_ok s \<Longrightarrow> leaves access_ok (apply_registry_rights_command h c s)"
  unfolding apply_registry_rights_command_def assign_mission_access_def revoke_mission_access_def Let_def
  by (intro keeps access_ok_remove)

text \<open>What the rights commands change.\<close>

definition only_access :: "rch_core \<Rightarrow> rch_core \<Rightarrow> bool" where
  "only_access s t \<longleftrightarrow> (\<exists>a. t = s\<lparr>mission_access_assignments := a\<rparr>)"

lemma only_access_refl [simp]: "only_access s s"
  unfolding only_access_def by (rule exI [of _ "mission_access_assignments s"]) simp

lemma only_access_update [simp]: "only_access s t \<Longrightarrow> only_access s (t\<lparr>mission_access_assignments := a\<rparr>)"
  by (auto simp: only_access_def)

lemma rights_command_frame: "leaves (only_access s) (apply_registry_rights_command h c s)"
  unfolding apply_registry_rights_command_def assign_mission_access_def revoke_mission_access_def
    assign_mission_access_role_def Let_def
  by (intro keeps) simp_all

end
