(* ===== verification/Eam.thy ===== *)
theory Eam
  imports Rights
begin

text \<open>
  Emergency action messages (\<open>crates/r3akt-rch-core/src/lib.rs\<close>:
  \<open>apply_registry_eam_command\<close>, \<open>upsert_eam_from_args\<close> to \<open>delete_eam_by_callsign\<close>,
  \<open>eam_values\<close> to \<open>eam_team_summary\<close>, \<open>EamStatuses\<close> to
  \<open>reject_disallowed_eam_fields\<close>): the status snapshot a team member reports, with a lifetime.

  The invariant \<open>eams_ok\<close>: a snapshot is stored under its own key, its overall status is the
  aggregate of its parts, its confidence and lifetime are in range, and a member and a callsign have at
  most one snapshot that is not deleted, so a lookup does not depend on the order of the map.
\<close>

subsection \<open>Statuses\<close>

record eam_statuses =
  es_security :: string
  es_capability :: string
  es_preparedness :: string
  es_medical :: string
  es_mobility :: string
  es_comms :: string

definition optional_value_text :: "host \<Rightarrow> json \<Rightarrow> string \<Rightarrow> string option" where
  "optional_value_text h args key =
     map_option trim (case jget args key of None \<Rightarrow> None | Some v \<Rightarrow> value_as_str h v)"

definition eam_statuses_from_args :: "host \<Rightarrow> json \<Rightarrow> eam_statuses result" where
  "eam_statuses_from_args h args =
     (let field = (\<lambda>key. normalize_eam_status (optional_value_text h args key))
      in and_then (field ''security_status'') (\<lambda>security.
         and_then (field ''capability_status'') (\<lambda>capability.
         and_then (field ''preparedness_status'') (\<lambda>preparedness.
         and_then (field ''medical_status'') (\<lambda>medical.
         and_then (field ''mobility_status'') (\<lambda>mobility.
         and_then (field ''comms_status'') (\<lambda>comms.
           Inr \<lparr>es_security = security, es_capability = capability, es_preparedness = preparedness,
                es_medical = medical, es_mobility = mobility, es_comms = comms\<rparr>)))))))"

definition status_list :: "eam_statuses \<Rightarrow> string list" where
  "status_list v =
     [es_security v, es_capability v, es_preparedness v, es_medical v, es_mobility v, es_comms v]"

definition aggregate_eam_status :: "eam_statuses \<Rightarrow> string" where
  "aggregate_eam_status statuses =
     (let values = status_list statuses
      in if ''Red'' \<in> set values then ''Red''
         else if ''Yellow'' \<in> set values then ''Yellow''
         else if list_ex (\<lambda>value. value \<noteq> ''Unknown'') values then ''Green''
         else ''Unknown'')"

definition eam_is_expired :: "host \<Rightarrow> eam_snapshot_record \<Rightarrow> bool" where
  "eam_is_expired h eam =
     is_some_and (ea_ttl_seconds eam) (\<lambda>ttl.
       utc_now_ms h \<ge> wrap_i64 (ea_reported_ts_ms eam + wrap_i64 (ttl * 1000)))"

definition disallowed_eam_fields :: "(string \<times> string) list" where
  "disallowed_eam_fields =
     [(''subject_type'', ''subject_type is not supported southbound; EAM is member-scoped only''),
      (''subjectType'', ''subjectType is not supported southbound; EAM is member-scoped only''),
      (''subject_id'', ''subject_id is not supported southbound; use team_member_uid''),
      (''subjectId'', ''subjectId is not supported southbound; use team_member_uid''),
      (''teamId'', ''teamId is not supported southbound; use team_uid''),
      (''reportedAt'', ''reportedAt is not supported southbound; use reported_at''),
      (''reportedBy'', ''reportedBy is not supported southbound; use reported_by''),
      (''overall_status'', ''overall_status is computed server-side and is not accepted on writes''),
      (''overallStatus'', ''overallStatus is computed server-side and is not accepted on writes''),
      (''groupName'', ''groupName is not supported southbound; use group_name''),
      (''securityStatus'', ''securityStatus is not supported southbound; use security_status''),
      (''capabilityStatus'', ''capabilityStatus is not supported southbound; use capability_status''),
      (''preparednessStatus'', ''preparednessStatus is not supported southbound; use preparedness_status''),
      (''medicalStatus'', ''medicalStatus is not supported southbound; use medical_status''),
      (''mobilityStatus'', ''mobilityStatus is not supported southbound; use mobility_status''),
      (''commsStatus'', ''commsStatus is not supported southbound; use comms_status''),
      (''ttlSeconds'', ''ttlSeconds is not supported southbound; use ttl_seconds''),
      (''securityCapability'', ''securityCapability is not supported southbound; use capability_status'')]"

definition reject_disallowed_eam_fields :: "json \<Rightarrow> unit result" where
  "reject_disallowed_eam_fields args =
     (case find_map (\<lambda>(field, message). if has_key args field then Some message else None)
             disallowed_eam_fields of
        None \<Rightarrow> Inr () | Some message \<Rightarrow> Inl (InvalidPayload message))"

subsection \<open>Values\<close>

definition eam_value :: "host \<Rightarrow> eam_snapshot_record \<Rightarrow> json" where
  "eam_value h eam =
     JObj [(''eam_uid'', JStr (ea_eam_uid eam)), (''callsign'', JStr (ea_callsign eam)),
           (''group_name'', jopt (ea_group_name eam)),
           (''team_member_uid'', JStr (ea_team_member_uid eam)), (''team_uid'', JStr (ea_team_uid eam)),
           (''reported_by'', jopt (ea_reported_by eam)),
           (''reported_at'', JStr (millis_to_rfc3339 h (ea_reported_ts_ms eam))),
           (''overall_status'', JStr (ea_overall_status eam)),
           (''security_status'', JStr (ea_security_status eam)),
           (''capability_status'', JStr (ea_capability_status eam)),
           (''preparedness_status'', JStr (ea_preparedness_status eam)),
           (''medical_status'', JStr (ea_medical_status eam)),
           (''mobility_status'', JStr (ea_mobility_status eam)),
           (''comms_status'', JStr (ea_comms_status eam)), (''notes'', jopt (ea_notes eam)),
           (''confidence'', jopt_f64 (ea_confidence eam)), (''ttl_seconds'', jopt_int (ea_ttl_seconds eam)),
           (''source'', unwrap_or (ea_source eam) JNull)]"

definition eam_is_active :: "host \<Rightarrow> eam_snapshot_record \<Rightarrow> bool" where
  "eam_is_active h eam \<longleftrightarrow> ea_deleted_ts_ms eam = None \<and> \<not> eam_is_expired h eam"

definition eam_values :: "host \<Rightarrow> rch_core \<Rightarrow> string option \<Rightarrow> string option \<Rightarrow> json list result" where
  "eam_values h s team_uid overall_status =
     and_then (case overall_status of
                 None \<Rightarrow> Inr None
               | Some status \<Rightarrow> and_then (normalize_eam_status (Some status)) (\<lambda>v. Inr (Some v)))
       (\<lambda>overall_status.
         Inr (map (eam_value h)
           (filter (\<lambda>eam. eam_is_active h eam
                \<and> is_none_or team_uid (\<lambda>uid. ea_team_uid eam = uid)
                \<and> is_none_or overall_status (\<lambda>status. ea_overall_status eam = status))
             (list_eam_snapshots s))))"

definition eam_group_name_for_team :: "rch_core \<Rightarrow> string \<Rightarrow> string option" where
  "eam_group_name_for_team s team_uid =
     (case canonical_team_color_for_uid team_uid of
        Some color \<Rightarrow> Some color
      | None \<Rightarrow>
          (case hm_get (teams s) team_uid of
             None \<Rightarrow> None
           | Some team \<Rightarrow> or_else (te_color team) (none_if_empty (te_team_name team))))"

definition count_status :: "string \<Rightarrow> eam_snapshot_record list \<Rightarrow> nat" where
  "count_status status active = length (filter (\<lambda>eam. ea_overall_status eam = status) active)"

definition eam_team_summary :: "host \<Rightarrow> rch_core \<Rightarrow> string \<Rightarrow> json result" where
  "eam_team_summary h s team_uid =
     (if \<not> hm_contains (teams s) team_uid
      then Inl (InvalidPayload (''Team '' @ quoted team_uid @ '' not found''))
      else
        (let rows = filter (\<lambda>eam. ea_team_uid eam = team_uid) (hm_values (eam_snapshots s));
             active = filter (eam_is_active h) rows;
             green_total = count_status ''Green'' active;
             yellow_total = count_status ''Yellow'' active;
             red_total = count_status ''Red'' active;
             overall_status =
               (if red_total > 0 then Some ''Red'' else if yellow_total > 0 then Some ''Yellow''
                else if green_total > 0 then Some ''Green'' else None);
             updated_at_ms = (if rows = [] then utc_now_ms h else Max (set (map ea_updated_ts_ms rows)))
         in Inr (JObj
              [(''team_uid'', JStr team_uid), (''total'', JInt (int (length rows))),
               (''active_total'', JInt (int (length active))),
               (''deleted_total'', JInt (int (length rows - length active))),
               (''overall_status'', jopt overall_status), (''green_total'', JInt (int green_total)),
               (''yellow_total'', JInt (int yellow_total)), (''red_total'', JInt (int red_total)),
               (''updated_at_ms'', JInt updated_at_ms)])))"

subsection \<open>Operations\<close>

definition group_name_matches :: "host \<Rightarrow> json \<Rightarrow> string \<Rightarrow> unit result" where
  "group_name_matches h args team_uid =
     (case (optional_text h args [''group_name''], canonical_team_color_for_uid team_uid) of
        (Some group_name, Some canonical_color) \<Rightarrow>
          ensure (ok (normalize_team_color group_name) = Some canonical_color)
            (InvalidPayload (''group_name '' @ quoted group_name @ '' does not match canonical team_uid '' @
               quoted team_uid))
      | _ \<Rightarrow> Inr ())"

definition ensure_eam_team :: "host \<Rightarrow> string \<Rightarrow> rch_core \<Rightarrow> unit op" where
  "ensure_eam_team h team_uid s =
     (case hm_get (teams s) team_uid of
        None \<Rightarrow>
          try_in s (ok_or (canonical_team_color_for_uid team_uid)
               (InvalidPayload (''team_uid '' @ quoted team_uid @ '' does not map to a team''))) (\<lambda>canonical_color.
            (s\<lparr>teams := hm_insert team_uid
                 ((new_team team_uid (utc_now_ms h))\<lparr>te_color := Some canonical_color,
                    te_team_name := canonical_color\<rparr>) (teams s)\<rparr>, Inr ()))
      | Some team \<Rightarrow>
          (case canonical_team_color_for_uid team_uid of
             None \<Rightarrow> (s, Inr ())
           | Some canonical_color \<Rightarrow>
               (s\<lparr>teams := hm_insert team_uid
                    (team\<lparr>te_color := Some canonical_color, te_team_name := canonical_color,
                          te_updated_ts_ms := utc_now_ms h\<rparr>) (teams s)\<rparr>, Inr ())))"

definition ensure_eam_member ::
  "host \<Rightarrow> string \<Rightarrow> string \<Rightarrow> string \<Rightarrow> json \<Rightarrow> rch_core \<Rightarrow> unit op" where
  "ensure_eam_member h team_uid team_member_uid callsign args s =
     (case hm_get (team_members s) team_member_uid of
        Some member \<Rightarrow>
          (if tm_team_uid member \<noteq> Some team_uid
           then (s, Inl (InvalidPayload (''team_member_uid '' @ quoted team_member_uid @
                   '' does not belong to team_uid '' @ quoted team_uid)))
           else (s, Inr ()))
      | None \<Rightarrow>
          try_in s (ok_or (case jget args ''source'' of
                             None \<Rightarrow> None | Some source \<Rightarrow> optional_text h source [''rns_identity''])
               (InvalidPayload (''team_member_uid '' @ quoted team_member_uid @
                  '' is missing and source.rns_identity is required to provision it''))) (\<lambda>identity.
            (s\<lparr>team_members := hm_insert team_member_uid
                 ((new_team_member team_member_uid identity (utc_now_ms h))
                    \<lparr>tm_team_uid := Some team_uid,
                     tm_display_name := unwrap_or (optional_text h args [''reported_by'']) callsign,
                     tm_callsign := Some callsign\<rparr>) (team_members s)\<rparr>, Inr ())))"

definition ensure_eam_team_and_member ::
  "host \<Rightarrow> string \<Rightarrow> string \<Rightarrow> string \<Rightarrow> json \<Rightarrow> rch_core \<Rightarrow> unit op" where
  "ensure_eam_team_and_member h team_uid team_member_uid callsign args s =
     try_in s (group_name_matches h args team_uid) (\<lambda>_.
     try_st (ensure_eam_team h team_uid s) (\<lambda>s _.
       ensure_eam_member h team_uid team_member_uid callsign args s))"

text \<open>\<open>self.eam_snapshots.values().find(...).map(|eam| eam.eam_uid.clone())\<close>\<close>

definition find_eam :: "(eam_snapshot_record \<Rightarrow> bool) \<Rightarrow> rch_core \<Rightarrow> string option" where
  "find_eam p s = map_option ea_eam_uid (find p (hm_values (eam_snapshots s)))"

definition eam_confidence :: "json \<Rightarrow> f64 option result" where
  "eam_confidence args =
     and_then (optional_f64 args ''confidence'') (\<lambda>confidence.
       if is_some_and confidence (\<lambda>value. \<not> (f64_le (Fin 0) value \<and> f64_le value (Fin 1)))
       then Inl (InvalidPayload ''confidence must be between 0 and 1'') else Inr confidence)"

definition eam_ttl :: "json \<Rightarrow> int option result" where
  "eam_ttl args =
     and_then (optional_i64 args ''ttl_seconds'') (\<lambda>ttl_seconds.
       if is_some_and ttl_seconds (\<lambda>value. value < 0)
       then Inl (InvalidPayload ''ttl_seconds must be greater than or equal to 0'') else Inr ttl_seconds)"

text \<open>The snapshot an upsert is about: the one it names, else the one that exists.\<close>

definition deleted_eam_uids :: "rch_core \<Rightarrow> string \<Rightarrow> string \<Rightarrow> string list" where
  "deleted_eam_uids s team_member_uid callsign =
     hs_extend [] (map ea_eam_uid
       (filter (\<lambda>eam. (ea_team_member_uid eam = team_member_uid \<or> ea_callsign eam = callsign)
            \<and> ea_deleted_ts_ms eam \<noteq> None) (hm_values (eam_snapshots s))))"

definition existing_eam_uid :: "rch_core \<Rightarrow> string \<Rightarrow> string \<Rightarrow> string option result" where
  "existing_eam_uid s team_member_uid callsign =
     (let active_member_uid =
            find_eam (\<lambda>eam. ea_team_member_uid eam = team_member_uid \<and> ea_deleted_ts_ms eam = None) s;
          active_callsign_uid =
            find_eam (\<lambda>eam. ea_callsign eam = callsign \<and> ea_deleted_ts_ms eam = None) s;
          deleted_uids = deleted_eam_uids s team_member_uid callsign
      in if is_some_and active_callsign_uid (\<lambda>uid. active_member_uid \<noteq> Some uid)
         then Inl (InvalidPayload (''callsign '' @ quoted callsign @
                '' is already assigned to another status snapshot''))
         else if length deleted_uids > 1
         then Inl (InvalidPayload ''eam_uid cannot be recreated because deleted subject and callsign snapshots refer to different records'')
         else Inr (or_else active_member_uid (or_else active_callsign_uid (first_of deleted_uids))))"

definition new_eam ::
  "host \<Rightarrow> rch_core \<Rightarrow> json \<Rightarrow> string \<Rightarrow> string \<Rightarrow> string \<Rightarrow> string \<Rightarrow> eam_statuses \<Rightarrow> f64 option
     \<Rightarrow> int option \<Rightarrow> int option \<Rightarrow> eam_snapshot_record" where
  "new_eam h s args eam_uid callsign team_member_uid team_uid statuses confidence ttl_seconds reported_at =
     (let now = utc_now_ms h
      in \<lparr>ea_eam_uid = eam_uid, ea_callsign = callsign,
          ea_group_name = text_or_kept h args ''group_name'' (eam_group_name_for_team s team_uid),
          ea_team_member_uid = team_member_uid, ea_team_uid = team_uid,
          ea_reported_by = text_or_kept h args ''reported_by'' None,
          ea_reported_ts_ms = unwrap_or reported_at now,
          ea_overall_status = aggregate_eam_status statuses,
          ea_security_status = es_security statuses, ea_capability_status = es_capability statuses,
          ea_preparedness_status = es_preparedness statuses, ea_medical_status = es_medical statuses,
          ea_mobility_status = es_mobility statuses, ea_comms_status = es_comms statuses,
          ea_notes = text_or_kept h args ''notes'' None, ea_confidence = confidence,
          ea_ttl_seconds = ttl_seconds, ea_source = filter_opt is_object (jget args ''source''),
          ea_updated_ts_ms = now, ea_deleted_ts_ms = None\<rparr>)"

definition upsert_eam_from_args :: "host \<Rightarrow> json \<Rightarrow> rch_core \<Rightarrow> eam_snapshot_record op" where
  "upsert_eam_from_args h args s =
     try_in s (reject_disallowed_eam_fields args) (\<lambda>_.
     try_in s (required_text h args [''callsign'']) (\<lambda>callsign.
     try_in s (required_text h args [''team_member_uid'']) (\<lambda>team_member_uid.
     try_in s (required_text h args [''team_uid'']) (\<lambda>team_uid.
     try_st (ensure_eam_team_and_member h team_uid team_member_uid callsign args s) (\<lambda>s _.
     try_in s (existing_eam_uid s team_member_uid callsign) (\<lambda>existing_uid.
       (let (eam_uid, s) = or_new_uuid h s (or_else (optional_text h args [''eam_uid'']) existing_uid);
            active_uid =
              find_eam (\<lambda>eam. ea_team_member_uid eam = team_member_uid \<and> ea_deleted_ts_ms eam = None) s
        in if is_some_and active_uid (\<lambda>active_uid.
                is_some_and (optional_text h args [''eam_uid'']) (\<lambda>provided. provided \<noteq> active_uid))
           then (s, Inl (InvalidPayload (''eam_uid '' @ quoted eam_uid @
                   '' does not match the existing snapshot for team_member_uid '' @ quoted team_member_uid)))
           else
             try_in s (eam_statuses_from_args h args) (\<lambda>statuses.
             try_in s (eam_confidence args) (\<lambda>confidence.
             try_in s (eam_ttl args) (\<lambda>ttl_seconds.
             try_in s (optional_timestamp_ms h args [''reported_at'']) (\<lambda>reported_at.
               (let eam = new_eam h s args eam_uid callsign team_member_uid team_uid statuses
                            confidence ttl_seconds reported_at
                in (s\<lparr>eam_snapshots := hm_insert eam_uid eam (eam_snapshots s)\<rparr>, Inr eam)))))))))))))"

definition active_eam_by_callsign :: "host \<Rightarrow> rch_core \<Rightarrow> string \<Rightarrow> eam_snapshot_record result" where
  "active_eam_by_callsign h s callsign =
     ok_or (find (\<lambda>eam. ea_callsign eam = callsign \<and> eam_is_active h eam) (hm_values (eam_snapshots s)))
       EamNotFound"

definition latest_eam_by_member :: "host \<Rightarrow> rch_core \<Rightarrow> string \<Rightarrow> eam_snapshot_record result" where
  "latest_eam_by_member h s member =
     ok_or (max_by ea_reported_ts_ms
              (filter (\<lambda>eam. ea_team_member_uid eam = member \<and> eam_is_active h eam)
                (hm_values (eam_snapshots s))))
       EamNotFound"

definition delete_eam_by_callsign :: "host \<Rightarrow> string \<Rightarrow> rch_core \<Rightarrow> eam_snapshot_record op" where
  "delete_eam_by_callsign h callsign s =
     try_in s (active_eam_by_callsign h s callsign) (\<lambda>active.
     try_in s (ok_or (hm_get (eam_snapshots s) (ea_eam_uid active)) EamNotFound) (\<lambda>eam.
       (let eam = eam\<lparr>ea_deleted_ts_ms := Some (utc_now_ms h)\<rparr>
        in (s\<lparr>eam_snapshots := hm_insert (ea_eam_uid active) eam (eam_snapshots s)\<rparr>, Inr eam))))"

definition apply_registry_eam_command :: "host \<Rightarrow> mission_command \<Rightarrow> rch_core \<Rightarrow> event_envelope option op"
  where
  "apply_registry_eam_command h command s =
     (let args = cmd_args command; ctype = cmd_type command;
          answer = (\<lambda>event_type s payload. (s, Inr (Some (event event_type command payload))));
          one = (\<lambda>eam. JObj [(''eam'', eam_value h eam)])
      in if ctype = ''mission.registry.eam.list'' then
           try_in s (eam_values h s (optional_text h args [''team_uid''])
                       (optional_text h args [''overall_status''])) (\<lambda>values.
             answer ''mission.registry.eam.listed'' s (JObj [(''eams'', JArr values)]))
         else if ctype = ''mission.registry.eam.upsert'' then
           try_st (upsert_eam_from_args h args s) (\<lambda>s eam.
             answer ''mission.registry.eam.upserted'' s (one eam))
         else if ctype = ''mission.registry.eam.get'' then
           try_in s (required_text h args [''callsign'']) (\<lambda>callsign.
           try_in s (active_eam_by_callsign h s callsign) (\<lambda>eam.
             answer ''mission.registry.eam.retrieved'' s (one eam)))
         else if ctype = ''mission.registry.eam.latest'' then
           try_in s (required_text h args [''team_member_uid'']) (\<lambda>member.
           try_in s (latest_eam_by_member h s member) (\<lambda>eam.
             answer ''mission.registry.eam.latest_retrieved'' s (one eam)))
         else if ctype = ''mission.registry.eam.delete'' then
           try_in s (required_text h args [''callsign'']) (\<lambda>callsign.
           try_st (delete_eam_by_callsign h callsign s) (\<lambda>s eam.
             answer ''mission.registry.eam.deleted'' s (one eam)))
         else if ctype = ''mission.registry.eam.team.summary'' then
           try_in s (required_text h args [''team_uid'']) (\<lambda>team_uid.
           try_in s (eam_team_summary h s team_uid) (\<lambda>summary.
             answer ''mission.registry.eam.team_summary.retrieved'' s (JObj [(''summary'', summary)])))
         else (s, Inl (UnsupportedCommand ctype)))"

subsection \<open>The snapshots are well formed, one live snapshot per member and callsign\<close>

definition eam_parts :: "eam_snapshot_record \<Rightarrow> eam_statuses" where
  "eam_parts e =
     \<lparr>es_security = ea_security_status e, es_capability = ea_capability_status e,
      es_preparedness = ea_preparedness_status e, es_medical = ea_medical_status e,
      es_mobility = ea_mobility_status e, es_comms = ea_comms_status e\<rparr>"

definition eam_ok :: "string \<Rightarrow> eam_snapshot_record \<Rightarrow> bool" where
  "eam_ok k e \<longleftrightarrow> ea_eam_uid e = k \<and> ea_overall_status e = aggregate_eam_status (eam_parts e)
     \<and> set (status_list (eam_parts e)) \<subseteq> {''Unknown'', ''Green'', ''Yellow'', ''Red''}
     \<and> is_none_or (ea_confidence e) (\<lambda>v. f64_le (Fin 0) v \<and> f64_le v (Fin 1))
     \<and> is_none_or (ea_ttl_seconds e) (\<lambda>v. 0 \<le> v)"

definition same_subject :: "eam_snapshot_record \<Rightarrow> eam_snapshot_record \<Rightarrow> bool" where
  "same_subject e e' \<longleftrightarrow> ea_deleted_ts_ms e = None \<and> ea_deleted_ts_ms e' = None
     \<and> (ea_team_member_uid e = ea_team_member_uid e' \<or> ea_callsign e = ea_callsign e')"

definition eams_ok :: "rch_core \<Rightarrow> bool" where
  "eams_ok s \<longleftrightarrow> hm_wf (eam_snapshots s)
     \<and> (\<forall>k e. hm_get (eam_snapshots s) k = Some e \<longrightarrow> eam_ok k e)
     \<and> (\<forall>k k' e e'. hm_get (eam_snapshots s) k = Some e \<longrightarrow> hm_get (eam_snapshots s) k' = Some e' \<longrightarrow>
          same_subject e e' \<longrightarrow> k = k')"

lemma eams_ok_cong: "eam_snapshots t = eam_snapshots s \<Longrightarrow> eams_ok t = eams_ok s"
  by (simp add: eams_ok_def)

lemma eams_ok_put:
  assumes "eams_ok s" and "eam_ok u e"
    and "\<And>k e'. hm_get (eam_snapshots s) k = Some e' \<Longrightarrow> same_subject e' e \<Longrightarrow> k = u"
  shows "eams_ok (s\<lparr>eam_snapshots := hm_insert u e (eam_snapshots s)\<rparr>)"
  using assms by (auto simp: eams_ok_def same_subject_def)

lemma find_eam_unique:
  assumes "eams_ok s" and "hm_get (eam_snapshots s) k = Some e" and "p e"
    and "\<And>k' e'. hm_get (eam_snapshots s) k' = Some e' \<Longrightarrow> p e' \<Longrightarrow> k' = k"
  shows "find_eam p s = Some k"
proof -
  have wf: "hm_wf (eam_snapshots s)" and keyed: "\<And>k e. hm_get (eam_snapshots s) k = Some e \<Longrightarrow> ea_eam_uid e = k"
    using assms(1) by (auto simp: eams_ok_def eam_ok_def)
  have "find p (hm_values (eam_snapshots s)) \<noteq> None"
    using assms(2,3) hm_get_in_values [of "eam_snapshots s" k e] by (auto simp: find_None_iff)
  then obtain e' where e': "find p (hm_values (eam_snapshots s)) = Some e'" by auto
  then have "e' \<in> set (hm_values (eam_snapshots s))" "p e'"
    by (auto simp: find_Some_iff)
  then obtain k' where "hm_get (eam_snapshots s) k' = Some e'"
    using hm_in_values [OF wf] by blast
  with \<open>p e'\<close> assms(4) keyed e' show ?thesis
    by (auto simp: find_eam_def)
qed

text \<open>The snapshot an upsert writes is the live one of its member and of its callsign, if any.\<close>

lemma eam_target:
  assumes ok: "eams_ok s" and ex: "existing_eam_uid s m c = Inr existing"
    and u: "or_new_uuid h s (or_else provided existing) = (u, t)"
    and act: "\<not> is_some_and (find_eam (\<lambda>eam. ea_team_member_uid eam = m \<and> ea_deleted_ts_ms eam = None) s)
                (\<lambda>active. is_some_and provided (\<lambda>p. p \<noteq> active))"
    and k: "hm_get (eam_snapshots s) k = Some e" "ea_deleted_ts_ms e = None"
    and same: "ea_team_member_uid e = m \<or> ea_callsign e = c"
  shows "k = u"
proof -
  let ?member = "find_eam (\<lambda>eam. ea_team_member_uid eam = m \<and> ea_deleted_ts_ms eam = None) s"
  let ?callsign = "find_eam (\<lambda>eam. ea_callsign eam = c \<and> ea_deleted_ts_ms eam = None) s"
  have unique: "k' = k" if "hm_get (eam_snapshots s) k' = Some e'" "same_subject e' e" for k' e'
    using ok that k(1) by (auto simp: eams_ok_def)
  have "?member = Some k"
  proof (cases "ea_team_member_uid e = m")
    case True
    with k show ?thesis
      by (intro find_eam_unique [OF ok k(1)]) (auto intro!: unique simp: same_subject_def)
  next
    case False
    with same k have "?callsign = Some k"
      by (intro find_eam_unique [OF ok k(1)]) (auto intro!: unique simp: same_subject_def)
    with ex show ?thesis
      by (auto simp: existing_eam_uid_def Let_def split: if_splits)
  qed
  moreover from this have "existing = Some k"
    using ex by (auto simp: existing_eam_uid_def Let_def split: if_splits)
  ultimately show ?thesis
    using act u by (cases provided) (auto simp: or_new_uuid_def)
qed

lemma eam_statuses_range:
  assumes "eam_statuses_from_args h args = Inr v"
  shows "set (status_list v) \<subseteq> {''Unknown'', ''Green'', ''Yellow'', ''Red''}"
proof -
  from assms have "\<forall>x \<in> set (status_list v). \<exists>y. normalize_eam_status y = Inr x"
    by (auto simp: eam_statuses_from_args_def Let_def result_eqs status_list_def)
  then show ?thesis
    using normalize_eam_status_Inr by blast
qed

lemma eam_confidence_range:
  "eam_confidence args = Inr v \<Longrightarrow> is_none_or v (\<lambda>x. f64_le (Fin 0) x \<and> f64_le x (Fin 1))"
  by (auto simp: eam_confidence_def result_eqs is_none_or_def is_some_and_def split: option.splits if_splits)

lemma eam_ttl_range: "eam_ttl args = Inr v \<Longrightarrow> is_none_or v (\<lambda>x. 0 \<le> x)"
  by (cases "optional_i64 args ''ttl_seconds''")
     (auto simp: eam_ttl_def is_none_or_def is_some_and_def split: option.splits if_splits)

definition only_subjects :: "rch_core \<Rightarrow> rch_core \<Rightarrow> bool" where
  "only_subjects s t \<longleftrightarrow> t\<lparr>teams := [], team_members := []\<rparr> = s\<lparr>teams := [], team_members := []\<rparr>"

lemma only_subjects_simps [simp]:
  "only_subjects s s"
  "only_subjects s (t\<lparr>teams := a\<rparr>) = only_subjects s t"
  "only_subjects s (t\<lparr>team_members := b\<rparr>) = only_subjects s t"
  by (simp_all add: only_subjects_def)

lemma ensure_eam_frame: "leaves (only_subjects s) (ensure_eam_team_and_member h tu mu c args s)"
  unfolding ensure_eam_team_and_member_def ensure_eam_team_def ensure_eam_member_def
  by (intro keeps) simp_all

lemma only_subjects_eams: "only_subjects s t \<Longrightarrow> eam_snapshots t = eam_snapshots s"
  by (auto simp: only_subjects_def dest: arg_cong [of _ _ eam_snapshots])

lemma eams_ok_ensure [keeps]:
  assumes "eams_ok s"
  shows "leaves eams_ok (ensure_eam_team_and_member h tu mu c args s)"
  using eams_ok_cong [OF only_subjects_eams [OF ensure_eam_frame [unfolded leaves_def]]] assms
  by (simp add: leaves_def)

lemma eams_ok_fresh: "eams_ok s \<Longrightarrow> or_new_uuid h s x = (u, t) \<Longrightarrow> eams_ok t \<and> eam_snapshots t = eam_snapshots s"
  by (auto dest!: or_new_uuid_frame simp: eams_ok_def)

lemma find_eam_cong: "eam_snapshots t = eam_snapshots s \<Longrightarrow> find_eam p t = find_eam p s"
  by (simp add: find_eam_def)

lemma new_eam_fields [simp]:
  "ea_team_member_uid (new_eam h s args u c m tm st cf ttl r) = m"
  "ea_callsign (new_eam h s args u c m tm st cf ttl r) = c"
  "ea_deleted_ts_ms (new_eam h s args u c m tm st cf ttl r) = None"
  "eam_parts (new_eam h s args u c m tm st cf ttl r) = st"
  by (simp_all add: new_eam_def Let_def eam_parts_def)

lemma eam_ok_new:
  "eam_statuses_from_args h args = Inr st \<Longrightarrow> eam_confidence args = Inr cf \<Longrightarrow> eam_ttl args = Inr ttl \<Longrightarrow>
     eam_ok u (new_eam h s args u c m tm st cf ttl r)"
  using eam_statuses_range [of h args st] eam_confidence_range [of args cf] eam_ttl_range [of args ttl]
  unfolding eam_ok_def new_eam_fields by (simp add: new_eam_def Let_def)

lemma eams_ok_write:
  assumes ok: "eams_ok s" and ex: "existing_eam_uid s m c = Inr existing"
    and u: "or_new_uuid h s (or_else provided existing) = (u, t)"
    and act: "\<not> is_some_and (find_eam (\<lambda>eam. ea_team_member_uid eam = m \<and> ea_deleted_ts_ms eam = None) t)
                (\<lambda>active. is_some_and provided (\<lambda>p. p \<noteq> active))"
    and new: "eam_ok u e" "ea_team_member_uid e = m" "ea_callsign e = c"
  shows "eams_ok (t\<lparr>eam_snapshots := hm_insert u e (eam_snapshots t)\<rparr>)"
proof (rule eams_ok_put)
  note t = eams_ok_fresh [OF ok u]
  show "eams_ok t" using t by simp
  show "eam_ok u e" by fact
  fix k e'
  assume "hm_get (eam_snapshots t) k = Some e'" "same_subject e' e"
  with t new(2,3) show "k = u"
    using eam_target [OF ok ex u _ _ _ _, of k e'] act find_eam_cong [of t s]
    by (simp add: same_subject_def)
qed

lemma eams_ok_upsert [keeps]: "eams_ok s \<Longrightarrow> leaves eams_ok (upsert_eam_from_args h args s)"
  unfolding upsert_eam_from_args_def Let_def
  by (intro keeps; (assumption | (erule (3) eams_ok_write; simp add: eam_ok_new) | (drule (1) eams_ok_fresh, simp))?)

lemma eams_ok_delete [keeps]:
  assumes "eams_ok s"
  shows "leaves eams_ok (delete_eam_by_callsign h c s)"
  unfolding delete_eam_by_callsign_def Let_def
proof (intro keeps assms eams_ok_put)
  fix active e' :: eam_snapshot_record and e :: eam_snapshot_record and k
  let ?e = "e\<lparr>ea_deleted_ts_ms := Some (utc_now_ms h)\<rparr>"
  assume "ok_or (hm_get (eam_snapshots s) (ea_eam_uid active)) EamNotFound = Inr e"
  then have "eam_ok (ea_eam_uid active) e"
    using assms by (auto simp: eams_ok_def result_eqs)
  then show "eam_ok (ea_eam_uid active) ?e"
    by (simp add: eam_ok_def eam_parts_def)
  assume "same_subject e' ?e"
  then show "k = ea_eam_uid active"
    by (simp add: same_subject_def)
qed

lemma eams_ok_command: "eams_ok s \<Longrightarrow> leaves eams_ok (apply_registry_eam_command h c s)"
  unfolding apply_registry_eam_command_def Let_def by (intro keeps)

text \<open>An emergency message may create its team and its member; both are sound.\<close>

lemma ensure_eam_team_contains:
  "ensure_eam_team h tu s = (t, Inr u) \<Longrightarrow> hm_contains (teams t) tu"
  by (auto simp: ensure_eam_team_def result_eqs hm_contains_def split: option.splits)

lemma teams_ok_eam_team [keeps]: "teams_ok s \<Longrightarrow> leaves teams_ok (ensure_eam_team h tu s)"
  unfolding ensure_eam_team_def
  by (intro keeps teams_ok_put) (auto simp: team_ok_def new_team_def first_of_def dest: teams_ok_get)

lemma members_ok_eam_team [keeps]: "members_ok s \<Longrightarrow> leaves members_ok (ensure_eam_team h tu s)"
  unfolding ensure_eam_team_def by (intro keeps members_ok_more_teams)

lemma absent_member_has_no_clients:
  assumes "members_ok s" and "hm_get (team_members s) u = None"
  shows "team_member_client_ids s u = []"
proof -
  have "filter (\<lambda>(v, _). v = u) (team_member_client_links s) = []"
    using assms by (force simp: members_ok_def filter_empty_conv hm_contains_def)
  then show ?thesis by (simp add: team_member_client_ids_def)
qed

lemma members_ok_eam_member [keeps]:
  "members_ok s \<Longrightarrow> hm_contains (teams s) tu \<Longrightarrow> leaves members_ok (ensure_eam_member h tu mu c args s)"
  unfolding ensure_eam_member_def
  by (intro keeps members_ok_put) (auto simp: member_ok_def new_team_member_def absent_member_has_no_clients)

lemma teams_ok_members [simp]: "teams_ok (s\<lparr>team_members := m\<rparr>) = teams_ok s"
  by (simp add: teams_ok_def)

lemma teams_ok_eam_member [keeps]: "teams_ok s \<Longrightarrow> leaves teams_ok (ensure_eam_member h tu mu c args s)"
  unfolding ensure_eam_member_def by (intro keeps) simp_all

lemma assets_ok_teams [simp]: "assets_ok (s\<lparr>teams := x\<rparr>) = assets_ok s"
  by (rule assets_ok_cong) simp_all

lemma registry_eams [simp]:
  "teams_ok (s\<lparr>eam_snapshots := e\<rparr>) = teams_ok s"
  "members_ok (s\<lparr>eam_snapshots := e\<rparr>) = members_ok s"
  "assets_ok (s\<lparr>eam_snapshots := e\<rparr>) = assets_ok s"
  by (simp_all add: teams_ok_def team_ok_def known_mission_def [abs_def] assets_ok_def asset_ok_def)
     (rule members_ok_cong, simp_all)

lemma assets_ok_eam_ops [keeps]:
  "assets_ok s \<Longrightarrow> leaves assets_ok (ensure_eam_team h tu s)"
  "assets_ok s \<Longrightarrow> leaves assets_ok (ensure_eam_member h tu mu c args s)"
  unfolding ensure_eam_team_def ensure_eam_member_def
  by (intro keeps assets_ok_more_members; simp)+

lemma members_ok_ensure [keeps]:
  "members_ok s \<Longrightarrow> leaves members_ok (ensure_eam_team_and_member h tu mu c args s)"
  unfolding ensure_eam_team_and_member_def by (intro keeps; (assumption | rule ensure_eam_team_contains)?)

lemma teams_ok_ensure [keeps]:
  "teams_ok s \<Longrightarrow> leaves teams_ok (ensure_eam_team_and_member h tu mu c args s)"
  unfolding ensure_eam_team_and_member_def by (intro keeps)

lemma assets_ok_ensure [keeps]:
  "assets_ok s \<Longrightarrow> leaves assets_ok (ensure_eam_team_and_member h tu mu c args s)"
  unfolding ensure_eam_team_and_member_def by (intro keeps)

lemma teams_ok_fresh: "teams_ok s \<Longrightarrow> or_new_uuid h s x = (u, t) \<Longrightarrow> teams_ok t"
  by (auto dest!: or_new_uuid_frame)

lemma teams_ok_eam_command: "teams_ok s \<Longrightarrow> leaves teams_ok (apply_registry_eam_command h c s)"
  unfolding apply_registry_eam_command_def upsert_eam_from_args_def delete_eam_by_callsign_def Let_def
  by (intro keeps; (assumption | (simp only: registry_eams)?, erule (1) teams_ok_fresh | simp)?)

lemma members_ok_eam_command: "members_ok s \<Longrightarrow> leaves members_ok (apply_registry_eam_command h c s)"
  unfolding apply_registry_eam_command_def upsert_eam_from_args_def delete_eam_by_callsign_def Let_def
  by (intro keeps; (assumption | (simp only: registry_eams)?, erule (1) members_ok_fresh | simp)?)

lemma assets_ok_eam_command: "assets_ok s \<Longrightarrow> leaves assets_ok (apply_registry_eam_command h c s)"
  unfolding apply_registry_eam_command_def upsert_eam_from_args_def delete_eam_by_callsign_def Let_def
  by (intro keeps; (assumption | (simp only: registry_eams)?, erule (1) assets_ok_fresh | simp)?)

subsection \<open>What the emergency message commands change\<close>

definition hide_eams :: "rch_core \<Rightarrow> rch_core" where
  "hide_eams t = t\<lparr>teams := [], team_members := [], eam_snapshots := [], next_uuid := 0\<rparr>"

definition only_eams :: "rch_core \<Rightarrow> rch_core \<Rightarrow> bool" where
  "only_eams s t \<longleftrightarrow> hide_eams t = hide_eams s"

lemma only_eams_simps [simp]:
  "only_eams s s"
  "only_eams s (t\<lparr>teams := a\<rparr>) = only_eams s t"
  "only_eams s (t\<lparr>team_members := b\<rparr>) = only_eams s t"
  "only_eams s (t\<lparr>eam_snapshots := c\<rparr>) = only_eams s t"
  "only_eams s (t\<lparr>next_uuid := n\<rparr>) = only_eams s t"
  by (simp_all add: only_eams_def hide_eams_def)

lemma only_eams_fresh: "only_eams s r \<Longrightarrow> or_new_uuid h r x = (u, t) \<Longrightarrow> only_eams s t"
  by (auto dest!: or_new_uuid_frame)

lemma eam_command_frame: "leaves (only_eams s) (apply_registry_eam_command h c s)"
  unfolding apply_registry_eam_command_def upsert_eam_from_args_def delete_eam_by_callsign_def
    ensure_eam_team_and_member_def ensure_eam_team_def ensure_eam_member_def Let_def
  by (intro keeps; (assumption | (simp only: only_eams_simps)?, erule (1) only_eams_fresh | simp)?)

end
