(* ===== verification/RemDirectory.thy ===== *)
theory RemDirectory
  imports Eam
begin

text \<open>
  The directory of REM peers (\<open>crates/r3akt-rch-core/src/rem_team_directory.rs\<close>,
  \<open>rem_team_scope.rs\<close>, and \<open>apply_rem_registry_command\<close> to
  \<open>rem_peer_registry_payload\<close> in \<open>lib.rs\<close>): which peers a caller sees and which
  destinations a message to a team is sent to.

  The lemmas say who is in a directory: a routing destination is an announced REM peer of a member of
  the requested canonical team, the caller is a member of that team too, and neither the identity nor
  the destination is banned or blackholed; the caller itself is never listed.
\<close>

subsection \<open>Announces\<close>

definition identity_announce_has_rem_capabilities :: "identity_announce_record \<Rightarrow> bool" where
  "identity_announce_has_rem_capabilities rec \<longleftrightarrow>
     ''r3akt'' \<in> set (ia_announce_capabilities rec)
     \<and> ''emergencymessages'' \<in> set (ia_announce_capabilities rec)"

definition identity_announce_for_identity :: "rch_core \<Rightarrow> string \<Rightarrow> identity_announce_record option" where
  "identity_announce_for_identity s identity =
     (case normalize_hash (Some identity) of
        None \<Rightarrow> None
      | Some identity \<Rightarrow>
          or_else (hm_get (identity_announces s) identity)
            (max_by (\<lambda>rec. (ia_source_interface rec = Some ''identity'', ia_display_name rec \<noteq> None,
                            ia_last_seen_ts_ms rec))
              (filter (\<lambda>rec. ia_announced_identity_hash rec = Some identity)
                (hm_values (identity_announces s)))))"

definition identity_has_rem_announce_capabilities :: "rch_core \<Rightarrow> string \<Rightarrow> bool" where
  "identity_has_rem_announce_capabilities s identity =
     is_some_and (identity_announce_for_identity s identity) identity_announce_has_rem_capabilities"

definition canonical_identity_for_rem_source :: "rch_core \<Rightarrow> string \<Rightarrow> string option" where
  "canonical_identity_for_rem_source s source =
     (case normalize_hash (Some source) of
        None \<Rightarrow> None
      | Some source \<Rightarrow>
          or_else
            (case identity_announce_for_identity s source of
               None \<Rightarrow> None | Some rec \<Rightarrow> normalize_hash (ia_announced_identity_hash rec))
            (Some source))"

definition is_rem_client :: "identity_announce_record \<Rightarrow> bool" where
  "is_rem_client rec \<longleftrightarrow> eq_ignore_ascii_case (trim (ia_client_type rec)) ''rem''"

definition best_rem_announce_for_identity :: "rch_core \<Rightarrow> string \<Rightarrow> identity_announce_record option" where
  "best_rem_announce_for_identity s identity =
     max_by (\<lambda>rec. (ia_source_interface rec = Some ''destination'', ia_last_seen_ts_ms rec))
       (filter (\<lambda>rec. announce_identity rec = Some identity \<and> is_rem_client rec
            \<and> identity_announce_has_rem_capabilities rec)
         (hm_values (identity_announces s)))"

subsection \<open>Members and teams of a caller\<close>

definition member_has_identity :: "rch_core \<Rightarrow> team_member_record \<Rightarrow> string \<Rightarrow> bool" where
  "member_has_identity s member identity \<longleftrightarrow>
     normalize_hash (Some (tm_rns_identity member)) = Some identity
     \<or> list_ex (\<lambda>client_identity. normalize_hash (Some client_identity) = Some identity)
         (tm_client_identities member)
     \<or> (tm_uid member, identity) \<in> set (team_member_client_links s)"

definition shared_team_uids_for_rem_source :: "rch_core \<Rightarrow> string \<Rightarrow> string list" where
  "shared_team_uids_for_rem_source s source =
     (case canonical_identity_for_rem_source s source of
        None \<Rightarrow> []
      | Some identity \<Rightarrow>
          hs_extend [] (List.map_filter tm_team_uid
            (filter (\<lambda>member. member_has_identity s member identity) (hm_values (team_members s)))))"

definition caller_memberships_for_rem_source :: "rch_core \<Rightarrow> string \<Rightarrow> json list" where
  "caller_memberships_for_rem_source s source =
     (case canonical_identity_for_rem_source s source of
        None \<Rightarrow> []
      | Some identity \<Rightarrow>
          map (\<lambda>(team_uid, member_uid).
                 JObj [(''team_uid'', JStr team_uid), (''team_member_uid'', JStr member_uid)])
            (sort (List.map_filter (\<lambda>member.
                 case tm_team_uid member of
                   None \<Rightarrow> None
                 | Some team_uid \<Rightarrow>
                     if canonical_team_for_uid team_uid = None then None
                     else Some (team_uid, tm_uid member))
               (filter (\<lambda>member. member_has_identity s member identity) (hm_values (team_members s))))))"

definition member_identities :: "rch_core \<Rightarrow> team_member_record \<Rightarrow> string list" where
  "member_identities s member =
     hs_extend [] (List.map_filter (\<lambda>identity. normalize_hash (Some identity))
       (tm_rns_identity member # tm_client_identities member
        @ map snd (filter (\<lambda>(member_uid, _). member_uid = tm_uid member) (team_member_client_links s))))"

definition team_member_identities_for_teams :: "rch_core \<Rightarrow> string list \<Rightarrow> string list" where
  "team_member_identities_for_teams s team_uids =
     hs_extend [] (concat (map (member_identities s)
       (filter (\<lambda>member. is_some_and (tm_team_uid member) (\<lambda>uid. uid \<in> set team_uids))
         (hm_values (team_members s)))))"

definition rem_mode_for_announce ::
  "(string, string) hmap \<Rightarrow> string \<Rightarrow> identity_announce_record \<Rightarrow> string" where
  "rem_mode_for_announce rem_modes identity rec =
     unwrap_or
       (or_else (hm_get rem_modes identity)
         (case normalize_hash (Some (ia_destination_hash rec)) of
            None \<Rightarrow> None | Some destination \<Rightarrow> hm_get rem_modes destination)) ''autonomous''"

subsection \<open>The durable team directory\<close>

record directory_entry =
  de_team_uid :: string
  de_member :: team_member_record
  de_identity :: string
  de_announce :: identity_announce_record
  de_destination_hash :: string

text \<open>One identity of a member: an entry, unless one of the \<open>continue\<close>s skips it.\<close>

definition directory_entry_for ::
  "rch_core \<Rightarrow> string option \<Rightarrow> string option \<Rightarrow> string \<Rightarrow> team_member_record \<Rightarrow> string \<Rightarrow> directory_entry option"
  where
  "directory_entry_for s requester_identity requester_destination team_uid member identity =
     (if requester_identity = Some identity then None
      else if identity_blocked s identity then None
      else
        (case best_rem_announce_for_identity s identity of
           None \<Rightarrow> None
         | Some rec \<Rightarrow>
             (let destination_hash = unwrap_or (normalize_hash (Some (ia_destination_hash rec))) identity
              in if requester_destination = Some destination_hash \<or> identity_blocked s destination_hash
                 then None
                 else Some \<lparr>de_team_uid = team_uid, de_member = member, de_identity = identity,
                            de_announce = rec, de_destination_hash = destination_hash\<rparr>)))"

definition directory_key :: "directory_entry \<Rightarrow> string \<times> string \<times> string \<times> string" where
  "directory_key e = (de_team_uid e, tm_uid (de_member e), de_identity e, de_destination_hash e)"

fun first_per_key :: "('a \<Rightarrow> 'k) \<Rightarrow> 'k list \<Rightarrow> 'a list \<Rightarrow> 'a list" where
  "first_per_key f seen [] = []"
| "first_per_key f seen (x # xs) =
     (if f x \<in> set seen then first_per_key f seen xs else x # first_per_key f (f x # seen) xs)"

definition member_entries ::
  "rch_core \<Rightarrow> string list \<Rightarrow> string option \<Rightarrow> string option \<Rightarrow> team_member_record \<Rightarrow> directory_entry list"
  where
  "member_entries s team_uids requester_identity requester_destination member =
     (case tm_team_uid member of
        None \<Rightarrow> []
      | Some team_uid \<Rightarrow>
          if team_uid \<notin> set team_uids \<or> canonical_team_for_uid team_uid = None then []
          else List.map_filter
                 (directory_entry_for s requester_identity requester_destination team_uid member)
                 (member_identities s member))"

definition durable_team_entries ::
  "rch_core \<Rightarrow> string list \<Rightarrow> string option \<Rightarrow> string option \<Rightarrow> directory_entry list" where
  "durable_team_entries s team_uids requester_identity requester_destination =
     sort_key (\<lambda>e. (de_team_uid e, tm_uid (de_member e), de_identity e))
       (first_per_key directory_key []
         (concat (map (member_entries s team_uids requester_identity requester_destination)
            (hm_values (team_members s)))))"

definition directory_entry_value :: "host \<Rightarrow> (string, string) hmap \<Rightarrow> int \<Rightarrow> directory_entry \<Rightarrow> json" where
  "directory_entry_value h rem_modes cutoff_ms e =
     (let rec = de_announce e; member = de_member e
      in JObj [(''team_uid'', JStr (de_team_uid e)), (''team_member_uid'', JStr (tm_uid member)),
               (''identity'', JStr (de_identity e)), (''destination_hash'', JStr (de_destination_hash e)),
               (''display_name'', jopt (or_else (trimmed_non_empty (ia_display_name rec))
                  (trimmed_non_empty (Some (tm_display_name member))))),
               (''announce_capabilities'', jstrs (ia_announce_capabilities rec)),
               (''client_type'', JStr ''rem''),
               (''registered_mode'', JStr (rem_mode_for_announce rem_modes (de_identity e) rec)),
               (''last_seen'', JStr (millis_to_rfc3339 h (ia_last_seen_ts_ms rec))),
               (''status'', JStr (if ia_last_seen_ts_ms rec \<ge> cutoff_ms then ''active'' else ''offline''))])"

definition durable_team_directory_members ::
  "host \<Rightarrow> rch_core \<Rightarrow> string list \<Rightarrow> string option \<Rightarrow> string option \<Rightarrow> (string, string) hmap \<Rightarrow> int
     \<Rightarrow> json list" where
  "durable_team_directory_members h s team_uids requester_identity requester_destination rem_modes cutoff_ms =
     map (directory_entry_value h rem_modes cutoff_ms)
       (durable_team_entries s team_uids requester_identity requester_destination)"

definition recent_cutoff :: "host \<Rightarrow> int" where
  "recent_cutoff h = sat_i64 (utc_now_ms h - recent_announce_window_ms h)"

definition rem_team_routing_destinations :: "host \<Rightarrow> rch_core \<Rightarrow> string \<Rightarrow> string \<Rightarrow> string list" where
  "rem_team_routing_destinations h s source team_uid =
     (if canonical_team_for_uid team_uid = None
         \<or> team_uid \<notin> set (shared_team_uids_for_rem_source s source) then []
      else
        (let rem_modes = map (\<lambda>(identity, rec). (identity, to_ascii_lowercase (trim (irm_mode rec))))
               (identity_rem_modes s)
         in List.map_filter (\<lambda>member. case jget member ''destination_hash'' of None \<Rightarrow> None | Some v \<Rightarrow> as_str v)
              (durable_team_directory_members h s [team_uid] (canonical_identity_for_rem_source s source)
                 (normalize_hash (Some source)) rem_modes (recent_cutoff h))))"

subsection \<open>The peer registries\<close>

definition effective_rem_connected_mode :: "rch_core \<Rightarrow> bool" where
  "effective_rem_connected_mode s =
     list_ex (\<lambda>rec. eq_ignore_ascii_case (trim (irm_mode rec)) ''connected'') (hm_values (identity_rem_modes s))"

definition registered_modes :: "rch_core \<Rightarrow> (string, string) hmap" where
  "registered_modes s =
     map (\<lambda>(identity, rec).
            (let mode = to_ascii_lowercase (trim (irm_mode rec))
             in (identity, if mode = [] then ''autonomous'' else mode)))
       (identity_rem_modes s)"

definition announce_source :: "identity_announce_record \<Rightarrow> string" where
  "announce_source rec =
     (case trimmed_non_empty (ia_source_interface rec) of
        None \<Rightarrow> ''identity'' | Some source \<Rightarrow> to_ascii_lowercase source)"

text \<open>The candidates of a registry: one announce per identity, a destination announce preferred.\<close>

definition admit_candidate ::
  "(identity_announce_record \<Rightarrow> string \<Rightarrow> bool) \<Rightarrow> identity_announce_record
     \<Rightarrow> (string, identity_announce_record \<times> string) hmap \<Rightarrow> (string, identity_announce_record \<times> string) hmap"
  where
  "admit_candidate admitted rec candidates =
     (case announce_identity rec of
        None \<Rightarrow> candidates
      | Some identity \<Rightarrow>
          if \<not> admitted rec identity then candidates
          else if is_none_or (hm_get candidates identity) (\<lambda>(_, existing_source).
                    announce_source rec = ''destination'' \<and> existing_source \<noteq> ''destination'')
          then hm_insert identity (rec, announce_source rec) candidates
          else candidates)"

fun rem_candidates ::
  "(identity_announce_record \<Rightarrow> string \<Rightarrow> bool) \<Rightarrow> identity_announce_record list
     \<Rightarrow> (string, identity_announce_record \<times> string) hmap \<Rightarrow> (string, identity_announce_record \<times> string) hmap"
  where
  "rem_candidates admitted [] candidates = candidates"
| "rem_candidates admitted (rec # recs) candidates =
     rem_candidates admitted recs (admit_candidate admitted rec candidates)"

definition candidate_value ::
  "host \<Rightarrow> (string \<Rightarrow> identity_announce_record \<Rightarrow> string) \<Rightarrow> string \<times> identity_announce_record \<times> string \<Rightarrow> json"
  where
  "candidate_value h mode_of candidate =
     (case candidate of (identity, rec, source) \<Rightarrow>
        JObj [(''identity'', JStr identity),
              (''destination_hash'', JStr (if source = ''destination''
                 then unwrap_or (normalize_hash (Some (ia_destination_hash rec))) identity else identity)),
              (''display_name'', jopt (trimmed_non_empty (ia_display_name rec))),
              (''announce_capabilities'', jstrs (ia_announce_capabilities rec)),
              (''client_type'', JStr (to_ascii_lowercase (trim (ia_client_type rec)))),
              (''registered_mode'', JStr (mode_of identity rec)),
              (''last_seen'', JStr (millis_to_rfc3339 h (ia_last_seen_ts_ms rec))),
              (''status'', JStr ''active'')])"

definition peer_admitted :: "host \<Rightarrow> rch_core \<Rightarrow> identity_announce_record \<Rightarrow> string \<Rightarrow> bool" where
  "peer_admitted h s rec identity \<longleftrightarrow>
     \<not> ia_last_seen_ts_ms rec < recent_cutoff h \<and> is_rem_client rec \<and> \<not> identity_blocked s identity"

definition rem_peer_registry_payload :: "host \<Rightarrow> rch_core \<Rightarrow> json" where
  "rem_peer_registry_payload h s =
     (let rem_modes = registered_modes s;
          candidates = rem_candidates (peer_admitted h s) (hm_values (identity_announces s)) []
      in JObj [(''effective_connected_mode'', JBool (effective_rem_connected_mode s)),
               (''items'', JArr (map (candidate_value h
                  (\<lambda>identity _. unwrap_or (hm_get rem_modes identity) ''autonomous''))
                  (sort_key fst candidates)))])"

definition REM_TEAM_DIRECTORY_SCHEMA_VERSION :: int where "REM_TEAM_DIRECTORY_SCHEMA_VERSION = 2"

definition team_peer_admitted ::
  "host \<Rightarrow> rch_core \<Rightarrow> string \<Rightarrow> identity_announce_record \<Rightarrow> string \<Rightarrow> bool" where
  "team_peer_admitted h s source rec identity \<longleftrightarrow>
     identity \<in> set (team_member_identities_for_teams s (shared_team_uids_for_rem_source s source))
     \<and> canonical_identity_for_rem_source s source \<noteq> Some identity
     \<and> normalize_hash (Some source) \<noteq> normalize_hash (Some (ia_destination_hash rec))
     \<and> \<not> ia_last_seen_ts_ms rec < recent_cutoff h \<and> is_rem_client rec
     \<and> identity_announce_has_rem_capabilities rec \<and> \<not> identity_blocked s identity"

definition directory_team_value :: "rch_core \<Rightarrow> string \<times> string \<Rightarrow> json" where
  "directory_team_value s = (\<lambda>(team_uid, color).
     JObj [(''uid'', JStr team_uid), (''color'', JStr color),
           (''team_name'', JStr (unwrap_or
              (trimmed_non_empty (map_option te_team_name (hm_get (teams s) team_uid))) color))])"

definition rem_team_peer_registry_payload :: "host \<Rightarrow> rch_core \<Rightarrow> string \<Rightarrow> json" where
  "rem_team_peer_registry_payload h s source =
     (let team_uids = shared_team_uids_for_rem_source s source;
          rem_modes = registered_modes s;
          canonical_team_uids = filter (\<lambda>team_uid. canonical_team_for_uid team_uid \<noteq> None) team_uids;
          directory_teams = sort_key snd (List.map_filter canonical_team_for_uid canonical_team_uids);
          members = durable_team_directory_members h s canonical_team_uids
                      (canonical_identity_for_rem_source s source) (normalize_hash (Some source))
                      rem_modes (recent_cutoff h);
          candidates = rem_candidates (team_peer_admitted h s source) (hm_values (identity_announces s)) [];
          effective_connected_mode =
            list_ex (\<lambda>(identity, rec, _).
               is_some_and
                 (or_else (hm_get rem_modes identity)
                   (case normalize_hash (Some (ia_destination_hash rec)) of
                      None \<Rightarrow> None | Some destination \<Rightarrow> hm_get rem_modes destination))
                 (\<lambda>mode. mode = ''connected'')) candidates
      in JObj [(''schema_version'', JInt REM_TEAM_DIRECTORY_SCHEMA_VERSION),
               (''scope'', JStr ''shared_teams''),
               (''effective_connected_mode'', JBool effective_connected_mode),
               (''teams'', JArr (map (directory_team_value s) directory_teams)),
               (''caller_memberships'', JArr (caller_memberships_for_rem_source s source)),
               (''members'', JArr members),
               (''items'', JArr (map (candidate_value h (rem_mode_for_announce rem_modes))
                  (sort_key fst candidates)))])"

definition apply_rem_registry_command :: "host \<Rightarrow> mission_command \<Rightarrow> rch_core \<Rightarrow> event_envelope option op"
  where
  "apply_rem_registry_command h command s =
     (let args = cmd_args command; ctype = cmd_type command;
          source = src_rns_identity (cmd_source command)
      in if ctype = ''rem.registry.mode.set'' then
           (let mode = unwrap_or (optional_text_or_empty h args [''mode'']) []
            in try_st (set_identity_rem_mode h source mode s) (\<lambda>s rec.
                 (s, Inr (Some (event ''rem.registry.mode.updated'' command
                    (JObj [(''identity'', JStr (irm_identity rec)), (''mode'', JStr (irm_mode rec)),
                           (''effective_connected_mode'', JBool (effective_rem_connected_mode s)),
                           (''registered_at_ms'', JInt (irm_updated_ts_ms rec)),
                           (''updated_at_ms'', JInt (irm_updated_ts_ms rec))]))))))
         else if ctype = ''rem.registry.peers.list'' then
           (s, Inr (Some (event ''rem.registry.peers.listed'' command (rem_peer_registry_payload h s))))
         else if ctype = ''rem.registry.team_peers.list'' then
           (s, Inr (Some (event ''rem.registry.team_peers.listed'' command
              (rem_team_peer_registry_payload h s source))))
         else (s, Inl (UnsupportedCommand ctype)))"

subsection \<open>The team scope of a command\<close>

definition validate_rem_team_scope :: "rch_core \<Rightarrow> mission_command \<Rightarrow> (string \<times> string) + unit" where
  "validate_rem_team_scope s command =
     (case trimmed_non_empty (case jget (cmd_args command) ''_rem_team_uid'' of
             None \<Rightarrow> None | Some v \<Rightarrow> as_str v) of
        None \<Rightarrow> Inr ()
      | Some team_uid \<Rightarrow>
          if canonical_team_for_uid team_uid = None
          then Inl (''invalid_team'', ''FIELD_GROUP must contain a canonical TEAM UID'')
          else if team_uid \<notin> set (shared_team_uids_for_rem_source s (src_rns_identity (cmd_source command)))
          then Inl (''unauthorized_team'', ''The REM caller is not a member of the requested TEAM'')
          else Inr ())"

subsection \<open>Who is in a directory\<close>

lemma first_per_key_subset: "set (first_per_key f seen xs) \<subseteq> set xs"
  by (induction xs arbitrary: seen) auto

lemma first_per_key_image: "f ` set (first_per_key f seen xs) \<union> set seen = f ` set xs \<union> set seen"
  by (induction f seen xs rule: first_per_key.induct) (auto simp: insert_absorb)

lemma first_per_key_distinct:
  "distinct (map f (first_per_key f seen xs)) \<and> f ` set (first_per_key f seen xs) \<inter> set seen = {}"
  by (induction f seen xs rule: first_per_key.induct) auto

lemma map_filter_set: "set (List.map_filter f xs) = {y. \<exists>x \<in> set xs. f x = Some y}"
  by (force simp: List.map_filter_def image_iff)

text \<open>The candidates before duplicates are dropped.\<close>

definition directory_candidates ::
  "rch_core \<Rightarrow> string list \<Rightarrow> string option \<Rightarrow> string option \<Rightarrow> directory_entry \<Rightarrow> bool" where
  "directory_candidates s team_uids ri rd e \<longleftrightarrow>
     (\<exists>m t i. m \<in> set (hm_values (team_members s)) \<and> tm_team_uid m = Some t \<and> t \<in> set team_uids
        \<and> canonical_team_for_uid t \<noteq> None \<and> i \<in> set (member_identities s m)
        \<and> directory_entry_for s ri rd t m i = Some e)"

lemma member_entries_iff:
  "e \<in> set (member_entries s us ri rd m) \<longleftrightarrow>
     (\<exists>t i. tm_team_uid m = Some t \<and> t \<in> set us \<and> canonical_team_for_uid t \<noteq> None
        \<and> i \<in> set (member_identities s m) \<and> directory_entry_for s ri rd t m i = Some e)"
  unfolding member_entries_def by (cases "tm_team_uid m") (simp_all add: map_filter_set Bex_def)

lemma all_entries_iff:
  "set (concat (map (member_entries s us ri rd) (hm_values (team_members s)))) =
     {e. directory_candidates s us ri rd e}"
  by (simp add: set_eq_iff member_entries_iff directory_candidates_def Bex_def)

lemma durable_entries_sound:
  "e \<in> set (durable_team_entries s us ri rd) \<Longrightarrow> directory_candidates s us ri rd e"
  using first_per_key_subset all_entries_iff [of s us ri rd] unfolding durable_team_entries_def by fastforce

lemma durable_entries_keys:
  "directory_key ` set (durable_team_entries s us ri rd) = directory_key ` {e. directory_candidates s us ri rd e}"
  unfolding all_entries_iff [symmetric] durable_team_entries_def set_sort
  using first_per_key_image [of directory_key "[]" "concat (map (member_entries s us ri rd) (hm_values (team_members s)))"]
  by simp

lemma durable_entries_destinations:
  "de_destination_hash ` set (durable_team_entries s us ri rd) =
     de_destination_hash ` {e. directory_candidates s us ri rd e}"
proof -
  have "de_destination_hash ` X = (\<lambda>(_, _, _, d). d) ` directory_key ` X" for X
    by (simp add: image_image directory_key_def)
  then show ?thesis by (simp only: durable_entries_keys)
qed

lemma directory_entry_for_Some:
  "directory_entry_for s ri rd t m i = Some e \<longleftrightarrow>
     ri \<noteq> Some i \<and> \<not> identity_blocked s i
     \<and> (\<exists>rec d. best_rem_announce_for_identity s i = Some rec
          \<and> d = unwrap_or (normalize_hash (Some (ia_destination_hash rec))) i
          \<and> rd \<noteq> Some d \<and> \<not> identity_blocked s d
          \<and> e = \<lparr>de_team_uid = t, de_member = m, de_identity = i, de_announce = rec,
                 de_destination_hash = d\<rparr>)"
  by (auto simp: directory_entry_for_def Let_def split: option.splits if_splits)

lemma best_rem_announce_Some:
  assumes "best_rem_announce_for_identity s i = Some rec"
  shows "rec \<in> set (hm_values (identity_announces s)) \<and> announce_identity rec = Some i \<and> is_rem_client rec
    \<and> identity_announce_has_rem_capabilities rec"
  using max_by_Some [OF assms [unfolded best_rem_announce_for_identity_def]] by auto

text \<open>The destinations of a team: those of the REM peers of its members, no other.\<close>

definition team_destination :: "rch_core \<Rightarrow> string \<Rightarrow> string \<Rightarrow> string \<Rightarrow> bool" where
  "team_destination s source team_uid d \<longleftrightarrow>
     (\<exists>m i rec. m \<in> set (hm_values (team_members s)) \<and> tm_team_uid m = Some team_uid
        \<and> i \<in> set (member_identities s m) \<and> canonical_identity_for_rem_source s source \<noteq> Some i
        \<and> \<not> identity_blocked s i \<and> best_rem_announce_for_identity s i = Some rec
        \<and> d = unwrap_or (normalize_hash (Some (ia_destination_hash rec))) i
        \<and> normalize_hash (Some source) \<noteq> Some d \<and> \<not> identity_blocked s d)"

lemma routing_destinations_of_entries:
  "set (List.map_filter (\<lambda>member. case jget member ''destination_hash'' of None \<Rightarrow> None | Some v \<Rightarrow> as_str v)
      (durable_team_directory_members h s us ri rd modes cutoff)) =
   de_destination_hash ` set (durable_team_entries s us ri rd)"
  by (force simp: map_filter_set durable_team_directory_members_def directory_entry_value_def Let_def jget_def)

lemma routing_destinations_iff:
  "d \<in> set (rem_team_routing_destinations h s source t) \<longleftrightarrow>
     canonical_team_for_uid t \<noteq> None \<and> t \<in> set (shared_team_uids_for_rem_source s source)
     \<and> team_destination s source t d"
proof -
  let ?E = "\<lambda>e. directory_candidates s [t] (canonical_identity_for_rem_source s source)
    (normalize_hash (Some source)) e"
  have "set (rem_team_routing_destinations h s source t) =
      (if canonical_team_for_uid t = None \<or> t \<notin> set (shared_team_uids_for_rem_source s source) then {}
       else de_destination_hash ` {e. ?E e})"
    by (simp add: rem_team_routing_destinations_def Let_def routing_destinations_of_entries
          durable_entries_destinations)
  moreover have "canonical_team_for_uid t \<noteq> None \<Longrightarrow>
      d \<in> de_destination_hash ` {e. ?E e} \<longleftrightarrow> team_destination s source t d"
    by (force simp: directory_candidates_def directory_entry_for_Some team_destination_def image_iff)
  ultimately show ?thesis by auto
qed

subsection \<open>The candidates of a peer registry\<close>

definition candidate_ok ::
  "(identity_announce_record \<Rightarrow> string \<Rightarrow> bool) \<Rightarrow> identity_announce_record list \<Rightarrow> string
     \<Rightarrow> identity_announce_record \<times> string \<Rightarrow> bool" where
  "candidate_ok admitted recs identity = (\<lambda>(rec, source). rec \<in> set recs \<and> announce_identity rec = Some identity
     \<and> admitted rec identity \<and> source = announce_source rec)"

text \<open>
  One candidate for every identity with an admitted announce, and a destination announce when there is
  one.
\<close>

definition candidates_for ::
  "(identity_announce_record \<Rightarrow> string \<Rightarrow> bool) \<Rightarrow> identity_announce_record list
     \<Rightarrow> (string, identity_announce_record \<times> string) hmap \<Rightarrow> bool" where
  "candidates_for admitted recs m \<longleftrightarrow>
     (\<forall>i c. hm_get m i = Some c \<longrightarrow> candidate_ok admitted recs i c)
     \<and> (\<forall>rec \<in> set recs. \<forall>i. announce_identity rec = Some i \<and> admitted rec i \<longrightarrow>
          (\<exists>c. hm_get m i = Some c \<and> (announce_source rec = ''destination'' \<longrightarrow> snd c = ''destination'')))"

lemma candidates_step:
  assumes "candidates_for admitted recs m"
  shows "candidates_for admitted (rec # recs) (admit_candidate admitted rec m)"
proof (cases "announce_identity rec")
  case None
  with assms show ?thesis by (auto simp: candidates_for_def candidate_ok_def admit_candidate_def)
next
  case (Some i)
  show ?thesis
  proof (cases "admitted rec i")
    case False
    with Some assms show ?thesis by (auto simp: candidates_for_def candidate_ok_def admit_candidate_def)
  next
    case True
    show ?thesis
    proof (cases "hm_get m i")
      case None
      with Some True assms show ?thesis
        by (auto simp: candidates_for_def candidate_ok_def admit_candidate_def)
    next
      case (Some c)
      with \<open>announce_identity rec = Some i\<close> True assms show ?thesis
        by (cases c) (fastforce simp: candidates_for_def candidate_ok_def admit_candidate_def)
    qed
  qed
qed

lemma rem_candidates_fold:
  "candidates_for admitted seen m \<Longrightarrow> candidates_for admitted (rev recs @ seen) (rem_candidates admitted recs m)"
proof (induction recs arbitrary: seen m)
  case (Cons rec recs)
  from Cons.IH [OF candidates_step [OF Cons.prems, of rec]] show ?case by simp
qed simp

lemma rem_candidates_complete: "candidates_for admitted recs (rem_candidates admitted recs [])"
  using rem_candidates_fold [of admitted "[]" "[]" recs]
  by (simp add: candidates_for_def candidate_ok_def)

lemma rem_candidates_wf: "hm_wf m \<Longrightarrow> hm_wf (rem_candidates admitted recs m)"
  by (induction admitted recs m rule: rem_candidates.induct) (simp_all add: admit_candidate_def split: option.split)

subsection \<open>What the REM commands change\<close>

definition only_modes :: "rch_core \<Rightarrow> rch_core \<Rightarrow> bool" where
  "only_modes s t \<longleftrightarrow> (\<exists>m. t = s\<lparr>identity_rem_modes := m\<rparr>)"

lemma rem_command_frame: "leaves (only_modes s) (apply_rem_registry_command h c s)"
proof -
  have "only_modes s s"
    unfolding only_modes_def by (rule exI [of _ "identity_rem_modes s"]) simp
  moreover have "only_modes s (s\<lparr>identity_rem_modes := m\<rparr>)" for m
    by (auto simp: only_modes_def)
  ultimately show ?thesis
    unfolding apply_rem_registry_command_def set_identity_rem_mode_def Let_def by (intro keeps)
qed

lemma team_scope_ok:
  assumes "validate_rem_team_scope s c = Inr ()" and "jget (cmd_args c) ''_rem_team_uid'' = Some (JStr t)"
    and "trim t \<noteq> []"
  shows "canonical_team_for_uid (trim t) \<noteq> None
    \<and> trim t \<in> set (shared_team_uids_for_rem_source s (src_rns_identity (cmd_source c)))"
  using assms by (auto simp: validate_rem_team_scope_def trimmed_non_empty_def split: if_splits)

end
