(* ===== verification/Csv_Text.thy ===== *)
theory Csv_Text
  imports Mecp
begin

text \<open>
  Text of an imported file (\<open>crates/r3akt-rch-core/src/text.rs\<close>, and
  \<open>normalize_csv_header\<close>, \<open>parse_due_minutes\<close> and the file stem in
  \<open>import_checklist_csv\<close> of \<open>lib.rs\<close>).  A string is its UTF-8 bytes.
  \<open>decode_utf8_ignoring_errors\<close> drops what \<open>str::from_utf8\<close> rejects; the lemmas show
  that its result is well formed, that it keeps a well formed text, and so that it is idempotent.
\<close>

subsection \<open>UTF-8\<close>

definition byte_in :: "nat \<Rightarrow> nat \<Rightarrow> char \<Rightarrow> bool" where
  "byte_in a b c \<longleftrightarrow> a \<le> code c \<and> code c \<le> b"

text \<open>
  The bytes a leading byte asks for, as ranges, by the table of the standard library's validator;
  \<open>None\<close> for a byte that starts no character.
\<close>

definition utf8_tail :: "char \<Rightarrow> (nat \<times> nat) list option" where
  "utf8_tail c =
     (let b = code c; cont = (128, 191)
      in if b < 128 then Some []
         else if 194 \<le> b \<and> b \<le> 223 then Some [cont]
         else if b = 224 then Some [(160, 191), cont]
         else if (225 \<le> b \<and> b \<le> 236) \<or> b = 238 \<or> b = 239 then Some [cont, cont]
         else if b = 237 then Some [(128, 159), cont]
         else if b = 240 then Some [(144, 191), cont, cont]
         else if 241 \<le> b \<and> b \<le> 243 then Some [cont, cont, cont]
         else if b = 244 then Some [(128, 143), cont, cont]
         else None)"

text \<open>How many bytes of a tail are as asked for; the flag says whether all are.\<close>

fun match_tail :: "(nat \<times> nat) list \<Rightarrow> string \<Rightarrow> nat \<times> bool" where
  "match_tail [] s = (0, True)"
| "match_tail (r # rs) [] = (0, False)"
| "match_tail ((a, b) # rs) (c # s) =
     (if byte_in a b c then (let (n, done) = match_tail rs s in (Suc n, done)) else (0, False))"

text \<open>
  The first character of a non-empty text: \<open>Inr n\<close> when it is valid and has \<open>n\<close> bytes,
  \<open>Inl k\<close> when \<open>error_len().unwrap_or(1)\<close> is \<open>k\<close>.
\<close>

definition utf8_char :: "string \<Rightarrow> nat + nat" where
  "utf8_char s =
     (case s of [] \<Rightarrow> Inl 1
      | c # rest \<Rightarrow>
          (case utf8_tail c of
             None \<Rightarrow> Inl 1
           | Some rs \<Rightarrow>
               (let (n, done) = match_tail rs rest
                in if done then Inr (Suc n)
                   else if n = length rest then Inl 1
                   else Inl (Suc n))))"

lemma match_tail_length: "match_tail rs s = (n, d) \<Longrightarrow> n \<le> length s"
  by (induction rs s arbitrary: n d rule: match_tail.induct) (auto split: if_splits prod.splits)

lemma utf8_char_positive: "utf8_char s = Inr n \<Longrightarrow> 0 < n" "utf8_char s = Inl n \<Longrightarrow> 0 < n"
  by (auto simp: utf8_char_def Let_def split: list.splits option.splits prod.splits if_splits)

lemma utf8_char_length: "utf8_char s = Inr n \<Longrightarrow> n \<le> length s"
  by (auto simp: utf8_char_def Let_def dest: match_tail_length split: list.splits option.splits prod.splits if_splits)

function decode_utf8_ignoring_errors :: "string \<Rightarrow> string" where
  "decode_utf8_ignoring_errors s =
     (if s = [] then []
      else case utf8_char s of
             Inr n \<Rightarrow> take n s @ decode_utf8_ignoring_errors (drop n s)
           | Inl k \<Rightarrow> decode_utf8_ignoring_errors (drop k s))"
  by auto
termination
  by (relation "measure length") (auto dest: utf8_char_positive)

declare decode_utf8_ignoring_errors.simps [simp del]

inductive utf8_text :: "string \<Rightarrow> bool" where
  utf8_empty: "utf8_text []"
| utf8_step: "utf8_char s = Inr n \<Longrightarrow> utf8_text (drop n s) \<Longrightarrow> utf8_text s"

text \<open>A valid character is still there when text follows it.\<close>

lemma match_tail_append: "match_tail rs s = (n, True) \<Longrightarrow> match_tail rs (s @ t) = (n, True)"
  by (induction rs s arbitrary: n rule: match_tail.induct) (auto split: if_splits prod.splits)

lemma match_tail_take: "match_tail rs s = (n, True) \<Longrightarrow> match_tail rs (take n s) = (n, True)"
  by (induction rs s arbitrary: n rule: match_tail.induct) (auto split: if_splits prod.splits)

lemma utf8_char_append:
  assumes "utf8_char s = Inr n"
  shows "utf8_char (take n s @ t) = Inr n"
proof -
  from assms obtain c r rs m where s: "s = c # r" "utf8_tail c = Some rs" "match_tail rs r = (m, True)" "n = Suc m"
    by (auto simp: utf8_char_def Let_def split: list.splits option.splits prod.splits if_splits)
  then have "match_tail rs (take m r @ t) = (m, True)"
    by (intro match_tail_append match_tail_take)
  with s show ?thesis by (simp add: utf8_char_def)
qed

lemma decode_utf8_valid: "utf8_text (decode_utf8_ignoring_errors s)"
proof (induction s rule: decode_utf8_ignoring_errors.induct)
  case (1 s)
  show ?case
  proof (cases "s = []")
    case True
    then show ?thesis by (simp add: decode_utf8_ignoring_errors.simps utf8_empty)
  next
    case False
    show ?thesis
    proof (cases "utf8_char s")
      case (Inl k)
      with False 1 show ?thesis by (simp add: decode_utf8_ignoring_errors.simps [of s])
    next
      case (Inr n)
      have "drop n (take n s @ decode_utf8_ignoring_errors (drop n s)) = decode_utf8_ignoring_errors (drop n s)"
        using utf8_char_length [OF Inr] by simp
      with False Inr 1(2) show ?thesis
        using utf8_step [OF utf8_char_append [OF Inr]] by (simp add: decode_utf8_ignoring_errors.simps [of s])
    qed
  qed
qed

lemma decode_utf8_id: "utf8_text s \<Longrightarrow> decode_utf8_ignoring_errors s = s"
proof (induction rule: utf8_text.induct)
  case utf8_empty
  then show ?case by (simp add: decode_utf8_ignoring_errors.simps)
next
  case (utf8_step s n)
  then show ?case
    using utf8_char_length [OF utf8_step(1)] utf8_char_positive(1) [OF utf8_step(1)]
    by (subst decode_utf8_ignoring_errors.simps) auto
qed

subsection \<open>Headers, due minutes and file names\<close>

fun replace_char :: "char list \<Rightarrow> char \<Rightarrow> string \<Rightarrow> string" where
  "replace_char cs d [] = []"
| "replace_char cs d (c # s) = (if c \<in> set cs then d else c) # replace_char cs d s"

definition normalize_csv_header :: "string \<Rightarrow> string" where
  "normalize_csv_header value =
     join '' '' (split_whitespace (replace_char ''_-'' (CHR 0x20) (to_ascii_lowercase value)))"

definition parse_due_minutes :: "string \<Rightarrow> int option" where
  "parse_due_minutes value =
     (let text = unwrap_or (strip_prefix ''+'' (trim value)) (trim value)
      in if text = [] then None else parse_i64 text)"

text \<open>\<open>cell.replace('\u{feff}', "")\<close>: the byte order mark has three bytes.\<close>

fun remove_bom :: "string \<Rightarrow> string" where
  "remove_bom (a # b # c # s) =
     (if code a = 239 \<and> code b = 187 \<and> code c = 191 then remove_bom s else a # remove_bom (b # c # s))"
| "remove_bom s = s"

text \<open>\<open>Path::new(name).file_stem()\<close> of a Unix path.\<close>

definition file_name :: "string \<Rightarrow> string option" where
  "file_name path =
     (let parts = filter (\<lambda>part. part \<noteq> [] \<and> part \<noteq> ''.'') (split_on (CHR ''/'') path)
      in if parts = [] \<or> last parts = ''..'' then None else Some (last parts))"

definition stem_of :: "string \<Rightarrow> string" where
  "stem_of name =
     (let after_dot = takeWhile (\<lambda>c. c \<noteq> CHR ''.'') (rev name)
      in if length after_dot = length name \<or> length after_dot + 1 = length name then name
         else take (length name - length after_dot - 1) name)"

definition file_stem :: "string \<Rightarrow> string option" where
  "file_stem path = map_option stem_of (file_name path)"

end
