(* ===== verification/Checklists.thy ===== *)
theory Checklists
  imports RemDirectory Csv_Text
begin

text \<open>
  Checklists (\<open>crates/r3akt-rch-core/src/lib.rs\<close>: \<open>apply_checklist_command\<close> to
  \<open>apply_checklist_task_command\<close>, \<open>create_checklist_template\<close> to
  \<open>recompute_checklist_status\<close>, the column checks and the deltas of the automatic mission
  changes).  A checklist has columns, tasks with a cell per column, and feed publications; a template
  has columns only.  Every task operation recomputes the status of its checklist.
\<close>

subsection \<open>Errors and columns\<close>

definition checklist_missing :: "string \<Rightarrow> core_error" where
  "checklist_missing uid = InvalidPayload (''Checklist '' @ quoted uid @ '' not found'')"

definition task_missing :: "string \<Rightarrow> core_error" where
  "task_missing uid = InvalidPayload (''Checklist task '' @ quoted uid @ '' not found'')"

definition column_missing :: "string \<Rightarrow> core_error" where
  "column_missing uid = InvalidPayload (''Checklist column '' @ quoted uid @ '' not found'')"

definition template_missing :: "string \<Rightarrow> core_error" where
  "template_missing uid = InvalidPayload (''Checklist template '' @ quoted uid @ '' not found'')"

definition checklist_columns_from_args :: "json option \<Rightarrow> json list result" where
  "checklist_columns_from_args value =
     (case value of
        None \<Rightarrow> Inr []
      | Some JNull \<Rightarrow> Inr []
      | Some (JArr items) \<Rightarrow>
          if list_all is_object items then Inr items
          else Inl (InvalidPayload ''columns must contain objects'')
      | Some _ \<Rightarrow> Inl (InvalidPayload ''columns must be a list''))"

definition default_checklist_columns :: "json list" where
  "default_checklist_columns =
     [JObj [(''column_name'', JStr ''Due''), (''display_order'', JInt 1),
            (''column_type'', JStr ''RELATIVE_TIME''), (''column_editable'', JBool False),
            (''is_removable'', JBool False), (''system_key'', JStr ''DUE_RELATIVE_DTG'')],
      JObj [(''column_name'', JStr ''Task''), (''display_order'', JInt 2),
            (''column_type'', JStr ''SHORT_STRING''), (''column_editable'', JBool True),
            (''is_removable'', JBool True)]]"

definition defaulted_checklist_columns :: "json list \<Rightarrow> json list" where
  "defaulted_checklist_columns columns = (if columns = [] then default_checklist_columns else columns)"

definition is_due_column :: "host \<Rightarrow> json \<Rightarrow> bool" where
  "is_due_column h column \<longleftrightarrow> optional_text h column [''system_key''] = Some ''DUE_RELATIVE_DTG''"

definition validate_checklist_columns :: "host \<Rightarrow> json list \<Rightarrow> unit result" where
  "validate_checklist_columns h columns =
     (case filter (is_due_column h) (defaulted_checklist_columns columns) of
        [due] \<Rightarrow>
          if optional_text h due [''column_type''] \<noteq> Some ''RELATIVE_TIME''
          then Inl (InvalidPayload ''DUE_RELATIVE_DTG column must be RELATIVE_TIME'')
          else if unwrap_or (optional_bool due ''is_removable'') True
          then Inl (InvalidPayload ''DUE_RELATIVE_DTG column cannot be removable'')
          else Inr ()
      | _ \<Rightarrow> Inl (InvalidPayload ''Exactly one DUE_RELATIVE_DTG system column is required''))"

definition column_from_value ::
  "host \<Rightarrow> string list \<Rightarrow> string \<Rightarrow> string option \<Rightarrow> string option \<Rightarrow> int \<Rightarrow> nat \<Rightarrow> json
     \<Rightarrow> checklist_column_record" where
  "column_from_value h name_keys column_uid checklist_uid template_uid now index column =
     \<lparr>cc_column_uid = column_uid, cc_checklist_uid = checklist_uid, cc_template_uid = template_uid,
      cc_column_name = unwrap_or (optional_text h column name_keys) ''Column'',
      cc_display_order =
        unwrap_or (case jget column ''display_order'' of None \<Rightarrow> None | Some v \<Rightarrow> value_as_i64 v)
          (int index + 1),
      cc_column_type =
        unwrap_or (case optional_text h column [''column_type''] of
                     None \<Rightarrow> None | Some value \<Rightarrow> ok (normalize_checklist_column_type value)) ''SHORT_STRING'',
      cc_column_editable = unwrap_or (optional_bool column ''column_editable'') True,
      cc_background_color = text_or_kept h column ''background_color'' None,
      cc_text_color = text_or_kept h column ''text_color'' None,
      cc_is_removable = unwrap_or (optional_bool column ''is_removable'') True,
      cc_system_key = text_or_kept h column ''system_key'' None,
      cc_created_ts_ms = now, cc_updated_ts_ms = now\<rparr>"

fun insert_columns ::
  "host \<Rightarrow> string list \<Rightarrow> string option \<Rightarrow> string option \<Rightarrow> int \<Rightarrow> nat \<Rightarrow> json list \<Rightarrow> rch_core \<Rightarrow> rch_core"
  where
  "insert_columns h name_keys checklist_uid template_uid now index [] s = s"
| "insert_columns h name_keys checklist_uid template_uid now index (column # columns) s =
     (let (column_uid, s) = new_uuid h s
      in insert_columns h name_keys checklist_uid template_uid now (Suc index) columns
           (s\<lparr>checklist_columns := hm_insert column_uid
                (column_from_value h name_keys column_uid checklist_uid template_uid now index column)
                (checklist_columns s)\<rparr>))"

definition replace_template_columns :: "host \<Rightarrow> string \<Rightarrow> json list \<Rightarrow> int \<Rightarrow> rch_core \<Rightarrow> rch_core" where
  "replace_template_columns h template_uid columns now s =
     insert_columns h [''column_name'', ''name''] None (Some template_uid) now 0 columns
       (s\<lparr>checklist_columns :=
           hm_retain (\<lambda>_ column. cc_template_uid column \<noteq> Some template_uid) (checklist_columns s)\<rparr>)"

definition insert_checklist_columns :: "host \<Rightarrow> string \<Rightarrow> json list \<Rightarrow> int \<Rightarrow> rch_core \<Rightarrow> rch_core" where
  "insert_checklist_columns h checklist_uid columns now s =
     insert_columns h [''column_name''] (Some checklist_uid) None now 0
       (defaulted_checklist_columns columns) s"

subsection \<open>Templates\<close>

definition create_checklist_template ::
  "host \<Rightarrow> json \<Rightarrow> string option \<Rightarrow> rch_core \<Rightarrow> checklist_template_record op" where
  "create_checklist_template h template source_template_uid s =
     (let now = utc_now_ms h;
          (uid, s) = or_new_uuid h s (optional_text h template [''uid''])
      in try_in s (optional_timestamp_ms h template [''created_at'']) (\<lambda>created_at.
         try_in s (optional_timestamp_ms h template [''updated_at'']) (\<lambda>updated_at.
           (let rec = \<lparr>ct_uid = uid,
                  ct_template_name =
                    unwrap_or (optional_text h template [''template_name'', ''name'']) ''Template'',
                  ct_description = unwrap_or (optional_text_or_empty h template [''description'']) [],
                  ct_created_by_team_member_rns_identity =
                    unwrap_or (optional_text h template
                      [''created_by_team_member_rns_identity'', ''created_by'']) ''unknown'',
                  ct_source_template_uid =
                    or_else source_template_uid (text_or_kept h template ''source_template_uid'' None),
                  ct_server_only = unwrap_or (optional_bool template ''server_only'') True,
                  ct_created_ts_ms = unwrap_or created_at now,
                  ct_updated_ts_ms = unwrap_or updated_at now\<rparr>
            in try_in s (checklist_columns_from_args (jget template ''columns'')) (\<lambda>columns.
               (let columns = defaulted_checklist_columns columns
                in try_in s (validate_checklist_columns h columns) (\<lambda>_.
                     (replace_template_columns h uid columns now
                        (s\<lparr>checklist_templates := hm_insert uid rec (checklist_templates s)\<rparr>),
                      Inr rec))))))))"

definition update_checklist_template ::
  "host \<Rightarrow> string \<Rightarrow> json \<Rightarrow> rch_core \<Rightarrow> checklist_template_record op" where
  "update_checklist_template h template_uid patch s =
     (if \<not> hm_contains (checklist_templates s) template_uid then (s, Inl (template_missing template_uid))
      else
        try_st
          (if has_key patch ''columns''
           then try_in s (checklist_columns_from_args (jget patch ''columns'')) (\<lambda>columns.
                try_in s (validate_checklist_columns h columns) (\<lambda>_.
                  (replace_template_columns h template_uid columns (utc_now_ms h) s, Inr ())))
           else (s, Inr ())) (\<lambda>s _.
        try_in s (ok_or (hm_get (checklist_templates s) template_uid)
                    (InvalidPayload ''template disappeared'')) (\<lambda>template.
          (let template = (case optional_text h patch [''template_name'', ''name''] of
                  None \<Rightarrow> template | Some v \<Rightarrow> template\<lparr>ct_template_name := v\<rparr>);
               template = (case optional_text_or_empty h patch [''description''] of
                  None \<Rightarrow> template | Some v \<Rightarrow> template\<lparr>ct_description := v\<rparr>);
               template = set_optional h patch ''source_template_uid''
                  (\<lambda>v t. t\<lparr>ct_source_template_uid := v\<rparr>) template;
               template = template\<lparr>ct_updated_ts_ms := utc_now_ms h\<rparr>
           in (s\<lparr>checklist_templates := hm_insert template_uid template (checklist_templates s)\<rparr>,
               Inr template)))))"

definition clone_checklist_template ::
  "host \<Rightarrow> mission_command \<Rightarrow> string \<Rightarrow> string \<Rightarrow> rch_core \<Rightarrow> checklist_template_record op" where
  "clone_checklist_template h command source_uid template_name s =
     try_in s (ok_or (hm_get (checklist_templates s) source_uid) (template_missing source_uid)) (\<lambda>source.
       (let payload = JObj
          [(''template_name'', JStr template_name),
           (''description'', JStr (unwrap_or (optional_text_or_empty h (cmd_args command) [''description''])
              (ct_description source))),
           (''created_by_team_member_rns_identity'', JStr (src_rns_identity (cmd_source command))),
           (''source_template_uid'', JStr source_uid),
           (''columns'', JArr (template_column_values s source_uid))]
        in create_checklist_template h payload (Some source_uid) s))"

definition delete_checklist_template :: "host \<Rightarrow> string \<Rightarrow> rch_core \<Rightarrow> json op" where
  "delete_checklist_template h template_uid s =
     try_in s (ok_or (hm_get (checklist_templates s) template_uid) (template_missing template_uid)) (\<lambda>template.
       (let s = s\<lparr>checklist_templates := hm_remove template_uid (checklist_templates s)\<rparr>;
            payload = checklist_template_value h s template
        in (s\<lparr>checklist_columns :=
               hm_retain (\<lambda>_ column. cc_template_uid column \<noteq> Some template_uid) (checklist_columns s)\<rparr>,
            Inr payload)))"

definition apply_checklist_template_command :: "host \<Rightarrow> mission_command \<Rightarrow> rch_core \<Rightarrow> json op" where
  "apply_checklist_template_command h command s =
     (let args = cmd_args command; ctype = cmd_type command;
          answer = (\<lambda>s template. (s, Inr (checklist_template_value h s template)))
      in if ctype = ''checklist.template.list'' then
           (s, Inr (JObj [(''templates'', JArr (checklist_template_values h s))]))
         else if ctype = ''checklist.template.get'' then
           try_in s (required_text h args [''template_uid'']) (\<lambda>template_uid.
           try_in s (ok_or (hm_get (checklist_templates s) template_uid) (template_missing template_uid))
             (answer s))
         else if ctype = ''checklist.template.create'' then
           try_in s (ok_or (jget args ''template'') (InvalidPayload ''template is required'')) (\<lambda>template.
           try_st (create_checklist_template h template None s) answer)
         else if ctype = ''checklist.template.update'' then
           try_in s (required_text h args [''template_uid'']) (\<lambda>template_uid.
           try_in s (ok_or (jget args ''patch'') (InvalidPayload ''template_uid and patch are required'')) (\<lambda>patch.
           try_st (update_checklist_template h template_uid patch s) answer))
         else if ctype = ''checklist.template.clone'' then
           try_in s (required_text h args [''source_template_uid'']) (\<lambda>source_uid.
           try_in s (required_text h args [''template_name'']) (\<lambda>template_name.
           try_st (clone_checklist_template h command source_uid template_name s) answer))
         else if ctype = ''checklist.template.delete'' then
           try_in s (required_text h args [''template_uid'']) (\<lambda>template_uid.
             delete_checklist_template h template_uid s)
         else (s, Inl (UnsupportedCommand ctype)))"

subsection \<open>Tasks and the status of a checklist\<close>

definition refresh_task :: "host \<Rightarrow> checklist_task_record \<Rightarrow> checklist_task_record" where
  "refresh_task h task =
     (let (status, is_late) = derive_task_status h (tk_user_status task) (tk_due_ts_ms task) (tk_completed_ts_ms task)
      in task\<lparr>tk_task_status := status, tk_is_late := is_late\<rparr>)"

record tally =
  ty_pending :: int
  ty_late :: int
  ty_complete :: int
  ty_complete_late :: bool

definition no_tally :: tally where
  "no_tally = \<lparr>ty_pending = 0, ty_late = 0, ty_complete = 0, ty_complete_late = False\<rparr>"

definition count_task :: "checklist_task_record \<Rightarrow> tally \<Rightarrow> tally" where
  "count_task task y =
     (if tk_user_status task = ''COMPLETE''
      then y\<lparr>ty_complete := ty_complete y + 1,
             ty_complete_late := (ty_complete_late y \<or> tk_task_status task = ''COMPLETE_LATE'')\<rparr>
      else y\<lparr>ty_pending := ty_pending y + 1,
             ty_late := ty_late y + (if tk_task_status task = ''LATE'' then 1 else 0)\<rparr>)"

fun recompute_tasks :: "host \<Rightarrow> string list \<Rightarrow> tally \<Rightarrow> rch_core \<Rightarrow> tally op" where
  "recompute_tasks h [] y s = (s, Inr y)"
| "recompute_tasks h (task_uid # task_uids) y s =
     try_in s (ok_or (hm_get (checklist_tasks s) task_uid) (InvalidPayload ''task disappeared'')) (\<lambda>task.
       (let task = refresh_task h task
        in recompute_tasks h task_uids (count_task task y)
             (s\<lparr>checklist_tasks := hm_insert task_uid task (checklist_tasks s)\<rparr>)))"

definition progress_of :: "int \<Rightarrow> int \<Rightarrow> f64" where
  "progress_of completed overall =
     (if overall = 0 then Fin 0
      else
        (let u32 = (\<lambda>n. f64_of_int (if 0 \<le> n \<and> n < 2 ^ 32 then n else 2 ^ 32 - 1))
         in f64_div
              (f64_round (f64_mul (f64_mul (f64_div (u32 completed) (u32 overall)) (Fin 100)) (Fin 100)))
              (Fin 100)))"

definition status_of_tally :: "tally \<Rightarrow> string" where
  "status_of_tally y =
     (if ty_pending y + ty_complete y = 0 \<or> ty_pending y > 0 \<and> ty_late y = 0 then ''PENDING''
      else if ty_pending y = 0 \<and> ty_complete_late y then ''COMPLETE_LATE''
      else if ty_pending y = 0 then ''COMPLETE''
      else ''LATE'')"

definition summarise :: "host \<Rightarrow> tally \<Rightarrow> checklist_record \<Rightarrow> checklist_record" where
  "summarise h y checklist =
     checklist\<lparr>ck_pending_count := ty_pending y, ck_late_count := ty_late y,
               ck_complete_count := ty_complete y,
               ck_progress_percent := progress_of (ty_complete y) (ty_pending y + ty_complete y),
               ck_checklist_status := status_of_tally y, ck_updated_ts_ms := utc_now_ms h\<rparr>"

definition tasks_of_checklist :: "rch_core \<Rightarrow> string \<Rightarrow> checklist_task_record list" where
  "tasks_of_checklist s checklist_uid =
     filter (\<lambda>task. tk_checklist_uid task = checklist_uid) (hm_values (checklist_tasks s))"

definition recompute_checklist_status :: "host \<Rightarrow> string \<Rightarrow> rch_core \<Rightarrow> checklist_record op" where
  "recompute_checklist_status h checklist_uid s =
     try_st (recompute_tasks h (map tk_task_uid (tasks_of_checklist s checklist_uid)) no_tally s) (\<lambda>s y.
     try_in s (ok_or (hm_get (checklists s) checklist_uid) (checklist_missing checklist_uid)) (\<lambda>checklist.
       (let checklist = summarise h y checklist
        in (s\<lparr>checklists := hm_insert checklist_uid checklist (checklists s)\<rparr>, Inr checklist))))"

definition new_task :: "host \<Rightarrow> string \<Rightarrow> string \<Rightarrow> int \<Rightarrow> int option \<Rightarrow> int option \<Rightarrow> json \<Rightarrow> checklist_task_record"
  where
  "new_task h task_uid checklist_uid number due_relative_minutes due_ts_ms args =
     (let now = utc_now_ms h; (task_status, is_late) = derive_task_status h ''PENDING'' due_ts_ms None
      in \<lparr>tk_task_uid = task_uid, tk_checklist_uid = checklist_uid, tk_number = number,
          tk_user_status = ''PENDING'', tk_task_status = task_status, tk_is_late = is_late,
          tk_custom_status = None, tk_due_relative_minutes = due_relative_minutes,
          tk_due_ts_ms = due_ts_ms, tk_notes = text_or_kept h args ''notes'' None,
          tk_row_background_color = text_or_kept h args ''row_background_color'' None,
          tk_line_break_enabled = unwrap_or (optional_bool args ''line_break_enabled'') False,
          tk_completed_ts_ms = None, tk_completed_by_team_member_rns_identity = None,
          tk_legacy_value = text_or_kept h args ''legacy_value'' None,
          tk_created_ts_ms = now, tk_updated_ts_ms = now\<rparr>)"

text \<open>A new task gets an empty cell in every column.\<close>

fun insert_cells :: "host \<Rightarrow> string \<Rightarrow> checklist_column_record list \<Rightarrow> rch_core \<Rightarrow> rch_core" where
  "insert_cells h task_uid [] s = s"
| "insert_cells h task_uid (column # columns) s =
     (let (cell_uid, s) = new_uuid h s
      in insert_cells h task_uid columns
           (s\<lparr>checklist_cells := hm_insert cell_uid
                \<lparr>ce_cell_uid = cell_uid, ce_task_uid = task_uid, ce_column_uid = cc_column_uid column,
                 ce_value = None, ce_updated_ts_ms = utc_now_ms h,
                 ce_updated_by_team_member_rns_identity = None\<rparr> (checklist_cells s)\<rparr>))"

definition add_checklist_task_row :: "host \<Rightarrow> string \<Rightarrow> json \<Rightarrow> rch_core \<Rightarrow> checklist_record op" where
  "add_checklist_task_row h checklist_uid args s =
     try_in s (ok_or (hm_get (checklists s) checklist_uid) (checklist_missing checklist_uid)) (\<lambda>checklist.
     try_in s (optional_i64 args ''number'') (\<lambda>number.
       (let number = unwrap_or number 1
        in try_in s (optional_i64 args ''due_relative_minutes'') (\<lambda>minutes.
           (let due_relative_minutes = or_else minutes
                  (if has_key args ''due_dtg'' then None else Some (wrap_i64 (number * 30)))
            in try_in s (optional_timestamp_ms h args [''due_dtg'']) (\<lambda>due_dtg.
               (let due_ts_ms = or_else due_dtg (map_option (\<lambda>minutes.
                      wrap_i64 (ck_start_ts_ms checklist + wrap_i64 (minutes * 60000))) due_relative_minutes);
                    (task_uid, s) = or_new_uuid h s (optional_text h args [''task_uid''])
                in case hm_get (checklist_tasks s) task_uid of
                     Some existing_task \<Rightarrow>
                       if tk_checklist_uid existing_task \<noteq> checklist_uid
                       then (s, Inl (task_missing task_uid))
                       else
                         recompute_checklist_status h checklist_uid
                           (s\<lparr>checklist_tasks := hm_insert task_uid
                                (existing_task\<lparr>tk_number := number,
                                   tk_due_relative_minutes := due_relative_minutes,
                                   tk_due_ts_ms := due_ts_ms,
                                   tk_legacy_value := text_or_kept h args ''legacy_value'' None,
                                   tk_notes := text_or_kept h args ''notes'' None,
                                   tk_updated_ts_ms := utc_now_ms h\<rparr>) (checklist_tasks s)\<rparr>)
                   | None \<Rightarrow>
                       recompute_checklist_status h checklist_uid
                         (insert_cells h task_uid (columns_for_checklist s checklist_uid)
                           (s\<lparr>checklist_tasks := hm_insert task_uid
                                (new_task h task_uid checklist_uid number due_relative_minutes due_ts_ms args)
                                (checklist_tasks s)\<rparr>)))))))))"

text \<open>\<open>checklist_task_mut\<close> and the update the caller makes through it.\<close>

definition checklist_task_mut :: "rch_core \<Rightarrow> string \<Rightarrow> string \<Rightarrow> checklist_task_record result" where
  "checklist_task_mut s checklist_uid task_uid =
     (if \<not> hm_contains (checklists s) checklist_uid then Inl (checklist_missing checklist_uid)
      else ok_or (filter_opt (\<lambda>task. tk_checklist_uid task = checklist_uid)
                    (hm_get (checklist_tasks s) task_uid)) (task_missing task_uid))"

definition put_task :: "string \<Rightarrow> checklist_task_record \<Rightarrow> rch_core \<Rightarrow> rch_core" where
  "put_task task_uid task s = s\<lparr>checklist_tasks := hm_insert task_uid task (checklist_tasks s)\<rparr>"

definition delete_checklist_task_row :: "host \<Rightarrow> string \<Rightarrow> string \<Rightarrow> rch_core \<Rightarrow> checklist_record op" where
  "delete_checklist_task_row h checklist_uid task_uid s =
     try_in s (checklist_task_mut s checklist_uid task_uid) (\<lambda>task.
       recompute_checklist_status h checklist_uid
         (s\<lparr>checklist_tasks := hm_remove task_uid (checklist_tasks s),
            checklist_cells :=
              hm_retain (\<lambda>_ cell. ce_task_uid cell \<noteq> tk_task_uid task) (checklist_cells s)\<rparr>))"

definition set_checklist_task_row_style ::
  "host \<Rightarrow> string \<Rightarrow> string \<Rightarrow> json \<Rightarrow> rch_core \<Rightarrow> checklist_record op" where
  "set_checklist_task_row_style h checklist_uid task_uid args s =
     try_in s (checklist_task_mut s checklist_uid task_uid) (\<lambda>task.
       (let task = set_optional h args ''row_background_color''
              (\<lambda>v t. t\<lparr>tk_row_background_color := v\<rparr>) task;
            task = (case optional_bool args ''line_break_enabled'' of
              None \<Rightarrow> task | Some v \<Rightarrow> task\<lparr>tk_line_break_enabled := v\<rparr>);
            task = task\<lparr>tk_updated_ts_ms := utc_now_ms h\<rparr>
        in recompute_checklist_status h checklist_uid (put_task task_uid task s)))"

definition find_cell :: "rch_core \<Rightarrow> string \<Rightarrow> string \<Rightarrow> checklist_cell_record option" where
  "find_cell s task_uid column_uid =
     find (\<lambda>cell. ce_task_uid cell = task_uid \<and> ce_column_uid cell = column_uid) (hm_values (checklist_cells s))"

definition set_checklist_task_cell ::
  "host \<Rightarrow> string \<Rightarrow> string \<Rightarrow> string \<Rightarrow> json \<Rightarrow> rch_core \<Rightarrow> checklist_record op" where
  "set_checklist_task_cell h checklist_uid task_uid column_uid args s =
     try_in s (checklist_task_mut s checklist_uid task_uid) (\<lambda>_.
       if is_none_or (hm_get (checklist_columns s) column_uid)
            (\<lambda>column. cc_checklist_uid column \<noteq> Some checklist_uid)
       then (s, Inl (column_missing column_uid))
       else
         (let existing = find_cell s task_uid column_uid;
              (cell_uid, s) = or_new_uuid h s (map_option ce_cell_uid existing);
              cell = \<lparr>ce_cell_uid = cell_uid, ce_task_uid = task_uid, ce_column_uid = column_uid,
                ce_value =
                  (case (case jget args ''value'' of None \<Rightarrow> None | Some v \<Rightarrow> value_as_str h v) of
                     None \<Rightarrow> None | Some text \<Rightarrow> none_if_empty text),
                ce_updated_ts_ms = utc_now_ms h,
                ce_updated_by_team_member_rns_identity =
                  text_or_kept h args ''updated_by_team_member_rns_identity''
                    (case existing of None \<Rightarrow> None | Some cell \<Rightarrow> ce_updated_by_team_member_rns_identity cell)\<rparr>
          in recompute_checklist_status h checklist_uid
               (s\<lparr>checklist_cells := hm_insert cell_uid cell (checklist_cells s)\<rparr>)))"

definition completed_task :: "host \<Rightarrow> json \<Rightarrow> string \<Rightarrow> checklist_task_record \<Rightarrow> checklist_task_record" where
  "completed_task h args user_status task =
     (let task = task\<lparr>tk_user_status := user_status\<rparr>;
          task =
            (if user_status = ''COMPLETE''
             then task\<lparr>tk_completed_ts_ms := or_else (tk_completed_ts_ms task) (Some (utc_now_ms h)),
                    tk_completed_by_team_member_rns_identity :=
                      text_or_kept h args ''changed_by_team_member_rns_identity''
                        (tk_completed_by_team_member_rns_identity task)\<rparr>
             else task\<lparr>tk_completed_ts_ms := None, tk_completed_by_team_member_rns_identity := None\<rparr>)
      in (refresh_task h task)\<lparr>tk_updated_ts_ms := utc_now_ms h\<rparr>)"

definition set_checklist_task_status ::
  "host \<Rightarrow> string \<Rightarrow> string \<Rightarrow> json \<Rightarrow> rch_core \<Rightarrow> checklist_record op" where
  "set_checklist_task_status h checklist_uid task_uid args s =
     try_in s (checklist_task_mut s checklist_uid task_uid) (\<lambda>task.
     try_in s (normalize_checklist_user_status (unwrap_or (optional_text h args [''user_status'']) [])) (\<lambda>user_status.
       recompute_checklist_status h checklist_uid
         (put_task task_uid (completed_task h args user_status task) s)))"

definition apply_checklist_task_command :: "host \<Rightarrow> mission_command \<Rightarrow> rch_core \<Rightarrow> json op" where
  "apply_checklist_task_command h command s =
     (let args = cmd_args command; ctype = cmd_type command
      in try_in s (required_text h args [''checklist_uid'']) (\<lambda>checklist_uid.
         (let with_task = (\<lambda>f. try_in s (required_text h args [''task_uid'']) f)
          in try_st
               (if ctype = ''checklist.task.row.add'' then add_checklist_task_row h checklist_uid args s
                else if ctype = ''checklist.task.row.delete'' then
                  with_task (\<lambda>task_uid. delete_checklist_task_row h checklist_uid task_uid s)
                else if ctype = ''checklist.task.row.style.set'' then
                  with_task (\<lambda>task_uid. set_checklist_task_row_style h checklist_uid task_uid args s)
                else if ctype = ''checklist.task.cell.set'' then
                  with_task (\<lambda>task_uid. try_in s (required_text h args [''column_uid'']) (\<lambda>column_uid.
                    set_checklist_task_cell h checklist_uid task_uid column_uid args s))
                else if ctype = ''checklist.task.status.set'' then
                  with_task (\<lambda>task_uid. set_checklist_task_status h checklist_uid task_uid args s)
                else (s, Inl (UnsupportedCommand ctype))) (\<lambda>s checklist.
             (s, Inr (checklist_value h s checklist))))))"

subsection \<open>Creating, updating and deleting a checklist\<close>

text \<open>Collecting pairs into a \<open>HashMap\<close>: the last value of a key wins.\<close>

definition collect_map :: "('k \<times> 'v) list \<Rightarrow> ('k, 'v) hmap" where
  "collect_map pairs = fold (\<lambda>(k, v) m. hm_insert k v m) pairs []"

definition cell_column ::
  "host \<Rightarrow> rch_core \<Rightarrow> string \<Rightarrow> (int, string) hmap \<Rightarrow> (string, string) hmap \<Rightarrow> json \<Rightarrow> string option" where
  "cell_column h s checklist_uid column_by_order column_by_name cell =
     (let by_order = (\<lambda>key. case ok (optional_i64 cell key) of
            Some (Some order) \<Rightarrow> hm_get column_by_order order | _ \<Rightarrow> None)
      in or_else
           (filter_opt (\<lambda>column_uid. is_some_and (hm_get (checklist_columns s) column_uid)
                          (\<lambda>column. cc_checklist_uid column = Some checklist_uid))
              (optional_text h cell [''column_uid'']))
         (or_else (by_order ''column_order'')
         (or_else (by_order ''display_order'')
           (case optional_text h cell [''column_name''] of
              None \<Rightarrow> None | Some t \<Rightarrow> hm_get column_by_name (to_ascii_lowercase (trim t))))))"

fun insert_initial_cells ::
  "host \<Rightarrow> string \<Rightarrow> (int, string) hmap \<Rightarrow> (string, string) hmap \<Rightarrow> string \<Rightarrow> json list \<Rightarrow> rch_core \<Rightarrow> unit op"
  where
  "insert_initial_cells h checklist_uid by_order by_name task_uid [] s = (s, Inr ())"
| "insert_initial_cells h checklist_uid by_order by_name task_uid (cell # cells) s =
     (case cell_column h s checklist_uid by_order by_name cell of
        None \<Rightarrow> insert_initial_cells h checklist_uid by_order by_name task_uid cells s
      | Some column_uid \<Rightarrow>
          try_st (set_checklist_task_cell h checklist_uid task_uid column_uid cell s) (\<lambda>s _.
            insert_initial_cells h checklist_uid by_order by_name task_uid cells s))"

fun insert_initial_tasks ::
  "host \<Rightarrow> string \<Rightarrow> (int, string) hmap \<Rightarrow> (string, string) hmap \<Rightarrow> json list \<Rightarrow> rch_core \<Rightarrow> unit op" where
  "insert_initial_tasks h checklist_uid by_order by_name [] s = (s, Inr ())"
| "insert_initial_tasks h checklist_uid by_order by_name (task # tasks) s =
     (let existing_task_uids = map tk_task_uid (tasks_of_checklist s checklist_uid)
      in try_st (add_checklist_task_row h checklist_uid task s) (\<lambda>s _.
         try_st
           (case find (\<lambda>task. tk_task_uid task \<notin> set existing_task_uids) (tasks_of_checklist s checklist_uid) of
              None \<Rightarrow> (s, Inr ())
            | Some added \<Rightarrow>
                (case (case jget task ''cells'' of None \<Rightarrow> None | Some v \<Rightarrow> as_array v) of
                   None \<Rightarrow> (s, Inr ())
                 | Some cells \<Rightarrow>
                     insert_initial_cells h checklist_uid by_order by_name (tk_task_uid added) cells s))
           (\<lambda>s _. insert_initial_tasks h checklist_uid by_order by_name tasks s)))"

definition insert_initial_checklist_tasks_from_args ::
  "host \<Rightarrow> string \<Rightarrow> json option \<Rightarrow> rch_core \<Rightarrow> unit op" where
  "insert_initial_checklist_tasks_from_args h checklist_uid tasks s =
     (case (case tasks of None \<Rightarrow> None | Some v \<Rightarrow> as_array v) of
        None \<Rightarrow> (s, Inr ())
      | Some tasks \<Rightarrow>
          (let columns = columns_for_checklist s checklist_uid
           in insert_initial_tasks h checklist_uid
                (collect_map (map (\<lambda>column. (cc_display_order column, cc_column_uid column)) columns))
                (collect_map (map (\<lambda>column.
                   (to_ascii_lowercase (trim (cc_column_name column)), cc_column_uid column)) columns))
                tasks s))"

text \<open>The template a checklist is made from: its name, and its columns when none are given.\<close>

definition checklist_template_part ::
  "host \<Rightarrow> rch_core \<Rightarrow> string option \<Rightarrow> json list \<Rightarrow> (string option \<times> json list) result" where
  "checklist_template_part h s template_uid columns =
     (case template_uid of
        None \<Rightarrow> Inr (None, columns)
      | Some template_uid \<Rightarrow>
          and_then (ok_or (hm_get (checklist_templates s) template_uid) (template_missing template_uid)) (\<lambda>template.
            Inr (Some (ct_template_name template),
                 if columns = [] then template_column_values s template_uid else columns)))"

definition create_checklist_from_args ::
  "host \<Rightarrow> mission_command \<Rightarrow> string \<Rightarrow> string \<Rightarrow> rch_core \<Rightarrow> checklist_record op" where
  "create_checklist_from_args h command mode default_sync_state s =
     (let args = cmd_args command; template_uid = optional_text h args [''template_uid'']
      in try_in s (required_text h args [''name'']) (\<lambda>checklist_name.
         try_in s (checklist_columns_from_args (jget args ''columns'')) (\<lambda>columns.
         try_in s (checklist_template_part h s template_uid columns) (\<lambda>(template_name, columns).
           if mode = ''ONLINE'' \<and> columns = [] \<and> template_uid = None
           then (s, Inl (InvalidPayload ''template_uid is required''))
           else
             try_in s (validate_checklist_columns h columns) (\<lambda>_.
               (let mission_uid = optional_text h args [''mission_uid'', ''mission_id'']
                in if is_some_and mission_uid (\<lambda>uid. \<not> hm_contains (missions s) uid)
                   then (s, Inl MissionNotFound)
                   else
                     (let now = utc_now_ms h;
                          (uid, s) = or_new_uuid h s (optional_text h args [''checklist_uid'', ''uid''])
                      in case hm_get (checklists s) uid of
                           Some existing \<Rightarrow> (s, Inr existing)
                         | None \<Rightarrow>
                             try_in s (optional_timestamp_ms h args [''start_time'']) (\<lambda>start_time.
                             try_in s (optional_i64 args ''template_version'') (\<lambda>template_version.
                             try_in s (normalize_checklist_mode mode) (\<lambda>mode.
                             try_in s (normalize_checklist_sync_state
                                 (unwrap_or (optional_text h args [''sync_state'']) default_sync_state)) (\<lambda>sync_state.
                             try_in s (normalize_checklist_origin
                                 (unwrap_or (optional_text h args [''origin_type'']) ''BLANK_TEMPLATE'')) (\<lambda>origin_type.
                               (let checklist = \<lparr>ck_uid = uid, ck_mission_uid = mission_uid,
                                      ck_template_uid = template_uid,
                                      ck_template_version = or_else template_version (Some 1),
                                      ck_template_name = template_name, ck_name = checklist_name,
                                      ck_description = unwrap_or (optional_text_or_empty h args [''description'']) [],
                                      ck_start_ts_ms = unwrap_or start_time now, ck_mode = mode,
                                      ck_sync_state = sync_state, ck_origin_type = origin_type,
                                      ck_checklist_status = ''PENDING'',
                                      ck_created_by_team_member_rns_identity =
                                        unwrap_or (optional_text h args
                                          [''source_identity'', ''created_by_team_member_rns_identity''])
                                          (src_rns_identity (cmd_source command)),
                                      ck_created_ts_ms = now, ck_updated_ts_ms = now, ck_uploaded_ts_ms = None,
                                      ck_progress_percent = Fin 0, ck_pending_count = 0, ck_late_count = 0,
                                      ck_complete_count = 0\<rparr>;
                                    s = insert_checklist_columns h uid columns now
                                          (s\<lparr>checklists := hm_insert uid checklist (checklists s)\<rparr>)
                                in try_st (insert_initial_checklist_tasks_from_args h uid (jget args ''tasks'') s) (\<lambda>s _.
                                   try_st (recompute_checklist_status h uid s) (\<lambda>s _.
                                     (s, Inr (unwrap_or (hm_get (checklists s) uid) checklist)))))))))))))))))"

text \<open>
  An update writes the fields in order, in place: what was written before a value is refused stays.
\<close>

definition patch_checklist ::
  "string \<Rightarrow> (checklist_record \<Rightarrow> checklist_record) \<Rightarrow> rch_core \<Rightarrow> rch_core" where
  "patch_checklist uid f s =
     (case hm_get (checklists s) uid of
        None \<Rightarrow> s | Some checklist \<Rightarrow> s\<lparr>checklists := hm_insert uid (f checklist) (checklists s)\<rparr>)"

definition patch_normalized ::
  "host \<Rightarrow> string \<Rightarrow> json \<Rightarrow> string \<Rightarrow> (string \<Rightarrow> string result) \<Rightarrow> (string \<Rightarrow> checklist_record \<Rightarrow> checklist_record)
     \<Rightarrow> rch_core \<Rightarrow> unit op" where
  "patch_normalized h uid patch key canon update s =
     (case optional_text h patch [key] of
        None \<Rightarrow> (s, Inr ())
      | Some v \<Rightarrow> try_in s (canon v) (\<lambda>v. (patch_checklist uid (update v) s, Inr ())))"

definition patch_checklist_mission :: "host \<Rightarrow> string \<Rightarrow> json \<Rightarrow> rch_core \<Rightarrow> unit op" where
  "patch_checklist_mission h uid patch s =
     (if has_key patch ''mission_uid'' \<or> has_key patch ''mission_id''
      then (let mission_uid = (case optional_text_or_empty h patch [''mission_uid'', ''mission_id''] of
                  None \<Rightarrow> None | Some t \<Rightarrow> none_if_empty t)
            in if is_some_and mission_uid (\<lambda>uid. \<not> hm_contains (missions s) uid) then (s, Inl MissionNotFound)
               else (patch_checklist uid (\<lambda>c. c\<lparr>ck_mission_uid := mission_uid\<rparr>) s, Inr ()))
      else (s, Inr ()))"

definition update_checklist_from_patch :: "host \<Rightarrow> string \<Rightarrow> json \<Rightarrow> rch_core \<Rightarrow> checklist_record op" where
  "update_checklist_from_patch h uid patch s =
     try_in s (ok_or (hm_get (checklists s) uid) (checklist_missing uid)) (\<lambda>_.
       (let s = (case optional_text h patch [''name''] of
              None \<Rightarrow> s | Some v \<Rightarrow> patch_checklist uid (\<lambda>c. c\<lparr>ck_name := v\<rparr>) s);
            s = (case optional_text_or_empty h patch [''description''] of
              None \<Rightarrow> s | Some v \<Rightarrow> patch_checklist uid (\<lambda>c. c\<lparr>ck_description := v\<rparr>) s)
        in try_st (patch_checklist_mission h uid patch s) (\<lambda>s _.
           try_st (patch_normalized h uid patch ''mode'' normalize_checklist_mode
                     (\<lambda>v c. c\<lparr>ck_mode := v\<rparr>) s) (\<lambda>s _.
           try_st (patch_normalized h uid patch ''sync_state'' normalize_checklist_sync_state
                     (\<lambda>v c. c\<lparr>ck_sync_state := v\<rparr>) s) (\<lambda>s _.
           try_st (patch_normalized h uid patch ''origin_type'' normalize_checklist_origin
                     (\<lambda>v c. c\<lparr>ck_origin_type := v\<rparr>) s) (\<lambda>s _.
           try_st (patch_normalized h uid patch ''checklist_status'' normalize_task_status
                     (\<lambda>v c. c\<lparr>ck_checklist_status := v\<rparr>) s) (\<lambda>s _.
             (let s = patch_checklist uid (\<lambda>c. c\<lparr>ck_updated_ts_ms := utc_now_ms h\<rparr>) s
              in (s, ok_or (hm_get (checklists s) uid) (checklist_missing uid))))))))))"

definition delete_checklist :: "host \<Rightarrow> string \<Rightarrow> rch_core \<Rightarrow> json op" where
  "delete_checklist h uid s =
     try_in s (ok_or (hm_get (checklists s) uid) (checklist_missing uid)) (\<lambda>checklist.
       (let s = s\<lparr>checklists := hm_remove uid (checklists s)\<rparr>;
            payload = checklist_value h s checklist;
            task_uids = map tk_task_uid (tasks_of_checklist s uid);
            assignment_uids = map an_assignment_uid
              (filter (\<lambda>assignment. an_task_uid assignment \<in> set task_uids) (hm_values (assignments s)))
        in (s\<lparr>checklist_tasks := hm_retain (\<lambda>_ task. tk_checklist_uid task \<noteq> uid) (checklist_tasks s),
              checklist_columns :=
                hm_retain (\<lambda>_ column. cc_checklist_uid column \<noteq> Some uid) (checklist_columns s),
              checklist_cells := hm_retain (\<lambda>_ cell. ce_task_uid cell \<notin> set task_uids) (checklist_cells s),
              checklist_feed_publications :=
                hm_retain (\<lambda>_ publication. pb_checklist_uid publication \<noteq> uid) (checklist_feed_publications s),
              task_skill_requirements :=
                hm_retain (\<lambda>_ requirement. rq_task_uid requirement \<notin> set task_uids) (task_skill_requirements s),
              assignments :=
                hm_retain (\<lambda>_ assignment. an_task_uid assignment \<notin> set task_uids) (assignments s),
              assignment_asset_links :=
                hs_retain (\<lambda>(assignment_uid, _). assignment_uid \<notin> set assignment_uids)
                  (assignment_asset_links s)\<rparr>,
            Inr payload)))"

definition upload_checklist :: "host \<Rightarrow> string \<Rightarrow> rch_core \<Rightarrow> checklist_record op" where
  "upload_checklist h uid s =
     try_in s (ok_or (hm_get (checklists s) uid) (checklist_missing uid)) (\<lambda>checklist.
       (let now = utc_now_ms h;
            checklist = checklist\<lparr>ck_sync_state := ''SYNCED'', ck_uploaded_ts_ms := Some now,
                                  ck_updated_ts_ms := now\<rparr>
        in (s\<lparr>checklists := hm_insert uid checklist (checklists s)\<rparr>, Inr checklist)))"

definition publish_checklist_feed ::
  "host \<Rightarrow> string \<Rightarrow> string \<Rightarrow> mission_command \<Rightarrow> rch_core \<Rightarrow> checklist_feed_publication_record op" where
  "publish_checklist_feed h uid mission_feed_uid command s =
     try_in s (ok_or (hm_get (checklists s) uid) (checklist_missing uid)) (\<lambda>checklist.
       if ck_mode checklist = ''OFFLINE'' \<and> ck_sync_state checklist \<noteq> ''SYNCED''
       then (s, Inl (InvalidPayload ''Offline checklists must be SYNCED before publication''))
       else
         (let (publication_uid, s) = new_uuid h s;
              publication = \<lparr>pb_publication_uid = publication_uid, pb_checklist_uid = uid,
                pb_mission_feed_uid = mission_feed_uid, pb_published_ts_ms = utc_now_ms h,
                pb_published_by_team_member_rns_identity =
                  unwrap_or (optional_text h (cmd_args command)
                    [''source_identity'', ''published_by_team_member_rns_identity''])
                    (src_rns_identity (cmd_source command))\<rparr>
          in (s\<lparr>checklist_feed_publications :=
                  hm_insert publication_uid publication (checklist_feed_publications s)\<rparr>,
              Inr publication)))"

subsection \<open>Importing a checklist from CSV\<close>

definition csv_cell :: "string \<Rightarrow> string" where
  "csv_cell cell = trim (remove_bom cell)"

definition csv_rows :: "string list list \<Rightarrow> string list list" where
  "csv_rows records = filter (\<lambda>row. list_ex (\<lambda>cell. cell \<noteq> []) row) (map (map csv_cell) records)"

definition csv_headers :: "string list \<Rightarrow> nat \<Rightarrow> string list" where
  "csv_headers header_row max_columns =
     map (\<lambda>index. if index < length header_row \<and> trim (header_row ! index) \<noteq> []
                  then header_row ! index else ''Column '' @ show_nat (Suc index))
       [0 ..< max_columns]"

fun position :: "('a \<Rightarrow> bool) \<Rightarrow> 'a list \<Rightarrow> nat option" where
  "position p [] = None"
| "position p (x # xs) = (if p x then Some 0 else map_option Suc (position p xs))"

definition is_due_header :: "string \<Rightarrow> bool" where
  "is_due_header header \<longleftrightarrow>
     normalize_csv_header header \<in> {''due'', ''due relative minutes'', ''due minutes''}"

definition csv_due_column :: "string \<Rightarrow> json" where
  "csv_due_column header =
     JObj [(''column_name'', JStr header), (''column_type'', JStr ''RELATIVE_TIME''),
           (''column_editable'', JBool False), (''is_removable'', JBool False),
           (''system_key'', JStr ''DUE_RELATIVE_DTG'')]"

definition csv_text_column :: "string \<Rightarrow> json" where
  "csv_text_column header =
     JObj [(''column_name'', JStr header), (''column_type'', JStr ''SHORT_STRING''),
           (''column_editable'', JBool True), (''is_removable'', JBool True)]"

definition csv_columns :: "string list \<Rightarrow> nat option \<Rightarrow> json list" where
  "csv_columns headers due_index =
     (case due_index of
        Some due \<Rightarrow>
          map (\<lambda>(index, header).
                 if index = due then csv_due_column (if header = [] then ''Due'' else header)
                 else csv_text_column header) (enumerate 0 headers)
      | None \<Rightarrow> csv_due_column ''Due'' # map csv_text_column headers)"

text \<open>Which column, by display order, holds the values of a header.\<close>

definition csv_display_orders :: "string list \<Rightarrow> nat option \<Rightarrow> (nat \<times> int) list" where
  "csv_display_orders headers due_index =
     (case due_index of
        Some due \<Rightarrow> map (\<lambda>index. (index, int index + 1)) (filter (\<lambda>index. index \<noteq> due) [0 ..< length headers])
      | None \<Rightarrow> map (\<lambda>index. (index, int index + 2)) [0 ..< length headers])"

definition csv_header_columns ::
  "rch_core \<Rightarrow> string \<Rightarrow> string list \<Rightarrow> nat option \<Rightarrow> (nat \<times> string) list" where
  "csv_header_columns s checklist_uid headers due_index =
     (let created_columns = collect_map (map (\<lambda>column. (cc_display_order column, cc_column_uid column))
            (columns_for_checklist s checklist_uid))
      in List.map_filter (\<lambda>(index, order). map_option (Pair index) (hm_get created_columns order))
           (csv_display_orders headers due_index))"

definition json_option :: "('a \<Rightarrow> json) \<Rightarrow> 'a option \<Rightarrow> json" where
  "json_option f x = (case x of None \<Rightarrow> JNull | Some v \<Rightarrow> f v)"

definition csv_source_identity :: "host \<Rightarrow> mission_command \<Rightarrow> string" where
  "csv_source_identity h command =
     unwrap_or (optional_text h (cmd_args command) [''source_identity'']) (src_rns_identity (cmd_source command))"

definition csv_create_command ::
  "host \<Rightarrow> mission_command \<Rightarrow> string \<Rightarrow> json list \<Rightarrow> mission_command" where
  "csv_create_command h command filename columns =
     command\<lparr>cmd_type := ''checklist.create.online'',
       cmd_args := JObj
         [(''name'', JStr (unwrap_or (filter_opt (\<lambda>stem. stem \<noteq> []) (file_stem filename)) ''Checklist CSV'')),
          (''description'', JStr (''Imported from '' @ filename)),
          (''origin_type'', JStr ''CSV_IMPORT''),
          (''mission_uid'', json_option JStr (optional_text h (cmd_args command) [''mission_uid'', ''mission_id''])),
          (''columns'', JArr columns),
          (''source_identity'', JStr (csv_source_identity h command))]\<rparr>"

fun import_row_cells ::
  "host \<Rightarrow> string \<Rightarrow> string \<Rightarrow> string \<Rightarrow> string list \<Rightarrow> (nat \<times> string) list \<Rightarrow> rch_core \<Rightarrow> unit op" where
  "import_row_cells h checklist_uid task_uid source row [] s = (s, Inr ())"
| "import_row_cells h checklist_uid task_uid source row ((index, column_uid) # header_columns) s =
     (if index < length row \<and> row ! index \<noteq> [] then
        try_st (set_checklist_task_cell h checklist_uid task_uid column_uid
             (JObj [(''value'', JStr (row ! index)),
                    (''updated_by_team_member_rns_identity'', JStr source)]) s) (\<lambda>s _.
          import_row_cells h checklist_uid task_uid source row header_columns s)
      else import_row_cells h checklist_uid task_uid source row header_columns s)"

definition normalized_row :: "nat \<Rightarrow> string list \<Rightarrow> string list" where
  "normalized_row width row = map (\<lambda>index. if index < length row then row ! index else []) [0 ..< width]"

definition csv_row_args :: "nat option \<Rightarrow> int \<Rightarrow> string list \<Rightarrow> json" where
  "csv_row_args due_index number row =
     JObj [(''number'', JInt number),
           (''due_relative_minutes'', json_option JInt
              (case due_index of None \<Rightarrow> None
               | Some index \<Rightarrow> if index < length row then parse_due_minutes (row ! index) else None)),
           (''legacy_value'', json_option (\<lambda>(index, value). JStr value)
              (find (\<lambda>(index, value). value \<noteq> [] \<and> is_none_or due_index (\<lambda>due. index \<noteq> due))
                 (enumerate 0 row)))]"

fun import_rows ::
  "host \<Rightarrow> string \<Rightarrow> string \<Rightarrow> nat \<Rightarrow> nat option \<Rightarrow> (nat \<times> string) list \<Rightarrow> int \<Rightarrow> string list list
     \<Rightarrow> rch_core \<Rightarrow> unit op" where
  "import_rows h checklist_uid source width due_index header_columns number [] s = (s, Inr ())"
| "import_rows h checklist_uid source width due_index header_columns number (row # rows) s =
     (let row = normalized_row width row
      in try_st (add_checklist_task_row h checklist_uid (csv_row_args due_index number row) s) (\<lambda>s updated.
         try_in s (ok_or (find (\<lambda>task. tk_checklist_uid task = ck_uid updated \<and> tk_number task = number)
                            (hm_values (checklist_tasks s)))
                     (InvalidPayload ''Checklist import failed to create task row'')) (\<lambda>task.
         try_st (import_row_cells h checklist_uid (tk_task_uid task) source row header_columns s) (\<lambda>s _.
           import_rows h checklist_uid source width due_index header_columns (number + 1) rows s))))"

definition import_checklist_csv :: "host \<Rightarrow> mission_command \<Rightarrow> rch_core \<Rightarrow> json op" where
  "import_checklist_csv h command s =
     (let args = cmd_args command;
          filename = unwrap_or (optional_text h args [''csv_filename'']) ''checklist.csv''
      in try_in s (required_text h args [''csv_base64'']) (\<lambda>encoded.
         try_in s (ok_or (base64_decode h encoded) (InvalidPayload ''csv_base64 is invalid'')) (\<lambda>decoded.
         try_in s (case csv_records h (decode_utf8_ignoring_errors decoded) of
                     Inl e \<Rightarrow> Inl (InvalidPayload e) | Inr records \<Rightarrow> Inr (csv_rows records)) (\<lambda>rows.
           (case rows of
              header_row # row # more_rows \<Rightarrow>
                (let task_rows = row # more_rows;
                     max_columns = Max (set (map length (header_row # task_rows)));
                     headers = csv_headers header_row max_columns;
                     due_index = position is_due_header headers
                 in if max_columns = 0 then (s, Inl (InvalidPayload ''CSV header row is empty''))
                    else
                      try_st (create_checklist_from_args h
                           (csv_create_command h command filename (csv_columns headers due_index))
                           ''ONLINE'' ''SYNCED'' s) (\<lambda>s checklist.
                      try_st (import_rows h (ck_uid checklist) (csv_source_identity h command)
                           (length headers) due_index
                           (csv_header_columns s (ck_uid checklist) headers due_index) 1 task_rows s) (\<lambda>s _.
                      try_in s (ok_or (hm_get (checklists s) (ck_uid checklist))
                                  (InvalidPayload ''Checklist import failed'')) (\<lambda>checklist.
                        (s, Inr (checklist_value h s checklist))))))
            | _ \<Rightarrow> (s, Inl (InvalidPayload ''CSV must include a header row and at least one task row'')))))))"

subsection \<open>The mission change of a checklist command\<close>

text \<open>\<open>value.get(key).cloned().unwrap_or(Value::Null)\<close>\<close>

definition jget_or_null :: "json \<Rightarrow> string \<Rightarrow> json" where
  "jget_or_null v k = unwrap_or (jget v k) JNull"

definition has_text :: "host \<Rightarrow> string \<Rightarrow> string \<Rightarrow> json \<Rightarrow> bool" where
  "has_text h key text v \<longleftrightarrow>
     (case jget v key of None \<Rightarrow> None | Some w \<Rightarrow> value_as_str h w) = Some text"

definition payload_tasks :: "json \<Rightarrow> json list option" where
  "payload_tasks payload = (case jget payload ''tasks'' of None \<Rightarrow> None | Some v \<Rightarrow> as_array v)"

definition selected_row :: "host \<Rightarrow> json \<Rightarrow> json \<Rightarrow> json option" where
  "selected_row h payload args =
     (case payload_tasks payload of
        None \<Rightarrow> None
      | Some tasks \<Rightarrow>
          (case optional_text h args [''task_uid''] of
             Some task_uid \<Rightarrow> find (has_text h ''task_uid'' task_uid) tasks
           | None \<Rightarrow>
               (case (case jget args ''number'' of None \<Rightarrow> None | Some v \<Rightarrow> value_as_i64 v) of
                  Some number \<Rightarrow>
                    find (\<lambda>task. (case jget task ''number'' of None \<Rightarrow> None | Some v \<Rightarrow> value_as_i64 v) = Some number)
                      (rev tasks)
                | None \<Rightarrow> if tasks = [] then None else Some (last tasks))))"

definition checklist_task_row_added_delta :: "host \<Rightarrow> json \<Rightarrow> json \<Rightarrow> json option" where
  "checklist_task_row_added_delta h payload args =
     (case selected_row h payload args of
        None \<Rightarrow> None
      | Some selected \<Rightarrow>
          Some (JObj
            [(''op'', JStr ''row_added''), (''mission_uid'', jget_or_null payload ''mission_id''),
             (''checklist_uid'', jget_or_null payload ''uid''), (''task_uid'', jget_or_null selected ''task_uid''),
             (''number'', jget_or_null selected ''number''), (''status'', jget_or_null selected ''task_status''),
             (''user_status'', jget_or_null selected ''user_status''), (''due_dtg'', jget_or_null selected ''due_dtg''),
             (''due_relative_minutes'', jget_or_null selected ''due_relative_minutes''),
             (''notes'', jget_or_null selected ''notes''),
             (''legacy_value'', jget_or_null selected ''legacy_value'')]))"

definition checklist_task_from_payload :: "host \<Rightarrow> json \<Rightarrow> json \<Rightarrow> json option" where
  "checklist_task_from_payload h payload args =
     (case payload_tasks payload of
        None \<Rightarrow> None
      | Some tasks \<Rightarrow>
          (case optional_text h args [''task_uid''] of
             None \<Rightarrow> None
           | Some task_uid \<Rightarrow> find (has_text h ''task_uid'' task_uid) tasks))"

definition delta_members :: "string \<Rightarrow> json \<Rightarrow> json \<Rightarrow> (string \<times> json) list" where
  "delta_members operation payload selected =
     [(''op'', JStr operation),
      (''mission_uid'', unwrap_or (or_else (jget payload ''mission_uid'') (jget payload ''mission_id'')) JNull),
      (''checklist_uid'', jget_or_null payload ''uid''), (''task_uid'', jget_or_null selected ''task_uid''),
      (''number'', jget_or_null selected ''number''), (''notes'', jget_or_null selected ''notes''),
      (''legacy_value'', jget_or_null selected ''legacy_value'')]"

definition checklist_task_row_style_delta :: "host \<Rightarrow> json \<Rightarrow> json \<Rightarrow> json option" where
  "checklist_task_row_style_delta h payload args =
     map_option (\<lambda>selected. JObj (delta_members ''row_style_set'' payload selected @
       [(''row_background_color'', jget_or_null selected ''row_background_color''),
        (''line_break_enabled'', jget_or_null selected ''line_break_enabled'')]))
       (checklist_task_from_payload h payload args)"

definition checklist_task_cell_set_delta :: "host \<Rightarrow> json \<Rightarrow> json \<Rightarrow> json option \<times> string option" where
  "checklist_task_cell_set_delta h payload args =
     (case checklist_task_from_payload h payload args of
        None \<Rightarrow> (None, None)
      | Some selected \<Rightarrow>
          (case optional_text h args [''column_uid''] of
             None \<Rightarrow> (None, None)
           | Some column_uid \<Rightarrow>
               (let cell = (case (case jget selected ''cells'' of None \<Rightarrow> None | Some v \<Rightarrow> as_array v) of
                      None \<Rightarrow> None | Some cells \<Rightarrow> find (has_text h ''column_uid'' column_uid) cells);
                    member = (\<lambda>key. case cell of None \<Rightarrow> None | Some cell \<Rightarrow> jget cell key);
                    updated_by =
                      (case (case member ''updated_by_team_member_rns_identity'' of
                               None \<Rightarrow> None | Some v \<Rightarrow> value_as_str h v) of
                         None \<Rightarrow> None | Some text \<Rightarrow> none_if_empty text)
                in (Some (JObj (delta_members ''cell_set'' payload selected @
                      [(''column_uid'', JStr column_uid), (''value'', unwrap_or (member ''value'') JNull),
                       (''updated_by_team_member_rns_identity'', jopt updated_by),
                       (''updated_at'', unwrap_or (member ''updated_at'') JNull)])),
                    updated_by))))"

definition checklist_task_status_set_delta ::
  "host \<Rightarrow> json \<Rightarrow> json \<Rightarrow> string option \<Rightarrow> json option \<times> string option" where
  "checklist_task_status_set_delta h payload args previous_status =
     (case checklist_task_from_payload h payload args of
        None \<Rightarrow> (None, None)
      | Some selected \<Rightarrow>
          (let changed_by = (case optional_text_or_empty h args [''changed_by_team_member_rns_identity''] of
                 None \<Rightarrow> None | Some text \<Rightarrow> none_if_empty text)
           in (Some (JObj (delta_members ''status_set'' payload selected @
                 [(''previous_status'', jopt previous_status),
                  (''current_status'', jget_or_null selected ''task_status''),
                  (''user_status'', jget_or_null selected ''user_status''),
                  (''changed_by_team_member_rns_identity'', jopt changed_by),
                  (''changed_at'', jget_or_null selected ''updated_at''),
                  (''completed_at'', jget_or_null selected ''completed_at''),
                  (''due_dtg'', jget_or_null selected ''due_dtg'')])),
               changed_by)))"

definition checklist_task_row_deleted_delta :: "host \<Rightarrow> rch_core \<Rightarrow> json \<Rightarrow> json option" where
  "checklist_task_row_deleted_delta h s args =
     (case optional_text h args [''checklist_uid''] of
        None \<Rightarrow> None
      | Some checklist_uid \<Rightarrow>
          (case optional_text h args [''task_uid''] of
             None \<Rightarrow> None
           | Some task_uid \<Rightarrow>
               (case hm_get (checklists s) checklist_uid of
                  None \<Rightarrow> None
                | Some checklist \<Rightarrow>
                    map_option (\<lambda>task. JObj
                      [(''op'', JStr ''row_deleted''), (''mission_uid'', jopt (ck_mission_uid checklist)),
                       (''checklist_uid'', JStr checklist_uid), (''task_uid'', JStr (tk_task_uid task)),
                       (''number'', JInt (tk_number task)), (''status'', JStr (tk_task_status task)),
                       (''user_status'', JStr (tk_user_status task))])
                      (filter_opt (\<lambda>task. tk_checklist_uid task = checklist_uid)
                         (hm_get (checklist_tasks s) task_uid)))))"

definition checklist_update_added_shareable_mission :: "host \<Rightarrow> string option \<Rightarrow> json \<Rightarrow> bool" where
  "checklist_update_added_shareable_mission h previous_mission_uid payload \<longleftrightarrow>
     (case (case optional_text h payload [''mission_uid'', ''mission_id''] of
              None \<Rightarrow> None | Some t \<Rightarrow> none_if_empty t) of
        None \<Rightarrow> False
      | Some current \<Rightarrow>
          \<not> is_some_and (map_option trim previous_mission_uid) (\<lambda>previous. previous = current)
          \<and> eq_ignore_ascii_case (unwrap_or (optional_text h payload [''mode'']) []) ''ONLINE''
          \<and> eq_ignore_ascii_case (unwrap_or (optional_text h payload [''sync_state'']) []) ''SYNCED'')"

text \<open>
  What the four \<open>emit_auto_checklist_..._mission_change\<close> share: the change goes to the mission
  of the payload, or to none; a task delta that is missing records nothing.
\<close>

definition emit_checklist_change ::
  "host \<Rightarrow> mission_command \<Rightarrow> json \<Rightarrow> string \<Rightarrow> string option \<Rightarrow> string \<Rightarrow> json list option \<Rightarrow> json list
     \<Rightarrow> rch_core \<Rightarrow> unit op" where
  "emit_checklist_change h command payload source_event_type member change_type tasks checklists' s =
     (let mission_uid = unwrap_or (optional_text h payload [''mission_uid'', ''mission_id'']) []
      in if mission_uid \<noteq> [] \<and> \<not> hm_contains (missions s) mission_uid then (s, Inl MissionNotFound)
         else (case tasks of
                 None \<Rightarrow> (s, Inr ())
               | Some task_deltas \<Rightarrow>
                   (let (uid, s) = new_uuid h s
                    in (record_mission_change h command
                          (auto_change h uid mission_uid source_event_type member change_type [] task_deltas
                             checklists') s,
                        Inr ()))))"

definition emit_auto_checklist_created_mission_change ::
  "host \<Rightarrow> mission_command \<Rightarrow> json \<Rightarrow> rch_core \<Rightarrow> unit op" where
  "emit_auto_checklist_created_mission_change h command payload s =
     emit_checklist_change h command payload ''mission.checklist.created''
       (optional_text_or_empty h payload [''created_by_team_member_rns_identity'']) ''ADD_CONTENT''
       (Some []) [payload] s"

definition emit_auto_checklist_uploaded_mission_change ::
  "host \<Rightarrow> mission_command \<Rightarrow> json \<Rightarrow> rch_core \<Rightarrow> unit op" where
  "emit_auto_checklist_uploaded_mission_change h command payload s =
     emit_checklist_change h command payload ''mission.checklist.uploaded''
       (case optional_text_or_empty h (cmd_args command) [''source_identity''] of
          None \<Rightarrow> None | Some text \<Rightarrow> none_if_empty text) ''ADD_CONTENT''
       (Some []) [payload] s"

definition emit_auto_checklist_task_row_added_mission_change ::
  "host \<Rightarrow> mission_command \<Rightarrow> json \<Rightarrow> rch_core \<Rightarrow> unit op" where
  "emit_auto_checklist_task_row_added_mission_change h command payload s =
     emit_checklist_change h command payload ''mission.checklist.task.row.added'' None ''ADD_CONTENT''
       (map_option (\<lambda>delta. [delta]) (checklist_task_row_added_delta h payload (cmd_args command))) [] s"

definition emit_auto_checklist_task_mutation_mission_change ::
  "host \<Rightarrow> mission_command \<Rightarrow> json \<Rightarrow> string \<Rightarrow> json option \<Rightarrow> string option \<Rightarrow> string \<Rightarrow> rch_core \<Rightarrow> unit op"
  where
  "emit_auto_checklist_task_mutation_mission_change h command payload source_event_type delta member
     change_type s =
     emit_checklist_change h command payload source_event_type member change_type
       (map_option (\<lambda>delta. [delta]) delta) [] s"

subsection \<open>The checklist commands\<close>

definition with_checklist :: "host \<Rightarrow> json \<Rightarrow> rch_core \<Rightarrow> (string \<Rightarrow> checklist_record \<Rightarrow> json op) \<Rightarrow> json op" where
  "with_checklist h args s f =
     try_in s (required_text h args [''checklist_uid'']) (\<lambda>checklist_uid.
     try_in s (ok_or (hm_get (checklists s) checklist_uid) (checklist_missing checklist_uid)) (\<lambda>checklist.
       f checklist_uid checklist))"

definition checklist_payload :: "host \<Rightarrow> mission_command \<Rightarrow> rch_core \<Rightarrow> json op" where
  "checklist_payload h command s =
     (let args = cmd_args command; ctype = cmd_type command;
          answer = (\<lambda>s checklist. (s, Inr (checklist_value h s checklist)))
      in if ctype \<in> set [''checklist.template.list'', ''checklist.template.get'', ''checklist.template.create'',
              ''checklist.template.update'', ''checklist.template.clone'', ''checklist.template.delete'']
         then apply_checklist_template_command h command s
         else if ctype = ''checklist.create.online'' then
           try_st (create_checklist_from_args h command ''ONLINE'' ''SYNCED'' s) answer
         else if ctype = ''checklist.create.offline'' then
           try_st (create_checklist_from_args h command ''OFFLINE'' ''LOCAL_ONLY'' s) answer
         else if ctype = ''checklist.list.active'' then
           (s, Inr (JObj [(''checklists'', JArr (checklist_values h s))]))
         else if ctype = ''checklist.get'' then
           with_checklist h args s (\<lambda>_ checklist. (s, Inr (checklist_value h s checklist)))
         else if ctype = ''checklist.update'' then
           try_in s (required_text h args [''checklist_uid'']) (\<lambda>checklist_uid.
           try_in s (ok_or (jget args ''patch'') (InvalidPayload ''checklist_uid and patch are required'')) (\<lambda>patch.
           try_st (update_checklist_from_patch h checklist_uid patch s) answer))
         else if ctype = ''checklist.delete'' then
           try_in s (required_text h args [''checklist_uid'']) (\<lambda>checklist_uid. delete_checklist h checklist_uid s)
         else if ctype = ''checklist.join'' then
           with_checklist h args s (\<lambda>_ checklist. (s, Inr (checklist_value h s checklist)))
         else if ctype = ''checklist.upload'' then
           try_in s (required_text h args [''checklist_uid'']) (\<lambda>checklist_uid.
           try_st (upload_checklist h checklist_uid s) answer)
         else if ctype = ''checklist.import.csv'' then import_checklist_csv h command s
         else if ctype = ''checklist.feed.publish'' then
           try_in s (required_text h args [''checklist_uid'']) (\<lambda>checklist_uid.
           try_in s (required_text h args [''mission_feed_uid'']) (\<lambda>mission_feed_uid.
           try_st (publish_checklist_feed h checklist_uid mission_feed_uid command s) (\<lambda>s publication.
             (s, Inr (checklist_feed_publication_value h publication)))))
         else if ctype \<in> set [''checklist.task.row.add'', ''checklist.task.row.delete'',
              ''checklist.task.row.style.set'', ''checklist.task.cell.set'', ''checklist.task.status.set'']
         then apply_checklist_task_command h command s
         else (s, Inl (UnsupportedCommand ctype)))"

text \<open>What the code reads before it runs the command.\<close>

definition previous_task_status :: "host \<Rightarrow> mission_command \<Rightarrow> rch_core \<Rightarrow> string option" where
  "previous_task_status h command s =
     (if cmd_type command = ''checklist.task.status.set''
      then (case optional_text h (cmd_args command) [''task_uid''] of
              None \<Rightarrow> None
            | Some task_uid \<Rightarrow> map_option tk_task_status (hm_get (checklist_tasks s) task_uid))
      else None)"

definition row_add_updates_existing :: "host \<Rightarrow> mission_command \<Rightarrow> rch_core \<Rightarrow> bool" where
  "row_add_updates_existing h command s \<longleftrightarrow>
     cmd_type command = ''checklist.task.row.add'' \<and>
     is_some_and (optional_text h (cmd_args command) [''checklist_uid'']) (\<lambda>checklist_uid.
     is_some_and (optional_text h (cmd_args command) [''task_uid'']) (\<lambda>task_uid.
     is_some_and (hm_get (checklist_tasks s) task_uid) (\<lambda>task. tk_checklist_uid task = checklist_uid)))"

definition previous_checklist_mission :: "host \<Rightarrow> mission_command \<Rightarrow> rch_core \<Rightarrow> string option" where
  "previous_checklist_mission h command s =
     (if cmd_type command = ''checklist.update''
      then (case optional_text h (cmd_args command) [''checklist_uid''] of
              None \<Rightarrow> None
            | Some checklist_uid \<Rightarrow>
                (case hm_get (checklists s) checklist_uid of
                   None \<Rightarrow> None
                 | Some checklist \<Rightarrow>
                     (case ck_mission_uid checklist of None \<Rightarrow> None | Some uid \<Rightarrow> none_if_empty uid)))
      else None)"

definition emit_for_checklist_command ::
  "host \<Rightarrow> mission_command \<Rightarrow> rch_core \<Rightarrow> json \<Rightarrow> rch_core \<Rightarrow> unit op" where
  "emit_for_checklist_command h command before payload s =
     (let args = cmd_args command; ctype = cmd_type command;
          mutation = emit_auto_checklist_task_mutation_mission_change h command payload
      in if ctype = ''checklist.create.online'' \<or> ctype = ''checklist.import.csv'' then
           emit_auto_checklist_created_mission_change h command payload s
         else if ctype = ''checklist.upload'' then
           emit_auto_checklist_uploaded_mission_change h command payload s
         else if ctype = ''checklist.update''
           \<and> checklist_update_added_shareable_mission h (previous_checklist_mission h command before) payload then
           emit_auto_checklist_created_mission_change h command payload s
         else if ctype = ''checklist.task.row.add'' \<and> \<not> row_add_updates_existing h command before then
           emit_auto_checklist_task_row_added_mission_change h command payload s
         else if ctype = ''checklist.task.row.style.set'' then
           mutation ''mission.checklist.task.row.style_set'' (checklist_task_row_style_delta h payload args) None
             ''ADD_CONTENT'' s
         else if ctype = ''checklist.task.cell.set'' then
           (let (delta, member) = checklist_task_cell_set_delta h payload args
            in mutation ''mission.checklist.task.cell_set'' delta member ''ADD_CONTENT'' s)
         else if ctype = ''checklist.task.status.set'' then
           (let (delta, member) = checklist_task_status_set_delta h payload args
                  (previous_task_status h command before)
            in mutation ''mission.checklist.task.status_set'' delta member ''ADD_CONTENT'' s)
         else if ctype = ''checklist.task.row.delete'' then
           mutation ''mission.checklist.task.row.deleted'' (checklist_task_row_deleted_delta h before args) None
             ''REMOVE_CONTENT'' s
         else (s, Inr ()))"

definition apply_checklist_command :: "host \<Rightarrow> mission_command \<Rightarrow> rch_core \<Rightarrow> event_envelope op" where
  "apply_checklist_command h command s =
     try_st (checklist_payload h command s) (\<lambda>s' payload.
     try_st (emit_for_checklist_command h command s payload s') (\<lambda>s' _.
       (s', Inr (event (checklist_event_type (cmd_type command)) command payload))))"

end
