(* ===== verification/Dispatch.thy ===== *)
theory Dispatch
  imports Checklists
begin

text \<open>
  The three ways a command enters the core (\<open>crates/r3akt-rch-core/src/lib.rs\<close>:
  \<open>handle_command\<close>, \<open>handle_mission_sync_command\<close>,
  \<open>handle_rem_registry_sync_command\<close>, \<open>handle_checklist_sync_command\<close>; the team scope of
  \<open>rem_team_scope.rs\<close>), and \<open>apply_command\<close>, which hands it to its component.
  \<open>handle_command\<close> answers a command identifier it has seen from its cache; the sync handlers
  check that the command exists, its team scope and the capability it needs before they run it.
\<close>

subsection \<open>Which component runs a command\<close>

datatype component =
    RemCommands
  | ClientCommands
  | MarkerCommands
  | ZoneCommands
  | MissionCommands
  | LogCommands
  | EamCommands
  | TeamCommands
  | TeamMemberCommands
  | AssetCommands
  | SkillCommands
  | AssignmentCommands
  | RightsCommands
  | ChecklistCommands
  | TopicCommands

definition dispatch_arms :: "(string list \<times> component) list" where
  "dispatch_arms =
     [([''rem.registry.mode.set'', ''rem.registry.peers.list'',
        ''rem.registry.team_peers.list''],
        RemCommands),
      ([''mission.join'', ''mission.leave'', ''mission.pause'', ''mission.resume'',
        ''mission.nick'', ''mission.users'', ''mission.events.list''],
        ClientCommands),
      ([''mission.marker.list'', ''mission.marker.create'',
        ''mission.marker.position.patch'', ''mission.marker.patch'',
        ''mission.marker.delete''],
        MarkerCommands),
      ([''mission.zone.list'', ''mission.zone.create'', ''mission.zone.patch'',
        ''mission.zone.delete''],
        ZoneCommands),
      ([''mission.registry.mission.upsert'', ''mission.registry.mission.get'',
        ''mission.registry.mission.list'', ''mission.registry.mission.patch'',
        ''mission.registry.mission.delete'', ''mission.registry.mission.parent.set'',
        ''mission.registry.mission.zone.link'', ''mission.registry.mission.zone.unlink'',
        ''mission.registry.mission.marker.link'',
        ''mission.registry.mission.marker.unlink'', ''mission.registry.mission.rde.set''],
        MissionCommands),
      ([''mission.registry.mission_change.upsert'',
        ''mission.registry.mission_change.list'', ''mission.registry.log_entry.upsert'',
        ''mission.registry.log_entry.list''],
        LogCommands),
      ([''mission.registry.eam.list'', ''mission.registry.eam.upsert'',
        ''mission.registry.eam.get'', ''mission.registry.eam.latest'',
        ''mission.registry.eam.delete'', ''mission.registry.eam.team.summary''],
        EamCommands),
      ([''mission.registry.team.upsert'', ''mission.registry.team.get'',
        ''mission.registry.team.list'', ''mission.registry.team.delete'',
        ''mission.registry.team.mission.link'', ''mission.registry.team.mission.unlink''],
        TeamCommands),
      ([''mission.registry.team_member.upsert'', ''mission.registry.team_member.get'',
        ''mission.registry.team_member.list'', ''mission.registry.team_member.delete'',
        ''mission.registry.team_member.client.link'',
        ''mission.registry.team_member.client.unlink''],
        TeamMemberCommands),
      ([''mission.registry.asset.upsert'', ''mission.registry.asset.get'',
        ''mission.registry.asset.list'', ''mission.registry.asset.delete''],
        AssetCommands),
      ([''mission.registry.skill.upsert'', ''mission.registry.skill.list'',
        ''mission.registry.team_member_skill.upsert'',
        ''mission.registry.team_member_skill.list'',
        ''mission.registry.task_skill_requirement.upsert'',
        ''mission.registry.task_skill_requirement.list''],
        SkillCommands),
      ([''mission.registry.assignment.upsert'', ''mission.registry.assignment.list'',
        ''mission.registry.assignment.asset.set'',
        ''mission.registry.assignment.asset.link'',
        ''mission.registry.assignment.asset.unlink''],
        AssignmentCommands),
      ([''mission.registry.rights.subjects.list'',
        ''mission.registry.rights.mission_access.assign'',
        ''mission.registry.rights.mission_access.list'',
        ''mission.registry.rights.mission_access.revoke''],
        RightsCommands),
      ([''checklist.template.list'', ''checklist.template.get'',
        ''checklist.template.create'', ''checklist.template.update'',
        ''checklist.template.clone'', ''checklist.template.delete'',
        ''checklist.create.online'', ''checklist.create.offline'',
        ''checklist.list.active'', ''checklist.get'', ''checklist.update'',
        ''checklist.delete'', ''checklist.join'', ''checklist.upload'',
        ''checklist.import.csv'', ''checklist.feed.publish'', ''checklist.task.row.add'',
        ''checklist.task.row.delete'', ''checklist.task.row.style.set'',
        ''checklist.task.cell.set'', ''checklist.task.status.set''],
        ChecklistCommands),
      ([''ListTopic'', ''topic.list'', ''CreateTopic'', ''topic.create'',
        ''topic.patch'', ''topic.delete'', ''SubscribeTopic'', ''CreateSubscriber'',
        ''AddSubscriber'', ''topic.subscribe'', ''topic.subscriber.patch'',
        ''topic.subscriber.delete'', ''mission.message.send'', ''PublishMessage''],
        TopicCommands)]"

fun run_component :: "component \<Rightarrow> host \<Rightarrow> mission_command \<Rightarrow> rch_core \<Rightarrow> event_envelope option op" where
  "run_component RemCommands h command s = apply_rem_registry_command h command s"
| "run_component ClientCommands h command s = apply_client_event_command h command s"
| "run_component MarkerCommands h command s = apply_marker_command h command s"
| "run_component ZoneCommands h command s = apply_zone_command h command s"
| "run_component MissionCommands h command s = apply_registry_mission_command h command s"
| "run_component LogCommands h command s = apply_registry_log_command h command s"
| "run_component EamCommands h command s = apply_registry_eam_command h command s"
| "run_component TeamCommands h command s = apply_registry_team_command h command s"
| "run_component TeamMemberCommands h command s = apply_registry_team_member_command h command s"
| "run_component AssetCommands h command s = apply_registry_asset_command h command s"
| "run_component SkillCommands h command s = apply_registry_skill_command h command s"
| "run_component AssignmentCommands h command s = apply_registry_assignment_command h command s"
| "run_component RightsCommands h command s = apply_registry_rights_command h command s"
| "run_component ChecklistCommands h command s =
     try_st (apply_checklist_command h command s) (\<lambda>s event. (s, Inr (Some event)))"
| "run_component TopicCommands h command s = apply_topic_command h command s"

definition apply_command :: "host \<Rightarrow> mission_command \<Rightarrow> rch_core \<Rightarrow> event_envelope option op" where
  "apply_command h command s =
     (case first_arm dispatch_arms (cmd_type command) of
        None \<Rightarrow> (s, Inl (UnsupportedCommand (cmd_type command)))
      | Some component \<Rightarrow> run_component component h command s)"

subsection \<open>Commands of the application and of the protocol\<close>

record command_outcome =
  out_result :: command_result
  out_event :: "event_envelope option"

definition event_payload :: "event_envelope option \<Rightarrow> json" where
  "event_payload ev = (case ev of None \<Rightarrow> JNull | Some ev \<Rightarrow> ev_payload ev)"

definition audit_outcome ::
  "host \<Rightarrow> mission_command \<Rightarrow> event_envelope option \<Rightarrow> rch_core \<Rightarrow> rch_core" where
  "audit_outcome h command ev s =
     (case ev of None \<Rightarrow> s | Some ev \<Rightarrow> record_audit_event h command ev s)"

definition accepted_outcome :: "mission_command \<Rightarrow> event_envelope option \<Rightarrow> command_outcome" where
  "accepted_outcome command ev =
     \<lparr>out_result =
        \<lparr>res_command_id = cmd_id command, res_status = Accepted, res_detail = None,
         res_reason_code = None, res_reason = None, res_required_capabilities = [],
         res_accepted_at = None, res_by_identity = None,
         res_correlation_id = cmd_correlation_id command, res_result = event_payload ev\<rparr>,
      out_event = ev\<rparr>"

definition rejected_outcome :: "mission_command \<Rightarrow> core_error \<Rightarrow> command_outcome" where
  "rejected_outcome command e =
     \<lparr>out_result = rejected_result command (reason_code e) (error_text e), out_event = None\<rparr>"

definition handle_command :: "host \<Rightarrow> mission_command \<Rightarrow> rch_core \<Rightarrow> rch_core \<times> command_outcome" where
  "handle_command h command s =
     (case hm_get (command_results s) (cmd_id command) of
        Some cached \<Rightarrow> (s, \<lparr>out_result = cached, out_event = None\<rparr>)
      | None \<Rightarrow>
          (let (s, outcome) =
                 (case apply_command h command s of
                    (s, Inr ev) \<Rightarrow> (audit_outcome h command ev s, accepted_outcome command ev)
                  | (s, Inl e) \<Rightarrow> (s, rejected_outcome command e))
           in (s\<lparr>command_results := hm_insert (cmd_id command) (out_result outcome) (command_results s)\<rparr>,
               outcome)))"

subsection \<open>Commands of a peer\<close>

definition event_envelope_value :: "host \<Rightarrow> mission_command \<Rightarrow> event_envelope \<Rightarrow> rch_core \<Rightarrow> rch_core \<times> json" where
  "event_envelope_value h command ev s =
     (let (event_id, s) = new_uuid h s
      in (s, JObj [(''event_id'', JStr event_id),
             (''source'', JObj [(''rns_identity'', JStr (src_rns_identity (cmd_source command)))]),
             (''timestamp'', JStr (utc_now_rfc3339 h)), (''event_type'', JStr (ev_event_type ev)),
             (''topics'', jstrs (cmd_topics command)), (''payload'', ev_payload ev)]))"

definition rem_event_envelope_value :: "event_envelope \<Rightarrow> json" where
  "rem_event_envelope_value ev =
     JObj [(''event_type'', JStr (ev_event_type ev)), (''payload'', ev_payload ev),
           (''source'', JObj [(''rns_identity'',
              (case ev_source ev of None \<Rightarrow> JNull | Some source \<Rightarrow> JStr (src_rns_identity source)))])]"

definition unauthorized :: "mission_command \<Rightarrow> string \<Rightarrow> command_result" where
  "unauthorized command capability =
     rejected_result_with_capabilities command ''unauthorized''
       (''Capability '' @ quoted capability @ '' is required'') [capability]"

definition rem_team_scope_rejection :: "rch_core \<Rightarrow> mission_command \<Rightarrow> mission_sync_response option" where
  "rem_team_scope_rejection s command =
     (case validate_rem_team_scope s command of
        Inr _ \<Rightarrow> None
      | Inl (code', reason) \<Rightarrow> Some (results (rejected_result command code' reason)))"

definition rem_registry_team_scope_rejection ::
  "rch_core \<Rightarrow> mission_command \<Rightarrow> mission_sync_response option" where
  "rem_registry_team_scope_rejection s command =
     (case validate_rem_team_scope s command of
        Inr _ \<Rightarrow> None
      | Inl (code', reason) \<Rightarrow> Some (rem_results (rejected_result command code' reason)))"

definition run_rem_command ::
  "host \<Rightarrow> mission_command \<Rightarrow> rch_core \<Rightarrow> rch_core \<times> mission_sync_response list" where
  "run_rem_command h command s =
     (let accepted = rem_results (accepted_result h command)
      in case apply_rem_registry_command h command s of
           (s, Inr ev) \<Rightarrow>
             (audit_outcome h command ev s,
              [accepted, rem_results_with_event (completed_result command (event_payload ev))
                 (map_option rem_event_envelope_value ev)])
         | (s, Inl e) \<Rightarrow>
             (s, [accepted, rem_results (rejected_result command (reason_code e) (error_text e))]))"

definition handle_rem_registry_sync_command ::
  "host \<Rightarrow> mission_command \<Rightarrow> rch_core \<Rightarrow> rch_core \<times> mission_sync_response list" where
  "handle_rem_registry_sync_command h command s =
     (let reject = (\<lambda>code' reason. (s, [rem_results (rejected_result command code' reason)]))
      in if \<not> is_supported_rem_registry_command (cmd_type command) then
           reject ''unknown_command'' (''Unsupported REM command '' @ quoted (cmd_type command))
         else case rem_registry_team_scope_rejection s command of
           Some rejection \<Rightarrow> (s, [rejection])
         | None \<Rightarrow>
             (case normalize_hash (Some (src_rns_identity (cmd_source command))) of
                None \<Rightarrow> reject ''unauthorized'' ''Source identity is required''
              | Some source_identity \<Rightarrow>
                  if \<not> identity_has_rem_announce_capabilities s source_identity then
                    reject ''unauthorized'' ''REM announce capabilities are required''
                  else if cmd_type command = ''rem.registry.team_peers.list''
                    \<and> shared_team_uids_for_rem_source s source_identity = [] then
                    reject ''unauthorized'' ''TEAM membership is required''
                  else run_rem_command h command s))"

definition run_mission_command ::
  "host \<Rightarrow> mission_command \<Rightarrow> rch_core \<Rightarrow> rch_core \<times> mission_sync_response list" where
  "run_mission_command h command s =
     (let accepted = results (accepted_result h command)
      in case apply_command h command s of
           (s, Inr None) \<Rightarrow> (s, [accepted, results (completed_result command JNull)])
         | (s, Inr (Some ev)) \<Rightarrow>
             (let (s, ev_value) = event_envelope_value h command ev (record_audit_event h command ev s)
              in (s, [accepted, results_with_event (completed_result command (ev_payload ev)) (Some ev_value)]))
         | (s, Inl e) \<Rightarrow>
             (s, [accepted, results (rejected_result command (reason_code e) (error_text e))]))"

text \<open>The capability a command needs, when the source lacks it.\<close>

definition missing_capability :: "host \<Rightarrow> mission_command \<Rightarrow> rch_core \<Rightarrow> string option" where
  "missing_capability h command s =
     filter_opt (\<lambda>capability.
         authorization_required s
         \<and> \<not> has_identity_capability s (src_rns_identity (cmd_source command)) capability
         \<and> \<not> has_mission_access_operation h s command capability)
       (required_capability (cmd_type command))"

definition handle_mission_sync_command ::
  "host \<Rightarrow> mission_command \<Rightarrow> rch_core \<Rightarrow> rch_core \<times> mission_sync_response list" where
  "handle_mission_sync_command h command s =
     (if starts_with ''rem.registry.'' (cmd_type command) then handle_rem_registry_sync_command h command s
      else if \<not> is_supported_mission_command (cmd_type command) then
        (s, [results (rejected_result command ''unknown_command''
               (''Unsupported mission command '' @ quoted (cmd_type command)))])
      else case rem_team_scope_rejection s command of
        Some rejection \<Rightarrow> (s, [rejection])
      | None \<Rightarrow>
          (case missing_capability h command s of
             Some capability \<Rightarrow> (s, [results (unauthorized command capability)])
           | None \<Rightarrow> run_mission_command h command s))"

definition missing_checklist_capability :: "host \<Rightarrow> mission_command \<Rightarrow> rch_core \<Rightarrow> string option" where
  "missing_checklist_capability h command s =
     filter_opt (\<lambda>capability.
         authorization_required s
         \<and> \<not> has_identity_capability s (src_rns_identity (cmd_source command)) capability
         \<and> \<not> has_checklist_access_operation h s command capability)
       (checklist_required_capability (cmd_type command))"

definition handle_checklist_sync_command ::
  "host \<Rightarrow> mission_command \<Rightarrow> rch_core \<Rightarrow> rch_core \<times> mission_sync_response list" where
  "handle_checklist_sync_command h command s =
     (if \<not> is_supported_checklist_command (cmd_type command) then
        (s, [results (rejected_result command ''unknown_command''
               (''Unsupported checklist command '' @ quoted (cmd_type command)))])
      else case rem_team_scope_rejection s command of
        Some rejection \<Rightarrow> (s, [rejection])
      | None \<Rightarrow>
          (case missing_checklist_capability h command s of
             Some capability \<Rightarrow> (s, [results (unauthorized command capability)])
           | None \<Rightarrow>
               (case apply_checklist_command h command s of
                  (s, Inr ev) \<Rightarrow> (record_audit_event h command ev s, [])
                | (s, Inl e) \<Rightarrow>
                    (s, [results (rejected_result command (reason_code e) (error_text e))]))))"

subsection \<open>Every command has a component and a capability\<close>

lemma apply_command_unknown:
  "first_arm dispatch_arms (cmd_type c) = None \<Longrightarrow> apply_command h c s = (s, Inl (UnsupportedCommand (cmd_type c)))"
  by (simp add: apply_command_def)

lemmas arm_lists = rem_registry_commands_def mission_commands_def checklist_commands_def

lemma dispatched_commands:
  "set (concat (map fst dispatch_arms)) = set (rem_registry_commands @ mission_commands @ checklist_commands)"
  by (simp only: dispatch_arms_def arm_lists list.map fst_conv concat.simps append.simps list.set insert_commute)

lemma dispatched_iff:
  "first_arm dispatch_arms t \<noteq> None \<longleftrightarrow> is_supported_mission_command t \<or> is_supported_checklist_command t"
  unfolding first_arm_None dispatched_commands is_supported_mission_command_def
    is_supported_rem_registry_command_def is_supported_checklist_command_def
  by auto

lemma capability_commands: "set (concat (map fst capability_arms)) = set mission_commands"
  by (simp only: capability_arms_def arm_lists list.map fst_conv concat.simps append.simps list.set insert_commute)

lemma required_capability_iff: "required_capability t \<noteq> None \<longleftrightarrow> t \<in> set mission_commands"
  unfolding required_capability_def first_arm_None capability_commands by simp

lemma checklist_capability_commands: "set (concat (map fst checklist_capability_arms)) = set checklist_commands"
  by (simp only: checklist_capability_arms_def arm_lists list.map fst_conv concat.simps append.simps list.set
        insert_commute)

lemma checklist_required_capability_iff:
  "checklist_required_capability t \<noteq> None \<longleftrightarrow> is_supported_checklist_command t"
  unfolding checklist_required_capability_def first_arm_None checklist_capability_commands
    is_supported_checklist_command_def by simp

subsection \<open>What the entry points promise\<close>

text \<open>A command identifier is answered once: later the answer comes from the cache.\<close>

lemma handle_command_cached:
  "hm_get (command_results s) (cmd_id c) = Some r \<Longrightarrow>
     handle_command h c s = (s, \<lparr>out_result = r, out_event = None\<rparr>)"
  by (simp add: handle_command_def)

lemma handle_command_stores:
  "handle_command h c s = (t, out) \<Longrightarrow> hm_get (command_results t) (cmd_id c) = Some (out_result out)"
  by (auto simp: handle_command_def Let_def split: option.splits prod.splits sum.splits)

lemma handle_command_id:
  "hm_get (command_results s) (cmd_id c) = None \<Longrightarrow> res_command_id (out_result (snd (handle_command h c s))) = cmd_id c"
  by (auto simp: handle_command_def accepted_outcome_def rejected_outcome_def Let_def
        split: prod.splits sum.splits)

text \<open>A response list is a rejection, or an acceptance followed by a result.\<close>

definition answered :: "mission_command \<Rightarrow> mission_sync_response list \<Rightarrow> bool" where
  "answered c rs \<longleftrightarrow>
     (\<exists>r. rs = [r] \<and> res_status (rsp_results_field r) = Rejected \<and> res_command_id (rsp_results_field r) = cmd_id c)
     \<or> (\<exists>r r'. rs = [r, r'] \<and> res_status (rsp_results_field r) = Accepted
          \<and> res_status (rsp_results_field r') \<in> {Completed, Rejected}
          \<and> res_command_id (rsp_results_field r) = cmd_id c \<and> res_command_id (rsp_results_field r') = cmd_id c)"

lemma run_mission_answered: "answered c (snd (run_mission_command h c s))"
  by (auto simp: run_mission_command_def answered_def Let_def split: prod.splits sum.splits option.splits)

lemma run_rem_answered: "answered c (snd (run_rem_command h c s))"
  by (auto simp: run_rem_command_def answered_def Let_def split: prod.splits sum.splits)

lemma scope_rejection:
  "rem_team_scope_rejection s c = Some r \<Longrightarrow> res_status (rsp_results_field r) = Rejected \<and> res_command_id (rsp_results_field r) = cmd_id c"
  "rem_registry_team_scope_rejection s c = Some r \<Longrightarrow> res_status (rsp_results_field r) = Rejected \<and> res_command_id (rsp_results_field r) = cmd_id c"
  by (auto simp: rem_team_scope_rejection_def rem_registry_team_scope_rejection_def split: sum.splits)

lemma unauthorized_result [simp]:
  "res_status (unauthorized c cap) = Rejected" "res_command_id (unauthorized c cap) = cmd_id c"
  "res_reason_code (unauthorized c cap) = Some ''unauthorized''"
  "res_required_capabilities (unauthorized c cap) = [cap]"
  by (simp_all add: unauthorized_def rejected_result_with_capabilities_def)

lemma rem_sync_answered: "answered c (snd (handle_rem_registry_sync_command h c s))"
  using run_rem_answered [of c h s]
  by (auto simp: handle_rem_registry_sync_command_def answered_def Let_def dest: scope_rejection split: option.splits)

lemma mission_sync_answered: "answered c (snd (handle_mission_sync_command h c s))"
  using rem_sync_answered [of c h s] run_mission_answered [of c h s]
  by (auto simp: handle_mission_sync_command_def answered_def dest: scope_rejection split: option.splits)

text \<open>A command refused before it runs leaves the state as it was.\<close>

lemma mission_sync_refused:
  assumes "handle_mission_sync_command h c s = (t, [r])"
  shows "t = s"
  using assms run_mission_answered [of c h s] run_rem_answered [of c h s]
  by (auto simp: handle_mission_sync_command_def handle_rem_registry_sync_command_def run_mission_command_def
        run_rem_command_def Let_def split: if_splits option.splits prod.splits sum.splits)

text \<open>When the hub asks for authorization, a mission command runs only for who holds its capability.\<close>

lemma mission_sync_authorized:
  assumes "handle_mission_sync_command h c s = (t, [r, r'])" and "authorization_required s"
    and "cmd_type c \<in> set mission_commands"
  shows "\<exists>cap. required_capability (cmd_type c) = Some cap
    \<and> (has_identity_capability s (src_rns_identity (cmd_source c)) cap \<or> has_mission_access_operation h s c cap)"
proof -
  obtain cap where cap: "required_capability (cmd_type c) = Some cap"
    using assms(3) required_capability_iff by blast
  have "\<not> starts_with ''rem.registry.'' (cmd_type c)"
    using assms(3) by (auto simp: mission_commands_def starts_with_def)
  with assms(1) have "missing_capability h c s = None"
    by (auto simp: handle_mission_sync_command_def split: if_splits option.splits)
  with cap assms(2) show ?thesis by (auto simp: missing_capability_def split: if_splits)
qed

end
