(* ===== verification/Checklist_Frame.thy ===== *)
theory Checklist_Frame
  imports Checklists
begin

text \<open>
  What the checklist commands change, and that they keep the invariants of the components they
  touch: the mission changes, the assignments and the skill requirements of deleted tasks.
\<close>

subsection \<open>Only the checklists, the mission changes and what hangs on deleted tasks\<close>

definition hide_checklists :: "rch_core \<Rightarrow> rch_core" where
  "hide_checklists t = t\<lparr>checklists := [], checklist_templates := [], checklist_columns := [],
     checklist_tasks := [], checklist_cells := [], checklist_feed_publications := [],
     task_skill_requirements := [], assignments := [], assignment_asset_links := [],
     mission_changes := [], audit_events := [], next_uuid := 0\<rparr>"

definition only_checklists :: "rch_core \<Rightarrow> rch_core \<Rightarrow> bool" where
  "only_checklists s t \<longleftrightarrow> hide_checklists t = hide_checklists s"

lemma only_checklists_simps [simp]:
  "only_checklists s s"
  "only_checklists s (t\<lparr>checklists := a\<rparr>) = only_checklists s t"
  "only_checklists s (t\<lparr>checklist_templates := b\<rparr>) = only_checklists s t"
  "only_checklists s (t\<lparr>checklist_columns := c\<rparr>) = only_checklists s t"
  "only_checklists s (t\<lparr>checklist_tasks := d\<rparr>) = only_checklists s t"
  "only_checklists s (t\<lparr>checklist_cells := e\<rparr>) = only_checklists s t"
  "only_checklists s (t\<lparr>checklist_feed_publications := f\<rparr>) = only_checklists s t"
  "only_checklists s (t\<lparr>task_skill_requirements := g\<rparr>) = only_checklists s t"
  "only_checklists s (t\<lparr>assignments := h\<rparr>) = only_checklists s t"
  "only_checklists s (t\<lparr>assignment_asset_links := i\<rparr>) = only_checklists s t"
  "only_checklists s (t\<lparr>mission_changes := j\<rparr>) = only_checklists s t"
  "only_checklists s (t\<lparr>audit_events := k\<rparr>) = only_checklists s t"
  "only_checklists s (t\<lparr>next_uuid := n\<rparr>) = only_checklists s t"
  by (simp_all add: only_checklists_def hide_checklists_def)

lemma only_checklists_fresh: "only_checklists s r \<Longrightarrow> or_new_uuid h r x = (u, t) \<Longrightarrow> only_checklists s t"
  by (auto dest!: or_new_uuid_frame)

text \<open>
  A step that leaves a property as it was: the property is one of the fields the step does not write.
  The fields are given as conditions on the property, so one induction serves every property.
\<close>

locale template_blind =
  fixes inv :: "rch_core \<Rightarrow> bool"
  assumes blind_uuid [simp]: "inv (s\<lparr>next_uuid := n\<rparr>) = inv s"
    and blind_templates [simp]: "inv (s\<lparr>checklist_templates := b\<rparr>) = inv s"
    and blind_columns [simp]: "inv (s\<lparr>checklist_columns := c\<rparr>) = inv s"
    and blind_publications [simp]: "inv (s\<lparr>checklist_feed_publications := f\<rparr>) = inv s"
begin

lemma blind_fresh: "inv r \<Longrightarrow> or_new_uuid h r x = (u, t) \<Longrightarrow> inv t"
  by (auto dest!: or_new_uuid_frame)

lemma blind_insert_columns [simp]:
  "inv (insert_columns h ks cu tu now i columns s) = inv s"
  by (induction h ks cu tu now i columns s rule: insert_columns.induct) (simp_all add: new_uuid_def)

lemma blind_template_columns [simp]: "inv (replace_template_columns h u columns now s) = inv s"
  by (simp add: replace_template_columns_def)

lemma blind_checklist_columns [simp]: "inv (insert_checklist_columns h u columns now s) = inv s"
  by (simp add: insert_checklist_columns_def)

lemma blind_create_template [keeps]: "inv s \<Longrightarrow> leaves inv (create_checklist_template h v src s)"
  unfolding create_checklist_template_def Let_def
  by (intro keeps; simp?) (erule (1) blind_fresh)+

lemma blind_update_template [keeps]: "inv s \<Longrightarrow> leaves inv (update_checklist_template h u v s)"
  unfolding update_checklist_template_def Let_def
  by (intro keeps; simp?)

lemma blind_clone_template [keeps]: "inv s \<Longrightarrow> leaves inv (clone_checklist_template h c u n s)"
  unfolding clone_checklist_template_def Let_def
  by (intro keeps; simp?)

lemma blind_delete_template [keeps]: "inv s \<Longrightarrow> leaves inv (delete_checklist_template h u s)"
  unfolding delete_checklist_template_def Let_def
  by (intro keeps; simp?)

lemma blind_template_command [keeps]: "inv s \<Longrightarrow> leaves inv (apply_checklist_template_command h c s)"
  unfolding apply_checklist_template_command_def Let_def
  by (intro keeps; simp?)

lemma blind_publish [keeps]: "inv s \<Longrightarrow> leaves inv (publish_checklist_feed h u f c s)"
  unfolding publish_checklist_feed_def new_uuid_def Let_def by (intro keeps; simp?)

end

text \<open>A property the checklists, their tasks and their cells are no part of.\<close>

locale row_blind =
  fixes inv :: "rch_core \<Rightarrow> bool"
  assumes row_uuid [simp]: "inv (s\<lparr>next_uuid := n\<rparr>) = inv s"
    and blind_checklists [simp]: "inv (s\<lparr>checklists := a\<rparr>) = inv s"
    and blind_tasks [simp]: "inv (s\<lparr>checklist_tasks := d\<rparr>) = inv s"
    and blind_cells [simp]: "inv (s\<lparr>checklist_cells := e\<rparr>) = inv s"
begin

lemma row_fresh: "inv r \<Longrightarrow> or_new_uuid h r x = (u, t) \<Longrightarrow> inv t"
  by (auto dest!: or_new_uuid_frame)

lemma blind_insert_cells [simp]: "inv (insert_cells h u columns s) = inv s"
  by (induction h u columns s rule: insert_cells.induct) (simp_all add: new_uuid_def)

lemma blind_put_task [simp]: "inv (put_task u t s) = inv s"
  by (simp add: put_task_def)

lemma blind_patch [simp]: "inv (patch_checklist u f s) = inv s"
  by (simp add: patch_checklist_def split: option.split)

lemma blind_recompute_tasks: "inv s \<Longrightarrow> leaves inv (recompute_tasks h us y s)"
  by (induction h us y s rule: recompute_tasks.induct)
     (auto intro!: keeps simp: Let_def result_eqs)

lemma blind_recompute [keeps]: "inv s \<Longrightarrow> leaves inv (recompute_checklist_status h u s)"
  unfolding recompute_checklist_status_def Let_def
  by (intro keeps blind_recompute_tasks) simp_all

lemma blind_add_row [keeps]: "inv s \<Longrightarrow> leaves inv (add_checklist_task_row h u args s)"
  unfolding add_checklist_task_row_def Let_def
  by (intro keeps; simp?) (erule (1) row_fresh)+

lemma blind_delete_row [keeps]: "inv s \<Longrightarrow> leaves inv (delete_checklist_task_row h u t s)"
  unfolding delete_checklist_task_row_def by (intro keeps; simp?)

lemma blind_row_style [keeps]: "inv s \<Longrightarrow> leaves inv (set_checklist_task_row_style h u t args s)"
  unfolding set_checklist_task_row_style_def Let_def by (intro keeps; simp?)

lemma blind_cell [keeps]: "inv s \<Longrightarrow> leaves inv (set_checklist_task_cell h u t c args s)"
  unfolding set_checklist_task_cell_def Let_def
  by (intro keeps; simp?) (erule (1) row_fresh)+

lemma blind_status [keeps]: "inv s \<Longrightarrow> leaves inv (set_checklist_task_status h u t args s)"
  unfolding set_checklist_task_status_def by (intro keeps; simp?)

lemma blind_task_command [keeps]: "inv s \<Longrightarrow> leaves inv (apply_checklist_task_command h c s)"
  unfolding apply_checklist_task_command_def Let_def by (intro keeps; simp?)

lemma blind_initial_cells [keeps]: "inv s \<Longrightarrow> leaves inv (insert_initial_cells h u bo bn t cells s)"
proof (induction h u bo bn t cells s rule: insert_initial_cells.induct)
  case (2 h u bo bn t cell cells s)
  then show ?case unfolding insert_initial_cells.simps by (intro keeps) auto
qed (simp add: keeps)

lemma blind_initial_tasks [keeps]: "inv s \<Longrightarrow> leaves inv (insert_initial_tasks h u bo bn tasks s)"
proof (induction h u bo bn tasks s rule: insert_initial_tasks.induct)
  case (2 h u bo bn task tasks s)
  then show ?case unfolding insert_initial_tasks.simps Let_def by (intro keeps; blast?)
qed (simp add: keeps)

lemma blind_initial [keeps]: "inv s \<Longrightarrow> leaves inv (insert_initial_checklist_tasks_from_args h u v s)"
  unfolding insert_initial_checklist_tasks_from_args_def Let_def by (intro keeps; simp?)

lemma blind_patch_normalized [keeps]: "inv s \<Longrightarrow> leaves inv (patch_normalized h u v key canon f s)"
  unfolding patch_normalized_def by (intro keeps; simp?)

lemma blind_patch_mission [keeps]: "inv s \<Longrightarrow> leaves inv (patch_checklist_mission h u v s)"
  unfolding patch_checklist_mission_def Let_def by (intro keeps; simp?)

lemma blind_update [keeps]: "inv s \<Longrightarrow> leaves inv (update_checklist_from_patch h u v s)"
  unfolding update_checklist_from_patch_def Let_def
  by (intro keeps; simp split: option.split)

lemma blind_upload [keeps]: "inv s \<Longrightarrow> leaves inv (upload_checklist h u s)"
  unfolding upload_checklist_def Let_def by (intro keeps; simp?)

lemma blind_row_cells [keeps]: "inv s \<Longrightarrow> leaves inv (import_row_cells h u t src row hs s)"
proof (induction h u t src row hs s rule: import_row_cells.induct)
  case (2 h u t src row index column_uid hs s)
  then show ?case unfolding import_row_cells.simps by (intro keeps) auto
qed (simp add: keeps)

lemma blind_rows [keeps]: "inv s \<Longrightarrow> leaves inv (import_rows h u src w due hs n rows s)"
proof (induction h u src w due hs n rows s rule: import_rows.induct)
  case (2 h u src w due hs n row rows s)
  then show ?case unfolding import_rows.simps Let_def by (intro keeps; blast?)
qed (simp add: keeps)

end

text \<open>A property that also outlives new columns, a template command and a publication.\<close>

locale payload_kept = row_blind +
  assumes kept_columns: "inv s \<Longrightarrow> inv (insert_checklist_columns h u columns now s)"
    and kept_templates [keeps]: "inv s \<Longrightarrow> leaves inv (apply_checklist_template_command h c s)"
    and kept_publish [keeps]: "inv s \<Longrightarrow> leaves inv (publish_checklist_feed h u f c s)"
begin

lemma kept_create [keeps]: "inv s \<Longrightarrow> leaves inv (create_checklist_from_args h c mode sync s)"
  unfolding create_checklist_from_args_def Let_def
  by (intro keeps; (rule kept_columns)?; simp?; (erule (1) row_fresh)?)

lemma kept_import [keeps]: "inv s \<Longrightarrow> leaves inv (import_checklist_csv h c s)"
  unfolding import_checklist_csv_def Let_def
  by (intro keeps; simp?)

text \<open>Every checklist command that deletes no checklist, up to the mission change it records.\<close>

lemma kept_payload:
  "inv s \<Longrightarrow> cmd_type c \<noteq> ''checklist.delete'' \<Longrightarrow> leaves inv (checklist_payload h c s)"
  unfolding checklist_payload_def with_checklist_def Let_def
  by (intro keeps; simp?)

end

text \<open>A property the mission changes and the audit log are no part of.\<close>

locale change_blind =
  fixes inv :: "rch_core \<Rightarrow> bool"
  assumes aside_uuid [simp]: "inv (s\<lparr>next_uuid := n\<rparr>) = inv s"
    and aside_changes [simp]: "inv (s\<lparr>mission_changes := a\<rparr>) = inv s"
    and aside_audit [simp]: "inv (s\<lparr>audit_events := b\<rparr>) = inv s"
begin

lemma aside_emit [keeps]: "inv s \<Longrightarrow> leaves inv (emit_checklist_change h c v e m ty ts cs s)"
  unfolding emit_checklist_change_def record_mission_change_def record_audit_event_def new_uuid_def Let_def
  by (intro keeps; simp?)

lemma aside_emit_for: "inv s \<Longrightarrow> leaves inv (emit_for_checklist_command h c before v s)"
  unfolding emit_for_checklist_command_def emit_auto_checklist_created_mission_change_def
    emit_auto_checklist_uploaded_mission_change_def emit_auto_checklist_task_row_added_mission_change_def
    emit_auto_checklist_task_mutation_mission_change_def Let_def
  by (intro keeps; simp?)

end

locale payload_aside = payload_kept + change_blind
begin

lemma aside_command:
  assumes "inv s" and "\<And>u. leaves inv (delete_checklist h u s)"
  shows "leaves inv (apply_checklist_command h c s)"
proof -
  have "leaves inv (checklist_payload h c s)"
  proof (cases "cmd_type c = ''checklist.delete''")
    case True
    then show ?thesis
      unfolding checklist_payload_def Let_def using assms by (auto intro!: keeps)
  next
    case False
    with assms(1) show ?thesis by (rule kept_payload)
  qed
  then show ?thesis
    unfolding apply_checklist_command_def by (intro keeps aside_emit_for; simp?)
qed

end

text \<open>A property no field of the checklists is part of.\<close>

locale checklist_blind = template_blind + row_blind

sublocale checklist_blind \<subseteq> payload_kept
  by unfold_locales (simp_all add: blind_template_command blind_publish)

locale checklist_aside = checklist_blind + change_blind

sublocale checklist_aside \<subseteq> payload_aside
  by unfold_locales

subsection \<open>The invariants the checklist commands keep\<close>

interpretation checklist_frame: checklist_aside "only_checklists s"
  by unfold_locales simp_all

lemma checklist_command_frame: "leaves (only_checklists s) (apply_checklist_command h c s)"
  by (rule checklist_frame.aside_command) (auto simp: delete_checklist_def Let_def intro!: keeps)

end
