(* ===== verification/Checklist_Rules.thy ===== *)
theory Checklist_Rules
  imports Checklist_Frame
begin

text \<open>
  What keeps a checklist consistent: recomputing refreshes every task and stores the tally of the
  tasks, and every command leaves each checklist with the summary of its tasks, each task in an
  existing checklist and each cell in an existing task.
\<close>

subsection \<open>Recomputing is refreshing every task and counting\<close>

definition refresh_rows ::
  "host \<Rightarrow> string set \<Rightarrow> (string, checklist_task_record) hmap \<Rightarrow> (string, checklist_task_record) hmap" where
  "refresh_rows h us m = map (\<lambda>(k, task). (k, if k \<in> us then refresh_task h task else task)) m"

definition tally_of :: "checklist_task_record list \<Rightarrow> tally" where
  "tally_of tasks = fold count_task tasks no_tally"

lemma refresh_task_idem [simp]: "refresh_task h (refresh_task h task) = refresh_task h task"
  by (simp add: refresh_task_def split_beta)

lemma refresh_task_fields [simp]:
  "tk_task_uid (refresh_task h task) = tk_task_uid task"
  "tk_checklist_uid (refresh_task h task) = tk_checklist_uid task"
  "tk_user_status (refresh_task h task) = tk_user_status task"
  "tk_completed_ts_ms (refresh_task h task) = tk_completed_ts_ms task"
  "tk_number (refresh_task h task) = tk_number task"
  "tk_due_ts_ms (refresh_task h task) = tk_due_ts_ms task"
  by (simp_all add: refresh_task_def split_beta)

lemma refresh_rows_empty [simp]: "refresh_rows h {} m = m"
  by (induction m) (auto simp: refresh_rows_def)

lemma hm_get_refresh [simp]:
  "hm_get (refresh_rows h us m) k =
     map_option (\<lambda>task. if k \<in> us then refresh_task h task else task) (hm_get m k)"
  by (induction m) (auto simp: refresh_rows_def)

lemma hm_wf_refresh [simp]: "hm_wf (refresh_rows h us m) = hm_wf m"
  by (simp add: hm_wf_def refresh_rows_def split_def comp_def)

lemma hm_insert_present:
  "hm_wf m \<Longrightarrow> hm_get m k = Some v \<Longrightarrow> hm_insert k w m = map (\<lambda>(k', v'). (k', if k' = k then w else v')) m"
proof (induction m)
  case (Cons x m)
  obtain k' v' where x: "x = (k', v')" by (cases x)
  show ?case
  proof (cases "k' = k")
    case True
    with Cons.prems(1) have "k \<notin> fst ` set m" by (auto simp: hm_wf_def x)
    then have "map (\<lambda>(k', v'). (k', if k' = k then w else v')) m = m"
      by (intro map_idI) force
    with True show ?thesis by (simp add: x hm_insert_def)
  next
    case False
    with Cons show ?thesis by (simp add: x hm_insert_def hm_wf_def)
  qed
qed simp

lemma refresh_rows_insert:
  assumes "hm_wf m" and "hm_get m u = Some task"
  shows "refresh_rows h us (hm_insert u (refresh_task h task) m) = refresh_rows h (insert u us) m"
proof -
  have "hm_get m k = Some v" if "(k, v) \<in> set m" for k v
    using that assms(1) by (simp add: hm_get_iff_in)
  with assms show ?thesis
    by (auto simp: hm_insert_present refresh_rows_def)
qed

lemma recompute_tasks_eq:
  assumes "hm_wf (checklist_tasks s)" and "\<forall>u \<in> set us. hm_contains (checklist_tasks s) u"
  shows "recompute_tasks h us y s =
    (s\<lparr>checklist_tasks := refresh_rows h (set us) (checklist_tasks s)\<rparr>,
     Inr (fold count_task (map (\<lambda>u. refresh_task h (the (hm_get (checklist_tasks s) u))) us) y))"
  using assms
proof (induction us arbitrary: y s)
  case (Cons u us)
  then obtain task where u: "hm_get (checklist_tasks s) u = Some task"
    by (auto simp: hm_contains_def)
  let ?s = "s\<lparr>checklist_tasks := hm_insert u (refresh_task h task) (checklist_tasks s)\<rparr>"
  have same: "(\<lambda>v. refresh_task h (the (hm_get (checklist_tasks ?s) v))) =
      (\<lambda>v. refresh_task h (the (hm_get (checklist_tasks s) v)))"
    by (simp add: fun_eq_iff u)
  have "recompute_tasks h us (count_task (refresh_task h task) y) ?s =
    (?s\<lparr>checklist_tasks := refresh_rows h (set us) (checklist_tasks ?s)\<rparr>,
     Inr (fold count_task (map (\<lambda>u. refresh_task h (the (hm_get (checklist_tasks s) u))) us)
       (count_task (refresh_task h task) y)))"
    using Cons.IH [of ?s] Cons.prems unfolding same by auto
  then show ?case
    using Cons.prems(1) u by (simp add: Let_def refresh_rows_insert)
qed simp

text \<open>A checklist and its tasks.\<close>

definition task_ok :: "rch_core \<Rightarrow> string \<Rightarrow> checklist_task_record \<Rightarrow> bool" where
  "task_ok s k task \<longleftrightarrow> tk_task_uid task = k \<and> hm_contains (checklists s) (tk_checklist_uid task)
     \<and> (tk_user_status task = ''COMPLETE'' \<longleftrightarrow> tk_completed_ts_ms task \<noteq> None)"

definition rows_ok :: "rch_core \<Rightarrow> bool" where
  "rows_ok s \<longleftrightarrow> hm_wf (checklist_tasks s) \<and> hm_wf (checklist_cells s)
     \<and> (\<forall>k task. hm_get (checklist_tasks s) k = Some task \<longrightarrow> task_ok s k task)
     \<and> (\<forall>k cell. hm_get (checklist_cells s) k = Some cell \<longrightarrow>
          ce_cell_uid cell = k \<and> hm_contains (checklist_tasks s) (ce_task_uid cell))"

lemma tasks_of_checklist_iff:
  assumes "rows_ok s"
  shows "task \<in> set (tasks_of_checklist s u) \<longleftrightarrow>
    hm_get (checklist_tasks s) (tk_task_uid task) = Some task \<and> tk_checklist_uid task = u"
proof -
  have "hm_get (checklist_tasks s) (tk_task_uid task) = Some task" if "task \<in> set (hm_values (checklist_tasks s))"
    using that assms by (auto simp: rows_ok_def task_ok_def dest!: hm_in_values)
  then show ?thesis
    by (auto simp: tasks_of_checklist_def dest: hm_get_in_values)
qed

lemma tasks_of_refreshed:
  assumes "rows_ok s" and "us = tk_task_uid ` set (tasks_of_checklist s u)"
  shows "tasks_of_checklist (s\<lparr>checklist_tasks := refresh_rows h us (checklist_tasks s)\<rparr>) v =
    (if v = u then map (refresh_task h) (tasks_of_checklist s u) else tasks_of_checklist s v)"
proof -
  have key: "tk_task_uid task = k \<and> hm_get (checklist_tasks s) k = Some task" if "(k, task) \<in> set (checklist_tasks s)" for k task
    using that assms(1) by (auto simp: rows_ok_def task_ok_def hm_get_iff_in)
  have us: "k \<in> us \<longleftrightarrow> tk_checklist_uid task = u" if "(k, task) \<in> set (checklist_tasks s)" for k task
  proof
    assume "k \<in> us"
    then obtain other where "other \<in> set (tasks_of_checklist s u)" "k = tk_task_uid other"
      using assms(2) by blast
    with key [OF that] show "tk_checklist_uid task = u"
      by (simp add: tasks_of_checklist_iff [OF assms(1)])
  next
    assume "tk_checklist_uid task = u"
    with key [OF that] show "k \<in> us"
      using assms(2) by (auto simp: tasks_of_checklist_iff [OF assms(1)])
  qed
  then have "map snd (refresh_rows h us (checklist_tasks s)) =
      map (\<lambda>(k, task). if tk_checklist_uid task = u then refresh_task h task else task) (checklist_tasks s)"
    by (auto simp: refresh_rows_def)
  moreover have filters: "filter (\<lambda>task. tk_checklist_uid task = v)
        (map (\<lambda>(k, task). if tk_checklist_uid task = u then refresh_task h task else task) xs) =
      (if v = u then map (refresh_task h) (filter (\<lambda>task. tk_checklist_uid task = u) (map snd xs))
       else filter (\<lambda>task. tk_checklist_uid task = v) (map snd xs))" for xs
    by (induction xs) auto
  ultimately show ?thesis
    using filters [of "checklist_tasks s"] by (cases "v = u") (simp_all add: tasks_of_checklist_def hm_values_def)
qed

text \<open>The specification of \<open>recompute_checklist_status\<close>.\<close>

definition recomputed :: "host \<Rightarrow> string \<Rightarrow> checklist_record \<Rightarrow> rch_core \<Rightarrow> rch_core" where
  "recomputed h u checklist s = s\<lparr>
     checklist_tasks := refresh_rows h (tk_task_uid ` set (tasks_of_checklist s u)) (checklist_tasks s),
     checklists := hm_insert u
       (summarise h (tally_of (map (refresh_task h) (tasks_of_checklist s u))) checklist) (checklists s)\<rparr>"

lemma recompute_eq:
  assumes "rows_ok s" and "hm_get (checklists s) u = Some checklist"
  shows "recompute_checklist_status h u s =
    (recomputed h u checklist s,
     Inr (summarise h (tally_of (map (refresh_task h) (tasks_of_checklist s u))) checklist))"
proof -
  have get: "hm_get (checklist_tasks s) (tk_task_uid task) = Some task" if "task \<in> set (tasks_of_checklist s u)" for task
    using that by (simp add: tasks_of_checklist_iff [OF assms(1)])
  have tasks: "map (\<lambda>x. refresh_task h (the (hm_get (checklist_tasks s) (tk_task_uid x)))) (tasks_of_checklist s u) =
      map (refresh_task h) (tasks_of_checklist s u)"
    using get by simp
  have "recompute_tasks h (map tk_task_uid (tasks_of_checklist s u)) no_tally s =
    (s\<lparr>checklist_tasks := refresh_rows h (tk_task_uid ` set (tasks_of_checklist s u)) (checklist_tasks s)\<rparr>,
     Inr (tally_of (map (refresh_task h) (tasks_of_checklist s u))))"
    using get assms(1)
    by (subst recompute_tasks_eq) (auto simp: rows_ok_def hm_contains_def tally_of_def tasks comp_def)
  with assms(2) show ?thesis
    by (simp add: recompute_checklist_status_def recomputed_def Let_def)
qed

subsection \<open>Every checklist shows the summary of its tasks\<close>

definition summary_ok :: "rch_core \<Rightarrow> string \<Rightarrow> checklist_record \<Rightarrow> bool" where
  "summary_ok s u checklist \<longleftrightarrow>
     (let y = tally_of (tasks_of_checklist s u)
      in ck_pending_count checklist = ty_pending y \<and> ck_late_count checklist = ty_late y
         \<and> ck_complete_count checklist = ty_complete y
         \<and> ck_progress_percent checklist = progress_of (ty_complete y) (ty_pending y + ty_complete y))"

text \<open>What the tally counts.\<close>

lemma fold_count_task:
  "fold count_task tasks y =
     \<lparr>ty_pending = ty_pending y + int (length (filter (\<lambda>t. tk_user_status t \<noteq> ''COMPLETE'') tasks)),
      ty_late = ty_late y + int (length (filter (\<lambda>t. tk_user_status t \<noteq> ''COMPLETE'' \<and> tk_task_status t = ''LATE'') tasks)),
      ty_complete = ty_complete y + int (length (filter (\<lambda>t. tk_user_status t = ''COMPLETE'') tasks)),
      ty_complete_late = (ty_complete_late y
        \<or> (\<exists>t \<in> set tasks. tk_user_status t = ''COMPLETE'' \<and> tk_task_status t = ''COMPLETE_LATE''))\<rparr>"
proof (induction tasks arbitrary: y)
  case (Cons task tasks)
  show ?case
    unfolding fold_simps Cons.IH by (simp add: count_task_def)
qed simp

lemmas tally_counts = fold_count_task [where y = no_tally, folded tally_of_def]

definition checklists_but :: "string option \<Rightarrow> rch_core \<Rightarrow> bool" where
  "checklists_but x s \<longleftrightarrow> rows_ok s \<and> hm_wf (checklists s)
     \<and> (\<forall>u checklist. hm_get (checklists s) u = Some checklist \<longrightarrow>
          ck_uid checklist = u \<and> (x \<noteq> Some u \<longrightarrow> summary_ok s u checklist))"

abbreviation checklists_ok :: "rch_core \<Rightarrow> bool" where
  "checklists_ok \<equiv> checklists_but None"

lemma summary_of_summarise:
  "summary_ok s u (summarise h (tally_of (tasks_of_checklist s u)) checklist)"
  by (simp add: summary_ok_def summarise_def Let_def)

lemma tasks_of_cong: "checklist_tasks t = checklist_tasks s \<Longrightarrow> tasks_of_checklist t u = tasks_of_checklist s u"
  by (simp add: tasks_of_checklist_def)

lemma summary_ok_cong: "checklist_tasks t = checklist_tasks s \<Longrightarrow> summary_ok t u c = summary_ok s u c"
  using tasks_of_cong [of t s u] by (simp add: summary_ok_def)

lemma rows_ok_cong:
  assumes "checklist_tasks t = checklist_tasks s" "checklist_cells t = checklist_cells s"
    and "\<And>u. hm_contains (checklists t) u = hm_contains (checklists s) u"
  shows "rows_ok t = rows_ok s"
  using assms by (simp add: rows_ok_def task_ok_def)

lemma checklists_but_cong:
  assumes "checklist_tasks t = checklist_tasks s" "checklist_cells t = checklist_cells s"
    and "checklists t = checklists s"
  shows "checklists_but x t = checklists_but x s"
proof -
  have "rows_ok t = rows_ok s" using assms by (intro rows_ok_cong) simp_all
  moreover have "summary_ok t = summary_ok s" using assms(1) by (intro ext summary_ok_cong)
  ultimately show ?thesis using assms(3) by (simp add: checklists_but_def)
qed

interpretation checklist_summaries: template_blind "checklists_but x"
  by unfold_locales (rule checklists_but_cong; simp)+

interpretation checklist_changes: change_blind "checklists_but x"
  by unfold_locales (rule checklists_but_cong; simp)+

lemma checklists_but_weaken: "checklists_ok s \<Longrightarrow> checklists_but x s"
  by (simp add: checklists_but_def)

lemma no_tasks:
  assumes "rows_ok s" and "\<not> hm_contains (checklists s) u"
  shows "tasks_of_checklist s u = []"
proof -
  have "task \<notin> set (tasks_of_checklist s u)" for task
    using assms tasks_of_checklist_iff [OF assms(1), of task u]
    by (auto simp: rows_ok_def task_ok_def)
  then show ?thesis by (cases "tasks_of_checklist s u") auto
qed

lemma rows_ok_recomputed:
  assumes "rows_ok s" and "hm_contains (checklists s) u"
  shows "rows_ok (recomputed h u checklist s)"
  using assms
  by (auto simp: rows_ok_def task_ok_def recomputed_def hm_contains_def split: if_splits)

lemma checklists_ok_recompute:
  assumes "checklists_but (Some u) s"
  shows "leaves checklists_ok (recompute_checklist_status h u s)"
proof (cases "hm_get (checklists s) u")
  case None
  from assms have rows: "rows_ok s" by (simp add: checklists_but_def)
  with None have "tasks_of_checklist s u = []" by (intro no_tasks) (simp_all add: hm_contains_def)
  with None have "fst (recompute_checklist_status h u s) = s"
    by (simp add: recompute_checklist_status_def)
  moreover from assms None have "checklists_ok s"
    unfolding checklists_but_def by (metis option.distinct(1) option.inject)
  ultimately show ?thesis by (simp add: leaves_def)
next
  case (Some checklist)
  from assms have rows: "rows_ok s" by (simp add: checklists_but_def)
  let ?t = "recomputed h u checklist s"
  have tasks: "tasks_of_checklist ?t v =
      (if v = u then map (refresh_task h) (tasks_of_checklist s u) else tasks_of_checklist s v)" for v
  proof -
    have "tasks_of_checklist ?t v = tasks_of_checklist
        (s\<lparr>checklist_tasks := refresh_rows h (tk_task_uid ` set (tasks_of_checklist s u)) (checklist_tasks s)\<rparr>) v"
      by (rule tasks_of_cong) (simp add: recomputed_def)
    then show ?thesis by (simp add: tasks_of_refreshed [OF rows refl])
  qed
  have "ck_uid c = v \<and> summary_ok ?t v c" if "hm_get (checklists ?t) v = Some c" for v c
  proof (cases "v = u")
    case True
    have "hm_get (checklists ?t) u = Some (summarise h (tally_of (tasks_of_checklist ?t u)) checklist)"
      by (subst tasks) (simp add: recomputed_def)
    with that True have "c = summarise h (tally_of (tasks_of_checklist ?t u)) checklist" by simp
    moreover have "ck_uid checklist = u" using assms Some by (simp add: checklists_but_def)
    ultimately show ?thesis using True summary_of_summarise by (simp add: summarise_def)
  next
    case False
    with that have "hm_get (checklists s) v = Some c" by (simp add: recomputed_def)
    with assms False have "ck_uid c = v \<and> summary_ok s v c" by (simp add: checklists_but_def)
    with False show ?thesis by (simp add: summary_ok_def tasks)
  qed
  moreover have "rows_ok ?t" using rows Some by (intro rows_ok_recomputed) (simp_all add: hm_contains_def)
  moreover have "hm_wf (checklists ?t)" using assms by (simp add: checklists_but_def recomputed_def)
  ultimately have "checklists_ok ?t" by (simp add: checklists_but_def)
  then show ?thesis by (simp add: recompute_eq [OF rows Some] leaves_def)
qed

lemma checklists_ok_recompute_again:
  "checklists_ok s \<Longrightarrow> leaves checklists_ok (recompute_checklist_status h u s)"
  by (rule checklists_ok_recompute) (rule checklists_but_weaken)

text \<open>Writing a task of a checklist disturbs no other checklist.\<close>

lemma filter_values_insert:
  "\<not> p v \<Longrightarrow> (\<And>old. hm_get m k = Some old \<Longrightarrow> \<not> p old) \<Longrightarrow>
     filter p (hm_values (hm_insert k v m)) = filter p (hm_values m)"
  by (induction m) (auto simp: hm_values_def hm_insert_def split: if_splits)

lemma filter_values_drop:
  "(\<And>v. (k, v) \<in> set m \<Longrightarrow> \<not> p v) \<Longrightarrow> filter p (map snd (filter (\<lambda>(k', _). k \<noteq> k') m)) = filter p (map snd m)"
  by (induction m) auto

lemma filter_values_remove:
  "hm_wf m \<Longrightarrow> (\<And>old. hm_get m k = Some old \<Longrightarrow> \<not> p old) \<Longrightarrow>
     filter p (hm_values (hm_remove k m)) = filter p (hm_values m)"
  using filter_values_drop [of k m p] by (simp add: hm_values_def hm_remove_def AList.delete_eq hm_get_iff_in)

lemma checklists_but_put:
  assumes "checklists_ok s" and "task_ok s k task" and "tk_checklist_uid task = u"
    and "\<And>old. hm_get (checklist_tasks s) k = Some old \<Longrightarrow> tk_checklist_uid old = u"
  shows "checklists_but (Some u) (s\<lparr>checklist_tasks := hm_insert k task (checklist_tasks s)\<rparr>)"
proof -
  have tasks: "tasks_of_checklist (s\<lparr>checklist_tasks := hm_insert k task (checklist_tasks s)\<rparr>) v =
      tasks_of_checklist s v" if "v \<noteq> u" for v
    using that assms(3,4) by (auto simp: tasks_of_checklist_def intro!: filter_values_insert)
  moreover have "rows_ok (s\<lparr>checklist_tasks := hm_insert k task (checklist_tasks s)\<rparr>)"
    using assms(1,2) by (auto simp: checklists_but_def rows_ok_def task_ok_def)
  ultimately show ?thesis
    using assms(1) by (auto simp: checklists_but_def summary_ok_def)
qed

subsection \<open>Every command keeps the summaries\<close>

lemma task_mut_Inr:
  "checklist_task_mut s u k = Inr task \<longleftrightarrow>
     hm_contains (checklists s) u \<and> hm_get (checklist_tasks s) k = Some task \<and> tk_checklist_uid task = u"
  by (auto simp: checklist_task_mut_def result_eqs filter_opt_eq_Some)

lemma checklists_ok_task:
  "checklists_ok s \<Longrightarrow> hm_get (checklist_tasks s) k = Some task \<Longrightarrow> task_ok s k task"
  by (simp add: checklists_but_def rows_ok_def)

lemma checklists_but_put_task:
  assumes "checklists_ok s" and "checklist_task_mut s u k = Inr old"
    and "tk_task_uid task = tk_task_uid old" "tk_checklist_uid task = tk_checklist_uid old"
    and "tk_user_status task = ''COMPLETE'' \<longleftrightarrow> tk_completed_ts_ms task \<noteq> None"
  shows "checklists_but (Some u) (put_task k task s)"
  unfolding put_task_def
proof (rule checklists_but_put)
  show "task_ok s k task"
    using assms checklists_ok_task [OF assms(1), of k old] by (simp add: task_mut_Inr task_ok_def)
qed (use assms in \<open>simp_all add: task_mut_Inr\<close>)

lemma same_task_optional:
  "(\<And>v t. P (update v t) = P t) \<Longrightarrow> P (set_optional h args key update t) = P t"
  by (simp add: set_optional_def split: option.split)

lemma checklists_ok_row_style [keeps]:
  assumes "checklists_ok s" shows "leaves checklists_ok (set_checklist_task_row_style h u k args s)"
proof -
  have "checklists_but (Some u) (put_task k task s)"
    if "checklist_task_mut s u k = Inr old" and "task = (case optional_bool args ''line_break_enabled'' of
          None \<Rightarrow> set_optional h args ''row_background_color'' (\<lambda>v t. t\<lparr>tk_row_background_color := v\<rparr>) old
        | Some b \<Rightarrow> (set_optional h args ''row_background_color''
                       (\<lambda>v t. t\<lparr>tk_row_background_color := v\<rparr>) old)\<lparr>tk_line_break_enabled := b\<rparr>)
        \<lparr>tk_updated_ts_ms := utc_now_ms h\<rparr>" for old task
    using checklists_ok_task [OF assms, of k old] that
    by (intro checklists_but_put_task [OF assms that(1)])
       (auto simp: task_ok_def task_mut_Inr same_task_optional [where P = tk_task_uid]
         same_task_optional [where P = tk_checklist_uid] same_task_optional [where P = tk_user_status]
         same_task_optional [where P = tk_completed_ts_ms] split: option.split)
  with assms show ?thesis
    unfolding set_checklist_task_row_style_def Let_def by (intro keeps checklists_ok_recompute) simp_all
qed

lemma checklists_ok_status [keeps]:
  assumes "checklists_ok s" shows "leaves checklists_ok (set_checklist_task_status h u k args s)"
proof -
  have "checklists_but (Some u) (put_task k (completed_task h args status old) s)"
    if "checklist_task_mut s u k = Inr old" for old status
    using checklists_ok_task [OF assms, of k old] that
    by (intro checklists_but_put_task [OF assms that])
       (auto simp: completed_task_def Let_def or_else_def split: option.split)
  with assms show ?thesis
    unfolding set_checklist_task_status_def by (intro keeps checklists_ok_recompute)
qed

lemma checklists_but_cells:
  assumes "checklists_but x s"
    and "\<And>k cell. hm_get C k = Some cell \<Longrightarrow> ce_cell_uid cell = k \<and> hm_contains (checklist_tasks s) (ce_task_uid cell)"
    and "hm_wf C"
  shows "checklists_but x (s\<lparr>checklist_cells := C\<rparr>)"
  using assms summary_ok_cong [of "s\<lparr>checklist_cells := C\<rparr>" s]
  by (simp add: checklists_but_def rows_ok_def task_ok_def)

lemma checklists_but_cell:
  assumes "checklists_but x s" and "ce_cell_uid cell = k" "hm_contains (checklist_tasks s) (ce_task_uid cell)"
    and "C = hm_insert k cell (checklist_cells s)"
  shows "checklists_but x (s\<lparr>checklist_cells := C\<rparr>)"
  using assms by (intro checklists_but_cells) (auto simp: checklists_but_def rows_ok_def split: if_splits)

lemma checklists_ok_cell [keeps]:
  assumes "checklists_ok s" shows "leaves checklists_ok (set_checklist_task_cell h u k c args s)"
  unfolding set_checklist_task_cell_def Let_def
  by (intro keeps checklists_ok_recompute_again checklists_but_cell assms)
     (auto simp: task_mut_Inr hm_contains_def dest: checklist_summaries.blind_fresh [OF assms] or_new_uuid_frame)

lemma checklists_but_insert_cells:
  "checklists_but x s \<Longrightarrow> hm_contains (checklist_tasks s) k \<Longrightarrow> checklists_but x (insert_cells h k columns s)"
proof (induction h k columns s rule: insert_cells.induct)
  case (2 h k column columns s)
  let ?t = "snd (new_uuid h s)"
  have "checklists_but x (?t\<lparr>checklist_cells := hm_insert (fst (new_uuid h s))
      \<lparr>ce_cell_uid = fst (new_uuid h s), ce_task_uid = k, ce_column_uid = cc_column_uid column,
       ce_value = None, ce_updated_ts_ms = utc_now_ms h, ce_updated_by_team_member_rns_identity = None\<rparr>
      (checklist_cells ?t)\<rparr>)" (is "checklists_but x ?s")
    using 2 by (intro checklists_but_cell) (simp_all add: new_uuid_def)
  moreover have "hm_contains (checklist_tasks ?s) k" using 2 by (simp add: new_uuid_def)
  ultimately show ?case using 2 by (simp add: Let_def split_beta)
qed simp

lemma new_task_fields [simp]:
  "tk_task_uid (new_task h k u n m d args) = k" "tk_checklist_uid (new_task h k u n m d args) = u"
  "tk_user_status (new_task h k u n m d args) = ''PENDING''" "tk_completed_ts_ms (new_task h k u n m d args) = None"
  by (simp_all add: new_task_def Let_def split_beta)

lemma or_new_uuid_rows:
  "or_new_uuid h s x = (k, t) \<Longrightarrow> checklists_ok s \<Longrightarrow>
     checklists_ok t \<and> checklist_tasks t = checklist_tasks s \<and> checklists t = checklists s"
  by (auto dest!: or_new_uuid_frame)

lemma checklists_ok_add_row [keeps]:
  assumes "checklists_ok s" shows "leaves checklists_ok (add_checklist_task_row h u args s)"
proof -
  have old: "checklists_but (Some v) (t\<lparr>checklist_tasks := hm_insert k (task\<lparr>tk_number := n, tk_due_relative_minutes := m,
          tk_due_ts_ms := d, tk_legacy_value := l, tk_notes := e, tk_updated_ts_ms := now\<rparr>) T\<rparr>)"
    if "T = checklist_tasks t" "checklists_ok t" "hm_get (checklist_tasks t) k = Some task" "tk_checklist_uid task = v" for v T t k task n m d l e now
    using that(2-) checklists_ok_task [OF that(2,3)] unfolding that(1) by (intro checklists_but_put) (auto simp: task_ok_def)
  have new: "checklists_but (Some u) (insert_cells h k columns
        (t\<lparr>checklist_tasks := hm_insert k (new_task h k u n m d args) T\<rparr>))"
    if "T = checklist_tasks t" "checklists_ok t" "hm_get (checklist_tasks t) k = None" "hm_contains (checklists t) u" for T t k columns n m d
    using that(2-) unfolding that(1) by (intro checklists_but_insert_cells checklists_but_put) (auto simp: task_ok_def)
  show ?thesis
    unfolding add_checklist_task_row_def Let_def
    by (intro keeps checklists_ok_recompute assms)
       (auto simp: ok_or_eq_Inr hm_contains_def dest!: or_new_uuid_rows [OF _ assms] intro!: old new)
qed

lemma checklists_ok_delete_row [keeps]:
  assumes "checklists_ok s" shows "leaves checklists_ok (delete_checklist_task_row h u k s)"
proof -
  have "checklists_but (Some u) (s\<lparr>checklist_tasks := hm_remove k (checklist_tasks s),
      checklist_cells := hm_retain (\<lambda>_ cell. ce_task_uid cell \<noteq> tk_task_uid task) (checklist_cells s)\<rparr>)"
    (is "checklists_but _ ?t") if mut: "checklist_task_mut s u k = Inr task" for task
  proof -
    from assms have rows: "rows_ok s" by (simp add: checklists_but_def)
    with mut have k: "tk_task_uid task = k" by (auto simp: task_mut_Inr rows_ok_def task_ok_def)
    from rows have "rows_ok ?t"
      by (auto simp: rows_ok_def task_ok_def hm_get_retain filter_opt_eq_Some k)
    moreover have "tasks_of_checklist ?t v = tasks_of_checklist s v" if "v \<noteq> u" for v
      using rows mut that
      by (auto simp: tasks_of_checklist_def rows_ok_def task_mut_Inr intro!: filter_values_remove)
    ultimately show ?thesis
      using assms by (auto simp: checklists_but_def summary_ok_def)
  qed
  with assms show ?thesis
    unfolding delete_checklist_task_row_def by (intro keeps checklists_ok_recompute)
qed

lemma checklists_ok_task_command [keeps]:
  "checklists_ok s \<Longrightarrow> leaves checklists_ok (apply_checklist_task_command h c s)"
  unfolding apply_checklist_task_command_def Let_def by (intro keeps)

lemma checklists_ok_initial_cells [keeps]:
  "checklists_ok s \<Longrightarrow> leaves checklists_ok (insert_initial_cells h u bo bn t cells s)"
proof (induction h u bo bn t cells s rule: insert_initial_cells.induct)
  case (2 h u bo bn t cell cells s)
  then show ?case unfolding insert_initial_cells.simps by (intro keeps) auto
qed (simp add: keeps)

lemma checklists_ok_initial_tasks [keeps]:
  "checklists_ok s \<Longrightarrow> leaves checklists_ok (insert_initial_tasks h u bo bn tasks s)"
proof (induction h u bo bn tasks s rule: insert_initial_tasks.induct)
  case (2 h u bo bn task tasks s)
  then show ?case unfolding insert_initial_tasks.simps Let_def by (intro keeps; blast?)
qed (simp add: keeps)

lemma checklists_ok_initial [keeps]:
  "checklists_ok s \<Longrightarrow> leaves checklists_ok (insert_initial_checklist_tasks_from_args h u v s)"
  unfolding insert_initial_checklist_tasks_from_args_def Let_def by (intro keeps; simp?)

lemma empty_summary [simp]: "tally_of [] = no_tally" "progress_of 0 0 = Fin 0"
  by (simp_all add: tally_of_def progress_of_def)

text \<open>A new checklist has no tasks; a changed one keeps its counts.\<close>

lemma checklists_ok_put:
  assumes "checklists_ok s" and "ck_uid checklist = u" and "summary_ok s u checklist"
  shows "checklists_ok (s\<lparr>checklists := hm_insert u checklist (checklists s)\<rparr>)"
proof -
  have "summary_ok (s\<lparr>checklists := hm_insert u checklist (checklists s)\<rparr>) v c = summary_ok s v c" for v c
    by (rule summary_ok_cong) simp
  with assms show ?thesis by (auto simp: checklists_but_def rows_ok_def task_ok_def)
qed

lemma summary_ok_new:
  assumes "checklists_ok s" and "\<not> hm_contains (checklists s) u"
    and "ck_pending_count c = 0" "ck_late_count c = 0" "ck_complete_count c = 0" "ck_progress_percent c = Fin 0"
  shows "summary_ok s u c"
  using assms no_tasks [of s u] by (simp add: summary_ok_def checklists_but_def no_tally_def Let_def)

lemma checklists_ok_modify:
  assumes "checklists_ok s" and "hm_get (checklists s) u = Some c"
    and "ck_uid d = ck_uid c" "ck_pending_count d = ck_pending_count c" "ck_late_count d = ck_late_count c"
    and "ck_complete_count d = ck_complete_count c" "ck_progress_percent d = ck_progress_percent c"
  shows "checklists_ok (s\<lparr>checklists := hm_insert u d (checklists s)\<rparr>)"
proof (rule checklists_ok_put [OF assms(1)])
  from assms have "ck_uid c = u \<and> summary_ok s u c" by (simp add: checklists_but_def)
  with assms show "ck_uid d = u" "summary_ok s u d" by (simp_all add: summary_ok_def Let_def)
qed

lemma checklists_ok_create [keeps]:
  assumes "checklists_ok s" shows "leaves checklists_ok (create_checklist_from_args h c mode sync s)"
proof -
  have new: "checklists_ok (t\<lparr>checklists := hm_insert u
      \<lparr>ck_uid = u, ck_mission_uid = m, ck_template_uid = tu, ck_template_version = tv, ck_template_name = tn,
       ck_name = n, ck_description = d, ck_start_ts_ms = st, ck_mode = mo, ck_sync_state = sy,
       ck_origin_type = ot, ck_checklist_status = cs, ck_created_by_team_member_rns_identity = cb,
       ck_created_ts_ms = ct, ck_updated_ts_ms = ut, ck_uploaded_ts_ms = up, ck_progress_percent = Fin 0,
       ck_pending_count = 0, ck_late_count = 0, ck_complete_count = 0\<rparr> (checklists t)\<rparr>)"
    if "checklists_ok t" "hm_get (checklists t) u = None" for t u m tu tv tn n d st mo sy ot cs cb ct ut up
    using that by (intro checklists_ok_put summary_ok_new) (simp_all add: hm_contains_def)
  show ?thesis
    unfolding create_checklist_from_args_def Let_def
    by (intro keeps checklists_ok_recompute_again assms; simp?)
       (auto intro!: new dest!: or_new_uuid_rows [OF _ assms])
qed

lemma checklists_ok_patch:
  assumes "checklists_ok s" and "\<And>c. ck_uid (f c) = ck_uid c" "\<And>c. ck_pending_count (f c) = ck_pending_count c"
    and "\<And>c. ck_late_count (f c) = ck_late_count c" "\<And>c. ck_complete_count (f c) = ck_complete_count c"
    and "\<And>c. ck_progress_percent (f c) = ck_progress_percent c"
  shows "checklists_ok (patch_checklist u f s)"
  using assms by (auto simp: patch_checklist_def intro!: checklists_ok_modify split: option.split)

lemma checklists_ok_update [keeps]:
  "checklists_ok s \<Longrightarrow> leaves checklists_ok (update_checklist_from_patch h u v s)"
  unfolding update_checklist_from_patch_def patch_normalized_def patch_checklist_mission_def Let_def
  by (intro keeps) (auto intro!: checklists_ok_patch split: option.split)

lemma checklists_ok_upload [keeps]: "checklists_ok s \<Longrightarrow> leaves checklists_ok (upload_checklist h u s)"
  unfolding upload_checklist_def Let_def
  by (intro keeps) (auto simp: ok_or_eq_Inr intro!: checklists_ok_modify)

lemma filter_values_retain:
  "(\<And>k v. p v \<Longrightarrow> q k v) \<Longrightarrow> filter p (hm_values (hm_retain q m)) = filter p (hm_values m)"
  by (induction m) (auto simp: hm_values_def hm_retain_def)

lemma hm_get_retain_Some:
  "hm_wf m \<Longrightarrow> hm_get (hm_retain p m) k = Some v \<longleftrightarrow> hm_get m k = Some v \<and> p k v"
  by (simp add: hm_get_retain filter_opt_eq_Some)

lemma rows_ok_drop:
  assumes "rows_ok s"
    and us: "us = tk_task_uid ` set (tasks_of_checklist s u)"
    and t: "checklist_tasks t = hm_retain (\<lambda>_ task. tk_checklist_uid task \<noteq> u) (checklist_tasks s)"
      "checklist_cells t = hm_retain (\<lambda>_ cell. ce_task_uid cell \<notin> us) (checklist_cells s)"
      "checklists t = hm_remove u (checklists s)"
  shows "rows_ok t"
proof -
  have "ce_cell_uid cell = k \<and> hm_contains (checklist_tasks t) (ce_task_uid cell)"
    if "hm_get (checklist_cells t) k = Some cell" for k cell
  proof -
    from that assms(1) have cell: "ce_cell_uid cell = k" "ce_task_uid cell \<notin> us"
      and "hm_contains (checklist_tasks s) (ce_task_uid cell)"
      by (auto simp: t rows_ok_def hm_get_retain_Some)
    then obtain task where task: "hm_get (checklist_tasks s) (ce_task_uid cell) = Some task"
      by (auto simp: hm_contains_def)
    with assms(1) have "tk_task_uid task = ce_task_uid cell" by (simp add: rows_ok_def task_ok_def)
    with task cell(2) have "tk_checklist_uid task \<noteq> u"
      using tasks_of_checklist_iff [OF assms(1), of task u] unfolding us by (metis image_eqI)
    with task assms(1) have "hm_get (checklist_tasks t) (ce_task_uid cell) = Some task"
      by (simp add: t rows_ok_def hm_get_retain_Some)
    with cell(1) show ?thesis by (simp add: hm_contains_def)
  qed
  moreover have "task_ok t k task" if "hm_get (checklist_tasks t) k = Some task" for k task
    using that assms(1) by (auto simp: t rows_ok_def task_ok_def hm_get_retain_Some)
  ultimately show ?thesis
    using assms(1) by (simp add: rows_ok_def t)
qed

lemma checklists_ok_drop:
  assumes "checklists_ok s" and "us = tk_task_uid ` set (tasks_of_checklist s u)"
    and t: "checklist_tasks t = hm_retain (\<lambda>_ task. tk_checklist_uid task \<noteq> u) (checklist_tasks s)"
      "checklist_cells t = hm_retain (\<lambda>_ cell. ce_task_uid cell \<notin> us) (checklist_cells s)"
      "checklists t = hm_remove u (checklists s)"
  shows "checklists_ok t"
proof -
  have "tasks_of_checklist t v = tasks_of_checklist s v" if "v \<noteq> u" for v
    unfolding tasks_of_checklist_def t(1) using that by (intro filter_values_retain) simp
  then have "summary_ok t v c = summary_ok s v c" if "v \<noteq> u" for v c
    using that by (simp add: summary_ok_def)
  moreover have "rows_ok t" using assms(1) by (intro rows_ok_drop [OF _ assms(2) t]) (simp add: checklists_but_def)
  ultimately show ?thesis
    using assms(1) by (auto simp: checklists_but_def t(3) split: if_splits)
qed

lemma checklists_ok_delete [keeps]:
  assumes "checklists_ok s" shows "leaves checklists_ok (delete_checklist h u s)"
proof -
  have "tasks_of_checklist (s\<lparr>checklists := hm_remove u (checklists s)\<rparr>) u = tasks_of_checklist s u"
    by (rule tasks_of_cong) simp
  then show ?thesis
    unfolding delete_checklist_def Let_def
    by (intro keeps assms checklists_ok_drop [OF assms refl, where u = u]) simp_all
qed

lemma checklists_ok_row_cells [keeps]:
  "checklists_ok s \<Longrightarrow> leaves checklists_ok (import_row_cells h u t src row hs s)"
proof (induction h u t src row hs s rule: import_row_cells.induct)
  case (2 h u t src row index column_uid hs s)
  then show ?case unfolding import_row_cells.simps by (intro keeps) auto
qed (simp add: keeps)

lemma checklists_ok_rows [keeps]:
  "checklists_ok s \<Longrightarrow> leaves checklists_ok (import_rows h u src w due hs n rows s)"
proof (induction h u src w due hs n rows s rule: import_rows.induct)
  case (2 h u src w due hs n row rows s)
  then show ?case unfolding import_rows.simps Let_def by (intro keeps; blast?)
qed (simp add: keeps)

lemma checklists_ok_import [keeps]: "checklists_ok s \<Longrightarrow> leaves checklists_ok (import_checklist_csv h c s)"
  unfolding import_checklist_csv_def Let_def by (intro keeps; simp?)

lemma checklists_ok_command: "checklists_ok s \<Longrightarrow> leaves checklists_ok (apply_checklist_command h c s)"
  unfolding apply_checklist_command_def checklist_payload_def with_checklist_def Let_def
  by (intro keeps checklist_changes.aside_emit_for checklist_summaries.blind_template_command
        checklist_summaries.blind_publish; simp?)

end
