(* ===== verification/Invariants.thy ===== *)
theory Invariants
  imports Dispatch Checklist_Rules
begin

text \<open>
  The invariant of the whole state and that every command keeps it, whichever component runs it and
  however it enters the core.  Each component's command keeps the component's own invariants (shown in
  its theory); the others it does not touch, which its frame shows, or only makes easier: commands
  add missions, and take none away.
\<close>

subsection \<open>What a command does not touch it keeps\<close>

lemma untouched:
  assumes "\<And>t. I (hide t) = I t" and "leaves (\<lambda>t. hide t = hide s) m" and "I s"
  shows "leaves I m"
proof -
  from assms(2) have "hide (fst m) = hide s" by (simp add: leaves_def)
  then have "I (hide (fst m)) = I (hide s)" by simp
  with assms(1,3) show ?thesis by (simp add: leaves_def)
qed

text \<open>What each component leaves alone, as rules.\<close>

lemmas frame_missions = untouched [where hide = hide_missions, OF _ mission_command_frame [unfolded only_missions_def [abs_def]]]
lemmas frame_logs = untouched [where hide = hide_logs, OF _ log_command_frame [unfolded only_logs_def [abs_def]]]
lemmas frame_teams = untouched [where hide = hide_teams, OF _ team_command_frame [unfolded only_teams_def [abs_def]]]
lemmas frame_members = untouched [where hide = hide_teams, OF _ team_member_command_frame [unfolded only_teams_def [abs_def]]]
lemmas frame_topics = untouched [where hide = hide_topics, OF _ topic_command_frame [unfolded only_topics_def [abs_def]]]
lemmas frame_message = untouched [where hide = hide_topics, OF _ message_frame [unfolded only_topics_def [abs_def]]]
lemmas frame_markers = untouched [where hide = hide_map, OF _ marker_command_frame [unfolded only_map_def [abs_def]]]
lemmas frame_zones = untouched [where hide = hide_map, OF _ zone_command_frame [unfolded only_map_def [abs_def]]]
lemmas frame_eams = untouched [where hide = hide_eams, OF _ eam_command_frame [unfolded only_eams_def [abs_def]]]
lemmas frame_assets = untouched [where hide = hide_assets, OF _ asset_command_frame [unfolded only_assets_def [abs_def]]]
lemmas frame_skills = untouched [where hide = hide_skills, OF _ skill_command_frame [unfolded only_skills_def [abs_def]]]
lemmas frame_assignments = untouched [where hide = hide_assignments, OF _ assignment_command_frame [unfolded only_assignments_def [abs_def]]]
lemmas frame_checklists = untouched [where hide = hide_checklists, OF _ checklist_command_frame [unfolded only_checklists_def [abs_def]]]

lemma leaves_mono: "leaves P m \<Longrightarrow> (\<And>t. P t \<Longrightarrow> Q t) \<Longrightarrow> leaves Q m"
  by (simp add: leaves_def)

lemma leaves_conj: "leaves P m \<Longrightarrow> leaves Q m \<Longrightarrow> leaves (\<lambda>t. P t \<and> Q t) m"
  by (simp add: leaves_def)

definition core_ok :: "host \<Rightarrow> rch_core \<Rightarrow> bool" where
  "core_ok h s \<longleftrightarrow> roster_ok s \<and> subscribers_ok h s \<and> subscriptions_have_topics s \<and> map_objects_ok s
     \<and> missions_ok s \<and> logs_ok s \<and> teams_ok s \<and> members_ok s \<and> assets_ok s \<and> skills_ok s
     \<and> assignments_ok s \<and> access_ok s \<and> eams_ok s \<and> checklists_ok s"

lemma core_okD:
  assumes "core_ok h s"
  shows "roster_ok s" "subscribers_ok h s" "subscriptions_have_topics s" "map_objects_ok s" "missions_ok s"
    "logs_ok s" "teams_ok s" "members_ok s" "assets_ok s" "skills_ok s" "assignments_ok s" "access_ok s"
    "eams_ok s" "checklists_ok s"
  using assms by (simp_all add: core_ok_def)

lemma leaves_core_ok:
  assumes "leaves roster_ok m" "leaves (subscribers_ok h) m" "leaves subscriptions_have_topics m"
    "leaves map_objects_ok m" "leaves missions_ok m" "leaves logs_ok m" "leaves teams_ok m"
    "leaves members_ok m" "leaves assets_ok m" "leaves skills_ok m" "leaves assignments_ok m"
    "leaves access_ok m" "leaves eams_ok m" "leaves checklists_ok m"
  shows "leaves (core_ok h) m"
  using assms by (simp add: leaves_def core_ok_def)

text \<open>Which fields an invariant reads: writing another one keeps it.\<close>

lemma known_mission_eq: "known_mission s = (\<lambda>u. hm_contains (missions s) u \<and> trim u = u \<and> u \<noteq> [])"
  by (simp add: known_mission_def fun_eq_iff)

lemmas ok_defs = roster_ok_def subscribers_ok_def subscriptions_have_topics_def map_objects_ok_def
  missions_ok_def mission_forest_def parents_def logs_ok_def teams_ok_def team_ok_def known_mission_eq
  members_ok_def member_ok_def team_member_client_ids_def assets_ok_def asset_ok_def skills_ok_def
  assignments_ok_def assignment_ok_def links_agree_def access_ok_def eams_ok_def
  checklists_but_def rows_ok_def task_ok_def summary_ok_def tasks_of_checklist_def

lemma hide_topics_ok [simp]:
  "roster_ok (hide_topics t) = roster_ok t" "map_objects_ok (hide_topics t) = map_objects_ok t"
  "missions_ok (hide_topics t) = missions_ok t" "logs_ok (hide_topics t) = logs_ok t"
  "teams_ok (hide_topics t) = teams_ok t" "members_ok (hide_topics t) = members_ok t"
  "assets_ok (hide_topics t) = assets_ok t" "skills_ok (hide_topics t) = skills_ok t"
  "assignments_ok (hide_topics t) = assignments_ok t" "access_ok (hide_topics t) = access_ok t"
  "eams_ok (hide_topics t) = eams_ok t" "checklists_ok (hide_topics t) = checklists_ok t"
  by (simp_all add: hide_topics_def ok_defs)

lemma hide_map_ok [simp]:
  "roster_ok (hide_map t) = roster_ok t" "subscribers_ok h (hide_map t) = subscribers_ok h t"
  "subscriptions_have_topics (hide_map t) = subscriptions_have_topics t" "missions_ok (hide_map t) = missions_ok t"
  "logs_ok (hide_map t) = logs_ok t" "teams_ok (hide_map t) = teams_ok t"
  "members_ok (hide_map t) = members_ok t" "assets_ok (hide_map t) = assets_ok t"
  "skills_ok (hide_map t) = skills_ok t" "assignments_ok (hide_map t) = assignments_ok t"
  "access_ok (hide_map t) = access_ok t" "eams_ok (hide_map t) = eams_ok t"
  "checklists_ok (hide_map t) = checklists_ok t"
  by (simp_all add: hide_map_def ok_defs)

lemma hide_missions_ok [simp]:
  "roster_ok (hide_missions t) = roster_ok t" "subscribers_ok h (hide_missions t) = subscribers_ok h t"
  "subscriptions_have_topics (hide_missions t) = subscriptions_have_topics t" "map_objects_ok (hide_missions t) = map_objects_ok t"
  "members_ok (hide_missions t) = members_ok t" "assets_ok (hide_missions t) = assets_ok t"
  "skills_ok (hide_missions t) = skills_ok t" "access_ok (hide_missions t) = access_ok t"
  "eams_ok (hide_missions t) = eams_ok t" "checklists_ok (hide_missions t) = checklists_ok t"
  by (simp_all add: hide_missions_def ok_defs)

lemma hide_logs_ok [simp]:
  "roster_ok (hide_logs t) = roster_ok t" "subscribers_ok h (hide_logs t) = subscribers_ok h t"
  "subscriptions_have_topics (hide_logs t) = subscriptions_have_topics t" "map_objects_ok (hide_logs t) = map_objects_ok t"
  "members_ok (hide_logs t) = members_ok t" "assets_ok (hide_logs t) = assets_ok t"
  "skills_ok (hide_logs t) = skills_ok t" "access_ok (hide_logs t) = access_ok t"
  "eams_ok (hide_logs t) = eams_ok t" "checklists_ok (hide_logs t) = checklists_ok t"
  by (simp_all add: hide_logs_def ok_defs)

lemma hide_teams_ok [simp]:
  "roster_ok (hide_teams t) = roster_ok t" "subscribers_ok h (hide_teams t) = subscribers_ok h t"
  "subscriptions_have_topics (hide_teams t) = subscriptions_have_topics t" "map_objects_ok (hide_teams t) = map_objects_ok t"
  "missions_ok (hide_teams t) = missions_ok t" "logs_ok (hide_teams t) = logs_ok t"
  "access_ok (hide_teams t) = access_ok t" "eams_ok (hide_teams t) = eams_ok t"
  "checklists_ok (hide_teams t) = checklists_ok t"
  by (simp_all add: hide_teams_def ok_defs)

lemma hide_eams_ok [simp]:
  "roster_ok (hide_eams t) = roster_ok t" "subscribers_ok h (hide_eams t) = subscribers_ok h t"
  "subscriptions_have_topics (hide_eams t) = subscriptions_have_topics t" "map_objects_ok (hide_eams t) = map_objects_ok t"
  "missions_ok (hide_eams t) = missions_ok t" "logs_ok (hide_eams t) = logs_ok t"
  "skills_ok (hide_eams t) = skills_ok t" "assignments_ok (hide_eams t) = assignments_ok t"
  "access_ok (hide_eams t) = access_ok t" "checklists_ok (hide_eams t) = checklists_ok t"
  by (simp_all add: hide_eams_def ok_defs)

lemma hide_assets_ok [simp]:
  "roster_ok (hide_assets t) = roster_ok t" "subscribers_ok h (hide_assets t) = subscribers_ok h t"
  "subscriptions_have_topics (hide_assets t) = subscriptions_have_topics t" "map_objects_ok (hide_assets t) = map_objects_ok t"
  "missions_ok (hide_assets t) = missions_ok t" "teams_ok (hide_assets t) = teams_ok t"
  "members_ok (hide_assets t) = members_ok t" "skills_ok (hide_assets t) = skills_ok t"
  "access_ok (hide_assets t) = access_ok t" "eams_ok (hide_assets t) = eams_ok t"
  "checklists_ok (hide_assets t) = checklists_ok t"
  by (simp_all add: hide_assets_def ok_defs)

lemma hide_skills_ok [simp]:
  "roster_ok (hide_skills t) = roster_ok t" "subscribers_ok h (hide_skills t) = subscribers_ok h t"
  "subscriptions_have_topics (hide_skills t) = subscriptions_have_topics t" "map_objects_ok (hide_skills t) = map_objects_ok t"
  "missions_ok (hide_skills t) = missions_ok t" "logs_ok (hide_skills t) = logs_ok t"
  "teams_ok (hide_skills t) = teams_ok t" "members_ok (hide_skills t) = members_ok t"
  "assets_ok (hide_skills t) = assets_ok t" "assignments_ok (hide_skills t) = assignments_ok t"
  "access_ok (hide_skills t) = access_ok t" "eams_ok (hide_skills t) = eams_ok t"
  "checklists_ok (hide_skills t) = checklists_ok t"
  by (simp_all add: hide_skills_def ok_defs)

lemma hide_assignments_ok [simp]:
  "roster_ok (hide_assignments t) = roster_ok t" "subscribers_ok h (hide_assignments t) = subscribers_ok h t"
  "subscriptions_have_topics (hide_assignments t) = subscriptions_have_topics t" "map_objects_ok (hide_assignments t) = map_objects_ok t"
  "missions_ok (hide_assignments t) = missions_ok t" "teams_ok (hide_assignments t) = teams_ok t"
  "members_ok (hide_assignments t) = members_ok t" "assets_ok (hide_assignments t) = assets_ok t"
  "skills_ok (hide_assignments t) = skills_ok t" "access_ok (hide_assignments t) = access_ok t"
  "eams_ok (hide_assignments t) = eams_ok t" "checklists_ok (hide_assignments t) = checklists_ok t"
  by (simp_all add: hide_assignments_def ok_defs)

lemma hide_checklists_ok [simp]:
  "roster_ok (hide_checklists t) = roster_ok t" "subscribers_ok h (hide_checklists t) = subscribers_ok h t"
  "subscriptions_have_topics (hide_checklists t) = subscriptions_have_topics t" "map_objects_ok (hide_checklists t) = map_objects_ok t"
  "missions_ok (hide_checklists t) = missions_ok t" "teams_ok (hide_checklists t) = teams_ok t"
  "members_ok (hide_checklists t) = members_ok t" "assets_ok (hide_checklists t) = assets_ok t"
  "access_ok (hide_checklists t) = access_ok t" "eams_ok (hide_checklists t) = eams_ok t"
  by (simp_all add: hide_checklists_def ok_defs)

subsection \<open>Missions are added, never taken away\<close>

definition keeps_missions :: "rch_core \<Rightarrow> rch_core \<Rightarrow> bool" where
  "keeps_missions s t \<longleftrightarrow> (\<forall>u. hm_contains (missions s) u \<longrightarrow> hm_contains (missions t) u)"

lemma keeps_missions_simps [simp]:
  "keeps_missions s s"
  "keeps_missions s (t\<lparr>next_uuid := n\<rparr>) = keeps_missions s t"
  "keeps_missions s (t\<lparr>mission_zone_links := a\<rparr>) = keeps_missions s t"
  "keeps_missions s (t\<lparr>mission_marker_links := b\<rparr>) = keeps_missions s t"
  "keeps_missions s (t\<lparr>mission_changes := c\<rparr>) = keeps_missions s t"
  "keeps_missions s (t\<lparr>log_entries := d\<rparr>) = keeps_missions s t"
  "keeps_missions s t \<Longrightarrow> keeps_missions s (r\<lparr>missions := hm_insert u m (missions t)\<rparr>)"
  by (simp_all add: keeps_missions_def)

lemma mission_command_grows: "leaves (keeps_missions s) (apply_registry_mission_command h c s)"
  unfolding apply_registry_mission_command_def apply_registry_mission_marker_command_def
    link_mission_zone_def unlink_mission_zone_def link_mission_marker_def unlink_mission_marker_def
    upsert_mission_from_args_def patch_mission_from_args_def delete_mission_from_args_def
    set_mission_parent_from_args_def set_mission_rde_def touch_mission_def modify_mission_def Let_def
  by (intro keeps) (auto dest!: or_new_uuid_frame)

lemma log_command_grows: "leaves (keeps_missions s) (apply_registry_log_command h c s)"
  unfolding apply_registry_log_command_def upsert_log_entry_from_args_def
    upsert_mission_change_from_args_def record_auto_log_change_def resolve_log_mission_uid_def
    ensure_default_log_mission_def new_uuid_def Let_def
  by (intro keeps) (auto dest!: or_new_uuid_frame)

lemma more_missions:
  assumes "keeps_missions s t"
  shows "mission_changes t = mission_changes s \<Longrightarrow> log_entries t = log_entries s \<Longrightarrow> logs_ok s \<Longrightarrow> logs_ok t"
    and "teams t = teams s \<Longrightarrow> mission_team_links t = mission_team_links s \<Longrightarrow> teams_ok s \<Longrightarrow> teams_ok t"
    and "assignments t = assignments s \<Longrightarrow> assets t = assets s \<Longrightarrow>
         assignment_asset_links t = assignment_asset_links s \<Longrightarrow> assignments_ok s \<Longrightarrow> assignments_ok t"
proof -
  have known: "known_mission s u \<Longrightarrow> known_mission t u" for u
    using assms by (simp add: known_mission_def keeps_missions_def)
  show "teams t = teams s \<Longrightarrow> mission_team_links t = mission_team_links s \<Longrightarrow> teams_ok s \<Longrightarrow> teams_ok t"
    by (auto simp: teams_ok_def team_ok_def list_all_iff intro: known)
  show "mission_changes t = mission_changes s \<Longrightarrow> log_entries t = log_entries s \<Longrightarrow> logs_ok s \<Longrightarrow> logs_ok t"
    using assms by (auto simp: logs_ok_def keeps_missions_def)
  show "assignments t = assignments s \<Longrightarrow> assets t = assets s \<Longrightarrow>
         assignment_asset_links t = assignment_asset_links s \<Longrightarrow> assignments_ok s \<Longrightarrow> assignments_ok t"
    using assms by (auto simp: assignments_ok_def assignment_ok_def links_agree_def keeps_missions_def)
qed

lemma hide_missionsD:
  assumes "hide_missions t = hide_missions s"
  shows "mission_changes t = mission_changes s" "log_entries t = log_entries s" "teams t = teams s"
    "mission_team_links t = mission_team_links s" "assignments t = assignments s" "assets t = assets s"
    "assignment_asset_links t = assignment_asset_links s"
  using arg_cong [OF assms, of mission_changes] arg_cong [OF assms, of log_entries]
    arg_cong [OF assms, of teams] arg_cong [OF assms, of mission_team_links]
    arg_cong [OF assms, of assignments] arg_cong [OF assms, of assets]
    arg_cong [OF assms, of assignment_asset_links]
  by (simp_all add: hide_missions_def)

lemma hide_logsD:
  assumes "hide_logs t = hide_logs s"
  shows "teams t = teams s" "mission_team_links t = mission_team_links s" "assignments t = assignments s"
    "assets t = assets s" "assignment_asset_links t = assignment_asset_links s"
  using arg_cong [OF assms, of teams] arg_cong [OF assms, of mission_team_links]
    arg_cong [OF assms, of assignments] arg_cong [OF assms, of assets]
    arg_cong [OF assms, of assignment_asset_links]
  by (simp_all add: hide_logs_def)

subsection \<open>Each component keeps the invariant of the whole\<close>

lemma core_ok_missions:
  assumes ok: "core_ok h s" shows "leaves (core_ok h) (apply_registry_mission_command h c s)"
proof -
  let ?m = "apply_registry_mission_command h c s"
  note I = core_okD [OF ok]
  note frame = mission_command_frame [unfolded only_missions_def [abs_def]]
  have both: "leaves (\<lambda>t. hide_missions t = hide_missions s \<and> keeps_missions s t) ?m"
    by (intro leaves_conj frame mission_command_grows)
  show ?thesis
  proof (intro leaves_core_ok missions_ok_command I)
    have grown: "logs_ok t \<and> teams_ok t \<and> assignments_ok t"
      if "hide_missions t = hide_missions s \<and> keeps_missions s t" for t
      using more_missions [of s t] hide_missionsD [of t s] that I(6,7,11) by simp
    show "leaves logs_ok ?m" "leaves teams_ok ?m" "leaves assignments_ok ?m"
      by (rule leaves_mono [OF both], simp add: grown)+
  qed (rule frame_missions; simp add: I)+
qed

lemma core_ok_logs:
  assumes ok: "core_ok h s" shows "leaves (core_ok h) (apply_registry_log_command h c s)"
proof -
  let ?m = "apply_registry_log_command h c s"
  note I = core_okD [OF ok]
  note frame = log_command_frame [unfolded only_logs_def [abs_def]]
  have both: "leaves (\<lambda>t. hide_logs t = hide_logs s \<and> keeps_missions s t) ?m"
    by (intro leaves_conj frame log_command_grows)
  show ?thesis
  proof (intro leaves_core_ok missions_ok_log_command logs_ok_command I)
    have grown: "teams_ok t \<and> assignments_ok t"
      if "hide_logs t = hide_logs s \<and> keeps_missions s t" for t
      using more_missions [of s t] hide_logsD [of t s] that I(7,11) by simp
    show "leaves teams_ok ?m" "leaves assignments_ok ?m"
      by (rule leaves_mono [OF both], simp add: grown)+
  qed (rule frame_logs; simp add: I)+
qed

subsection \<open>Teams and members leave the assets and the skill levels in place\<close>

definition same_assets :: "rch_core \<Rightarrow> rch_core \<Rightarrow> bool" where
  "same_assets s t \<longleftrightarrow> (\<forall>u. hm_contains (assets t) u = hm_contains (assets s) u)"

lemma same_assets_simps [simp]:
  "same_assets s s"
  "same_assets s (t\<lparr>teams := a\<rparr>) = same_assets s t"
  "same_assets s (t\<lparr>mission_team_links := b\<rparr>) = same_assets s t"
  "same_assets s (t\<lparr>team_members := c\<rparr>) = same_assets s t"
  "same_assets s (t\<lparr>team_member_client_links := d\<rparr>) = same_assets s t"
  "same_assets s (t\<lparr>team_member_skills := e\<rparr>) = same_assets s t"
  "same_assets s (t\<lparr>next_uuid := n\<rparr>) = same_assets s t"
  "same_assets s (r\<lparr>assets := hm_map_values f (assets t)\<rparr>) = same_assets s t"
  by (simp_all add: same_assets_def)

lemma skills_ok_simps [simp]:
  "skills_ok (t\<lparr>teams := a\<rparr>) = skills_ok t"
  "skills_ok (t\<lparr>mission_team_links := b\<rparr>) = skills_ok t"
  "skills_ok (t\<lparr>team_members := c\<rparr>) = skills_ok t"
  "skills_ok (t\<lparr>team_member_client_links := d\<rparr>) = skills_ok t"
  "skills_ok (t\<lparr>assets := e\<rparr>) = skills_ok t"
  "skills_ok (t\<lparr>next_uuid := n\<rparr>) = skills_ok t"
  by (simp_all add: skills_ok_def)

lemma skills_ok_retain:
  "skills_ok s \<Longrightarrow> skills_ok (s\<lparr>team_member_skills := hm_retain p (team_member_skills s)\<rparr>)"
  by (auto simp: skills_ok_def hm_get_retain filter_opt_eq_Some)

text \<open>A property of the teams that the helpers of their commands keep.\<close>

locale team_blind =
  fixes inv :: "rch_core \<Rightarrow> bool"
  assumes blind_uuid [simp]: "inv (s\<lparr>next_uuid := n\<rparr>) = inv s"
    and blind_teams [simp]: "inv (s\<lparr>teams := a\<rparr>) = inv s"
    and blind_team_links [simp]: "inv (s\<lparr>mission_team_links := b\<rparr>) = inv s"
    and blind_members [simp]: "inv (s\<lparr>team_members := c\<rparr>) = inv s"
    and blind_client_links [simp]: "inv (s\<lparr>team_member_client_links := d\<rparr>) = inv s"
begin

lemma blind_fresh: "inv r \<Longrightarrow> or_new_uuid h r x = (u, t) \<Longrightarrow> inv t"
  by (auto dest!: or_new_uuid_frame)

lemma blind_links [simp]: "inv (set_team_mission_links u us t) = inv t"
  by (simp add: set_team_mission_links_def)

lemma blind_refs [keeps]: "inv s \<Longrightarrow> leaves inv (update_team_mission_refs h u us s)"
  unfolding update_team_mission_refs_def Let_def by (intro keeps) simp_all

lemma blind_refresh [keeps]: "inv s \<Longrightarrow> leaves inv (refresh_team_member_clients h u s)"
  unfolding refresh_team_member_clients_def Let_def by (intro keeps) simp_all

lemma blind_team_command: "inv s \<Longrightarrow> leaves inv (apply_registry_team_command h c s)"
  unfolding apply_registry_team_command_def upsert_team_from_args_def delete_team_from_args_def
    link_team_mission_from_args_def unlink_team_mission_from_args_def Let_def
  by (intro keeps; simp?; (erule (1) blind_fresh)?)

lemma blind_member_command:
  assumes "inv s" and "leaves inv (delete_team_member_from_args h (cmd_args c) s)"
  shows "leaves inv (apply_registry_team_member_command h c s)"
  unfolding apply_registry_team_member_command_def upsert_team_member_from_args_def
    link_team_member_client_from_args_def unlink_team_member_client_from_args_def Let_def
  by (intro keeps assms) (auto dest: blind_fresh [OF assms(1)] simp: assms(1))

end

interpretation team_assets: team_blind "same_assets s"
  by unfold_locales simp_all

interpretation team_skills: team_blind skills_ok
  by unfold_locales simp_all

lemma member_command_assets: "leaves (same_assets s) (apply_registry_team_member_command h c s)"
  by (rule team_assets.blind_member_command) (auto simp: delete_team_member_from_args_def intro!: keeps)

lemma skills_ok_member_command: "skills_ok s \<Longrightarrow> leaves skills_ok (apply_registry_team_member_command h c s)"
  by (rule team_skills.blind_member_command)
     (auto simp: delete_team_member_from_args_def skills_ok_def hm_get_retain filter_opt_eq_Some intro!: keeps)

lemma assignments_ok_same_assets:
  assumes "same_assets s t" and "hide_teams t = hide_teams s" and "assignments_ok s"
  shows "assignments_ok t"
  using assms(1,3) arg_cong [OF assms(2), of assignments] arg_cong [OF assms(2), of missions]
    arg_cong [OF assms(2), of assignment_asset_links]
  by (simp add: hide_teams_def same_assets_def assignments_ok_def assignment_ok_def links_agree_def
        list_all_iff)

lemma teams_ok_other [simp]:
  "teams_ok (t\<lparr>team_member_client_links := a\<rparr>) = teams_ok t"
  "teams_ok (t\<lparr>team_member_skills := b\<rparr>) = teams_ok t"
  "teams_ok (t\<lparr>assets := c\<rparr>) = teams_ok t"
  by (simp_all add: ok_defs)

lemma teams_ok_member_command: "teams_ok s \<Longrightarrow> leaves teams_ok (apply_registry_team_member_command h c s)"
  unfolding apply_registry_team_member_command_def upsert_team_member_from_args_def
    delete_team_member_from_args_def link_team_member_client_from_args_def
    unlink_team_member_client_from_args_def refresh_team_member_clients_def Let_def
  by (intro keeps) (auto dest!: or_new_uuid_frame)

lemma contains_map_values [simp]: "hm_contains (hm_map_values f m) = hm_contains m"
  by (simp add: fun_eq_iff)

lemma assets_ok_other [simp]:
  "assets_ok (t\<lparr>mission_team_links := a\<rparr>) = assets_ok t"
  "assets_ok (t\<lparr>next_uuid := n\<rparr>) = assets_ok t"
  "assets_ok (set_team_mission_links u us t) = assets_ok t"
  "assets_ok (r\<lparr>team_members := hm_map_values f (team_members t)\<rparr>) = assets_ok (r\<lparr>team_members := team_members t\<rparr>)"
  by (simp_all add: ok_defs set_team_mission_links_def)

lemma assets_ok_team_command: "assets_ok s \<Longrightarrow> leaves assets_ok (apply_registry_team_command h c s)"
  unfolding apply_registry_team_command_def upsert_team_from_args_def delete_team_from_args_def
    link_team_mission_from_args_def unlink_team_mission_from_args_def update_team_mission_refs_def Let_def
  by (intro keeps) (auto dest!: or_new_uuid_frame)

lemma core_ok_teams:
  assumes ok: "core_ok h s" shows "leaves (core_ok h) (apply_registry_team_command h c s)"
proof -
  let ?m = "apply_registry_team_command h c s"
  note I = core_okD [OF ok]
  note frame = team_command_frame [unfolded only_teams_def [abs_def]]
  show ?thesis
  proof (intro leaves_core_ok teams_ok_command members_ok_team_command assets_ok_team_command
      team_skills.blind_team_command I)
    have "leaves (\<lambda>t. same_assets s t \<and> hide_teams t = hide_teams s) ?m"
      by (intro leaves_conj frame team_assets.blind_team_command) simp
    then show "leaves assignments_ok ?m"
      by (rule leaves_mono) (use I(11) in \<open>blast intro: assignments_ok_same_assets\<close>)
  qed (rule frame_teams; simp add: I)+
qed

lemma core_ok_members:
  assumes ok: "core_ok h s" shows "leaves (core_ok h) (apply_registry_team_member_command h c s)"
proof -
  let ?m = "apply_registry_team_member_command h c s"
  note I = core_okD [OF ok]
  note frame = team_member_command_frame [unfolded only_teams_def [abs_def]]
  show ?thesis
  proof (intro leaves_core_ok teams_ok_member_command members_ok_member_command assets_ok_member_command
      skills_ok_member_command I)
    have "leaves (\<lambda>t. same_assets s t \<and> hide_teams t = hide_teams s) ?m"
      by (intro leaves_conj frame member_command_assets)
    then show "leaves assignments_ok ?m"
      by (rule leaves_mono) (use I(11) in \<open>blast intro: assignments_ok_same_assets\<close>)
  qed (rule frame_members; simp add: I)+
qed

lemma core_ok_topics:
  assumes ok: "core_ok h s" and "uuid_canonical h" shows "leaves (core_ok h) (apply_topic_command h c s)"
proof -
  note I = core_okD [OF ok]
  show ?thesis
    by (intro leaves_core_ok subscribers_ok_command with_topics_command I assms(2))
       (rule frame_topics; simp add: I)+
qed

lemma core_ok_message:
  assumes ok: "core_ok h s"
  shows "leaves (core_ok h) (record_message h' mid content topic dest sender s)"
proof -
  note I = core_okD [OF ok]
  show ?thesis
    by (intro leaves_core_ok subscribers_ok_message with_topics_message I)
       (rule frame_message; simp add: I)+
qed

lemma core_ok_map:
  assumes ok: "core_ok h s"
  shows "leaves (core_ok h) (apply_marker_command h c s)" "leaves (core_ok h) (apply_zone_command h c s)"
proof -
  note I = core_okD [OF ok]
  show "leaves (core_ok h) (apply_marker_command h c s)"
    by (intro leaves_core_ok map_objects_marker I) (rule frame_markers; simp add: I)+
  show "leaves (core_ok h) (apply_zone_command h c s)"
    by (intro leaves_core_ok map_objects_zone I) (rule frame_zones; simp add: I)+
qed

lemma core_ok_eams:
  assumes ok: "core_ok h s" shows "leaves (core_ok h) (apply_registry_eam_command h c s)"
proof -
  note I = core_okD [OF ok]
  show ?thesis
    by (intro leaves_core_ok eams_ok_command teams_ok_eam_command members_ok_eam_command
          assets_ok_eam_command I)
       (rule frame_eams; simp add: I)+
qed

lemma core_ok_assets:
  assumes ok: "core_ok h s" shows "leaves (core_ok h) (apply_registry_asset_command h c s)"
proof -
  note I = core_okD [OF ok]
  show ?thesis
    by (intro leaves_core_ok assets_ok_command assignments_ok_asset_command logs_ok_asset_command I)
       (rule frame_assets; simp add: I)+
qed

lemma core_ok_skills:
  assumes ok: "core_ok h s" shows "leaves (core_ok h) (apply_registry_skill_command h c s)"
proof -
  note I = core_okD [OF ok]
  show ?thesis
    by (intro leaves_core_ok skills_ok_command I)
       (rule frame_skills; simp add: I)+
qed

lemma core_ok_assignments:
  assumes ok: "core_ok h s" shows "leaves (core_ok h) (apply_registry_assignment_command h c s)"
proof -
  note I = core_okD [OF ok]
  show ?thesis
    by (intro leaves_core_ok assignments_ok_command logs_ok_assignment_command I)
       (rule frame_assignments; simp add: I)+
qed

lemma leaves_frame:
  assumes "leaves P m" and "\<And>t. P t \<Longrightarrow> I t"
  shows "leaves I m"
  using assms by (simp add: leaves_def)

lemma core_ok_fields [simp]:
  "core_ok h (s\<lparr>identity_rem_modes := a\<rparr>) = core_ok h s"
  "core_ok h (s\<lparr>command_results := b\<rparr>) = core_ok h s"
  "core_ok h (s\<lparr>audit_events := c\<rparr>) = core_ok h s"
  "core_ok h (s\<lparr>next_uuid := n\<rparr>) = core_ok h s"
  "core_ok h (s\<lparr>identity_announces := d\<rparr>) = core_ok h s"
  "core_ok h (s\<lparr>identity_states := e\<rparr>) = core_ok h s"
  "core_ok h (s\<lparr>subject_operation_rights := f\<rparr>) = core_ok h s"
  "core_ok h (s\<lparr>identity_capabilities := g\<rparr>) = core_ok h s"
  "core_ok h (s\<lparr>authorization_required := b'\<rparr>) = core_ok h s"
  by (simp_all add: core_ok_def ok_defs)

lemma core_ok_rem: "core_ok h s \<Longrightarrow> leaves (core_ok h) (apply_rem_registry_command h c s)"
  using rem_command_frame by (rule leaves_frame) (auto simp: only_modes_def)

lemma clients_ok [simp]:
  "subscribers_ok h (t\<lparr>clients := x\<rparr>) = subscribers_ok h t" "subscriptions_have_topics (t\<lparr>clients := x\<rparr>) = subscriptions_have_topics t"
  "map_objects_ok (t\<lparr>clients := x\<rparr>) = map_objects_ok t" "missions_ok (t\<lparr>clients := x\<rparr>) = missions_ok t"
  "logs_ok (t\<lparr>clients := x\<rparr>) = logs_ok t" "teams_ok (t\<lparr>clients := x\<rparr>) = teams_ok t"
  "members_ok (t\<lparr>clients := x\<rparr>) = members_ok t" "assets_ok (t\<lparr>clients := x\<rparr>) = assets_ok t"
  "skills_ok (t\<lparr>clients := x\<rparr>) = skills_ok t" "assignments_ok (t\<lparr>clients := x\<rparr>) = assignments_ok t"
  "access_ok (t\<lparr>clients := x\<rparr>) = access_ok t" "eams_ok (t\<lparr>clients := x\<rparr>) = eams_ok t"
  "checklists_ok (t\<lparr>clients := x\<rparr>) = checklists_ok t"
  by (simp_all add: ok_defs)

lemma frame_clients:
  assumes "\<And>t x. I (t\<lparr>clients := x\<rparr>) = I t" and "I s" shows "leaves I (apply_client_event_command h c s)"
  using client_command_frame by (rule leaves_frame) (use assms in \<open>auto simp: only_clients_def\<close>)

lemma frame_rights:
  assumes "\<And>t x. I (t\<lparr>mission_access_assignments := x\<rparr>) = I t" and "I s"
  shows "leaves I (apply_registry_rights_command h c s)"
  using rights_command_frame by (rule leaves_frame) (use assms in \<open>auto simp: only_access_def\<close>)

lemma core_ok_clients:
  assumes ok: "core_ok h s" shows "leaves (core_ok h) (apply_client_event_command h c s)"
proof -
  note I = core_okD [OF ok]
  show ?thesis
    by (intro leaves_core_ok roster_command I)
       (rule frame_clients; simp add: I)+
qed

lemma rights_ok [simp]:
  "roster_ok (t\<lparr>mission_access_assignments := x\<rparr>) = roster_ok t" "subscribers_ok h (t\<lparr>mission_access_assignments := x\<rparr>) = subscribers_ok h t"
  "subscriptions_have_topics (t\<lparr>mission_access_assignments := x\<rparr>) = subscriptions_have_topics t" "map_objects_ok (t\<lparr>mission_access_assignments := x\<rparr>) = map_objects_ok t"
  "missions_ok (t\<lparr>mission_access_assignments := x\<rparr>) = missions_ok t" "logs_ok (t\<lparr>mission_access_assignments := x\<rparr>) = logs_ok t"
  "teams_ok (t\<lparr>mission_access_assignments := x\<rparr>) = teams_ok t" "members_ok (t\<lparr>mission_access_assignments := x\<rparr>) = members_ok t"
  "assets_ok (t\<lparr>mission_access_assignments := x\<rparr>) = assets_ok t" "skills_ok (t\<lparr>mission_access_assignments := x\<rparr>) = skills_ok t"
  "assignments_ok (t\<lparr>mission_access_assignments := x\<rparr>) = assignments_ok t" "eams_ok (t\<lparr>mission_access_assignments := x\<rparr>) = eams_ok t"
  "checklists_ok (t\<lparr>mission_access_assignments := x\<rparr>) = checklists_ok t"
  by (simp_all add: ok_defs)

lemma core_ok_rights:
  assumes ok: "core_ok h s" shows "leaves (core_ok h) (apply_registry_rights_command h c s)"
proof -
  note I = core_okD [OF ok]
  show ?thesis
    by (intro leaves_core_ok access_ok_command I)
       (rule frame_rights; simp add: I)+
qed

subsection \<open>Checklist commands and what refers to their tasks\<close>

interpretation checklist_assignments: checklist_aside assignments_ok
  by unfold_locales (rule assignments_ok_cong; simp)+

interpretation checklist_skills: checklist_aside skills_ok
  by unfold_locales (simp_all add: skills_ok_def)

interpretation checklist_logs: checklist_blind logs_ok
  by unfold_locales (simp_all add: logs_ok_def)

lemma links_agree_drop:
  assumes "assignments_ok s"
    and t: "assignments t = hm_retain (\<lambda>_ r. an_task_uid r \<notin> tasks) (assignments s)"
      "assignment_asset_links t = hs_retain (\<lambda>(k, _). k \<notin> gone) (assignment_asset_links s)"
      "missions t = missions s" "assets t = assets s"
    and gone: "gone = an_assignment_uid ` {r \<in> set (hm_values (assignments s)). an_task_uid r \<in> tasks}"
  shows "assignments_ok t"
proof -
  have wf: "hm_wf (assignments s)" and ok: "\<And>k r. hm_get (assignments s) k = Some r \<Longrightarrow> assignment_ok s k r"
    and links: "links_agree s"
    using assms(1) by (simp_all add: assignments_ok_def)
  have in_gone: "k \<in> gone \<longleftrightarrow> an_task_uid r \<in> tasks" if "hm_get (assignments s) k = Some r" for k r
  proof
    assume "k \<in> gone"
    then obtain r' k' where r': "hm_get (assignments s) k' = Some r'" "k = an_assignment_uid r'" "an_task_uid r' \<in> tasks"
      using wf by (auto simp: gone dest!: hm_in_values)
    with ok [OF r'(1)] that show "an_task_uid r \<in> tasks" by (simp add: assignment_ok_def)
  next
    assume "an_task_uid r \<in> tasks"
    with ok [OF that] hm_get_in_values [OF that] show "k \<in> gone"
      by (auto simp: gone assignment_ok_def image_iff)
  qed
  have "links_agree t"
    using links in_gone unfolding links_agree_def
    by (auto simp: t hm_get_retain_Some [OF wf])
  moreover have "assignment_ok t k r" if "hm_get (assignments t) k = Some r" for k r
    using ok that by (auto simp: t hm_get_retain_Some [OF wf] assignment_ok_def)
  ultimately show ?thesis
    using wf by (simp add: assignments_ok_def t)
qed

lemma assignments_ok_delete_checklist:
  assumes "assignments_ok s" shows "leaves assignments_ok (delete_checklist h u s)"
proof -
  let ?tasks = "set (map tk_task_uid (tasks_of_checklist (s\<lparr>checklists := hm_remove u (checklists s)\<rparr>) u))"
  let ?gone = "set (map an_assignment_uid (filter (\<lambda>r. an_task_uid r \<in> ?tasks) (hm_values (assignments s))))"
  show ?thesis
    unfolding delete_checklist_def Let_def
    by (intro keeps assms links_agree_drop [OF assms, where tasks = ?tasks and gone = ?gone]) simp_all
qed

lemma skills_ok_delete_checklist: "skills_ok s \<Longrightarrow> leaves skills_ok (delete_checklist h u s)"
  unfolding delete_checklist_def Let_def
  by (intro keeps) (auto simp: skills_ok_def hm_get_retain_Some)

lemma logs_ok_delete_checklist: "logs_ok s \<Longrightarrow> leaves logs_ok (delete_checklist h u s)"
  unfolding delete_checklist_def Let_def
  by (intro keeps) (auto simp: logs_ok_def)

lemma logs_ok_emit_checklist [keeps]:
  "logs_ok s \<Longrightarrow> leaves logs_ok (emit_checklist_change h c v e m ty ts cs s)"
  unfolding emit_checklist_change_def new_uuid_def Let_def
  by (intro keeps) (auto intro: logs_ok_record)

lemma logs_ok_checklist_command: "logs_ok s \<Longrightarrow> leaves logs_ok (apply_checklist_command h c s)"
  unfolding apply_checklist_command_def checklist_payload_def with_checklist_def emit_for_checklist_command_def
    emit_auto_checklist_created_mission_change_def
    emit_auto_checklist_uploaded_mission_change_def emit_auto_checklist_task_row_added_mission_change_def
    emit_auto_checklist_task_mutation_mission_change_def Let_def
  by (intro keeps logs_ok_delete_checklist checklist_logs.blind_template_command checklist_logs.kept_create
        checklist_logs.blind_update checklist_logs.blind_upload checklist_logs.kept_import
        checklist_logs.blind_publish checklist_logs.blind_task_command; simp?)

lemma core_ok_checklists:
  assumes ok: "core_ok h s" shows "leaves (core_ok h) (apply_checklist_command h c s)"
proof -
  note I = core_okD [OF ok]
  show ?thesis
    by (intro leaves_core_ok checklists_ok_command logs_ok_checklist_command
          checklist_assignments.aside_command assignments_ok_delete_checklist
          checklist_skills.aside_command skills_ok_delete_checklist I)
       (rule frame_checklists; simp add: I)+
qed

subsection \<open>Every way into the core keeps the invariant\<close>

lemma core_ok_command:
  assumes "core_ok h s" and "uuid_canonical h"
  shows "leaves (core_ok h) (apply_command h c s)"
proof -
  have "leaves (core_ok h) (run_component component h c s)" for component
    using assms
    by (cases component)
       (simp_all add: core_ok_rem core_ok_clients core_ok_map core_ok_missions core_ok_logs core_ok_eams
         core_ok_teams core_ok_members core_ok_assets core_ok_skills core_ok_assignments core_ok_rights
         core_ok_topics, intro keeps core_ok_checklists)
  with assms(1) show ?thesis
    unfolding apply_command_def by (intro keeps)
qed

end
