(* ===== verification/Protocol.thy ===== *)
theory Protocol
  imports Commands "HOL-Library.Word"
begin

text \<open>
  The envelopes of the hub's wire protocol (\<open>crates/r3akt-protocol/src/lib.rs\<close>) and their
  reading as commands and results (the conversions at the end of
  \<open>crates/r3akt-profile-rch/src/lib.rs\<close>).  A UUID is its printed text, a time is its number of
  nanoseconds since the epoch, a byte is a character; \<open>u16\<close>, \<open>u32\<close> and \<open>u64\<close>
  fields are words.  The MessagePack encoding of an envelope is the \<open>rmp_serde\<close> library's and
  has no definition here.
\<close>

subsection \<open>Messages\<close>

type_synonym instant = int

datatype health_status = Nominal | Degraded | Offline

record node_hello =
  nh_display_name :: string
  nh_capabilities :: "string list"

record heartbeat =
  hb_status :: health_status
  hb_sequence :: "64 word"

record telemetry_metric =
  tme_name :: string
  tme_value :: f64
  tme_unit :: string

record health_telemetry =
  ht_status :: health_status
  ht_metrics :: "telemetry_metric list"
  ht_observed_at :: instant

record telemetry_sample =
  ts_telemetry :: json
  ts_timestamp_s :: "int option"

record topic_attachment =
  ta_name :: string
  ta_data :: string
  ta_media_type :: "string option"
  ta_category :: string

record topic_message =
  tmsg_body :: string
  tmsg_content_type :: string
  tmsg_correlation_id :: "string option"
  tmsg_attachments :: "topic_attachment list"

record protocol_command =
  pc_name :: string
  pc_args :: json
  pc_correlation_id :: "string option"

record ack =
  ack_envelope_id :: string
  ack_detail :: "string option"
  ack_correlation_id :: "string option"

datatype payload =
    NodeHello node_hello
  | Heartbeat heartbeat
  | HealthTelemetry health_telemetry
  | TelemetrySample telemetry_sample
  | TopicMessage topic_message
  | Command protocol_command
  | AckAccepted ack
  | AckRejected ack
  | AckCompleted ack

datatype destination = NodeDestination string | TopicDestination string | BroadcastDestination

record 'p envelope =
  env_schema_version :: "16 word"
  env_id :: string
  env_dedupe_key :: "string option"
  env_source :: string
  env_destination :: destination
  env_topic :: string
  env_timestamp :: instant
  env_ttl_seconds :: "32 word"
  env_payload :: 'p

type_synonym protocol_envelope = "payload envelope"

datatype protocol_error =
    EncodeFailed string
  | DecodeFailed string
  | MissingProtocolField string
  | InvalidTtl
  | Expired
  | UnsupportedSchema "16 word"

subsection \<open>Envelopes\<close>

definition SCHEMA_VERSION :: "16 word" where
  "SCHEMA_VERSION = 1"

text \<open>\<open>Envelope::new\<close> draws its id and reads the clock: both are arguments.\<close>

definition new_envelope ::
  "string \<Rightarrow> instant \<Rightarrow> string \<Rightarrow> destination \<Rightarrow> string \<Rightarrow> 'p \<Rightarrow> 'p envelope" where
  "new_envelope drawn_id now source destination topic payload =
     \<lparr>env_schema_version = SCHEMA_VERSION, env_id = drawn_id, env_dedupe_key = None,
      env_source = source, env_destination = destination, env_topic = topic,
      env_timestamp = now, env_ttl_seconds = 300, env_payload = payload\<rparr>"

definition with_ttl :: "32 word \<Rightarrow> 'p envelope \<Rightarrow> 'p envelope" where
  "with_ttl ttl e = e\<lparr>env_ttl_seconds := ttl\<rparr>"

definition with_dedupe_key :: "string \<Rightarrow> 'p envelope \<Rightarrow> 'p envelope" where
  "with_dedupe_key key e = e\<lparr>env_dedupe_key := Some key\<rparr>"

definition envelope_dedupe_key :: "'p envelope \<Rightarrow> string" where
  "envelope_dedupe_key e =
     unwrap_or (filter_opt (\<lambda>text. trim text \<noteq> []) (env_dedupe_key e)) (env_id e)"

definition map_payload :: "'q \<Rightarrow> 'p envelope \<Rightarrow> 'q envelope" where
  "map_payload p e =
     \<lparr>env_schema_version = env_schema_version e, env_id = env_id e,
      env_dedupe_key = env_dedupe_key e, env_source = env_source e,
      env_destination = env_destination e, env_topic = env_topic e,
      env_timestamp = env_timestamp e, env_ttl_seconds = env_ttl_seconds e, env_payload = p\<rparr>"

text \<open>
  The last instant of \<open>chrono\<close>, the end of the year 262142.  Adding a duration past it
  panics; the result of \<open>validate_basic\<close> is then \<open>None\<close>.
\<close>

definition max_utc :: instant where
  "max_utc = 8210266876799 * 10 ^ 9 + 999999999"

definition add_seconds :: "instant \<Rightarrow> int \<Rightarrow> instant option" where
  "add_seconds t seconds = (let u = t + seconds * 10 ^ 9 in if u \<le> max_utc then Some u else None)"

definition validate_basic :: "instant \<Rightarrow> 'p envelope \<Rightarrow> (protocol_error + unit) option" where
  "validate_basic now e =
     (if env_schema_version e \<noteq> SCHEMA_VERSION then Some (Inl (UnsupportedSchema (env_schema_version e)))
      else if trim (env_source e) = [] then Some (Inl (MissingProtocolField ''source''))
      else if trim (env_topic e) = [] then Some (Inl (MissingProtocolField ''topic''))
      else if env_ttl_seconds e = 0 then Some (Inl InvalidTtl)
      else map_option (\<lambda>expires_at. if expires_at < now then Inl Expired else Inr ())
             (add_seconds (env_timestamp e) (uint (env_ttl_seconds e))))"

fun payload_correlation_id :: "payload \<Rightarrow> string option" where
  "payload_correlation_id (TopicMessage p) = tmsg_correlation_id p"
| "payload_correlation_id (Command p) = pc_correlation_id p"
| "payload_correlation_id (AckAccepted p) = ack_correlation_id p"
| "payload_correlation_id (AckRejected p) = ack_correlation_id p"
| "payload_correlation_id (AckCompleted p) = ack_correlation_id p"
| "payload_correlation_id _ = None"

definition envelope_correlation_id :: "protocol_envelope \<Rightarrow> string option" where
  "envelope_correlation_id e = payload_correlation_id (env_payload e)"

definition for_envelope :: "protocol_envelope \<Rightarrow> string option \<Rightarrow> ack" where
  "for_envelope e detail =
     \<lparr>ack_envelope_id = env_id e, ack_detail = detail, ack_correlation_id = envelope_correlation_id e\<rparr>"

subsection \<open>Commands and results\<close>

datatype profile_error =
    ProfileEncode string | ProfileDecode string | ProfileMissingField int | NotAck

definition to_protocol_envelope ::
  "string \<Rightarrow> instant \<Rightarrow> string \<Rightarrow> mission_command \<Rightarrow> protocol_envelope" where
  "to_protocol_envelope drawn_id now topic command =
     with_dedupe_key (command_dedupe_key command)
       (new_envelope drawn_id now (src_rns_identity (cmd_source command)) (TopicDestination topic) topic
         (Command \<lparr>pc_name = cmd_type command, pc_args = cmd_args command,
                   pc_correlation_id = cmd_correlation_id command\<rparr>))"

fun command_from_protocol ::
  "protocol_envelope \<Rightarrow> string \<Rightarrow> profile_error + mission_command" where
  "command_from_protocol e timestamp =
     (case env_payload e of
        Command command \<Rightarrow>
          Inr \<lparr>cmd_id = env_id e,
               cmd_source = \<lparr>src_rns_identity = env_source e, src_display_name = None\<rparr>,
               cmd_timestamp = timestamp, cmd_type = pc_name command, cmd_args = pc_args command,
               cmd_correlation_id = pc_correlation_id command, cmd_topics = [env_topic e]\<rparr>
      | _ \<Rightarrow> Inl (ProfileDecode ''payload is not a command envelope''))"

definition result_from_ack :: "ack \<Rightarrow> command_result_status \<Rightarrow> command_result" where
  "result_from_ack a status =
     \<lparr>res_command_id = ack_envelope_id a, res_status = status, res_detail = ack_detail a,
      res_reason_code = None, res_reason = ack_detail a, res_required_capabilities = [],
      res_accepted_at = None, res_by_identity = None, res_correlation_id = ack_correlation_id a,
      res_result = JNull\<rparr>"

fun ack_to_result :: "protocol_envelope \<Rightarrow> profile_error + command_result" where
  "ack_to_result e =
     (case env_payload e of
        AckAccepted a \<Rightarrow> Inr (result_from_ack a Accepted)
      | AckRejected a \<Rightarrow> Inr (result_from_ack a Rejected)
      | AckCompleted a \<Rightarrow> Inr (result_from_ack a Completed)
      | _ \<Rightarrow> Inl NotAck)"

subsection \<open>What they promise\<close>

text \<open>An envelope is accepted exactly when every check passes and it has not expired.\<close>

lemma validate_basic_accepts:
  "validate_basic now e = Some (Inr ()) \<longleftrightarrow>
     env_schema_version e = SCHEMA_VERSION \<and> trim (env_source e) \<noteq> [] \<and> trim (env_topic e) \<noteq> [] \<and>
     env_ttl_seconds e \<noteq> 0 \<and>
     (let expires_at = env_timestamp e + uint (env_ttl_seconds e) * 10 ^ 9
      in now \<le> expires_at \<and> expires_at \<le> max_utc)"
  by (auto simp: validate_basic_def add_seconds_def Let_def)

lemma uint_ttl: "uint (ttl :: 32 word) \<le> 4294967295"
  using uint_bounded [of ttl] by simp

text \<open>It panics only within the last ttl of the calendar, some 136 years at most.\<close>

lemma validate_basic_total:
  assumes "env_timestamp e + 4294967295 * 10 ^ 9 \<le> max_utc"
  shows "validate_basic now e \<noteq> None"
proof -
  have "env_timestamp e + uint (env_ttl_seconds e) * 10 ^ 9 \<le> max_utc"
    by (rule order_trans [OF add_left_mono [OF mult_right_mono [OF uint_ttl]] assms]) simp
  then show ?thesis by (simp add: validate_basic_def add_seconds_def)
qed

text \<open>A command survives the way through an envelope, but for its id, time and display name.\<close>

lemma command_round_trip:
  "command_from_protocol (to_protocol_envelope drawn_id now topic c) timestamp =
     Inr (c\<lparr>cmd_id := drawn_id, cmd_source := \<lparr>src_rns_identity = src_rns_identity (cmd_source c),
            src_display_name = None\<rparr>, cmd_timestamp := timestamp, cmd_topics := [topic]\<rparr>)"
  by (cases c) (simp add: to_protocol_envelope_def with_dedupe_key_def new_envelope_def)

lemma command_from_protocol_Inr:
  "command_from_protocol e timestamp = Inr c \<Longrightarrow>
     cmd_id c = env_id e \<and> src_rns_identity (cmd_source c) = env_source e \<and>
     (\<exists>p. env_payload e = Command p)"
  by (auto split: payload.splits)

end
