(* ===== verification/Ingest.thy ===== *)
theory Ingest
  imports Dispatch Protocol
begin

text \<open>
  Envelopes entering the core (\<open>crates/r3akt-rch-core/src/lib.rs\<close>: the delivery envelope,
  \<open>protocol_destination_for_rch\<close> and \<open>ingest_protocol_envelope\<close>).  A command is handed to
  \<open>handle_command\<close> under the id of its envelope, a topic message is recorded once its delivery
  envelope is valid, every other payload is ignored.

  The delivery contract is the crate \<open>r3akt-mesh-delivery\<close> and the printing of an instant is
  \<open>chrono\<close>'s; neither is in the repository, so both are the argument \<open>mesh\<close>.
\<close>

subsection \<open>Delivery envelopes\<close>

record delivery_envelope =
  de_message_id :: string
  de_content_type :: string
  de_schema_version :: string
  de_ttl_seconds :: "32 word"
  de_priority :: int
  de_sender :: string
  de_born_at_ms :: int
  de_created_at :: "string option"
  de_topic_id :: "string option"

record mesh =
  mesh_default_ttl_seconds :: "32 word"
  mesh_default_priority :: int
  mesh_schema_version :: string
  mesh_to_json :: "delivery_envelope \<Rightarrow> json"
  mesh_validate :: "json \<Rightarrow> int \<Rightarrow> string + delivery_envelope"
  mesh_classify :: "string option \<Rightarrow> string option \<Rightarrow> string + delivery_mode"
  mesh_rfc3339 :: "instant \<Rightarrow> string"

record build_delivery_request =
  bd_sender :: string
  bd_message_id :: "string option"
  bd_topic_id :: "string option"
  bd_content_type :: string
  bd_ttl_seconds :: "32 word"
  bd_priority :: int
  bd_born_at_ms :: "int option"
  bd_created_at :: "string option"

definition new_build_delivery_request :: "mesh \<Rightarrow> string \<Rightarrow> build_delivery_request" where
  "new_build_delivery_request m sender =
     \<lparr>bd_sender = sender, bd_message_id = None, bd_topic_id = None,
      bd_content_type = ''text/plain; schema=lxmf.chat.v1'',
      bd_ttl_seconds = mesh_default_ttl_seconds m, bd_priority = mesh_default_priority m,
      bd_born_at_ms = None, bd_created_at = None\<rparr>"

definition shared_delivery_error :: "string + 'a \<Rightarrow> 'a result" where
  "shared_delivery_error r = (case r of Inl message \<Rightarrow> Inl (Delivery message) | Inr x \<Rightarrow> Inr x)"

definition validate_delivery_envelope ::
  "mesh \<Rightarrow> host \<Rightarrow> string \<Rightarrow> json \<Rightarrow> int \<Rightarrow> delivery_envelope result" where
  "validate_delivery_envelope m h fresh value now_ms =
     and_then (shared_delivery_error (mesh_validate m value now_ms)) (\<lambda>envelope.
       Inr (envelope\<lparr>de_message_id := normalize_message_id h fresh (Some (de_message_id envelope)),
                     de_topic_id := (case de_topic_id envelope of
                        None \<Rightarrow> None | Some topic_id \<Rightarrow> normalize_topic_id h (Some topic_id))\<rparr>))"

definition build_delivery_envelope ::
  "mesh \<Rightarrow> host \<Rightarrow> string \<Rightarrow> build_delivery_request \<Rightarrow> delivery_envelope result" where
  "build_delivery_envelope m h fresh request =
     (let now_ms = utc_now_ms h
      in and_then (ok_or (normalize_hash (Some (bd_sender request))) (Delivery ''Sender is required''))
           (\<lambda>sender.
             let envelope =
               \<lparr>de_message_id = normalize_message_id h fresh (bd_message_id request),
                de_content_type = to_ascii_lowercase (trim (bd_content_type request)),
                de_schema_version = mesh_schema_version m,
                de_ttl_seconds = bd_ttl_seconds request,
                de_priority = bd_priority request,
                de_sender = sender,
                de_born_at_ms = unwrap_or (bd_born_at_ms request) now_ms,
                de_created_at = Some (unwrap_or (bd_created_at request) (utc_now_rfc3339 h)),
                de_topic_id = normalize_topic_id h (bd_topic_id request)\<rparr>
             in and_then (validate_delivery_envelope m h fresh (mesh_to_json m envelope) now_ms)
                  (\<lambda>_. Inr envelope)))"

definition classify_delivery_mode ::
  "mesh \<Rightarrow> string option \<Rightarrow> string option \<Rightarrow> delivery_mode result" where
  "classify_delivery_mode m topic_id dest = shared_delivery_error (mesh_classify m topic_id dest)"

definition protocol_destination_for_rch ::
  "mesh \<Rightarrow> host \<Rightarrow> string option \<Rightarrow> string option \<Rightarrow> destination result" where
  "protocol_destination_for_rch m h topic_id dest =
     and_then (classify_delivery_mode m topic_id dest) (\<lambda>mode.
       case mode of
         Targeted \<Rightarrow> Inr (NodeDestination (unwrap_or (normalize_hash dest) []))
       | Fanout \<Rightarrow> Inr (TopicDestination (unwrap_or (normalize_topic_id h topic_id) []))
       | Broadcast \<Rightarrow> Inr BroadcastDestination)"

subsection \<open>Ingestion\<close>

fun hex_digits :: "nat \<Rightarrow> string" where
  "hex_digits n = (if n < 16 then [hex_digit n] else hex_digits (n div 16) @ [hex_digit (n mod 16)])"

text \<open>Rust's \<open>{:#04x}\<close> of a 64-bit integer: its bits in hexadecimal, at least two digits.\<close>

definition hex_field :: "int \<Rightarrow> string" where
  "hex_field n =
     (let digits = hex_digits (nat (n mod 2 ^ 64))
      in ''0x'' @ (if length digits < 2 then CHR ''0'' # digits else digits))"

fun profile_error_text :: "profile_error \<Rightarrow> string" where
  "profile_error_text (ProfileEncode m) = ''RCH profile encode failed: '' @ m"
| "profile_error_text (ProfileDecode m) = ''RCH profile decode failed: '' @ m"
| "profile_error_text (ProfileMissingField n) = ''missing LXMF field '' @ hex_field n"
| "profile_error_text NotAck = ''payload is not an ACK envelope''"

definition ingest_topic_message ::
  "mesh \<Rightarrow> host \<Rightarrow> protocol_envelope \<Rightarrow> topic_message \<Rightarrow> rch_core \<Rightarrow> event_envelope option op" where
  "ingest_topic_message m h e msg s =
     (let topic_id = (case env_destination e of
            TopicDestination topic \<Rightarrow> Some topic
          | NodeDestination _ \<Rightarrow> None
          | BroadcastDestination \<Rightarrow> None)
      in try_in s (build_delivery_envelope m h (uuid_v4 h (next_uuid s))
             \<lparr>bd_sender = env_source e, bd_message_id = Some (env_id e), bd_topic_id = topic_id,
              bd_content_type = tmsg_content_type msg, bd_ttl_seconds = env_ttl_seconds e,
              bd_priority = mesh_default_priority m,
              bd_born_at_ms = Some (env_timestamp e div 10 ^ 9 * 1000),
              bd_created_at = Some (mesh_rfc3339 m (env_timestamp e))\<rparr>)
           (\<lambda>delivery.
             try_st (record_message h (de_message_id delivery) (tmsg_body msg) topic_id None (env_source e) s)
               (\<lambda>s ev. (s, Inr (Some ev)))))"

definition ingest_protocol_envelope ::
  "mesh \<Rightarrow> host \<Rightarrow> protocol_envelope \<Rightarrow> rch_core \<Rightarrow> event_envelope option op" where
  "ingest_protocol_envelope m h e s =
     (case env_payload e of
        Command _ \<Rightarrow>
          (case command_from_protocol e (utc_now_rfc3339 h) of
             Inl err \<Rightarrow> (s, Inl (InvalidPayload (profile_error_text err)))
           | Inr command \<Rightarrow>
               (let (s, outcome) = handle_command h command s in (s, Inr (out_event outcome))))
      | TopicMessage msg \<Rightarrow> ingest_topic_message m h e msg s
      | NodeHello _ \<Rightarrow> (s, Inr None)
      | Heartbeat _ \<Rightarrow> (s, Inr None)
      | HealthTelemetry _ \<Rightarrow> (s, Inr None)
      | TelemetrySample _ \<Rightarrow> (s, Inr None)
      | AckAccepted _ \<Rightarrow> (s, Inr None)
      | AckRejected _ \<Rightarrow> (s, Inr None)
      | AckCompleted _ \<Rightarrow> (s, Inr None))"

subsection \<open>What ingestion does\<close>

text \<open>Every ingestion is a command handled, a message recorded, or nothing.\<close>

lemma ingest_message_state:
  "fst (ingest_topic_message m h e msg s) = s
   \<or> (\<exists>mid body topic. fst (ingest_topic_message m h e msg s)
        = fst (record_message h mid body topic None (env_source e) s))"
proof -
  have same: "fst (try_st x (\<lambda>s ev. (s, Inr (Some ev)))) = fst x" for x :: "event_envelope op"
    by (cases x; cases "snd x") auto
  show ?thesis
    unfolding ingest_topic_message_def Let_def try_in_def
    by (rule sum.split [THEN iffD2]) (auto simp: same)
qed

lemma ingest_state:
  "fst (ingest_protocol_envelope m h e s) = s
   \<or> (\<exists>c. cmd_id c = env_id e \<and> fst (ingest_protocol_envelope m h e s) = fst (handle_command h c s))
   \<or> (\<exists>mid body topic. fst (ingest_protocol_envelope m h e s)
        = fst (record_message h mid body topic None (env_source e) s))"
proof (cases "env_payload e")
  case (Command c)
  then obtain cmd where run: "command_from_protocol e (utc_now_rfc3339 h) = Inr cmd"
    by (cases "command_from_protocol e (utc_now_rfc3339 h)") simp_all
  then have "cmd_id cmd = env_id e" by (simp only: command_from_protocol_Inr)
  with Command run show ?thesis
    by (intro disjI2 disjI1 exI [of _ cmd]) (simp add: ingest_protocol_envelope_def split_beta)
next
  case (TopicMessage msg)
  then show ?thesis
    using ingest_message_state [of m h e msg s] by (auto simp: ingest_protocol_envelope_def)
qed (simp_all add: ingest_protocol_envelope_def)

text \<open>A command envelope is the handling of its command.\<close>

lemma ingest_command:
  "env_payload e = Command p \<Longrightarrow> command_from_protocol e (utc_now_rfc3339 h) = Inr c \<Longrightarrow>
     ingest_protocol_envelope m h e s =
       (fst (handle_command h c s), Inr (out_event (snd (handle_command h c s))))"
  by (simp add: ingest_protocol_envelope_def split_beta)

text \<open>
  A delivery envelope that is built carries the id and the topic it was given in normal form, and
  an id that is not blank is not replaced.
\<close>

lemma build_delivery_envelope_Inr:
  assumes "build_delivery_envelope m h fresh request = Inr d"
  shows "normalize_hash (Some (bd_sender request)) = Some (de_sender d)"
    and "de_message_id d = normalize_message_id h fresh (bd_message_id request)"
    and "de_topic_id d = normalize_topic_id h (bd_topic_id request)"
    and "\<exists>v. mesh_validate m (mesh_to_json m d) (utc_now_ms h) = Inr v"
  using assms
proof -
  from assms obtain sender where sender: "normalize_hash (Some (bd_sender request)) = Some sender"
    by (auto simp: build_delivery_envelope_def Let_def result_eqs)
  then have d: "de_sender d = sender" "de_message_id d = normalize_message_id h fresh (bd_message_id request)"
      "de_topic_id d = normalize_topic_id h (bd_topic_id request)"
    and "\<exists>v. validate_delivery_envelope m h fresh (mesh_to_json m d) (utc_now_ms h) = Inr v"
    using assms by (auto simp: build_delivery_envelope_def Let_def result_eqs)
  then show "\<exists>v. mesh_validate m (mesh_to_json m d) (utc_now_ms h) = Inr v"
    by (auto simp: validate_delivery_envelope_def shared_delivery_error_def result_eqs split: sum.splits)
  show "normalize_hash (Some (bd_sender request)) = Some (de_sender d)"
    "de_message_id d = normalize_message_id h fresh (bd_message_id request)"
    "de_topic_id d = normalize_topic_id h (bd_topic_id request)"
    using sender d by simp_all
qed

end
