(* ===== verification/Reachable.thy ===== *)
theory Reachable
  imports Invariants Ingest
begin

text \<open>
  The runs of the core: a step is one call of the hub into the core, a command of the application or
  of a peer, an envelope of the wire protocol or one of the administrative calls; the reachable states are those a sequence of steps
  leads to from the empty core.  Each step has its own host, so time passes and the UUIDs are whatever
  the host draws; the hosts of a run share how a UUID is parsed, and a UUID they draw parses to itself
  (the \<open>uuid\<close> crate reads the simple form it prints).  The interface
  \<open>command_invariant\<close> says what a property must satisfy to be kept by every handler, and
  \<open>run_invariant\<close> by every step.
\<close>

subsection \<open>What no command writes\<close>

text \<open>
  The tables the authorization of the hub reads, the stored results, the system events and the telemetry
  are written by no command: the first by the administrative calls alone, the results by \<open>handle_command\<close> around the command.
\<close>

definition trusted :: "rch_core \<Rightarrow> (string, string list) hmap \<times> (string \<times> string \<times> string \<times> string \<times> string, subject_operation_right) hmap
    \<times> (string, identity_state_record) hmap \<times> bool \<times> (string, command_result) hmap
    \<times> system_event_record list \<times> telemetry_record list" where
  "trusted s = (identity_capabilities s, subject_operation_rights s, identity_states s,
     authorization_required s, command_results s,
     system_events s, telemetry_records s)"

lemma hide_trusted [simp]:
  "trusted (hide_topics t) = trusted t" "trusted (hide_map t) = trusted t" "trusted (hide_missions t) = trusted t"
  "trusted (hide_logs t) = trusted t" "trusted (hide_teams t) = trusted t" "trusted (hide_eams t) = trusted t"
  "trusted (hide_assets t) = trusted t" "trusted (hide_skills t) = trusted t"
  "trusted (hide_assignments t) = trusted t" "trusted (hide_checklists t) = trusted t"
  "trusted (t\<lparr>clients := a\<rparr>) = trusted t" "trusted (t\<lparr>mission_access_assignments := b\<rparr>) = trusted t"
  "trusted (t\<lparr>next_uuid := n\<rparr>) = trusted t" "trusted (t\<lparr>audit_events := e\<rparr>) = trusted t"
  by (simp_all add: trusted_def hide_topics_def hide_map_def hide_missions_def hide_logs_def hide_teams_def
        hide_eams_def hide_assets_def hide_skills_def hide_assignments_def hide_checklists_def)

lemma rem_command_trusted: "leaves (\<lambda>t. trusted t = trusted s) (apply_rem_registry_command h c s)"
  by (rule leaves_mono [OF rem_command_frame]) (auto simp: only_modes_def trusted_def)

lemma checklist_command_trusted: "leaves (\<lambda>t. trusted t = trusted s) (apply_checklist_command h c s)"
  by (rule frame_checklists) simp_all

lemma component_trusted: "leaves (\<lambda>t. trusted t = trusted s) (run_component component h c s)"
proof (cases component)
  case ChecklistCommands
  then show ?thesis by simp (intro keeps checklist_command_trusted)
qed (simp_all only: run_component.simps rem_command_trusted, (rule frame_clients frame_markers frame_zones frame_missions frame_logs frame_eams frame_teams
       frame_members frame_assets frame_skills frame_assignments frame_rights frame_topics; simp)+)

lemma command_trusted: "leaves (\<lambda>t. trusted t = trusted s) (apply_command h c s)"
  unfolding apply_command_def by (intro keeps component_trusted) simp

lemma trusted_results: "trusted t = trusted s \<Longrightarrow> command_results t = command_results s"
  by (simp add: trusted_def)

lemma record_trusted [simp]:
  "trusted (record_audit_event h c ev s) = trusted s" "trusted (audit_outcome h c e s) = trusted s"
  "trusted (fst (event_envelope_value h c ev s)) = trusted s"
  by (simp_all add: audit_outcome_def record_audit_event_def event_envelope_value_def new_uuid_def Let_def
        split: option.split)

subsection \<open>Properties every command keeps\<close>

definition lawful_host :: "(string \<Rightarrow> string option) \<Rightarrow> host \<Rightarrow> bool" where
  "lawful_host parse h \<longleftrightarrow> uuid_parse h = parse \<and> (\<forall>n. parse (uuid_v4 h n) = Some (uuid_v4 h n))"

lemma lawful_parse: "lawful_host parse h \<Longrightarrow> uuid_parse h = parse"
  by (simp add: lawful_host_def)

locale command_invariant =
  fixes inv :: "rch_core \<Rightarrow> bool" and lawful :: "host \<Rightarrow> bool"
  assumes inv_command: "lawful h \<Longrightarrow> inv s \<Longrightarrow> leaves inv (apply_command h c s)"
    and inv_checklists: "lawful h \<Longrightarrow> inv s \<Longrightarrow> leaves inv (apply_checklist_command h c s)"
    and inv_rem: "lawful h \<Longrightarrow> inv s \<Longrightarrow> leaves inv (apply_rem_registry_command h c s)"
    and inv_result: "inv s \<Longrightarrow> hm_get (command_results s) k = None \<Longrightarrow> res_command_id r = k \<Longrightarrow>
          inv (s\<lparr>command_results := hm_insert k r (command_results s)\<rparr>)"
    and inv_audit [simp]: "inv (s\<lparr>audit_events := b\<rparr>) = inv s"
    and inv_uuid [simp]: "inv (s\<lparr>next_uuid := n\<rparr>) = inv s"
begin

lemma inv_record [simp]: "inv (record_audit_event h c e s) = inv s"
  by (simp add: record_audit_event_def new_uuid_def Let_def)

lemma inv_audit_outcome [simp]: "inv (audit_outcome h c e s) = inv s"
  by (simp add: audit_outcome_def split: option.split)

lemma inv_event_value [simp]: "inv (fst (event_envelope_value h c ev s)) = inv s"
  by (simp add: event_envelope_value_def new_uuid_def Let_def)

lemma inv_handle:
  assumes "lawful h" and "inv s"
  shows "inv (fst (handle_command h c s))"
proof (cases "hm_get (command_results s) (cmd_id c)")
  case None
  obtain t r where run: "apply_command h c s = (t, r)" by (cases "apply_command h c s")
  have t: "inv t" by (rule leavesD [OF inv_command [OF assms] run])
  have "trusted t = trusted s" by (rule leavesD [OF command_trusted run])
  then have free: "hm_get (command_results u) (cmd_id c) = None" if "trusted u = trusted t" for u
    using None that by (simp add: trusted_def)
  show ?thesis
  proof (cases r)
    case (Inl e)
    have "inv (t\<lparr>command_results := hm_insert (cmd_id c) (out_result (rejected_outcome c e)) (command_results t)\<rparr>)"
      by (rule inv_result [OF t free]) (simp_all add: rejected_outcome_def)
    with None run Inl show ?thesis by (simp add: handle_command_def)
  next
    case (Inr ev)
    let ?t = "audit_outcome h c ev t"
    have "inv (?t\<lparr>command_results := hm_insert (cmd_id c) (out_result (accepted_outcome c ev)) (command_results ?t)\<rparr>)"
      by (rule inv_result [OF _ free]) (simp_all add: t accepted_outcome_def)
    with None run Inr show ?thesis by (simp add: handle_command_def)
  qed
qed (simp add: handle_command_cached assms(2))

lemma inv_run_mission:
  assumes "lawful h" and "inv s"
  shows "inv (fst (run_mission_command h c s))"
  using inv_command [OF assms, of c] inv_event_value
  by (auto simp: run_mission_command_def leaves_def Let_def split_beta split: option.split prod.split sum.split)

lemma inv_rem_sync:
  assumes "lawful h" and "inv s"
  shows "inv (fst (handle_rem_registry_sync_command h c s))"
  using inv_rem [OF assms, of c] assms(2)
  by (auto simp: handle_rem_registry_sync_command_def run_rem_command_def leaves_def Let_def
        split: option.split prod.split sum.split)

lemma inv_mission_sync:
  assumes "lawful h" and "inv s"
  shows "inv (fst (handle_mission_sync_command h c s))"
  using inv_rem_sync [OF assms, of c] inv_run_mission [OF assms, of c] assms(2)
  by (simp add: handle_mission_sync_command_def split: option.split)

lemma inv_checklist_sync:
  assumes "lawful h" and "inv s"
  shows "inv (fst (handle_checklist_sync_command h c s))"
  using inv_checklists [OF assms, of c] assms(2)
  by (auto simp: handle_checklist_sync_command_def leaves_def split: option.split prod.split sum.split)

end

subsection \<open>Steps and runs\<close>

inductive step :: "(string \<Rightarrow> string option) \<Rightarrow> rch_core \<Rightarrow> rch_core \<Rightarrow> bool" for parse where
  command: "lawful_host parse h \<Longrightarrow> handle_command h c s = (t, out) \<Longrightarrow> step parse s t"
| mission_sync: "lawful_host parse h \<Longrightarrow> handle_mission_sync_command h c s = (t, rs) \<Longrightarrow> step parse s t"
| checklist_sync: "lawful_host parse h \<Longrightarrow> handle_checklist_sync_command h c s = (t, rs) \<Longrightarrow> step parse s t"
| ingest: "lawful_host parse h \<Longrightarrow> ingest_protocol_envelope m h e s = (t, r) \<Longrightarrow> step parse s t"
| announce: "record_identity_announce h d i n src caps s = (t, r) \<Longrightarrow> step parse s t"
| announced_member: "upsert_team_member_from_identity_announce h a s = (t, m) \<Longrightarrow> step parse s t"
| identity_state: "set_identity_state h i banned blackholed s = (t, st) \<Longrightarrow> step parse s t"
| rem_mode: "set_identity_rem_mode h i mode s = (t, md) \<Longrightarrow> step parse s t"
| role: "assign_mission_access_role m ty i ro s = (t, u) \<Longrightarrow> step parse s t"
| right: "upsert_operation_right h ty i op sc si granted s = (t, rt) \<Longrightarrow> step parse s t"
| grant: "grant_identity_capability i cap s = t \<Longrightarrow> step parse s t"
| revoke: "revoke_identity_capability i cap s = (t, b) \<Longrightarrow> step parse s t"
| require: "set_authorization_required b s = t \<Longrightarrow> step parse s t"

inductive_cases stepE: "step parse s t"

inductive reachable :: "(string \<Rightarrow> string option) \<Rightarrow> rch_core \<Rightarrow> bool" for parse where
  start: "reachable parse new_core"
| next_step: "reachable parse s \<Longrightarrow> step parse s t \<Longrightarrow> reachable parse t"

text \<open>A property of the steps: one the administrative calls keep as well.\<close>

locale step_invariant = command_invariant inv "lawful_host parse"
    for inv :: "rch_core \<Rightarrow> bool" and parse :: "string \<Rightarrow> string option" +
  assumes inv_message: "lawful_host parse h \<Longrightarrow> inv s \<Longrightarrow>
          leaves inv (record_message h mid content topic None sender s)"
    and inv_identity_announce: "inv s \<Longrightarrow> leaves inv (record_identity_announce h d ai n src caps s)"
    and inv_member: "inv s \<Longrightarrow> leaves inv (upsert_team_member_from_identity_announce h a s)"
    and inv_identity_state: "inv s \<Longrightarrow> leaves inv (set_identity_state h i b k s)"
    and inv_rem_mode: "inv s \<Longrightarrow> leaves inv (set_identity_rem_mode h i mode s)"
    and inv_role: "inv s \<Longrightarrow> leaves inv (assign_mission_access_role u ty i r s)"
    and inv_operation_right: "inv s \<Longrightarrow> leaves inv (upsert_operation_right h ty i op sc si g s)"
    and inv_grant: "inv s \<Longrightarrow> inv (grant_identity_capability i cap s)"
    and inv_revoke: "inv s \<Longrightarrow> inv (fst (revoke_identity_capability i cap s))"
    and inv_required [simp]: "inv (s\<lparr>authorization_required := m\<rparr>) = inv s"
begin

lemma inv_step:
  assumes "step parse s t" and "inv s"
  shows "inv t"
  using assms(1)
proof cases
  case (command h c out)
  with inv_handle [OF _ assms(2), of h c] show ?thesis by simp
next
  case (ingest h m e r)
  from inv_handle [OF ingest(1) assms(2)] inv_message [OF ingest(1) assms(2)] ingest(2)
  show ?thesis
    using ingest_state [of m h e s] assms(2) by (auto simp: leaves_def)
next
  case (mission_sync h c out)
  with inv_mission_sync [OF _ assms(2), of h c] show ?thesis by simp
next
  case (checklist_sync h c out)
  with inv_checklist_sync [OF _ assms(2), of h c] show ?thesis by simp
next
  case announce
  then show ?thesis by (rule leavesD [OF inv_identity_announce [OF assms(2)]])
next
  case announced_member
  then show ?thesis by (rule leavesD [OF inv_member [OF assms(2)]])
next
  case identity_state
  then show ?thesis by (rule leavesD [OF inv_identity_state [OF assms(2)]])
next
  case rem_mode
  then show ?thesis by (rule leavesD [OF inv_rem_mode [OF assms(2)]])
next
  case role
  then show ?thesis by (rule leavesD [OF inv_role [OF assms(2)]])
next
  case right
  then show ?thesis by (rule leavesD [OF inv_operation_right [OF assms(2)]])
next
  case (grant i cap)
  with inv_grant [OF assms(2), of i cap] show ?thesis by simp
next
  case (revoke i cap b)
  with inv_revoke [OF assms(2), of i cap] show ?thesis by simp
next
  case require
  then show ?thesis using assms(2) by (auto simp: set_authorization_required_def)
qed

lemma inv_steps: "(step parse)\<^sup>*\<^sup>* s t \<Longrightarrow> inv s \<Longrightarrow> inv t"
  by (induction rule: rtranclp_induct) (auto intro: inv_step)

end

text \<open>A property of the runs: it holds of the empty core, too.\<close>

locale run_invariant = step_invariant +
  assumes inv_new: "inv new_core"
begin

lemma inv_reachable: "reachable parse s \<Longrightarrow> inv s"
  by (induction rule: reachable.induct) (auto intro: inv_new inv_step)

end

text \<open>The tables the administrative calls write: a property none of them is part of is kept.\<close>

locale admin_blind = command_invariant inv "lawful_host parse"
    for inv :: "rch_core \<Rightarrow> bool" and parse :: "string \<Rightarrow> string option" +
  assumes blind_new: "inv new_core"
    and blind_announces [simp]: "inv (s\<lparr>identity_announces := d\<rparr>) = inv s"
    and blind_states [simp]: "inv (s\<lparr>identity_states := e\<rparr>) = inv s"
    and blind_modes [simp]: "inv (s\<lparr>identity_rem_modes := g\<rparr>) = inv s"
    and blind_rights [simp]: "inv (s\<lparr>subject_operation_rights := k\<rparr>) = inv s"
    and blind_capabilities [simp]: "inv (s\<lparr>identity_capabilities := l\<rparr>) = inv s"
    and blind_required [simp]: "inv (s\<lparr>authorization_required := m\<rparr>) = inv s"
    and kept_member: "inv s \<Longrightarrow> leaves inv (upsert_team_member_from_identity_announce h a s)"
    and kept_role: "inv s \<Longrightarrow> leaves inv (assign_mission_access_role u ty i r s)"
    and kept_message: "lawful_host parse h \<Longrightarrow> inv s \<Longrightarrow>
          leaves inv (record_message h mid content topic None sender s)"
begin

lemma blind_identity_announce: "inv s \<Longrightarrow> leaves inv (record_identity_announce h d i n src caps s)"
  unfolding record_identity_announce_def Let_def by (intro keeps; simp?)

lemma blind_identity_state: "inv s \<Longrightarrow> leaves inv (set_identity_state h i b k s)"
  unfolding set_identity_state_def Let_def by (intro keeps; simp?)

lemma blind_rem_mode: "inv s \<Longrightarrow> leaves inv (set_identity_rem_mode h i mode s)"
  unfolding set_identity_rem_mode_def Let_def by (intro keeps; simp?)

lemma blind_operation_right: "inv s \<Longrightarrow> leaves inv (upsert_operation_right h ty i op sc si g s)"
  unfolding upsert_operation_right_def Let_def by (intro keeps; (auto dest!: or_new_uuid_frame)?)

lemma blind_capability:
  "inv (grant_identity_capability i cap s) = inv s" "inv (fst (revoke_identity_capability i cap s)) = inv s"
  by (auto simp: grant_identity_capability_def revoke_identity_capability_def Let_def split: option.split)

end

sublocale admin_blind \<subseteq> run_invariant
  by unfold_locales
     (simp_all add: blind_new blind_identity_announce blind_identity_state blind_rem_mode
        blind_operation_right blind_capability kept_member kept_role kept_message)

subsection \<open>The invariant of the core is one\<close>

lemma core_ok_new: "core_ok h new_core"
  by (simp add: core_ok_def ok_defs new_core_def keyed_by_def acyclic_def)

lemma core_ok_members_only:
  assumes "core_ok h s" and "members_ok (s\<lparr>team_members := m\<rparr>)" and "assets_ok (s\<lparr>team_members := m\<rparr>)"
  shows "core_ok h (s\<lparr>team_members := m\<rparr>)"
  using assms by (simp add: core_ok_def ok_defs)

lemma core_ok_announced_member:
  assumes "core_ok h s" shows "leaves (core_ok h) (upsert_team_member_from_identity_announce h' a s)"
proof -
  let ?m = "upsert_team_member_from_identity_announce h' a s"
  have "leaves members_ok ?m" using core_okD [OF assms] by (intro members_ok_announce)
  moreover have "leaves assets_ok ?m"
    using core_okD [OF assms] unfolding upsert_team_member_from_identity_announce_def Let_def
    by (intro keeps assets_ok_more_members)
  moreover have "leaves (\<lambda>t. \<exists>m. t = s\<lparr>team_members := m\<rparr>) ?m"
  proof -
    have "\<exists>m. s = s\<lparr>team_members := m\<rparr>" by (rule exI [of _ "team_members s"]) simp
    then show ?thesis
      unfolding upsert_team_member_from_identity_announce_def Let_def by (intro keeps) auto
  qed
  ultimately show ?thesis
    using core_ok_members_only [OF assms] by (auto simp: leaves_def)
qed

lemma core_ok_role:
  assumes "core_ok h s" shows "leaves (core_ok h) (assign_mission_access_role u ty i r s)"
proof -
  have "leaves access_ok (assign_mission_access_role u ty i r s)"
    using core_okD [OF assms] by (intro access_ok_assign)
  moreover have "leaves (only_access s) (assign_mission_access_role u ty i r s)"
    unfolding assign_mission_access_role_def by (intro keeps) simp_all
  ultimately show ?thesis
    using core_okD [OF assms] by (auto simp: leaves_def only_access_def core_ok_def)
qed

lemma core_ok_cong: "uuid_parse h = uuid_parse h' \<Longrightarrow> core_ok h s = core_ok h' s"
proof -
  assume parse: "uuid_parse h = uuid_parse h'"
  have "subscriber_ok h k rec = subscriber_ok h' k rec" for k rec
  proof -
    have "normalize_topic_id h = normalize_topic_id h'"
      by (intro ext) (simp only: normalize_topic_id_def parse)
    then show ?thesis
      by (cases k) (simp only: subscriber_ok.simps normalize_subscriber_topic_id_def)
  qed
  then show ?thesis by (simp add: core_ok_def subscribers_ok_def)
qed

definition parsed_canonical :: "(string \<Rightarrow> string option) \<Rightarrow> bool" where
  "parsed_canonical parse \<longleftrightarrow> (\<forall>s u. parse s = Some u \<longrightarrow> parse u = Some u \<and> trim u = u \<and> u \<noteq> [])"

text \<open>A property of the state that may depend on how UUIDs are parsed, and on nothing else of a host.\<close>

definition sound_for :: "(host \<Rightarrow> rch_core \<Rightarrow> bool) \<Rightarrow> (string \<Rightarrow> string option) \<Rightarrow> rch_core \<Rightarrow> bool" where
  "sound_for P parse s \<longleftrightarrow> (parsed_canonical parse \<longrightarrow> (\<forall>h. uuid_parse h = parse \<longrightarrow> P h s))"

abbreviation core_sound :: "(string \<Rightarrow> string option) \<Rightarrow> rch_core \<Rightarrow> bool" where
  "core_sound \<equiv> sound_for core_ok"

lemma sound_for_leaves:
  assumes "sound_for P parse s"
    and "\<And>h. parsed_canonical parse \<Longrightarrow> uuid_parse h = parse \<Longrightarrow> P h s \<Longrightarrow> leaves (P h) m"
  shows "leaves (sound_for P parse) m"
  using assms by (simp add: leaves_def sound_for_def)

lemma sound_for_leaves_at:
  assumes cong: "\<And>h h' s. uuid_parse h = uuid_parse h' \<Longrightarrow> P h s = P h' s"
    and "sound_for P parse s" and "lawful_host parse h"
    and "uuid_canonical h \<Longrightarrow> P h s \<Longrightarrow> leaves (P h) m"
  shows "leaves (sound_for P parse) m"
proof (rule sound_for_leaves [OF assms(2)])
  fix h' assume "parsed_canonical parse" and h': "uuid_parse h' = parse" and "P h' s"
  then have "uuid_canonical h" "P h s"
    using lawful_parse [OF assms(3)] cong [of h h' s] by (simp_all add: uuid_canonical_def parsed_canonical_def)
  then have "leaves (P h) m" by (rule assms(4))
  then show "leaves (P h') m"
    using cong [of h h'] h' lawful_parse [OF assms(3)] by (simp add: leaves_def)
qed

lemma sound_forD: "sound_for P (uuid_parse h) s \<Longrightarrow> uuid_canonical h \<Longrightarrow> P h s"
  by (auto simp: sound_for_def parsed_canonical_def uuid_canonical_def)

lemmas core_sound_leaves = sound_for_leaves [where P = core_ok]
lemmas core_sound_leaves_at = sound_for_leaves_at [where P = core_ok, OF core_ok_cong]

lemma core_sound_fields [simp]:
  "core_sound parse (s\<lparr>identity_rem_modes := a\<rparr>) = core_sound parse s"
  "core_sound parse (s\<lparr>command_results := b\<rparr>) = core_sound parse s"
  "core_sound parse (s\<lparr>audit_events := c\<rparr>) = core_sound parse s"
  "core_sound parse (s\<lparr>next_uuid := n\<rparr>) = core_sound parse s"
  "core_sound parse (s\<lparr>identity_announces := d\<rparr>) = core_sound parse s"
  "core_sound parse (s\<lparr>identity_states := e\<rparr>) = core_sound parse s"
  "core_sound parse (s\<lparr>subject_operation_rights := f\<rparr>) = core_sound parse s"
  "core_sound parse (s\<lparr>identity_capabilities := g\<rparr>) = core_sound parse s"
  "core_sound parse (s\<lparr>authorization_required := b'\<rparr>) = core_sound parse s"
  by (simp_all add: sound_for_def)

lemma core_sound_new: "core_sound parse new_core"
  by (simp add: sound_for_def core_ok_new)

interpretation core_runs: admin_blind "core_sound parse" parse
  by unfold_locales
     (simp_all only: core_sound_fields core_sound_new core_sound_leaves_at core_ok_command core_ok_checklists
        core_ok_rem core_sound_leaves core_ok_announced_member core_ok_role core_ok_message)

lemma reachable_core_ok:
  "reachable (uuid_parse h) s \<Longrightarrow> uuid_canonical h \<Longrightarrow> core_ok h s"
  using core_runs.inv_reachable by (rule sound_forD)

end
