(* ===== verification/Samples.thy ===== *)
theory Samples
  imports Reachable
begin

text \<open>
  Concrete inputs for the witnesses: a host with a fixed clock and numbered UUIDs, a command of the
  identity \<open>abcd\<close>, and small states of the core.
\<close>

definition sample_host :: host where
  "sample_host =
     \<lparr>utc_now_ms = 1700000000000, utc_now_rfc3339 = ''2023-11-14T22:13:20Z'',
      uuid_v4 = (\<lambda>n. ''uuid-'' @ show_nat n), uuid_parse = (\<lambda>t. None), millis_to_rfc3339 = show_int,
      parse_rfc3339 = (\<lambda>t. None), f64_text = (\<lambda>x. ''0''), recent_announce_window_ms = 3600000,
      base64_decode = Some, csv_records = (\<lambda>t. Inr [])\<rparr>"

definition sample_command :: "string \<Rightarrow> json \<Rightarrow> mission_command" where
  "sample_command ctype args =
     \<lparr>cmd_id = ''cmd-1'', cmd_source = \<lparr>src_rns_identity = ''abcd'', src_display_name = None\<rparr>,
      cmd_timestamp = [], cmd_type = ctype, cmd_args = args, cmd_correlation_id = None, cmd_topics = []\<rparr>"

text \<open>A hub that asks for authorization, where \<open>abcd\<close> may join and nothing else.\<close>

definition guarded_core :: rch_core where
  "guarded_core = grant_identity_capability ''abcd'' ''mission.join'' (set_authorization_required True new_core)"

text \<open>
  A run: commands of \<open>abcd\<close> to a hub that starts empty, on a host whose UUIDs are
  \<open>uuid\<close>, \<open>uuid0\<close>, \<open>uuid00\<close>, \<dots> and that reads every trimmed text as a UUID.
\<close>

definition run_host :: host where
  "run_host = sample_host\<lparr>uuid_v4 := (\<lambda>n. ''uuid'' @ replicate n (CHR ''0'')),
     uuid_parse := (\<lambda>t. if trim t = t \<and> t \<noteq> [] then Some t else None)\<rparr>"

fun run_commands :: "nat \<Rightarrow> (string \<times> json) list \<Rightarrow> rch_core \<Rightarrow> rch_core" where
  "run_commands n [] s = s"
| "run_commands n ((ctype, args) # cs) s =
     run_commands (Suc n) cs (fst (handle_command run_host ((sample_command ctype args)\<lparr>cmd_id := show_nat n\<rparr>) s))"

definition sample_core :: rch_core where
  "sample_core = run_commands 0
     [(''topic.create'', JObj [(''topic_id'', JStr ''ops''), (''topic_name'', JStr ''Ops''), (''topic_path'', JStr ''ops'')]),
      (''topic.subscribe'', JObj [(''topic_id'', JStr ''ops'')]),
      (''mission.join'', JNull)] new_core"

text \<open>A hub with one checklist, \<open>c1\<close>.\<close>

definition sample_checklist_command :: mission_command where
  "sample_checklist_command = sample_command ''checklist.create.offline''
     (JObj [(''checklist_uid'', JStr ''c1''), (''name'', JStr ''Kit'')])"

definition checklist_core :: rch_core where
  "checklist_core = fst (handle_checklist_sync_command run_host sample_checklist_command new_core)"

text \<open>A hub with one mission, \<open>m1\<close>, of priority 7.\<close>

definition upsert_command :: mission_command where
  "upsert_command = sample_command ''mission.registry.mission.upsert''
     (JObj [(''uid'', JStr ''m1''), (''mission_name'', JStr ''Alpha''), (''mission_priority'', JInt 7)])"

definition mission_core :: rch_core where
  "mission_core = fst (handle_command run_host upsert_command new_core)"

text \<open>
  The values of the samples.  They are evaluated in one go, since reading the equations of all the
  definitions takes longer than evaluating.
\<close>

lemma sample_values:
  "hm_contains (subscribers sample_core) (''abcd'', ''ops'')"
  "fst (handle_mission_sync_command sample_host (sample_command ''mission.join'' JNull) guarded_core) \<noteq> guarded_core"
  "authorization_required guarded_core"
  "''mission.join'' \<in> set mission_commands" "''mission.nick'' \<in> set mission_commands"
  "missing_capability sample_host (sample_command ''mission.nick'' JNull) guarded_core = Some ''mission.leave''"
  "rem_team_scope_rejection guarded_core (sample_command ''mission.nick'' JNull) = None"
  "identity_blocked (fst (set_identity_state run_host ''abcd'' True False new_core)) ''abcd''"
  "\<not> hm_contains (clients (fst (set_identity_state run_host ''abcd'' True False new_core))) ''abcd''"
  "snd (run_component TopicCommands run_host (sample_command ''topic.delete'' (JObj [(''topic_id'', JStr ''ops'')])) new_core)
     = Inl TopicNotFound"
  "checklist_required_capability (cmd_type sample_checklist_command) = Some ''checklist.write''"
  "\<not> has_identity_capability guarded_core (src_rns_identity (cmd_source sample_checklist_command)) ''checklist.write''"
  "\<not> has_checklist_access_operation run_host guarded_core sample_checklist_command ''checklist.write''"
  "is_supported_checklist_command (cmd_type sample_checklist_command)"
  "rem_team_scope_rejection new_core sample_checklist_command = None"
  "missing_checklist_capability run_host sample_checklist_command new_core = None"
  "hm_contains (checklists (fst (create_checklist_from_args run_host sample_checklist_command ''OFFLINE'' ''LOCAL_ONLY'' new_core))) ''c1''"
  "hm_get (command_results new_core) (cmd_id upsert_command) = None"
  "first_arm dispatch_arms (cmd_type upsert_command) = Some MissionCommands"
  "first_arm dispatch_arms ''mission.join'' = Some ClientCommands"
  "map_option mi_mission_priority (hm_get (missions (fst (upsert_mission_from_args run_host (cmd_args upsert_command) new_core))) ''m1'')
     = Some (Some 7)"
  "normalize_hash (Some (src_rns_identity (cmd_source (sample_command ''mission.join'' JNull)))) = Some ''abcd''"
  "\<not> identity_blocked new_core ''abcd''"
  by code_simp+

lemma run_host_canonical: "uuid_canonical run_host"
  by (auto simp: uuid_canonical_def run_host_def split: if_splits)

lemma ws_tail_head: "\<not> ws1 a \<Longrightarrow> code a < 128 \<Longrightarrow> ws_tail (a # s) = 0"
  by (cases "a # s" rule: ws_tail.cases) (auto simp: ws2_def ws3_def)

lemma trim_drawn: "trim (''uuid'' @ replicate n (CHR ''0'')) = ''uuid'' @ replicate n (CHR ''0'')"
proof -
  have "ws_head (''uuid'' @ s) = 0" for s
    by (simp add: ws1_def ws2_def ws3_def code_def)
  moreover have "ws_tail (rev (''uuid'' @ replicate n (CHR ''0''))) = 0"
  proof (cases n)
    case (Suc k)
    then have "rev (''uuid'' @ replicate n (CHR ''0'')) = CHR ''0'' # replicate k (CHR ''0'') @ ''diuu''"
      by (simp flip: replicate_append_same)
    then show ?thesis by (simp only:) (rule ws_tail_head; simp add: ws1_def code_def)
  qed (simp add: ws1_def ws2_def ws3_def code_def)
  ultimately show ?thesis
    by (simp add: trim_def trim_start_def trim_end_def strip.simps)
qed

lemma run_host_lawful: "lawful_host (uuid_parse run_host) run_host"
  using trim_drawn by (simp add: lawful_host_def run_host_def)

lemma run_commands_reachable:
  "reachable (uuid_parse run_host) s \<Longrightarrow> reachable (uuid_parse run_host) (run_commands n cs s)"
proof (induction n cs s rule: run_commands.induct)
  case (2 n ctype args cs s)
  let ?c = "(sample_command ctype args)\<lparr>cmd_id := show_nat n\<rparr>"
  obtain t out where run: "handle_command run_host ?c s = (t, out)" by (cases "handle_command run_host ?c s")
  with 2 show ?case
    using next_step [OF _ step.command [OF run_host_lawful run]] by simp
qed simp

lemma sample_core_reachable: "reachable (uuid_parse run_host) sample_core"
  unfolding sample_core_def by (intro run_commands_reachable start)

lemma checklist_core_reachable: "reachable (uuid_parse run_host) checklist_core"
  unfolding checklist_core_def
  by (rule next_step [OF start step.checklist_sync [OF run_host_lawful]]) (rule prod.collapse [symmetric])

lemma record_audit_checklists [simp]: "checklists (record_audit_event h c ev s) = checklists s"
  by (simp add: record_audit_event_def new_uuid_def Let_def)

lemma fst_try_st: "fst (try_st m (\<lambda>t x. (t, Inr (f t x)))) = fst m"
  by (cases m; cases "snd m") auto

lemma checklist_core_created:
  "checklists checklist_core =
     checklists (fst (create_checklist_from_args run_host sample_checklist_command ''OFFLINE'' ''LOCAL_ONLY'' new_core))"
proof -
  have "is_supported_checklist_command (cmd_type sample_checklist_command)"
    "rem_team_scope_rejection new_core sample_checklist_command = None"
    "missing_checklist_capability run_host sample_checklist_command new_core = None"
    by (rule sample_values)+
  then have "checklists checklist_core = checklists (fst (apply_checklist_command run_host sample_checklist_command new_core))"
    by (auto simp: checklist_core_def handle_checklist_sync_command_def split: prod.split sum.split)
  also have "fst (apply_checklist_command run_host sample_checklist_command new_core) =
      fst (create_checklist_from_args run_host sample_checklist_command ''OFFLINE'' ''LOCAL_ONLY'' new_core)"
    by (simp add: apply_checklist_command_def checklist_payload_def emit_for_checklist_command_def
          sample_checklist_command_def sample_command_def fst_try_st)
  finally show ?thesis .
qed

lemma checklist_core_contains: "hm_contains (checklists checklist_core) ''c1''"
  unfolding checklist_core_created by (rule sample_values)

lemma mission_core_reachable: "reachable (uuid_parse run_host) mission_core"
  unfolding mission_core_def
  by (rule next_step [OF start step.command [OF run_host_lawful]]) (rule prod.collapse [symmetric])

lemma audit_outcome_missions [simp]: "missions (audit_outcome h c ev s) = missions s"
  by (simp add: audit_outcome_def record_audit_event_def new_uuid_def Let_def split: option.split)

lemma mission_core_created:
  "missions mission_core = missions (fst (upsert_mission_from_args run_host (cmd_args upsert_command) new_core))"
proof -
  have free: "hm_get (command_results new_core) (cmd_id upsert_command) = None"
    and arm: "first_arm dispatch_arms (cmd_type upsert_command) = Some MissionCommands" by (rule sample_values)+
  have "missions mission_core = missions (fst (apply_registry_mission_command run_host upsert_command new_core))"
    by (simp add: mission_core_def handle_command_def free apply_command_def arm Let_def split: prod.split sum.split)
  also have "fst (apply_registry_mission_command run_host upsert_command new_core) =
      fst (upsert_mission_from_args run_host (cmd_args upsert_command) new_core)"
    by (simp add: apply_registry_mission_command_def upsert_command_def Let_def sample_command_def fst_try_st)
  finally show ?thesis .
qed

lemma mission_core_priority:
  "map_option mi_mission_priority (hm_get (missions mission_core) ''m1'') = Some (Some 7)"
  unfolding mission_core_created by (rule sample_values)

end
