(* ===== verification/Snapshot.thy ===== *)
theory Snapshot
  imports Samples
begin

text \<open>
  Saving and loading the state (\<open>crates/r3akt-rch-core/src/lib.rs\<close>: \<open>RchCoreSnapshot\<close>,
  \<open>snapshot\<close>, the \<open>..._records\<close> listings and \<open>from_snapshot\<close>).  A snapshot holds the
  records of every table as a sorted list; loading keys them again, refuses topics and subscriptions
  that collide once normalized, and checks the subscriptions.  The two tables the state leaves out
  (system events, telemetry) are left out here too, and the count of UUIDs drawn starts anew.
\<close>

subsection \<open>The records of the link tables\<close>

record mission_team_link_record =
  tl_mission_uid :: string
  tl_team_uid :: string

record mission_zone_link_record =
  zl_mission_uid :: string
  zl_zone_id :: string

record mission_marker_link_record =
  ml_mission_uid :: string
  ml_marker_id :: string

record team_member_client_link_record =
  cx_team_member_uid :: string
  cx_client_identity :: string

record assignment_asset_link_record =
  al_assignment_uid :: string
  al_asset_uid :: string

record identity_capability_grant =
  cg_identity :: string
  cg_capability :: string

definition mission_team_link_records :: "rch_core \<Rightarrow> mission_team_link_record list" where
  "mission_team_link_records s =
     sort_key (\<lambda>r. (tl_mission_uid r, tl_team_uid r))
       (map (\<lambda>(mission_uid, team_uid). \<lparr>tl_mission_uid = mission_uid, tl_team_uid = team_uid\<rparr>) (mission_team_links s))"

definition mission_zone_link_records :: "rch_core \<Rightarrow> mission_zone_link_record list" where
  "mission_zone_link_records s =
     sort_key (\<lambda>r. (zl_mission_uid r, zl_zone_id r))
       (map (\<lambda>(mission_uid, zone_id). \<lparr>zl_mission_uid = mission_uid, zl_zone_id = zone_id\<rparr>) (mission_zone_links s))"

definition mission_marker_link_records :: "rch_core \<Rightarrow> mission_marker_link_record list" where
  "mission_marker_link_records s =
     sort_key (\<lambda>r. (ml_mission_uid r, ml_marker_id r))
       (map (\<lambda>(mission_uid, marker_id). \<lparr>ml_mission_uid = mission_uid, ml_marker_id = marker_id\<rparr>) (mission_marker_links s))"

definition team_member_client_link_records :: "rch_core \<Rightarrow> team_member_client_link_record list" where
  "team_member_client_link_records s =
     sort_key (\<lambda>r. (cx_team_member_uid r, cx_client_identity r))
       (map (\<lambda>(team_member_uid, client_identity). \<lparr>cx_team_member_uid = team_member_uid, cx_client_identity = client_identity\<rparr>) (team_member_client_links s))"

definition assignment_asset_link_records :: "rch_core \<Rightarrow> assignment_asset_link_record list" where
  "assignment_asset_link_records s =
     sort_key (\<lambda>r. (al_assignment_uid r, al_asset_uid r))
       (map (\<lambda>(assignment_uid, asset_uid). \<lparr>al_assignment_uid = assignment_uid, al_asset_uid = asset_uid\<rparr>) (assignment_asset_links s))"

definition identity_capability_grant_records :: "rch_core \<Rightarrow> identity_capability_grant list" where
  "identity_capability_grant_records s =
     sort_key (\<lambda>r. (cg_identity r, cg_capability r))
       (concat (map (\<lambda>(identity, capabilities).
           map (\<lambda>capability. \<lparr>cg_identity = identity, cg_capability = capability\<rparr>) capabilities)
         (identity_capabilities s)))"

definition right_key :: "subject_operation_right \<Rightarrow> string \<times> string \<times> string \<times> string \<times> string" where
  "right_key r = (rt_subject_type r, rt_subject_id r, rt_operation r, rt_scope_type r, rt_scope_id r)"

definition subject_operation_right_records :: "rch_core \<Rightarrow> subject_operation_right list" where
  "subject_operation_right_records s = sort_key right_key (hm_values (subject_operation_rights s))"

definition list_file_attachments :: "rch_core \<Rightarrow> file_attachment_record list" where
  "list_file_attachments s = sort_key fa_file_id (hm_values (file_attachments s))"

definition access_key :: "mission_access_assignment \<Rightarrow> string \<times> string \<times> string" where
  "access_key r = (ma_mission_uid r, ma_subject_type r, ma_subject_id r)"

definition member_skill_key :: "team_member_skill_record \<Rightarrow> string" where
  "member_skill_key r = ts_team_member_rns_identity r @ '':'' @ ts_skill_uid r"

definition requirement_key :: "task_skill_requirement_record \<Rightarrow> string" where
  "requirement_key r = rq_task_uid r @ '':'' @ rq_skill_uid r"

subsection \<open>Saving\<close>

record rch_core_snapshot =
  sn_topics :: "topic_record list"
  sn_subscribers :: "subscriber_record list"
  sn_messages :: "message_record list"
  sn_clients :: "client_record list"
  sn_identity_announces :: "identity_announce_record list"
  sn_identity_states :: "identity_state_record list"
  sn_identity_rem_modes :: "identity_rem_mode_record list"
  sn_audit_events :: "mission_audit_event list"
  sn_system_events :: "system_event_record list"
  sn_telemetry_records :: "telemetry_record list"
  sn_markers :: "marker_record list"
  sn_zones :: "zone_record list"
  sn_missions :: "mission_record list"
  sn_mission_changes :: "mission_change_record list"
  sn_log_entries :: "log_entry_record list"
  sn_file_attachments :: "file_attachment_record list"
  sn_eam_snapshots :: "eam_snapshot_record list"
  sn_teams :: "team_record list"
  sn_mission_team_links :: "mission_team_link_record list"
  sn_mission_zone_links :: "mission_zone_link_record list"
  sn_mission_marker_links :: "mission_marker_link_record list"
  sn_team_members :: "team_member_record list"
  sn_team_member_client_links :: "team_member_client_link_record list"
  sn_assets :: "asset_record list"
  sn_skills :: "skill_record list"
  sn_team_member_skills :: "team_member_skill_record list"
  sn_task_skill_requirements :: "task_skill_requirement_record list"
  sn_assignments :: "assignment_record list"
  sn_assignment_asset_links :: "assignment_asset_link_record list"
  sn_checklists :: "checklist_record list"
  sn_checklist_templates :: "checklist_template_record list"
  sn_checklist_columns :: "checklist_column_record list"
  sn_checklist_tasks :: "checklist_task_record list"
  sn_checklist_cells :: "checklist_cell_record list"
  sn_checklist_feed_publications :: "checklist_feed_publication_record list"
  sn_command_results :: "command_result list"
  sn_identity_capabilities :: "identity_capability_grant list"
  sn_mission_access_assignments :: "mission_access_assignment list"
  sn_subject_operation_rights :: "subject_operation_right list"
  sn_authorization_required :: bool

definition snapshot :: "rch_core \<Rightarrow> rch_core_snapshot" where
  "snapshot s =
     \<lparr>sn_topics = list_topics s,
      sn_subscribers = sort_key (\<lambda>r. (sb_topic_id r, sb_node_id r)) (hm_values (subscribers s)),
      sn_messages = messages s,
      sn_clients = list_clients s,
      sn_identity_announces = list_identity_announces s,
      sn_identity_states = list_identity_states s,
      sn_identity_rem_modes = list_identity_rem_modes s,
      sn_audit_events = audit_events s,
      sn_system_events = system_events s,
      sn_telemetry_records = telemetry_records s,
      sn_markers = list_markers s,
      sn_zones = list_zones s,
      sn_missions = list_missions s,
      sn_mission_changes = list_mission_changes s,
      sn_log_entries = list_log_entries s,
      sn_file_attachments = list_file_attachments s,
      sn_eam_snapshots = list_eam_snapshots s,
      sn_teams = list_teams s,
      sn_mission_team_links = mission_team_link_records s,
      sn_mission_zone_links = mission_zone_link_records s,
      sn_mission_marker_links = mission_marker_link_records s,
      sn_team_members = list_team_members s,
      sn_team_member_client_links = team_member_client_link_records s,
      sn_assets = list_assets s,
      sn_skills = list_skills s,
      sn_team_member_skills = list_team_member_skills s,
      sn_task_skill_requirements = list_task_skill_requirements s,
      sn_assignments = list_assignments s,
      sn_assignment_asset_links = assignment_asset_link_records s,
      sn_checklists = list_checklists s,
      sn_checklist_templates = list_checklist_templates s,
      sn_checklist_columns = list_checklist_columns s,
      sn_checklist_tasks = list_checklist_tasks s,
      sn_checklist_cells = list_checklist_cells s,
      sn_checklist_feed_publications = list_checklist_feed_publications s,
      sn_command_results = sort_key res_command_id (hm_values (command_results s)),
      sn_identity_capabilities = identity_capability_grant_records s,
      sn_mission_access_assignments = mission_access_assignment_records s,
      sn_subject_operation_rights = subject_operation_right_records s,
      sn_authorization_required = authorization_required s\<rparr>"

definition snapshot_is_empty :: "rch_core_snapshot \<Rightarrow> bool" where
  "snapshot_is_empty sn \<longleftrightarrow>
     sn_topics sn = []
     \<and> sn_subscribers sn = []
     \<and> sn_messages sn = []
     \<and> sn_clients sn = []
     \<and> sn_identity_announces sn = []
     \<and> sn_identity_states sn = []
     \<and> sn_identity_rem_modes sn = []
     \<and> sn_audit_events sn = []
     \<and> sn_system_events sn = []
     \<and> sn_telemetry_records sn = []
     \<and> sn_markers sn = []
     \<and> sn_zones sn = []
     \<and> sn_missions sn = []
     \<and> sn_mission_changes sn = []
     \<and> sn_log_entries sn = []
     \<and> sn_file_attachments sn = []
     \<and> sn_eam_snapshots sn = []
     \<and> sn_teams sn = []
     \<and> sn_mission_team_links sn = []
     \<and> sn_mission_zone_links sn = []
     \<and> sn_mission_marker_links sn = []
     \<and> sn_team_members sn = []
     \<and> sn_team_member_client_links sn = []
     \<and> sn_assets sn = []
     \<and> sn_skills sn = []
     \<and> sn_team_member_skills sn = []
     \<and> sn_task_skill_requirements sn = []
     \<and> sn_assignments sn = []
     \<and> sn_assignment_asset_links sn = []
     \<and> sn_checklists sn = []
     \<and> sn_checklist_templates sn = []
     \<and> sn_checklist_columns sn = []
     \<and> sn_checklist_tasks sn = []
     \<and> sn_checklist_cells sn = []
     \<and> sn_checklist_feed_publications sn = []
     \<and> sn_command_results sn = []
     \<and> sn_identity_capabilities sn = []
     \<and> sn_mission_access_assignments sn = []
     \<and> sn_subject_operation_rights sn = []
     \<and> \<not> sn_authorization_required sn"

subsection \<open>Loading\<close>

definition load_rows :: "('v \<Rightarrow> 'k) \<Rightarrow> 'v list \<Rightarrow> ('k, 'v) hmap" where
  "load_rows key records = fold (\<lambda>record m. hm_insert (key record) record m) records []"

definition load_links :: "('v \<Rightarrow> string \<times> string) \<Rightarrow> 'v list \<Rightarrow> (string \<times> string) list" where
  "load_links pair links = fold (\<lambda>link s. hs_insert (pair link) s) links []"

fun load_topics ::
  "host \<Rightarrow> topic_record list \<Rightarrow> (string, topic_record) hmap \<Rightarrow> (string, topic_record) hmap result" where
  "load_topics h [] m = Inr m"
| "load_topics h (topic # rest) m =
     and_then (ok_or (normalize_topic_id h (Some (tp_topic_id topic)))
         (InvalidPayload ''topic invariant violation: topic_id is empty'')) (\<lambda>topic_id.
       if hm_contains m topic_id
       then Inl (InvalidPayload (''topic invariant violation: duplicate normalized topic '' @ quoted topic_id))
       else load_topics h rest (hm_insert topic_id (topic\<lparr>tp_topic_id := topic_id\<rparr>) m))"

fun load_subscribers ::
  "host \<Rightarrow> subscriber_record list \<Rightarrow> (string \<times> string, subscriber_record) hmap
     \<Rightarrow> (string \<times> string, subscriber_record) hmap result" where
  "load_subscribers h [] m = Inr m"
| "load_subscribers h (subscriber # rest) m =
     and_then (ok_or (normalize_subscriber_node_id (Some (sb_node_id subscriber)))
         (InvalidPayload ''subscriber invariant violation: destination is empty'')) (\<lambda>node_id.
     and_then (ok_or (normalize_subscriber_topic_id h (sb_topic_id subscriber))
         (InvalidPayload ''subscriber invariant violation: topic_id is invalid'')) (\<lambda>topic_id.
       if hm_contains m (node_id, topic_id)
       then Inl (InvalidPayload ''subscriber invariant violation: duplicate normalized destination/topic pair'')
       else load_subscribers h rest
              (hm_insert (node_id, topic_id)
                 (subscriber\<lparr>sb_node_id := node_id, sb_topic_id := topic_id\<rparr>) m)))"

definition load_clients :: "client_record list \<Rightarrow> (string, client_record) hmap" where
  "load_clients records =
     fold (\<lambda>client m.
         case normalize_hash (Some (cl_identity client)) of
           None \<Rightarrow> m | Some identity \<Rightarrow> hm_insert identity client m) records []"

definition grant_capabilities :: "identity_capability_grant list \<Rightarrow> rch_core \<Rightarrow> rch_core" where
  "grant_capabilities grants s =
     fold (\<lambda>grant. grant_identity_capability (cg_identity grant) (cg_capability grant)) grants s"

text \<open>The tables that load without a check.\<close>

definition load_tables :: "rch_core_snapshot \<Rightarrow> rch_core \<Rightarrow> rch_core" where
  "load_tables sn s = s\<lparr>
     messages := sn_messages sn,
     clients := load_clients (sn_clients sn),
     identity_announces := load_rows ia_destination_hash (sn_identity_announces sn),
     identity_states := load_rows ist_identity (sn_identity_states sn),
     identity_rem_modes := load_rows irm_identity (sn_identity_rem_modes sn),
     audit_events := sn_audit_events sn,
     system_events := sn_system_events sn,
     telemetry_records := sn_telemetry_records sn,
     markers := load_rows mk_object_destination_hash (sn_markers sn),
     zones := load_rows zn_zone_id (sn_zones sn),
     missions := load_rows mi_uid (sn_missions sn),
     mission_changes := load_rows mc_uid (sn_mission_changes sn),
     log_entries := load_rows le_entry_uid (sn_log_entries sn),
     file_attachments := load_rows fa_file_id (sn_file_attachments sn),
     eam_snapshots := load_rows ea_eam_uid (sn_eam_snapshots sn),
     teams := load_rows te_uid (sn_teams sn),
     mission_team_links := load_links (\<lambda>l. (tl_mission_uid l, tl_team_uid l)) (sn_mission_team_links sn),
     mission_zone_links := load_links (\<lambda>l. (zl_mission_uid l, zl_zone_id l)) (sn_mission_zone_links sn),
     mission_marker_links := load_links (\<lambda>l. (ml_mission_uid l, ml_marker_id l)) (sn_mission_marker_links sn),
     team_members := load_rows tm_uid (sn_team_members sn),
     team_member_client_links := load_links (\<lambda>l. (cx_team_member_uid l, cx_client_identity l)) (sn_team_member_client_links sn),
     assets := load_rows at_asset_uid (sn_assets sn),
     skills := load_rows sk_skill_uid (sn_skills sn),
     team_member_skills := load_rows member_skill_key (sn_team_member_skills sn),
     task_skill_requirements := load_rows requirement_key (sn_task_skill_requirements sn),
     assignments := load_rows an_assignment_uid (sn_assignments sn),
     assignment_asset_links := load_links (\<lambda>l. (al_assignment_uid l, al_asset_uid l)) (sn_assignment_asset_links sn),
     checklists := load_rows ck_uid (sn_checklists sn),
     checklist_templates := load_rows ct_uid (sn_checklist_templates sn),
     checklist_columns := load_rows cc_column_uid (sn_checklist_columns sn),
     checklist_tasks := load_rows tk_task_uid (sn_checklist_tasks sn),
     checklist_cells := load_rows ce_cell_uid (sn_checklist_cells sn),
     checklist_feed_publications := load_rows pb_publication_uid (sn_checklist_feed_publications sn),
     command_results := load_rows res_command_id (sn_command_results sn),
     mission_access_assignments := load_rows access_key (sn_mission_access_assignments sn),
     subject_operation_rights := load_rows right_key (sn_subject_operation_rights sn),
     authorization_required := sn_authorization_required sn\<rparr>"

definition from_snapshot :: "host \<Rightarrow> rch_core_snapshot \<Rightarrow> rch_core result" where
  "from_snapshot h sn =
     and_then (load_topics h (sn_topics sn) []) (\<lambda>ts.
     and_then (load_subscribers h (sn_subscribers sn) []) (\<lambda>subs.
       (let core = new_core\<lparr>topics := ts, subscribers := subs\<rparr>;
            core = load_tables sn core;
            core = grant_capabilities (sn_identity_capabilities sn) core
        in and_then (validate_subscriber_invariants h core) (\<lambda>_. Inr core))))"

subsection \<open>Loading what was saved\<close>

definition stored :: "('v \<Rightarrow> 'k) \<Rightarrow> ('k, 'v) hmap \<Rightarrow> bool" where
  "stored key m \<longleftrightarrow> hm_wf m \<and> list_all (\<lambda>(k, v). key v = k) m"

lemma storedD: "stored key m \<Longrightarrow> hm_get m k = Some v \<Longrightarrow> key v = k"
  by (auto simp: stored_def list_all_iff hm_get_iff_in)

lemma stored_wf: "stored key m \<Longrightarrow> hm_wf m"
  by (simp add: stored_def)

lemma stored_keyed: "stored key m \<longleftrightarrow> hm_wf m \<and> keyed_by key hm_get m"
  by (auto simp: stored_def keyed_by_def list_all_iff hm_get_iff_in)

lemma find_app: "find p (xs @ ys) = or_else (find p xs) (find p ys)"
  by (induction xs) auto

lemma find_SomeD: "find p xs = Some r \<Longrightarrow> r \<in> set xs \<and> p r"
  by (induction xs) (auto split: if_splits)

lemma fold_insert_get:
  "hm_get (fold (\<lambda>r m. hm_insert (key r) r m) xs m) k =
     or_else (find (\<lambda>r. key r = k) (rev xs)) (hm_get m k)"
  by (induction xs arbitrary: m) (auto simp: or_else_def find_app split: option.splits)

lemma load_rows_get:
  assumes "stored key m" and "set xs = set (hm_values m)"
  shows "hm_get (load_rows key xs) = hm_get m"
proof
  fix k
  have val: "r \<in> set xs \<longleftrightarrow> hm_get m (key r) = Some r" for r
    using assms by (metis hm_get_in_values hm_in_values storedD stored_wf)
  show "hm_get (load_rows key xs) k = hm_get m k"
  proof (cases "find (\<lambda>r. key r = k) (rev xs)")
    case None
    then have "\<And>r. r \<in> set xs \<Longrightarrow> key r \<noteq> k" by (auto simp: find_None_iff)
    then have "hm_get m k = None" using val storedD [OF assms(1)] by (metis option.exhaust)
    with None show ?thesis by (simp add: load_rows_def fold_insert_get)
  next
    case (Some r)
    then have "r \<in> set xs" "key r = k" by (auto dest: find_SomeD)
    with Some val show ?thesis by (auto simp: load_rows_def fold_insert_get)
  qed
qed

lemma load_rows_wf: "hm_wf (load_rows key xs)"
proof -
  have "hm_wf m \<Longrightarrow> hm_wf (fold (\<lambda>r m. hm_insert (key r) r m) xs m)" for m
    by (induction xs arbitrary: m) auto
  then show ?thesis by (simp add: load_rows_def)
qed

lemma load_links_set: "set (load_links pair xs) = pair ` set xs"
proof -
  have "set (fold (\<lambda>l s. hs_insert (pair l) s) xs s) = set s \<union> pair ` set xs" for s
    by (induction xs arbitrary: s) auto
  then show ?thesis by (simp add: load_links_def)
qed

lemma hm_values_keys: "stored key m \<Longrightarrow> map key (hm_values m) = map fst m"
  by (auto simp: stored_def hm_values_def list_all_iff)

lemma distinct_sorted_keys: "stored key m \<Longrightarrow> distinct (map key (sort_key f (hm_values m)))"
  using hm_values_keys [of key m] by (simp add: stored_def hm_wf_def distinct_map) (metis distinct_map)

lemma topic_same_id [simp]: "topic\<lparr>tp_topic_id := tp_topic_id topic\<rparr> = topic"
  by simp

lemma load_topics_rows:
  assumes "\<And>r. r \<in> set xs \<Longrightarrow> normalize_topic_id h (Some (tp_topic_id r)) = Some (tp_topic_id r)"
    and "distinct (map tp_topic_id xs)" and "\<And>r. r \<in> set xs \<Longrightarrow> \<not> hm_contains m (tp_topic_id r)"
  shows "load_topics h xs m = Inr (fold (\<lambda>r m. hm_insert (tp_topic_id r) r m) xs m)"
  using assms
proof (induction xs arbitrary: m)
  case (Cons a xs)
  have "load_topics h xs (hm_insert (tp_topic_id a) a m) =
      Inr (fold (\<lambda>r m. hm_insert (tp_topic_id r) r m) xs (hm_insert (tp_topic_id a) a m))"
  proof (rule Cons.IH)
    fix r assume r: "r \<in> set xs"
    with Cons.prems(2) have "tp_topic_id r \<noteq> tp_topic_id a" by (metis distinct.simps(2) image_eqI list.simps(9) set_map)
    with r Cons.prems(3) show "\<not> hm_contains (hm_insert (tp_topic_id a) a m) (tp_topic_id r)" by simp
  qed (use Cons.prems in auto)
  with Cons.prems show ?case by simp
qed simp

definition subscriber_key_of :: "subscriber_record \<Rightarrow> string \<times> string" where
  "subscriber_key_of r = (sb_node_id r, sb_topic_id r)"

lemma load_subscribers_rows:
  assumes "\<And>r. r \<in> set xs \<Longrightarrow> normalize_subscriber_node_id (Some (sb_node_id r)) = Some (sb_node_id r)
      \<and> normalize_subscriber_topic_id h (sb_topic_id r) = Some (sb_topic_id r)"
    and "distinct (map subscriber_key_of xs)" and "\<And>r. r \<in> set xs \<Longrightarrow> \<not> hm_contains m (subscriber_key_of r)"
  shows "load_subscribers h xs m = Inr (fold (\<lambda>r m. hm_insert (subscriber_key_of r) r m) xs m)"
  using assms
proof (induction xs arbitrary: m)
  case (Cons a xs)
  have "load_subscribers h xs (hm_insert (subscriber_key_of a) a m) =
      Inr (fold (\<lambda>r m. hm_insert (subscriber_key_of r) r m) xs (hm_insert (subscriber_key_of a) a m))"
  proof (rule Cons.IH)
    fix r assume r: "r \<in> set xs"
    with Cons.prems(2) have "subscriber_key_of r \<noteq> subscriber_key_of a" by (metis distinct.simps(2) image_eqI list.simps(9) set_map)
    with r Cons.prems(3) show "\<not> hm_contains (hm_insert (subscriber_key_of a) a m) (subscriber_key_of r)" by simp
  qed (use Cons.prems in auto)
  with Cons.prems show ?case by (simp add: subscriber_key_of_def)
qed simp

lemma grant_capabilities_frame: "\<exists>c. grant_capabilities gs s = s\<lparr>identity_capabilities := c\<rparr>"
proof (induction gs arbitrary: s)
  case Nil
  show ?case by (rule exI [of _ "identity_capabilities s"]) (simp add: grant_capabilities_def)
next
  case (Cons g gs)
  obtain c where "grant_identity_capability (cg_identity g) (cg_capability g) s = s\<lparr>identity_capabilities := c\<rparr>"
    using that [of "identity_capabilities s"]
    by (cases "normalize_hash (Some (cg_identity g))") (auto simp: grant_identity_capability_def)
  with Cons [of "s\<lparr>identity_capabilities := c\<rparr>"] show ?case
    by (auto simp: grant_capabilities_def)
qed

definition granted_to :: "string \<Rightarrow> identity_capability_grant list \<Rightarrow> string set" where
  "granted_to k gs = {cg_capability g |g. g \<in> set gs \<and> normalize_hash (Some (cg_identity g)) = Some k}"

definition capability_set :: "rch_core \<Rightarrow> string \<Rightarrow> string set" where
  "capability_set s k = set (capabilities_of s k)"

lemma grant_capabilities_set:
  "capability_set (grant_capabilities gs s) k = capability_set s k \<union> granted_to k gs"
proof (induction gs arbitrary: s)
  case Nil
  show ?case by (simp add: grant_capabilities_def granted_to_def)
next
  case (Cons g gs)
  have "capability_set (grant_identity_capability (cg_identity g) (cg_capability g) s) k =
      capability_set s k \<union> granted_to k [g]"
    by (auto simp: grant_identity_capability_def capability_set_def capabilities_of_def granted_to_def
          split: option.split)
  moreover have "granted_to k (g # gs) = granted_to k [g] \<union> granted_to k gs"
    by (auto simp: granted_to_def)
  ultimately show ?case
    using Cons by (simp add: grant_capabilities_def Un_assoc)
qed

text \<open>
  What a state must be like for a snapshot of it to be lossless: every table keyed by its records,
  topic identifiers, client and capability identities and subscriptions normalized.
\<close>

definition storable :: "host \<Rightarrow> rch_core \<Rightarrow> bool" where
  "storable h s \<longleftrightarrow>
     stored tp_topic_id (topics s) \<and> list_all (\<lambda>(k, _). normalize_topic_id h (Some k) = Some k) (topics s)
     \<and> stored subscriber_key_of (subscribers s) \<and> validate_subscriber_invariants h s = Inr ()
     \<and> hm_wf (clients s) \<and> list_all (\<lambda>(k, c). normalize_hash (Some (cl_identity c)) = Some k) (clients s)
     \<and> stored ia_destination_hash (identity_announces s)
     \<and> stored ist_identity (identity_states s)
     \<and> stored irm_identity (identity_rem_modes s)
     \<and> stored mk_object_destination_hash (markers s)
     \<and> stored zn_zone_id (zones s)
     \<and> stored mi_uid (missions s)
     \<and> stored mc_uid (mission_changes s)
     \<and> stored le_entry_uid (log_entries s)
     \<and> stored fa_file_id (file_attachments s)
     \<and> stored ea_eam_uid (eam_snapshots s)
     \<and> stored te_uid (teams s)
     \<and> stored tm_uid (team_members s)
     \<and> stored at_asset_uid (assets s)
     \<and> stored sk_skill_uid (skills s)
     \<and> stored member_skill_key (team_member_skills s)
     \<and> stored requirement_key (task_skill_requirements s)
     \<and> stored an_assignment_uid (assignments s)
     \<and> stored ck_uid (checklists s)
     \<and> stored ct_uid (checklist_templates s)
     \<and> stored cc_column_uid (checklist_columns s)
     \<and> stored tk_task_uid (checklist_tasks s)
     \<and> stored ce_cell_uid (checklist_cells s)
     \<and> stored pb_publication_uid (checklist_feed_publications s)
     \<and> stored res_command_id (command_results s)
     \<and> hm_wf (identity_capabilities s)
     \<and> list_all (\<lambda>(k, _). normalize_hash (Some k) = Some k) (identity_capabilities s)
     \<and> stored access_key (mission_access_assignments s)
     \<and> stored right_key (subject_operation_rights s)"

definition same_tables :: "rch_core \<Rightarrow> rch_core \<Rightarrow> bool" where
  "same_tables s t \<longleftrightarrow>
     hm_get (topics t) = hm_get (topics s)
     \<and> hm_get (subscribers t) = hm_get (subscribers s)
     \<and> messages t = messages s
     \<and> hm_get (clients t) = hm_get (clients s)
     \<and> hm_get (identity_announces t) = hm_get (identity_announces s)
     \<and> hm_get (identity_states t) = hm_get (identity_states s)
     \<and> hm_get (identity_rem_modes t) = hm_get (identity_rem_modes s)
     \<and> audit_events t = audit_events s
     \<and> system_events t = system_events s
     \<and> telemetry_records t = telemetry_records s
     \<and> hm_get (markers t) = hm_get (markers s)
     \<and> hm_get (zones t) = hm_get (zones s)
     \<and> hm_get (missions t) = hm_get (missions s)
     \<and> hm_get (mission_changes t) = hm_get (mission_changes s)
     \<and> hm_get (log_entries t) = hm_get (log_entries s)
     \<and> hm_get (file_attachments t) = hm_get (file_attachments s)
     \<and> hm_get (eam_snapshots t) = hm_get (eam_snapshots s)
     \<and> hm_get (teams t) = hm_get (teams s)
     \<and> set (mission_team_links t) = set (mission_team_links s)
     \<and> set (mission_zone_links t) = set (mission_zone_links s)
     \<and> set (mission_marker_links t) = set (mission_marker_links s)
     \<and> hm_get (team_members t) = hm_get (team_members s)
     \<and> set (team_member_client_links t) = set (team_member_client_links s)
     \<and> hm_get (assets t) = hm_get (assets s)
     \<and> hm_get (skills t) = hm_get (skills s)
     \<and> hm_get (team_member_skills t) = hm_get (team_member_skills s)
     \<and> hm_get (task_skill_requirements t) = hm_get (task_skill_requirements s)
     \<and> hm_get (assignments t) = hm_get (assignments s)
     \<and> set (assignment_asset_links t) = set (assignment_asset_links s)
     \<and> hm_get (checklists t) = hm_get (checklists s)
     \<and> hm_get (checklist_templates t) = hm_get (checklist_templates s)
     \<and> hm_get (checklist_columns t) = hm_get (checklist_columns s)
     \<and> hm_get (checklist_tasks t) = hm_get (checklist_tasks s)
     \<and> hm_get (checklist_cells t) = hm_get (checklist_cells s)
     \<and> hm_get (checklist_feed_publications t) = hm_get (checklist_feed_publications s)
     \<and> hm_get (command_results t) = hm_get (command_results s)
     \<and> capability_set t = capability_set s
     \<and> hm_get (mission_access_assignments t) = hm_get (mission_access_assignments s)
     \<and> hm_get (subject_operation_rights t) = hm_get (subject_operation_rights s)
     \<and> authorization_required t = authorization_required s"

text \<open>
  A snapshot with the rows of a state, in whatever order: what \<open>snapshot\<close> takes, and what comes
  back from a store that sorts its rows in its own way.
\<close>

definition rows_of :: "('k, 'v) hmap \<Rightarrow> 'v list \<Rightarrow> bool" where
  "rows_of m xs \<longleftrightarrow> set xs = set (hm_values m)"

definition snapshot_of :: "rch_core \<Rightarrow> rch_core_snapshot \<Rightarrow> bool" where
  "snapshot_of s sn \<longleftrightarrow>
     rows_of (topics s) (sn_topics sn) \<and> distinct (map tp_topic_id (sn_topics sn))
     \<and> rows_of (subscribers s) (sn_subscribers sn) \<and> distinct (map subscriber_key_of (sn_subscribers sn))
     \<and> sn_messages sn = messages s
     \<and> rows_of (clients s) (sn_clients sn)
     \<and> rows_of (identity_announces s) (sn_identity_announces sn)
     \<and> rows_of (identity_states s) (sn_identity_states sn)
     \<and> rows_of (identity_rem_modes s) (sn_identity_rem_modes sn)
     \<and> sn_audit_events sn = audit_events s
     \<and> sn_system_events sn = system_events s
     \<and> sn_telemetry_records sn = telemetry_records s
     \<and> rows_of (markers s) (sn_markers sn)
     \<and> rows_of (zones s) (sn_zones sn)
     \<and> rows_of (missions s) (sn_missions sn)
     \<and> rows_of (mission_changes s) (sn_mission_changes sn)
     \<and> rows_of (log_entries s) (sn_log_entries sn)
     \<and> rows_of (file_attachments s) (sn_file_attachments sn)
     \<and> rows_of (eam_snapshots s) (sn_eam_snapshots sn)
     \<and> rows_of (teams s) (sn_teams sn)
     \<and> set (sn_mission_team_links sn) = set (mission_team_link_records s)
     \<and> set (sn_mission_zone_links sn) = set (mission_zone_link_records s)
     \<and> set (sn_mission_marker_links sn) = set (mission_marker_link_records s)
     \<and> rows_of (team_members s) (sn_team_members sn)
     \<and> set (sn_team_member_client_links sn) = set (team_member_client_link_records s)
     \<and> rows_of (assets s) (sn_assets sn)
     \<and> rows_of (skills s) (sn_skills sn)
     \<and> rows_of (team_member_skills s) (sn_team_member_skills sn)
     \<and> rows_of (task_skill_requirements s) (sn_task_skill_requirements sn)
     \<and> rows_of (assignments s) (sn_assignments sn)
     \<and> set (sn_assignment_asset_links sn) = set (assignment_asset_link_records s)
     \<and> rows_of (checklists s) (sn_checklists sn)
     \<and> rows_of (checklist_templates s) (sn_checklist_templates sn)
     \<and> rows_of (checklist_columns s) (sn_checklist_columns sn)
     \<and> rows_of (checklist_tasks s) (sn_checklist_tasks sn)
     \<and> rows_of (checklist_cells s) (sn_checklist_cells sn)
     \<and> rows_of (checklist_feed_publications s) (sn_checklist_feed_publications sn)
     \<and> rows_of (command_results s) (sn_command_results sn)
     \<and> set (sn_identity_capabilities sn) = set (identity_capability_grant_records s)
     \<and> rows_of (mission_access_assignments s) (sn_mission_access_assignments sn)
     \<and> rows_of (subject_operation_rights s) (sn_subject_operation_rights sn)
     \<and> sn_authorization_required sn = authorization_required s"

lemma rows_of_sorted [simp]: "rows_of m (sort_key f (hm_values m))"
  by (simp add: rows_of_def)

lemma load_rows_of: "stored key m \<Longrightarrow> rows_of m xs \<Longrightarrow> hm_get (load_rows key xs) = hm_get m"
  by (simp add: rows_of_def load_rows_get)

lemmas listed_tables = list_topics_def list_clients_def list_identity_announces_def list_identity_states_def
  list_identity_rem_modes_def list_markers_def list_zones_def list_missions_def list_mission_changes_def
  list_log_entries_def list_file_attachments_def list_eam_snapshots_def list_teams_def
  list_team_members_def list_assets_def list_skills_def list_team_member_skills_def
  list_task_skill_requirements_def list_assignments_def list_checklists_def
  list_checklist_templates_def list_checklist_columns_def list_checklist_tasks_def
  list_checklist_cells_def list_checklist_feed_publications_def mission_access_assignment_records_def
  subject_operation_right_records_def

lemma snapshot_of_snapshot: "storable h s \<Longrightarrow> snapshot_of s (snapshot s)"
  by (simp add: snapshot_of_def snapshot_def listed_tables storable_def distinct_sorted_keys)

lemma load_topics_saved:
  assumes "storable h s" and "snapshot_of s sn"
  shows "load_topics h (sn_topics sn) [] = Inr (load_rows tp_topic_id (sn_topics sn))"
proof -
  have st: "stored tp_topic_id (topics s)" and norm: "\<And>k t. hm_get (topics s) k = Some t \<Longrightarrow> normalize_topic_id h (Some k) = Some k"
    using assms(1) by (auto simp: storable_def stored_def list_all_iff hm_get_iff_in)
  have rows: "set (sn_topics sn) = set (hm_values (topics s))" "distinct (map tp_topic_id (sn_topics sn))"
    using assms(2) by (simp_all add: snapshot_of_def rows_of_def)
  have "normalize_topic_id h (Some (tp_topic_id r)) = Some (tp_topic_id r)" if "r \<in> set (sn_topics sn)" for r
    using that norm storedD [OF st] rows by (auto dest!: hm_in_values [OF stored_wf [OF st]])
  with rows show ?thesis
    unfolding load_rows_def by (intro load_topics_rows) (simp_all add: hm_contains_def)
qed

lemma load_subscribers_saved:
  assumes "storable h s" and "snapshot_of s sn"
  shows "load_subscribers h (sn_subscribers sn) [] = Inr (load_rows subscriber_key_of (sn_subscribers sn))"
proof -
  have st: "stored subscriber_key_of (subscribers s)" and ok: "subscribers_ok h s"
    using assms(1) by (auto simp: storable_def validate_iff)
  have rows: "set (sn_subscribers sn) = set (hm_values (subscribers s))"
      "distinct (map subscriber_key_of (sn_subscribers sn))"
    using assms(2) by (simp_all add: snapshot_of_def rows_of_def)
  have norm: "normalize_subscriber_node_id (Some (sb_node_id r)) = Some (sb_node_id r)
      \<and> normalize_subscriber_topic_id h (sb_topic_id r) = Some (sb_topic_id r)" if "r \<in> set (hm_values (subscribers s))" for r
  proof -
    from hm_in_values [OF stored_wf [OF st] that]
    obtain n t where "hm_get (subscribers s) (n, t) = Some r" by auto
    then show ?thesis using subscribers_ok_get [OF ok] by fastforce
  qed
  with rows show ?thesis
    unfolding load_rows_def by (intro load_subscribers_rows) (simp_all add: hm_contains_def)
qed

lemma granted_saved:
  assumes "storable h s"
  shows "granted_to k (identity_capability_grant_records s) = capability_set s k"
proof -
  have wf: "hm_wf (identity_capabilities s)"
    and norm: "\<And>i cs. (i, cs) \<in> set (identity_capabilities s) \<Longrightarrow> normalize_hash (Some i) = Some i"
    using assms by (auto simp: storable_def list_all_iff)
  have records: "g \<in> set (identity_capability_grant_records s) \<longleftrightarrow>
      (\<exists>cs. (cg_identity g, cs) \<in> set (identity_capabilities s) \<and> cg_capability g \<in> set cs)" for g
    by (cases g) (auto simp: identity_capability_grant_records_def)
  have "c \<in> granted_to k (identity_capability_grant_records s) \<longleftrightarrow>
      (\<exists>cs. (k, cs) \<in> set (identity_capabilities s) \<and> c \<in> set cs)" for c
  proof
    assume "c \<in> granted_to k (identity_capability_grant_records s)"
    then show "\<exists>cs. (k, cs) \<in> set (identity_capabilities s) \<and> c \<in> set cs"
      using norm by (auto simp: granted_to_def records)
  next
    assume "\<exists>cs. (k, cs) \<in> set (identity_capabilities s) \<and> c \<in> set cs"
    then have "\<lparr>cg_identity = k, cg_capability = c\<rparr> \<in> set (identity_capability_grant_records s)"
      and "normalize_hash (Some k) = Some k"
      using norm by (auto simp: records)
    then show "c \<in> granted_to k (identity_capability_grant_records s)"
      unfolding granted_to_def by force
  qed
  then show ?thesis
    by (cases "hm_get (identity_capabilities s) k")
       (auto simp: capability_set_def capabilities_of_def hm_get_iff_in [OF wf, symmetric])
qed

lemma loaded_clients:
  assumes "storable h s" and "rows_of (clients s) xs"
  shows "hm_get (load_clients xs) = hm_get (clients s)"
proof -
  let ?key = "\<lambda>c. unwrap_or (normalize_hash (Some (cl_identity c))) []"
  have wf: "hm_wf (clients s)"
    and norm: "\<And>k c. (k, c) \<in> set (clients s) \<Longrightarrow> normalize_hash (Some (cl_identity c)) = Some k"
    using assms(1) by (auto simp: storable_def list_all_iff)
  have folds: "fold (\<lambda>c m. case normalize_hash (Some (cl_identity c)) of None \<Rightarrow> m | Some i \<Rightarrow> hm_insert i c m) xs m =
      fold (\<lambda>c m. hm_insert (?key c) c m) xs m"
    if "\<And>c. c \<in> set xs \<Longrightarrow> normalize_hash (Some (cl_identity c)) \<noteq> None" for xs m
  proof (intro fold_cong refl)
    fix c assume "c \<in> set xs"
    from that [OF this] obtain i where "normalize_hash (Some (cl_identity c)) = Some i" by blast
    then show "(\<lambda>m. case normalize_hash (Some (cl_identity c)) of None \<Rightarrow> m | Some i \<Rightarrow> hm_insert i c m) =
        hm_insert (?key c) c" by simp
  qed
  have "load_clients xs = load_rows ?key xs"
    unfolding load_clients_def load_rows_def
    by (rule folds) (use norm assms(2) in \<open>auto simp: rows_of_def hm_values_def\<close>)
  moreover have "stored ?key (clients s)"
    using wf norm by (auto simp: stored_def list_all_iff)
  ultimately show ?thesis using assms(2) by (simp add: load_rows_of)
qed

lemma load_tables_simps [simp]:
  "topics (load_tables sn c) = topics c" "subscribers (load_tables sn c) = subscribers c"
  "identity_capabilities (load_tables sn c) = identity_capabilities c"
  by (simp_all add: load_tables_def)

lemma subscribers_ok_get_cong:
  "hm_wf (subscribers t) \<Longrightarrow> hm_get (subscribers t) = hm_get (subscribers s) \<Longrightarrow>
     subscribers_ok h s \<Longrightarrow> subscribers_ok h t"
  by (simp add: subscribers_ok_def)

lemma loaded_links:
  "set xs = set (mission_team_link_records s) \<Longrightarrow>
     set (load_links (\<lambda>l. (tl_mission_uid l, tl_team_uid l)) xs) = set (mission_team_links s)"
  "set ys = set (mission_zone_link_records s) \<Longrightarrow>
     set (load_links (\<lambda>l. (zl_mission_uid l, zl_zone_id l)) ys) = set (mission_zone_links s)"
  "set zs = set (mission_marker_link_records s) \<Longrightarrow>
     set (load_links (\<lambda>l. (ml_mission_uid l, ml_marker_id l)) zs) = set (mission_marker_links s)"
  "set us = set (team_member_client_link_records s) \<Longrightarrow>
     set (load_links (\<lambda>l. (cx_team_member_uid l, cx_client_identity l)) us) = set (team_member_client_links s)"
  "set vs = set (assignment_asset_link_records s) \<Longrightarrow>
     set (load_links (\<lambda>l. (al_assignment_uid l, al_asset_uid l)) vs) = set (assignment_asset_links s)"
  unfolding load_links_set mission_team_link_records_def mission_zone_link_records_def
    mission_marker_link_records_def team_member_client_link_records_def assignment_asset_link_records_def
  by (force simp: image_iff)+

lemma loaded_tables:
  assumes "storable h s" and sn: "snapshot_of s sn"
  shows "same_tables s (load_tables sn (c\<lparr>topics := load_rows tp_topic_id (sn_topics sn),
     subscribers := load_rows subscriber_key_of (sn_subscribers sn),
     identity_capabilities := caps\<rparr>)) \<longleftrightarrow> (\<lambda>k. set (unwrap_or (hm_get caps k) [])) = capability_set s"
  using assms loaded_clients [OF assms(1), of "sn_clients sn"]
  by (simp add: same_tables_def load_tables_def snapshot_of_def loaded_links storable_def
        load_rows_of capability_set_def [abs_def] capabilities_of_def)

lemma from_snapshot_rows:
  assumes "storable h s" and sn: "snapshot_of s sn"
  shows "\<exists>t. from_snapshot h sn = Inr t \<and> same_tables s t"
proof -
  let ?core = "new_core\<lparr>topics := load_rows tp_topic_id (sn_topics sn),
      subscribers := load_rows subscriber_key_of (sn_subscribers sn)\<rparr>"
  let ?t = "grant_capabilities (sn_identity_capabilities sn) (load_tables sn ?core)"
  obtain caps where t: "?t = (load_tables sn ?core)\<lparr>identity_capabilities := caps\<rparr>"
    using grant_capabilities_frame by blast
  have "granted_to k (sn_identity_capabilities sn) = capability_set s k" for k
    using sn granted_saved [OF assms(1), of k] by (simp add: snapshot_of_def granted_to_def)
  then have "capability_set ?t k = capability_set s k" for k
    by (simp add: grant_capabilities_set)
       (simp add: capability_set_def capabilities_of_def new_core_def)
  then have caps: "(\<lambda>k. set (unwrap_or (hm_get caps k) [])) = capability_set s"
    unfolding t by (simp add: fun_eq_iff capability_set_def capabilities_of_def)
  have "(load_tables sn ?core)\<lparr>identity_capabilities := caps\<rparr> =
      load_tables sn (?core\<lparr>identity_capabilities := caps\<rparr>)"
    by (simp add: load_tables_def)
  with t caps have same: "same_tables s ?t"
    using loaded_tables [OF assms, where c = new_core and caps = caps] by simp
  have "subscribers ?t = load_rows subscriber_key_of (sn_subscribers sn)"
    unfolding t by simp
  moreover have "hm_get (subscribers ?t) = hm_get (subscribers s)" using same by (simp add: same_tables_def)
  ultimately have "subscribers_ok h ?t"
    using assms(1) load_rows_wf by (intro subscribers_ok_get_cong [of ?t s]) (simp_all add: storable_def validate_iff)
  then have "validate_subscriber_invariants h ?t = Inr ()" by (simp add: validate_iff)
  then have "from_snapshot h sn = Inr ?t"
    using load_topics_saved [OF assms] load_subscribers_saved [OF assms]
    by (simp add: from_snapshot_def Let_def)
  with same show ?thesis by blast
qed

lemma from_snapshot_saved:
  "storable h s \<Longrightarrow> \<exists>t. from_snapshot h (snapshot s) = Inr t \<and> same_tables s t"
  by (intro from_snapshot_rows snapshot_of_snapshot)

text \<open>Which snapshots load.\<close>

definition topic_id_of :: "host \<Rightarrow> topic_record \<Rightarrow> string option" where
  "topic_id_of h r = normalize_topic_id h (Some (tp_topic_id r))"

definition subscription_of :: "host \<Rightarrow> subscriber_record \<Rightarrow> (string \<times> string) option" where
  "subscription_of h r =
     (case (normalize_subscriber_node_id (Some (sb_node_id r)), normalize_subscriber_topic_id h (sb_topic_id r)) of
        (Some n, Some t) \<Rightarrow> Some (n, t) | _ \<Rightarrow> None)"

lemma load_topics_Cons:
  "load_topics h (topic # rest) m =
     (case topic_id_of h topic of
        None \<Rightarrow> Inl (InvalidPayload ''topic invariant violation: topic_id is empty'')
      | Some k \<Rightarrow>
          if hm_contains m k
          then Inl (InvalidPayload (''topic invariant violation: duplicate normalized topic '' @ quoted k))
          else load_topics h rest (hm_insert k (topic\<lparr>tp_topic_id := k\<rparr>) m))"
  by (simp add: topic_id_of_def split: option.split)

lemma load_topics_iff:
  "(\<exists>m'. load_topics h xs m = Inr m') \<longleftrightarrow> (\<forall>r \<in> set xs. topic_id_of h r \<noteq> None)
     \<and> distinct (map (topic_id_of h) xs) \<and> (\<forall>r \<in> set xs. \<forall>k. topic_id_of h r = Some k \<longrightarrow> \<not> hm_contains m k)"
proof (induction xs arbitrary: m)
  case (Cons topic rest)
  show ?case
  proof (cases "topic_id_of h topic")
    case (Some k)
    have "Some k \<notin> topic_id_of h ` set rest \<longleftrightarrow> (\<forall>r \<in> set rest. \<forall>j. topic_id_of h r = Some j \<longrightarrow> j \<noteq> k)"
      by (metis (no_types) image_iff)
    with Some Cons show ?thesis by (auto simp: load_topics_Cons simp del: load_topics.simps)
  qed (simp add: load_topics_Cons del: load_topics.simps)
qed simp

lemma load_subscribers_Cons:
  "(\<exists>m'. load_subscribers h (r # rest) m = Inr m') \<longleftrightarrow>
     (\<exists>k. subscription_of h r = Some k \<and> \<not> hm_contains m k
       \<and> (\<exists>m'. load_subscribers h rest
            (hm_insert k (r\<lparr>sb_node_id := fst k, sb_topic_id := snd k\<rparr>) m) = Inr m'))"
  by (auto simp: subscription_of_def split: option.split)

lemma load_subscribers_iff:
  "(\<exists>m'. load_subscribers h xs m = Inr m') \<longleftrightarrow> (\<forall>r \<in> set xs. subscription_of h r \<noteq> None)
     \<and> distinct (map (subscription_of h) xs)
     \<and> (\<forall>r \<in> set xs. \<forall>k. subscription_of h r = Some k \<longrightarrow> \<not> hm_contains m k)"
proof (induction xs arbitrary: m)
  case (Cons r rest)
  show ?case
  proof (cases "subscription_of h r")
    case (Some k)
    have "Some k \<notin> subscription_of h ` set rest \<longleftrightarrow>
        (\<forall>q \<in> set rest. \<forall>j. subscription_of h q = Some j \<longrightarrow> j \<noteq> k)"
      by (metis (no_types) image_iff)
    with Some Cons show ?thesis
      by (auto simp: load_subscribers_Cons simp del: load_subscribers.simps split_paired_All split_paired_Ex)
  qed (simp add: load_subscribers_Cons del: load_subscribers.simps)
qed simp

text \<open>What loads is a well formed core: its subscriptions pass the check the code ends with.\<close>

lemma load_subscribers_ok:
  assumes "uuid_canonical h" and "load_subscribers h xs m = Inr m'"
    and "hm_wf m" and "\<And>k r. hm_get m k = Some r \<Longrightarrow> subscriber_ok h k r"
  shows "hm_wf m' \<and> (\<forall>k r. hm_get m' k = Some r \<longrightarrow> subscriber_ok h k r)"
  using assms(2-)
proof (induction xs arbitrary: m)
  case (Cons r rest)
  from Cons.prems(1) obtain n t where n: "normalize_subscriber_node_id (Some (sb_node_id r)) = Some n"
    and t: "normalize_subscriber_topic_id h (sb_topic_id r) = Some t" and free: "\<not> hm_contains m (n, t)"
    and rest: "load_subscribers h rest (hm_insert (n, t) (r\<lparr>sb_node_id := n, sb_topic_id := t\<rparr>) m) = Inr m'"
    by (auto simp: result_eqs split: if_splits)
  have ok: "subscriber_ok h (n, t) (r\<lparr>sb_node_id := n, sb_topic_id := t\<rparr>)"
    using normalize_subscriber_node_id_again [OF n] normalize_subscriber_topic_id_again [OF assms(1) t] by simp
  show ?case
  proof (rule Cons.IH [OF rest])
    show "subscriber_ok h k q" if "hm_get (hm_insert (n, t) (r\<lparr>sb_node_id := n, sb_topic_id := t\<rparr>) m) k = Some q" for k q
      using that ok Cons.prems(3) by (auto split: if_splits)
  qed (use Cons.prems(2) in simp)
qed auto

lemma grant_capabilities_subscribers [simp]: "subscribers (grant_capabilities gs s) = subscribers s"
  using grant_capabilities_frame [of gs s] by auto

lemma from_snapshot_subscribers: "from_snapshot h sn = Inr t \<Longrightarrow> subscribers_ok h t"
  by (auto simp: from_snapshot_def result_eqs validate_iff Let_def)

lemma from_snapshot_iff:
  assumes "uuid_canonical h"
  shows "(\<exists>t. from_snapshot h sn = Inr t) \<longleftrightarrow>
    (\<forall>r \<in> set (sn_topics sn). topic_id_of h r \<noteq> None) \<and> distinct (map (topic_id_of h) (sn_topics sn))
    \<and> (\<forall>r \<in> set (sn_subscribers sn). subscription_of h r \<noteq> None)
    \<and> distinct (map (subscription_of h) (sn_subscribers sn))"
proof -
  have "validate_subscriber_invariants h (grant_capabilities gs (load_tables sn
      (new_core\<lparr>topics := ts, subscribers := subs\<rparr>))) = Inr ()"
    if "load_subscribers h (sn_subscribers sn) [] = Inr subs" for ts subs gs
    using load_subscribers_ok [OF assms that] by (simp add: validate_iff subscribers_ok_def)
  then have "(\<exists>t. from_snapshot h sn = Inr t) \<longleftrightarrow>
      (\<exists>ts. load_topics h (sn_topics sn) [] = Inr ts) \<and> (\<exists>subs. load_subscribers h (sn_subscribers sn) [] = Inr subs)"
    by (auto simp: from_snapshot_def result_eqs Let_def)
  then show ?thesis
    by (simp add: load_topics_iff load_subscribers_iff hm_contains_def conj_assoc)
qed

end
