(* ===== verification/Storable.thy ===== *)
theory Storable
  imports Snapshot
begin

text \<open>
  Every reachable state can be saved and loaded without loss: each of its tables holds its records
  under their own keys, and what \<open>from_snapshot\<close> normalizes is normalized already.  The tables of
  the components are part of their invariants; this theory adds the others (topics, the library of
  checklist templates, columns and publications, and the tables of the administrative calls).
\<close>

subsection \<open>Tables keyed by their records\<close>

lemma stored_simps [simp]:
  "stored key []"
  "stored key m \<Longrightarrow> key v = k \<Longrightarrow> stored key (hm_insert k v m)"
  "stored key m \<Longrightarrow> stored key (hm_remove k m)"
  "stored key m \<Longrightarrow> stored key (hm_retain p m)"
  "stored key m \<Longrightarrow> (\<And>v. key (f v) = key v) \<Longrightarrow> stored key (hm_map_values f m)"
  by (auto simp: stored_keyed keyed_by_def hm_get_retain filter_opt_eq_Some)

definition topic_table :: "host \<Rightarrow> rch_core \<Rightarrow> bool" where
  "topic_table h s \<longleftrightarrow> stored tp_topic_id (topics s)
     \<and> (\<forall>k. hm_contains (topics s) k \<longrightarrow> normalize_topic_id h (Some k) = Some k)"

definition library_ok :: "rch_core \<Rightarrow> bool" where
  "library_ok s \<longleftrightarrow> stored ct_uid (checklist_templates s) \<and> stored cc_column_uid (checklist_columns s)
     \<and> stored pb_publication_uid (checklist_feed_publications s)"

definition admin_ok :: "rch_core \<Rightarrow> bool" where
  "admin_ok s \<longleftrightarrow> stored ia_destination_hash (identity_announces s) \<and> stored ist_identity (identity_states s)
     \<and> stored irm_identity (identity_rem_modes s) \<and> stored res_command_id (command_results s)
     \<and> stored right_key (subject_operation_rights s) \<and> hm_wf (identity_capabilities s)
     \<and> (\<forall>k. hm_contains (identity_capabilities s) k \<longrightarrow> normalize_hash (Some k) = Some k)"

definition attachments_ok :: "rch_core \<Rightarrow> bool" where
  "attachments_ok s \<longleftrightarrow> stored fa_file_id (file_attachments s)"

definition tables_ok :: "host \<Rightarrow> rch_core \<Rightarrow> bool" where
  "tables_ok h s \<longleftrightarrow> topic_table h s \<and> library_ok s \<and> admin_ok s \<and> attachments_ok s"

lemma hide_topic_table [simp]:
  "topic_table h (hide_map t) = topic_table h t" "topic_table h (hide_missions t) = topic_table h t"
  "topic_table h (hide_logs t) = topic_table h t" "topic_table h (hide_teams t) = topic_table h t"
  "topic_table h (hide_eams t) = topic_table h t" "topic_table h (hide_assets t) = topic_table h t"
  "topic_table h (hide_skills t) = topic_table h t" "topic_table h (hide_assignments t) = topic_table h t"
  "topic_table h (hide_checklists t) = topic_table h t"
  by (simp_all add: hide_map_def hide_missions_def hide_logs_def hide_teams_def hide_eams_def hide_assets_def hide_skills_def hide_assignments_def hide_checklists_def topic_table_def)

lemma hide_library [simp]:
  "library_ok (hide_topics t) = library_ok t" "library_ok (hide_map t) = library_ok t"
  "library_ok (hide_missions t) = library_ok t" "library_ok (hide_logs t) = library_ok t"
  "library_ok (hide_teams t) = library_ok t" "library_ok (hide_eams t) = library_ok t"
  "library_ok (hide_assets t) = library_ok t" "library_ok (hide_skills t) = library_ok t"
  "library_ok (hide_assignments t) = library_ok t"
  by (simp_all add: hide_topics_def hide_map_def hide_missions_def hide_logs_def hide_teams_def hide_eams_def hide_assets_def hide_skills_def hide_assignments_def library_ok_def)

lemma hide_admin [simp]:
  "admin_ok (hide_topics t) = admin_ok t" "admin_ok (hide_map t) = admin_ok t"
  "admin_ok (hide_missions t) = admin_ok t" "admin_ok (hide_logs t) = admin_ok t"
  "admin_ok (hide_teams t) = admin_ok t" "admin_ok (hide_eams t) = admin_ok t"
  "admin_ok (hide_assets t) = admin_ok t" "admin_ok (hide_skills t) = admin_ok t"
  "admin_ok (hide_assignments t) = admin_ok t" "admin_ok (hide_checklists t) = admin_ok t"
  by (simp_all add: hide_topics_def hide_map_def hide_missions_def hide_logs_def hide_teams_def hide_eams_def hide_assets_def hide_skills_def hide_assignments_def hide_checklists_def admin_ok_def)

lemma hide_attachments [simp]:
  "attachments_ok (hide_map t) = attachments_ok t" "attachments_ok (hide_missions t) = attachments_ok t"
  "attachments_ok (hide_logs t) = attachments_ok t" "attachments_ok (hide_teams t) = attachments_ok t"
  "attachments_ok (hide_eams t) = attachments_ok t" "attachments_ok (hide_assets t) = attachments_ok t"
  "attachments_ok (hide_skills t) = attachments_ok t" "attachments_ok (hide_assignments t) = attachments_ok t"
  "attachments_ok (hide_checklists t) = attachments_ok t"
  by (simp_all add: hide_map_def hide_missions_def hide_logs_def hide_teams_def hide_eams_def hide_assets_def hide_skills_def hide_assignments_def hide_checklists_def attachments_ok_def)

lemma table_fields [simp]:
  "topic_table h (t\<lparr>clients := x\<rparr>) = topic_table h t" "library_ok (t\<lparr>clients := x\<rparr>) = library_ok t"
  "admin_ok (t\<lparr>clients := x\<rparr>) = admin_ok t" "attachments_ok (t\<lparr>clients := x\<rparr>) = attachments_ok t"
  "topic_table h (t\<lparr>mission_access_assignments := y\<rparr>) = topic_table h t"
  "library_ok (t\<lparr>mission_access_assignments := y\<rparr>) = library_ok t"
  "admin_ok (t\<lparr>mission_access_assignments := y\<rparr>) = admin_ok t"
  "attachments_ok (t\<lparr>mission_access_assignments := y\<rparr>) = attachments_ok t"
  by (simp_all add: topic_table_def library_ok_def admin_ok_def attachments_ok_def)

subsection \<open>The topic, checklist and REM commands\<close>

lemma topic_table_put:
  "topic_table h s \<Longrightarrow> normalize_topic_id h (Some k) = Some k \<Longrightarrow> tp_topic_id r = k \<Longrightarrow>
     topic_table h (s\<lparr>topics := hm_insert k r (topics s)\<rparr>)"
  by (simp add: topic_table_def)

lemma topic_table_get:
  "topic_table h s \<Longrightarrow> hm_get (topics s) k = Some r \<Longrightarrow> tp_topic_id r = k \<and> normalize_topic_id h (Some k) = Some k"
  by (auto simp: topic_table_def hm_contains_def dest: storedD)

lemma drawn_topic_id:
  assumes "uuid_canonical h" and "\<And>n. uuid_parse h (uuid_v4 h n) = Some (uuid_v4 h n)"
    and "or_new_uuid h s (normalize_topic_id h v) = (k, t)"
  shows "normalize_topic_id h (Some k) = Some k"
proof (cases "normalize_topic_id h v")
  case None
  with assms(3) have "k = uuid_v4 h (next_uuid s)" by (simp add: or_new_uuid_def new_uuid_def)
  with assms(1,2) have "uuid_parse h k = Some k" "trim k = k" "k \<noteq> []"
    unfolding uuid_canonical_def by metis+
  then show ?thesis by (simp add: normalize_topic_id_def)
next
  case (Some u)
  with assms(3) have "k = u" by (simp add: or_new_uuid_def)
  with Some show ?thesis using normalize_topic_id_again [OF assms(1)] by simp
qed

lemma topic_table_create [keeps]:
  assumes "topic_table h s" and "uuid_canonical h" and "\<And>n. uuid_parse h (uuid_v4 h n) = Some (uuid_v4 h n)"
  shows "leaves (topic_table h) (create_topic_from_args h args s)"
proof -
  have "topic_table h t \<and> topics t = topics s" if "or_new_uuid h s v = (k, t)" for v k t
    using or_new_uuid_frame [OF that] assms(1) by (auto simp: topic_table_def)
  then show ?thesis
    unfolding create_topic_from_args_def Let_def
    by (intro keeps assms(1) topic_table_put) (auto dest: drawn_topic_id [OF assms(2,3)])
qed

lemma topic_table_patch [keeps]:
  assumes "topic_table h s" shows "leaves (topic_table h) (patch_topic_from_args h' args s)"
  unfolding patch_topic_from_args_def Let_def
  by (intro keeps assms topic_table_put) (auto simp: result_eqs dest: topic_table_get [OF assms] split: option.splits)

lemma topic_table_delete [keeps]:
  assumes "topic_table h s" shows "leaves (topic_table h) (delete_topic_from_args h' args s)"
  using assms unfolding delete_topic_from_args_def by (intro keeps) (simp_all add: topic_table_def)

lemma topic_table_message [keeps]:
  assumes "topic_table h s" shows "leaves (topic_table h) (record_message h' mid content topic dest sender s)"
proof -
  have touched: "topic_table h (s\<lparr>topics := hm_insert k (r\<lparr>tp_last_activity_ts_ms := now\<rparr>) (topics s)\<rparr>)"
    if "hm_get (topics s) k = Some r" for k r now
    using topic_table_get [OF assms that] by (intro topic_table_put [OF assms]) simp_all
  show ?thesis
    unfolding record_message_def Let_def
    by (intro keeps assms) (use touched assms in \<open>auto simp: result_eqs topic_table_def split: option.splits\<close>)
qed

lemma topic_table_subscriptions [simp]: "topic_table h (s\<lparr>subscribers := m\<rparr>) = topic_table h s"
  by (simp add: topic_table_def)

lemma topic_table_topics:
  assumes "topic_table h s" and "uuid_canonical h" and "\<And>n. uuid_parse h (uuid_v4 h n) = Some (uuid_v4 h n)"
  shows "leaves (topic_table h) (apply_topic_command h c s)"
  using assms
  unfolding apply_topic_command_def subscribe_def patch_subscriber_from_args_def delete_subscriber_from_args_def Let_def
  by (intro keeps) (simp_all add: topic_table_subscriptions)

lemma attachments_ok_topics:
  "attachments_ok s \<Longrightarrow> leaves attachments_ok (apply_topic_command h c s)"
  unfolding apply_topic_command_def create_topic_from_args_def patch_topic_from_args_def
    delete_topic_from_args_def subscribe_def patch_subscriber_from_args_def
    delete_subscriber_from_args_def record_message_def Let_def
  by (intro keeps) (auto dest!: or_new_uuid_frame simp: result_eqs attachments_ok_def split: option.splits)

lemma attachments_ok_message:
  "attachments_ok s \<Longrightarrow> leaves attachments_ok (record_message h mid content topic dest sender s)"
  unfolding record_message_def Let_def
  by (intro keeps) (auto simp: result_eqs attachments_ok_def split: option.splits)

subsection \<open>The library of checklists\<close>

lemma library_ok_updates [simp]:
  "library_ok (s\<lparr>next_uuid := n\<rparr>) = library_ok s" "library_ok (s\<lparr>checklists := a\<rparr>) = library_ok s"
  "library_ok (s\<lparr>checklist_tasks := b\<rparr>) = library_ok s" "library_ok (s\<lparr>checklist_cells := c\<rparr>) = library_ok s"
  "library_ok (s\<lparr>mission_changes := d\<rparr>) = library_ok s" "library_ok (s\<lparr>audit_events := e\<rparr>) = library_ok s"
  by (simp_all add: library_ok_def)

lemma library_ok_template:
  "library_ok s \<Longrightarrow> ct_uid r = k \<Longrightarrow> library_ok (s\<lparr>checklist_templates := hm_insert k r (checklist_templates s)\<rparr>)"
  by (simp add: library_ok_def)

lemma column_uid [simp]: "cc_column_uid (column_from_value h ks u cu tu now i column) = u"
  by (simp add: column_from_value_def Let_def)

lemma library_ok_insert_columns:
  "library_ok s \<Longrightarrow> library_ok (insert_columns h ks cu tu now i columns s)"
proof (induction h ks cu tu now i columns s rule: insert_columns.induct)
  case (2 h ks cu tu now i column columns s)
  let ?t = "snd (new_uuid h s)"
  let ?u = "fst (new_uuid h s)"
  have "library_ok (?t\<lparr>checklist_columns :=
      hm_insert ?u (column_from_value h ks ?u cu tu now i column) (checklist_columns ?t)\<rparr>)"
    using "2.prems" by (simp add: new_uuid_def library_ok_def)
  from "2.IH" [OF _ _ this] show ?case by (simp add: split_beta)
qed simp

lemma library_ok_replace: "library_ok s \<Longrightarrow> library_ok (replace_template_columns h u columns now s)"
  unfolding replace_template_columns_def by (rule library_ok_insert_columns) (simp add: library_ok_def)

lemma library_ok_create_template [keeps]:
  assumes "library_ok s" shows "leaves library_ok (create_checklist_template h v src s)"
proof -
  have "library_ok t" if "or_new_uuid h s x = (u, t)" for x u t
    using or_new_uuid_frame [OF that] assms by auto
  then show ?thesis
    unfolding create_checklist_template_def Let_def by (intro keeps library_ok_replace library_ok_template) auto
qed

lemma library_ok_get_template:
  "library_ok s \<Longrightarrow> hm_get (checklist_templates s) k = Some r \<Longrightarrow> ct_uid r = k"
  by (auto simp: library_ok_def dest: storedD)

lemma library_ok_update_template [keeps]:
  "library_ok s \<Longrightarrow> leaves library_ok (update_checklist_template h u v s)"
  unfolding update_checklist_template_def Let_def
  by (intro keeps library_ok_replace library_ok_template)
     (auto simp: result_eqs set_optional_def dest: library_ok_get_template split: option.splits)

lemma library_ok_templates:
  "library_ok s \<Longrightarrow> leaves library_ok (apply_checklist_template_command h c s)"
  unfolding apply_checklist_template_command_def clone_checklist_template_def delete_checklist_template_def Let_def
  by (intro keeps; simp add: library_ok_def)

lemma library_ok_publish: "library_ok s \<Longrightarrow> leaves library_ok (publish_checklist_feed h u f c s)"
  unfolding publish_checklist_feed_def new_uuid_def Let_def
  by (intro keeps) (simp_all add: library_ok_def)

interpretation checklist_library: payload_aside library_ok
  by unfold_locales
     (simp_all add: library_ok_insert_columns insert_checklist_columns_def library_ok_templates library_ok_publish)

lemma library_ok_checklists: "library_ok s \<Longrightarrow> leaves library_ok (apply_checklist_command h c s)"
  by (rule checklist_library.aside_command)
     (auto simp: delete_checklist_def Let_def library_ok_def intro!: keeps)

subsection \<open>The tables of the administrative calls\<close>

lemma admin_ok_announces:
  assumes "admin_ok s" shows "leaves admin_ok (record_identity_announce h i a n src caps s)"
proof -
  have put: "admin_ok (s\<lparr>identity_announces := hm_insert k r (identity_announces s)\<rparr>)"
    if "ia_destination_hash r = k" for k r
    using assms that by (simp add: admin_ok_def)
  have "ia_destination_hash r = k" if "hm_get (identity_announces s) k = Some r" for k r
    using assms storedD that unfolding admin_ok_def by metis
  then show ?thesis
    unfolding record_identity_announce_def Let_def by (intro keeps assms put) (simp split: option.split)
qed

lemma admin_ok_states: "admin_ok s \<Longrightarrow> leaves admin_ok (set_identity_state h i b k s)"
  unfolding set_identity_state_def Let_def by (intro keeps) (simp_all add: admin_ok_def)

lemma admin_ok_modes [keeps]: "admin_ok s \<Longrightarrow> leaves admin_ok (set_identity_rem_mode h i m s)"
  unfolding set_identity_rem_mode_def Let_def by (intro keeps) (simp_all add: admin_ok_def)

lemma admin_ok_uuid [simp]: "admin_ok (s\<lparr>next_uuid := n\<rparr>) = admin_ok s"
  by (simp add: admin_ok_def)

lemma admin_ok_rights: "admin_ok s \<Longrightarrow> leaves admin_ok (upsert_operation_right h ty i op sc si g s)"
  unfolding upsert_operation_right_def Let_def
  by (intro keeps) (auto dest!: or_new_uuid_frame simp: admin_ok_def right_key_def)

lemma admin_ok_capabilities:
  "admin_ok s \<Longrightarrow> admin_ok (grant_identity_capability i c s)"
  "admin_ok s \<Longrightarrow> admin_ok (fst (revoke_identity_capability i c s))"
  by (auto simp: admin_ok_def grant_identity_capability_def revoke_identity_capability_def Let_def
        dest: normalize_hash_again split: option.split)

lemma admin_ok_rem: "admin_ok s \<Longrightarrow> leaves admin_ok (apply_rem_registry_command h c s)"
  unfolding apply_rem_registry_command_def Let_def by (intro keeps)

subsection \<open>Every step keeps the tables\<close>

lemma tables_okD:
  assumes "tables_ok h s"
  shows "topic_table h s" "library_ok s" "admin_ok s" "attachments_ok s"
  using assms by (simp_all add: tables_ok_def)

lemma leaves_tables_ok:
  "leaves (topic_table h) m \<Longrightarrow> leaves library_ok m \<Longrightarrow> leaves admin_ok m \<Longrightarrow> leaves attachments_ok m \<Longrightarrow>
     leaves (tables_ok h) m"
  by (simp add: leaves_def tables_ok_def)

lemma hide_tables [simp]:
  "tables_ok h (hide_map t) = tables_ok h t" "tables_ok h (hide_missions t) = tables_ok h t"
  "tables_ok h (hide_logs t) = tables_ok h t" "tables_ok h (hide_teams t) = tables_ok h t"
  "tables_ok h (hide_eams t) = tables_ok h t" "tables_ok h (hide_assets t) = tables_ok h t"
  "tables_ok h (hide_skills t) = tables_ok h t" "tables_ok h (hide_assignments t) = tables_ok h t"
  "tables_ok h (t\<lparr>clients := x\<rparr>) = tables_ok h t" "tables_ok h (t\<lparr>mission_access_assignments := y\<rparr>) = tables_ok h t"
  by (simp_all add: tables_ok_def)

lemma tables_ok_components:
  assumes "tables_ok h s"
  shows "leaves (tables_ok h) (apply_client_event_command h c s)" "leaves (tables_ok h) (apply_marker_command h c s)"
    "leaves (tables_ok h) (apply_zone_command h c s)" "leaves (tables_ok h) (apply_registry_mission_command h c s)"
    "leaves (tables_ok h) (apply_registry_log_command h c s)" "leaves (tables_ok h) (apply_registry_eam_command h c s)"
    "leaves (tables_ok h) (apply_registry_team_command h c s)"
    "leaves (tables_ok h) (apply_registry_team_member_command h c s)"
    "leaves (tables_ok h) (apply_registry_asset_command h c s)"
    "leaves (tables_ok h) (apply_registry_skill_command h c s)"
    "leaves (tables_ok h) (apply_registry_assignment_command h c s)"
    "leaves (tables_ok h) (apply_registry_rights_command h c s)"
  using assms
  by (rule frame_clients [rotated] frame_markers [rotated] frame_zones [rotated] frame_missions [rotated]
        frame_logs [rotated] frame_eams [rotated] frame_teams [rotated] frame_members [rotated]
        frame_assets [rotated] frame_skills [rotated] frame_assignments [rotated] frame_rights [rotated]; simp)+

lemma tables_ok_topics:
  assumes "tables_ok h s" and "uuid_canonical h" and "\<And>n. uuid_parse h (uuid_v4 h n) = Some (uuid_v4 h n)"
  shows "leaves (tables_ok h) (apply_topic_command h c s)"
  using tables_okD [OF assms(1)] assms(2,3)
  by (intro leaves_tables_ok topic_table_topics attachments_ok_topics) (assumption | rule frame_topics; simp)+

lemma tables_ok_message:
  assumes "tables_ok h s" shows "leaves (tables_ok h) (record_message h' mid content topic dest sender s)"
  using tables_okD [OF assms]
  by (intro leaves_tables_ok topic_table_message attachments_ok_message) (assumption | rule frame_message; simp)+

lemma tables_ok_checklists:
  "tables_ok h s \<Longrightarrow> leaves (tables_ok h) (apply_checklist_command h c s)"
  using tables_okD [of h s]
  by (intro leaves_tables_ok library_ok_checklists) (assumption | rule frame_checklists; simp)+

lemma tables_ok_fields:
  "tables_ok h (s\<lparr>audit_events := b\<rparr>) = tables_ok h s" "tables_ok h (s\<lparr>next_uuid := n\<rparr>) = tables_ok h s"
  "tables_ok h (s\<lparr>authorization_required := m\<rparr>) = tables_ok h s"
  "tables_ok h (s\<lparr>team_members := tm\<rparr>) = tables_ok h s"
  by (simp_all add: tables_ok_def topic_table_def library_ok_def admin_ok_def attachments_ok_def)

lemma tables_ok_result:
  "tables_ok h s \<Longrightarrow> res_command_id r = k \<Longrightarrow> tables_ok h (s\<lparr>command_results := hm_insert k r (command_results s)\<rparr>)"
  by (simp add: tables_ok_def topic_table_def library_ok_def admin_ok_def attachments_ok_def)

lemma normalize_topic_id_cong: "uuid_parse h = uuid_parse h' \<Longrightarrow> normalize_topic_id h = normalize_topic_id h'"
  by (intro ext) (simp only: normalize_topic_id_def)

lemma tables_ok_cong: "uuid_parse h = uuid_parse h' \<Longrightarrow> tables_ok h s = tables_ok h' s"
  using normalize_topic_id_cong [of h h'] by (simp add: tables_ok_def topic_table_def)

lemmas tables_sound_leaves = sound_for_leaves [where P = tables_ok]
lemmas tables_sound_leaves_at = sound_for_leaves_at [where P = tables_ok, OF tables_ok_cong]

lemma tables_ok_rem: "tables_ok h s \<Longrightarrow> leaves (tables_ok h) (apply_rem_registry_command h' c s)"
  using tables_okD [of h s] rem_command_frame [of s h' c]
  by (intro leaves_tables_ok admin_ok_rem)
     (auto simp: leaves_def only_modes_def topic_table_def library_ok_def attachments_ok_def)

lemma tables_ok_command:
  assumes "tables_ok h s" and "uuid_canonical h" and "\<And>n. uuid_parse h (uuid_v4 h n) = Some (uuid_v4 h n)"
  shows "leaves (tables_ok h) (apply_command h c s)"
proof -
  have "leaves (tables_ok h) (run_component component h c s)" for component
    using assms
    by (cases component)
       (simp_all add: tables_ok_rem tables_ok_components tables_ok_topics, intro keeps tables_ok_checklists)
  with assms(1) show ?thesis
    unfolding apply_command_def by (intro keeps)
qed

lemma tables_ok_member:
  "tables_ok h s \<Longrightarrow> leaves (tables_ok h) (upsert_team_member_from_identity_announce h' a s)"
  unfolding upsert_team_member_from_identity_announce_def Let_def
  by (intro keeps) (simp_all add: tables_ok_fields)

lemma tables_ok_role: "tables_ok h s \<Longrightarrow> leaves (tables_ok h) (assign_mission_access_role u ty i r s)"
  unfolding assign_mission_access_role_def Let_def by (intro keeps) simp_all

lemma tables_ok_admin:
  assumes "tables_ok h s"
    and "leaves admin_ok m" and "leaves (\<lambda>t. topics t = topics s \<and> checklist_templates t = checklist_templates s
      \<and> checklist_columns t = checklist_columns s \<and> checklist_feed_publications t = checklist_feed_publications s
      \<and> file_attachments t = file_attachments s) m"
  shows "leaves (tables_ok h) m"
  using assms by (simp add: leaves_def tables_ok_def topic_table_def library_ok_def attachments_ok_def)

lemma tables_ok_admin_calls:
  assumes "tables_ok h s"
  shows "leaves (tables_ok h) (record_identity_announce h' i a n src caps s)"
    "leaves (tables_ok h) (set_identity_state h' i b k s)"
    "leaves (tables_ok h) (set_identity_rem_mode h' i mo s)"
    "leaves (tables_ok h) (upsert_operation_right h' ty i op sc si g s)"
    "tables_ok h (grant_identity_capability i c s)"
    "tables_ok h (fst (revoke_identity_capability i c s))"
proof -
  note D = tables_okD [OF assms]
  show "leaves (tables_ok h) (record_identity_announce h' i a n src caps s)"
    by (intro tables_ok_admin [OF assms] admin_ok_announces D)
       (unfold record_identity_announce_def Let_def, intro keeps, simp_all)
  show "leaves (tables_ok h) (set_identity_state h' i b k s)"
    by (intro tables_ok_admin [OF assms] admin_ok_states D)
       (unfold set_identity_state_def Let_def, intro keeps, simp_all)
  show "leaves (tables_ok h) (set_identity_rem_mode h' i mo s)"
    by (intro tables_ok_admin [OF assms] admin_ok_modes D)
       (unfold set_identity_rem_mode_def Let_def, intro keeps, simp_all)
  show "leaves (tables_ok h) (upsert_operation_right h' ty i op sc si g s)"
    by (intro tables_ok_admin [OF assms] admin_ok_rights D)
       (unfold upsert_operation_right_def Let_def, intro keeps, auto dest!: or_new_uuid_frame)
  have kept: "tables_ok h t" if "admin_ok t" "topics t = topics s" "checklist_templates t = checklist_templates s"
    "checklist_columns t = checklist_columns s" "checklist_feed_publications t = checklist_feed_publications s"
    "file_attachments t = file_attachments s" for t
    using that D by (simp add: tables_ok_def topic_table_def library_ok_def attachments_ok_def)
  show "tables_ok h (grant_identity_capability i c s)"
    by (rule kept [OF admin_ok_capabilities(1) [OF D(3)]])
       (simp_all add: grant_identity_capability_def split: option.split)
  show "tables_ok h (fst (revoke_identity_capability i c s))"
    by (rule kept [OF admin_ok_capabilities(2) [OF D(3)]])
       (simp_all add: revoke_identity_capability_def Let_def split: option.split)
qed

lemma tables_ok_new: "tables_ok h new_core"
  by (simp add: tables_ok_def topic_table_def library_ok_def admin_ok_def attachments_ok_def new_core_def hm_contains_def)

lemma tables_sound_fields:
  "sound_for tables_ok parse (s\<lparr>audit_events := b\<rparr>) = sound_for tables_ok parse s"
  "sound_for tables_ok parse (s\<lparr>next_uuid := n\<rparr>) = sound_for tables_ok parse s"
  "sound_for tables_ok parse (s\<lparr>authorization_required := m\<rparr>) = sound_for tables_ok parse s"
  by (simp_all add: sound_for_def tables_ok_fields)

lemma tables_sound_calls:
  assumes "sound_for tables_ok parse s"
  shows "res_command_id r = k \<Longrightarrow> sound_for tables_ok parse (s\<lparr>command_results := hm_insert k r (command_results s)\<rparr>)"
    "sound_for tables_ok parse (grant_identity_capability i c s)"
    "sound_for tables_ok parse (fst (revoke_identity_capability i c s))"
  using assms by (simp_all add: sound_for_def tables_ok_result tables_ok_admin_calls)

lemma lawful_draws: "lawful_host parse h \<Longrightarrow> uuid_parse h (uuid_v4 h n) = Some (uuid_v4 h n)"
  by (simp add: lawful_host_def)

interpretation table_runs: run_invariant "sound_for tables_ok parse" parse
proof unfold_locales
  fix h c s assume lawful: "lawful_host parse h" and sound: "sound_for tables_ok parse s"
  show "leaves (sound_for tables_ok parse) (apply_command h c s)"
    by (rule tables_sound_leaves_at [OF _ sound lawful]) (assumption, intro tables_ok_command lawful_draws [OF lawful])
  show "leaves (sound_for tables_ok parse) (apply_checklist_command h c s)"
    by (rule tables_sound_leaves_at [OF _ sound lawful]) (assumption, rule tables_ok_checklists)
qed (simp_all add: tables_sound_fields tables_sound_calls tables_sound_leaves tables_ok_rem tables_ok_member
      tables_ok_message tables_ok_role tables_ok_admin_calls tables_ok_new sound_for_def [of tables_ok parse new_core])

lemma reachable_tables_ok:
  "reachable (uuid_parse h) s \<Longrightarrow> uuid_canonical h \<Longrightarrow> tables_ok h s"
  using table_runs.inv_reachable by (rule sound_forD)

subsection \<open>Every reachable state can be stored\<close>

lemma stored_subscribers: "subscribers_ok h s \<Longrightarrow> stored subscriber_key_of (subscribers s)"
  by (fastforce simp: subscribers_ok_def stored_keyed keyed_by_def subscriber_key_of_def)

lemma core_ok_stored:
  assumes "core_ok h s"
  shows "stored subscriber_key_of (subscribers s)" "stored mk_object_destination_hash (markers s)"
    "stored zn_zone_id (zones s)" "stored mi_uid (missions s)" "stored mc_uid (mission_changes s)"
    "stored le_entry_uid (log_entries s)" "stored ea_eam_uid (eam_snapshots s)" "stored te_uid (teams s)"
    "stored tm_uid (team_members s)" "stored at_asset_uid (assets s)" "stored sk_skill_uid (skills s)"
    "stored member_skill_key (team_member_skills s)" "stored requirement_key (task_skill_requirements s)"
    "stored an_assignment_uid (assignments s)" "stored ck_uid (checklists s)"
    "stored tk_task_uid (checklist_tasks s)" "stored ce_cell_uid (checklist_cells s)"
    "stored access_key (mission_access_assignments s)"
  using core_okD [OF assms] stored_subscribers [of h s]
  by (simp_all add: stored_keyed keyed_by_def map_objects_ok_def missions_ok_def logs_ok_def eams_ok_def eam_ok_def
        teams_ok_def team_ok_def members_ok_def member_ok_def assets_ok_def asset_ok_def skills_ok_def
        assignments_ok_def assignment_ok_def checklists_but_def rows_ok_def task_ok_def access_ok_def
        access_record_ok_def access_key_def member_skill_key_def requirement_key_def)

lemma storable_if_sound:
  assumes "core_ok h s" and "tables_ok h s"
  shows "storable h s"
proof -
  note I = core_okD [OF assms(1)] and T = tables_okD [OF assms(2)]
  have "hm_wf (clients s) \<and> (\<forall>(k, c) \<in> set (clients s). normalize_hash (Some (cl_identity c)) = Some k)"
    using I(1) by (auto simp: roster_ok_def client_ok_def hm_get_iff_in)
  moreover have "\<forall>(k, r) \<in> set (topics s). normalize_topic_id h (Some k) = Some k"
    using T(1) by (fastforce simp: topic_table_def hm_contains_def hm_get_iff_in stored_wf)
  moreover have "\<forall>(k, cs) \<in> set (identity_capabilities s). normalize_hash (Some k) = Some k"
    using T(3) by (fastforce simp: admin_ok_def hm_contains_def hm_get_iff_in)
  ultimately show ?thesis
    using I(2) T core_ok_stored [OF assms(1)]
    by (simp add: storable_def validate_iff list_all_iff topic_table_def library_ok_def admin_ok_def attachments_ok_def)
qed

lemma reachable_storable: "reachable (uuid_parse h) s \<Longrightarrow> uuid_canonical h \<Longrightarrow> storable h s"
  by (intro storable_if_sound reachable_core_ok reachable_tables_ok)

end
