(* ===== verification/Safety.thy ===== *)
theory Safety
  imports Storable
begin

text \<open>
  What holds along every run: commands neither give themselves rights nor let a banned identity in,
  and a stored result is never lost or changed.
\<close>

subsection \<open>No command raises its own rights\<close>

definition security_tables :: "rch_core \<Rightarrow> (string, string list) hmap
    \<times> (string \<times> string \<times> string \<times> string \<times> string, subject_operation_right) hmap
    \<times> (string, identity_state_record) hmap \<times> bool" where
  "security_tables s =
     (identity_capabilities s, subject_operation_rights s, identity_states s, authorization_required s)"

lemma trusted_security: "trusted t = trusted s \<Longrightarrow> security_tables t = security_tables s"
  by (simp add: trusted_def security_tables_def)

interpretation security: command_invariant "\<lambda>t. security_tables t = x" "\<lambda>_. True"
proof unfold_locales
  fix h c and s :: rch_core assume s: "security_tables s = x"
  show "leaves (\<lambda>t. security_tables t = x) (apply_command h c s)"
    by (rule leaves_mono [OF command_trusted]) (use s trusted_security in metis)
  show "leaves (\<lambda>t. security_tables t = x) (apply_checklist_command h c s)"
    by (rule leaves_mono [OF checklist_command_trusted]) (use s trusted_security in metis)
  show "leaves (\<lambda>t. security_tables t = x) (apply_rem_registry_command h c s)"
    by (rule leaves_mono [OF rem_command_trusted]) (use s trusted_security in metis)
qed (simp_all add: security_tables_def)

subsection \<open>A stored result stays\<close>

interpretation kept_result: step_invariant "\<lambda>s. hm_get (command_results s) k = Some r" parse
proof unfold_locales
  let ?kept = "\<lambda>s :: rch_core. hm_get (command_results s) k = Some r"
  fix h c and s :: rch_core assume s: "?kept s"
  show "leaves ?kept (apply_command h c s)"
    by (rule leaves_mono [OF command_trusted]) (use s trusted_results in metis)
  show "leaves ?kept (apply_checklist_command h c s)"
    by (rule leaves_mono [OF checklist_command_trusted]) (use s trusted_results in metis)
  show "leaves ?kept (apply_rem_registry_command h c s)"
    by (rule leaves_mono [OF rem_command_trusted]) (use s trusted_results in metis)
  show "leaves ?kept (upsert_team_member_from_identity_announce h a s)" for a
    unfolding upsert_team_member_from_identity_announce_def Let_def using s by (intro keeps) simp_all
  show "leaves ?kept (assign_mission_access_role u ty i ro s)" for u ty i ro
    unfolding assign_mission_access_role_def Let_def using s by (intro keeps) simp_all
  show "leaves ?kept (record_message h mid content topic None sender s)" for mid content topic sender
    by (rule frame_message) (use s in \<open>simp_all add: hide_topics_def\<close>)
  show "leaves ?kept (record_identity_announce h i a n src caps s)" for i a n src caps
    unfolding record_identity_announce_def Let_def using s by (intro keeps) simp_all
  show "leaves ?kept (set_identity_state h i b e s)" for i b e
    unfolding set_identity_state_def Let_def using s by (intro keeps) simp_all
  show "leaves ?kept (set_identity_rem_mode h i m s)" for i m
    unfolding set_identity_rem_mode_def Let_def using s by (intro keeps) simp_all
  show "leaves ?kept (upsert_operation_right h ty i op sc si g s)" for ty i op sc si g
    unfolding upsert_operation_right_def Let_def using s by (intro keeps) (auto dest!: or_new_uuid_frame)
  show "?kept (grant_identity_capability i cap s)" for i cap
    using s by (simp add: grant_identity_capability_def split: option.split)
  show "?kept (fst (revoke_identity_capability i cap s))" for i cap
    using s by (simp add: revoke_identity_capability_def Let_def split: option.split)
qed auto

lemma handled_once:
  assumes "handle_command h c s = (t, out)" and "(step parse)\<^sup>*\<^sup>* t u" and "cmd_id c' = cmd_id c"
  shows "handle_command h' c' u = (u, \<lparr>out_result = out_result out, out_event = None\<rparr>)"
proof -
  have "hm_get (command_results t) (cmd_id c) = Some (out_result out)"
    by (rule handle_command_stores [OF assms(1)])
  with assms(2) have "hm_get (command_results u) (cmd_id c) = Some (out_result out)"
    by (rule kept_result.inv_steps)
  with assms(3) show ?thesis by (simp add: handle_command_cached)
qed

subsection \<open>A banned identity stays off the roster\<close>

lemma stays_out_cong:
  "clients t = clients s \<Longrightarrow> identity_states t = identity_states s \<Longrightarrow> stays_out n t = stays_out n s"
  by (simp add: stays_out_def identity_blocked_def)

lemma hide_stays_out [simp]:
  "stays_out n (hide_topics t) = stays_out n t" "stays_out n (hide_map t) = stays_out n t"
  "stays_out n (hide_missions t) = stays_out n t" "stays_out n (hide_logs t) = stays_out n t"
  "stays_out n (hide_teams t) = stays_out n t" "stays_out n (hide_eams t) = stays_out n t"
  "stays_out n (hide_assets t) = stays_out n t" "stays_out n (hide_skills t) = stays_out n t"
  "stays_out n (hide_assignments t) = stays_out n t" "stays_out n (hide_checklists t) = stays_out n t"
  "stays_out n (t\<lparr>mission_access_assignments := b\<rparr>) = stays_out n t"
  by (rule stays_out_cong; simp add: hide_topics_def hide_map_def hide_missions_def hide_logs_def hide_teams_def
        hide_eams_def hide_assets_def hide_skills_def hide_assignments_def hide_checklists_def)+

lemma stays_out_rem: "stays_out n s \<Longrightarrow> leaves (stays_out n) (apply_rem_registry_command h c s)"
  by (rule leaves_mono [OF rem_command_frame]) (auto simp: only_modes_def stays_out_def identity_blocked_def)

lemma stays_out_checklists: "stays_out n s \<Longrightarrow> leaves (stays_out n) (apply_checklist_command h c s)"
  by (rule frame_checklists) simp_all

lemma stays_out_component:
  assumes "stays_out n s" shows "leaves (stays_out n) (run_component component h c s)"
proof (cases component)
  case ChecklistCommands
  with assms show ?thesis by simp (intro keeps stays_out_checklists)
qed (use assms in \<open>simp_all only: run_component.simps stays_out_rem blocked_stays_out\<close>,
     (rule frame_markers frame_zones frame_missions frame_logs frame_eams frame_teams
       frame_members frame_assets frame_skills frame_assignments frame_rights frame_topics; simp)+)

interpretation banned: command_invariant "stays_out n" "\<lambda>_. True"
proof unfold_locales
  fix h c s assume "stays_out n s"
  then show "leaves (stays_out n) (apply_command h c s)"
    unfolding apply_command_def by (intro keeps stays_out_component)
qed (auto intro: stays_out_checklists stays_out_rem simp: stays_out_def identity_blocked_def)

subsection \<open>The gate of the checklist commands\<close>

lemma checklist_sync_authorized:
  assumes "handle_checklist_sync_command h c s = (t, rs)" and "t \<noteq> s" and "authorization_required s"
  shows "\<exists>cap. checklist_required_capability (cmd_type c) = Some cap
    \<and> (has_identity_capability s (src_rns_identity (cmd_source c)) cap \<or> has_checklist_access_operation h s c cap)"
proof -
  have run: "is_supported_checklist_command (cmd_type c)" "missing_checklist_capability h c s = None"
    using assms(1,2) by (auto simp: handle_checklist_sync_command_def split: if_splits option.splits)
  then obtain cap where "checklist_required_capability (cmd_type c) = Some cap"
    using checklist_required_capability_iff by blast
  with run(2) assms(3) show ?thesis by (auto simp: missing_checklist_capability_def split: if_splits)
qed

subsection \<open>Granting and revoking\<close>

lemma has_identity_capability_Some:
  "normalize_hash (Some j) = Some n \<Longrightarrow> has_identity_capability s j cap \<longleftrightarrow> cap \<in> set (capabilities_of s n)"
  by (simp add: has_identity_capability_alt)

lemma has_identity_capability_None: "normalize_hash (Some j) = None \<Longrightarrow> \<not> has_identity_capability s j cap"
  by (simp add: has_identity_capability_alt)

lemma capabilities_granted:
  "normalize_hash (Some i) = Some k \<Longrightarrow>
     set (capabilities_of (grant_identity_capability i cap s) n) =
       (if n = k then insert cap (set (capabilities_of s n)) else set (capabilities_of s n))"
  by (simp add: grant_identity_capability_def capabilities_of_def)

lemma removeAll_empty: "removeAll x xs = [] \<longleftrightarrow> set xs \<subseteq> {x}"
  by (induction xs) auto

lemma capabilities_revoked:
  "normalize_hash (Some i) = Some k \<Longrightarrow>
     set (capabilities_of (fst (revoke_identity_capability i cap s)) n) =
       (if n = k then set (capabilities_of s n) - {cap} else set (capabilities_of s n))"
  by (auto simp: revoke_identity_capability_def capabilities_of_def hs_remove_def Let_def removeAll_empty split: option.split)

lemma capability_granted:
  "has_identity_capability (grant_identity_capability i cap s) j cap' \<longleftrightarrow>
     has_identity_capability s j cap'
     \<or> (normalize_hash (Some j) \<noteq> None \<and> normalize_hash (Some j) = normalize_hash (Some i) \<and> cap' = cap)"
proof (cases "normalize_hash (Some i)")
  case None
  then show ?thesis by (auto simp: grant_identity_capability_def)
next
  case (Some k)
  then show ?thesis
    by (cases "normalize_hash (Some j)")
       (auto simp: has_identity_capability_None has_identity_capability_Some capabilities_granted)
qed

lemma capability_revoked:
  "has_identity_capability (fst (revoke_identity_capability i cap s)) j cap' \<longleftrightarrow>
     has_identity_capability s j cap' \<and> \<not> (normalize_hash (Some j) = normalize_hash (Some i) \<and> cap' = cap)"
proof (cases "normalize_hash (Some i)")
  case None
  then show ?thesis
    by (cases "normalize_hash (Some j)") (simp_all add: revoke_identity_capability_def has_identity_capability_None)
next
  case (Some k)
  then show ?thesis
    by (cases "normalize_hash (Some j)")
       (auto simp: has_identity_capability_None has_identity_capability_Some capabilities_revoked)
qed

end
