(* ===== verification/Atomicity.thy ===== *)
theory Atomicity
  imports Safety
begin

text \<open>
  Failed commands.  The code validates before it writes in most operations, so a command that returns
  an error leaves the state as it was, up to the UUIDs drawn.  Where a command writes first
  (\<open>mission.nick\<close> joins the client before it checks the nickname) the model shows it.
\<close>

definition only_uuid :: "rch_core \<Rightarrow> rch_core \<Rightarrow> bool" where
  "only_uuid s t \<longleftrightarrow> (\<exists>n. t = s\<lparr>next_uuid := n\<rparr>)"

definition atomic :: "rch_core \<Rightarrow> rch_core \<times> ('e + 'a) \<Rightarrow> bool" where
  "atomic s m \<longleftrightarrow> (\<forall>e. snd m = Inl e \<longrightarrow> only_uuid s (fst m))"

named_theorems atoms

lemma only_uuid_refl [simp]: "only_uuid s s"
  unfolding only_uuid_def by (rule exI [of _ "next_uuid s"]) simp

lemma only_uuid_fresh: "only_uuid s r \<Longrightarrow> or_new_uuid h r x = (u, t) \<Longrightarrow> only_uuid s t"
  by (auto dest!: or_new_uuid_frame simp: only_uuid_def)

lemma only_uuid_new: "only_uuid s r \<Longrightarrow> new_uuid h r = (u, t) \<Longrightarrow> only_uuid s t"
  by (auto simp: new_uuid_def only_uuid_def)

lemma atomic_ok [atoms]: "atomic s (t, Inr x)"
  by (simp add: atomic_def)

lemma atomic_pair [atoms]: "only_uuid s t \<Longrightarrow> atomic s (t, r)"
  by (simp add: atomic_def)

lemma atomic_try_in [atoms]:
  "only_uuid s t \<Longrightarrow> (\<And>x. r = Inr x \<Longrightarrow> atomic s (k x)) \<Longrightarrow> atomic s (try_in t r k)"
  by (cases r) (auto simp: atomic_def)

lemma atomic_try_st [atoms]:
  "atomic s m \<Longrightarrow> (\<And>t x. m = (t, Inr x) \<Longrightarrow> atomic s (k t x)) \<Longrightarrow> atomic s (try_st m k)"
  by (cases m; cases "snd m") (auto simp: atomic_def)

lemma atomic_if [atoms]: "(b \<Longrightarrow> atomic s x) \<Longrightarrow> (\<not> b \<Longrightarrow> atomic s y) \<Longrightarrow> atomic s (if b then x else y)"
  by simp

lemma atomic_case_option [atoms]:
  "(c = None \<Longrightarrow> atomic s x) \<Longrightarrow> (\<And>v. c = Some v \<Longrightarrow> atomic s (f v)) \<Longrightarrow>
     atomic s (case c of None \<Rightarrow> x | Some v \<Rightarrow> f v)"
  by (cases c) auto

lemma atomic_case_prod [atoms]:
  "(\<And>a b. c = (a, b) \<Longrightarrow> atomic s (f a b)) \<Longrightarrow> atomic s (case c of (a, b) \<Rightarrow> f a b)"
  by (cases c) auto

lemma atomic_topics: "atomic s (apply_topic_command h c s)"
  unfolding apply_topic_command_def create_topic_from_args_def patch_topic_from_args_def
    delete_topic_from_args_def subscribe_def patch_subscriber_from_args_def
    delete_subscriber_from_args_def record_message_def Let_def
  by (intro atoms; (simp; fail)?)

lemma atomic_markers: "atomic s (apply_marker_command h c s)"
  unfolding apply_marker_command_def create_marker_from_args_def patch_marker_position_from_args_def
    patch_marker_from_args_def delete_marker_from_args_def Let_def
  by (intro atoms; (simp; fail)?) (auto dest!: only_uuid_new [rotated])

lemma atomic_skills: "atomic s (apply_registry_skill_command h c s)"
  unfolding apply_registry_skill_command_def upsert_skill_from_args_def upsert_team_member_skill_from_args_def
    upsert_task_skill_requirement_from_args_def Let_def
  by (intro atoms; (simp; fail)?) (auto dest!: only_uuid_fresh [rotated])

lemma atomic_assets: "atomic s (apply_registry_asset_command h c s)"
  unfolding apply_registry_asset_command_def upsert_asset_from_args_def delete_asset_def Let_def
  by (intro atoms; (simp; fail)?) (auto dest!: only_uuid_fresh [rotated])

end
