(* ===== verification/Progress.thy ===== *)
theory Progress
  imports Checklist_Rules
begin

text \<open>
  The progress of a checklist is a percentage: the doubles the code computes it with stay between 0 and
  100.  Rounding to a double is exact on integers of up to 50 bits and stays below any of them, which
  is all the computation needs.
\<close>

subsection \<open>Rounding below a small integer\<close>

lemma pow2_pos [simp]: "0 < pow2 e"
  by (simp add: pow2_def)

lemma pow2_nonzero [simp]: "pow2 e \<noteq> 0"
  using pow2_pos [of e] by (metis less_irrefl)

lemma pow2_eq: "pow2 e = 2 powi e"
  unfolding pow2_def power_int_def by (simp only: power_one_over inverse_eq_divide)

lemma pow2_add: "pow2 (a + b) = pow2 a * pow2 b"
  by (simp add: pow2_eq power_int_add)

lemma pow2_mono_iff: "pow2 a \<le> pow2 b \<longleftrightarrow> a \<le> b"
proof
  assume le: "pow2 a \<le> pow2 b"
  show "a \<le> b"
  proof (rule ccontr)
    assume "\<not> a \<le> b"
    then have "(2 :: rat) powi b < 2 powi a" by (intro power_int_strict_increasing) simp_all
    with le show False by (simp add: pow2_eq)
  qed
next
  assume "a \<le> b"
  then show "pow2 a \<le> pow2 b"
    using power_int_strict_increasing [of a b "2 :: rat"] by (cases "a = b") (simp_all add: pow2_eq less_imp_le)
qed

lemma pow2_floor_log2:
  assumes "0 < a" shows "pow2 (floor_log2 a) \<le> a"
proof -
  obtain p q where pq: "quotient_of a = (p, q)" by (cases "quotient_of a")
  then have q: "0 < q" and a: "a = of_int p / of_int q"
    using quotient_of_denom_pos quotient_of_div by blast+
  with assms have p: "0 < p" by (simp add: zero_less_divide_iff)
  have "pow2 (bitlen p - 1) \<le> of_int p"
  proof -
    have "2 ^ nat (bitlen p - 1) \<le> p" using bitlen_bounds [OF p] by simp
    then have "of_int (2 ^ nat (bitlen p - 1)) \<le> (of_int p :: rat)" by (simp only: of_int_le_iff)
    moreover have "0 \<le> bitlen p - 1"
      using bitlen_nonneg [of p] bitlen_eq_zero_iff [of p] p by linarith
    ultimately show ?thesis by (simp add: pow2_def)
  qed
  moreover have "of_int q \<le> pow2 (bitlen q)"
  proof -
    have "q \<le> 2 ^ nat (bitlen q)" using bitlen_bounds [OF q] by simp
    then have "(of_int q :: rat) \<le> of_int (2 ^ nat (bitlen q))" by (simp only: of_int_le_iff)
    then show ?thesis by (simp add: pow2_def bitlen_nonneg)
  qed
  ultimately have "pow2 (bitlen p - 1) * of_int q \<le> of_int p * pow2 (bitlen q)"
    using q p by (intro mult_mono) simp_all
  moreover have "pow2 (bitlen p - 1) = pow2 (bitlen p - bitlen q - 1) * pow2 (bitlen q)"
    by (simp flip: pow2_add)
  ultimately have "pow2 (bitlen p - bitlen q - 1) * of_int q \<le> of_int p"
    by (simp add: ac_simps)
  then have "pow2 (bitlen p - bitlen q - 1) \<le> a"
    using q by (simp add: a pos_le_divide_eq)
  then show ?thesis by (simp add: floor_log2_def pq Let_def not_less)
qed

lemma round_even_int [simp]: "round_even (of_int n) = n"
  by (simp add: round_even_def)

lemma round_even_below: "x \<le> of_int m \<Longrightarrow> round_even x \<le> m"
proof (cases "x = of_int m")
  case False
  moreover assume "x \<le> of_int m"
  ultimately have "\<lfloor>x\<rfloor> < m" by (simp add: floor_less_iff)
  then show ?thesis by (auto simp: round_even_def Let_def)
qed simp

lemma round_even_nonneg: "0 \<le> x \<Longrightarrow> 0 \<le> round_even x"
  by (auto simp: round_even_def Let_def)

lemma pow2_scale:
  assumes "e \<le> 0" shows "of_int n / pow2 e = of_int (n * 2 ^ nat (- e))"
  using assms by (cases "e = 0") (simp_all add: pow2_def)

lemma small_int: "b < 2 ^ 50 \<Longrightarrow> (of_int b :: rat) < pow2 50"
proof -
  assume "b < 2 ^ 50"
  then have "(of_int b :: rat) < of_int (2 ^ 50)" by (simp only: of_int_less_iff)
  also have "(of_int (2 ^ 50) :: rat) = pow2 50" by (simp add: pow2_def)
  finally show ?thesis .
qed

lemma exponent_small:
  assumes "0 < r" and "r \<le> of_int b" and "b < 2 ^ 50"
  shows "max (floor_log2 r - 52) (- 1074) \<le> 0"
proof -
  note pow2_floor_log2 [OF assms(1)]
  also note assms(2)
  also note small_int [OF assms(3)]
  finally have "floor_log2 r \<le> 50" by (simp add: pow2_mono_iff [symmetric] less_imp_le del: pow2_mono_iff)
  then show ?thesis by simp
qed

lemma not_overflow:
  assumes "x \<le> of_int b" and "b < 2 ^ 50" shows "x < pow2 1024"
proof -
  note assms(1)
  also note small_int [OF assms(2)]
  also have "pow2 50 \<le> pow2 1024" unfolding pow2_mono_iff by simp
  finally show ?thesis .
qed

lemma round_f64_between:
  assumes "0 \<le> r" and "r \<le> of_int b" and "b < 2 ^ 50"
  shows "\<exists>x. round_f64 r = Fin x \<and> 0 \<le> x \<and> x \<le> of_int b"
proof (cases "r = 0")
  case True
  with assms(2) show ?thesis by (simp add: round_f64_def)
next
  case False
  let ?e = "max (floor_log2 r - 52) (- 1074)"
  let ?v = "of_int (round_even (r / pow2 ?e)) * pow2 ?e"
  from False assms(1) have "0 < r" by simp
  then have e: "?e \<le> 0" using assms(2,3) by (rule exponent_small)
  have "r / pow2 ?e \<le> of_int b / pow2 ?e" using assms(2) by (intro divide_right_mono) (simp_all add: less_imp_le)
  then have "round_even (r / pow2 ?e) \<le> b * 2 ^ nat (- ?e)"
    unfolding pow2_scale [OF e] by (rule round_even_below)
  then have "of_int (round_even (r / pow2 ?e)) \<le> (of_int b / pow2 ?e)"
    unfolding pow2_scale [OF e] by (simp only: of_int_le_iff)
  then have v: "?v \<le> of_int b" by (simp add: pos_le_divide_eq)
  moreover have "0 \<le> ?v"
    using assms(1) by (intro mult_nonneg_nonneg) (simp_all add: round_even_nonneg less_imp_le)
  moreover have "round_f64 r = Fin ?v"
    using False assms(1) not_overflow [OF v assms(3)] by (simp add: round_f64_def Let_def not_le)
  ultimately show ?thesis by blast
qed

lemma round_f64_int:
  assumes "0 \<le> n" and "n < 2 ^ 50" shows "round_f64 (of_int n) = Fin (of_int n)"
proof (cases "n = 0")
  case False
  let ?e = "max (floor_log2 (of_int n) - 52) (- 1074)"
  have e: "?e \<le> 0" using False assms by (intro exponent_small [where b = n]) simp_all
  have "of_int (round_even (of_int n / pow2 ?e)) * pow2 ?e = of_int n"
    unfolding pow2_scale [OF e] round_even_int unfolding pow2_scale [OF e, symmetric] by simp
  then show ?thesis
    using False assms not_overflow [of "of_int n" n] by (simp add: round_f64_def Let_def not_le)
qed (simp add: round_f64_def)

subsection \<open>The percentage\<close>

lemma f64_round_between:
  assumes "0 \<le> x" and "x \<le> of_int b" and "b < 2 ^ 50"
  shows "\<exists>y. f64_round (Fin x) = Fin y \<and> 0 \<le> y \<and> y \<le> of_int b"
proof -
  have "0 \<le> \<lfloor>x + 1 / 2\<rfloor>" "\<lfloor>x + 1 / 2\<rfloor> \<le> b" using assms(1,2) by linarith+
  then show ?thesis
    using assms round_f64_int [of "\<lfloor>x + 1 / 2\<rfloor>"] by simp
qed

lemma progress_between:
  assumes "0 \<le> completed" and "completed \<le> overall"
  shows "\<exists>x. progress_of completed overall = Fin x \<and> 0 \<le> x \<and> x \<le> 100"
proof (cases "overall = 0")
  case False
  let ?u = "\<lambda>n::int. if 0 \<le> n \<and> n < 2 ^ 32 then n else 2 ^ 32 - 1"
  have u: "f64_of_int (?u n) = Fin (of_int (?u n))" for n
    unfolding f64_of_int_def by (rule round_f64_int) simp_all
  have pos: "0 < ?u overall" and le: "0 \<le> ?u completed" "?u completed \<le> ?u overall"
    using assms False by (auto split: if_splits)
  have q: "0 \<le> (of_int (?u completed) / of_int (?u overall) :: rat)"
    "(of_int (?u completed) / of_int (?u overall) :: rat) \<le> of_int 1"
    using pos le by (simp_all only: of_int_1 zero_le_divide_iff of_int_0_le_iff divide_le_eq_1_pos of_int_0_less_iff of_int_le_iff) auto
  obtain a where a: "f64_div (Fin (of_int (?u completed))) (Fin (of_int (?u overall))) = Fin a" "0 \<le> a" "a \<le> 1"
    using round_f64_between [OF q] pos by auto
  obtain b where b: "f64_mul (Fin a) (Fin 100) = Fin b" "0 \<le> b" "b \<le> 100"
    using round_f64_between [of "a * 100" 100] a by auto
  obtain c where c: "f64_mul (Fin b) (Fin 100) = Fin c" "0 \<le> c" "c \<le> 10000"
    using round_f64_between [of "b * 100" 10000] b by auto
  obtain d where d: "f64_round (Fin c) = Fin d" "0 \<le> d" "d \<le> 10000"
    using f64_round_between [of c 10000] c by auto
  obtain x where x: "f64_div (Fin d) (Fin 100) = Fin x" "0 \<le> x" "x \<le> 100"
    using round_f64_between [of "d / 100" 100] d by auto
  have "progress_of completed overall =
      f64_div (f64_round (f64_mul (f64_mul (f64_div (f64_of_int (?u completed)) (f64_of_int (?u overall))) (Fin 100)) (Fin 100))) (Fin 100)"
    using False by (simp add: progress_of_def Let_def)
  also have "\<dots> = Fin x" by (simp only: u a b c d x)
  finally show ?thesis using x by blast
qed (simp add: progress_of_def)

lemma summary_progress:
  assumes "summary_ok s u checklist"
  shows "\<exists>x. ck_progress_percent checklist = Fin x \<and> 0 \<le> x \<and> x \<le> 100"
  using assms progress_between unfolding summary_ok_def Let_def tally_counts no_tally_def by simp

end
