(* ===== verification/Identity_Directory.thy ===== *)
theory Identity_Directory
  imports Text
begin

text \<open>
  The identity directory (\<open>crates/r3akt-identity/src/lib.rs\<close>): the nodes that asked to be
  enrolled, what was decided about them and the trust they hold.  The maps are those of
  \<open>Hash_Store\<close>; \<open>Utc::now()\<close> is the argument \<open>now\<close> of an operation, in nanoseconds
  since the epoch.  A directory is used by calls of its four operations; \<open>run_calls\<close> runs a
  history of them, and the last section shows what a history tells about a trusted node.
\<close>

subsection \<open>Data\<close>

record node_identity =
  ni_id :: string
  ni_display_name :: string
  ni_public_key_hint :: string

datatype trust_level = UnknownTrust | Enrolled | Trusted | Revoked

record trust_record =
  tr_node_id :: string
  tr_level :: trust_level
  tr_updated_at :: int
  tr_reason :: "string option"

definition unknown_trust :: "int \<Rightarrow> string \<Rightarrow> trust_record" where
  "unknown_trust now node_id =
     \<lparr>tr_node_id = node_id, tr_level = UnknownTrust, tr_updated_at = now, tr_reason = None\<rparr>"

record enrollment_request =
  er_identity :: node_identity
  er_requested_at :: int
  er_attestation_hint :: "string option"

definition new_enrollment_request :: "int \<Rightarrow> node_identity \<Rightarrow> enrollment_request" where
  "new_enrollment_request now ident =
     \<lparr>er_identity = ident, er_requested_at = now, er_attestation_hint = None\<rparr>"

datatype enrollment_decision =
    EnrollmentPending
  | EnrollmentAccepted trust_record
  | EnrollmentRejected string

datatype identity_error = EmptyIdentity | EnrollmentNotFound | AlreadyRejected

record identity_directory =
  id_identities :: "(string, node_identity) hmap"
  id_trust :: "(string, trust_record) hmap"
  id_enrollments :: "(string, enrollment_decision) hmap"

definition new_directory :: identity_directory where
  "new_directory = \<lparr>id_identities = [], id_trust = [], id_enrollments = []\<rparr>"

subsection \<open>Operations\<close>

definition node_id_is_empty :: "string \<Rightarrow> bool" where
  "node_id_is_empty node_id \<longleftrightarrow> trim node_id = []"

definition validate_node_id :: "string \<Rightarrow> identity_error + unit" where
  "validate_node_id node_id =
     (if node_id_is_empty node_id then Inl EmptyIdentity else Inr ())"

definition submit_enrollment ::
  "enrollment_request \<Rightarrow> identity_directory \<Rightarrow>
   identity_directory \<times> (identity_error + enrollment_decision)" where
  "submit_enrollment request d =
     try_in d (validate_node_id (ni_id (er_identity request))) (\<lambda>_.
       let node_id = ni_id (er_identity request);
           d = d\<lparr>id_identities := hm_insert node_id (er_identity request) (id_identities d)\<rparr>;
           decision = EnrollmentPending;
           d = d\<lparr>id_enrollments := hm_insert node_id decision (id_enrollments d)\<rparr>
       in (d, Inr decision))"

definition accept_enrollment ::
  "int \<Rightarrow> string \<Rightarrow> string option \<Rightarrow> identity_directory \<Rightarrow>
   identity_directory \<times> (identity_error + enrollment_decision)" where
  "accept_enrollment now node_id reason d =
     try_in d (validate_node_id node_id) (\<lambda>_.
       try_in d (case hm_get (id_enrollments d) node_id of
                   Some (EnrollmentRejected _) \<Rightarrow> Inl AlreadyRejected
                 | Some _ \<Rightarrow> Inr ()
                 | None \<Rightarrow> Inl EnrollmentNotFound) (\<lambda>_.
         let trust = \<lparr>tr_node_id = node_id, tr_level = Trusted, tr_updated_at = now,
                      tr_reason = reason\<rparr>;
             d = d\<lparr>id_trust := hm_insert node_id trust (id_trust d)\<rparr>;
             decision = EnrollmentAccepted trust;
             d = d\<lparr>id_enrollments := hm_insert node_id decision (id_enrollments d)\<rparr>
         in (d, Inr decision)))"

definition reject_enrollment ::
  "string \<Rightarrow> string \<Rightarrow> identity_directory \<Rightarrow>
   identity_directory \<times> (identity_error + enrollment_decision)" where
  "reject_enrollment node_id reason d =
     try_in d (validate_node_id node_id) (\<lambda>_.
       if \<not> hm_contains (id_enrollments d) node_id then (d, Inl EnrollmentNotFound)
       else let decision = EnrollmentRejected reason;
                d = d\<lparr>id_enrollments := hm_insert node_id decision (id_enrollments d)\<rparr>
            in (d, Inr decision))"

definition revoke ::
  "int \<Rightarrow> string \<Rightarrow> string option \<Rightarrow> identity_directory \<Rightarrow>
   identity_directory \<times> (identity_error + unit)" where
  "revoke now node_id reason d =
     try_in d (validate_node_id node_id) (\<lambda>_.
       (d\<lparr>id_trust := hm_insert node_id
            \<lparr>tr_node_id = node_id, tr_level = Revoked, tr_updated_at = now, tr_reason = reason\<rparr>
            (id_trust d)\<rparr>, Inr ()))"

definition directory_trust_record :: "int \<Rightarrow> identity_directory \<Rightarrow> string \<Rightarrow> trust_record" where
  "directory_trust_record now d node_id =
     unwrap_or (hm_get (id_trust d) node_id) (unknown_trust now node_id)"

definition directory_identity :: "identity_directory \<Rightarrow> string \<Rightarrow> node_identity option" where
  "directory_identity d node_id = hm_get (id_identities d) node_id"

definition directory_enrollment :: "identity_directory \<Rightarrow> string \<Rightarrow> enrollment_decision option" where
  "directory_enrollment d node_id = hm_get (id_enrollments d) node_id"

subsection \<open>Histories of calls\<close>

datatype directory_call =
    Submit enrollment_request
  | Accept int string "string option"
  | Reject string string
  | Revoke int string "string option"

fun run_call :: "directory_call \<Rightarrow> identity_directory \<Rightarrow> identity_directory" where
  "run_call (Submit request) d = fst (submit_enrollment request d)"
| "run_call (Accept now node_id reason) d = fst (accept_enrollment now node_id reason d)"
| "run_call (Reject node_id reason) d = fst (reject_enrollment node_id reason d)"
| "run_call (Revoke now node_id reason) d = fst (revoke now node_id reason d)"

definition run_calls :: "directory_call list \<Rightarrow> identity_directory" where
  "run_calls calls = fold run_call calls new_directory"

definition trusts :: "identity_directory \<Rightarrow> string \<Rightarrow> bool" where
  "trusts d node_id \<longleftrightarrow> tr_level (directory_trust_record 0 d node_id) = Trusted"

text \<open>What a history says about a node: its last application has not been turned down.\<close>

fun submits :: "string \<Rightarrow> directory_call \<Rightarrow> bool" where
  "submits n (Submit request) = (ni_id (er_identity request) = n)"
| "submits n _ = False"

fun rejects :: "string \<Rightarrow> directory_call \<Rightarrow> bool" where
  "rejects n (Reject node_id reason) = (node_id = n)"
| "rejects n _ = False"

fun revokes :: "string \<Rightarrow> directory_call \<Rightarrow> bool" where
  "revokes n (Revoke now node_id reason) = (node_id = n)"
| "revokes n _ = False"

fun accepts :: "string \<Rightarrow> directory_call \<Rightarrow> bool" where
  "accepts n (Accept now node_id reason) = (node_id = n)"
| "accepts n _ = False"

definition application_open :: "string \<Rightarrow> directory_call list \<Rightarrow> bool" where
  "application_open n calls \<longleftrightarrow>
     (\<exists>before call after. calls = before @ call # after \<and> submits n call \<and>
        filter (rejects n) after = [])"

definition trust_earned :: "string \<Rightarrow> directory_call list \<Rightarrow> bool" where
  "trust_earned n calls \<longleftrightarrow>
     trim n \<noteq> [] \<and>
     (\<exists>before call after. calls = before @ call # after \<and> accepts n call \<and>
        application_open n before \<and> filter (revokes n) after = [])"

subsection \<open>The directory agrees with its history\<close>

lemma validate_node_id_Inr: "validate_node_id n = Inr u \<longleftrightarrow> trim n \<noteq> []"
  by (simp add: validate_node_id_def node_id_is_empty_def)

lemma validate_node_id_cases:
  "validate_node_id n = (if trim n = [] then Inl EmptyIdentity else Inr ())"
  by (simp add: validate_node_id_def node_id_is_empty_def)

lemmas directory_ops = submit_enrollment_def accept_enrollment_def reject_enrollment_def revoke_def
  validate_node_id_cases Let_def

lemma run_calls_snoc: "run_calls (calls @ [c]) = run_call c (run_calls calls)"
  by (simp add: run_calls_def)

lemma run_calls_Nil [simp]: "run_calls [] = new_directory"
  by (simp add: run_calls_def)

lemma application_open_snoc:
  "application_open n (calls @ [c]) \<longleftrightarrow>
     submits n c \<or> (application_open n calls \<and> \<not> rejects n c)"
proof
  assume "application_open n (calls @ [c])"
  then obtain b x a where s: "calls @ [c] = b @ x # a" "submits n x" "filter (rejects n) a = []"
    by (auto simp: application_open_def)
  show "submits n c \<or> (application_open n calls \<and> \<not> rejects n c)"
  proof (cases a rule: rev_cases)
    case Nil
    then show ?thesis using s by simp
  next
    case (snoc a' y)
    then have "calls = b @ x # a'" "y = c" using s by simp_all
    then show ?thesis using s snoc by (auto simp: application_open_def split: if_splits)
  qed
next
  assume "submits n c \<or> (application_open n calls \<and> \<not> rejects n c)"
  then show "application_open n (calls @ [c])"
  proof
    assume "submits n c"
    then show ?thesis by (auto simp: application_open_def intro: exI [of _ calls])
  next
    assume "application_open n calls \<and> \<not> rejects n c"
    then obtain b x a where "calls = b @ x # a" "submits n x" "filter (rejects n) a = []"
      "\<not> rejects n c" by (auto simp: application_open_def)
    then show ?thesis
      unfolding application_open_def by (intro exI [of _ b] exI [of _ x] exI [of _ "a @ [c]"]) simp
  qed
qed

lemma trust_earned_snoc:
  "trust_earned n (calls @ [c]) \<longleftrightarrow>
     trim n \<noteq> [] \<and> (accepts n c \<and> application_open n calls \<or>
       trust_earned n calls \<and> \<not> revokes n c)"
proof
  assume "trust_earned n (calls @ [c])"
  then obtain b x a where s: "calls @ [c] = b @ x # a" "accepts n x" "application_open n b"
    "filter (revokes n) a = []" "trim n \<noteq> []" by (auto simp: trust_earned_def)
  then show "trim n \<noteq> [] \<and> (accepts n c \<and> application_open n calls \<or>
      trust_earned n calls \<and> \<not> revokes n c)"
    by (cases a rule: rev_cases) (auto simp: trust_earned_def split: if_splits)
next
  assume r: "trim n \<noteq> [] \<and> (accepts n c \<and> application_open n calls \<or>
    trust_earned n calls \<and> \<not> revokes n c)"
  show "trust_earned n (calls @ [c])"
  proof (cases "accepts n c \<and> application_open n calls")
    case True
    then show ?thesis using r
      unfolding trust_earned_def by (intro conjI exI [of _ calls] exI [of _ c] exI [of _ "[]"]) auto
  next
    case False
    then obtain b x a where "calls = b @ x # a" "accepts n x" "application_open n b"
      "filter (revokes n) a = []" "\<not> revokes n c" using r by (auto simp: trust_earned_def)
    then show ?thesis using r
      unfolding trust_earned_def
      by (intro conjI exI [of _ b] exI [of _ x] exI [of _ "a @ [c]"]) auto
  qed
qed

definition open_enrollment :: "identity_directory \<Rightarrow> string \<Rightarrow> bool" where
  "open_enrollment d n \<longleftrightarrow>
     is_some_and (hm_get (id_enrollments d) n)
       (\<lambda>e. case e of EnrollmentRejected _ \<Rightarrow> False | _ \<Rightarrow> True)"

lemma open_enrollment_step:
  assumes "trim n \<noteq> []"
  shows "open_enrollment (run_call c d) n \<longleftrightarrow> submits n c \<or> (open_enrollment d n \<and> \<not> rejects n c)"
  using assms
  by (cases c)
     (auto simp: open_enrollment_def directory_ops hm_contains_def
       split: option.splits enrollment_decision.splits)

lemma open_enrollment_run:
  assumes "trim n \<noteq> []"
  shows "open_enrollment (run_calls calls) n \<longleftrightarrow> application_open n calls"
proof (induction calls rule: rev_induct)
  case Nil
  show ?case by (simp add: open_enrollment_def new_directory_def application_open_def)
next
  case (snoc c calls)
  then show ?case
    by (simp add: run_calls_snoc open_enrollment_step [OF assms] application_open_snoc)
qed

lemma trusts_step:
  "trusts (run_call c d) n \<longleftrightarrow>
     trim n \<noteq> [] \<and> accepts n c \<and> open_enrollment d n \<or> trusts d n \<and> (revokes n c \<longrightarrow> trim n = [])"
  by (cases c)
     (auto simp: trusts_def open_enrollment_def directory_trust_record_def directory_ops
       split: option.splits enrollment_decision.splits)

lemma trusts_run: "trusts (run_calls calls) n \<longleftrightarrow> trust_earned n calls"
proof (induction calls rule: rev_induct)
  case Nil
  show ?case
    by (simp add: trusts_def directory_trust_record_def new_directory_def unknown_trust_def
        trust_earned_def)
next
  case (snoc c calls)
  show ?case
  proof (cases "trim n = []")
    case True
    then show ?thesis using snoc
      by (simp add: run_calls_snoc trusts_step trust_earned_def)
  next
    case False
    then show ?thesis using snoc
      by (simp add: run_calls_snoc trusts_step trust_earned_snoc open_enrollment_run)
  qed
qed

end
