(* ===== verification/Sqlite.thy ===== *)
theory Sqlite
  imports Snapshot
begin

text \<open>
  The SQLite store of the core (\<open>RchSqliteStore\<close> of \<open>crates/r3akt-rch-core/src/lib.rs\<close>):
  the tables of \<open>migrations/0001_rch_core_snapshot.sql\<close> and what the statements of the code do to
  them.  A table is the list of its rows in the order they were inserted; a row is its indexed columns
  and its payload.  The payload column holds a record in MessagePack, written and read by
  \<open>rmp_serde\<close>; here it holds the record itself.  The statements are those the code sends:
  \<open>INSERT\<close> fails on a row with the same primary key, \<open>INSERT OR REPLACE\<close> replaces it,
  \<open>DELETE\<close> compares columns with texts, \<open>SELECT\<close> orders by columns, texts byte by byte.
  A table whose primary key is an \<open>AUTOINCREMENT\<close> number never conflicts, and \<open>ORDER BY id\<close>
  is the order of insertion.  A transaction that fails leaves the database as it was, so an operation
  answers the new database or an error.
\<close>

subsection \<open>Values, rows and statements\<close>

datatype sql_value = SqlNull | SqlInteger int | SqlText string | SqlBlob string

type_synonym sql_columns = "(string \<times> sql_value) list"
type_synonym 'v sql_table = "(sql_columns \<times> 'v) list"

definition sql_optional_text :: "string option \<Rightarrow> sql_value" where
  "sql_optional_text value = (case value of None \<Rightarrow> SqlNull | Some text \<Rightarrow> SqlText text)"

definition sql_optional_integer :: "int option \<Rightarrow> sql_value" where
  "sql_optional_integer value = (case value of None \<Rightarrow> SqlNull | Some n \<Rightarrow> SqlInteger n)"

definition sql_cell :: "sql_columns \<Rightarrow> string \<Rightarrow> sql_value" where
  "sql_cell columns name = unwrap_or (map_of columns name) SqlNull"

definition row_key :: "string list \<Rightarrow> sql_columns \<Rightarrow> sql_value list" where
  "row_key primary_key columns = map (sql_cell columns) primary_key"

definition same_row :: "string list \<Rightarrow> sql_columns \<Rightarrow> sql_columns \<Rightarrow> bool" where
  "same_row primary_key columns columns' \<longleftrightarrow>
     primary_key \<noteq> [] \<and> SqlNull \<notin> set (row_key primary_key columns)
     \<and> row_key primary_key columns = row_key primary_key columns'"

definition sql_insert :: "string list \<Rightarrow> sql_columns \<Rightarrow> 'v \<Rightarrow> 'v sql_table \<Rightarrow> 'v sql_table result" where
  "sql_insert primary_key columns payload table =
     (if list_ex (\<lambda>(row, _). same_row primary_key columns row) table
      then Inl (SqliteError ''UNIQUE constraint failed'')
      else Inr (table @ [(columns, payload)]))"

definition sql_replace :: "string list \<Rightarrow> sql_columns \<Rightarrow> 'v \<Rightarrow> 'v sql_table \<Rightarrow> 'v sql_table" where
  "sql_replace primary_key columns payload table =
     filter (\<lambda>(row, _). \<not> same_row primary_key columns row) table @ [(columns, payload)]"

definition row_matches :: "sql_columns \<Rightarrow> sql_columns \<Rightarrow> bool" where
  "row_matches conditions row \<longleftrightarrow>
     list_all (\<lambda>(name, value). value \<noteq> SqlNull \<and> sql_cell row name = value) conditions"

definition sql_delete :: "sql_columns \<Rightarrow> 'v sql_table \<Rightarrow> 'v sql_table" where
  "sql_delete conditions table = filter (\<lambda>(row, _). \<not> row_matches conditions row) table"

text \<open>The order of SQLite: nulls, integers, texts, blobs.\<close>

fun sql_order :: "sql_value \<Rightarrow> nat \<times> int \<times> string" where
  "sql_order SqlNull = (0, 0, [])"
| "sql_order (SqlInteger n) = (1, n, [])"
| "sql_order (SqlText text) = (2, 0, text)"
| "sql_order (SqlBlob bytes) = (3, 0, bytes)"

definition load_payload_rows :: "string list \<Rightarrow> 'v sql_table \<Rightarrow> 'v list" where
  "load_payload_rows order_by table =
     map snd (sort_key (\<lambda>(row, _). map (\<lambda>name. sql_order (sql_cell row name)) order_by) table)"

fun insert_all ::
  "string list \<Rightarrow> ('v \<Rightarrow> sql_columns) \<Rightarrow> 'v list \<Rightarrow> 'v sql_table \<Rightarrow> 'v sql_table result" where
  "insert_all primary_key columns [] table = Inr table"
| "insert_all primary_key columns (record # records) table =
     and_then (sql_insert primary_key (columns record) record table)
       (insert_all primary_key columns records)"

text \<open>
  \<open>LIKE\<close>: a percent sign is any text, an underscore any character, letters match without regard
  to ASCII case.
\<close>

function sql_like :: "string \<Rightarrow> string \<Rightarrow> bool" where
  "sql_like [] text = (text = [])"
| "sql_like (p # pattern) text =
     (if p = CHR ''%'' then
        sql_like pattern text
        \<or> (case text of [] \<Rightarrow> False | c # rest \<Rightarrow> sql_like (p # pattern) rest)
      else (case text of [] \<Rightarrow> False
        | c # rest \<Rightarrow>
            if p = CHR ''_'' then sql_like pattern (dropWhile is_continuation rest)
            else ascii_lower p = ascii_lower c \<and> sql_like pattern rest))"
  by pat_completeness auto

termination sql_like
  by (relation "measure (\<lambda>(pattern, text). length pattern + length text)")
     (auto simp: less_Suc_eq_le trans_le_add2 length_dropWhile_le intro: le_trans [OF length_dropWhile_le])

declare sql_like.simps [simp del]

subsection \<open>The columns of the tables\<close>

text \<open>
  The projection of a message the queue of the hub selects by
  (\<open>MessageQueueProjection\<close>, \<open>message_queue_projection\<close>).
\<close>

record message_queue_projection =
  mq_delivery_state :: string
  mq_dispatch_status :: string
  mq_next_attempt_at_ts_ms :: "int option"
  mq_attempts :: int
  mq_priority :: int
  mq_batch_id :: "string option"
  mq_created_ts_ms :: int

definition metadata_text :: "message_record \<Rightarrow> string \<Rightarrow> string option" where
  "metadata_text r key = (case jget (mg_delivery_metadata r) key of None \<Rightarrow> None | Some v \<Rightarrow> as_str v)"

definition metadata_integer :: "message_record \<Rightarrow> string \<Rightarrow> int option" where
  "metadata_integer r key = (case jget (mg_delivery_metadata r) key of None \<Rightarrow> None | Some v \<Rightarrow> as_i64 v)"

definition project_message :: "message_record \<Rightarrow> message_queue_projection" where
  "project_message r =
     \<lparr>mq_delivery_state = (if trim (mg_delivery_state r) = [] then ''queued'' else mg_delivery_state r),
      mq_dispatch_status = unwrap_or (metadata_text r ''dispatch_status'') ''queued'',
      mq_next_attempt_at_ts_ms = metadata_integer r ''next_attempt_at_ts_ms'',
      mq_attempts = unwrap_or (metadata_integer r ''attempts'') 0,
      mq_priority = unwrap_or (metadata_integer r ''priority'') 0,
      mq_batch_id = metadata_text r ''batch_id'',
      mq_created_ts_ms = mg_created_ts_ms r\<rparr>"

definition message_columns :: "message_record \<Rightarrow> sql_columns" where
  "message_columns r =
     (let projection = project_message r
      in [(''message_id'', SqlText (mg_message_id r)),
          (''delivery_state'', SqlText (mq_delivery_state projection)),
          (''dispatch_status'', SqlText (mq_dispatch_status projection)),
          (''next_attempt_at_ts_ms'', sql_optional_integer (mq_next_attempt_at_ts_ms projection)),
          (''attempts'', SqlInteger (mq_attempts projection)),
          (''priority'', SqlInteger (mq_priority projection)),
          (''batch_id'', sql_optional_text (mq_batch_id projection)),
          (''created_ts_ms'', SqlInteger (mq_created_ts_ms projection))])"

definition topic_columns :: "topic_record \<Rightarrow> sql_columns" where
  "topic_columns r =
     [(''topic_id'', SqlText (tp_topic_id r))]"

definition subscriber_columns :: "subscriber_record \<Rightarrow> sql_columns" where
  "subscriber_columns r =
     [(''node_id'', SqlText (sb_node_id r)), (''topic_id'', SqlText (sb_topic_id r))]"

definition client_columns :: "client_record \<Rightarrow> sql_columns" where
  "client_columns r =
     [(''identity'', SqlText (cl_identity r))]"

definition announce_columns :: "identity_announce_record \<Rightarrow> sql_columns" where
  "announce_columns r =
     [(''destination_hash'', SqlText (ia_destination_hash r))]"

definition identity_state_columns :: "identity_state_record \<Rightarrow> sql_columns" where
  "identity_state_columns r =
     [(''identity'', SqlText (ist_identity r))]"

definition rem_mode_columns :: "identity_rem_mode_record \<Rightarrow> sql_columns" where
  "rem_mode_columns r =
     [(''identity'', SqlText (irm_identity r))]"

definition audit_event_columns :: "mission_audit_event \<Rightarrow> sql_columns" where
  "audit_event_columns r =
     [(''event_id'', SqlText (ae_event_id r))]"

definition system_event_columns :: "system_event_record \<Rightarrow> sql_columns" where
  "system_event_columns r =
     [(''event_id'', SqlText (sy_event_id r))]"

definition telemetry_columns :: "telemetry_record \<Rightarrow> sql_columns" where
  "telemetry_columns r =
     [(''peer_destination'', SqlText (tlm_peer_destination r)),
      (''timestamp_s'', SqlInteger (tlm_timestamp_s r))]"

definition marker_columns :: "marker_record \<Rightarrow> sql_columns" where
  "marker_columns r =
     [(''object_destination_hash'', SqlText (mk_object_destination_hash r))]"

definition zone_columns :: "zone_record \<Rightarrow> sql_columns" where
  "zone_columns r =
     [(''zone_id'', SqlText (zn_zone_id r))]"

definition mission_columns :: "mission_record \<Rightarrow> sql_columns" where
  "mission_columns r =
     [(''uid'', SqlText (mi_uid r))]"

definition mission_change_columns :: "mission_change_record \<Rightarrow> sql_columns" where
  "mission_change_columns r =
     [(''uid'', SqlText (mc_uid r)), (''mission_uid'', SqlText (mc_mission_uid r))]"

definition log_entry_columns :: "log_entry_record \<Rightarrow> sql_columns" where
  "log_entry_columns r =
     [(''entry_uid'', SqlText (le_entry_uid r))]"

definition file_attachment_columns :: "file_attachment_record \<Rightarrow> sql_columns" where
  "file_attachment_columns r =
     [(''file_id'', SqlInteger (fa_file_id r)),
      (''category'', SqlText (fa_category r))]"

definition eam_columns :: "eam_snapshot_record \<Rightarrow> sql_columns" where
  "eam_columns r =
     [(''eam_uid'', SqlText (ea_eam_uid r)),
      (''callsign'', SqlText (ea_callsign r)),
      (''team_member_uid'', SqlText (ea_team_member_uid r)),
      (''team_uid'', SqlText (ea_team_uid r)),
      (''deleted_ts_ms'', sql_optional_integer (ea_deleted_ts_ms r))]"

definition team_columns :: "team_record \<Rightarrow> sql_columns" where
  "team_columns r =
     [(''uid'', SqlText (te_uid r))]"

definition team_link_columns :: "mission_team_link_record \<Rightarrow> sql_columns" where
  "team_link_columns r =
     [(''mission_uid'', SqlText (tl_mission_uid r)),
      (''team_uid'', SqlText (tl_team_uid r))]"

definition zone_link_columns :: "mission_zone_link_record \<Rightarrow> sql_columns" where
  "zone_link_columns r =
     [(''mission_uid'', SqlText (zl_mission_uid r)),
      (''zone_id'', SqlText (zl_zone_id r))]"

definition marker_link_columns :: "mission_marker_link_record \<Rightarrow> sql_columns" where
  "marker_link_columns r =
     [(''mission_uid'', SqlText (ml_mission_uid r)),
      (''marker_id'', SqlText (ml_marker_id r))]"

definition member_columns :: "team_member_record \<Rightarrow> sql_columns" where
  "member_columns r =
     [(''uid'', SqlText (tm_uid r))]"

definition client_link_columns :: "team_member_client_link_record \<Rightarrow> sql_columns" where
  "client_link_columns r =
     [(''team_member_uid'', SqlText (cx_team_member_uid r)),
      (''client_identity'', SqlText (cx_client_identity r))]"

definition asset_columns :: "asset_record \<Rightarrow> sql_columns" where
  "asset_columns r =
     [(''asset_uid'', SqlText (at_asset_uid r))]"

definition skill_columns :: "skill_record \<Rightarrow> sql_columns" where
  "skill_columns r =
     [(''skill_uid'', SqlText (sk_skill_uid r))]"

definition member_skill_columns :: "team_member_skill_record \<Rightarrow> sql_columns" where
  "member_skill_columns r =
     [(''team_member_rns_identity'', SqlText (ts_team_member_rns_identity r)),
      (''skill_uid'', SqlText (ts_skill_uid r))]"

definition requirement_columns :: "task_skill_requirement_record \<Rightarrow> sql_columns" where
  "requirement_columns r =
     [(''task_uid'', SqlText (rq_task_uid r)),
      (''skill_uid'', SqlText (rq_skill_uid r))]"

definition assignment_columns :: "assignment_record \<Rightarrow> sql_columns" where
  "assignment_columns r =
     [(''assignment_uid'', SqlText (an_assignment_uid r)),
      (''mission_uid'', SqlText (an_mission_uid r)),
      (''task_uid'', SqlText (an_task_uid r)),
      (''team_member_rns_identity'', SqlText (an_team_member_rns_identity r))]"

definition asset_link_columns :: "assignment_asset_link_record \<Rightarrow> sql_columns" where
  "asset_link_columns r =
     [(''assignment_uid'', SqlText (al_assignment_uid r)),
      (''asset_uid'', SqlText (al_asset_uid r))]"

definition checklist_row_columns :: "checklist_record \<Rightarrow> sql_columns" where
  "checklist_row_columns r =
     [(''uid'', SqlText (ck_uid r))]"

definition template_columns :: "checklist_template_record \<Rightarrow> sql_columns" where
  "template_columns r =
     [(''uid'', SqlText (ct_uid r))]"

definition checklist_column_columns :: "checklist_column_record \<Rightarrow> sql_columns" where
  "checklist_column_columns r =
     [(''column_uid'', SqlText (cc_column_uid r)),
      (''checklist_uid'', sql_optional_text (cc_checklist_uid r)),
      (''template_uid'', sql_optional_text (cc_template_uid r)),
      (''display_order'', SqlInteger (cc_display_order r))]"

definition task_columns :: "checklist_task_record \<Rightarrow> sql_columns" where
  "task_columns r =
     [(''task_uid'', SqlText (tk_task_uid r)),
      (''checklist_uid'', SqlText (tk_checklist_uid r))]"

definition cell_columns :: "checklist_cell_record \<Rightarrow> sql_columns" where
  "cell_columns r =
     [(''cell_uid'', SqlText (ce_cell_uid r)),
      (''task_uid'', SqlText (ce_task_uid r)),
      (''column_uid'', SqlText (ce_column_uid r))]"

definition publication_columns :: "checklist_feed_publication_record \<Rightarrow> sql_columns" where
  "publication_columns r =
     [(''publication_uid'', SqlText (pb_publication_uid r)),
      (''checklist_uid'', SqlText (pb_checklist_uid r)),
      (''mission_feed_uid'', SqlText (pb_mission_feed_uid r)),
      (''published_ts_ms'', SqlInteger (pb_published_ts_ms r))]"

definition result_columns :: "command_result \<Rightarrow> sql_columns" where
  "result_columns r =
     [(''command_id'', SqlText (res_command_id r))]"

definition capability_columns :: "identity_capability_grant \<Rightarrow> sql_columns" where
  "capability_columns r =
     [(''identity'', SqlText (cg_identity r)),
      (''capability'', SqlText (cg_capability r))]"

definition access_columns :: "mission_access_assignment \<Rightarrow> sql_columns" where
  "access_columns r =
     [(''mission_uid'', SqlText (ma_mission_uid r)),
      (''subject_type'', SqlText (ma_subject_type r)),
      (''subject_id'', SqlText (ma_subject_id r))]"

definition right_columns :: "subject_operation_right \<Rightarrow> sql_columns" where
  "right_columns r =
     [(''subject_type'', SqlText (rt_subject_type r)),
      (''subject_id'', SqlText (rt_subject_id r)),
      (''operation'', SqlText (rt_operation r)),
      (''scope_type'', SqlText (rt_scope_type r)),
      (''scope_id'', SqlText (rt_scope_id r))]"

subsection \<open>The database\<close>

record rch_database =
  db_topics :: "topic_record sql_table"
  db_subscribers :: "subscriber_record sql_table"
  db_messages :: "message_record sql_table"
  db_clients :: "client_record sql_table"
  db_identity_announces :: "identity_announce_record sql_table"
  db_identity_states :: "identity_state_record sql_table"
  db_identity_rem_modes :: "identity_rem_mode_record sql_table"
  db_audit_events :: "mission_audit_event sql_table"
  db_system_events :: "system_event_record sql_table"
  db_telemetry_records :: "telemetry_record sql_table"
  db_markers :: "marker_record sql_table"
  db_zones :: "zone_record sql_table"
  db_missions :: "mission_record sql_table"
  db_mission_changes :: "mission_change_record sql_table"
  db_log_entries :: "log_entry_record sql_table"
  db_file_attachments :: "file_attachment_record sql_table"
  db_eam_snapshots :: "eam_snapshot_record sql_table"
  db_teams :: "team_record sql_table"
  db_mission_team_links :: "mission_team_link_record sql_table"
  db_mission_zone_links :: "mission_zone_link_record sql_table"
  db_mission_marker_links :: "mission_marker_link_record sql_table"
  db_team_members :: "team_member_record sql_table"
  db_team_member_client_links :: "team_member_client_link_record sql_table"
  db_assets :: "asset_record sql_table"
  db_skills :: "skill_record sql_table"
  db_team_member_skills :: "team_member_skill_record sql_table"
  db_task_skill_requirements :: "task_skill_requirement_record sql_table"
  db_assignments :: "assignment_record sql_table"
  db_assignment_asset_links :: "assignment_asset_link_record sql_table"
  db_checklists :: "checklist_record sql_table"
  db_checklist_templates :: "checklist_template_record sql_table"
  db_checklist_columns :: "checklist_column_record sql_table"
  db_checklist_tasks :: "checklist_task_record sql_table"
  db_checklist_cells :: "checklist_cell_record sql_table"
  db_checklist_feed_publications :: "checklist_feed_publication_record sql_table"
  db_command_results :: "command_result sql_table"
  db_identity_capabilities :: "identity_capability_grant sql_table"
  db_mission_access_assignments :: "mission_access_assignment sql_table"
  db_subject_operation_rights :: "subject_operation_right sql_table"
  db_settings :: "string sql_table"

definition empty_database :: rch_database where
  "empty_database =
     \<lparr>db_topics = [],
      db_subscribers = [],
      db_messages = [],
      db_clients = [],
      db_identity_announces = [],
      db_identity_states = [],
      db_identity_rem_modes = [],
      db_audit_events = [],
      db_system_events = [],
      db_telemetry_records = [],
      db_markers = [],
      db_zones = [],
      db_missions = [],
      db_mission_changes = [],
      db_log_entries = [],
      db_file_attachments = [],
      db_eam_snapshots = [],
      db_teams = [],
      db_mission_team_links = [],
      db_mission_zone_links = [],
      db_mission_marker_links = [],
      db_team_members = [],
      db_team_member_client_links = [],
      db_assets = [],
      db_skills = [],
      db_team_member_skills = [],
      db_task_skill_requirements = [],
      db_assignments = [],
      db_assignment_asset_links = [],
      db_checklists = [],
      db_checklist_templates = [],
      db_checklist_columns = [],
      db_checklist_tasks = [],
      db_checklist_cells = [],
      db_checklist_feed_publications = [],
      db_command_results = [],
      db_identity_capabilities = [],
      db_mission_access_assignments = [],
      db_subject_operation_rights = [],
      db_settings = []\<rparr>"

definition setting_columns :: "string \<Rightarrow> sql_columns" where
  "setting_columns key = [(''setting_key'', SqlText key)]"

definition setting_value :: "string \<Rightarrow> rch_database \<Rightarrow> string option" where
  "setting_value key db =
     map_option snd (find (\<lambda>(row, _). sql_cell row ''setting_key'' = SqlText key) (db_settings db))"

definition set_setting_value :: "string \<Rightarrow> string \<Rightarrow> rch_database \<Rightarrow> rch_database" where
  "set_setting_value key v db =
     db\<lparr>db_settings := sql_replace [''setting_key''] (setting_columns key) v (db_settings db)\<rparr>"

definition settings_with_prefix :: "string \<Rightarrow> rch_database \<Rightarrow> (string \<times> string) list" where
  "settings_with_prefix prefix_text db =
     concat (map (\<lambda>(row, v). case sql_cell row ''setting_key'' of
                    SqlText key \<Rightarrow> if sql_like (prefix_text @ ''%'') key then [(key, v)] else []
                  | _ \<Rightarrow> []) (db_settings db))"

subsection \<open>Saving a snapshot\<close>

record snapshot_save_options =
  preserve_identity_announces :: bool

definition clear_snapshot_tables :: "snapshot_save_options \<Rightarrow> rch_database \<Rightarrow> rch_database" where
  "clear_snapshot_tables options db =
     empty_database\<lparr>db_identity_announces :=
       (if preserve_identity_announces options then db_identity_announces db else [])\<rparr>"

definition save_topic_snapshot_tables ::
  "snapshot_save_options \<Rightarrow> rch_core_snapshot \<Rightarrow> rch_database \<Rightarrow> rch_database result" where
  "save_topic_snapshot_tables options sn db =
     and_then (insert_all [''topic_id''] topic_columns (sn_topics sn) (db_topics db)) (\<lambda>rows.
       let db = db\<lparr>db_topics := rows\<rparr> in
     and_then (insert_all [''node_id'', ''topic_id''] subscriber_columns (sn_subscribers sn) (db_subscribers db)) (\<lambda>rows.
       let db = db\<lparr>db_subscribers := rows\<rparr> in
     and_then (insert_all [] message_columns (sn_messages sn) (db_messages db)) (\<lambda>rows.
       let db = db\<lparr>db_messages := rows\<rparr> in
     and_then (insert_all [''identity''] client_columns (sn_clients sn) (db_clients db)) (\<lambda>rows.
       let db = db\<lparr>db_clients := rows\<rparr> in
     and_then (if preserve_identity_announces options then Inr (db_identity_announces db)
               else insert_all [''destination_hash''] announce_columns (sn_identity_announces sn) (db_identity_announces db)) (\<lambda>rows.
       let db = db\<lparr>db_identity_announces := rows\<rparr> in
     and_then (insert_all [''identity''] identity_state_columns (sn_identity_states sn) (db_identity_states db)) (\<lambda>rows.
       let db = db\<lparr>db_identity_states := rows\<rparr> in
     and_then (insert_all [''identity''] rem_mode_columns (sn_identity_rem_modes sn) (db_identity_rem_modes db)) (\<lambda>rows.
       let db = db\<lparr>db_identity_rem_modes := rows\<rparr> in
     and_then (insert_all [] audit_event_columns (sn_audit_events sn) (db_audit_events db)) (\<lambda>rows.
       let db = db\<lparr>db_audit_events := rows\<rparr> in
     and_then (insert_all [] system_event_columns (sn_system_events sn) (db_system_events db)) (\<lambda>rows.
       let db = db\<lparr>db_system_events := rows\<rparr> in
     and_then (insert_all [] telemetry_columns (sn_telemetry_records sn) (db_telemetry_records db)) (\<lambda>rows.
       let db = db\<lparr>db_telemetry_records := rows\<rparr> in
     Inr db))))))))))"

definition save_checklist_snapshot_tables :: "rch_core_snapshot \<Rightarrow> rch_database \<Rightarrow> rch_database result" where
  "save_checklist_snapshot_tables sn db =
     and_then (insert_all [''uid''] checklist_row_columns (sn_checklists sn) (db_checklists db)) (\<lambda>rows.
       let db = db\<lparr>db_checklists := rows\<rparr> in
     and_then (insert_all [''uid''] template_columns (sn_checklist_templates sn) (db_checklist_templates db)) (\<lambda>rows.
       let db = db\<lparr>db_checklist_templates := rows\<rparr> in
     and_then (insert_all [''column_uid''] checklist_column_columns (sn_checklist_columns sn) (db_checklist_columns db)) (\<lambda>rows.
       let db = db\<lparr>db_checklist_columns := rows\<rparr> in
     and_then (insert_all [''task_uid''] task_columns (sn_checklist_tasks sn) (db_checklist_tasks db)) (\<lambda>rows.
       let db = db\<lparr>db_checklist_tasks := rows\<rparr> in
     and_then (insert_all [''cell_uid''] cell_columns (sn_checklist_cells sn) (db_checklist_cells db)) (\<lambda>rows.
       let db = db\<lparr>db_checklist_cells := rows\<rparr> in
     and_then (insert_all [''publication_uid''] publication_columns (sn_checklist_feed_publications sn) (db_checklist_feed_publications db)) (\<lambda>rows.
       let db = db\<lparr>db_checklist_feed_publications := rows\<rparr> in
     Inr db))))))"

definition save_skill_assignment_snapshot_tables :: "rch_core_snapshot \<Rightarrow> rch_database \<Rightarrow> rch_database result" where
  "save_skill_assignment_snapshot_tables sn db =
     and_then (insert_all [''skill_uid''] skill_columns (sn_skills sn) (db_skills db)) (\<lambda>rows.
       let db = db\<lparr>db_skills := rows\<rparr> in
     and_then (insert_all [''team_member_rns_identity'', ''skill_uid''] member_skill_columns (sn_team_member_skills sn) (db_team_member_skills db)) (\<lambda>rows.
       let db = db\<lparr>db_team_member_skills := rows\<rparr> in
     and_then (insert_all [''task_uid'', ''skill_uid''] requirement_columns (sn_task_skill_requirements sn) (db_task_skill_requirements db)) (\<lambda>rows.
       let db = db\<lparr>db_task_skill_requirements := rows\<rparr> in
     and_then (insert_all [''assignment_uid''] assignment_columns (sn_assignments sn) (db_assignments db)) (\<lambda>rows.
       let db = db\<lparr>db_assignments := rows\<rparr> in
     and_then (insert_all [''assignment_uid'', ''asset_uid''] asset_link_columns (sn_assignment_asset_links sn) (db_assignment_asset_links db)) (\<lambda>rows.
       let db = db\<lparr>db_assignment_asset_links := rows\<rparr> in
     save_checklist_snapshot_tables sn db)))))"

text \<open>The identifier of an attachment is a \<open>u64\<close>; SQLite stores it as an \<open>i64\<close> or not at all.\<close>

definition storable_file_ids :: "rch_core_snapshot \<Rightarrow> unit result" where
  "storable_file_ids sn =
     ensure (list_all (\<lambda>r. fa_file_id r \<le> i64_max) (sn_file_attachments sn))
       (SqliteError ''out of range integral type conversion attempted'')"

definition save_registry_snapshot_tables :: "rch_core_snapshot \<Rightarrow> rch_database \<Rightarrow> rch_database result" where
  "save_registry_snapshot_tables sn db =
     and_then (insert_all [''object_destination_hash''] marker_columns (sn_markers sn) (db_markers db)) (\<lambda>rows.
       let db = db\<lparr>db_markers := rows\<rparr> in
     and_then (insert_all [''zone_id''] zone_columns (sn_zones sn) (db_zones db)) (\<lambda>rows.
       let db = db\<lparr>db_zones := rows\<rparr> in
     and_then (insert_all [''uid''] mission_columns (sn_missions sn) (db_missions db)) (\<lambda>rows.
       let db = db\<lparr>db_missions := rows\<rparr> in
     and_then (insert_all [''uid''] mission_change_columns (sn_mission_changes sn) (db_mission_changes db)) (\<lambda>rows.
       let db = db\<lparr>db_mission_changes := rows\<rparr> in
     and_then (insert_all [''entry_uid''] log_entry_columns (sn_log_entries sn) (db_log_entries db)) (\<lambda>rows.
       let db = db\<lparr>db_log_entries := rows\<rparr> in
     and_then (storable_file_ids sn) (\<lambda>_.
     and_then (insert_all [''file_id''] file_attachment_columns (sn_file_attachments sn) (db_file_attachments db)) (\<lambda>rows.
       let db = db\<lparr>db_file_attachments := rows\<rparr> in
     and_then (insert_all [''eam_uid''] eam_columns (sn_eam_snapshots sn) (db_eam_snapshots db)) (\<lambda>rows.
       let db = db\<lparr>db_eam_snapshots := rows\<rparr> in
     and_then (insert_all [''uid''] team_columns (sn_teams sn) (db_teams db)) (\<lambda>rows.
       let db = db\<lparr>db_teams := rows\<rparr> in
     and_then (insert_all [''mission_uid'', ''team_uid''] team_link_columns (sn_mission_team_links sn) (db_mission_team_links db)) (\<lambda>rows.
       let db = db\<lparr>db_mission_team_links := rows\<rparr> in
     and_then (insert_all [''mission_uid'', ''zone_id''] zone_link_columns (sn_mission_zone_links sn) (db_mission_zone_links db)) (\<lambda>rows.
       let db = db\<lparr>db_mission_zone_links := rows\<rparr> in
     and_then (insert_all [''mission_uid'', ''marker_id''] marker_link_columns (sn_mission_marker_links sn) (db_mission_marker_links db)) (\<lambda>rows.
       let db = db\<lparr>db_mission_marker_links := rows\<rparr> in
     and_then (insert_all [''uid''] member_columns (sn_team_members sn) (db_team_members db)) (\<lambda>rows.
       let db = db\<lparr>db_team_members := rows\<rparr> in
     and_then (insert_all [''team_member_uid'', ''client_identity''] client_link_columns (sn_team_member_client_links sn) (db_team_member_client_links db)) (\<lambda>rows.
       let db = db\<lparr>db_team_member_client_links := rows\<rparr> in
     and_then (insert_all [''asset_uid''] asset_columns (sn_assets sn) (db_assets db)) (\<lambda>rows.
       let db = db\<lparr>db_assets := rows\<rparr> in
     save_skill_assignment_snapshot_tables sn db)))))))))))))))"

definition RCH_SQLITE_SCHEMA_VERSION :: string where
  "RCH_SQLITE_SCHEMA_VERSION = ''3''"

definition bool_setting :: "bool \<Rightarrow> string" where
  "bool_setting b = (if b then ''true'' else ''false'')"

definition save_snapshot_with_options ::
  "snapshot_save_options \<Rightarrow> rch_core_snapshot \<Rightarrow> rch_database \<Rightarrow> rch_database result" where
  "save_snapshot_with_options options sn db =
     (let preserved_settings = settings_with_prefix ''reticulumd_'' db;
          db = clear_snapshot_tables options db
      in
     and_then (save_topic_snapshot_tables options sn db) (\<lambda>db.
     and_then (save_registry_snapshot_tables sn db) (\<lambda>db.
     and_then (insert_all [''command_id''] result_columns (sn_command_results sn) (db_command_results db)) (\<lambda>rows.
       let db = db\<lparr>db_command_results := rows\<rparr> in
     and_then (insert_all [''identity'', ''capability''] capability_columns (sn_identity_capabilities sn) (db_identity_capabilities db)) (\<lambda>rows.
       let db = db\<lparr>db_identity_capabilities := rows\<rparr> in
     and_then (insert_all [''mission_uid'', ''subject_type'', ''subject_id''] access_columns (sn_mission_access_assignments sn) (db_mission_access_assignments db)) (\<lambda>rows.
       let db = db\<lparr>db_mission_access_assignments := rows\<rparr> in
     and_then (insert_all [''subject_type'', ''subject_id'', ''operation'', ''scope_type'', ''scope_id''] right_columns (sn_subject_operation_rights sn) (db_subject_operation_rights db)) (\<lambda>rows.
       let db = db\<lparr>db_subject_operation_rights := rows\<rparr> in
     and_then (sql_insert [''setting_key''] (setting_columns ''schema_version'')
         RCH_SQLITE_SCHEMA_VERSION (db_settings db)) (\<lambda>rows.
     and_then (sql_insert [''setting_key''] (setting_columns ''authorization_required'')
         (bool_setting (sn_authorization_required sn)) rows) (\<lambda>rows.
       let db = db\<lparr>db_settings := rows\<rparr> in
     Inr (fold (\<lambda>(key, v). set_setting_value key v) preserved_settings db))))))))))"

definition save_snapshot :: "rch_core_snapshot \<Rightarrow> rch_database \<Rightarrow> rch_database result" where
  "save_snapshot sn db = save_snapshot_with_options \<lparr>preserve_identity_announces = False\<rparr> sn db"

definition save_snapshot_preserving_identity_announces ::
  "rch_core_snapshot \<Rightarrow> rch_database \<Rightarrow> rch_database result" where
  "save_snapshot_preserving_identity_announces sn db =
     save_snapshot_with_options \<lparr>preserve_identity_announces = True\<rparr> sn db"

definition save_to_sqlite :: "rch_core \<Rightarrow> rch_database \<Rightarrow> rch_database result" where
  "save_to_sqlite s db = save_snapshot (snapshot s) db"

definition save_to_sqlite_preserving_identity_announces :: "rch_core \<Rightarrow> rch_database \<Rightarrow> rch_database result" where
  "save_to_sqlite_preserving_identity_announces s db =
     save_snapshot_preserving_identity_announces (snapshot s) db"

subsection \<open>Loading\<close>

text \<open>
  The newest telemetry record of every peer: the row with the greatest time, of two with the same time
  the one inserted later.
\<close>

definition load_latest_telemetry_records :: "rch_database \<Rightarrow> telemetry_record list" where
  "load_latest_telemetry_records db =
     (let rows = enumerate 0 (map snd (db_telemetry_records db));
          peer = (\<lambda>r. to_ascii_lowercase (tlm_peer_destination r));
          newest = filter (\<lambda>(n, r). list_all (\<lambda>(m, q).
              peer q = peer r \<longrightarrow> (tlm_timestamp_s q, m) \<le> (tlm_timestamp_s r, n)) rows) rows
      in sort_key (\<lambda>r. (peer r, tlm_timestamp_s r)) (map snd newest))"

definition with_checklist_rows :: "rch_database \<Rightarrow> rch_core_snapshot \<Rightarrow> rch_core_snapshot" where
  "with_checklist_rows db sn = sn\<lparr>
     sn_checklists := load_payload_rows [''uid''] (db_checklists db),
     sn_checklist_templates := load_payload_rows [''uid''] (db_checklist_templates db),
     sn_checklist_columns := load_payload_rows [''checklist_uid'', ''column_uid''] (db_checklist_columns db),
     sn_checklist_tasks := load_payload_rows [''checklist_uid'', ''task_uid''] (db_checklist_tasks db),
     sn_checklist_cells := load_payload_rows [''task_uid'', ''column_uid''] (db_checklist_cells db),
     sn_checklist_feed_publications := load_payload_rows [''checklist_uid'', ''published_ts_ms''] (db_checklist_feed_publications db)\<rparr>"

text \<open>
  The three snapshots the code reads: all of the state, what the registry commands need, and what the
  checklist commands need on top of an empty core.
\<close>

definition load_snapshot_rows :: "bool \<Rightarrow> rch_database \<Rightarrow> rch_core_snapshot" where
  "load_snapshot_rows include_identity_announces db =
     \<lparr>sn_topics = load_payload_rows [''topic_id''] (db_topics db),
      sn_subscribers = load_payload_rows [''topic_id'', ''node_id''] (db_subscribers db),
      sn_messages = load_payload_rows [] (db_messages db),
      sn_clients = load_payload_rows [''identity''] (db_clients db),
      sn_identity_announces =
        (if include_identity_announces then load_payload_rows [''destination_hash''] (db_identity_announces db) else []),
      sn_identity_states = load_payload_rows [''identity''] (db_identity_states db),
      sn_identity_rem_modes = load_payload_rows [''identity''] (db_identity_rem_modes db),
      sn_audit_events = load_payload_rows [] (db_audit_events db),
      sn_system_events = load_payload_rows [] (db_system_events db),
      sn_telemetry_records = load_latest_telemetry_records db,
      sn_markers = load_payload_rows [''object_destination_hash''] (db_markers db),
      sn_zones = load_payload_rows [''zone_id''] (db_zones db),
      sn_missions = load_payload_rows [''uid''] (db_missions db),
      sn_mission_changes = load_payload_rows [''uid''] (db_mission_changes db),
      sn_log_entries = load_payload_rows [''entry_uid''] (db_log_entries db),
      sn_file_attachments = load_payload_rows [''file_id''] (db_file_attachments db),
      sn_eam_snapshots = load_payload_rows [''callsign''] (db_eam_snapshots db),
      sn_teams = load_payload_rows [''uid''] (db_teams db),
      sn_mission_team_links = load_payload_rows [''mission_uid'', ''team_uid''] (db_mission_team_links db),
      sn_mission_zone_links = load_payload_rows [''mission_uid'', ''zone_id''] (db_mission_zone_links db),
      sn_mission_marker_links = load_payload_rows [''mission_uid'', ''marker_id''] (db_mission_marker_links db),
      sn_team_members = load_payload_rows [''uid''] (db_team_members db),
      sn_team_member_client_links = load_payload_rows [''team_member_uid'', ''client_identity''] (db_team_member_client_links db),
      sn_assets = load_payload_rows [''asset_uid''] (db_assets db),
      sn_skills = load_payload_rows [''skill_uid''] (db_skills db),
      sn_team_member_skills = load_payload_rows [''team_member_rns_identity'', ''skill_uid''] (db_team_member_skills db),
      sn_task_skill_requirements = load_payload_rows [''task_uid'', ''skill_uid''] (db_task_skill_requirements db),
      sn_assignments = load_payload_rows [''assignment_uid''] (db_assignments db),
      sn_assignment_asset_links = load_payload_rows [''assignment_uid'', ''asset_uid''] (db_assignment_asset_links db),
      sn_checklists = load_payload_rows [''uid''] (db_checklists db),
      sn_checklist_templates = load_payload_rows [''uid''] (db_checklist_templates db),
      sn_checklist_columns = load_payload_rows [''checklist_uid'', ''column_uid''] (db_checklist_columns db),
      sn_checklist_tasks = load_payload_rows [''checklist_uid'', ''task_uid''] (db_checklist_tasks db),
      sn_checklist_cells = load_payload_rows [''task_uid'', ''column_uid''] (db_checklist_cells db),
      sn_checklist_feed_publications = load_payload_rows [''checklist_uid'', ''published_ts_ms''] (db_checklist_feed_publications db),
      sn_command_results = load_payload_rows [''command_id''] (db_command_results db),
      sn_identity_capabilities = load_payload_rows [''identity'', ''capability''] (db_identity_capabilities db),
      sn_mission_access_assignments = load_payload_rows [''mission_uid'', ''subject_type'', ''subject_id''] (db_mission_access_assignments db),
      sn_subject_operation_rights = load_payload_rows [''subject_type'', ''subject_id'', ''operation'', ''scope_type'', ''scope_id''] (db_subject_operation_rights db),
      sn_authorization_required = (setting_value ''authorization_required'' db = Some ''true'')\<rparr>"

definition load_snapshot :: "rch_database \<Rightarrow> rch_core_snapshot option" where
  "load_snapshot db =
     (let sn = load_snapshot_rows True db in if snapshot_is_empty sn then None else Some sn)"

definition load_snapshot_without_identity_announces :: "rch_database \<Rightarrow> rch_core_snapshot option" where
  "load_snapshot_without_identity_announces db =
     (let sn = load_snapshot_rows False db in if snapshot_is_empty sn then None else Some sn)"

definition load_r3akt_read_snapshot :: "rch_database \<Rightarrow> rch_core_snapshot" where
  "load_r3akt_read_snapshot db =
     \<lparr>sn_topics = load_payload_rows [''topic_id''] (db_topics db),
      sn_subscribers = load_payload_rows [''topic_id'', ''node_id''] (db_subscribers db),
      sn_messages = [],
      sn_clients = load_payload_rows [''identity''] (db_clients db),
      sn_identity_announces = load_payload_rows [''destination_hash''] (db_identity_announces db),
      sn_identity_states = load_payload_rows [''identity''] (db_identity_states db),
      sn_identity_rem_modes = load_payload_rows [''identity''] (db_identity_rem_modes db),
      sn_audit_events = [],
      sn_system_events = [],
      sn_telemetry_records = [],
      sn_markers = load_payload_rows [''object_destination_hash''] (db_markers db),
      sn_zones = load_payload_rows [''zone_id''] (db_zones db),
      sn_missions = load_payload_rows [''uid''] (db_missions db),
      sn_mission_changes = load_payload_rows [''uid''] (db_mission_changes db),
      sn_log_entries = load_payload_rows [''entry_uid''] (db_log_entries db),
      sn_file_attachments = [],
      sn_eam_snapshots = load_payload_rows [''callsign''] (db_eam_snapshots db),
      sn_teams = load_payload_rows [''uid''] (db_teams db),
      sn_mission_team_links = load_payload_rows [''mission_uid'', ''team_uid''] (db_mission_team_links db),
      sn_mission_zone_links = load_payload_rows [''mission_uid'', ''zone_id''] (db_mission_zone_links db),
      sn_mission_marker_links = load_payload_rows [''mission_uid'', ''marker_id''] (db_mission_marker_links db),
      sn_team_members = load_payload_rows [''uid''] (db_team_members db),
      sn_team_member_client_links = load_payload_rows [''team_member_uid'', ''client_identity''] (db_team_member_client_links db),
      sn_assets = load_payload_rows [''asset_uid''] (db_assets db),
      sn_skills = load_payload_rows [''skill_uid''] (db_skills db),
      sn_team_member_skills = load_payload_rows [''team_member_rns_identity'', ''skill_uid''] (db_team_member_skills db),
      sn_task_skill_requirements = load_payload_rows [''task_uid'', ''skill_uid''] (db_task_skill_requirements db),
      sn_assignments = load_payload_rows [''assignment_uid''] (db_assignments db),
      sn_assignment_asset_links = load_payload_rows [''assignment_uid'', ''asset_uid''] (db_assignment_asset_links db),
      sn_checklists = load_payload_rows [''uid''] (db_checklists db),
      sn_checklist_templates = load_payload_rows [''uid''] (db_checklist_templates db),
      sn_checklist_columns = load_payload_rows [''checklist_uid'', ''column_uid''] (db_checklist_columns db),
      sn_checklist_tasks = load_payload_rows [''checklist_uid'', ''task_uid''] (db_checklist_tasks db),
      sn_checklist_cells = load_payload_rows [''task_uid'', ''column_uid''] (db_checklist_cells db),
      sn_checklist_feed_publications = load_payload_rows [''checklist_uid'', ''published_ts_ms''] (db_checklist_feed_publications db),
      sn_command_results = [],
      sn_identity_capabilities = load_payload_rows [''identity'', ''capability''] (db_identity_capabilities db),
      sn_mission_access_assignments = load_payload_rows [''mission_uid'', ''subject_type'', ''subject_id''] (db_mission_access_assignments db),
      sn_subject_operation_rights = load_payload_rows [''subject_type'', ''subject_id'', ''operation'', ''scope_type'', ''scope_id''] (db_subject_operation_rights db),
      sn_authorization_required = (setting_value ''authorization_required'' db = Some ''true'')\<rparr>"

definition load_checklist_command_snapshot :: "rch_database \<Rightarrow> rch_core_snapshot" where
  "load_checklist_command_snapshot db = (with_checklist_rows db (snapshot new_core))\<lparr>
     sn_missions := load_payload_rows [''uid''] (db_missions db),
     sn_teams := load_payload_rows [''uid''] (db_teams db),
     sn_mission_team_links := load_payload_rows [''mission_uid'', ''team_uid''] (db_mission_team_links db),
     sn_team_members := load_payload_rows [''uid''] (db_team_members db),
     sn_team_member_client_links := load_payload_rows [''team_member_uid'', ''client_identity''] (db_team_member_client_links db),
     sn_mission_changes := load_payload_rows [''uid''] (db_mission_changes db),
     sn_task_skill_requirements := load_payload_rows [''task_uid'', ''skill_uid''] (db_task_skill_requirements db),
     sn_assignments := load_payload_rows [''assignment_uid''] (db_assignments db),
     sn_assignment_asset_links := load_payload_rows [''assignment_uid'', ''asset_uid''] (db_assignment_asset_links db)\<rparr>"

definition load_from_sqlite :: "host \<Rightarrow> rch_database \<Rightarrow> rch_core option result" where
  "load_from_sqlite h db =
     (case load_snapshot db of None \<Rightarrow> Inr None
      | Some sn \<Rightarrow> and_then (from_snapshot h sn) (\<lambda>core. Inr (Some core)))"

definition load_from_sqlite_without_identity_announces :: "host \<Rightarrow> rch_database \<Rightarrow> rch_core option result" where
  "load_from_sqlite_without_identity_announces h db =
     (case load_snapshot_without_identity_announces db of None \<Rightarrow> Inr None
      | Some sn \<Rightarrow> and_then (from_snapshot h sn) (\<lambda>core. Inr (Some core)))"

end
