(* ===== verification/Deltas.thy ===== *)
theory Deltas
  imports Sqlite
begin

text \<open>
  How the hub saves what one command changed (\<open>save_payload_delta\<close> and what calls it in
  \<open>crates/r3akt-rch-core/src/lib.rs\<close>): the rows of the snapshot before that the snapshot after
  has no more are deleted, and all rows of the snapshot after are inserted or replaced.
\<close>

subsection \<open>Keys as texts\<close>

fun sql_key_text :: "sql_value \<Rightarrow> string" where
  "sql_key_text SqlNull = ''<null>''"
| "sql_key_text (SqlInteger n) = show_int n"
| "sql_key_text (SqlText text) = text"
| "sql_key_text (SqlBlob bytes) = bytes_to_lower_hex bytes"

definition sql_key_string :: "sql_columns \<Rightarrow> string" where
  "sql_key_string columns = join [CHR 0x1F] (map (\<lambda>(_, value). sql_key_text value) columns)"

subsection \<open>Rows\<close>

definition delete_payload_row :: "sql_columns \<Rightarrow> 'v sql_table \<Rightarrow> 'v sql_table" where
  "delete_payload_row key_columns table = sql_delete key_columns table"

definition upsert_payload_row :: "string list \<Rightarrow> sql_columns \<Rightarrow> 'v \<Rightarrow> 'v sql_table \<Rightarrow> 'v sql_table" where
  "upsert_payload_row primary_key indexed_columns payload table =
     sql_replace primary_key indexed_columns payload table"

definition save_payload_delta ::
  "string list \<Rightarrow> ('v \<Rightarrow> sql_columns) \<Rightarrow> ('v \<Rightarrow> sql_columns) \<Rightarrow> 'v list \<Rightarrow> 'v list
     \<Rightarrow> 'v sql_table \<Rightarrow> 'v sql_table" where
  "save_payload_delta primary_key key_columns indexed_columns before after table =
     (let before_keys = fold (\<lambda>r. hm_insert (sql_key_string (key_columns r)) (key_columns r)) before [];
          after_key_set = map (\<lambda>r. sql_key_string (key_columns r)) after;
          table = fold (\<lambda>(key, columns) table.
              if key \<in> set after_key_set then table else delete_payload_row columns table) before_keys table
      in fold (\<lambda>r. upsert_payload_row primary_key (indexed_columns r) r) after table)"

subsection \<open>The tables of a command\<close>

text \<open>
  The audit events have no key the table knows, so an event that is saved again is a second row; the
  code deletes by the identifier of the event.
\<close>

definition save_audit_event_delta_tables :: "rch_core_snapshot \<Rightarrow> rch_core_snapshot \<Rightarrow> rch_database \<Rightarrow> rch_database" where
  "save_audit_event_delta_tables before after db =
     (let db = db_audit_events_update (save_payload_delta [] audit_event_columns audit_event_columns
            (sn_audit_events before) (sn_audit_events after)) db in
     db)"

definition save_skill_assignment_delta_tables :: "rch_core_snapshot \<Rightarrow> rch_core_snapshot \<Rightarrow> rch_database \<Rightarrow> rch_database" where
  "save_skill_assignment_delta_tables before after db =
     (let db = db_skills_update (save_payload_delta [''skill_uid''] skill_columns skill_columns
            (sn_skills before) (sn_skills after)) db in
     (let db = db_team_member_skills_update (save_payload_delta [''team_member_rns_identity'', ''skill_uid''] member_skill_columns member_skill_columns
            (sn_team_member_skills before) (sn_team_member_skills after)) db in
     (let db = db_task_skill_requirements_update (save_payload_delta [''task_uid'', ''skill_uid''] requirement_columns requirement_columns
            (sn_task_skill_requirements before) (sn_task_skill_requirements after)) db in
     (let db = db_assignments_update (save_payload_delta [''assignment_uid''] (\<lambda>r. [(''assignment_uid'', SqlText (an_assignment_uid r))]) assignment_columns
            (sn_assignments before) (sn_assignments after)) db in
     (let db = db_assignment_asset_links_update (save_payload_delta [''assignment_uid'', ''asset_uid''] asset_link_columns asset_link_columns
            (sn_assignment_asset_links before) (sn_assignment_asset_links after)) db in
     db)))))"

definition save_authorization_delta_tables :: "rch_core_snapshot \<Rightarrow> rch_core_snapshot \<Rightarrow> rch_database \<Rightarrow> rch_database" where
  "save_authorization_delta_tables before after db =
     (let db = db_identity_capabilities_update (save_payload_delta [''identity'', ''capability''] capability_columns capability_columns
            (sn_identity_capabilities before) (sn_identity_capabilities after)) db in
     (let db = db_mission_access_assignments_update (save_payload_delta [''mission_uid'', ''subject_type'', ''subject_id''] access_columns access_columns
            (sn_mission_access_assignments before) (sn_mission_access_assignments after)) db in
     (let db = db_subject_operation_rights_update (save_payload_delta [''subject_type'', ''subject_id'', ''operation'', ''scope_type'', ''scope_id''] right_columns right_columns
            (sn_subject_operation_rights before) (sn_subject_operation_rights after)) db in
     db)))"

definition save_registry_delta_tables :: "rch_core_snapshot \<Rightarrow> rch_core_snapshot \<Rightarrow> rch_database \<Rightarrow> rch_database" where
  "save_registry_delta_tables before after db =
     (let db = db_markers_update (save_payload_delta [''object_destination_hash''] marker_columns marker_columns
            (sn_markers before) (sn_markers after)) db in
     (let db = db_zones_update (save_payload_delta [''zone_id''] zone_columns zone_columns
            (sn_zones before) (sn_zones after)) db in
     (let db = db_missions_update (save_payload_delta [''uid''] mission_columns mission_columns
            (sn_missions before) (sn_missions after)) db in
     (let db = db_mission_changes_update (save_payload_delta [''uid''] (\<lambda>r. [(''uid'', SqlText (mc_uid r))]) mission_change_columns
            (sn_mission_changes before) (sn_mission_changes after)) db in
     (let db = db_log_entries_update (save_payload_delta [''entry_uid''] log_entry_columns log_entry_columns
            (sn_log_entries before) (sn_log_entries after)) db in
     (let db = db_eam_snapshots_update (save_payload_delta [''eam_uid''] (\<lambda>r. [(''eam_uid'', SqlText (ea_eam_uid r))]) eam_columns
            (sn_eam_snapshots before) (sn_eam_snapshots after)) db in
     (let db = db_teams_update (save_payload_delta [''uid''] team_columns team_columns
            (sn_teams before) (sn_teams after)) db in
     (let db = db_mission_team_links_update (save_payload_delta [''mission_uid'', ''team_uid''] team_link_columns team_link_columns
            (sn_mission_team_links before) (sn_mission_team_links after)) db in
     (let db = db_mission_zone_links_update (save_payload_delta [''mission_uid'', ''zone_id''] zone_link_columns zone_link_columns
            (sn_mission_zone_links before) (sn_mission_zone_links after)) db in
     (let db = db_mission_marker_links_update (save_payload_delta [''mission_uid'', ''marker_id''] marker_link_columns marker_link_columns
            (sn_mission_marker_links before) (sn_mission_marker_links after)) db in
     (let db = db_team_members_update (save_payload_delta [''uid''] member_columns member_columns
            (sn_team_members before) (sn_team_members after)) db in
     (let db = db_team_member_client_links_update (save_payload_delta [''team_member_uid'', ''client_identity''] client_link_columns client_link_columns
            (sn_team_member_client_links before) (sn_team_member_client_links after)) db in
     (let db = db_assets_update (save_payload_delta [''asset_uid''] asset_columns asset_columns
            (sn_assets before) (sn_assets after)) db in
     (let db = save_skill_assignment_delta_tables before after db in
     (let db = save_authorization_delta_tables before after db in
     (let db = save_audit_event_delta_tables before after db in
     (let db = db_command_results_update (save_payload_delta [''command_id''] result_columns result_columns
            (sn_command_results before) (sn_command_results after)) db in
     db)))))))))))))))))"

definition save_checklist_delta_tables :: "rch_core_snapshot \<Rightarrow> rch_core_snapshot \<Rightarrow> rch_database \<Rightarrow> rch_database" where
  "save_checklist_delta_tables before after db =
     (let db = db_checklists_update (save_payload_delta [''uid''] checklist_row_columns checklist_row_columns
            (sn_checklists before) (sn_checklists after)) db in
     (let db = db_checklist_templates_update (save_payload_delta [''uid''] template_columns template_columns
            (sn_checklist_templates before) (sn_checklist_templates after)) db in
     (let db = db_checklist_columns_update (save_payload_delta [''column_uid''] (\<lambda>r. [(''column_uid'', SqlText (cc_column_uid r))]) checklist_column_columns
            (sn_checklist_columns before) (sn_checklist_columns after)) db in
     (let db = db_checklist_tasks_update (save_payload_delta [''task_uid''] (\<lambda>r. [(''task_uid'', SqlText (tk_task_uid r))]) task_columns
            (sn_checklist_tasks before) (sn_checklist_tasks after)) db in
     (let db = db_checklist_cells_update (save_payload_delta [''cell_uid''] (\<lambda>r. [(''cell_uid'', SqlText (ce_cell_uid r))]) cell_columns
            (sn_checklist_cells before) (sn_checklist_cells after)) db in
     (let db = db_checklist_feed_publications_update (save_payload_delta [''publication_uid''] (\<lambda>r. [(''publication_uid'', SqlText (pb_publication_uid r))]) publication_columns
            (sn_checklist_feed_publications before) (sn_checklist_feed_publications after)) db in
     (let db = save_skill_assignment_delta_tables before after db in
     (let db = db_mission_changes_update (save_payload_delta [''uid''] (\<lambda>r. [(''uid'', SqlText (mc_uid r))]) mission_change_columns
            (sn_mission_changes before) (sn_mission_changes after)) db in
     (let db = save_audit_event_delta_tables before after db in
     (let db = db_command_results_update (save_payload_delta [''command_id''] result_columns result_columns
            (sn_command_results before) (sn_command_results after)) db in
     db))))))))))"

definition save_r3akt_command_delta :: "rch_core_snapshot \<Rightarrow> rch_core_snapshot \<Rightarrow> rch_database \<Rightarrow> rch_database" where
  "save_r3akt_command_delta before after db = save_registry_delta_tables before after db"

definition save_checklist_command_delta :: "rch_core_snapshot \<Rightarrow> rch_core_snapshot \<Rightarrow> rch_database \<Rightarrow> rch_database" where
  "save_checklist_command_delta before after db = save_checklist_delta_tables before after db"

text \<open>The checklists of a snapshot in place of those of the store.\<close>

definition save_checklist_command_projection :: "rch_core_snapshot \<Rightarrow> rch_database \<Rightarrow> rch_database result" where
  "save_checklist_command_projection sn db =
     (let db = db\<lparr>db_checklists := [], db_checklist_templates := [], db_checklist_columns := [],
                 db_checklist_tasks := [], db_checklist_cells := [], db_checklist_feed_publications := [],
                 db_task_skill_requirements := [], db_assignments := [], db_assignment_asset_links := []\<rparr>
      in
     and_then (save_checklist_snapshot_tables sn db) (\<lambda>db.
     and_then (insert_all [''task_uid'', ''skill_uid''] requirement_columns (sn_task_skill_requirements sn)
         (db_task_skill_requirements db)) (\<lambda>rows.
       let db = db\<lparr>db_task_skill_requirements := rows\<rparr> in
     and_then (insert_all [''assignment_uid''] assignment_columns (sn_assignments sn) (db_assignments db)) (\<lambda>rows.
       let db = db\<lparr>db_assignments := rows\<rparr> in
     and_then (insert_all [''assignment_uid'', ''asset_uid''] asset_link_columns (sn_assignment_asset_links sn)
         (db_assignment_asset_links db)) (\<lambda>rows.
       Inr (db\<lparr>db_assignment_asset_links := rows,
          db_mission_changes := fold (\<lambda>r. sql_replace [''uid''] (mission_change_columns r) r)
            (sn_mission_changes sn) (db_mission_changes db),
          db_command_results := fold (\<lambda>r. sql_replace [''command_id''] (result_columns r) r)
            (sn_command_results sn) (db_command_results db)\<rparr>))))))"

end
