(* ===== verification/Sqlite_Rules.thy ===== *)
theory Sqlite_Rules
  imports Sqlite Storable
begin

text \<open>
  What the store promises: a state saved is the state loaded.  \<open>table_of\<close> is the table a list of
  records becomes; \<open>holds\<close> says that a database has the rows of a snapshot.
\<close>

subsection \<open>Tables of records\<close>

definition table_of :: "('v \<Rightarrow> sql_columns) \<Rightarrow> 'v list \<Rightarrow> 'v sql_table" where
  "table_of columns records = map (\<lambda>r. (columns r, r)) records"

definition own_keys :: "string list \<Rightarrow> ('v \<Rightarrow> sql_columns) \<Rightarrow> 'v list \<Rightarrow> bool" where
  "own_keys primary_key columns records \<longleftrightarrow>
     primary_key = [] \<or> distinct (map (\<lambda>r. row_key primary_key (columns r)) records)"

lemma table_of_simps [simp]:
  "table_of columns [] = []" "table_of columns (r # rs) = (columns r, r) # table_of columns rs"
  "table_of columns (xs @ ys) = table_of columns xs @ table_of columns ys"
  by (simp_all add: table_of_def)

lemma insert_all_append:
  assumes "own_keys pk columns (xs @ rs)"
  shows "insert_all pk columns rs (table_of columns xs) = Inr (table_of columns (xs @ rs))"
  using assms
proof (induction rs arbitrary: xs)
  case (Cons r rs)
  have "\<not> list_ex (\<lambda>(row, _). same_row pk (columns r) row) (table_of columns xs)"
    using Cons.prems by (auto simp: own_keys_def same_row_def table_of_def list_ex_iff)
  moreover have "insert_all pk columns rs (table_of columns (xs @ [r])) = Inr (table_of columns ((xs @ [r]) @ rs))"
    using Cons.prems by (intro Cons.IH) simp
  ultimately show ?case by (simp add: sql_insert_def)
qed simp

lemma insert_all_records:
  "own_keys pk columns rs \<Longrightarrow> insert_all pk columns rs [] = Inr (table_of columns rs)"
  using insert_all_append [of pk columns "[]" rs] by simp

lemma own_keys_by:
  assumes "distinct (map key rs)"
    and "\<And>r r'. row_key pk (columns r) = row_key pk (columns r') \<Longrightarrow> key r = key r'"
  shows "own_keys pk columns rs"
proof -
  have "distinct rs" and inj: "\<And>r r'. r \<in> set rs \<Longrightarrow> r' \<in> set rs \<Longrightarrow> key r = key r' \<Longrightarrow> r = r'"
    using assms(1) by (auto simp: distinct_map inj_on_def)
  moreover have "inj_on (\<lambda>r. row_key pk (columns r)) (set rs)"
    using inj assms(2) by (intro inj_onI) blast
  ultimately show ?thesis by (simp add: own_keys_def distinct_map)
qed

lemma set_load_rows [simp]: "set (load_payload_rows ob (table_of columns rs)) = set rs"
  by (simp add: load_payload_rows_def table_of_def image_image)

lemma distinct_load_rows:
  assumes "distinct (map f rs)" shows "distinct (map f (load_payload_rows ob (table_of columns rs)))"
proof -
  have "distinct rs" "inj_on f (set rs)" using assms by (simp_all add: distinct_map)
  moreover from this(1) have "distinct (load_payload_rows ob (table_of columns rs))"
    by (auto simp: load_payload_rows_def table_of_def distinct_map inj_on_def)
  ultimately show ?thesis by (simp add: distinct_map)
qed

lemma sort_key_const: "sort_key (\<lambda>_. c) xs = xs"
  by (induction xs) (simp_all add: insort_is_Cons)

lemma load_in_order [simp]: "load_payload_rows [] (table_of columns rs) = rs"
  by (simp add: load_payload_rows_def table_of_def case_prod_unfold comp_def sort_key_const)

lemma load_empty [simp]: "load_payload_rows ob [] = []"
  by (simp add: load_payload_rows_def)

lemmas key_columns = row_key_def sql_cell_def sql_optional_text_def

lemmas table_columns = topic_columns_def subscriber_columns_def client_columns_def announce_columns_def identity_state_columns_def rem_mode_columns_def audit_event_columns_def system_event_columns_def telemetry_columns_def marker_columns_def zone_columns_def mission_columns_def mission_change_columns_def log_entry_columns_def file_attachment_columns_def eam_columns_def team_columns_def team_link_columns_def zone_link_columns_def marker_link_columns_def member_columns_def client_link_columns_def asset_columns_def skill_columns_def member_skill_columns_def requirement_columns_def assignment_columns_def asset_link_columns_def checklist_row_columns_def template_columns_def checklist_column_columns_def task_columns_def cell_columns_def publication_columns_def result_columns_def capability_columns_def access_columns_def right_columns_def

subsection \<open>The rows of a snapshot\<close>

definition holds :: "rch_database \<Rightarrow> rch_core_snapshot \<Rightarrow> bool" where
  "holds db sn \<longleftrightarrow>
     db_topics db = table_of topic_columns (sn_topics sn)
     \<and> db_subscribers db = table_of subscriber_columns (sn_subscribers sn)
     \<and> db_messages db = table_of message_columns (sn_messages sn)
     \<and> db_clients db = table_of client_columns (sn_clients sn)
     \<and> db_identity_announces db = table_of announce_columns (sn_identity_announces sn)
     \<and> db_identity_states db = table_of identity_state_columns (sn_identity_states sn)
     \<and> db_identity_rem_modes db = table_of rem_mode_columns (sn_identity_rem_modes sn)
     \<and> db_audit_events db = table_of audit_event_columns (sn_audit_events sn)
     \<and> db_system_events db = table_of system_event_columns (sn_system_events sn)
     \<and> db_telemetry_records db = table_of telemetry_columns (sn_telemetry_records sn)
     \<and> db_markers db = table_of marker_columns (sn_markers sn)
     \<and> db_zones db = table_of zone_columns (sn_zones sn)
     \<and> db_missions db = table_of mission_columns (sn_missions sn)
     \<and> db_mission_changes db = table_of mission_change_columns (sn_mission_changes sn)
     \<and> db_log_entries db = table_of log_entry_columns (sn_log_entries sn)
     \<and> db_file_attachments db = table_of file_attachment_columns (sn_file_attachments sn)
     \<and> db_eam_snapshots db = table_of eam_columns (sn_eam_snapshots sn)
     \<and> db_teams db = table_of team_columns (sn_teams sn)
     \<and> db_mission_team_links db = table_of team_link_columns (sn_mission_team_links sn)
     \<and> db_mission_zone_links db = table_of zone_link_columns (sn_mission_zone_links sn)
     \<and> db_mission_marker_links db = table_of marker_link_columns (sn_mission_marker_links sn)
     \<and> db_team_members db = table_of member_columns (sn_team_members sn)
     \<and> db_team_member_client_links db = table_of client_link_columns (sn_team_member_client_links sn)
     \<and> db_assets db = table_of asset_columns (sn_assets sn)
     \<and> db_skills db = table_of skill_columns (sn_skills sn)
     \<and> db_team_member_skills db = table_of member_skill_columns (sn_team_member_skills sn)
     \<and> db_task_skill_requirements db = table_of requirement_columns (sn_task_skill_requirements sn)
     \<and> db_assignments db = table_of assignment_columns (sn_assignments sn)
     \<and> db_assignment_asset_links db = table_of asset_link_columns (sn_assignment_asset_links sn)
     \<and> db_checklists db = table_of checklist_row_columns (sn_checklists sn)
     \<and> db_checklist_templates db = table_of template_columns (sn_checklist_templates sn)
     \<and> db_checklist_columns db = table_of checklist_column_columns (sn_checklist_columns sn)
     \<and> db_checklist_tasks db = table_of task_columns (sn_checklist_tasks sn)
     \<and> db_checklist_cells db = table_of cell_columns (sn_checklist_cells sn)
     \<and> db_checklist_feed_publications db = table_of publication_columns (sn_checklist_feed_publications sn)
     \<and> db_command_results db = table_of result_columns (sn_command_results sn)
     \<and> db_identity_capabilities db = table_of capability_columns (sn_identity_capabilities sn)
     \<and> db_mission_access_assignments db = table_of access_columns (sn_mission_access_assignments sn)
     \<and> db_subject_operation_rights db = table_of right_columns (sn_subject_operation_rights sn)"

definition insertable :: "rch_core_snapshot \<Rightarrow> bool" where
  "insertable sn \<longleftrightarrow>
     own_keys [''topic_id''] topic_columns (sn_topics sn)
     \<and> own_keys [''node_id'', ''topic_id''] subscriber_columns (sn_subscribers sn)
     \<and> own_keys [] message_columns (sn_messages sn)
     \<and> own_keys [''identity''] client_columns (sn_clients sn)
     \<and> own_keys [''destination_hash''] announce_columns (sn_identity_announces sn)
     \<and> own_keys [''identity''] identity_state_columns (sn_identity_states sn)
     \<and> own_keys [''identity''] rem_mode_columns (sn_identity_rem_modes sn)
     \<and> own_keys [] audit_event_columns (sn_audit_events sn)
     \<and> own_keys [] system_event_columns (sn_system_events sn)
     \<and> own_keys [] telemetry_columns (sn_telemetry_records sn)
     \<and> own_keys [''object_destination_hash''] marker_columns (sn_markers sn)
     \<and> own_keys [''zone_id''] zone_columns (sn_zones sn)
     \<and> own_keys [''uid''] mission_columns (sn_missions sn)
     \<and> own_keys [''uid''] mission_change_columns (sn_mission_changes sn)
     \<and> own_keys [''entry_uid''] log_entry_columns (sn_log_entries sn)
     \<and> own_keys [''file_id''] file_attachment_columns (sn_file_attachments sn)
     \<and> own_keys [''eam_uid''] eam_columns (sn_eam_snapshots sn)
     \<and> own_keys [''uid''] team_columns (sn_teams sn)
     \<and> own_keys [''mission_uid'', ''team_uid''] team_link_columns (sn_mission_team_links sn)
     \<and> own_keys [''mission_uid'', ''zone_id''] zone_link_columns (sn_mission_zone_links sn)
     \<and> own_keys [''mission_uid'', ''marker_id''] marker_link_columns (sn_mission_marker_links sn)
     \<and> own_keys [''uid''] member_columns (sn_team_members sn)
     \<and> own_keys [''team_member_uid'', ''client_identity''] client_link_columns (sn_team_member_client_links sn)
     \<and> own_keys [''asset_uid''] asset_columns (sn_assets sn)
     \<and> own_keys [''skill_uid''] skill_columns (sn_skills sn)
     \<and> own_keys [''team_member_rns_identity'', ''skill_uid''] member_skill_columns (sn_team_member_skills sn)
     \<and> own_keys [''task_uid'', ''skill_uid''] requirement_columns (sn_task_skill_requirements sn)
     \<and> own_keys [''assignment_uid''] assignment_columns (sn_assignments sn)
     \<and> own_keys [''assignment_uid'', ''asset_uid''] asset_link_columns (sn_assignment_asset_links sn)
     \<and> own_keys [''uid''] checklist_row_columns (sn_checklists sn)
     \<and> own_keys [''uid''] template_columns (sn_checklist_templates sn)
     \<and> own_keys [''column_uid''] checklist_column_columns (sn_checklist_columns sn)
     \<and> own_keys [''task_uid''] task_columns (sn_checklist_tasks sn)
     \<and> own_keys [''cell_uid''] cell_columns (sn_checklist_cells sn)
     \<and> own_keys [''publication_uid''] publication_columns (sn_checklist_feed_publications sn)
     \<and> own_keys [''command_id''] result_columns (sn_command_results sn)
     \<and> own_keys [''identity'', ''capability''] capability_columns (sn_identity_capabilities sn)
     \<and> own_keys [''mission_uid'', ''subject_type'', ''subject_id''] access_columns (sn_mission_access_assignments sn)
     \<and> own_keys [''subject_type'', ''subject_id'', ''operation'', ''scope_type'', ''scope_id''] right_columns (sn_subject_operation_rights sn)
     \<and> list_all (\<lambda>r. fa_file_id r \<le> i64_max) (sn_file_attachments sn)"

lemma settings_frame: "\<exists>rows. fold (\<lambda>(key, v). set_setting_value key v) kvs db = db\<lparr>db_settings := rows\<rparr>"
proof (induction kvs arbitrary: db)
  case Nil
  show ?case by (rule exI [of _ "db_settings db"]) simp
next
  case (Cons kv kvs)
  obtain k v where kv: "kv = (k, v)" by (cases kv)
  obtain rows where rows: "fold (\<lambda>(key, v). set_setting_value key v) kvs (set_setting_value k v db) =
      (set_setting_value k v db)\<lparr>db_settings := rows\<rparr>"
    using Cons by blast
  moreover have "(set_setting_value k v db)\<lparr>db_settings := rows\<rparr> = db\<lparr>db_settings := rows\<rparr>"
    by (simp add: set_setting_value_def)
  ultimately show ?case by (auto simp: kv)
qed

lemma setting_value_set [simp]:
  "setting_value key (set_setting_value k v db) = (if key = k then Some v else setting_value key db)"
proof -
  let ?is = "\<lambda>k (row, _ :: string). sql_cell row ''setting_key'' = SqlText k"
  have mine: "sql_cell (setting_columns k) ''setting_key'' = SqlText k"
    by (simp add: setting_columns_def sql_cell_def)
  have same: "same_row [''setting_key''] (setting_columns k) row \<longleftrightarrow> sql_cell row ''setting_key'' = SqlText k" for row
    by (auto simp: same_row_def row_key_def mine)
  have "find (?is key) (filter (\<lambda>(row, _). sql_cell row ''setting_key'' \<noteq> SqlText k) rows)
      = (if key = k then None else find (?is key) rows)" for rows
    by (induction rows) auto
  then have "find (?is key) (sql_replace [''setting_key''] (setting_columns k) v (db_settings db)) =
      (if key = k then Some (setting_columns k, v) else find (?is key) (db_settings db))"
    by (auto simp: sql_replace_def same find_app mine or_else_def split: option.split)
  then show ?thesis by (simp add: setting_value_def set_setting_value_def)
qed

lemma setting_value_fold:
  "key \<notin> fst ` set kvs \<Longrightarrow>
     setting_value key (fold (\<lambda>(k, v). set_setting_value k v) kvs db) = setting_value key db"
  by (induction kvs arbitrary: db) auto

lemma preserved_settings: "''authorization_required'' \<notin> fst ` set (settings_with_prefix ''reticulumd_'' db)"
proof -
  have "\<not> sql_like (CHR ''r'' # ps) (CHR ''a'' # cs)" for ps cs
    by (subst sql_like.simps) (simp add: ascii_lower_def code_def)
  then have "\<not> sql_like (''reticulumd_'' @ ''%'') ''authorization_required''" by simp
  then show ?thesis
    by (auto simp: settings_with_prefix_def split: sql_value.splits if_splits)
qed

text \<open>A snapshot whose rows have keys of their own is saved, and the database then has its rows.\<close>

lemma save_topic_tables:
  assumes "insertable sn" and "db = empty_database\<lparr>db_identity_announces := a\<rparr>"
    and "\<not> preserve_identity_announces options \<Longrightarrow> a = []"
  shows "save_topic_snapshot_tables options sn db = Inr (db\<lparr>
     db_topics := table_of topic_columns (sn_topics sn),
     db_subscribers := table_of subscriber_columns (sn_subscribers sn),
     db_messages := table_of message_columns (sn_messages sn),
     db_clients := table_of client_columns (sn_clients sn),
     db_identity_announces := (if preserve_identity_announces options then a
        else table_of announce_columns (sn_identity_announces sn)),
     db_identity_states := table_of identity_state_columns (sn_identity_states sn),
     db_identity_rem_modes := table_of rem_mode_columns (sn_identity_rem_modes sn),
     db_audit_events := table_of audit_event_columns (sn_audit_events sn),
     db_system_events := table_of system_event_columns (sn_system_events sn),
     db_telemetry_records := table_of telemetry_columns (sn_telemetry_records sn)\<rparr>)"
  using assms
  by (simp add: save_topic_snapshot_tables_def insertable_def insert_all_records empty_database_def)

lemma save_registry_tables:
  assumes "insertable sn" and "db_markers db = []"
    and "db_zones db = []"
    and "db_missions db = []"
    and "db_mission_changes db = []"
    and "db_log_entries db = []"
    and "db_file_attachments db = []"
    and "db_eam_snapshots db = []"
    and "db_teams db = []"
    and "db_mission_team_links db = []"
    and "db_mission_zone_links db = []"
    and "db_mission_marker_links db = []"
    and "db_team_members db = []"
    and "db_team_member_client_links db = []"
    and "db_assets db = []"
    and "db_skills db = []"
    and "db_team_member_skills db = []"
    and "db_task_skill_requirements db = []"
    and "db_assignments db = []"
    and "db_assignment_asset_links db = []"
    and "db_checklists db = []"
    and "db_checklist_templates db = []"
    and "db_checklist_columns db = []"
    and "db_checklist_tasks db = []"
    and "db_checklist_cells db = []"
    and "db_checklist_feed_publications db = []"
  shows "save_registry_snapshot_tables sn db = Inr (db\<lparr>
     db_markers := table_of marker_columns (sn_markers sn),
     db_zones := table_of zone_columns (sn_zones sn),
     db_missions := table_of mission_columns (sn_missions sn),
     db_mission_changes := table_of mission_change_columns (sn_mission_changes sn),
     db_log_entries := table_of log_entry_columns (sn_log_entries sn),
     db_file_attachments := table_of file_attachment_columns (sn_file_attachments sn),
     db_eam_snapshots := table_of eam_columns (sn_eam_snapshots sn),
     db_teams := table_of team_columns (sn_teams sn),
     db_mission_team_links := table_of team_link_columns (sn_mission_team_links sn),
     db_mission_zone_links := table_of zone_link_columns (sn_mission_zone_links sn),
     db_mission_marker_links := table_of marker_link_columns (sn_mission_marker_links sn),
     db_team_members := table_of member_columns (sn_team_members sn),
     db_team_member_client_links := table_of client_link_columns (sn_team_member_client_links sn),
     db_assets := table_of asset_columns (sn_assets sn),
     db_skills := table_of skill_columns (sn_skills sn),
     db_team_member_skills := table_of member_skill_columns (sn_team_member_skills sn),
     db_task_skill_requirements := table_of requirement_columns (sn_task_skill_requirements sn),
     db_assignments := table_of assignment_columns (sn_assignments sn),
     db_assignment_asset_links := table_of asset_link_columns (sn_assignment_asset_links sn),
     db_checklists := table_of checklist_row_columns (sn_checklists sn),
     db_checklist_templates := table_of template_columns (sn_checklist_templates sn),
     db_checklist_columns := table_of checklist_column_columns (sn_checklist_columns sn),
     db_checklist_tasks := table_of task_columns (sn_checklist_tasks sn),
     db_checklist_cells := table_of cell_columns (sn_checklist_cells sn),
     db_checklist_feed_publications := table_of publication_columns (sn_checklist_feed_publications sn)\<rparr>)"
  using assms
  by (simp add: save_registry_snapshot_tables_def save_skill_assignment_snapshot_tables_def
        save_checklist_snapshot_tables_def storable_file_ids_def insertable_def insert_all_records)

lemma save_snapshot_holds:
  assumes "insertable sn"
  shows "\<exists>db'. save_snapshot sn db = Inr db' \<and> holds db' sn
    \<and> (setting_value ''authorization_required'' db' = Some ''true'' \<longleftrightarrow> sn_authorization_required sn)"
proof -
  let ?settings = "[(setting_columns ''schema_version'', RCH_SQLITE_SCHEMA_VERSION),
     (setting_columns ''authorization_required'', bool_setting (sn_authorization_required sn))]"
  let ?db = "\<lparr>db_topics = table_of topic_columns (sn_topics sn),
     db_subscribers = table_of subscriber_columns (sn_subscribers sn),
     db_messages = table_of message_columns (sn_messages sn),
     db_clients = table_of client_columns (sn_clients sn),
     db_identity_announces = table_of announce_columns (sn_identity_announces sn),
     db_identity_states = table_of identity_state_columns (sn_identity_states sn),
     db_identity_rem_modes = table_of rem_mode_columns (sn_identity_rem_modes sn),
     db_audit_events = table_of audit_event_columns (sn_audit_events sn),
     db_system_events = table_of system_event_columns (sn_system_events sn),
     db_telemetry_records = table_of telemetry_columns (sn_telemetry_records sn),
     db_markers = table_of marker_columns (sn_markers sn),
     db_zones = table_of zone_columns (sn_zones sn),
     db_missions = table_of mission_columns (sn_missions sn),
     db_mission_changes = table_of mission_change_columns (sn_mission_changes sn),
     db_log_entries = table_of log_entry_columns (sn_log_entries sn),
     db_file_attachments = table_of file_attachment_columns (sn_file_attachments sn),
     db_eam_snapshots = table_of eam_columns (sn_eam_snapshots sn),
     db_teams = table_of team_columns (sn_teams sn),
     db_mission_team_links = table_of team_link_columns (sn_mission_team_links sn),
     db_mission_zone_links = table_of zone_link_columns (sn_mission_zone_links sn),
     db_mission_marker_links = table_of marker_link_columns (sn_mission_marker_links sn),
     db_team_members = table_of member_columns (sn_team_members sn),
     db_team_member_client_links = table_of client_link_columns (sn_team_member_client_links sn),
     db_assets = table_of asset_columns (sn_assets sn),
     db_skills = table_of skill_columns (sn_skills sn),
     db_team_member_skills = table_of member_skill_columns (sn_team_member_skills sn),
     db_task_skill_requirements = table_of requirement_columns (sn_task_skill_requirements sn),
     db_assignments = table_of assignment_columns (sn_assignments sn),
     db_assignment_asset_links = table_of asset_link_columns (sn_assignment_asset_links sn),
     db_checklists = table_of checklist_row_columns (sn_checklists sn),
     db_checklist_templates = table_of template_columns (sn_checklist_templates sn),
     db_checklist_columns = table_of checklist_column_columns (sn_checklist_columns sn),
     db_checklist_tasks = table_of task_columns (sn_checklist_tasks sn),
     db_checklist_cells = table_of cell_columns (sn_checklist_cells sn),
     db_checklist_feed_publications = table_of publication_columns (sn_checklist_feed_publications sn),
     db_command_results = table_of result_columns (sn_command_results sn),
     db_identity_capabilities = table_of capability_columns (sn_identity_capabilities sn),
     db_mission_access_assignments = table_of access_columns (sn_mission_access_assignments sn),
     db_subject_operation_rights = table_of right_columns (sn_subject_operation_rights sn),
     db_settings = ?settings\<rparr>"
  let ?kvs = "settings_with_prefix ''reticulumd_'' db"
  have keys: "\<not> same_row [''setting_key''] (setting_columns ''authorization_required'') (setting_columns ''schema_version'')"
    by (simp add: same_row_def setting_columns_def row_key_def sql_cell_def)
  have saved: "save_snapshot sn db = Inr (fold (\<lambda>(key, v). set_setting_value key v) ?kvs ?db)"
    using assms save_topic_tables [OF assms, where options = "\<lparr>preserve_identity_announces = False\<rparr>" and a = "[]"]
    by (simp add: save_snapshot_def save_snapshot_with_options_def clear_snapshot_tables_def save_registry_tables
          empty_database_def insertable_def insert_all_records sql_insert_def keys Let_def)
  obtain rows where rows: "fold (\<lambda>(key, v). set_setting_value key v) ?kvs ?db = ?db\<lparr>db_settings := rows\<rparr>"
    using settings_frame by blast
  have "setting_value ''authorization_required'' (fold (\<lambda>(key, v). set_setting_value key v) ?kvs ?db) =
      Some (bool_setting (sn_authorization_required sn))"
    using setting_value_fold [OF preserved_settings, of db ?db]
    by (simp add: setting_value_def setting_columns_def sql_cell_def)
  moreover have "holds (?db\<lparr>db_settings := rows\<rparr>) sn" by (simp add: holds_def)
  ultimately show ?thesis
    using saved rows by (auto simp: bool_setting_def)
qed

end
