(* ===== verification/Durability.thy ===== *)
theory Durability
  imports Sqlite_Rules
begin

text \<open>
  Every reachable state can be written to the store, and the store gives it back.  The sets of the
  state (the links, the capabilities of an identity) hold each element once, so their rows have keys
  of their own; the other rows have the keys of their tables, which \<open>storable\<close> says.
\<close>

subsection \<open>The sets of the state\<close>

definition links_distinct :: "rch_core \<Rightarrow> bool" where
  "links_distinct s \<longleftrightarrow> distinct (mission_team_links s) \<and> distinct (mission_zone_links s)
     \<and> distinct (mission_marker_links s) \<and> distinct (team_member_client_links s)
     \<and> distinct (assignment_asset_links s)"

definition capabilities_distinct :: "rch_core \<Rightarrow> bool" where
  "capabilities_distinct s \<longleftrightarrow> (\<forall>k cs. hm_get (identity_capabilities s) k = Some cs \<longrightarrow> distinct cs)"

definition attachments_fit :: "rch_core \<Rightarrow> bool" where
  "attachments_fit s \<longleftrightarrow> (\<forall>k. hm_contains (file_attachments s) k \<longrightarrow> k \<le> i64_max)"

definition sets_ok :: "rch_core \<Rightarrow> bool" where
  "sets_ok s \<longleftrightarrow> links_distinct s \<and> capabilities_distinct s \<and> attachments_fit s \<and> telemetry_records s = []"

lemma hide_links_distinct [simp]:
  "links_distinct (hide_topics t) = links_distinct t" "links_distinct (hide_map t) = links_distinct t"
  "links_distinct (hide_logs t) = links_distinct t" "links_distinct (hide_eams t) = links_distinct t"
  "links_distinct (hide_skills t) = links_distinct t"
  "links_distinct (t\<lparr>clients := x\<rparr>) = links_distinct t"
  "links_distinct (t\<lparr>mission_access_assignments := y\<rparr>) = links_distinct t"
  by (simp_all add: hide_topics_def hide_map_def hide_logs_def hide_eams_def hide_skills_def links_distinct_def)

lemma hide_attachments_fit [simp]:
  "attachments_fit (hide_map t) = attachments_fit t" "attachments_fit (hide_missions t) = attachments_fit t"
  "attachments_fit (hide_logs t) = attachments_fit t" "attachments_fit (hide_teams t) = attachments_fit t"
  "attachments_fit (hide_eams t) = attachments_fit t" "attachments_fit (hide_assets t) = attachments_fit t"
  "attachments_fit (hide_skills t) = attachments_fit t" "attachments_fit (hide_assignments t) = attachments_fit t"
  "attachments_fit (hide_checklists t) = attachments_fit t"
  "attachments_fit (t\<lparr>clients := x\<rparr>) = attachments_fit t"
  "attachments_fit (t\<lparr>mission_access_assignments := y\<rparr>) = attachments_fit t"
  by (simp_all add: hide_map_def hide_missions_def hide_logs_def hide_teams_def hide_eams_def hide_assets_def hide_skills_def hide_assignments_def hide_checklists_def attachments_fit_def)

lemma distinct_links_simps [simp]:
  "distinct l \<Longrightarrow> distinct (hs_remove x l)" "distinct l \<Longrightarrow> distinct (hs_retain p l)"
  by (simp_all add: hs_remove_def hs_retain_def distinct_removeAll)

lemma links_distinct_simps [simp]:
  "links_distinct (s\<lparr>missions := a\<rparr>) = links_distinct s" "links_distinct (s\<lparr>next_uuid := n\<rparr>) = links_distinct s"
  "links_distinct (s\<lparr>teams := b\<rparr>) = links_distinct s" "links_distinct (s\<lparr>team_members := c\<rparr>) = links_distinct s"
  "links_distinct (s\<lparr>team_member_skills := d\<rparr>) = links_distinct s" "links_distinct (s\<lparr>assets := e\<rparr>) = links_distinct s"
  "links_distinct (s\<lparr>assignments := f\<rparr>) = links_distinct s" "links_distinct (s\<lparr>mission_changes := g\<rparr>) = links_distinct s"
  "links_distinct (s\<lparr>audit_events := i\<rparr>) = links_distinct s"
  "links_distinct s \<Longrightarrow> distinct l \<Longrightarrow> links_distinct (s\<lparr>mission_team_links := l\<rparr>)"
  "links_distinct s \<Longrightarrow> distinct l \<Longrightarrow> links_distinct (s\<lparr>mission_zone_links := l\<rparr>)"
  "links_distinct s \<Longrightarrow> distinct l \<Longrightarrow> links_distinct (s\<lparr>mission_marker_links := l\<rparr>)"
  "links_distinct s \<Longrightarrow> distinct l \<Longrightarrow> links_distinct (s\<lparr>team_member_client_links := l\<rparr>)"
  "links_distinct s \<Longrightarrow> distinct l \<Longrightarrow> links_distinct (s\<lparr>assignment_asset_links := l\<rparr>)"
  by (simp_all add: links_distinct_def)

lemma links_distinctD:
  assumes "links_distinct s"
  shows "distinct (mission_team_links s)" "distinct (mission_zone_links s)" "distinct (mission_marker_links s)"
    "distinct (team_member_client_links s)" "distinct (assignment_asset_links s)"
  using assms by (simp_all add: links_distinct_def)

lemma links_distinct_fresh: "links_distinct r \<Longrightarrow> or_new_uuid h r x = (u, t) \<Longrightarrow> links_distinct t"
  by (auto dest!: or_new_uuid_frame)

subsection \<open>The commands keep the links distinct\<close>

lemma links_distinct_missions:
  assumes "links_distinct s" shows "leaves links_distinct (apply_registry_mission_command h c s)"
  unfolding apply_registry_mission_command_def apply_registry_mission_marker_command_def
    link_mission_zone_def unlink_mission_zone_def link_mission_marker_def unlink_mission_marker_def
    upsert_mission_from_args_def patch_mission_from_args_def delete_mission_from_args_def
    set_mission_parent_from_args_def set_mission_rde_def touch_mission_def modify_mission_def Let_def
  by (intro keeps) (auto dest: links_distinct_fresh [OF assms] simp: assms links_distinctD [OF assms])

lemma links_distinct_set_team [simp]:
  "links_distinct s \<Longrightarrow> links_distinct (set_team_mission_links u us s)"
  unfolding set_team_mission_links_def by (simp add: links_distinctD)

lemma links_distinct_refs [keeps]: "links_distinct s \<Longrightarrow> leaves links_distinct (update_team_mission_refs h u us s)"
  unfolding update_team_mission_refs_def Let_def by (intro keeps) (simp_all add: links_distinctD)

lemma links_distinct_refresh [keeps]: "links_distinct s \<Longrightarrow> leaves links_distinct (refresh_team_member_clients h u s)"
  unfolding refresh_team_member_clients_def Let_def by (intro keeps) simp_all

lemma links_distinct_teams:
  assumes "links_distinct s" shows "leaves links_distinct (apply_registry_team_command h c s)"
  unfolding apply_registry_team_command_def upsert_team_from_args_def delete_team_from_args_def
    link_team_mission_from_args_def unlink_team_mission_from_args_def Let_def
  by (intro keeps) (auto dest: links_distinct_fresh [OF assms] simp: assms links_distinctD [OF assms])

lemma links_distinct_members:
  assumes "links_distinct s" shows "leaves links_distinct (apply_registry_team_member_command h c s)"
  unfolding apply_registry_team_member_command_def upsert_team_member_from_args_def
    delete_team_member_from_args_def link_team_member_client_from_args_def
    unlink_team_member_client_from_args_def Let_def
  by (intro keeps) (auto dest: links_distinct_fresh [OF assms] simp: assms links_distinctD [OF assms])

lemma links_distinct_change [simp]:
  "links_distinct s \<Longrightarrow> links_distinct (record_mission_change h c change s)"
  by (simp add: record_mission_change_def record_audit_event_def new_uuid_def Let_def)

lemma links_distinct_emit [simp]:
  "links_distinct s \<Longrightarrow> links_distinct (emit_auto_asset_mission_changes h c us ev ty a s)"
  by (induction h c us ev ty a s rule: emit_auto_asset_mission_changes.induct)
     (simp_all add: new_uuid_def Let_def)

lemma links_distinct_assets:
  assumes "links_distinct s" shows "leaves links_distinct (apply_registry_asset_command h c s)"
proof -
  have "leaves links_distinct (upsert_asset_from_args h args s)" for args
    unfolding upsert_asset_from_args_def Let_def
    by (intro keeps) (auto dest: links_distinct_fresh [OF assms] simp: assms)
  moreover have "leaves links_distinct (delete_asset u s)" for u
    unfolding delete_asset_def Let_def by (intro keeps) (simp_all add: assms links_distinctD)
  ultimately show ?thesis
    unfolding apply_registry_asset_command_def Let_def by (intro keeps) (simp_all add: assms)
qed

lemma links_distinct_set_assignment [simp]:
  "links_distinct s \<Longrightarrow> links_distinct (set_assignment_asset_links u us s)"
  unfolding set_assignment_asset_links_def by (simp add: links_distinctD)

lemma links_distinct_put [keeps]:
  "links_distinct s \<Longrightarrow> leaves links_distinct (put_assignment_assets u f s)"
  unfolding put_assignment_assets_def Let_def by (intro keeps) simp_all

lemma links_distinct_assignments:
  assumes "links_distinct s" shows "leaves links_distinct (apply_registry_assignment_command h c s)"
  unfolding apply_registry_assignment_command_def upsert_assignment_from_args_def
    emit_auto_assignment_mission_change_def set_assignment_assets_def link_assignment_asset_def
    unlink_assignment_asset_def new_uuid_def Let_def
  by (intro keeps) (auto dest: links_distinct_fresh [OF assms] simp: assms links_distinctD [OF assms])

interpretation checklist_links: checklist_aside links_distinct
  by unfold_locales (simp_all add: links_distinct_def)

lemma links_distinct_checklists: "links_distinct s \<Longrightarrow> leaves links_distinct (apply_checklist_command h c s)"
  by (rule checklist_links.aside_command)
     (auto simp: delete_checklist_def Let_def links_distinct_def intro!: keeps)

lemma attachments_fit_topics: "attachments_fit s \<Longrightarrow> leaves attachments_fit (apply_topic_command h c s)"
  unfolding apply_topic_command_def create_topic_from_args_def patch_topic_from_args_def
    delete_topic_from_args_def subscribe_def patch_subscriber_from_args_def
    delete_subscriber_from_args_def record_message_def Let_def
  by (intro keeps) (auto dest!: or_new_uuid_frame simp: result_eqs attachments_fit_def split: option.splits)

lemma attachments_fit_message:
  "attachments_fit s \<Longrightarrow> leaves attachments_fit (record_message h mid content topic dest sender s)"
  unfolding record_message_def Let_def
  by (intro keeps) (auto simp: result_eqs attachments_fit_def split: option.splits)

subsection \<open>Every step keeps the sets\<close>

definition lists_ok :: "rch_core \<Rightarrow> bool" where
  "lists_ok s \<longleftrightarrow> links_distinct s \<and> attachments_fit s"

lemma links_distinct_others:
  assumes "links_distinct s"
  shows "leaves links_distinct (apply_client_event_command h c s)" "leaves links_distinct (apply_marker_command h c s)"
    "leaves links_distinct (apply_zone_command h c s)" "leaves links_distinct (apply_registry_log_command h c s)"
    "leaves links_distinct (apply_registry_eam_command h c s)" "leaves links_distinct (apply_registry_skill_command h c s)"
    "leaves links_distinct (apply_registry_rights_command h c s)" "leaves links_distinct (apply_topic_command h c s)"
    "leaves links_distinct (record_message h mid content topic dest sender s)"
  using assms
  by (rule frame_clients [rotated] frame_markers [rotated] frame_zones [rotated] frame_logs [rotated]
        frame_eams [rotated] frame_skills [rotated] frame_rights [rotated] frame_topics [rotated]
        frame_message [rotated]; simp)+

lemma attachments_fit_others:
  assumes "attachments_fit s"
  shows "leaves attachments_fit (apply_client_event_command h c s)" "leaves attachments_fit (apply_marker_command h c s)"
    "leaves attachments_fit (apply_zone_command h c s)" "leaves attachments_fit (apply_registry_mission_command h c s)"
    "leaves attachments_fit (apply_registry_log_command h c s)" "leaves attachments_fit (apply_registry_eam_command h c s)"
    "leaves attachments_fit (apply_registry_team_command h c s)"
    "leaves attachments_fit (apply_registry_team_member_command h c s)"
    "leaves attachments_fit (apply_registry_asset_command h c s)"
    "leaves attachments_fit (apply_registry_skill_command h c s)"
    "leaves attachments_fit (apply_registry_assignment_command h c s)"
    "leaves attachments_fit (apply_registry_rights_command h c s)"
    "leaves attachments_fit (apply_checklist_command h c s)"
  using assms
  by (rule frame_clients [rotated] frame_markers [rotated] frame_zones [rotated] frame_missions [rotated]
        frame_logs [rotated] frame_eams [rotated] frame_teams [rotated] frame_members [rotated]
        frame_assets [rotated] frame_skills [rotated] frame_assignments [rotated] frame_rights [rotated]
        frame_checklists [rotated]; simp)+

lemma leaves_lists_ok: "leaves links_distinct m \<Longrightarrow> leaves attachments_fit m \<Longrightarrow> leaves lists_ok m"
  by (simp add: leaves_def lists_ok_def)

lemma lists_ok_rem: "lists_ok s \<Longrightarrow> leaves lists_ok (apply_rem_registry_command h c s)"
  using rem_command_frame [of s h c]
  by (auto simp: leaves_def only_modes_def lists_ok_def links_distinct_def attachments_fit_def)

lemma lists_ok_checklists: "lists_ok s \<Longrightarrow> leaves lists_ok (apply_checklist_command h c s)"
  by (intro leaves_lists_ok links_distinct_checklists attachments_fit_others) (simp_all add: lists_ok_def)

lemma lists_ok_others:
  assumes "lists_ok s"
  shows "leaves lists_ok (apply_client_event_command h c s)" "leaves lists_ok (apply_marker_command h c s)"
    "leaves lists_ok (apply_zone_command h c s)" "leaves lists_ok (apply_registry_mission_command h c s)"
    "leaves lists_ok (apply_registry_log_command h c s)" "leaves lists_ok (apply_registry_eam_command h c s)"
    "leaves lists_ok (apply_registry_team_command h c s)" "leaves lists_ok (apply_registry_team_member_command h c s)"
    "leaves lists_ok (apply_registry_asset_command h c s)" "leaves lists_ok (apply_registry_skill_command h c s)"
    "leaves lists_ok (apply_registry_assignment_command h c s)" "leaves lists_ok (apply_registry_rights_command h c s)"
    "leaves lists_ok (apply_topic_command h c s)"
    "leaves lists_ok (record_message h mid content topic dest sender s)"
proof -
  have "links_distinct s" "attachments_fit s" using assms by (simp_all add: lists_ok_def)
  note keep = links_distinct_others [OF this(1)] attachments_fit_others [OF this(2)]
    links_distinct_missions [OF this(1)] links_distinct_teams [OF this(1)] links_distinct_members [OF this(1)]
    links_distinct_assets [OF this(1)] links_distinct_assignments [OF this(1)]
    attachments_fit_topics [OF this(2)] attachments_fit_message [OF this(2)]
  show "leaves lists_ok (apply_client_event_command h c s)" "leaves lists_ok (apply_marker_command h c s)"
    "leaves lists_ok (apply_zone_command h c s)" "leaves lists_ok (apply_registry_mission_command h c s)"
    "leaves lists_ok (apply_registry_log_command h c s)" "leaves lists_ok (apply_registry_eam_command h c s)"
    "leaves lists_ok (apply_registry_team_command h c s)" "leaves lists_ok (apply_registry_team_member_command h c s)"
    "leaves lists_ok (apply_registry_asset_command h c s)" "leaves lists_ok (apply_registry_skill_command h c s)"
    "leaves lists_ok (apply_registry_assignment_command h c s)" "leaves lists_ok (apply_registry_rights_command h c s)"
    "leaves lists_ok (apply_topic_command h c s)"
    "leaves lists_ok (record_message h mid content topic dest sender s)"
    by (rule leaves_lists_ok; rule keep)+
qed

lemma lists_ok_command:
  assumes "lists_ok s" shows "leaves lists_ok (apply_command h c s)"
proof -
  have "leaves lists_ok (run_component component h c s)" for component
    using assms
    by (cases component) (simp_all add: lists_ok_rem lists_ok_others, intro keeps lists_ok_checklists)
  with assms show ?thesis unfolding apply_command_def by (intro keeps)
qed

lemma sets_ok_eq:
  "sets_ok s \<longleftrightarrow> lists_ok s \<and> capabilities_distinct s \<and> telemetry_records s = []"
  by (auto simp: sets_ok_def lists_ok_def)

lemma sets_ok_trusted:
  assumes "leaves lists_ok m" and "leaves (\<lambda>t. trusted t = trusted s) m" and "sets_ok s"
  shows "leaves sets_ok m"
  using assms by (simp add: leaves_def sets_ok_eq trusted_def capabilities_distinct_def)

lemma sets_ok_update:
  "sets_ok (s\<lparr>audit_events := b\<rparr>) = sets_ok s" "sets_ok (s\<lparr>next_uuid := n\<rparr>) = sets_ok s"
  "sets_ok (s\<lparr>command_results := r\<rparr>) = sets_ok s" "sets_ok (s\<lparr>authorization_required := m\<rparr>) = sets_ok s"
  "sets_ok (s\<lparr>team_members := tm\<rparr>) = sets_ok s" "sets_ok (s\<lparr>mission_access_assignments := ac\<rparr>) = sets_ok s"
  "sets_ok (s\<lparr>identity_announces := an\<rparr>) = sets_ok s" "sets_ok (s\<lparr>identity_states := st\<rparr>) = sets_ok s"
  "sets_ok (s\<lparr>identity_rem_modes := rm\<rparr>) = sets_ok s" "sets_ok (s\<lparr>subject_operation_rights := ri\<rparr>) = sets_ok s"
  by (simp_all add: sets_ok_def links_distinct_def capabilities_distinct_def attachments_fit_def)

lemma sets_ok_capabilities:
  assumes "sets_ok s"
  shows "sets_ok (grant_identity_capability i c s)" "sets_ok (fst (revoke_identity_capability i c s))"
proof -
  have put: "sets_ok (s\<lparr>identity_capabilities := m\<rparr>)"
    if "\<And>k cs. hm_get m k = Some cs \<Longrightarrow> distinct cs" for m
    using assms that by (simp add: sets_ok_def links_distinct_def capabilities_distinct_def attachments_fit_def)
  have old: "hm_get (identity_capabilities s) k = Some cs \<Longrightarrow> distinct cs" for k cs
    using assms by (simp add: sets_ok_def capabilities_distinct_def)
  then have "distinct (capabilities_of s k)" for k
    by (cases "hm_get (identity_capabilities s) k") (simp_all add: capabilities_of_def)
  with old show "sets_ok (grant_identity_capability i c s)"
    using assms by (auto simp: grant_identity_capability_def intro!: put split: option.split if_splits)
  from old show "sets_ok (fst (revoke_identity_capability i c s))"
    using assms
    by (auto simp: revoke_identity_capability_def Let_def intro!: put split: option.split if_splits)
qed

interpretation set_runs: run_invariant sets_ok parse
proof unfold_locales
  fix h :: host and s :: rch_core and c
  assume ok: "sets_ok s"
  then have lists: "lists_ok s" by (simp add: sets_ok_eq)
  show "leaves sets_ok (apply_command h c s)"
    by (rule sets_ok_trusted [OF lists_ok_command [OF lists] command_trusted ok])
  show "leaves sets_ok (apply_checklist_command h c s)"
    by (rule sets_ok_trusted [OF lists_ok_checklists [OF lists] checklist_command_trusted ok])
  show "leaves sets_ok (apply_rem_registry_command h c s)"
    by (rule sets_ok_trusted [OF lists_ok_rem [OF lists] rem_command_trusted ok])
next
  fix h :: host and s :: rch_core and mid content topic sender
  assume ok: "sets_ok s"
  then show "leaves sets_ok (record_message h mid content topic None sender s)"
    by (intro sets_ok_trusted [OF _ _ ok] lists_ok_others frame_message) (simp_all add: sets_ok_eq)
next
  fix h :: host and s :: rch_core and d ai n src caps
  assume "sets_ok s" then show "leaves sets_ok (record_identity_announce h d ai n src caps s)"
    unfolding record_identity_announce_def Let_def by (intro keeps) (simp_all add: sets_ok_update)
next
  fix h :: host and s :: rch_core and a
  assume "sets_ok s" then show "leaves sets_ok (upsert_team_member_from_identity_announce h a s)"
    unfolding upsert_team_member_from_identity_announce_def Let_def by (intro keeps) (simp_all add: sets_ok_update)
next
  fix h :: host and s :: rch_core and i b k
  assume "sets_ok s" then show "leaves sets_ok (set_identity_state h i b k s)"
    unfolding set_identity_state_def Let_def by (intro keeps) (simp_all add: sets_ok_update)
next
  fix h :: host and s :: rch_core and i mode
  assume "sets_ok s" then show "leaves sets_ok (set_identity_rem_mode h i mode s)"
    unfolding set_identity_rem_mode_def Let_def by (intro keeps) (simp_all add: sets_ok_update)
next
  fix s :: rch_core and u ty i r
  assume "sets_ok s" then show "leaves sets_ok (assign_mission_access_role u ty i r s)"
    unfolding assign_mission_access_role_def Let_def by (intro keeps) (simp_all add: sets_ok_update)
next
  fix h :: host and s :: rch_core and ty i op sc si g
  assume "sets_ok s" then show "leaves sets_ok (upsert_operation_right h ty i op sc si g s)"
    unfolding upsert_operation_right_def Let_def
    by (intro keeps) (auto dest!: or_new_uuid_frame simp: sets_ok_update)
qed (simp_all add: sets_ok_update sets_ok_capabilities, simp add: sets_ok_def links_distinct_def
      capabilities_distinct_def attachments_fit_def new_core_def hm_contains_def)

subsection \<open>A sound state can be inserted row by row\<close>

lemma distinct_sorted [simp]: "distinct (map f (sort_key g xs)) = distinct (map f xs)"
  by (simp add: distinct_map)

lemma own_keys_sort [simp]: "own_keys pk columns (sort_key g xs) = own_keys pk columns xs"
  by (simp add: own_keys_def)

lemma own_keys_nil [simp]: "own_keys [] columns xs"
  by (simp add: own_keys_def)

lemma distinct_keys_of:
  assumes "hm_wf m" and "\<forall>(k, v) \<in> set m. f v = g k" and "inj g"
  shows "distinct (map f (hm_values m))"
proof -
  have "map f (hm_values m) = map g (map fst m)"
    using assms(2) by (auto simp: hm_values_def)
  moreover have "inj_on g (set (map fst m))" using assms(3) by (rule inj_on_subset) simp
  ultimately show ?thesis using assms(1) by (simp only: hm_wf_def distinct_map [of g])
qed

lemma own_keys_stored:
  assumes "stored key m"
    and "\<And>r r'. row_key pk (columns r) = row_key pk (columns r') \<Longrightarrow> key r = key r'"
  shows "own_keys pk columns (hm_values m)"
proof (rule own_keys_by [OF _ assms(2)])
  show "distinct (map key (hm_values m))"
    using assms(1) by (intro distinct_keys_of [where g = "\<lambda>k. k"]) (auto simp: stored_def list_all_iff)
qed


lemma own_keys_links:
  assumes "distinct links" and "\<And>p p'. row_key pk (columns (f p)) = row_key pk (columns (f p')) \<Longrightarrow> p = p'"
  shows "own_keys pk columns (map f links)"
proof -
  have "inj_on (\<lambda>p. row_key pk (columns (f p))) (set links)" using assms(2) by (intro inj_onI) blast
  with assms(1) show ?thesis by (simp add: own_keys_def distinct_map comp_def)
qed

lemma distinct_capabilities:
  "hm_wf m \<Longrightarrow> \<forall>(k, cs) \<in> set m. distinct cs \<Longrightarrow> distinct (concat (map (\<lambda>(k, cs). map (Pair k) cs) m))"
  by (induction m) (auto simp: hm_wf_def distinct_map inj_on_def, force)

lemma capability_keys:
  assumes "sets_ok s" and "hm_wf (identity_capabilities s)"
  shows "own_keys [''identity'', ''capability''] capability_columns (identity_capability_grant_records s)"
proof -
  let ?pairs = "concat (map (\<lambda>(k, cs). map (Pair k) cs) (identity_capabilities s))"
  let ?grant = "\<lambda>(i, c). \<lparr>cg_identity = i, cg_capability = c\<rparr>"
  have "distinct ?pairs"
    using assms by (intro distinct_capabilities) (auto simp: sets_ok_def capabilities_distinct_def hm_get_iff_in)
  then have "own_keys [''identity'', ''capability''] capability_columns (map ?grant ?pairs)"
    by (rule own_keys_links) (auto simp: table_columns key_columns)
  moreover have "map ?grant ?pairs = concat (map (\<lambda>(identity, capabilities).
      map (\<lambda>capability. \<lparr>cg_identity = identity, cg_capability = capability\<rparr>) capabilities) (identity_capabilities s))"
    by (simp add: map_concat comp_def case_prod_unfold)
  ultimately show ?thesis by (simp add: identity_capability_grant_records_def)
qed


lemma client_keys:
  assumes "hm_wf (clients s)" and "list_all (\<lambda>(k, c). normalize_hash (Some (cl_identity c)) = Some k) (clients s)"
  shows "own_keys [''identity''] client_columns (list_clients s)"
proof -
  have "distinct (map (\<lambda>c. normalize_hash (Some (cl_identity c))) (hm_values (clients s)))"
    using assms by (intro distinct_keys_of [where g = Some]) (auto simp: list_all_iff)
  then show ?thesis
    unfolding listed_tables own_keys_sort by (rule own_keys_by) (simp add: table_columns key_columns)
qed

lemma attachment_ids:
  assumes "attachments_fit s" and "stored fa_file_id (file_attachments s)"
  shows "list_all (\<lambda>r. fa_file_id r \<le> i64_max) (list_file_attachments s)"
proof -
  have "fa_file_id r \<le> i64_max" if "(k, r) \<in> set (file_attachments s)" for k r
    using assms that by (fastforce simp: stored_def list_all_iff attachments_fit_def hm_contains_def hm_get_iff_in)
  then show ?thesis by (auto simp: listed_tables list_all_iff hm_values_def)
qed

lemma link_keys:
  assumes "links_distinct s"
  shows "own_keys [''mission_uid'', ''team_uid''] team_link_columns (mission_team_link_records s)"
    "own_keys [''mission_uid'', ''zone_id''] zone_link_columns (mission_zone_link_records s)"
    "own_keys [''mission_uid'', ''marker_id''] marker_link_columns (mission_marker_link_records s)"
    "own_keys [''team_member_uid'', ''client_identity''] client_link_columns (team_member_client_link_records s)"
    "own_keys [''assignment_uid'', ''asset_uid''] asset_link_columns (assignment_asset_link_records s)"
  unfolding mission_team_link_records_def mission_zone_link_records_def mission_marker_link_records_def
    team_member_client_link_records_def assignment_asset_link_records_def own_keys_sort
  using links_distinctD [OF assms]
  by (auto intro!: own_keys_links simp: table_columns key_columns)

lemma insertable_snapshot:
  assumes "storable h s" and "sets_ok s"
  shows "insertable (snapshot s)"
proof -
  note S = assms(1) [unfolded storable_def] and keys = table_columns key_columns
  have links: "links_distinct s" and files: "attachments_fit s" using assms(2) by (simp_all add: sets_ok_def)
  show ?thesis
    unfolding insertable_def
    by (intro conjI; simp add: snapshot_def S client_keys attachment_ids files link_keys links capability_keys assms(2);
        (unfold listed_tables own_keys_sort)?;
        (rule own_keys_stored, insert S, elim conjE, assumption, simp add: keys subscriber_key_of_def
           member_skill_key_def requirement_key_def access_key_def right_key_def)?)
qed


subsection \<open>What is saved is loaded\<close>

lemma holds_loaded:
  assumes "storable h s" and "sets_ok s" and "holds db (snapshot s)"
    and "setting_value ''authorization_required'' db = Some ''true'' \<longleftrightarrow> authorization_required s"
  shows "snapshot_of s (load_snapshot_rows True db)"
proof -
  note S = snapshot_of_snapshot [OF assms(1)]
  have tel: "sn_telemetry_records (snapshot s) = []" "telemetry_records s = []"
    using assms(2) by (simp_all add: sets_ok_def snapshot_def)
  then have "load_latest_telemetry_records db = []"
    using assms(3) by (simp add: holds_def load_latest_telemetry_records_def)
  then show ?thesis
    using assms(3,4) S tel
    by (simp add: snapshot_of_def holds_def load_snapshot_rows_def rows_of_def distinct_load_rows)
qed

lemma load_rows_empty [simp]: "(load_payload_rows ob (table_of columns rs) = []) = (rs = [])"
  by (metis set_load_rows set_empty)

lemma loaded_empty:
  assumes "sn_telemetry_records sn = []" and "holds db sn"
    and "setting_value ''authorization_required'' db = Some ''true'' \<longleftrightarrow> sn_authorization_required sn"
  shows "snapshot_is_empty (load_snapshot_rows True db) = snapshot_is_empty sn"
  using assms
  by (simp add: snapshot_is_empty_def holds_def load_snapshot_rows_def load_latest_telemetry_records_def)

theorem store_round_trip:
  assumes "storable h s" and "sets_ok s"
  shows "\<exists>db'. save_to_sqlite s db = Inr db' \<and>
    (if snapshot_is_empty (snapshot s) then load_from_sqlite h db' = Inr None
     else \<exists>t. load_from_sqlite h db' = Inr (Some t) \<and> same_tables s t)"
proof -
  obtain db' where saved: "save_snapshot (snapshot s) db = Inr db'" and held: "holds db' (snapshot s)"
    and auth: "setting_value ''authorization_required'' db' = Some ''true'' \<longleftrightarrow> authorization_required s"
    using save_snapshot_holds [OF insertable_snapshot [OF assms], of db]
    by (auto simp: snapshot_def)
  have empty: "snapshot_is_empty (load_snapshot_rows True db') = snapshot_is_empty (snapshot s)"
    using assms(2) auth by (intro loaded_empty held) (simp_all add: snapshot_def sets_ok_def)
  from from_snapshot_rows [OF assms(1) holds_loaded [OF assms held auth]]
  show ?thesis
    using saved empty by (auto simp: save_to_sqlite_def load_from_sqlite_def load_snapshot_def Let_def)
qed

end
