(* ===== verification/Restart.thy ===== *)
theory Restart
  imports Durability "HOL-Library.Multiset"
begin

text \<open>
  A core started from what was saved is as sound as the core that saved it: its tables hold the same
  records in another order, and the invariants do not look at the order.
\<close>

definition sound :: "host \<Rightarrow> rch_core \<Rightarrow> bool" where
  "sound h s \<longleftrightarrow> core_ok h s \<and> tables_ok h s \<and> sets_ok s"

lemma soundD:
  assumes "sound h s" shows "core_ok h s" "tables_ok h s" "sets_ok s" "storable h s"
  using assms storable_if_sound by (simp_all add: sound_def)

lemma reachable_sound: "reachable (uuid_parse h) s \<Longrightarrow> uuid_canonical h \<Longrightarrow> sound h s"
  using reachable_core_ok reachable_tables_ok set_runs.inv_reachable by (simp add: sound_def)

subsection \<open>The tables of a loaded core\<close>

definition well_formed :: "rch_core \<Rightarrow> bool" where
  "well_formed s \<longleftrightarrow> hm_wf (topics s) \<and> hm_wf (subscribers s) \<and> hm_wf (clients s) \<and> hm_wf (identity_announces s)
     \<and> hm_wf (identity_states s) \<and> hm_wf (identity_rem_modes s) \<and> hm_wf (markers s) \<and> hm_wf (zones s)
     \<and> hm_wf (missions s) \<and> hm_wf (mission_changes s) \<and> hm_wf (log_entries s) \<and> hm_wf (file_attachments s)
     \<and> hm_wf (eam_snapshots s) \<and> hm_wf (teams s) \<and> hm_wf (team_members s) \<and> hm_wf (assets s) \<and> hm_wf (skills s)
     \<and> hm_wf (team_member_skills s) \<and> hm_wf (task_skill_requirements s) \<and> hm_wf (assignments s)
     \<and> hm_wf (checklists s) \<and> hm_wf (checklist_templates s) \<and> hm_wf (checklist_columns s)
     \<and> hm_wf (checklist_tasks s) \<and> hm_wf (checklist_cells s) \<and> hm_wf (checklist_feed_publications s)
     \<and> hm_wf (command_results s) \<and> hm_wf (identity_capabilities s) \<and> hm_wf (mission_access_assignments s)
     \<and> hm_wf (subject_operation_rights s) \<and> links_distinct s \<and> capabilities_distinct s
     \<and> (\<forall>k. hm_get (identity_capabilities s) k \<noteq> Some [])"

lemma load_links_distinct: "distinct (load_links pair xs)"
proof -
  have "distinct l \<Longrightarrow> distinct (fold (\<lambda>x s. hs_insert (pair x) s) xs l)" for l
    by (induction xs arbitrary: l) auto
  then show ?thesis by (simp add: load_links_def)
qed

lemma load_topics_wf: "load_topics h xs m = Inr m' \<Longrightarrow> hm_wf m \<Longrightarrow> hm_wf m'"
  by (induction h xs m rule: load_topics.induct) (auto simp: result_eqs split: if_splits)

lemma load_subscribers_wf: "load_subscribers h xs m = Inr m' \<Longrightarrow> hm_wf m \<Longrightarrow> hm_wf m'"
  by (induction h xs m rule: load_subscribers.induct) (auto simp: result_eqs split: if_splits)

lemma load_clients_wf: "hm_wf (load_clients xs)"
proof -
  have "hm_wf m \<Longrightarrow> hm_wf (fold (\<lambda>client m.
         case normalize_hash (Some (cl_identity client)) of
           None \<Rightarrow> m | Some identity \<Rightarrow> hm_insert identity client m) xs m)" for m
    by (induction xs arbitrary: m) (auto split: option.split)
  then show ?thesis by (simp add: load_clients_def)
qed

lemma grant_well_formed: "well_formed s \<Longrightarrow> well_formed (grant_identity_capability i c s)"
proof -
  assume ok: "well_formed s"
  then have "distinct (capabilities_of s k)" for k
    by (cases "hm_get (identity_capabilities s) k") (simp_all add: well_formed_def capabilities_distinct_def capabilities_of_def)
  moreover have "hs_insert c xs \<noteq> []" for xs by (auto simp: hs_insert_def)
  ultimately show ?thesis using ok
    by (auto simp: grant_identity_capability_def well_formed_def capabilities_distinct_def links_distinct_def
        split: option.split if_splits)
qed

lemma grants_well_formed: "well_formed s \<Longrightarrow> well_formed (grant_capabilities grants s)"
proof -
  assume "well_formed s"
  then have "well_formed (fold (\<lambda>grant. grant_identity_capability (cg_identity grant) (cg_capability grant)) grants s)"
    by (induction grants arbitrary: s) (simp_all add: grant_well_formed)
  then show ?thesis by (simp add: grant_capabilities_def)
qed

lemma from_snapshot_well_formed:
  assumes "from_snapshot h sn = Inr t" shows "well_formed t"
proof -
  from assms obtain ts subs where loaded: "load_topics h (sn_topics sn) [] = Inr ts"
      "load_subscribers h (sn_subscribers sn) [] = Inr subs"
    and t: "t = grant_capabilities (sn_identity_capabilities sn)
      (load_tables sn (new_core\<lparr>topics := ts, subscribers := subs\<rparr>))"
    by (auto simp: from_snapshot_def Let_def result_eqs)
  have "hm_wf ts" "hm_wf subs"
    using load_topics_wf [OF loaded(1)] load_subscribers_wf [OF loaded(2)] by simp_all
  then have "well_formed (load_tables sn (new_core\<lparr>topics := ts, subscribers := subs\<rparr>))"
    by (simp add: well_formed_def load_tables_def load_rows_wf load_clients_wf links_distinct_def
          load_links_distinct capabilities_distinct_def new_core_def)
  then show ?thesis unfolding t by (rule grants_well_formed)
qed

subsection \<open>The invariants do not look at the order of the records\<close>

lemma hm_contains_eqI: "hm_get m = hm_get m' \<Longrightarrow> hm_contains m = hm_contains m'"
  by (simp add: hm_contains_def fun_eq_iff)

lemma hm_values_mset:
  assumes "hm_wf m" "hm_wf m'" "hm_get m = hm_get m'"
  shows "mset (hm_values m) = mset (hm_values m')"
proof -
  have "(k, v) \<in> set m \<longleftrightarrow> (k, v) \<in> set m'" for k v
    using assms by (simp add: hm_get_iff_in [symmetric])
  then have "set m = set m'" by (simp add: set_eq_iff)
  moreover have "distinct m" "distinct m'" using assms(1,2) by (simp_all add: hm_wf_def distinct_map)
  ultimately have "mset m = mset m'" by (simp add: set_eq_iff_mset_eq_distinct)
  then show ?thesis by (simp add: hm_values_def)
qed

lemma sort_map_filter_eq:
  assumes "set xs = set ys" "distinct xs" "distinct ys"
  shows "sort (map f (filter p xs)) = sort (map f (filter p ys))"
proof -
  have "mset xs = mset ys" using assms by (simp add: set_eq_iff_mset_eq_distinct)
  then have "mset (map f (filter p xs)) = mset (map f (filter p ys))" by simp
  then show ?thesis by (metis sorted_list_of_multiset_mset)
qed

lemma tally_mset:
  assumes "mset xs = mset ys" shows "tally_of xs = tally_of ys"
proof -
  have "length (filter p xs) = length (filter p ys)" for p
    using assms by (metis size_mset mset_filter)
  moreover have "set xs = set ys" using assms by (rule mset_eq_setD)
  ultimately show ?thesis by (simp add: tally_counts)
qed

lemma sound_same_tables:
  assumes ok: "sound h s" and same: "same_tables s t" and wf: "well_formed t"
  shows "sound h t"
proof -
  note S = same [unfolded same_tables_def] and W = wf [unfolded well_formed_def]
  note C = core_okD [OF soundD(1) [OF ok]] and T = tables_okD [OF soundD(2) [OF ok]]
  have wf_s: "hm_wf (checklist_tasks s)" using C(14) by (simp add: checklists_but_def rows_ok_def)
  have links_s: "links_distinct s" using ok by (simp add: sound_def sets_ok_def)
  have clients: "team_member_client_ids t u = team_member_client_ids s u" for u
    unfolding team_member_client_ids_def using S links_s W
    by (intro sort_map_filter_eq) (simp_all add: links_distinct_def)
  have "mset (tasks_of_checklist t u) = mset (tasks_of_checklist s u)" for u
    using hm_values_mset [of "checklist_tasks t" "checklist_tasks s"] S W wf_s
    by (simp add: tasks_of_checklist_def)
  then have tally: "tally_of (tasks_of_checklist t u) = tally_of (tasks_of_checklist s u)" for u
    by (rule tally_mset)
  note contains = hm_contains_eqI [of "topics t" "topics s"] hm_contains_eqI [of "missions t" "missions s"]
    hm_contains_eqI [of "teams t" "teams s"] hm_contains_eqI [of "team_members t" "team_members s"]
    hm_contains_eqI [of "assets t" "assets s"] hm_contains_eqI [of "skills t" "skills s"]
    hm_contains_eqI [of "checklists t" "checklists s"] hm_contains_eqI [of "checklist_tasks t" "checklist_tasks s"]
    hm_contains_eqI [of "file_attachments t" "file_attachments s"]
  have "core_ok h t"
    unfolding core_ok_def
  proof (intro conjI)
    show "roster_ok t" using C(1) S W by (simp add: roster_ok_def)
    show "subscribers_ok h t" using C(2) S W by (simp add: subscribers_ok_def)
    show "subscriptions_have_topics t" using C(3) S W contains by (simp add: subscriptions_have_topics_def)
    show "map_objects_ok t" using C(4) S W by (simp add: map_objects_ok_def)
    show "missions_ok t" using C(5) S W contains
      by (simp add: missions_ok_def keyed_by_def mission_forest_def parents_def)
    show "logs_ok t" using C(6) S W contains by (simp add: logs_ok_def)
    show "teams_ok t" using C(7) S W contains by (simp add: teams_ok_def team_ok_def known_mission_eq)
    show "members_ok t" using C(8) S W contains clients by (simp add: members_ok_def member_ok_def)
    show "assets_ok t" using C(9) S W contains by (simp add: assets_ok_def asset_ok_def)
    show "skills_ok t" using C(10) S W contains by (simp add: skills_ok_def keyed_by_def)
    show "assignments_ok t" using C(11) S W contains
      by (simp add: assignments_ok_def assignment_ok_def links_agree_def)
    show "access_ok t" using C(12) S W by (simp add: access_ok_def)
    show "eams_ok t" using C(13) S W by (simp add: eams_ok_def)
    show "checklists_ok t" using C(14) S W contains tally
      by (simp add: checklists_but_def rows_ok_def task_ok_def summary_ok_def)
  qed
  moreover have "normalize_hash (Some k) = Some k" if "hm_contains (identity_capabilities t) k" for k
  proof -
    from that W have "capability_set t k \<noteq> {}"
      by (auto simp: hm_contains_def capability_set_def capabilities_of_def)
    then have "capability_set s k \<noteq> {}" using S by simp
    then have "hm_contains (identity_capabilities s) k"
      by (cases "hm_get (identity_capabilities s) k") (auto simp: hm_contains_def capability_set_def capabilities_of_def)
    with T(3) show ?thesis by (simp add: admin_ok_def)
  qed
  then have "tables_ok h t"
    using T S W contains
    by (simp add: tables_ok_def topic_table_def library_ok_def admin_ok_def attachments_ok_def stored_keyed keyed_by_def)
  moreover have "sets_ok t"
    using soundD(3) [OF ok] S W contains by (simp add: sets_ok_def attachments_fit_def)
  ultimately show ?thesis by (simp add: sound_def)
qed


subsection \<open>A database that stores a core\<close>

definition stores :: "host \<Rightarrow> rch_database \<Rightarrow> rch_core \<Rightarrow> bool" where
  "stores h db s \<longleftrightarrow> sound h s \<and> holds db (snapshot s)
     \<and> (setting_value ''authorization_required'' db = Some ''true'' \<longleftrightarrow> authorization_required s)"

lemma sound_new: "sound h new_core"
  using core_ok_new tables_ok_new set_runs.inv_new by (simp add: sound_def)

lemma new_core_snapshot: "snapshot new_core = \<lparr>sn_topics = [], sn_subscribers = [], sn_messages = [], sn_clients = [],
    sn_identity_announces = [], sn_identity_states = [], sn_identity_rem_modes = [], sn_audit_events = [],
    sn_system_events = [], sn_telemetry_records = [], sn_markers = [], sn_zones = [], sn_missions = [],
    sn_mission_changes = [], sn_log_entries = [], sn_file_attachments = [], sn_eam_snapshots = [], sn_teams = [],
    sn_mission_team_links = [], sn_mission_zone_links = [], sn_mission_marker_links = [], sn_team_members = [],
    sn_team_member_client_links = [], sn_assets = [], sn_skills = [], sn_team_member_skills = [],
    sn_task_skill_requirements = [], sn_assignments = [], sn_assignment_asset_links = [], sn_checklists = [],
    sn_checklist_templates = [], sn_checklist_columns = [], sn_checklist_tasks = [], sn_checklist_cells = [],
    sn_checklist_feed_publications = [], sn_command_results = [], sn_identity_capabilities = [],
    sn_mission_access_assignments = [], sn_subject_operation_rights = [], sn_authorization_required = False\<rparr>"
  by (simp add: snapshot_def listed_tables new_core_def hm_values_def mission_team_link_records_def
        mission_zone_link_records_def mission_marker_link_records_def team_member_client_link_records_def
        assignment_asset_link_records_def identity_capability_grant_records_def)

lemma stores_empty: "stores h empty_database new_core"
  by (simp add: stores_def sound_new holds_def new_core_snapshot empty_database_def setting_value_def)
     (simp add: new_core_def)

lemma sort_nil [simp]: "(sort_key f xs = []) = (xs = [])"
  by (metis length_0_conv length_sort)

lemma no_values: "(hm_values m = []) = (m = [])"
  by (simp add: hm_values_def)

lemma empty_snapshot_tables:
  assumes "snapshot_is_empty (snapshot s)" shows "same_tables s new_core"
proof -
  have "\<forall>(k, cs) \<in> set (identity_capabilities s). cs = []"
    using assms by (auto simp: snapshot_is_empty_def snapshot_def identity_capability_grant_records_def)
  then have none: "hm_get (identity_capabilities s) k = Some cs \<Longrightarrow> cs = []" for k cs
    by (auto simp: hm_get_def dest!: map_of_SomeD)
  have "capability_set s k = {}" for k
    using none [of k] by (cases "hm_get (identity_capabilities s) k") (simp_all add: capability_set_def capabilities_of_def)
  then have "capability_set s = (\<lambda>_. {})" by (simp add: fun_eq_iff)
  then show ?thesis
    using assms
    by (simp add: snapshot_is_empty_def snapshot_def listed_tables no_values same_tables_def new_core_def
          mission_team_link_records_def mission_zone_link_records_def mission_marker_link_records_def
          team_member_client_link_records_def assignment_asset_link_records_def capability_set_def [abs_def] capabilities_of_def)
qed


lemma save_stores:
  assumes "sound h s" shows "\<exists>db'. save_to_sqlite s db = Inr db' \<and> stores h db' s"
  using save_snapshot_holds [OF insertable_snapshot [OF soundD(4) [OF assms] soundD(3) [OF assms]], of db] assms
  by (auto simp: save_to_sqlite_def stores_def snapshot_def)

text \<open>The core a hub starts with: the one in its store, an empty one if the store has none.\<close>

definition start_core :: "host \<Rightarrow> rch_database \<Rightarrow> rch_core result" where
  "start_core h db = and_then (load_from_sqlite h db) (\<lambda>loaded. Inr (unwrap_or loaded new_core))"

lemma start_stored:
  assumes "stores h db s"
  shows "\<exists>t. start_core h db = Inr t \<and> same_tables s t \<and> sound h t"
proof -
  have ok: "sound h s" and held: "holds db (snapshot s)"
    and auth: "setting_value ''authorization_required'' db = Some ''true'' \<longleftrightarrow> authorization_required s"
    using assms by (simp_all add: stores_def)
  have empty: "snapshot_is_empty (load_snapshot_rows True db) = snapshot_is_empty (snapshot s)"
    using soundD(3) [OF ok] auth by (intro loaded_empty held) (simp_all add: snapshot_def sets_ok_def)
  show ?thesis
  proof (cases "snapshot_is_empty (snapshot s)")
    case True
    then show ?thesis
      using empty empty_snapshot_tables sound_new
      by (auto simp: start_core_def load_from_sqlite_def load_snapshot_def Let_def)
  next
    case False
    obtain t where t: "from_snapshot h (load_snapshot_rows True db) = Inr t" "same_tables s t"
      using from_snapshot_rows [OF soundD(4) [OF ok] holds_loaded [OF soundD(4) [OF ok] soundD(3) [OF ok] held auth]]
      by blast
    moreover from t have "sound h t"
      using from_snapshot_well_formed by (intro sound_same_tables [OF ok])
    ultimately show ?thesis
      using False empty by (simp add: start_core_def load_from_sqlite_def load_snapshot_def Let_def)
  qed
qed

end
