(* ===== verification/Delta_Rules.thy ===== *)
theory Delta_Rules
  imports Deltas Restart
begin

text \<open>
  Saving a delta leaves a table with the rows of the snapshot after, when the table had the rows of
  the snapshot before and no two keys of them have the same text.
\<close>

subsection \<open>Texts of keys\<close>

definition key_texts :: "string list \<Rightarrow> sql_columns \<Rightarrow> string list" where
  "key_texts primary_key columns = map (\<lambda>n. sql_key_text (sql_cell columns n)) primary_key"

definition separable :: "string list \<Rightarrow> ('v \<Rightarrow> sql_columns) \<Rightarrow> 'v list \<Rightarrow> bool" where
  "separable primary_key columns records \<longleftrightarrow> length primary_key = 1 \<or>
     list_all (\<lambda>r. list_all (\<lambda>t. CHR 0x1F \<notin> set t) (key_texts primary_key (columns r))) records"

lemma join_separated:
  assumes "length xs = length ys" and "list_all (\<lambda>t. d \<notin> set t) xs" and "list_all (\<lambda>t. d \<notin> set t) ys"
    and "join [d] xs = join [d] ys"
  shows "xs = ys"
  using assms
proof (induction xs ys rule: list_induct2)
  case (Cons x xs y ys)
  have split: "takeWhile (\<lambda>c. c \<noteq> d) (z @ d # w) = z" "dropWhile (\<lambda>c. c \<noteq> d) (z @ d # w) = d # w"
    if "d \<notin> set z" for z w
    using that by (auto simp: takeWhile_append dropWhile_append)
  show ?case
  proof (cases xs)
    case Nil
    with Cons show ?thesis by simp
  next
    case (Cons x' xs')
    then obtain y' ys' where ys: "ys = y' # ys'" using Cons.hyps by (cases ys) auto
    have eq: "x @ d # join [d] xs = y @ d # join [d] ys" using Cons.prems(3) Cons ys by simp
    have clean: "d \<notin> set x" "d \<notin> set y" using Cons.prems(1,2) by simp_all
    have "x = y" "join [d] xs = join [d] ys"
      using split [OF clean(1), of "join [d] xs"] split [OF clean(2), of "join [d] ys"] eq by simp_all
    then show ?thesis using Cons.IH Cons.prems(1,2) by simp
  qed
qed simp

definition rows_match :: "string list \<Rightarrow> ('v \<Rightarrow> sql_columns) \<Rightarrow> 'v sql_table \<Rightarrow> 'v list \<Rightarrow> bool" where
  "rows_match primary_key columns table records \<longleftrightarrow>
     (\<exists>rs. table = table_of columns rs \<and> own_keys primary_key columns rs \<and> set rs = set records)"

lemma rows_match_table: "own_keys pk columns rs \<Longrightarrow> rows_match pk columns (table_of columns rs) rs"
  by (auto simp: rows_match_def)

lemma rows_match_loaded: "rows_match pk columns table records \<Longrightarrow> set (load_payload_rows ob table) = set records"
  unfolding rows_match_def by (metis set_load_rows)

lemma separable_single: "separable [k] columns records"
  by (simp add: separable_def)

lemma separable_append: "separable pk columns (xs @ ys) \<longleftrightarrow> separable pk columns xs \<and> separable pk columns ys"
  by (auto simp: separable_def)

lemma separable_set: "set xs = set ys \<Longrightarrow> separable pk columns xs = separable pk columns ys"
  by (simp add: separable_def list_all_iff)

subsection \<open>A table saved by deltas\<close>

locale payload_table =
  fixes primary_key :: "string list" and key_columns columns :: "'v \<Rightarrow> sql_columns"
  assumes some_key: "primary_key \<noteq> []"
    and keys_first: "key_columns r = map (\<lambda>n. (n, sql_cell (columns r) n)) primary_key"
    and text_cells: "n \<in> set primary_key \<Longrightarrow> \<exists>t. sql_cell (columns r) n = SqlText t"
begin

definition key :: "'v \<Rightarrow> sql_value list" where "key r = row_key primary_key (columns r)"

lemma key_text: "sql_key_string (key_columns r) = join [CHR 0x1F] (key_texts primary_key (columns r))"
  by (simp add: sql_key_string_def keys_first key_texts_def comp_def case_prod_unfold)

lemma key_of_texts:
  assumes "key_texts primary_key (columns r) = key_texts primary_key (columns r')"
  shows "key r = key r'"
proof -
  have "sql_cell (columns r) n = sql_cell (columns r') n" if "n \<in> set primary_key" for n
    using that assms text_cells [OF that, of r] text_cells [OF that, of r'] by (auto simp: key_texts_def)
  then show ?thesis by (simp add: key_def row_key_def)
qed

lemma distinguished:
  assumes "separable primary_key columns records" and "r \<in> set records" "r' \<in> set records"
    and "sql_key_string (key_columns r) = sql_key_string (key_columns r')"
  shows "key r = key r'"
proof (cases "length primary_key = 1")
  case True
  with assms(4) show ?thesis
    by (intro key_of_texts) (auto simp: key_text key_texts_def length_Suc_conv)
next
  case False
  with assms have "list_all (\<lambda>t. CHR 0x1F \<notin> set t) (key_texts primary_key (columns r))"
    "list_all (\<lambda>t. CHR 0x1F \<notin> set t) (key_texts primary_key (columns r'))"
    by (simp_all add: separable_def list_all_iff)
  moreover have "length (key_texts primary_key (columns r)) = length (key_texts primary_key (columns r'))"
    by (simp add: key_texts_def)
  ultimately show ?thesis
    using assms(4) by (intro key_of_texts join_separated [where d = "CHR 0x1F"]) (simp_all add: key_text)
qed

lemma same_row_key: "same_row primary_key (columns r) (columns r') \<longleftrightarrow> key r = key r'"
proof -
  have "sql_cell (columns r) n \<noteq> SqlNull" if "n \<in> set primary_key" for n
    using text_cells [OF that, of r] by auto
  then show ?thesis using some_key by (auto simp: same_row_def key_def row_key_def)
qed

lemma matches_key: "row_matches (key_columns r) (columns r') \<longleftrightarrow> key r = key r'"
proof -
  have "sql_cell (columns r) n \<noteq> SqlNull" if "n \<in> set primary_key" for n
    using text_cells [OF that, of r] by auto
  then show ?thesis
    by (auto simp: row_matches_def keys_first list_all_iff key_def row_key_def)
qed

lemma own_keys_key: "own_keys primary_key columns records \<longleftrightarrow> distinct (map key records)"
  using some_key by (simp add: own_keys_def key_def [abs_def])

lemma delete_rows:
  "fold (\<lambda>(k, cols) table. if P k then table else delete_payload_row cols table) entries (table_of columns rs)
     = table_of columns (filter (\<lambda>r. \<not> (\<exists>(k, cols) \<in> set entries. \<not> P k \<and> row_matches cols (columns r))) rs)"
proof (induction entries arbitrary: rs)
  case (Cons e entries)
  obtain k cols where e: "e = (k, cols)" by (cases e)
  have "sql_delete cols (table_of columns rs) = table_of columns (filter (\<lambda>r. \<not> row_matches cols (columns r)) rs)"
    by (induction rs) (simp_all add: sql_delete_def)
  then show ?case by (auto simp: e Cons delete_payload_row_def intro!: arg_cong [where f = "table_of columns"] filter_cong)
qed simp

lemma upsert_rows:
  assumes "distinct (map key after)"
  shows "fold (\<lambda>r. upsert_payload_row primary_key (columns r) r) after (table_of columns rs)
    = table_of columns (filter (\<lambda>r. key r \<notin> key ` set after) rs @ after)"
  using assms
proof (induction after arbitrary: rs)
  case (Cons a after)
  have "sql_replace primary_key (columns a) a (table_of columns rs) =
      table_of columns (filter (\<lambda>r. key r \<noteq> key a) rs @ [a])"
    by (induction rs) (auto simp: sql_replace_def same_row_key)
  moreover have "a # after = [a] @ after" by simp
  moreover have "filter (\<lambda>r. key r \<notin> key ` set after) (filter (\<lambda>r. key r \<noteq> key a) rs @ [a])
      = filter (\<lambda>r. key r \<notin> key ` set (a # after)) rs @ [a]"
    using Cons.prems by (auto intro: filter_cong)
  ultimately show ?case
    using Cons.IH [of "filter (\<lambda>r. key r \<noteq> key a) rs @ [a]"] Cons.prems
    by (simp only: fold_simps upsert_payload_row_def comp_apply append_assoc list.map distinct.simps simp_thms) simp
qed simp

lemma before_entries:
  fixes f :: "'v \<Rightarrow> string" and before :: "'v list"
  defines "entries \<equiv> fold (\<lambda>r. hm_insert (f r) (key_columns r)) before []"
  shows "(k, cols) \<in> set entries \<Longrightarrow> \<exists>b \<in> set before. k = f b \<and> cols = key_columns b"
    and "b \<in> set before \<Longrightarrow> \<exists>b' \<in> set before. f b' = f b \<and> (f b, key_columns b') \<in> set entries"
proof -
  have one: "(k, cols) \<in> set (fold (\<lambda>r. hm_insert (f r) (key_columns r)) bs m) \<Longrightarrow>
      hm_wf m \<Longrightarrow> (k, cols) \<in> set m \<or> (\<exists>b \<in> set bs. k = f b \<and> cols = key_columns b)" for k cols bs m
    by (induction bs arbitrary: m) (fastforce simp: hm_get_iff_in [symmetric] split: if_splits)+
  from one [of k cols before "[]"] show "(k, cols) \<in> set entries \<Longrightarrow> \<exists>b \<in> set before. k = f b \<and> cols = key_columns b"
    by (simp add: entries_def)
  have wf: "hm_wf (fold (\<lambda>r. hm_insert (f r) (key_columns r)) bs m)" if "hm_wf m" for bs m
    using that by (induction bs arbitrary: m) auto
  have two: "hm_contains (fold (\<lambda>r. hm_insert (f r) (key_columns r)) bs m) (f b)"
    if "b \<in> set bs \<or> hm_contains m (f b)" for b bs m
    using that by (induction bs arbitrary: m) auto
  assume b: "b \<in> set before"
  then obtain cols where "hm_get entries (f b) = Some cols" using two [of b before "[]"] by (auto simp: entries_def hm_contains_def)
  then have "(f b, cols) \<in> set entries" using wf [of "[]" before] by (simp add: entries_def hm_get_iff_in)
  moreover from this obtain b' where "b' \<in> set before" "f b = f b'" "cols = key_columns b'"
    using one [of "f b" cols before "[]"] by (auto simp: entries_def)
  ultimately show "\<exists>b' \<in> set before. f b' = f b \<and> (f b, key_columns b') \<in> set entries" by metis
qed

theorem delta_saved:
  assumes "set rs = set before" and "own_keys primary_key columns rs" and "own_keys primary_key columns after"
    and "separable primary_key columns (before @ after)"
  shows "save_payload_delta primary_key key_columns columns before after (table_of columns rs)
    = table_of columns after"
proof -
  let ?f = "\<lambda>r. sql_key_string (key_columns r)"
  let ?entries = "fold (\<lambda>r. hm_insert (?f r) (key_columns r)) before []"
  let ?gone = "\<lambda>r. \<exists>(k, cols) \<in> set ?entries. k \<notin> ?f ` set after \<and> row_matches cols (columns r)"
  have same: "key r = key r'" if "r \<in> set before \<union> set after" "r' \<in> set before \<union> set after" "?f r = ?f r'" for r r'
    using distinguished [OF assms(4), of r r'] that by simp
  have kept: "key r \<in> key ` set after" if r: "r \<in> set rs" "\<not> ?gone r" for r
  proof -
    have b: "r \<in> set before" using r(1) assms(1) by simp
    obtain b' where b': "b' \<in> set before" "?f b' = ?f r" "(?f r, key_columns b') \<in> set ?entries"
      using before_entries(2) [OF b, of ?f] by blast
    then have "row_matches (key_columns b') (columns r)" using same [of b' r] b by (simp add: matches_key)
    with b'(3) r(2) have "?f r \<in> ?f ` set after" by blast
    then show ?thesis using same b by blast
  qed
  then have none: "filter (\<lambda>r. key r \<notin> key ` set after) (filter (\<lambda>r. \<not> ?gone r) rs) = []"
    unfolding filter_empty_conv filter_filter by blast
  show ?thesis
    using upsert_rows [of after "filter (\<lambda>r. \<not> ?gone r) rs"] assms(3) none
    by (simp add: save_payload_delta_def delete_rows own_keys_key image_image [symmetric] del: filter_filter)
qed

corollary delta_matched:
  assumes "rows_match primary_key columns table before" and "own_keys primary_key columns after"
    and "separable primary_key columns before" and "separable primary_key columns after"
  shows "save_payload_delta primary_key key_columns columns before after table = table_of columns after"
  using assms delta_saved by (auto simp: rows_match_def separable_append)

end

subsection \<open>The tables the deltas write\<close>

interpretation marker_table: payload_table "[''object_destination_hash'']" "marker_columns" marker_columns
  by unfold_locales (auto simp: marker_columns_def sql_cell_def)

interpretation zone_table: payload_table "[''zone_id'']" "zone_columns" zone_columns
  by unfold_locales (auto simp: zone_columns_def sql_cell_def)

interpretation mission_table: payload_table "[''uid'']" "mission_columns" mission_columns
  by unfold_locales (auto simp: mission_columns_def sql_cell_def)

interpretation mission_change_table: payload_table "[''uid'']" "(\<lambda>r. [(''uid'', SqlText (mc_uid r))])" mission_change_columns
  by unfold_locales (auto simp: mission_change_columns_def sql_cell_def)

interpretation log_entry_table: payload_table "[''entry_uid'']" "log_entry_columns" log_entry_columns
  by unfold_locales (auto simp: log_entry_columns_def sql_cell_def)

interpretation eam_table: payload_table "[''eam_uid'']" "(\<lambda>r. [(''eam_uid'', SqlText (ea_eam_uid r))])" eam_columns
  by unfold_locales (auto simp: eam_columns_def sql_cell_def)

interpretation team_table: payload_table "[''uid'']" "team_columns" team_columns
  by unfold_locales (auto simp: team_columns_def sql_cell_def)

interpretation team_link_table: payload_table "[''mission_uid'', ''team_uid'']" "team_link_columns" team_link_columns
  by unfold_locales (auto simp: team_link_columns_def sql_cell_def)

interpretation zone_link_table: payload_table "[''mission_uid'', ''zone_id'']" "zone_link_columns" zone_link_columns
  by unfold_locales (auto simp: zone_link_columns_def sql_cell_def)

interpretation marker_link_table: payload_table "[''mission_uid'', ''marker_id'']" "marker_link_columns" marker_link_columns
  by unfold_locales (auto simp: marker_link_columns_def sql_cell_def)

interpretation member_table: payload_table "[''uid'']" "member_columns" member_columns
  by unfold_locales (auto simp: member_columns_def sql_cell_def)

interpretation client_link_table: payload_table "[''team_member_uid'', ''client_identity'']" "client_link_columns" client_link_columns
  by unfold_locales (auto simp: client_link_columns_def sql_cell_def)

interpretation asset_table: payload_table "[''asset_uid'']" "asset_columns" asset_columns
  by unfold_locales (auto simp: asset_columns_def sql_cell_def)

interpretation skill_table: payload_table "[''skill_uid'']" "skill_columns" skill_columns
  by unfold_locales (auto simp: skill_columns_def sql_cell_def)

interpretation member_skill_table: payload_table "[''team_member_rns_identity'', ''skill_uid'']" "member_skill_columns" member_skill_columns
  by unfold_locales (auto simp: member_skill_columns_def sql_cell_def)

interpretation requirement_table: payload_table "[''task_uid'', ''skill_uid'']" "requirement_columns" requirement_columns
  by unfold_locales (auto simp: requirement_columns_def sql_cell_def)

interpretation assignment_table: payload_table "[''assignment_uid'']" "(\<lambda>r. [(''assignment_uid'', SqlText (an_assignment_uid r))])" assignment_columns
  by unfold_locales (auto simp: assignment_columns_def sql_cell_def)

interpretation asset_link_table: payload_table "[''assignment_uid'', ''asset_uid'']" "asset_link_columns" asset_link_columns
  by unfold_locales (auto simp: asset_link_columns_def sql_cell_def)

interpretation capability_table: payload_table "[''identity'', ''capability'']" "capability_columns" capability_columns
  by unfold_locales (auto simp: capability_columns_def sql_cell_def)

interpretation access_table: payload_table "[''mission_uid'', ''subject_type'', ''subject_id'']" "access_columns" access_columns
  by unfold_locales (auto simp: access_columns_def sql_cell_def)

interpretation right_table: payload_table "[''subject_type'', ''subject_id'', ''operation'', ''scope_type'', ''scope_id'']" "right_columns" right_columns
  by unfold_locales (auto simp: right_columns_def sql_cell_def)

interpretation checklist_row_table: payload_table "[''uid'']" "checklist_row_columns" checklist_row_columns
  by unfold_locales (auto simp: checklist_row_columns_def sql_cell_def)

interpretation template_table: payload_table "[''uid'']" "template_columns" template_columns
  by unfold_locales (auto simp: template_columns_def sql_cell_def)

interpretation checklist_column_table: payload_table "[''column_uid'']" "(\<lambda>r. [(''column_uid'', SqlText (cc_column_uid r))])" checklist_column_columns
  by unfold_locales (auto simp: checklist_column_columns_def sql_cell_def)

interpretation task_table: payload_table "[''task_uid'']" "(\<lambda>r. [(''task_uid'', SqlText (tk_task_uid r))])" task_columns
  by unfold_locales (auto simp: task_columns_def sql_cell_def)

interpretation cell_table: payload_table "[''cell_uid'']" "(\<lambda>r. [(''cell_uid'', SqlText (ce_cell_uid r))])" cell_columns
  by unfold_locales (auto simp: cell_columns_def sql_cell_def)

interpretation publication_table: payload_table "[''publication_uid'']" "(\<lambda>r. [(''publication_uid'', SqlText (pb_publication_uid r))])" publication_columns
  by unfold_locales (auto simp: publication_columns_def sql_cell_def)

text \<open>The rows of a snapshot in the tables a registry command may change, and in those it may only read.\<close>

definition registry_rows :: "rch_database \<Rightarrow> rch_core_snapshot \<Rightarrow> bool" where
  "registry_rows db sn \<longleftrightarrow>
     rows_match [''object_destination_hash''] marker_columns (db_markers db) (sn_markers sn)
     \<and> rows_match [''zone_id''] zone_columns (db_zones db) (sn_zones sn)
     \<and> rows_match [''uid''] mission_columns (db_missions db) (sn_missions sn)
     \<and> rows_match [''uid''] mission_change_columns (db_mission_changes db) (sn_mission_changes sn)
     \<and> rows_match [''entry_uid''] log_entry_columns (db_log_entries db) (sn_log_entries sn)
     \<and> rows_match [''eam_uid''] eam_columns (db_eam_snapshots db) (sn_eam_snapshots sn)
     \<and> rows_match [''uid''] team_columns (db_teams db) (sn_teams sn)
     \<and> rows_match [''mission_uid'', ''team_uid''] team_link_columns (db_mission_team_links db) (sn_mission_team_links sn)
     \<and> rows_match [''mission_uid'', ''zone_id''] zone_link_columns (db_mission_zone_links db) (sn_mission_zone_links sn)
     \<and> rows_match [''mission_uid'', ''marker_id''] marker_link_columns (db_mission_marker_links db) (sn_mission_marker_links sn)
     \<and> rows_match [''uid''] member_columns (db_team_members db) (sn_team_members sn)
     \<and> rows_match [''team_member_uid'', ''client_identity''] client_link_columns (db_team_member_client_links db) (sn_team_member_client_links sn)
     \<and> rows_match [''asset_uid''] asset_columns (db_assets db) (sn_assets sn)
     \<and> rows_match [''skill_uid''] skill_columns (db_skills db) (sn_skills sn)
     \<and> rows_match [''team_member_rns_identity'', ''skill_uid''] member_skill_columns (db_team_member_skills db) (sn_team_member_skills sn)
     \<and> rows_match [''task_uid'', ''skill_uid''] requirement_columns (db_task_skill_requirements db) (sn_task_skill_requirements sn)
     \<and> rows_match [''assignment_uid''] assignment_columns (db_assignments db) (sn_assignments sn)
     \<and> rows_match [''assignment_uid'', ''asset_uid''] asset_link_columns (db_assignment_asset_links db) (sn_assignment_asset_links sn)
     \<and> rows_match [''identity'', ''capability''] capability_columns (db_identity_capabilities db) (sn_identity_capabilities sn)
     \<and> rows_match [''mission_uid'', ''subject_type'', ''subject_id''] access_columns (db_mission_access_assignments db) (sn_mission_access_assignments sn)
     \<and> rows_match [''subject_type'', ''subject_id'', ''operation'', ''scope_type'', ''scope_id''] right_columns (db_subject_operation_rights db) (sn_subject_operation_rights sn)"

definition other_rows :: "rch_database \<Rightarrow> rch_core_snapshot \<Rightarrow> bool" where
  "other_rows db sn \<longleftrightarrow>
     rows_match [''topic_id''] topic_columns (db_topics db) (sn_topics sn)
     \<and> rows_match [''node_id'', ''topic_id''] subscriber_columns (db_subscribers db) (sn_subscribers sn)
     \<and> rows_match [''identity''] client_columns (db_clients db) (sn_clients sn)
     \<and> rows_match [''destination_hash''] announce_columns (db_identity_announces db) (sn_identity_announces sn)
     \<and> rows_match [''identity''] identity_state_columns (db_identity_states db) (sn_identity_states sn)
     \<and> rows_match [''identity''] rem_mode_columns (db_identity_rem_modes db) (sn_identity_rem_modes sn)
     \<and> rows_match [''uid''] checklist_row_columns (db_checklists db) (sn_checklists sn)
     \<and> rows_match [''uid''] template_columns (db_checklist_templates db) (sn_checklist_templates sn)
     \<and> rows_match [''column_uid''] checklist_column_columns (db_checklist_columns db) (sn_checklist_columns sn)
     \<and> rows_match [''task_uid''] task_columns (db_checklist_tasks db) (sn_checklist_tasks sn)
     \<and> rows_match [''cell_uid''] cell_columns (db_checklist_cells db) (sn_checklist_cells sn)
     \<and> rows_match [''publication_uid''] publication_columns (db_checklist_feed_publications db) (sn_checklist_feed_publications sn)"

definition separable_snapshot :: "rch_core_snapshot \<Rightarrow> bool" where
  "separable_snapshot sn \<longleftrightarrow>
     separable [''mission_uid'', ''team_uid''] team_link_columns (sn_mission_team_links sn)
     \<and> separable [''mission_uid'', ''zone_id''] zone_link_columns (sn_mission_zone_links sn)
     \<and> separable [''mission_uid'', ''marker_id''] marker_link_columns (sn_mission_marker_links sn)
     \<and> separable [''team_member_uid'', ''client_identity''] client_link_columns (sn_team_member_client_links sn)
     \<and> separable [''team_member_rns_identity'', ''skill_uid''] member_skill_columns (sn_team_member_skills sn)
     \<and> separable [''task_uid'', ''skill_uid''] requirement_columns (sn_task_skill_requirements sn)
     \<and> separable [''assignment_uid'', ''asset_uid''] asset_link_columns (sn_assignment_asset_links sn)
     \<and> separable [''identity'', ''capability''] capability_columns (sn_identity_capabilities sn)
     \<and> separable [''mission_uid'', ''subject_type'', ''subject_id''] access_columns (sn_mission_access_assignments sn)
     \<and> separable [''subject_type'', ''subject_id'', ''operation'', ''scope_type'', ''scope_id''] right_columns (sn_subject_operation_rights sn)"

lemma audit_appended:
  "save_payload_delta [] audit_event_columns audit_event_columns [] after table = table @ table_of audit_event_columns after"
proof -
  have "fold (\<lambda>r. upsert_payload_row [] (audit_event_columns r) r) after table = table @ table_of audit_event_columns after" for table
    by (induction after arbitrary: table) (simp_all add: upsert_payload_row_def sql_replace_def same_row_def case_prod_unfold)
  then show ?thesis by (simp add: save_payload_delta_def)
qed

text \<open>A delta writes its tables and no other.\<close>

lemmas delta_defs = save_r3akt_command_delta_def save_registry_delta_tables_def save_skill_assignment_delta_tables_def
  save_authorization_delta_tables_def save_audit_event_delta_tables_def

lemma delta_writes:
  "db_markers (save_r3akt_command_delta before after db) = save_payload_delta [''object_destination_hash'']
     marker_columns marker_columns (sn_markers before) (sn_markers after) (db_markers db)"
  "db_zones (save_r3akt_command_delta before after db) = save_payload_delta [''zone_id'']
     zone_columns zone_columns (sn_zones before) (sn_zones after) (db_zones db)"
  "db_missions (save_r3akt_command_delta before after db) = save_payload_delta [''uid'']
     mission_columns mission_columns (sn_missions before) (sn_missions after) (db_missions db)"
  "db_mission_changes (save_r3akt_command_delta before after db) = save_payload_delta [''uid'']
     (\<lambda>r. [(''uid'', SqlText (mc_uid r))]) mission_change_columns (sn_mission_changes before) (sn_mission_changes after) (db_mission_changes db)"
  "db_log_entries (save_r3akt_command_delta before after db) = save_payload_delta [''entry_uid'']
     log_entry_columns log_entry_columns (sn_log_entries before) (sn_log_entries after) (db_log_entries db)"
  "db_eam_snapshots (save_r3akt_command_delta before after db) = save_payload_delta [''eam_uid'']
     (\<lambda>r. [(''eam_uid'', SqlText (ea_eam_uid r))]) eam_columns (sn_eam_snapshots before) (sn_eam_snapshots after) (db_eam_snapshots db)"
  "db_teams (save_r3akt_command_delta before after db) = save_payload_delta [''uid'']
     team_columns team_columns (sn_teams before) (sn_teams after) (db_teams db)"
  "db_mission_team_links (save_r3akt_command_delta before after db) = save_payload_delta [''mission_uid'', ''team_uid'']
     team_link_columns team_link_columns (sn_mission_team_links before) (sn_mission_team_links after) (db_mission_team_links db)"
  "db_mission_zone_links (save_r3akt_command_delta before after db) = save_payload_delta [''mission_uid'', ''zone_id'']
     zone_link_columns zone_link_columns (sn_mission_zone_links before) (sn_mission_zone_links after) (db_mission_zone_links db)"
  "db_mission_marker_links (save_r3akt_command_delta before after db) = save_payload_delta [''mission_uid'', ''marker_id'']
     marker_link_columns marker_link_columns (sn_mission_marker_links before) (sn_mission_marker_links after) (db_mission_marker_links db)"
  "db_team_members (save_r3akt_command_delta before after db) = save_payload_delta [''uid'']
     member_columns member_columns (sn_team_members before) (sn_team_members after) (db_team_members db)"
  "db_team_member_client_links (save_r3akt_command_delta before after db) = save_payload_delta [''team_member_uid'', ''client_identity'']
     client_link_columns client_link_columns (sn_team_member_client_links before) (sn_team_member_client_links after) (db_team_member_client_links db)"
  "db_assets (save_r3akt_command_delta before after db) = save_payload_delta [''asset_uid'']
     asset_columns asset_columns (sn_assets before) (sn_assets after) (db_assets db)"
  "db_skills (save_r3akt_command_delta before after db) = save_payload_delta [''skill_uid'']
     skill_columns skill_columns (sn_skills before) (sn_skills after) (db_skills db)"
  "db_team_member_skills (save_r3akt_command_delta before after db) = save_payload_delta [''team_member_rns_identity'', ''skill_uid'']
     member_skill_columns member_skill_columns (sn_team_member_skills before) (sn_team_member_skills after) (db_team_member_skills db)"
  "db_task_skill_requirements (save_r3akt_command_delta before after db) = save_payload_delta [''task_uid'', ''skill_uid'']
     requirement_columns requirement_columns (sn_task_skill_requirements before) (sn_task_skill_requirements after) (db_task_skill_requirements db)"
  "db_assignments (save_r3akt_command_delta before after db) = save_payload_delta [''assignment_uid'']
     (\<lambda>r. [(''assignment_uid'', SqlText (an_assignment_uid r))]) assignment_columns (sn_assignments before) (sn_assignments after) (db_assignments db)"
  "db_assignment_asset_links (save_r3akt_command_delta before after db) = save_payload_delta [''assignment_uid'', ''asset_uid'']
     asset_link_columns asset_link_columns (sn_assignment_asset_links before) (sn_assignment_asset_links after) (db_assignment_asset_links db)"
  "db_identity_capabilities (save_r3akt_command_delta before after db) = save_payload_delta [''identity'', ''capability'']
     capability_columns capability_columns (sn_identity_capabilities before) (sn_identity_capabilities after) (db_identity_capabilities db)"
  "db_mission_access_assignments (save_r3akt_command_delta before after db) = save_payload_delta [''mission_uid'', ''subject_type'', ''subject_id'']
     access_columns access_columns (sn_mission_access_assignments before) (sn_mission_access_assignments after) (db_mission_access_assignments db)"
  "db_subject_operation_rights (save_r3akt_command_delta before after db) = save_payload_delta [''subject_type'', ''subject_id'', ''operation'', ''scope_type'', ''scope_id'']
     right_columns right_columns (sn_subject_operation_rights before) (sn_subject_operation_rights after) (db_subject_operation_rights db)"
  "db_audit_events (save_r3akt_command_delta before after db) = save_payload_delta []
     audit_event_columns audit_event_columns (sn_audit_events before) (sn_audit_events after) (db_audit_events db)"
  by (simp_all add: delta_defs)

lemma delta_keeps:
  "db_topics (save_r3akt_command_delta before after db) = db_topics db"
  "db_subscribers (save_r3akt_command_delta before after db) = db_subscribers db"
  "db_messages (save_r3akt_command_delta before after db) = db_messages db"
  "db_clients (save_r3akt_command_delta before after db) = db_clients db"
  "db_identity_announces (save_r3akt_command_delta before after db) = db_identity_announces db"
  "db_identity_states (save_r3akt_command_delta before after db) = db_identity_states db"
  "db_identity_rem_modes (save_r3akt_command_delta before after db) = db_identity_rem_modes db"
  "db_system_events (save_r3akt_command_delta before after db) = db_system_events db"
  "db_telemetry_records (save_r3akt_command_delta before after db) = db_telemetry_records db"
  "db_file_attachments (save_r3akt_command_delta before after db) = db_file_attachments db"
  "db_checklists (save_r3akt_command_delta before after db) = db_checklists db"
  "db_checklist_templates (save_r3akt_command_delta before after db) = db_checklist_templates db"
  "db_checklist_columns (save_r3akt_command_delta before after db) = db_checklist_columns db"
  "db_checklist_tasks (save_r3akt_command_delta before after db) = db_checklist_tasks db"
  "db_checklist_cells (save_r3akt_command_delta before after db) = db_checklist_cells db"
  "db_checklist_feed_publications (save_r3akt_command_delta before after db) = db_checklist_feed_publications db"
  "db_settings (save_r3akt_command_delta before after db) = db_settings db"
  by (simp_all add: delta_defs)

lemma registry_rowsD:
  assumes "registry_rows db sn"
  shows "rows_match [''object_destination_hash''] marker_columns (db_markers db) (sn_markers sn)"
    "rows_match [''zone_id''] zone_columns (db_zones db) (sn_zones sn)"
    "rows_match [''uid''] mission_columns (db_missions db) (sn_missions sn)"
    "rows_match [''uid''] mission_change_columns (db_mission_changes db) (sn_mission_changes sn)"
    "rows_match [''entry_uid''] log_entry_columns (db_log_entries db) (sn_log_entries sn)"
    "rows_match [''eam_uid''] eam_columns (db_eam_snapshots db) (sn_eam_snapshots sn)"
    "rows_match [''uid''] team_columns (db_teams db) (sn_teams sn)"
    "rows_match [''mission_uid'', ''team_uid''] team_link_columns (db_mission_team_links db) (sn_mission_team_links sn)"
    "rows_match [''mission_uid'', ''zone_id''] zone_link_columns (db_mission_zone_links db) (sn_mission_zone_links sn)"
    "rows_match [''mission_uid'', ''marker_id''] marker_link_columns (db_mission_marker_links db) (sn_mission_marker_links sn)"
    "rows_match [''uid''] member_columns (db_team_members db) (sn_team_members sn)"
    "rows_match [''team_member_uid'', ''client_identity''] client_link_columns (db_team_member_client_links db) (sn_team_member_client_links sn)"
    "rows_match [''asset_uid''] asset_columns (db_assets db) (sn_assets sn)"
    "rows_match [''skill_uid''] skill_columns (db_skills db) (sn_skills sn)"
    "rows_match [''team_member_rns_identity'', ''skill_uid''] member_skill_columns (db_team_member_skills db) (sn_team_member_skills sn)"
    "rows_match [''task_uid'', ''skill_uid''] requirement_columns (db_task_skill_requirements db) (sn_task_skill_requirements sn)"
    "rows_match [''assignment_uid''] assignment_columns (db_assignments db) (sn_assignments sn)"
    "rows_match [''assignment_uid'', ''asset_uid''] asset_link_columns (db_assignment_asset_links db) (sn_assignment_asset_links sn)"
    "rows_match [''identity'', ''capability''] capability_columns (db_identity_capabilities db) (sn_identity_capabilities sn)"
    "rows_match [''mission_uid'', ''subject_type'', ''subject_id''] access_columns (db_mission_access_assignments db) (sn_mission_access_assignments sn)"
    "rows_match [''subject_type'', ''subject_id'', ''operation'', ''scope_type'', ''scope_id''] right_columns (db_subject_operation_rights db) (sn_subject_operation_rights sn)"
  using assms unfolding registry_rows_def by blast+

lemma insertable_registry:
  assumes "insertable sn"
  shows "own_keys [''object_destination_hash''] marker_columns (sn_markers sn)"
    "own_keys [''zone_id''] zone_columns (sn_zones sn)"
    "own_keys [''uid''] mission_columns (sn_missions sn)"
    "own_keys [''uid''] mission_change_columns (sn_mission_changes sn)"
    "own_keys [''entry_uid''] log_entry_columns (sn_log_entries sn)"
    "own_keys [''eam_uid''] eam_columns (sn_eam_snapshots sn)"
    "own_keys [''uid''] team_columns (sn_teams sn)"
    "own_keys [''mission_uid'', ''team_uid''] team_link_columns (sn_mission_team_links sn)"
    "own_keys [''mission_uid'', ''zone_id''] zone_link_columns (sn_mission_zone_links sn)"
    "own_keys [''mission_uid'', ''marker_id''] marker_link_columns (sn_mission_marker_links sn)"
    "own_keys [''uid''] member_columns (sn_team_members sn)"
    "own_keys [''team_member_uid'', ''client_identity''] client_link_columns (sn_team_member_client_links sn)"
    "own_keys [''asset_uid''] asset_columns (sn_assets sn)"
    "own_keys [''skill_uid''] skill_columns (sn_skills sn)"
    "own_keys [''team_member_rns_identity'', ''skill_uid''] member_skill_columns (sn_team_member_skills sn)"
    "own_keys [''task_uid'', ''skill_uid''] requirement_columns (sn_task_skill_requirements sn)"
    "own_keys [''assignment_uid''] assignment_columns (sn_assignments sn)"
    "own_keys [''assignment_uid'', ''asset_uid''] asset_link_columns (sn_assignment_asset_links sn)"
    "own_keys [''identity'', ''capability''] capability_columns (sn_identity_capabilities sn)"
    "own_keys [''mission_uid'', ''subject_type'', ''subject_id''] access_columns (sn_mission_access_assignments sn)"
    "own_keys [''subject_type'', ''subject_id'', ''operation'', ''scope_type'', ''scope_id''] right_columns (sn_subject_operation_rights sn)"
  using assms unfolding insertable_def by blast+

lemma separable_registry:
  assumes "separable_snapshot sn"
  shows "separable [''object_destination_hash''] marker_columns (sn_markers sn)"
    "separable [''zone_id''] zone_columns (sn_zones sn)"
    "separable [''uid''] mission_columns (sn_missions sn)"
    "separable [''uid''] mission_change_columns (sn_mission_changes sn)"
    "separable [''entry_uid''] log_entry_columns (sn_log_entries sn)"
    "separable [''eam_uid''] eam_columns (sn_eam_snapshots sn)"
    "separable [''uid''] team_columns (sn_teams sn)"
    "separable [''mission_uid'', ''team_uid''] team_link_columns (sn_mission_team_links sn)"
    "separable [''mission_uid'', ''zone_id''] zone_link_columns (sn_mission_zone_links sn)"
    "separable [''mission_uid'', ''marker_id''] marker_link_columns (sn_mission_marker_links sn)"
    "separable [''uid''] member_columns (sn_team_members sn)"
    "separable [''team_member_uid'', ''client_identity''] client_link_columns (sn_team_member_client_links sn)"
    "separable [''asset_uid''] asset_columns (sn_assets sn)"
    "separable [''skill_uid''] skill_columns (sn_skills sn)"
    "separable [''team_member_rns_identity'', ''skill_uid''] member_skill_columns (sn_team_member_skills sn)"
    "separable [''task_uid'', ''skill_uid''] requirement_columns (sn_task_skill_requirements sn)"
    "separable [''assignment_uid''] assignment_columns (sn_assignments sn)"
    "separable [''assignment_uid'', ''asset_uid''] asset_link_columns (sn_assignment_asset_links sn)"
    "separable [''identity'', ''capability''] capability_columns (sn_identity_capabilities sn)"
    "separable [''mission_uid'', ''subject_type'', ''subject_id''] access_columns (sn_mission_access_assignments sn)"
    "separable [''subject_type'', ''subject_id'', ''operation'', ''scope_type'', ''scope_id''] right_columns (sn_subject_operation_rights sn)"
  using assms by (simp_all only: separable_snapshot_def separable_single)

text \<open>What a delta leaves in the database.\<close>

lemma registry_delta_saved:
  assumes "registry_rows db before" and "insertable after"
    and "separable_snapshot before" and "separable_snapshot after"
  shows "db_markers (save_r3akt_command_delta before after db) = table_of marker_columns (sn_markers after)"
    "db_zones (save_r3akt_command_delta before after db) = table_of zone_columns (sn_zones after)"
    "db_missions (save_r3akt_command_delta before after db) = table_of mission_columns (sn_missions after)"
    "db_mission_changes (save_r3akt_command_delta before after db) = table_of mission_change_columns (sn_mission_changes after)"
    "db_log_entries (save_r3akt_command_delta before after db) = table_of log_entry_columns (sn_log_entries after)"
    "db_eam_snapshots (save_r3akt_command_delta before after db) = table_of eam_columns (sn_eam_snapshots after)"
    "db_teams (save_r3akt_command_delta before after db) = table_of team_columns (sn_teams after)"
    "db_mission_team_links (save_r3akt_command_delta before after db) = table_of team_link_columns (sn_mission_team_links after)"
    "db_mission_zone_links (save_r3akt_command_delta before after db) = table_of zone_link_columns (sn_mission_zone_links after)"
    "db_mission_marker_links (save_r3akt_command_delta before after db) = table_of marker_link_columns (sn_mission_marker_links after)"
    "db_team_members (save_r3akt_command_delta before after db) = table_of member_columns (sn_team_members after)"
    "db_team_member_client_links (save_r3akt_command_delta before after db) = table_of client_link_columns (sn_team_member_client_links after)"
    "db_assets (save_r3akt_command_delta before after db) = table_of asset_columns (sn_assets after)"
    "db_skills (save_r3akt_command_delta before after db) = table_of skill_columns (sn_skills after)"
    "db_team_member_skills (save_r3akt_command_delta before after db) = table_of member_skill_columns (sn_team_member_skills after)"
    "db_task_skill_requirements (save_r3akt_command_delta before after db) = table_of requirement_columns (sn_task_skill_requirements after)"
    "db_assignments (save_r3akt_command_delta before after db) = table_of assignment_columns (sn_assignments after)"
    "db_assignment_asset_links (save_r3akt_command_delta before after db) = table_of asset_link_columns (sn_assignment_asset_links after)"
    "db_identity_capabilities (save_r3akt_command_delta before after db) = table_of capability_columns (sn_identity_capabilities after)"
    "db_mission_access_assignments (save_r3akt_command_delta before after db) = table_of access_columns (sn_mission_access_assignments after)"
    "db_subject_operation_rights (save_r3akt_command_delta before after db) = table_of right_columns (sn_subject_operation_rights after)"
proof -
  note R = registry_rowsD [OF assms(1)] and I = insertable_registry [OF assms(2)]
    and B = separable_registry [OF assms(3)] and A = separable_registry [OF assms(4)]
  show "db_markers (save_r3akt_command_delta before after db) = table_of marker_columns (sn_markers after)"
    unfolding delta_writes by (rule marker_table.delta_matched [OF R(1) I(1) B(1) A(1)])
  show "db_zones (save_r3akt_command_delta before after db) = table_of zone_columns (sn_zones after)"
    unfolding delta_writes by (rule zone_table.delta_matched [OF R(2) I(2) B(2) A(2)])
  show "db_missions (save_r3akt_command_delta before after db) = table_of mission_columns (sn_missions after)"
    unfolding delta_writes by (rule mission_table.delta_matched [OF R(3) I(3) B(3) A(3)])
  show "db_mission_changes (save_r3akt_command_delta before after db) = table_of mission_change_columns (sn_mission_changes after)"
    unfolding delta_writes by (rule mission_change_table.delta_matched [OF R(4) I(4) B(4) A(4)])
  show "db_log_entries (save_r3akt_command_delta before after db) = table_of log_entry_columns (sn_log_entries after)"
    unfolding delta_writes by (rule log_entry_table.delta_matched [OF R(5) I(5) B(5) A(5)])
  show "db_eam_snapshots (save_r3akt_command_delta before after db) = table_of eam_columns (sn_eam_snapshots after)"
    unfolding delta_writes by (rule eam_table.delta_matched [OF R(6) I(6) B(6) A(6)])
  show "db_teams (save_r3akt_command_delta before after db) = table_of team_columns (sn_teams after)"
    unfolding delta_writes by (rule team_table.delta_matched [OF R(7) I(7) B(7) A(7)])
  show "db_mission_team_links (save_r3akt_command_delta before after db) = table_of team_link_columns (sn_mission_team_links after)"
    unfolding delta_writes by (rule team_link_table.delta_matched [OF R(8) I(8) B(8) A(8)])
  show "db_mission_zone_links (save_r3akt_command_delta before after db) = table_of zone_link_columns (sn_mission_zone_links after)"
    unfolding delta_writes by (rule zone_link_table.delta_matched [OF R(9) I(9) B(9) A(9)])
  show "db_mission_marker_links (save_r3akt_command_delta before after db) = table_of marker_link_columns (sn_mission_marker_links after)"
    unfolding delta_writes by (rule marker_link_table.delta_matched [OF R(10) I(10) B(10) A(10)])
  show "db_team_members (save_r3akt_command_delta before after db) = table_of member_columns (sn_team_members after)"
    unfolding delta_writes by (rule member_table.delta_matched [OF R(11) I(11) B(11) A(11)])
  show "db_team_member_client_links (save_r3akt_command_delta before after db) = table_of client_link_columns (sn_team_member_client_links after)"
    unfolding delta_writes by (rule client_link_table.delta_matched [OF R(12) I(12) B(12) A(12)])
  show "db_assets (save_r3akt_command_delta before after db) = table_of asset_columns (sn_assets after)"
    unfolding delta_writes by (rule asset_table.delta_matched [OF R(13) I(13) B(13) A(13)])
  show "db_skills (save_r3akt_command_delta before after db) = table_of skill_columns (sn_skills after)"
    unfolding delta_writes by (rule skill_table.delta_matched [OF R(14) I(14) B(14) A(14)])
  show "db_team_member_skills (save_r3akt_command_delta before after db) = table_of member_skill_columns (sn_team_member_skills after)"
    unfolding delta_writes by (rule member_skill_table.delta_matched [OF R(15) I(15) B(15) A(15)])
  show "db_task_skill_requirements (save_r3akt_command_delta before after db) = table_of requirement_columns (sn_task_skill_requirements after)"
    unfolding delta_writes by (rule requirement_table.delta_matched [OF R(16) I(16) B(16) A(16)])
  show "db_assignments (save_r3akt_command_delta before after db) = table_of assignment_columns (sn_assignments after)"
    unfolding delta_writes by (rule assignment_table.delta_matched [OF R(17) I(17) B(17) A(17)])
  show "db_assignment_asset_links (save_r3akt_command_delta before after db) = table_of asset_link_columns (sn_assignment_asset_links after)"
    unfolding delta_writes by (rule asset_link_table.delta_matched [OF R(18) I(18) B(18) A(18)])
  show "db_identity_capabilities (save_r3akt_command_delta before after db) = table_of capability_columns (sn_identity_capabilities after)"
    unfolding delta_writes by (rule capability_table.delta_matched [OF R(19) I(19) B(19) A(19)])
  show "db_mission_access_assignments (save_r3akt_command_delta before after db) = table_of access_columns (sn_mission_access_assignments after)"
    unfolding delta_writes by (rule access_table.delta_matched [OF R(20) I(20) B(20) A(20)])
  show "db_subject_operation_rights (save_r3akt_command_delta before after db) = table_of right_columns (sn_subject_operation_rights after)"
    unfolding delta_writes by (rule right_table.delta_matched [OF R(21) I(21) B(21) A(21)])
qed

lemma registry_delta_rows:
  assumes "registry_rows db before" and "insertable after"
    and "separable_snapshot before" and "separable_snapshot after"
  shows "registry_rows (save_r3akt_command_delta before after db) after"
    and "other_rows (save_r3akt_command_delta before after db) sn = other_rows db sn"
    and "setting_value k (save_r3akt_command_delta before after db) = setting_value k db"
proof -
  note I = insertable_registry [OF assms(2)]
  show "registry_rows (save_r3akt_command_delta before after db) after"
    unfolding registry_rows_def registry_delta_saved [OF assms] by (intro conjI rows_match_table I)
qed (simp_all add: other_rows_def setting_value_def delta_keeps)

end
