(* ===== verification/Framing.thy ===== *)
theory Framing
  imports Prelude Text
begin

text \<open>
  How the bridge and the RNS transport talk to \<open>reticulumd\<close>
  (\<open>crates/r3akt-rch-bridge/src/lib.rs\<close>; \<open>crates/r3akt-transport-rns/src/lib.rs\<close> has the same
  functions): a message in a frame with its length in four bytes, the frame as the body of an HTTP
  request or response.  \<open>serialize\<close> and \<open>deserialize\<close> are \<open>rmp_serde\<close>.  Where the
  arithmetic of the code overflows it panics, which is \<open>None\<close> here.
\<close>

datatype io_error = InvalidData string | UnexpectedEof string

subsection \<open>Frames\<close>

definition u32_to_be_bytes :: "nat \<Rightarrow> string" where
  "u32_to_be_bytes n = map (\<lambda>k. char_of (n div 256 ^ k mod 256)) [3, 2, 1, 0]"

definition u32_from_be_bytes :: "string \<Rightarrow> nat" where
  "u32_from_be_bytes bytes = fold (\<lambda>c n. 256 * n + code c) bytes 0"

definition encode_frame :: "('a \<Rightarrow> string + string) \<Rightarrow> 'a \<Rightarrow> io_error + string" where
  "encode_frame serialize message =
     (case serialize message of
        Inl e \<Rightarrow> Inl (InvalidData e)
      | Inr payload \<Rightarrow>
          if 2 ^ 32 \<le> length payload then Inl (InvalidData ''frame too large'')
          else Inr (u32_to_be_bytes (length payload) @ payload))"

definition decode_frame :: "(string \<Rightarrow> string + 'a) \<Rightarrow> string \<Rightarrow> io_error + 'a" where
  "decode_frame deserialize bytes =
     (if length bytes < 4 then Inl (UnexpectedEof ''missing frame header'')
      else (let len = u32_from_be_bytes (take 4 bytes)
            in if length bytes < 4 + len then Inl (UnexpectedEof ''incomplete frame'')
               else case deserialize (take len (drop 4 bytes)) of
                      Inl e \<Rightarrow> Inl (InvalidData e) | Inr message \<Rightarrow> Inr message))"

lemma length_be_bytes [simp]: "length (u32_to_be_bytes n) = 4"
  by (simp add: u32_to_be_bytes_def)

lemma be_bytes_back [simp]:
  assumes "n < 2 ^ 32" shows "u32_from_be_bytes (u32_to_be_bytes n) = n"
proof -
  define a b c where "a = n div 256" and "b = a div 256" and "c = b div 256"
  have "n div 256 ^ 2 = b" "n div 256 ^ 3 = c"
    by (simp_all add: a_def b_def c_def div_mult2_eq [symmetric])
  moreover have "c < 256" using assms by (simp add: a_def b_def c_def div_mult2_eq [symmetric])
  moreover have "256 * a + n mod 256 = n" "256 * b + a mod 256 = a" "256 * c + b mod 256 = b"
    unfolding a_def b_def c_def by (rule mult_div_mod_eq)+
  ultimately have "256 * (256 * (256 * (n div 256 ^ 3 mod 256) + n div 256 ^ 2 mod 256) + a mod 256) + n mod 256 = n"
    by simp
  moreover have "n div 16777216 mod 256 = n div 16777216" using assms by simp
  ultimately show ?thesis by (simp add: u32_from_be_bytes_def u32_to_be_bytes_def code_def a_def)
qed

text \<open>A frame is decoded, whatever follows it; a part of it is not.\<close>

lemma decode_encoded:
  assumes "encode_frame serialize message = Inr frame"
  shows "\<exists>payload. serialize message = Inr payload \<and>
    decode_frame deserialize (frame @ rest) =
      (case deserialize payload of Inl e \<Rightarrow> Inl (InvalidData e) | Inr m \<Rightarrow> Inr m)"
  using assms by (auto simp: encode_frame_def decode_frame_def split: sum.splits if_splits)

lemma decode_truncated:
  assumes "encode_frame serialize message = Inr frame" and "n < length frame"
  shows "\<exists>e. decode_frame deserialize (take n frame) = Inl (UnexpectedEof e)"
  using assms by (auto simp: encode_frame_def decode_frame_def min_def Let_def split: sum.splits if_splits)


subsection \<open>HTTP\<close>

abbreviation cr :: char where "cr \<equiv> CHR 0x0D"
abbreviation lf :: char where "lf \<equiv> CHR 0x0A"
abbreviation crlf :: string where "crlf \<equiv> [cr, lf]"

definition build_http_post :: "string \<Rightarrow> string \<Rightarrow> string \<Rightarrow> string" where
  "build_http_post path address body =
     ''POST '' @ path @ '' HTTP/1.1'' @ crlf
     @ ''Host: '' @ address @ crlf
     @ ''Content-Type: application/msgpack'' @ crlf
     @ ''Content-Length: '' @ show_nat (length body) @ crlf
     @ crlf
     @ body"

text \<open>\<open>windows(n).position\<close>: where a text first occurs in another.\<close>

fun find_window :: "string \<Rightarrow> string \<Rightarrow> nat option" where
  "find_window w [] = (if w = [] then Some 0 else None)"
| "find_window w (c # s) =
     (if take (length w) (c # s) = w then Some 0 else map_option Suc (find_window w s))"

text \<open>\<open>str::from_utf8\<close>: the bytes of the first character, and whether all are characters.\<close>

definition cont_between :: "nat \<Rightarrow> nat \<Rightarrow> char \<Rightarrow> bool" where
  "cont_between low high c \<longleftrightarrow> low \<le> code c \<and> code c \<le> high"

fun utf8_sequence :: "string \<Rightarrow> nat" where
  "utf8_sequence [] = 0"
| "utf8_sequence (a # s) =
     (let any = cont_between 0x80 0xBF; n = code a
      in if n < 0x80 then 1
         else if 0xC2 \<le> n \<and> n \<le> 0xDF then (if list_all2 (\<lambda>p c. p c) [any] (take 1 s) then 2 else 0)
         else if 0xE0 \<le> n \<and> n \<le> 0xEF then
           (let low = (if n = 0xE0 then 0xA0 else 0x80); high = (if n = 0xED then 0x9F else 0xBF)
            in if list_all2 (\<lambda>p c. p c) [cont_between low high, any] (take 2 s) then 3 else 0)
         else if 0xF0 \<le> n \<and> n \<le> 0xF4 then
           (let low = (if n = 0xF0 then 0x90 else 0x80); high = (if n = 0xF4 then 0x8F else 0xBF)
            in if list_all2 (\<lambda>p c. p c) [cont_between low high, any, any] (take 3 s) then 4 else 0)
         else 0)"

function valid_utf8 :: "string \<Rightarrow> bool" where
  "valid_utf8 s =
     (if s = [] then True else if utf8_sequence s = 0 then False else valid_utf8 (drop (utf8_sequence s) s))"
  by pat_completeness auto
termination
  by (relation "measure length") auto

declare valid_utf8.simps [simp del]

text \<open>\<open>str::lines\<close>, \<open>str::split_once\<close> and \<open>str::parse::<usize>()\<close>.\<close>

definition strip_cr :: "string \<Rightarrow> string" where
  "strip_cr line = (if line \<noteq> [] \<and> last line = cr then butlast line else line)"

definition lines_of :: "string \<Rightarrow> string list" where
  "lines_of s =
     (let parts = split_on lf s
      in map strip_cr (butlast parts) @ (if last parts = [] then [] else [last parts]))"

definition split_once_at :: "char \<Rightarrow> string \<Rightarrow> (string \<times> string) option" where
  "split_once_at d s =
     (case dropWhile (\<lambda>c. c \<noteq> d) s of [] \<Rightarrow> None | _ # rest \<Rightarrow> Some (takeWhile (\<lambda>c. c \<noteq> d) s, rest))"

definition parse_usize :: "string \<Rightarrow> nat option" where
  "parse_usize s =
     (let ds = (case s of [] \<Rightarrow> [] | c # r \<Rightarrow> if c = CHR ''+'' then r else s)
      in if ds = [] then None
         else filter_opt (\<lambda>n. n < 2 ^ 64) (digits_value ds 0))"

definition content_length_line :: "string \<Rightarrow> nat option" where
  "content_length_line line =
     (case split_once_at (CHR '':'') line of
        None \<Rightarrow> None
      | Some (header, v) \<Rightarrow>
          if eq_ignore_ascii_case header ''content-length'' then parse_usize (trim v) else None)"

text \<open>
  The sum of the start of the body and its length is a \<open>usize\<close>: past \<open>2 ^ 64\<close> a debug build
  panics on the addition, and a release build on the range of the slice.
\<close>

definition parse_http_response_body :: "string \<Rightarrow> (io_error + string) option" where
  "parse_http_response_body response =
     (case find_window (crlf @ crlf) response of
        None \<Rightarrow> Some (Inl (InvalidData ''missing headers''))
      | Some header_end \<Rightarrow>
          (let headers = take header_end response; body_start = header_end + 4
           in if \<not> valid_utf8 headers then Some (Inl (InvalidData ''invalid utf-8''))
              else case find_map content_length_line (lines_of headers) of
                None \<Rightarrow> Some (Inl (InvalidData ''missing content length''))
              | Some content_length \<Rightarrow>
                  if 2 ^ 64 \<le> body_start + content_length then None
                  else if length response < body_start + content_length
                  then Some (Inl (UnexpectedEof ''response body incomplete''))
                  else Some (Inr (take content_length (drop body_start response)))))"


subsection \<open>A posted body is found again\<close>

definition plain :: "string \<Rightarrow> bool" where
  "plain s \<longleftrightarrow> list_all (\<lambda>c. code c < 0x80 \<and> c \<noteq> cr \<and> c \<noteq> lf) s"

lemma plain_simps [simp]:
  "plain []" "plain (c # s) \<longleftrightarrow> code c < 0x80 \<and> c \<noteq> cr \<and> c \<noteq> lf \<and> plain s"
  "plain (s @ t) \<longleftrightarrow> plain s \<and> plain t"
  by (auto simp: plain_def)

lemma code_char_of_digit: "n < 10 \<Longrightarrow> code (char_of (48 + n)) = 48 + n"
  by (simp add: code_def)

lemma show_nat_digits: "list_all is_ascii_digit (show_nat n)"
proof (induction n rule: show_nat.induct)
  case (1 n)
  then show ?case
    by (subst show_nat.simps) (auto simp: is_ascii_digit_def code_char_of_digit list_all_iff)
qed

lemma digit_plain: "is_ascii_digit c \<Longrightarrow> code c < 0x80 \<and> c \<noteq> cr \<and> c \<noteq> lf"
  by (auto simp: is_ascii_digit_def code_def)

lemma plain_show_nat [simp]: "plain (show_nat n)"
  using show_nat_digits [of n] digit_plain by (auto simp: plain_def list_all_iff)

lemma show_nat_not_Nil [simp]: "show_nat n \<noteq> []"
  by (subst show_nat.simps) simp

lemma digits_value_append:
  "digits_value (s @ t) a = (case digits_value s a of None \<Rightarrow> None | Some b \<Rightarrow> digits_value t b)"
  by (induction s arbitrary: a) auto

lemma digits_value_show [simp]: "digits_value (show_nat n) 0 = Some n"
proof (induction n rule: show_nat.induct)
  case (1 n)
  then show ?case
    by (subst show_nat.simps) (auto simp: digits_value_append is_ascii_digit_def code_char_of_digit)
qed

lemma parse_usize_show: "n < 2 ^ 64 \<Longrightarrow> parse_usize (show_nat n) = Some n"
proof -
  assume n: "n < 2 ^ 64"
  obtain c r where s: "show_nat n = c # r" by (cases "show_nat n") auto
  then have "is_ascii_digit c" using show_nat_digits [of n] by simp
  then have "c \<noteq> CHR ''+''" by (auto simp: is_ascii_digit_def code_def)
  then show ?thesis using n digits_value_show [of n] by (simp add: parse_usize_def s filter_opt_def)
qed

lemma ws_head_digit: "is_ascii_digit c \<Longrightarrow> ws_head (c # s) = 0"
  by (cases "(c, s)" rule: prod.exhaust, cases "c # s" rule: ws_head.cases)
     (auto simp: is_ascii_digit_def ws1_def ws2_def ws3_def)

lemma ws_tail_digit: "is_ascii_digit c \<Longrightarrow> ws_tail (c # s) = 0"
  by (cases "c # s" rule: ws_tail.cases)
     (auto simp: is_ascii_digit_def ws1_def ws2_def ws3_def)

lemma trim_shown: "trim (CHR '' '' # show_nat n) = show_nat n"
proof -
  obtain c r where s: "show_nat n = c # r" by (cases "show_nat n") auto
  then have c: "is_ascii_digit c" using show_nat_digits [of n] by simp
  obtain d q where e: "rev (show_nat n) = d # q" by (cases "rev (show_nat n)") auto
  then have "d \<in> set (show_nat n)" by (metis list.set_intros(1) set_rev)
  then have d: "is_ascii_digit d" using show_nat_digits [of n] by (simp add: list_all_iff)
  have "ws_head (CHR '' '' # c # r) = 1"
    by (cases r) (simp_all add: ws1_def code_def)
  then have "trim_start (CHR '' '' # show_nat n) = show_nat n"
    using ws_head_digit [OF c, of r] s
    by (simp add: trim_start_def strip.simps [of ws_head "CHR '' '' # c # r"] strip_fix)
  moreover have "trim_end (show_nat n) = show_nat n"
    using ws_tail_digit [OF d, of q] e by (simp add: trim_end_def strip_fix)
  ultimately show ?thesis by (simp add: trim_def)
qed


text \<open>The header block of a post: its lines, and where it ends.\<close>

abbreviation blank_line :: string where "blank_line \<equiv> [cr, lf, cr, lf]"

lemma find_window_plain:
  "plain x \<Longrightarrow> find_window blank_line (x @ s) = map_option ((+) (length x)) (find_window blank_line s)"
proof (induction x)
  case Nil
  show ?case by (cases "find_window blank_line s") simp_all
next
  case (Cons c x)
  then show ?case by (cases "find_window blank_line s") simp_all
qed

lemma find_window_lines:
  assumes "list_all (\<lambda>l. plain l \<and> l \<noteq> []) (l # ls)"
  shows "find_window blank_line (join crlf (l # ls) @ blank_line @ body) = Some (length (join crlf (l # ls)))"
  using assms
proof (induction ls arbitrary: l)
  case Nil
  then have "plain l" by simp
  from find_window_plain [OF this] show ?case by simp
next
  case (Cons k ls)
  obtain c r where k: "k = c # r" using Cons.prems by (cases k) auto
  obtain t where t: "join crlf (k # ls) @ blank_line @ body = c # t"
    by (cases ls) (auto simp: k)
  have "c \<noteq> cr" using Cons.prems by (simp add: k)
  then have skip: "find_window blank_line (cr # lf # c # t) = map_option ((+) 2) (find_window blank_line (c # t))"
    by (cases "find_window blank_line t") simp_all
  have "plain l" using Cons.prems by simp
  from find_window_plain [OF this, of "cr # lf # c # t"] skip Cons.IH [of k] Cons.prems t
  show ?case by simp
qed

lemma split_on_plain:
  "plain x \<Longrightarrow> split_on lf (x @ lf # s) = x # split_on lf s"
  by (induction x) auto

lemma split_on_last: "plain x \<Longrightarrow> split_on lf x = [x]"
  by (induction x) auto

lemma split_on_line: "plain x \<Longrightarrow> split_on lf (x @ crlf @ s) = (x @ [cr]) # split_on lf s"
  by (induction x) auto

lemma lines_of_join:
  assumes "list_all (\<lambda>l. plain l \<and> l \<noteq> []) (l # ls)"
  shows "lines_of (join crlf (l # ls)) = l # ls"
proof -
  have "split_on lf (join crlf (l # ls)) = map (\<lambda>l. l @ [cr]) (butlast (l # ls)) @ [last (l # ls)]"
    using assms
  proof (induction ls arbitrary: l)
    case (Cons k ls)
    then show ?case using split_on_line [of l "join crlf (k # ls)"] by simp
  qed (simp add: split_on_last)
  moreover have "map strip_cr (map (\<lambda>l. l @ [cr]) xs) = xs" for xs
    by (induction xs) (simp_all add: strip_cr_def)
  moreover have "last (l # ls) \<noteq> []" using assms by (auto simp: list_all_iff)
  ultimately show ?thesis
    by (simp add: lines_of_def)
qed

lemma plain_utf8: "list_all (\<lambda>c. code c < 0x80) s \<Longrightarrow> valid_utf8 s"
  by (induction s) (simp_all add: valid_utf8.simps [of "_ # _"] valid_utf8.simps [of "[]"])

lemma plain_join: "list_all plain ls \<Longrightarrow> list_all (\<lambda>c. code c < 0x80) (join crlf ls)"
  by (induction crlf ls rule: join.induct) (auto simp: plain_def list_all_iff code_def)


lemma response_parsed:
  assumes "list_all (\<lambda>l. plain l \<and> l \<noteq> []) (l # ls)"
    and "find_map content_length_line (l # ls) = Some (length body)"
    and "length (join crlf (l # ls)) + 4 + length body < 2 ^ 64"
  shows "parse_http_response_body (join crlf (l # ls) @ blank_line @ body @ rest) = Some (Inr body)"
proof -
  let ?head = "join crlf (l # ls)"
  have "list_all plain (l # ls)" using assms(1) by (auto simp: list_all_iff)
  then have "valid_utf8 ?head" by (intro plain_utf8 plain_join)
  with assms show ?thesis
    using find_window_lines [OF assms(1), of "body @ rest"]
    by (simp add: parse_http_response_body_def lines_of_join Let_def)
qed

lemma no_content_length:
  "x \<noteq> CHR '':'' \<Longrightarrow> ascii_lower x \<noteq> CHR ''c'' \<Longrightarrow> content_length_line (x # s) = None"
  by (auto simp: content_length_line_def split_once_at_def eq_ignore_ascii_case_def to_ascii_lowercase_def
      ascii_lower_def [of "CHR ''c''"] code_def split: list.splits)

lemma show_nat_short: "length (show_nat n) \<le> Suc n"
proof (induction n rule: show_nat.induct)
  case (1 n)
  then show ?case by (subst show_nat.simps) auto
qed

lemma post_parsed:
  assumes "plain path" and "plain address"
    and "length path + length address + length body < 2 ^ 62"
  shows "parse_http_response_body (build_http_post path address body) = Some (Inr body)"
proof -
  let ?ls = "[''Host: '' @ address, ''Content-Type: application/msgpack'',
    ''Content-Length: '' @ show_nat (length body)]"
  let ?l = "''POST '' @ path @ '' HTTP/1.1''"
  have n: "length body < 2 ^ 64" using assms(3) by simp
  have header: "eq_ignore_ascii_case ''Content-Length'' ''content-length''" by code_simp
  have size: "length (join crlf (?l # ?ls)) + 4 + length body < 2 ^ 64"
    using assms(3) show_nat_short [of "length body"] by simp
  have "content_length_line ''Content-Type: application/msgpack'' = None"
    by (simp add: content_length_line_def split_once_at_def eq_ignore_ascii_case_def to_ascii_lowercase_def
        ascii_lower_def code_def)
  moreover have "content_length_line (''Content-Length: '' @ show_nat (length body)) = Some (length body)"
    using trim_shown [of "length body"] parse_usize_show [OF n]
    using header by (simp add: content_length_line_def split_once_at_def)
  moreover have "content_length_line (''POST '' @ t) = None" "content_length_line (''Host: '' @ t) = None" for t
  proof -
    have "ascii_lower (CHR ''P'') \<noteq> CHR ''c''" "ascii_lower (CHR ''H'') \<noteq> CHR ''c''" by code_simp+
    then show "content_length_line (''POST '' @ t) = None" "content_length_line (''Host: '' @ t) = None"
      by (simp_all add: no_content_length)
  qed
  ultimately have "find_map content_length_line (?l # ?ls) = Some (length body)"
    by (simp only: find_map.simps option.case append.simps)
  moreover have "list_all (\<lambda>l. plain l \<and> l \<noteq> []) (?l # ?ls)" using assms by (simp add: code_def)
  ultimately show ?thesis
    using response_parsed [of ?l ?ls body "[]"] size by (simp add: build_http_post_def)
qed


subsection \<open>A remote call\<close>

fun io_error_text :: "io_error \<Rightarrow> string" where
  "io_error_text (InvalidData e) = e"
| "io_error_text (UnexpectedEof e) = e"

text \<open>
  \<open>exchange\<close> sends the bytes of a request to an address and answers the bytes that come back, or
  the error of the socket, a time-out included.
\<close>

definition rpc_call ::
  "('q \<Rightarrow> string + string) \<Rightarrow> (string \<Rightarrow> string + 'r) \<Rightarrow> (string \<Rightarrow> string \<Rightarrow> string + string)
     \<Rightarrow> string \<Rightarrow> 'q \<Rightarrow> (string + 'r) option" where
  "rpc_call serialize deserialize exchange endpoint request =
     (case encode_frame serialize request of
        Inl e \<Rightarrow> Some (Inl (io_error_text e))
      | Inr frame \<Rightarrow>
          (case exchange endpoint (build_http_post ''/rpc'' endpoint frame) of
             Inl e \<Rightarrow> Some (Inl e)
           | Inr response \<Rightarrow>
               (case parse_http_response_body response of
                  None \<Rightarrow> None
                | Some (Inl e) \<Rightarrow> Some (Inl (io_error_text e))
                | Some (Inr body) \<Rightarrow>
                    (case decode_frame deserialize body of
                       Inl e \<Rightarrow> Some (Inl (io_error_text e)) | Inr message \<Rightarrow> Some (Inr message)))))"

text \<open>A peer that reads requests as the client writes them, and answers in the same form.\<close>

definition answer_post ::
  "(string \<Rightarrow> string + 'q) \<Rightarrow> ('r \<Rightarrow> string + string) \<Rightarrow> ('q \<Rightarrow> 'r) \<Rightarrow> string \<Rightarrow> string + string" where
  "answer_post deserialize serialize answer request =
     (case parse_http_response_body request of
        Some (Inr body) \<Rightarrow>
          (case decode_frame deserialize body of
             Inl _ \<Rightarrow> Inl ''bad request''
           | Inr q \<Rightarrow>
               (case encode_frame serialize (answer q) of
                  Inl _ \<Rightarrow> Inl ''bad answer''
                | Inr frame \<Rightarrow>
                    Inr (join crlf [''HTTP/1.1 200 OK'', ''content-length: '' @ show_nat (length frame)]
                         @ blank_line @ frame)))
      | _ \<Rightarrow> Inl ''bad request'')"

lemma answer_parsed:
  assumes "length frame < 2 ^ 62"
  shows "parse_http_response_body (join crlf [''HTTP/1.1 200 OK'', ''content-length: '' @ show_nat (length frame)]
      @ blank_line @ frame) = Some (Inr frame)"
proof -
  let ?l = "''HTTP/1.1 200 OK''" and ?ls = "[''content-length: '' @ show_nat (length frame)]"
  have n: "length frame < 2 ^ 64" using assms by simp
  have size: "length (join crlf (?l # ?ls)) + 4 + length frame < 2 ^ 64"
    using assms show_nat_short [of "length frame"] by simp
  have "ascii_lower (CHR ''H'') \<noteq> CHR ''c''" by code_simp
  then have "content_length_line ?l = None" by (intro no_content_length) simp_all
  moreover have "eq_ignore_ascii_case ''content-length'' ''content-length''" by code_simp
  then have "content_length_line (''content-length: '' @ show_nat (length frame)) = Some (length frame)"
    using trim_shown [of "length frame"] parse_usize_show [OF n] by (simp add: content_length_line_def split_once_at_def)
  ultimately have "find_map content_length_line (?l # ?ls) = Some (length frame)"
    by (simp only: find_map.simps option.case)
  moreover have "list_all (\<lambda>l. plain l \<and> l \<noteq> []) (?l # ?ls)" by (simp add: code_def)
  ultimately show ?thesis using response_parsed [of ?l ?ls frame "[]"] size by simp
qed

lemma encode_frame_Inr:
  assumes "serialize m = Inr payload" and "length payload < 2 ^ 32" and "deserialize payload = Inr m"
  shows "\<exists>frame. encode_frame serialize m = Inr frame \<and> length frame = 4 + length payload
    \<and> decode_frame deserialize frame = Inr m"
  using assms by (simp add: encode_frame_def decode_frame_def)

lemma rpc_answered:
  assumes "serialize_q q = Inr p" "length p < 2 ^ 32" "deserialize_q p = Inr q"
    and "serialize_r (answer q) = Inr p'" "length p' < 2 ^ 32" "deserialize_r p' = Inr (answer q)"
    and "plain endpoint" "length endpoint < 2 ^ 60"
  shows "rpc_call serialize_q deserialize_r (\<lambda>_. answer_post deserialize_q serialize_r answer) endpoint q
    = Some (Inr (answer q))"
proof -
  obtain qf where qf: "encode_frame serialize_q q = Inr qf" "length qf = 4 + length p"
    "decode_frame deserialize_q qf = Inr q"
    using encode_frame_Inr [of serialize_q q p deserialize_q] assms(1-3) by blast
  obtain rf where rf: "encode_frame serialize_r (answer q) = Inr rf" "length rf = 4 + length p'"
    "decode_frame deserialize_r rf = Inr (answer q)"
    using encode_frame_Inr [of serialize_r "answer q" p' deserialize_r] assms(4-6) by blast
  have "plain ''/rpc''" by (simp add: code_def)
  then have "parse_http_response_body (build_http_post ''/rpc'' endpoint qf) = Some (Inr qf)"
    using assms(2,7,8) qf(2) by (intro post_parsed) simp_all
  moreover have "length rf < 2 ^ 62" using rf(2) assms(5) by simp
  ultimately show ?thesis
    using qf rf answer_parsed [of rf] by (simp add: rpc_call_def answer_post_def)
qed

end
