(* ===== verification/Hub_Store.thy ===== *)
theory Hub_Store
  imports Delta_Rules Framing
begin

text \<open>
  Commands of the hub server on its store (\<open>crates/r3akt-rch-server/src/lib.rs\<close>): a command that
  comes over HTTP or from the network runs on a core made of the tables of the store that commands
  need, and what it changed is written back as a delta.  The state of the server is its hub, absent
  when the hub runs without one; what the server does with the answers (sending them to peers,
  telling the listeners of mission changes) is given by the values the functions answer.
\<close>

subsection \<open>Errors of the interface\<close>

datatype api_error =
    BadRequest string
  | Unprocessable string
  | PydanticValidation json
  | NotFound string
  | PayloadTooLarge string
  | ServiceUnavailable string
  | Conflict string
  | Unauthorized
  | UnauthorizedWithDetail string
  | TooManyRequests string nat
  | Internal string

definition internal :: "core_error + 'a \<Rightarrow> api_error + 'a" where
  "internal r = (case r of Inl e \<Rightarrow> Inl (Internal (error_text e)) | Inr x \<Rightarrow> Inr x)"

definition text_contains :: "string \<Rightarrow> string \<Rightarrow> bool" where
  "text_contains s part \<longleftrightarrow> find_window part s \<noteq> None"

definition without_prefix :: "string \<Rightarrow> string \<Rightarrow> string" where
  "without_prefix p s = unwrap_or (strip_prefix p s) s"

definition outcome_detail :: "string \<Rightarrow> command_result \<Rightarrow> string" where
  "outcome_detail default_detail result = unwrap_or (or_else (res_detail result) (res_reason result)) default_detail"

definition r3akt_command_outcome_value :: "command_outcome \<Rightarrow> api_error + json" where
  "r3akt_command_outcome_value outcome =
     (let result = out_result outcome
      in if res_status result = Accepted then Inr (res_result result)
         else
           (let detail = outcome_detail ''R3AKT command rejected'' result;
                detail = unwrap_or (or_else (strip_prefix ''invalid command payload: '' detail)
                           (strip_prefix ''invalid payload: '' detail)) detail
            in if text_contains detail ''not found'' then Inl (NotFound (CHR 0x22 # detail @ [CHR 0x22]))
               else Inl (BadRequest detail)))"

definition checklist_command_outcome_value :: "command_outcome \<Rightarrow> api_error + json" where
  "checklist_command_outcome_value outcome =
     (let result = out_result outcome
      in if res_status result = Accepted then Inr (res_result result)
         else
           (let detail = without_prefix ''invalid payload: ''
                  (outcome_detail ''Checklist command rejected'' result)
            in if text_contains detail '' not found'' then Inl (NotFound (CHR 0x22 # detail @ [CHR 0x22]))
               else Inl (BadRequest detail)))"

subsection \<open>Mission changes to announce\<close>

definition mission_change_payload :: "host \<Rightarrow> mission_change_record \<Rightarrow> json" where
  "mission_change_payload h change =
     JObj [(''uid'', JStr (mc_uid change)), (''mission_uid'', JStr (mc_mission_uid change)),
           (''mission_id'', JStr (mc_mission_uid change)), (''name'', jopt (mc_name change)),
           (''team_member_rns_identity'', jopt (mc_team_member_rns_identity change)),
           (''timestamp'', JStr (millis_to_rfc3339 h (mc_timestamp_ms change))),
           (''notes'', jopt (mc_notes change)), (''change_type'', JStr (mc_change_type change)),
           (''is_federated_change'', JBool (mc_is_federated_change change)),
           (''hashes'', jstrs (mc_hashes change)), (''delta'', mc_delta change)]"

definition mission_change_payload_map :: "host \<Rightarrow> rch_core \<Rightarrow> (string, json) hmap" where
  "mission_change_payload_map h s =
     fold (\<lambda>change. hm_insert (mc_uid change) (mission_change_payload h change)) (list_mission_changes s) []"

definition mission_change_payload_map_excluding :: "host \<Rightarrow> rch_core \<Rightarrow> string list \<Rightarrow> (string, json) hmap" where
  "mission_change_payload_map_excluding h s excluded =
     fold (\<lambda>change. hm_insert (mc_uid change) (mission_change_payload h change))
       (filter (\<lambda>change. mc_uid change \<notin> set excluded) (list_mission_changes s)) []"

subsection \<open>Commands over HTTP\<close>

definition ends_with :: "string \<Rightarrow> string \<Rightarrow> bool" where
  "ends_with p s \<longleftrightarrow> starts_with (rev p) (rev s)"

definition r3akt_command_is_read_only :: "string \<Rightarrow> bool" where
  "r3akt_command_is_read_only command_type \<longleftrightarrow>
     ends_with ''.list'' command_type \<or> ends_with ''.get'' command_type
     \<or> command_type \<in> {''mission.registry.eam.latest'', ''mission.registry.eam.team.summary''}"

definition checklist_command_is_read_only :: "string \<Rightarrow> bool" where
  "checklist_command_is_read_only command_type \<longleftrightarrow>
     command_type \<in> {''checklist.template.list'', ''checklist.template.get''}"

text \<open>The command of a request: its identifier is drawn, its source the interface itself.\<close>

definition http_command :: "host \<Rightarrow> string \<Rightarrow> string \<Rightarrow> json \<Rightarrow> mission_command" where
  "http_command h drawn_id command_type args =
     \<lparr>cmd_id = drawn_id, cmd_source = \<lparr>src_rns_identity = ''rust-rch-http'', src_display_name = None\<rparr>,
      cmd_timestamp = utc_now_rfc3339 h, cmd_type = command_type, cmd_args = args,
      cmd_correlation_id = None, cmd_topics = []\<rparr>"

type_synonym hub_store = "rch_database option"

text \<open>What a request answers, and the mission changes before and after it for the listeners.\<close>

type_synonym hub_answer = "(api_error + json) \<times> ((string, json) hmap \<times> (string, json) hmap) option"

definition r3akt_command ::
  "host \<Rightarrow> string \<Rightarrow> string \<Rightarrow> json \<Rightarrow> hub_store \<Rightarrow> hub_store \<times> hub_answer" where
  "r3akt_command h drawn_id command_type args hub =
     (case hub of
        None \<Rightarrow> (hub, Inl (ServiceUnavailable ''R3AKT HTTP writes unavailable''), None)
      | Some db \<Rightarrow>
          (let command = http_command h drawn_id command_type args;
               snapshot_before = load_r3akt_read_snapshot db
           in case internal (from_snapshot h snapshot_before) of
                Inl e \<Rightarrow> (hub, Inl e, None)
              | Inr core \<Rightarrow>
                  (let (after, outcome) = handle_command h command core
                   in if r3akt_command_is_read_only command_type then
                        (hub, r3akt_command_outcome_value outcome, None)
                      else if res_status (out_result outcome) = Accepted then
                        (Some (save_r3akt_command_delta snapshot_before (snapshot after) db),
                         Inr (res_result (out_result outcome)),
                         Some (mission_change_payload_map h core, mission_change_payload_map h after))
                      else (hub, r3akt_command_outcome_value outcome, None))))"

definition checklist_command ::
  "host \<Rightarrow> string \<Rightarrow> string \<Rightarrow> json \<Rightarrow> hub_store \<Rightarrow> hub_store \<times> hub_answer" where
  "checklist_command h drawn_id command_type args hub =
     (case hub of
        None \<Rightarrow> (hub, Inl (ServiceUnavailable ''Checklist writes unavailable''), None)
      | Some db \<Rightarrow>
          (let command = http_command h drawn_id command_type args;
               snapshot_before = load_checklist_command_snapshot db
           in case internal (from_snapshot h snapshot_before) of
                Inl e \<Rightarrow> (hub, Inl e, None)
              | Inr core \<Rightarrow>
                  (let (after, outcome) = handle_command h command core
                   in if checklist_command_is_read_only command_type then
                        (hub, checklist_command_outcome_value outcome, None)
                      else if res_status (out_result outcome) = Accepted then
                        (Some (save_checklist_command_delta snapshot_before (snapshot after) db),
                         Inr (res_result (out_result outcome)),
                         Some ([], mission_change_payload_map_excluding h after (map mc_uid (list_mission_changes core))))
                      else (hub, checklist_command_outcome_value outcome, None))))"

text \<open>Other requests that change the core: \<open>f\<close> runs on it, and what it changed is written.\<close>

definition with_r3akt_core ::
  "host \<Rightarrow> bool \<Rightarrow> (rch_core \<Rightarrow> rch_core \<times> (api_error + 'a)) \<Rightarrow> hub_store \<Rightarrow> hub_store \<times> (api_error + 'a)" where
  "with_r3akt_core h write f hub =
     (case hub of
        None \<Rightarrow> (hub, Inl (ServiceUnavailable ''R3AKT HTTP writes unavailable''))
      | Some db \<Rightarrow>
          (let snapshot_before = load_r3akt_read_snapshot db
           in case internal (from_snapshot h snapshot_before) of
                Inl e \<Rightarrow> (hub, Inl e)
              | Inr core \<Rightarrow>
                  (case f core of
                     (_, Inl e) \<Rightarrow> (hub, Inl e)
                   | (after, Inr value) \<Rightarrow>
                       (if write then Some (save_r3akt_command_delta snapshot_before (snapshot after) db) else hub,
                        Inr value))))"

subsection \<open>Commands from the network\<close>

definition mission_sync_command_from_reticulumd ::
  "(instant \<Rightarrow> string) \<Rightarrow> protocol_envelope \<Rightarrow> protocol_command \<Rightarrow> mission_command" where
  "mission_sync_command_from_reticulumd rfc3339 e command =
     \<lparr>cmd_id = unwrap_or (filter_opt (\<lambda>value. trim value \<noteq> []) (pc_correlation_id command)) (env_id e),
      cmd_source = \<lparr>src_rns_identity = env_source e, src_display_name = None\<rparr>,
      cmd_timestamp = rfc3339 (env_timestamp e), cmd_type = pc_name command, cmd_args = pc_args command,
      cmd_correlation_id = pc_correlation_id command, cmd_topics = [env_topic e]\<rparr>"

definition rem_team_of_args :: "json \<Rightarrow> string option" where
  "rem_team_of_args args =
     filter_opt (\<lambda>value. value \<noteq> [])
       (map_option trim (case jget args ''_rem_team_uid'' of None \<Rightarrow> None | Some v \<Rightarrow> as_str v))"

text \<open>
  The responses go to the source, and to the destinations of the team the command names.  The
  command runs whatever is answered, so its delta is saved after a rejection, too.
\<close>

record inbound_answer =
  ia_responses :: "mission_sync_response list"
  ia_team_uid :: "string option"
  ia_team_destinations :: "string list option"

definition process_reticulumd_inbound_mission_sync_command ::
  "host \<Rightarrow> (instant \<Rightarrow> string) \<Rightarrow> protocol_envelope \<Rightarrow> protocol_command \<Rightarrow> bool \<Rightarrow> hub_store
     \<Rightarrow> hub_store \<times> (api_error + inbound_answer)" where
  "process_reticulumd_inbound_mission_sync_command h rfc3339 e command checklist hub =
     (let mission_command = mission_sync_command_from_reticulumd rfc3339 e command
      in case hub of
        None \<Rightarrow> (hub, Inl (ServiceUnavailable ''RCH SQLite state unavailable''))
      | Some db \<Rightarrow>
          (let snapshot_before = (if checklist then load_checklist_command_snapshot db
                                  else load_r3akt_read_snapshot db)
           in case internal (from_snapshot h snapshot_before) of
                Inl err \<Rightarrow> (hub, Inl err)
              | Inr core \<Rightarrow>
                  (let team_uid = rem_team_of_args (pc_args command);
                       team_destinations = map_option (rem_team_routing_destinations h core (env_source e)) team_uid;
                       (after, responses) = (if checklist then handle_checklist_sync_command h mission_command core
                                             else handle_mission_sync_command h mission_command core);
                       db = (if checklist then save_checklist_command_delta snapshot_before (snapshot after) db
                             else save_r3akt_command_delta snapshot_before (snapshot after) db)
                   in (Some db, Inr \<lparr>ia_responses = responses, ia_team_uid = team_uid,
                                    ia_team_destinations = team_destinations\<rparr>))))"

end
