(* ===== verification/Bridge.thy ===== *)
theory Bridge
  imports Restart "HOL-Library.Word"
begin

text \<open>
  The bridge of \<open>crates/r3akt-rch-bridge/src/lib.rs\<close>: a process that answers one request at a time
  on the core it loads from the store and saves again.  Requests and responses travel as JSON, which
  \<open>serde_json\<close> reads and writes: \<open>decode\<close> and \<open>encode\<close> are parameters.  A message for the
  network goes to \<open>reticulumd\<close> by a remote call, a parameter as well.
\<close>

subsection \<open>Requests and responses\<close>

datatype bridge_error = BridgeDecode string | BridgeEncode string | BridgeOutbound string | BridgeCore core_error

datatype bridge_request =
    MissionCommandRequest mission_command "string option"
  | ChecklistCommandRequest mission_command "string option"
  | GrantCapability string string
  | RevokeCapability string string
  | RecordIdentityAnnounce string "string option" "string option" "string option" "string list"
  | SetIdentityState string bool bool
  | SetRemMode string string
  | AssignMissionAccessRole string string string string
  | GrantOperationRight string string string string string
  | RevokeOperationRight string string string string string
  | SetAuthorization bool
  | ListTopics
  | ListSubscribers
  | ListMarkers
  | ListZones
  | StateSnapshot

datatype bridge_response =
    MissionCommandResponse "mission_sync_response list" nat nat
  | ChecklistCommandResponse "mission_sync_response list" nat
  | TopicsResponse "topic_record list"
  | SubscribersResponse "subscriber_record list"
  | MarkersResponse "marker_record list"
  | ZonesResponse "zone_record list"
  | StateSnapshotResponse rch_core_snapshot
  | StateUpdated bool
  | OutboundSendResponse bool string string

subsection \<open>The sender of a command\<close>

definition rem_rejected_result :: "mission_command \<Rightarrow> string \<Rightarrow> string \<Rightarrow> mission_sync_response" where
  "rem_rejected_result command rcode reason = rem_results (rejected_result command rcode reason)"

definition reject_source_mismatch :: "mission_command \<Rightarrow> string option \<Rightarrow> mission_sync_response option" where
  "reject_source_mismatch command source =
     (case source of
        None \<Rightarrow> None
      | Some source_identity \<Rightarrow>
          (let source_identity = to_ascii_lowercase (trim source_identity);
               envelope_source = to_ascii_lowercase (trim (src_rns_identity (cmd_source command)))
           in if source_identity = [] then
                Some (results (rejected_result command ''unauthorized'' ''Source identity is required''))
              else if envelope_source = [] \<or> source_identity = envelope_source then None
              else Some (results (rejected_result command ''unauthorized''
                     ''Envelope source identity does not match transport sender''))))"

definition message_counts :: "rch_core \<Rightarrow> mission_sync_response list \<Rightarrow> bridge_response" where
  "message_counts s responses =
     MissionCommandResponse responses (length (list_topics s)) (length (messages s))"

definition handle_mission_request ::
  "host \<Rightarrow> mission_command \<Rightarrow> string option \<Rightarrow> rch_core \<Rightarrow> rch_core \<times> bridge_response" where
  "handle_mission_request h command source s =
     (let is_rem = starts_with ''rem.registry.'' (cmd_type command)
      in if is_rem \<and> is_none_or source (\<lambda>i. trim i = []) then
           (s, message_counts s [rem_rejected_result command ''unauthorized'' ''Source identity is required''])
         else case reject_source_mismatch command source of
           Some rejected \<Rightarrow>
             (let result = rsp_results_field rejected;
                  rejected = (if is_rem then
                      rem_rejected_result command (unwrap_or (res_reason_code result) ''unauthorized'')
                        (unwrap_or (res_reason result) ''Envelope source identity does not match transport sender'')
                    else rejected)
              in (s, message_counts s [rejected]))
         | None \<Rightarrow>
             (let (s, responses) = handle_mission_sync_command h command s
              in (s, message_counts s responses)))"

definition handle_checklist_request ::
  "host \<Rightarrow> mission_command \<Rightarrow> string option \<Rightarrow> rch_core \<Rightarrow> rch_core \<times> bridge_response" where
  "handle_checklist_request h command source s =
     (case reject_source_mismatch command source of
        Some rejected \<Rightarrow> (s, ChecklistCommandResponse [rejected] (length (list_checklists s)))
      | None \<Rightarrow>
          (let (s, responses) = handle_checklist_sync_command h command s
           in (s, ChecklistCommandResponse responses (length (list_checklists s)))))"

subsection \<open>Updates of the state\<close>

definition is_ok :: "'a op \<Rightarrow> rch_core \<times> bool" where
  "is_ok m = (fst m, ok (snd m) \<noteq> None)"

fun handle_state_update_request :: "host \<Rightarrow> bridge_request \<Rightarrow> rch_core \<Rightarrow> rch_core \<times> bool" where
  "handle_state_update_request h (GrantCapability identity capability) s =
     (grant_identity_capability identity capability s, True)"
| "handle_state_update_request h (RevokeCapability identity capability) s =
     (fst (revoke_identity_capability identity capability s), True)"
| "handle_state_update_request h (RecordIdentityAnnounce identity announced name source_interface capabilities) s =
     is_ok (record_identity_announce h identity announced name source_interface capabilities s)"
| "handle_state_update_request h (SetIdentityState identity is_banned is_blackholed) s =
     is_ok (set_identity_state h identity is_banned is_blackholed s)"
| "handle_state_update_request h (SetRemMode identity mode) s = is_ok (set_identity_rem_mode h identity mode s)"
| "handle_state_update_request h (AssignMissionAccessRole mission_uid subject_type subject_id role) s =
     is_ok (assign_mission_access_role mission_uid subject_type subject_id role s)"
| "handle_state_update_request h (GrantOperationRight subject_type subject_id operation scope_type scope_id) s =
     is_ok (grant_operation_right h subject_type subject_id operation scope_type scope_id s)"
| "handle_state_update_request h (RevokeOperationRight subject_type subject_id operation scope_type scope_id) s =
     is_ok (revoke_operation_right h subject_type subject_id operation scope_type scope_id s)"
| "handle_state_update_request h (SetAuthorization required) s = (set_authorization_required required s, True)"
| "handle_state_update_request h _ s = (s, False)"

fun handle_request :: "host \<Rightarrow> bridge_request \<Rightarrow> rch_core \<Rightarrow> rch_core \<times> bridge_response" where
  "handle_request h (MissionCommandRequest command source) s = handle_mission_request h command source s"
| "handle_request h (ChecklistCommandRequest command source) s = handle_checklist_request h command source s"
| "handle_request h ListTopics s = (s, TopicsResponse (list_topics s))"
| "handle_request h ListSubscribers s = (s, SubscribersResponse (sn_subscribers (snapshot s)))"
| "handle_request h ListMarkers s = (s, MarkersResponse (sn_markers (snapshot s)))"
| "handle_request h ListZones s = (s, ZonesResponse (sn_zones (snapshot s)))"
| "handle_request h StateSnapshot s = (s, StateSnapshotResponse (snapshot s))"
| "handle_request h request s = map_prod id StateUpdated (handle_state_update_request h request s)"

subsection \<open>Messages for the network\<close>

record outbound_send_request =
  os_message_id :: string
  os_source :: string
  os_destination :: string
  os_title :: string
  os_content :: string
  os_fields :: "json option"
  os_method :: "string option"

record reticulumd_rpc_request =
  rpcq_id :: "64 word"
  rpcq_method :: string
  rpcq_params :: "json option"

record reticulumd_rpc_error =
  rpe_code :: string
  rpe_message :: string

record reticulumd_rpc_response =
  rpr_id :: "64 word"
  rpr_result :: "json option"
  rpr_error :: "reticulumd_rpc_error option"

text \<open>The remote end: a call may change its state and answers or fails.\<close>

type_synonym 'w rpc = "string \<Rightarrow> json option \<Rightarrow> 'w \<Rightarrow> 'w \<times> (bridge_error + reticulumd_rpc_response)"

record reticulumd_rpc_client =
  rc_endpoint :: string
  rc_next_request_id :: "64 word"

definition new_rpc_client :: "string \<Rightarrow> reticulumd_rpc_client" where
  "new_rpc_client endpoint = \<lparr>rc_endpoint = endpoint, rc_next_request_id = 1\<rparr>"

definition client_call ::
  "(string \<Rightarrow> reticulumd_rpc_request \<Rightarrow> bridge_error + reticulumd_rpc_response)
     \<Rightarrow> reticulumd_rpc_client rpc" where
  "client_call rpc_call rpc_method params client =
     (let request = \<lparr>rpcq_id = rc_next_request_id client, rpcq_method = rpc_method, rpcq_params = params\<rparr>
      in (client\<lparr>rc_next_request_id := rc_next_request_id client + 1\<rparr>,
          rpc_call (rc_endpoint client) request))"

definition method_is :: "outbound_send_request \<Rightarrow> string \<Rightarrow> bool" where
  "method_is request method =
     is_some_and (os_method request) (\<lambda>requested. eq_ignore_ascii_case (trim requested) method)"

definition outbound_rpc_method :: "outbound_send_request \<Rightarrow> string" where
  "outbound_rpc_method request =
     (if method_is request ''direct'' then ''sdk_send_v2'' else ''send_message_v2'')"

definition outbound_params :: "outbound_send_request \<Rightarrow> json" where
  "outbound_params request =
     (let rpc_method = outbound_rpc_method request;
          rpc_message_id = (if rpc_method = ''sdk_send_v2'' then ''sdk-'' @ os_message_id request
                            else os_message_id request);
          routing = (if rpc_method \<noteq> ''send_message_v2'' then []
                     else if method_is request ''auto''
                     then [(''method'', JStr ''direct''), (''try_propagation_on_fail'', JBool True)]
                     else case os_method request of None \<Rightarrow> [] | Some method \<Rightarrow> [(''method'', JStr method)])
      in JObj ([(''id'', JStr rpc_message_id), (''source'', JStr (os_source request)),
                (''destination'', JStr (os_destination request)), (''title'', JStr (os_title request)),
                (''content'', JStr (os_content request)),
                (''fields'', unwrap_or (os_fields request) JNull)] @ routing))"

definition handle_outbound_send ::
  "'w rpc \<Rightarrow> outbound_send_request \<Rightarrow> 'w \<Rightarrow> 'w \<times> (bridge_error + bridge_response)" where
  "handle_outbound_send call request w =
     try_st (call (outbound_rpc_method request) (Some (outbound_params request)) w) (\<lambda>w response.
       case rpr_error response of
         Some error \<Rightarrow> (w, Inl (BridgeOutbound (''reticulumd RPC '' @ rpe_code error @ '': '' @ rpe_message error)))
       | None \<Rightarrow> (w, Inr (OutboundSendResponse True (os_message_id request) ''reticulumd_rpc'')))"

subsection \<open>Requests as texts, on a core and on a store\<close>

definition handle_json_request ::
  "(string \<Rightarrow> string + bridge_request) \<Rightarrow> (bridge_response \<Rightarrow> string + string)
     \<Rightarrow> host \<Rightarrow> string \<Rightarrow> rch_core \<Rightarrow> rch_core \<times> (bridge_error + string)" where
  "handle_json_request decode encode h input s =
     (case decode input of
        Inl e \<Rightarrow> (s, Inl (BridgeDecode e))
      | Inr request \<Rightarrow>
          (let (s, response) = handle_request h request s
           in case encode response of Inl e \<Rightarrow> (s, Inl (BridgeEncode e)) | Inr output \<Rightarrow> (s, Inr output)))"

definition handle_outbound_json_request ::
  "(string \<Rightarrow> string + outbound_send_request) \<Rightarrow> (bridge_response \<Rightarrow> string + string)
     \<Rightarrow> 'w rpc \<Rightarrow> string \<Rightarrow> 'w \<Rightarrow> 'w \<times> (bridge_error + string)" where
  "handle_outbound_json_request decode encode call input w =
     (case decode input of
        Inl e \<Rightarrow> (w, Inl (BridgeDecode e))
      | Inr request \<Rightarrow>
          try_st (handle_outbound_send call request w) (\<lambda>w response.
            case encode response of Inl e \<Rightarrow> (w, Inl (BridgeEncode e)) | Inr output \<Rightarrow> (w, Inr output)))"

definition handle_json_request_with_sqlite ::
  "(string \<Rightarrow> string + bridge_request) \<Rightarrow> (bridge_response \<Rightarrow> string + string)
     \<Rightarrow> host \<Rightarrow> string \<Rightarrow> rch_database \<Rightarrow> rch_database \<times> (bridge_error + string)" where
  "handle_json_request_with_sqlite decode encode h input db =
     (case start_core h db of
        Inl e \<Rightarrow> (db, Inl (BridgeCore e))
      | Inr core \<Rightarrow>
          (case handle_json_request decode encode h input core of
             (_, Inl e) \<Rightarrow> (db, Inl e)
           | (core, Inr response) \<Rightarrow>
               (case save_to_sqlite core db of
                  Inl e \<Rightarrow> (db, Inl (BridgeCore e))
                | Inr db \<Rightarrow> (db, Inr response))))"

text \<open>A request of type \<open>outbound_send\<close> goes to the network, every other one to the store.\<close>

definition handle_json_request_with_sqlite_or_reticulumd ::
  "(string \<Rightarrow> json option) \<Rightarrow> (string \<Rightarrow> string + bridge_request) \<Rightarrow> (string \<Rightarrow> string + outbound_send_request)
     \<Rightarrow> (bridge_response \<Rightarrow> string + string)
     \<Rightarrow> (string \<Rightarrow> reticulumd_rpc_request \<Rightarrow> bridge_error + reticulumd_rpc_response)
     \<Rightarrow> host \<Rightarrow> string option \<Rightarrow> string \<Rightarrow> rch_database \<Rightarrow> rch_database \<times> (bridge_error + string)" where
  "handle_json_request_with_sqlite_or_reticulumd parse decode decode_outbound encode rpc_call h endpoint input db =
     (let request_type =
        (case parse input of None \<Rightarrow> None
         | Some v \<Rightarrow> (case jget v ''type'' of None \<Rightarrow> None | Some ty \<Rightarrow> as_str ty))
      in if request_type = Some ''outbound_send'' then
           (case endpoint of
              None \<Rightarrow> (db, Inl (BridgeOutbound ''outbound_send requires --reticulumd-rpc''))
            | Some endpoint \<Rightarrow>
                (db, snd (handle_outbound_json_request decode_outbound encode (client_call rpc_call) input
                            (new_rpc_client endpoint))))
         else handle_json_request_with_sqlite decode encode h input db)"

text \<open>The command line: the path of the store and the address of \<open>reticulumd\<close>.\<close>

fun bridge_args :: "string list \<Rightarrow> string \<times> string option \<Rightarrow> string + string \<times> string option" where
  "bridge_args [] (db_path, reticulumd_rpc) = Inr (db_path, reticulumd_rpc)"
| "bridge_args [arg] _ = Inl (''unsupported argument '' @ arg)"
| "bridge_args (arg # v # args) (db_path, reticulumd_rpc) =
     (if arg = ''--db'' then bridge_args args (v, reticulumd_rpc)
      else if arg = ''--reticulumd-rpc'' then bridge_args args (db_path, Some v)
      else Inl (''unsupported argument '' @ arg))"

definition run_bridge_args :: "string list \<Rightarrow> string + string \<times> string option" where
  "run_bridge_args args = bridge_args args ('':memory:'', None)"

subsection \<open>A request is a step of the core, or none\<close>

lemma handle_request_step:
  assumes "lawful_host parse h" and "handle_request h request s = (t, response)"
  shows "t = s \<or> step parse s t"
proof (cases request)
  case (MissionCommandRequest command source)
  then show ?thesis
    using assms
    by (auto simp: handle_mission_request_def Let_def split: if_splits option.splits prod.splits
        intro: step.mission_sync)
next
  case (ChecklistCommandRequest command source)
  then show ?thesis
    using assms
    by (auto simp: handle_checklist_request_def Let_def split: option.splits prod.splits
        intro: step.checklist_sync)
qed (use assms in \<open>auto simp: is_ok_def grant_operation_right_def revoke_operation_right_def
        intro: step.grant step.revoke step.announce step.identity_state step.rem_mode step.role step.right
          step.require prod.collapse [symmetric]\<close>)


subsection \<open>The store of the bridge always holds a sound core\<close>

lemma sound_for_iff:
  assumes "uuid_canonical h" and "\<And>h'. uuid_parse h' = uuid_parse h \<Longrightarrow> P h' s = P h s"
  shows "sound_for P (uuid_parse h) s \<longleftrightarrow> P h s"
  using sound_forD [OF _ assms(1)] assms(2) by (metis sound_for_def)

lemma sound_iff:
  assumes "uuid_canonical h"
  shows "sound h s \<longleftrightarrow> core_sound (uuid_parse h) s \<and> sound_for tables_ok (uuid_parse h) s \<and> sets_ok s"
  using sound_for_iff [OF assms, of core_ok s] sound_for_iff [OF assms, of tables_ok s]
    core_ok_cong [of _ h s] tables_ok_cong [of _ h s]
  unfolding sound_def by blast

lemma step_sound:
  assumes "step (uuid_parse h) s t" and "uuid_canonical h" and "sound h s"
  shows "sound h t"
  using core_runs.inv_step [OF assms(1)] table_runs.inv_step [OF assms(1)] set_runs.inv_step [OF assms(1)] assms(3)
  by (simp add: sound_iff [OF assms(2)])

lemma request_sound:
  assumes "lawful_host (uuid_parse h) h" and "uuid_canonical h" and "sound h s"
  shows "sound h (fst (handle_request h request s))"
  using handle_request_step [OF assms(1), of request s] step_sound [OF _ assms(2,3)] assms(3)
  by (metis prod.collapse)

lemma json_request_sound:
  assumes "lawful_host (uuid_parse h) h" and "uuid_canonical h" and "sound h s"
  shows "sound h (fst (handle_json_request decode encode h input s))"
  using request_sound [OF assms] assms(3)
  by (auto simp: handle_json_request_def Let_def split_beta split: sum.split)

lemma bridge_call:
  assumes "lawful_host (uuid_parse h) h" and "uuid_canonical h" and "stores h db s"
  shows "\<exists>t. start_core h db = Inr t \<and> same_tables s t \<and> sound h t
    \<and> (case handle_json_request decode encode h input t of
         (_, Inl e) \<Rightarrow> handle_json_request_with_sqlite decode encode h input db = (db, Inl e)
       | (t', Inr response) \<Rightarrow>
           \<exists>db'. handle_json_request_with_sqlite decode encode h input db = (db', Inr response) \<and> stores h db' t')"
proof -
  obtain t where t: "start_core h db = Inr t" "same_tables s t" "sound h t"
    using start_stored [OF assms(3)] by blast
  obtain t' r where run: "handle_json_request decode encode h input t = (t', r)" by fastforce
  have "sound h t'" using json_request_sound [OF assms(1,2) t(3), of decode encode input] run by simp
  then obtain db' where "save_to_sqlite t' db = Inr db'" "stores h db' t'" using save_stores by blast
  with t run show ?thesis by (cases r) (auto simp: handle_json_request_with_sqlite_def)
qed

text \<open>Runs of the bridge: each call is a process of its own, with its own host.\<close>

fun bridge_calls ::
  "(string \<Rightarrow> string + bridge_request) \<Rightarrow> (bridge_response \<Rightarrow> string + string)
     \<Rightarrow> (host \<times> string) list \<Rightarrow> rch_database \<Rightarrow> rch_database \<times> (bridge_error + string) list" where
  "bridge_calls decode encode [] db = (db, [])"
| "bridge_calls decode encode ((h, input) # calls) db =
     (let (db, answer) = handle_json_request_with_sqlite decode encode h input db;
          (db, answers) = bridge_calls decode encode calls db
      in (db, answer # answers))"

lemma stores_cong:
  assumes "uuid_parse h = uuid_parse h'" shows "stores h db s = stores h' db s"
  using core_ok_cong [OF assms] tables_ok_cong [OF assms] by (simp add: stores_def sound_def)

lemma uuid_canonical_cong: "uuid_parse h = uuid_parse h' \<Longrightarrow> uuid_canonical h = uuid_canonical h'"
  by (simp add: uuid_canonical_def)

lemma bridge_calls_stored:
  assumes "\<exists>s. stores h db s" and "uuid_canonical h"
    and "\<And>h' input. (h', input) \<in> set calls \<Longrightarrow> lawful_host (uuid_parse h) h'"
    and "bridge_calls decode encode calls db = (db', answers)"
  shows "(\<exists>s. stores h db' s) \<and> (\<forall>e. Inl (BridgeCore e) \<notin> set answers)"
  using assms
proof (induction calls arbitrary: db answers)
  case (Cons call calls)
  obtain h' input where call: "call = (h', input)" by (cases call)
  obtain s where s: "stores h db s" using Cons.prems(1) by blast
  have h': "lawful_host (uuid_parse h) h'" by (rule Cons.prems(3) [of h' input]) (simp add: call)
  then have parse: "uuid_parse h' = uuid_parse h" by (rule lawful_parse)
  have h'': "lawful_host (uuid_parse h') h'" using h' parse by simp
  have c': "uuid_canonical h'" using Cons.prems(2) uuid_canonical_cong [OF parse] by simp
  have s': "stores h' db s" using s stores_cong [OF parse] by simp
  obtain db1 answer where run: "handle_json_request_with_sqlite decode encode h' input db = (db1, answer)" by fastforce
  have "(\<exists>s. stores h' db1 s) \<and> (\<forall>e. answer \<noteq> Inl (BridgeCore e))"
  proof -
    obtain t where "case handle_json_request decode encode h' input t of
         (_, Inl e) \<Rightarrow> handle_json_request_with_sqlite decode encode h' input db = (db, Inl e)
       | (t', Inr response) \<Rightarrow>
           \<exists>db'. handle_json_request_with_sqlite decode encode h' input db = (db', Inr response) \<and> stores h' db' t'"
      using bridge_call [OF h'' c' s', of decode encode input] by (elim exE conjE) (rule that)
    then show ?thesis
      using s' run
      by (auto simp: handle_json_request_def Let_def split: sum.splits prod.splits)
  qed
  then have "\<exists>s. stores h db1 s" "\<forall>e. answer \<noteq> Inl (BridgeCore e)"
    using stores_cong [OF parse] by auto
  moreover obtain answers' where rest: "bridge_calls decode encode calls db1 = (db', answers')"
      and "answers = answer # answers'"
    using Cons.prems(4) run by (auto simp: call Let_def split: prod.splits)
  ultimately show ?case
    using Cons.IH [OF _ Cons.prems(2) _ rest] Cons.prems(3) by auto
qed simp

end
