(* ===== verification/Hub_Service.thy ===== *)
theory Hub_Service
  imports Hub_Store Bridge
begin

text \<open>
  Commands on the registry that come to the server over its store: the database serves a core when
  the server loads that core from it, and after a command it serves the core the command has left, but
  for what the server does not keep there (messages, events, stored results).
\<close>

subsection \<open>What a registry command leaves alone\<close>

definition hide_registry :: "rch_core \<Rightarrow> rch_core" where
  "hide_registry t = t\<lparr>markers := [], zones := [], missions := [], mission_changes := [], log_entries := [],
     eam_snapshots := [], teams := [], mission_team_links := [], mission_zone_links := [],
     mission_marker_links := [], team_members := [], team_member_client_links := [], assets := [],
     skills := [], team_member_skills := [], task_skill_requirements := [], assignments := [],
     assignment_asset_links := [], mission_access_assignments := [], audit_events := [],
     command_results := [], next_uuid := 0\<rparr>"

definition only_registry :: "rch_core \<Rightarrow> rch_core \<Rightarrow> bool" where
  "only_registry s t \<longleftrightarrow> hide_registry t = hide_registry s"

definition registry_components :: "component set" where
  "registry_components = {MarkerCommands, ZoneCommands, MissionCommands, LogCommands, EamCommands, TeamCommands,
     TeamMemberCommands, AssetCommands, SkillCommands, AssignmentCommands, RightsCommands}"

lemma only_registry_simps [simp]:
  "only_registry s s"
  "only_registry s (t\<lparr>audit_events := a\<rparr>) = only_registry s t"
  "only_registry s (t\<lparr>command_results := r\<rparr>) = only_registry s t"
  "only_registry s (t\<lparr>next_uuid := n\<rparr>) = only_registry s t"
  by (simp_all add: only_registry_def hide_registry_def)

lemma only_registry_hidden:
  assumes "\<And>t. hide_registry (hide t) = hide_registry t" and "leaves (\<lambda>t. hide t = hide s) m"
  shows "leaves (only_registry s) m"
  using assms(2) unfolding leaves_def only_registry_def by (metis assms(1))

lemma hidden_registry:
  "hide_registry (hide_map t) = hide_registry t" "hide_registry (hide_missions t) = hide_registry t"
  "hide_registry (hide_logs t) = hide_registry t" "hide_registry (hide_eams t) = hide_registry t"
  "hide_registry (hide_teams t) = hide_registry t" "hide_registry (hide_assets t) = hide_registry t"
  "hide_registry (hide_skills t) = hide_registry t" "hide_registry (hide_assignments t) = hide_registry t"
  by (simp_all add: hide_registry_def hide_map_def hide_missions_def hide_logs_def hide_eams_def hide_teams_def
      hide_assets_def hide_skills_def hide_assignments_def)

lemma registry_component_frame:
  assumes "component \<in> registry_components"
  shows "leaves (only_registry s) (run_component component h c s)"
proof -
  note frames = only_registry_hidden [OF hidden_registry(1) marker_command_frame [unfolded only_map_def [abs_def]]]
    only_registry_hidden [OF hidden_registry(1) zone_command_frame [unfolded only_map_def [abs_def]]]
    only_registry_hidden [OF hidden_registry(2) mission_command_frame [unfolded only_missions_def [abs_def]]]
    only_registry_hidden [OF hidden_registry(3) log_command_frame [unfolded only_logs_def [abs_def]]]
    only_registry_hidden [OF hidden_registry(4) eam_command_frame [unfolded only_eams_def [abs_def]]]
    only_registry_hidden [OF hidden_registry(5) team_command_frame [unfolded only_teams_def [abs_def]]]
    only_registry_hidden [OF hidden_registry(5) team_member_command_frame [unfolded only_teams_def [abs_def]]]
    only_registry_hidden [OF hidden_registry(6) asset_command_frame [unfolded only_assets_def [abs_def]]]
    only_registry_hidden [OF hidden_registry(7) skill_command_frame [unfolded only_skills_def [abs_def]]]
    only_registry_hidden [OF hidden_registry(8) assignment_command_frame [unfolded only_assignments_def [abs_def]]]
  have "leaves (only_registry s) (apply_registry_rights_command h c s)"
    using rights_command_frame [of s h c] by (auto simp: leaves_def only_access_def only_registry_def hide_registry_def)
  with frames assms show ?thesis by (auto simp: registry_components_def)
qed

lemma registry_command_frame:
  assumes "first_arm dispatch_arms (cmd_type c) = Some component" and "component \<in> registry_components"
  shows "leaves (only_registry s) (apply_command h c s)"
  using assms by (simp add: apply_command_def registry_component_frame)

lemma record_audit_only [simp]: "only_registry s (record_audit_event h c ev t) = only_registry s t"
  by (simp add: record_audit_event_def new_uuid_def Let_def)

lemma first_arm_arm: "first_arm arms c = Some r \<Longrightarrow> \<exists>names. (names, r) \<in> set arms \<and> c \<in> set names"
  by (induction arms c rule: first_arm.induct) (auto split: if_splits)

lemma registry_commands_mission:
  assumes "first_arm dispatch_arms ctype = Some component" and "component \<in> registry_components"
  shows "\<not> starts_with ''rem.registry.'' ctype"
proof -
  from first_arm_arm [OF assms(1)] obtain names where "(names, component) \<in> set dispatch_arms" "ctype \<in> set names" by blast
  with assms(2) show ?thesis
    by (auto simp: dispatch_arms_def registry_components_def starts_with_def)
qed

lemma registry_sync_frame:
  assumes "first_arm dispatch_arms (cmd_type c) = Some component" and "component \<in> registry_components"
  shows "only_registry s (fst (handle_mission_sync_command h c s))"
proof -
  have "only_registry s (fst (run_mission_command h c s))"
    using registry_command_frame [OF assms, of s h]
    by (auto simp: run_mission_command_def Let_def leaves_def event_envelope_value_def new_uuid_def
        split: prod.split sum.split option.split)
  with registry_commands_mission [OF assms] show ?thesis
    by (simp add: handle_mission_sync_command_def split: option.split)
qed

lemma registry_handle_frame:
  assumes "first_arm dispatch_arms (cmd_type c) = Some component" and "component \<in> registry_components"
  shows "only_registry s (fst (handle_command h c s))"
  using registry_command_frame [OF assms, of s h]
  by (auto simp: handle_command_def Let_def leaves_def audit_outcome_def new_uuid_def
      split: prod.split sum.split option.split)

subsection \<open>The core a database serves\<close>

text \<open>What the server does not keep of a core when it loads one for a command.\<close>

definition forget :: "rch_core \<Rightarrow> rch_core" where
  "forget t = t\<lparr>messages := [], audit_events := [], system_events := [], telemetry_records := [],
                file_attachments := [], command_results := []\<rparr>"

definition serves :: "host \<Rightarrow> rch_database \<Rightarrow> rch_core \<Rightarrow> bool" where
  "serves h db s \<longleftrightarrow> sound h s \<and> registry_rows db (load_r3akt_read_snapshot db)
     \<and> snapshot_of s (load_r3akt_read_snapshot db)"

lemma sound_forget:
  assumes "sound h t" shows "sound h (forget t)"
proof -
  have "core_ok h (forget t)"
    using soundD(1) [OF assms] unfolding forget_def by (simp add: core_ok_def ok_defs)
  moreover have "tables_ok h (forget t)"
    using soundD(2) [OF assms] unfolding forget_def
    by (simp add: tables_ok_def topic_table_def library_ok_def admin_ok_def attachments_ok_def stored_simps)
  moreover have "sets_ok (forget t)"
    using soundD(3) [OF assms] unfolding forget_def
    by (simp add: sets_ok_def links_distinct_def capabilities_distinct_def attachments_fit_def hm_contains_def)
  ultimately show ?thesis by (simp add: sound_def)
qed

lemma rows_of_same:
  assumes "hm_get m' = hm_get m" and "hm_wf m" and "hm_wf m'"
  shows "rows_of m' xs = rows_of m xs"
proof -
  have "v \<in> set (hm_values m') \<longleftrightarrow> v \<in> set (hm_values m)" for v
    using assms by (metis hm_in_values hm_get_in_values)
  then show ?thesis by (auto simp: rows_of_def)
qed

lemma rows_match_reload: "rows_match pk columns table xs \<Longrightarrow> rows_match pk columns table (load_payload_rows ob table)"
  by (auto simp: rows_match_def set_load_rows)

lemma only_registryD:
  assumes "only_registry s t"
  shows "topics t = topics s"
    "subscribers t = subscribers s"
    "clients t = clients s"
    "identity_announces t = identity_announces s"
    "identity_states t = identity_states s"
    "identity_rem_modes t = identity_rem_modes s"
    "checklists t = checklists s"
    "checklist_templates t = checklist_templates s"
    "checklist_columns t = checklist_columns s"
    "checklist_tasks t = checklist_tasks s"
    "checklist_cells t = checklist_cells s"
    "checklist_feed_publications t = checklist_feed_publications s"
    "identity_capabilities t = identity_capabilities s"
    "subject_operation_rights t = subject_operation_rights s"
    "authorization_required t = authorization_required s"
proof -
  have eq: "f (hide_registry t) = f (hide_registry s)" for f :: "rch_core \<Rightarrow> 'z"
    using assms by (simp add: only_registry_def)
  show "topics t = topics s" using eq [of topics] by (simp add: hide_registry_def)
  show "subscribers t = subscribers s" using eq [of subscribers] by (simp add: hide_registry_def)
  show "clients t = clients s" using eq [of clients] by (simp add: hide_registry_def)
  show "identity_announces t = identity_announces s" using eq [of identity_announces] by (simp add: hide_registry_def)
  show "identity_states t = identity_states s" using eq [of identity_states] by (simp add: hide_registry_def)
  show "identity_rem_modes t = identity_rem_modes s" using eq [of identity_rem_modes] by (simp add: hide_registry_def)
  show "checklists t = checklists s" using eq [of checklists] by (simp add: hide_registry_def)
  show "checklist_templates t = checklist_templates s" using eq [of checklist_templates] by (simp add: hide_registry_def)
  show "checklist_columns t = checklist_columns s" using eq [of checklist_columns] by (simp add: hide_registry_def)
  show "checklist_tasks t = checklist_tasks s" using eq [of checklist_tasks] by (simp add: hide_registry_def)
  show "checklist_cells t = checklist_cells s" using eq [of checklist_cells] by (simp add: hide_registry_def)
  show "checklist_feed_publications t = checklist_feed_publications s" using eq [of checklist_feed_publications] by (simp add: hide_registry_def)
  show "identity_capabilities t = identity_capabilities s" using eq [of identity_capabilities] by (simp add: hide_registry_def)
  show "subject_operation_rights t = subject_operation_rights s" using eq [of subject_operation_rights] by (simp add: hide_registry_def)
  show "authorization_required t = authorization_required s" using eq [of authorization_required] by (simp add: hide_registry_def)
qed

text \<open>The tables the delta writes, read again.\<close>

lemma registry_loaded:
  assumes "registry_rows db (snapshot t)" and "storable h t"
  shows "registry_rows db (load_r3akt_read_snapshot db)"
    and "rows_of (markers t) (sn_markers (load_r3akt_read_snapshot db))"
    and "rows_of (zones t) (sn_zones (load_r3akt_read_snapshot db))"
    and "rows_of (missions t) (sn_missions (load_r3akt_read_snapshot db))"
    and "rows_of (mission_changes t) (sn_mission_changes (load_r3akt_read_snapshot db))"
    and "rows_of (log_entries t) (sn_log_entries (load_r3akt_read_snapshot db))"
    and "rows_of (eam_snapshots t) (sn_eam_snapshots (load_r3akt_read_snapshot db))"
    and "rows_of (teams t) (sn_teams (load_r3akt_read_snapshot db))"
    and "rows_of (team_members t) (sn_team_members (load_r3akt_read_snapshot db))"
    and "rows_of (assets t) (sn_assets (load_r3akt_read_snapshot db))"
    and "rows_of (skills t) (sn_skills (load_r3akt_read_snapshot db))"
    and "rows_of (team_member_skills t) (sn_team_member_skills (load_r3akt_read_snapshot db))"
    and "rows_of (task_skill_requirements t) (sn_task_skill_requirements (load_r3akt_read_snapshot db))"
    and "rows_of (assignments t) (sn_assignments (load_r3akt_read_snapshot db))"
    and "rows_of (mission_access_assignments t) (sn_mission_access_assignments (load_r3akt_read_snapshot db))"
    and "rows_of (subject_operation_rights t) (sn_subject_operation_rights (load_r3akt_read_snapshot db))"
    and "set (sn_mission_team_links (load_r3akt_read_snapshot db)) = set (mission_team_link_records t)"
    and "set (sn_mission_zone_links (load_r3akt_read_snapshot db)) = set (mission_zone_link_records t)"
    and "set (sn_mission_marker_links (load_r3akt_read_snapshot db)) = set (mission_marker_link_records t)"
    and "set (sn_team_member_client_links (load_r3akt_read_snapshot db)) = set (team_member_client_link_records t)"
    and "set (sn_assignment_asset_links (load_r3akt_read_snapshot db)) = set (assignment_asset_link_records t)"
    and "set (sn_identity_capabilities (load_r3akt_read_snapshot db)) = set (identity_capability_grant_records t)"
proof -
  note R = registry_rowsD [OF assms(1)] and S = snapshot_of_snapshot [OF assms(2), unfolded snapshot_of_def]
  show "registry_rows db (load_r3akt_read_snapshot db)"
    unfolding registry_rows_def load_r3akt_read_snapshot_def rch_core_snapshot.simps by (intro conjI R [THEN rows_match_reload])
  show "rows_of (markers t) (sn_markers (load_r3akt_read_snapshot db))"
    using S by (simp add: load_r3akt_read_snapshot_def rows_of_def R [THEN rows_match_loaded])
  show "rows_of (zones t) (sn_zones (load_r3akt_read_snapshot db))"
    using S by (simp add: load_r3akt_read_snapshot_def rows_of_def R [THEN rows_match_loaded])
  show "rows_of (missions t) (sn_missions (load_r3akt_read_snapshot db))"
    using S by (simp add: load_r3akt_read_snapshot_def rows_of_def R [THEN rows_match_loaded])
  show "rows_of (mission_changes t) (sn_mission_changes (load_r3akt_read_snapshot db))"
    using S by (simp add: load_r3akt_read_snapshot_def rows_of_def R [THEN rows_match_loaded])
  show "rows_of (log_entries t) (sn_log_entries (load_r3akt_read_snapshot db))"
    using S by (simp add: load_r3akt_read_snapshot_def rows_of_def R [THEN rows_match_loaded])
  show "rows_of (eam_snapshots t) (sn_eam_snapshots (load_r3akt_read_snapshot db))"
    using S by (simp add: load_r3akt_read_snapshot_def rows_of_def R [THEN rows_match_loaded])
  show "rows_of (teams t) (sn_teams (load_r3akt_read_snapshot db))"
    using S by (simp add: load_r3akt_read_snapshot_def rows_of_def R [THEN rows_match_loaded])
  show "rows_of (team_members t) (sn_team_members (load_r3akt_read_snapshot db))"
    using S by (simp add: load_r3akt_read_snapshot_def rows_of_def R [THEN rows_match_loaded])
  show "rows_of (assets t) (sn_assets (load_r3akt_read_snapshot db))"
    using S by (simp add: load_r3akt_read_snapshot_def rows_of_def R [THEN rows_match_loaded])
  show "rows_of (skills t) (sn_skills (load_r3akt_read_snapshot db))"
    using S by (simp add: load_r3akt_read_snapshot_def rows_of_def R [THEN rows_match_loaded])
  show "rows_of (team_member_skills t) (sn_team_member_skills (load_r3akt_read_snapshot db))"
    using S by (simp add: load_r3akt_read_snapshot_def rows_of_def R [THEN rows_match_loaded])
  show "rows_of (task_skill_requirements t) (sn_task_skill_requirements (load_r3akt_read_snapshot db))"
    using S by (simp add: load_r3akt_read_snapshot_def rows_of_def R [THEN rows_match_loaded])
  show "rows_of (assignments t) (sn_assignments (load_r3akt_read_snapshot db))"
    using S by (simp add: load_r3akt_read_snapshot_def rows_of_def R [THEN rows_match_loaded])
  show "rows_of (mission_access_assignments t) (sn_mission_access_assignments (load_r3akt_read_snapshot db))"
    using S by (simp add: load_r3akt_read_snapshot_def rows_of_def R [THEN rows_match_loaded])
  show "rows_of (subject_operation_rights t) (sn_subject_operation_rights (load_r3akt_read_snapshot db))"
    using S by (simp add: load_r3akt_read_snapshot_def rows_of_def R [THEN rows_match_loaded])
  show "set (sn_mission_team_links (load_r3akt_read_snapshot db)) = set (mission_team_link_records t)"
    using S by (simp add: load_r3akt_read_snapshot_def rows_of_def R [THEN rows_match_loaded])
  show "set (sn_mission_zone_links (load_r3akt_read_snapshot db)) = set (mission_zone_link_records t)"
    using S by (simp add: load_r3akt_read_snapshot_def rows_of_def R [THEN rows_match_loaded])
  show "set (sn_mission_marker_links (load_r3akt_read_snapshot db)) = set (mission_marker_link_records t)"
    using S by (simp add: load_r3akt_read_snapshot_def rows_of_def R [THEN rows_match_loaded])
  show "set (sn_team_member_client_links (load_r3akt_read_snapshot db)) = set (team_member_client_link_records t)"
    using S by (simp add: load_r3akt_read_snapshot_def rows_of_def R [THEN rows_match_loaded])
  show "set (sn_assignment_asset_links (load_r3akt_read_snapshot db)) = set (assignment_asset_link_records t)"
    using S by (simp add: load_r3akt_read_snapshot_def rows_of_def R [THEN rows_match_loaded])
  show "set (sn_identity_capabilities (load_r3akt_read_snapshot db)) = set (identity_capability_grant_records t)"
    using S by (simp add: load_r3akt_read_snapshot_def rows_of_def R [THEN rows_match_loaded])
qed

text \<open>The tables the delta leaves, read again.\<close>

lemma others_loaded:
  assumes "serves h db s" and "same_tables s core" and "well_formed core"
  shows "rows_of (topics core) (sn_topics (load_r3akt_read_snapshot db))"
    "rows_of (subscribers core) (sn_subscribers (load_r3akt_read_snapshot db))"
    "rows_of (clients core) (sn_clients (load_r3akt_read_snapshot db))"
    "rows_of (identity_announces core) (sn_identity_announces (load_r3akt_read_snapshot db))"
    "rows_of (identity_states core) (sn_identity_states (load_r3akt_read_snapshot db))"
    "rows_of (identity_rem_modes core) (sn_identity_rem_modes (load_r3akt_read_snapshot db))"
    "rows_of (checklists core) (sn_checklists (load_r3akt_read_snapshot db))"
    "rows_of (checklist_templates core) (sn_checklist_templates (load_r3akt_read_snapshot db))"
    "rows_of (checklist_columns core) (sn_checklist_columns (load_r3akt_read_snapshot db))"
    "rows_of (checklist_tasks core) (sn_checklist_tasks (load_r3akt_read_snapshot db))"
    "rows_of (checklist_cells core) (sn_checklist_cells (load_r3akt_read_snapshot db))"
    "rows_of (checklist_feed_publications core) (sn_checklist_feed_publications (load_r3akt_read_snapshot db))"
    "authorization_required core \<longleftrightarrow> sn_authorization_required (load_r3akt_read_snapshot db)"
proof -
  have S: "snapshot_of s (load_r3akt_read_snapshot db)" and store: "storable h s"
    using assms(1) soundD(4) by (simp_all add: serves_def)
  show "rows_of (topics core) (sn_topics (load_r3akt_read_snapshot db))"
    using S assms(2,3) store rows_of_same [of "topics core" "topics s"]
    by (simp add: snapshot_of_def same_tables_def well_formed_def storable_def stored_def)
  show "rows_of (subscribers core) (sn_subscribers (load_r3akt_read_snapshot db))"
    using S assms(2,3) store rows_of_same [of "subscribers core" "subscribers s"]
    by (simp add: snapshot_of_def same_tables_def well_formed_def storable_def stored_def)
  show "rows_of (clients core) (sn_clients (load_r3akt_read_snapshot db))"
    using S assms(2,3) store rows_of_same [of "clients core" "clients s"]
    by (simp add: snapshot_of_def same_tables_def well_formed_def storable_def stored_def)
  show "rows_of (identity_announces core) (sn_identity_announces (load_r3akt_read_snapshot db))"
    using S assms(2,3) store rows_of_same [of "identity_announces core" "identity_announces s"]
    by (simp add: snapshot_of_def same_tables_def well_formed_def storable_def stored_def)
  show "rows_of (identity_states core) (sn_identity_states (load_r3akt_read_snapshot db))"
    using S assms(2,3) store rows_of_same [of "identity_states core" "identity_states s"]
    by (simp add: snapshot_of_def same_tables_def well_formed_def storable_def stored_def)
  show "rows_of (identity_rem_modes core) (sn_identity_rem_modes (load_r3akt_read_snapshot db))"
    using S assms(2,3) store rows_of_same [of "identity_rem_modes core" "identity_rem_modes s"]
    by (simp add: snapshot_of_def same_tables_def well_formed_def storable_def stored_def)
  show "rows_of (checklists core) (sn_checklists (load_r3akt_read_snapshot db))"
    using S assms(2,3) store rows_of_same [of "checklists core" "checklists s"]
    by (simp add: snapshot_of_def same_tables_def well_formed_def storable_def stored_def)
  show "rows_of (checklist_templates core) (sn_checklist_templates (load_r3akt_read_snapshot db))"
    using S assms(2,3) store rows_of_same [of "checklist_templates core" "checklist_templates s"]
    by (simp add: snapshot_of_def same_tables_def well_formed_def storable_def stored_def)
  show "rows_of (checklist_columns core) (sn_checklist_columns (load_r3akt_read_snapshot db))"
    using S assms(2,3) store rows_of_same [of "checklist_columns core" "checklist_columns s"]
    by (simp add: snapshot_of_def same_tables_def well_formed_def storable_def stored_def)
  show "rows_of (checklist_tasks core) (sn_checklist_tasks (load_r3akt_read_snapshot db))"
    using S assms(2,3) store rows_of_same [of "checklist_tasks core" "checklist_tasks s"]
    by (simp add: snapshot_of_def same_tables_def well_formed_def storable_def stored_def)
  show "rows_of (checklist_cells core) (sn_checklist_cells (load_r3akt_read_snapshot db))"
    using S assms(2,3) store rows_of_same [of "checklist_cells core" "checklist_cells s"]
    by (simp add: snapshot_of_def same_tables_def well_formed_def storable_def stored_def)
  show "rows_of (checklist_feed_publications core) (sn_checklist_feed_publications (load_r3akt_read_snapshot db))"
    using S assms(2,3) store rows_of_same [of "checklist_feed_publications core" "checklist_feed_publications s"]
    by (simp add: snapshot_of_def same_tables_def well_formed_def storable_def stored_def)
  show "authorization_required core \<longleftrightarrow> sn_authorization_required (load_r3akt_read_snapshot db)"
    using S assms(2) by (simp add: snapshot_of_def same_tables_def)
qed

lemma others_kept:
  fixes db before after
  defines "db' \<equiv> save_r3akt_command_delta before after db"
  shows "sn_topics (load_r3akt_read_snapshot db') = sn_topics (load_r3akt_read_snapshot db)"
    "sn_subscribers (load_r3akt_read_snapshot db') = sn_subscribers (load_r3akt_read_snapshot db)"
    "sn_clients (load_r3akt_read_snapshot db') = sn_clients (load_r3akt_read_snapshot db)"
    "sn_identity_announces (load_r3akt_read_snapshot db') = sn_identity_announces (load_r3akt_read_snapshot db)"
    "sn_identity_states (load_r3akt_read_snapshot db') = sn_identity_states (load_r3akt_read_snapshot db)"
    "sn_identity_rem_modes (load_r3akt_read_snapshot db') = sn_identity_rem_modes (load_r3akt_read_snapshot db)"
    "sn_checklists (load_r3akt_read_snapshot db') = sn_checklists (load_r3akt_read_snapshot db)"
    "sn_checklist_templates (load_r3akt_read_snapshot db') = sn_checklist_templates (load_r3akt_read_snapshot db)"
    "sn_checklist_columns (load_r3akt_read_snapshot db') = sn_checklist_columns (load_r3akt_read_snapshot db)"
    "sn_checklist_tasks (load_r3akt_read_snapshot db') = sn_checklist_tasks (load_r3akt_read_snapshot db)"
    "sn_checklist_cells (load_r3akt_read_snapshot db') = sn_checklist_cells (load_r3akt_read_snapshot db)"
    "sn_checklist_feed_publications (load_r3akt_read_snapshot db') = sn_checklist_feed_publications (load_r3akt_read_snapshot db)"
    "sn_authorization_required (load_r3akt_read_snapshot db') = sn_authorization_required (load_r3akt_read_snapshot db)"
  by (simp_all add: db'_def load_r3akt_read_snapshot_def delta_keeps setting_value_def)

lemma forgotten:
  "topics (forget t) = topics t"
  "subscribers (forget t) = subscribers t"
  "clients (forget t) = clients t"
  "identity_announces (forget t) = identity_announces t"
  "identity_states (forget t) = identity_states t"
  "identity_rem_modes (forget t) = identity_rem_modes t"
  "checklists (forget t) = checklists t"
  "checklist_templates (forget t) = checklist_templates t"
  "checklist_columns (forget t) = checklist_columns t"
  "checklist_tasks (forget t) = checklist_tasks t"
  "checklist_cells (forget t) = checklist_cells t"
  "checklist_feed_publications (forget t) = checklist_feed_publications t"
  "markers (forget t) = markers t"
  "zones (forget t) = zones t"
  "missions (forget t) = missions t"
  "mission_changes (forget t) = mission_changes t"
  "log_entries (forget t) = log_entries t"
  "eam_snapshots (forget t) = eam_snapshots t"
  "teams (forget t) = teams t"
  "team_members (forget t) = team_members t"
  "assets (forget t) = assets t"
  "skills (forget t) = skills t"
  "team_member_skills (forget t) = team_member_skills t"
  "task_skill_requirements (forget t) = task_skill_requirements t"
  "assignments (forget t) = assignments t"
  "mission_access_assignments (forget t) = mission_access_assignments t"
  "subject_operation_rights (forget t) = subject_operation_rights t"
  "authorization_required (forget t) = authorization_required t"
  "mission_team_link_records (forget t) = mission_team_link_records t"
  "mission_zone_link_records (forget t) = mission_zone_link_records t"
  "mission_marker_link_records (forget t) = mission_marker_link_records t"
  "team_member_client_link_records (forget t) = team_member_client_link_records t"
  "assignment_asset_link_records (forget t) = assignment_asset_link_records t"
  "identity_capability_grant_records (forget t) = identity_capability_grant_records t"
  "messages (forget t) = []" "audit_events (forget t) = []" "system_events (forget t) = []"
  "telemetry_records (forget t) = []" "file_attachments (forget t) = []" "command_results (forget t) = []"
  by (simp_all add: forget_def mission_team_link_records_def mission_zone_link_records_def mission_marker_link_records_def team_member_client_link_records_def assignment_asset_link_records_def identity_capability_grant_records_def capabilities_of_def)

lemma read_forgets:
  "sn_messages (load_r3akt_read_snapshot db) = []" "sn_audit_events (load_r3akt_read_snapshot db) = []"
  "sn_system_events (load_r3akt_read_snapshot db) = []" "sn_telemetry_records (load_r3akt_read_snapshot db) = []"
  "sn_file_attachments (load_r3akt_read_snapshot db) = []" "sn_command_results (load_r3akt_read_snapshot db) = []"
  by (simp_all add: load_r3akt_read_snapshot_def)

lemma delta_serves:
  assumes serves: "serves h db s" and same: "same_tables s core" and wf: "well_formed core"
    and t: "sound h t" and only: "only_registry core t"
    and sep: "separable_snapshot (load_r3akt_read_snapshot db)" "separable_snapshot (snapshot t)"
  shows "serves h (save_r3akt_command_delta (load_r3akt_read_snapshot db) (snapshot t) db) (forget t)"
proof -
  let ?db' = "save_r3akt_command_delta (load_r3akt_read_snapshot db) (snapshot t) db"
  have store: "storable h t" by (rule soundD(4) [OF t])
  have "insertable (snapshot t)" by (rule insertable_snapshot [OF store soundD(3) [OF t]])
  then have R: "registry_rows ?db' (snapshot t)"
    using serves sep by (intro registry_delta_rows(1)) (simp_all add: serves_def)
  note loaded = registry_loaded [OF R store]
  note others = others_loaded [OF serves same wf] and kept = only_registryD [OF only]
  have distinct: "distinct (map tp_topic_id (sn_topics (load_r3akt_read_snapshot db)))"
      "distinct (map subscriber_key_of (sn_subscribers (load_r3akt_read_snapshot db)))"
    using serves by (simp_all add: serves_def snapshot_of_def)
  have "snapshot_of (forget t) (load_r3akt_read_snapshot ?db')"
    unfolding snapshot_of_def forgotten
    using loaded(2-) others distinct
    by (simp add: others_kept kept rows_of_def read_forgets hm_values_def)
  then show ?thesis using sound_forget [OF t] loaded(1) by (simp add: serves_def)
qed

subsection \<open>Commands on the registry\<close>

lemma served_core:
  assumes "serves h db s"
  shows "\<exists>core. from_snapshot h (load_r3akt_read_snapshot db) = Inr core \<and> same_tables s core \<and> well_formed core
    \<and> sound h core"
proof -
  have s: "sound h s" "snapshot_of s (load_r3akt_read_snapshot db)" using assms by (simp_all add: serves_def)
  obtain core where core: "from_snapshot h (load_r3akt_read_snapshot db) = Inr core" "same_tables s core"
    using from_snapshot_rows [OF soundD(4) [OF s(1)] s(2)] by blast
  then have "well_formed core" using from_snapshot_well_formed by blast
  with core sound_same_tables [OF s(1)] show ?thesis by blast
qed

lemma network_command_served:
  assumes "serves h db s" and lawful: "lawful_host (uuid_parse h) h" "uuid_canonical h"
    and arm: "first_arm dispatch_arms (pc_name command) = Some component" "component \<in> registry_components"
  shows "\<exists>core t answer db'. from_snapshot h (load_r3akt_read_snapshot db) = Inr core \<and> same_tables s core
    \<and> handle_mission_sync_command h (mission_sync_command_from_reticulumd rfc3339 e command) core = (t, ia_responses answer)
    \<and> process_reticulumd_inbound_mission_sync_command h rfc3339 e command False (Some db) = (Some db', Inr answer)
    \<and> (separable_snapshot (load_r3akt_read_snapshot db) \<and> separable_snapshot (snapshot t) \<longrightarrow> serves h db' (forget t))"
proof -
  let ?c = "mission_sync_command_from_reticulumd rfc3339 e command"
  obtain core where core: "from_snapshot h (load_r3akt_read_snapshot db) = Inr core" "same_tables s core"
      "well_formed core" "sound h core"
    using served_core [OF assms(1)] by blast
  obtain t rs where run: "handle_mission_sync_command h ?c core = (t, rs)" by fastforce
  have t: "sound h t" by (rule step_sound [OF step.mission_sync [OF lawful(1) run] lawful(2) core(4)])
  have "cmd_type ?c = pc_name command" by (simp add: mission_sync_command_from_reticulumd_def)
  then have "only_registry core t" using registry_sync_frame [of ?c component core h] arm run by simp
  note served = delta_serves [OF assms(1) core(2,3) t this]
  show ?thesis
    using core(1,2) run served
    by (auto simp: process_reticulumd_inbound_mission_sync_command_def Let_def internal_def)
qed

lemma http_command_served:
  assumes "serves h db s" and lawful: "lawful_host (uuid_parse h) h" "uuid_canonical h"
    and arm: "first_arm dispatch_arms command_type = Some component" "component \<in> registry_components"
    and run: "r3akt_command h drawn_id command_type args (Some db) = (Some db', Inr v, Some changes)"
  shows "\<exists>core t outcome. from_snapshot h (load_r3akt_read_snapshot db) = Inr core \<and> same_tables s core
    \<and> handle_command h (http_command h drawn_id command_type args) core = (t, outcome)
    \<and> res_status (out_result outcome) = Accepted \<and> v = res_result (out_result outcome)
    \<and> (separable_snapshot (load_r3akt_read_snapshot db) \<and> separable_snapshot (snapshot t) \<longrightarrow> serves h db' (forget t))"
proof -
  let ?c = "http_command h drawn_id command_type args"
  obtain core where core: "from_snapshot h (load_r3akt_read_snapshot db) = Inr core" "same_tables s core"
      "well_formed core" "sound h core"
    using served_core [OF assms(1)] by blast
  obtain t outcome where handled: "handle_command h ?c core = (t, outcome)" by fastforce
  have t: "sound h t" by (rule step_sound [OF step.command [OF lawful(1) handled] lawful(2) core(4)])
  have "cmd_type ?c = command_type" by (simp add: http_command_def)
  then have "only_registry core t" using registry_handle_frame [of ?c component core h] arm handled by simp
  note served = delta_serves [OF assms(1) core(2,3) t this]
  show ?thesis
    using core(1,2) handled served run
    by (auto simp: r3akt_command_def Let_def internal_def split: if_splits)
qed

lemma serves_empty: "serves h empty_database new_core"
proof -
  have "registry_rows empty_database (load_r3akt_read_snapshot empty_database)"
    by (simp add: registry_rows_def load_r3akt_read_snapshot_def empty_database_def rows_match_def table_of_def
        own_keys_def load_payload_rows_def)
  moreover have "snapshot_of new_core (load_r3akt_read_snapshot empty_database)"
    by (simp add: snapshot_of_def new_core_def load_r3akt_read_snapshot_def empty_database_def rows_of_def
        load_payload_rows_def hm_values_def setting_value_def mission_team_link_records_def
        mission_zone_link_records_def mission_marker_link_records_def team_member_client_link_records_def
        assignment_asset_link_records_def identity_capability_grant_records_def)
  ultimately show ?thesis by (simp add: serves_def sound_new)
qed

text \<open>The command and the envelope the witness of the root theory runs.\<close>

definition sample_listing :: protocol_command where
  "sample_listing = \<lparr>pc_name = ''mission.registry.mission.list'', pc_args = JNull, pc_correlation_id = None\<rparr>"

definition sample_listing_envelope :: protocol_envelope where
  "sample_listing_envelope = new_envelope ''e1'' 0 ''abcd'' BroadcastDestination ''rch'' (Command sample_listing)"

end
