(* ===== verification/Server_Auth.thy ===== *)
theory Server_Auth
  imports Hub_Store Ingest "HOL-Library.Word"
begin

unbundle bit_operations_syntax

text \<open>
  Who may use the server (\<open>crates/r3akt-rch-server/src/auth.rs\<close>): clients on the machine of the
  hub, and those that present its key or the remote password; failures are counted for every client
  and surface, and too many lock it for a while.  A request reads the clock where the code does, so an
  operation takes its readings; a new salt and identifier come as arguments too.  The hash functions
  are fields of \<open>secret_host\<close>.  A poisoned lock and a database that cannot be opened are left out.
\<close>

subsection \<open>Addresses\<close>

datatype ip_addr = V4 "8 word" "8 word" "8 word" "8 word" | V6 "16 word list"

type_synonym socket_addr = "ip_addr \<times> nat"

fun to_ipv4_mapped :: "16 word list \<Rightarrow> (8 word \<times> 8 word \<times> 8 word \<times> 8 word) option" where
  "to_ipv4_mapped [s0, s1, s2, s3, s4, s5, s6, s7] =
     (if [s0, s1, s2, s3, s4, s5] = [0, 0, 0, 0, 0, 0xffff]
      then Some (ucast (drop_bit 8 s6), ucast s6, ucast (drop_bit 8 s7), ucast s7) else None)"
| "to_ipv4_mapped _ = None"

definition v4_loopback :: "8 word \<Rightarrow> bool" where
  "v4_loopback a \<longleftrightarrow> a = 127"

fun is_loopback_ip :: "ip_addr \<Rightarrow> bool" where
  "is_loopback_ip (V4 a b c d) = v4_loopback a"
| "is_loopback_ip (V6 segments) =
     (segments = [0, 0, 0, 0, 0, 0, 0, 1]
      \<or> is_some_and (to_ipv4_mapped segments) (\<lambda>(a, _). v4_loopback a))"

definition is_local_client_addr :: "socket_addr option \<Rightarrow> bool" where
  "is_local_client_addr client_addr = is_some_and (map_option fst client_addr) is_loopback_ip"

text \<open>How the standard library prints an address: the longest run of zeros, the first of several,
  becomes two colons.\<close>

definition v4_text :: "8 word \<times> 8 word \<times> 8 word \<times> 8 word \<Rightarrow> string" where
  "v4_text = (\<lambda>(a, b, c, d). join ''.'' (map (\<lambda>x. show_nat (unat x)) [a, b, c, d]))"

fun longest_zeros :: "nat \<Rightarrow> nat \<times> nat \<Rightarrow> nat \<times> nat \<Rightarrow> 16 word list \<Rightarrow> nat \<times> nat" where
  "longest_zeros i current longest [] = longest"
| "longest_zeros i (start, run) longest (segment # segments) =
     (if segment = 0
      then (let current = (if run = 0 then i else start, run + 1)
            in longest_zeros (i + 1) current (if snd current > snd longest then current else longest) segments)
      else longest_zeros (i + 1) (0, 0) longest segments)"

definition segments_text :: "16 word list \<Rightarrow> string" where
  "segments_text segments = join '':'' (map (\<lambda>s. hex_digits (unat s)) segments)"

fun ip_text :: "ip_addr \<Rightarrow> string" where
  "ip_text (V4 a b c d) = v4_text (a, b, c, d)"
| "ip_text (V6 segments) =
     (case to_ipv4_mapped segments of
        Some v4 \<Rightarrow> ''::ffff:'' @ v4_text v4
      | None \<Rightarrow>
          (let (start, run) = longest_zeros 0 (0, 0) (0, 0) segments
           in if run > 1
              then segments_text (take start segments) @ ''::'' @ segments_text (drop (start + run) segments)
              else segments_text segments))"

subsection \<open>The state\<close>

record auth_failure_window =
  fw_failures :: "int list"
  fw_locked_until_ts_ms :: "int option"

type_synonym auth_throttle = "(string, auth_failure_window) hmap"

datatype kill_switch_mode = Idle | Armed | Authorized | Deleting | PurgeCompleted | PurgeFailed

record kill_switch_target =
  kt_id :: string
  kt_label :: string
  kt_short :: string
  kt_total :: nat
  kt_erased :: nat
  kt_unit :: string
  kt_state :: string
  kt_weight :: nat

record kill_switch_runtime =
  ks_arm_a :: bool
  ks_arm_b :: bool
  ks_mode :: kill_switch_mode
  ks_authorized_at_ts_ms :: "int option"
  ks_purge_started_at_ts_ms :: "int option"
  ks_purge_completed_at_ts_ms :: "int option"
  ks_failed_at_ts_ms :: "int option"
  ks_initial_pin_reveal :: "string option"
  ks_progress_percent :: nat
  ks_message :: string
  ks_targets :: "kill_switch_target list"
  ks_rows_deleted :: nat
  ks_last_error :: "string option"
  ks_updated_at_ts_ms :: int

definition default_kill_switch :: kill_switch_runtime where
  "default_kill_switch =
     \<lparr>ks_arm_a = False, ks_arm_b = False, ks_mode = Idle, ks_authorized_at_ts_ms = None,
      ks_purge_started_at_ts_ms = None, ks_purge_completed_at_ts_ms = None, ks_failed_at_ts_ms = None,
      ks_initial_pin_reveal = None, ks_progress_percent = 0, ks_message = [], ks_targets = [],
      ks_rows_deleted = 0, ks_last_error = None, ks_updated_at_ts_ms = 0\<rparr>"

text \<open>
  A path is the list of its components; a file system gives what is at a path.  The paths are those of
  the configuration of the server; the directory for attachments may come from the environment.
\<close>

type_synonym path = "string list"

datatype disk_entry = DiskDirectory | DiskFile string

type_synonym disk = "(path, disk_entry) hmap"

record server_paths =
  pa_sqlite_path :: "path option"
  pa_managed_reticulumd_db_path :: "path option"
  pa_config_path :: "path option"
  pa_reticulum_config_path :: "path option"
  pa_managed_config_path :: "path option"
  pa_storage_dir :: "path option"
  pa_current_dir :: "path option"

text \<open>The part of the state of the server that access and the kill switch are about.\<close>

record app_state =
  ap_store :: hub_store
  ap_api_key :: "string option"
  ap_auth_throttle :: auth_throttle
  ap_kill_switch :: kill_switch_runtime
  ap_paths :: server_paths
  ap_disk :: disk

type_synonym 'a app_op = "app_state \<times> (api_error + 'a)"

definition ensure_kill_switch_persistence_unlocked :: "app_state \<Rightarrow> api_error + unit" where
  "ensure_kill_switch_persistence_unlocked a =
     (if ks_mode (ap_kill_switch a) \<in> {Deleting, PurgeCompleted}
      then Inl (ServiceUnavailable ''RCH persistence is locked by kill switch purge'') else Inr ())"

definition with_required_core_store_write_unchecked ::
  "(rch_database \<Rightarrow> rch_database \<times> 'a) \<Rightarrow> app_state \<Rightarrow> 'a app_op" where
  "with_required_core_store_write_unchecked operation a =
     (case ap_store a of
        None \<Rightarrow> (a, Inl (ServiceUnavailable ''RCH SQLite state unavailable''))
      | Some db \<Rightarrow> (let (db, x) = operation db in (a\<lparr>ap_store := Some db\<rparr>, Inr x)))"

definition with_required_core_store_write ::
  "(rch_database \<Rightarrow> rch_database \<times> 'a) \<Rightarrow> app_state \<Rightarrow> 'a app_op" where
  "with_required_core_store_write operation a =
     try_in a (ensure_kill_switch_persistence_unlocked a) (\<lambda>_.
       with_required_core_store_write_unchecked operation a)"

subsection \<open>Counting failures\<close>

definition AUTH_FAILURE_LIMIT :: nat where "AUTH_FAILURE_LIMIT = 5"
definition AUTH_FAILURE_WINDOW_MS :: int where "AUTH_FAILURE_WINDOW_MS = 300000"
definition AUTH_LOCKOUT_MS :: int where "AUTH_LOCKOUT_MS = 300000"
definition AUTH_LOCKOUT_RETRY_AFTER_SECS :: nat where "AUTH_LOCKOUT_RETRY_AFTER_SECS = 300"

definition rate_limit_error :: api_error where
  "rate_limit_error =
     TooManyRequests ''Too many authentication failures; retry after five minutes'' AUTH_LOCKOUT_RETRY_AFTER_SECS"

definition auth_throttle_key :: "string \<Rightarrow> socket_addr option \<Rightarrow> string" where
  "auth_throttle_key surface client_addr =
     surface @ '':'' @ unwrap_or (map_option (\<lambda>(ip, _). ip_text ip) client_addr) ''unknown''"

definition recent_failures :: "int \<Rightarrow> int list \<Rightarrow> int list" where
  "recent_failures now_ms = filter (\<lambda>failure. sat_i64 (now_ms - failure) \<le> AUTH_FAILURE_WINDOW_MS)"

definition ensure_auth_attempt_allowed ::
  "string \<Rightarrow> socket_addr option \<Rightarrow> int \<Rightarrow> app_state \<Rightarrow> unit app_op" where
  "ensure_auth_attempt_allowed surface client_addr now_ms a =
     (let key = auth_throttle_key surface client_addr
      in case hm_get (ap_auth_throttle a) key of
           None \<Rightarrow> (a, Inr ())
         | Some window \<Rightarrow>
             if is_some_and (fw_locked_until_ts_ms window) (\<lambda>until. until > now_ms)
             then (a, Inl rate_limit_error)
             else (a\<lparr>ap_auth_throttle := hm_insert key
                       \<lparr>fw_failures = recent_failures now_ms (fw_failures window),
                        fw_locked_until_ts_ms = None\<rparr> (ap_auth_throttle a)\<rparr>, Inr ()))"

definition record_auth_failure ::
  "string \<Rightarrow> socket_addr option \<Rightarrow> int \<Rightarrow> app_state \<Rightarrow> unit app_op" where
  "record_auth_failure surface client_addr now_ms a =
     (let key = auth_throttle_key surface client_addr;
          window = unwrap_or (hm_get (ap_auth_throttle a) key)
                     \<lparr>fw_failures = [], fw_locked_until_ts_ms = None\<rparr>;
          window = window\<lparr>fw_failures := recent_failures now_ms (fw_failures window) @ [now_ms]\<rparr>
      in if length (fw_failures window) \<ge> AUTH_FAILURE_LIMIT
         then (a\<lparr>ap_auth_throttle := hm_insert key
                   (window\<lparr>fw_locked_until_ts_ms := Some (sat_i64 (now_ms + AUTH_LOCKOUT_MS))\<rparr>)
                   (ap_auth_throttle a)\<rparr>, Inl rate_limit_error)
         else (a\<lparr>ap_auth_throttle := hm_insert key window (ap_auth_throttle a)\<rparr>, Inr ()))"

definition clear_auth_failures :: "string \<Rightarrow> socket_addr option \<Rightarrow> app_state \<Rightarrow> app_state" where
  "clear_auth_failures surface client_addr a =
     a\<lparr>ap_auth_throttle := hm_remove (auth_throttle_key surface client_addr) (ap_auth_throttle a)\<rparr>"

subsection \<open>Secrets\<close>

record secret_host =
  sh_sha256_lower_hex :: "string \<Rightarrow> string"
  sh_argon2_hash :: "string \<Rightarrow> string \<Rightarrow> string + string"
  sh_argon2_verify :: "string \<Rightarrow> string \<Rightarrow> string + bool"
  sh_parse_int_error :: "string \<Rightarrow> string"

text \<open>\<open>KillSwitchPinSecret\<close> and \<open>StoredPasswordSecret\<close> have the same fields.\<close>

record stored_secret =
  sc_salt :: string
  sc_hash :: string
  sc_created_at_ts_ms :: int

definition password_hash :: "secret_host \<Rightarrow> string \<Rightarrow> string \<Rightarrow> string" where
  "password_hash sh salt v = sh_sha256_lower_hex sh (salt @ '':'' @ v)"

definition is_argon2id_phc :: "string \<Rightarrow> bool" where
  "is_argon2id_phc hash = starts_with ''$argon2id$'' hash"

definition argon2id_hash :: "secret_host \<Rightarrow> string \<Rightarrow> string \<Rightarrow> api_error + string" where
  "argon2id_hash sh drawn_salt v =
     (case sh_argon2_hash sh drawn_salt v of
        Inl err \<Rightarrow> Inl (Internal (''failed to hash authentication secret: '' @ err))
      | Inr hash \<Rightarrow> Inr hash)"

definition byte_word :: "char \<Rightarrow> 8 word" where
  "byte_word c = word_of_nat (code c)"

definition secure_string_eq :: "string \<Rightarrow> string \<Rightarrow> bool" where
  "secure_string_eq left right =
     (if length left \<noteq> length right then False
      else fold (\<lambda>(l, r) accumulator. accumulator OR (byte_word l XOR byte_word r)) (zip left right) 0 = 0)"

definition verify_versioned_secret :: "secret_host \<Rightarrow> string \<Rightarrow> string \<Rightarrow> string \<Rightarrow> api_error + bool" where
  "verify_versioned_secret sh salt hash v =
     (if \<not> is_argon2id_phc hash then Inr (secure_string_eq (password_hash sh salt v) hash)
      else (case sh_argon2_verify sh hash v of
              Inl err \<Rightarrow> Inl (Internal (''invalid Argon2id PHC secret: '' @ err))
            | Inr valid \<Rightarrow> Inr valid))"

text \<open>The two secrets are stored in the same way, under settings of their own.\<close>

record secret_settings =
  ss_salt :: string
  ss_hash :: string
  ss_created_at :: string
  ss_name :: string

definition KILL_SWITCH_PIN_SETTINGS :: secret_settings where
  "KILL_SWITCH_PIN_SETTINGS =
     \<lparr>ss_salt = ''kill_switch_pin_salt'', ss_hash = ''kill_switch_pin_hash'',
      ss_created_at = ''kill_switch_pin_created_at_ts_ms'', ss_name = ''kill switch PIN''\<rparr>"

definition REMOTE_ACCESS_PASSWORD_SETTINGS :: secret_settings where
  "REMOTE_ACCESS_PASSWORD_SETTINGS =
     \<lparr>ss_salt = ''remote_access_password_salt'', ss_hash = ''remote_access_password_hash'',
      ss_created_at = ''remote_access_password_created_at_ts_ms'', ss_name = ''remote password''\<rparr>"

definition parse_secret ::
  "secret_host \<Rightarrow> secret_settings \<Rightarrow> string option \<Rightarrow> string option \<Rightarrow> string option
     \<Rightarrow> api_error + stored_secret option" where
  "parse_secret sh ss salt hash created_at =
     (let incomplete = Inl (Internal (''incomplete '' @ ss_name ss @ '' authentication record''))
      in case (salt, hash, created_at) of
           (None, None, None) \<Rightarrow> Inr None
         | (Some salt, Some hash, Some created_at) \<Rightarrow>
             if salt \<noteq> [] \<and> hash \<noteq> []
             then (case parse_i64 created_at of
                     None \<Rightarrow> Inl (Internal (''invalid '' @ ss_name ss @ '' creation timestamp: ''
                               @ sh_parse_int_error sh created_at))
                   | Some created_at_ts_ms \<Rightarrow>
                       Inr (Some \<lparr>sc_salt = salt, sc_hash = hash, sc_created_at_ts_ms = created_at_ts_ms\<rparr>))
             else incomplete
         | _ \<Rightarrow> incomplete)"

definition load_secret :: "secret_host \<Rightarrow> secret_settings \<Rightarrow> app_state \<Rightarrow> stored_secret option app_op" where
  "load_secret sh ss a =
     try_st (with_required_core_store_write (\<lambda>db. (db,
         (setting_value (ss_salt ss) db, setting_value (ss_hash ss) db, setting_value (ss_created_at ss) db))) a)
       (\<lambda>a (salt, hash, created_at). (a, parse_secret sh ss salt hash created_at))"

definition save_secret :: "secret_settings \<Rightarrow> stored_secret \<Rightarrow> app_state \<Rightarrow> unit app_op" where
  "save_secret ss secret a =
     with_required_core_store_write (\<lambda>db.
       (set_setting_value (ss_created_at ss) (show_int (sc_created_at_ts_ms secret))
         (set_setting_value (ss_hash ss) (sc_hash secret)
           (set_setting_value (ss_salt ss) (sc_salt secret) db)), ())) a"

definition load_kill_switch_pin :: "secret_host \<Rightarrow> app_state \<Rightarrow> stored_secret option app_op" where
  "load_kill_switch_pin sh = load_secret sh KILL_SWITCH_PIN_SETTINGS"

definition load_stored_remote_password :: "secret_host \<Rightarrow> app_state \<Rightarrow> stored_secret option app_op" where
  "load_stored_remote_password sh = load_secret sh REMOTE_ACCESS_PASSWORD_SETTINGS"

definition require_kill_switch_pin :: "secret_host \<Rightarrow> app_state \<Rightarrow> stored_secret app_op" where
  "require_kill_switch_pin sh a =
     try_st (load_kill_switch_pin sh a) (\<lambda>a secret.
       (a, ok_or secret (Conflict ''First-run setup must configure the kill switch PIN'')))"

definition save_kill_switch_pin_secret :: "string \<Rightarrow> string \<Rightarrow> int \<Rightarrow> app_state \<Rightarrow> unit app_op" where
  "save_kill_switch_pin_secret salt hash created_at_ts_ms =
     save_secret KILL_SWITCH_PIN_SETTINGS
       \<lparr>sc_salt = salt, sc_hash = hash, sc_created_at_ts_ms = created_at_ts_ms\<rparr>"

definition save_kill_switch_pin ::
  "secret_host \<Rightarrow> string \<Rightarrow> string \<Rightarrow> int \<Rightarrow> string \<Rightarrow> app_state \<Rightarrow> stored_secret app_op" where
  "save_kill_switch_pin sh drawn_uuid drawn_salt now_ms pin a =
     try_in a (argon2id_hash sh drawn_salt pin) (\<lambda>hash.
     try_st (save_kill_switch_pin_secret drawn_uuid hash now_ms a) (\<lambda>a _.
       (a, Inr \<lparr>sc_salt = drawn_uuid, sc_hash = hash, sc_created_at_ts_ms = now_ms\<rparr>)))"

definition save_remote_access_password_with_created_at ::
  "secret_host \<Rightarrow> string \<Rightarrow> string \<Rightarrow> string \<Rightarrow> int \<Rightarrow> app_state \<Rightarrow> stored_secret app_op" where
  "save_remote_access_password_with_created_at sh drawn_uuid drawn_salt password created_at_ts_ms a =
     try_in a (argon2id_hash sh drawn_salt password) (\<lambda>hash.
     let secret = \<lparr>sc_salt = drawn_uuid, sc_hash = hash, sc_created_at_ts_ms = created_at_ts_ms\<rparr>
     in try_st (save_secret REMOTE_ACCESS_PASSWORD_SETTINGS secret a) (\<lambda>a _. (a, Inr secret)))"

definition save_remote_access_password ::
  "secret_host \<Rightarrow> string \<Rightarrow> string \<Rightarrow> string \<Rightarrow> int \<Rightarrow> app_state \<Rightarrow> stored_secret app_op" where
  "save_remote_access_password sh drawn_uuid drawn_salt password now_ms =
     save_remote_access_password_with_created_at sh drawn_uuid drawn_salt password now_ms"

subsection \<open>Credentials\<close>

definition remote_password_configured :: "secret_host \<Rightarrow> app_state \<Rightarrow> bool app_op" where
  "remote_password_configured sh a =
     (if ap_store a = None then (a, Inr False)
      else try_st (load_stored_remote_password sh a) (\<lambda>a secret. (a, Inr (secret \<noteq> None))))"

definition validate_stored_remote_password ::
  "secret_host \<Rightarrow> string \<Rightarrow> string \<Rightarrow> string option \<Rightarrow> app_state \<Rightarrow> bool app_op" where
  "validate_stored_remote_password sh drawn_uuid drawn_salt password a =
     (case filter_opt (\<lambda>v. v \<noteq> []) (map_option trim password) of
        None \<Rightarrow> (a, Inr False)
      | Some password \<Rightarrow>
          if ap_store a = None then (a, Inr False)
          else
            try_st (load_stored_remote_password sh a) (\<lambda>a stored.
              case stored of
                None \<Rightarrow> (a, Inr False)
              | Some secret \<Rightarrow>
                  try_in a (verify_versioned_secret sh (sc_salt secret) (sc_hash secret) password) (\<lambda>valid.
                    if valid \<and> \<not> is_argon2id_phc (sc_hash secret)
                    then try_st (save_remote_access_password_with_created_at sh drawn_uuid drawn_salt password
                             (sc_created_at_ts_ms secret) a) (\<lambda>a _. (a, Inr valid))
                    else (a, Inr valid))))"

record http_headers =
  hd_x_api_key :: "string option"
  hd_authorization :: "string option"

definition bearer_token :: "http_headers \<Rightarrow> string option" where
  "bearer_token headers =
     (case map_option split_whitespace (hd_authorization headers) of
        Some [scheme, token] \<Rightarrow> if eq_ignore_ascii_case scheme ''bearer'' then Some token else None
      | _ \<Rightarrow> None)"

text \<open>\<open>validate_http_headers\<close> and \<open>validate_ws_credentials\<close> do the same with what a client
  presents; the second reading of the clock is the one of \<open>record_auth_failure\<close>.\<close>

definition validate_credentials ::
  "secret_host \<Rightarrow> string \<Rightarrow> string \<Rightarrow> int \<Rightarrow> int \<Rightarrow> string \<Rightarrow> string option \<Rightarrow> string option
     \<Rightarrow> socket_addr option \<Rightarrow> app_state \<Rightarrow> bool app_op" where
  "validate_credentials sh drawn_uuid drawn_salt now_ms failed_ms surface api_key token client_addr a =
     (if is_local_client_addr client_addr then (a, Inr True)
      else if client_addr = None \<and> ap_api_key a = None then (a, Inr True)
      else
        try_st (ensure_auth_attempt_allowed surface client_addr now_ms a) (\<lambda>a _.
          if is_some_and (ap_api_key a) (\<lambda>expected. api_key = Some expected \<or> token = Some expected)
          then (clear_auth_failures surface client_addr a, Inr True)
          else
            (let supplied_credential = or_else api_key token
             in try_st (validate_stored_remote_password sh drawn_uuid drawn_salt supplied_credential a) (\<lambda>a valid.
                  if valid then (clear_auth_failures surface client_addr a, Inr True)
                  else if supplied_credential \<noteq> None
                  then try_st (record_auth_failure surface client_addr failed_ms a) (\<lambda>a _. (a, Inr False))
                  else (a, Inr False)))))"

definition validate_http_headers ::
  "secret_host \<Rightarrow> string \<Rightarrow> string \<Rightarrow> int \<Rightarrow> int \<Rightarrow> http_headers \<Rightarrow> socket_addr option
     \<Rightarrow> app_state \<Rightarrow> bool app_op" where
  "validate_http_headers sh drawn_uuid drawn_salt now_ms failed_ms headers client_addr =
     validate_credentials sh drawn_uuid drawn_salt now_ms failed_ms ''http''
       (hd_x_api_key headers) (bearer_token headers) client_addr"

definition validate_ws_credentials ::
  "secret_host \<Rightarrow> string \<Rightarrow> string \<Rightarrow> int \<Rightarrow> int \<Rightarrow> string option \<Rightarrow> string option
     \<Rightarrow> socket_addr option \<Rightarrow> app_state \<Rightarrow> bool app_op" where
  "validate_ws_credentials sh drawn_uuid drawn_salt now_ms failed_ms api_key token client_addr =
     validate_credentials sh drawn_uuid drawn_salt now_ms failed_ms ''websocket'' api_key token client_addr"

definition http_auth_failure_detail :: "secret_host \<Rightarrow> socket_addr option \<Rightarrow> app_state \<Rightarrow> string app_op" where
  "http_auth_failure_detail sh client_addr a =
     (let unauthorized = ''Unauthorized''
      in if \<not> is_local_client_addr client_addr \<and> ap_api_key a = None
         then try_st (remote_password_configured sh a) (\<lambda>a configured.
           (a, Inr (if configured then unauthorized
                    else ''Remote access requires first-run setup or RTH_API_KEY (RCH_API_KEY is also supported).'')))
         else (a, Inr unauthorized))"

definition ws_auth_failure_detail :: "secret_host \<Rightarrow> socket_addr option \<Rightarrow> app_state \<Rightarrow> string app_op" where
  "ws_auth_failure_detail sh = http_auth_failure_detail sh"

text \<open>What happens to a request: it is answered by its handler, or refused.  The pages the user
  interface may load without credentials, and methods a path does not have, are decided by the router.\<close>

datatype http_admission = Admitted | Refused api_error

definition require_http_auth ::
  "secret_host \<Rightarrow> string \<Rightarrow> string \<Rightarrow> int \<Rightarrow> int \<Rightarrow> bool \<Rightarrow> http_headers \<Rightarrow> socket_addr option
     \<Rightarrow> app_state \<Rightarrow> app_state \<times> http_admission" where
  "require_http_auth sh drawn_uuid drawn_salt now_ms failed_ms exempt headers client_addr a =
     (if exempt then (a, Admitted)
      else (case validate_http_headers sh drawn_uuid drawn_salt now_ms failed_ms headers client_addr a of
              (a, Inr True) \<Rightarrow> (a, Admitted)
            | (a, Inl err) \<Rightarrow> (a, Refused err)
            | (a, Inr False) \<Rightarrow>
                (case http_auth_failure_detail sh client_addr a of
                   (a, Inr detail) \<Rightarrow> (a, Refused (UnauthorizedWithDetail detail))
                 | (a, Inl err) \<Rightarrow> (a, Refused err))))"

end
