(* ===== verification/Config_Text.thy ===== *)
theory Config_Text
  imports Framing Authorization
begin

text \<open>
  The configuration texts of the hub (\<open>crates/r3akt-rch-server/src/lib.rs\<close>): what the first-run
  setup writes into one (\<open>upsert_ini_setting\<close>), what the server reads from one
  (\<open>config_text_section_value\<close>) and the check of a text an operator sends
  (\<open>validate_ini_text\<close>).  The argument \<open>debug_text\<close> is the format \<open>{:?}\<close>.
\<close>

subsection \<open>Reading a setting\<close>

definition enclosed_in_brackets :: "string \<Rightarrow> bool" where
  "enclosed_in_brackets line \<longleftrightarrow> starts_with ''['' line \<and> line \<noteq> [] \<and> last line = CHR '']''"

definition is_ini_comment :: "string \<Rightarrow> bool" where
  "is_ini_comment line \<longleftrightarrow> starts_with ''#'' line \<or> starts_with '';'' line"

definition trimmed_text :: "string \<Rightarrow> string option" where
  "trimmed_text s = (let s = trim s in if s = [] then None else Some s)"

fun section_value :: "string \<Rightarrow> string list \<Rightarrow> bool \<Rightarrow> string list \<Rightarrow> string option" where
  "section_value section keys in_section [] = None"
| "section_value section keys in_section (line # lines) =
     (let line = trim line
      in if line = [] \<or> is_ini_comment line then section_value section keys in_section lines
         else if enclosed_in_brackets line
         then section_value section keys (eq_ignore_ascii_case (butlast (tl line)) section) lines
         else if \<not> in_section then section_value section keys in_section lines
         else (case split_once_at (CHR ''='') line of
                 None \<Rightarrow> section_value section keys in_section lines
               | Some (candidate_key, v) \<Rightarrow>
                   if \<exists>key\<in>set keys. eq_ignore_ascii_case (trim candidate_key) key
                   then trimmed_text (trim v)
                   else section_value section keys in_section lines))"

definition config_text_section_value :: "string \<Rightarrow> string \<Rightarrow> string list \<Rightarrow> string option" where
  "config_text_section_value content section keys = section_value section keys False (lines_of content)"

subsection \<open>Writing a setting\<close>

definition section_header_name :: "string \<Rightarrow> string option" where
  "section_header_name trimmed =
     (if enclosed_in_brackets trimmed \<and> \<not> starts_with ''[['' trimmed
      then Some (to_ascii_lowercase (trim (rev (dropWhile (\<lambda>c. c = CHR '']'')
             (rev (dropWhile (\<lambda>c. c = CHR ''['') trimmed))))))
      else None)"

fun scan_section :: "string \<Rightarrow> nat \<Rightarrow> string list \<Rightarrow> nat option \<Rightarrow> nat option \<times> nat" where
  "scan_section normalized_section index [] section_start = (section_start, index)"
| "scan_section normalized_section index (line # lines) section_start =
     (case section_header_name (trim line) of
        None \<Rightarrow> scan_section normalized_section (Suc index) lines section_start
      | Some header_name \<Rightarrow>
          if section_start \<noteq> None then (section_start, index)
          else scan_section normalized_section (Suc index) lines
                 (if header_name = normalized_section then Some index else None))"

definition setting_key_of :: "string \<Rightarrow> string option" where
  "setting_key_of line =
     (let trimmed = trim line
      in map_option (\<lambda>(key, _). to_ascii_lowercase (trim key))
           (or_else (split_once_at (CHR ''='') trimmed) (split_once_at (CHR '':'') trimmed)))"

fun replace_setting :: "string \<Rightarrow> string \<Rightarrow> string list \<Rightarrow> string list option" where
  "replace_setting normalized_key rendered [] = None"
| "replace_setting normalized_key rendered (line # lines) =
     (if setting_key_of line = Some normalized_key then Some (rendered # lines)
      else map_option (\<lambda>lines. line # lines) (replace_setting normalized_key rendered lines))"

definition upsert_ini_setting :: "string \<Rightarrow> string \<Rightarrow> string \<Rightarrow> string \<Rightarrow> string" where
  "upsert_ini_setting config_text section key setting =
     (let section_header = ''['' @ section @ '']'';
          normalized_section = to_ascii_lowercase (trim section);
          normalized_key = to_ascii_lowercase (trim key);
          lines = lines_of config_text;
          (section_start, section_end) = scan_section normalized_section 0 lines None;
          rendered = key @ '' = '' @ setting
      in (case section_start of
            Some start \<Rightarrow>
              (let head = take (start + 1) lines;
                   body = drop (start + 1) (take section_end lines);
                   rest = drop section_end lines
               in (case replace_setting normalized_key rendered body of
                     Some body \<Rightarrow> join [lf] (head @ body @ rest) @ [lf]
                   | None \<Rightarrow> join [lf] (head @ rendered # body @ rest) @ [lf]))
          | None \<Rightarrow>
              (let lines = (if lines \<noteq> [] \<and> trim (last lines) \<noteq> [] then lines @ [[]] else lines)
               in join [lf] (lines @ [section_header, rendered]) @ [lf])))"

subsection \<open>Checking a text\<close>

fun ini_errors :: "(string \<Rightarrow> string) \<Rightarrow> nat \<Rightarrow> bool \<Rightarrow> string list \<Rightarrow> string list" where
  "ini_errors debug_text index seen_section [] = []"
| "ini_errors debug_text index seen_section (line # lines) =
     (let trimmed = trim line
      in if trimmed = [] \<or> is_ini_comment trimmed then ini_errors debug_text (Suc index) seen_section lines
         else if starts_with ''['' trimmed
         then (if last trimmed = CHR '']'' \<and> length trimmed > 2
               then ini_errors debug_text (Suc index) True lines
               else (''File contains no section headers or has an invalid section header at line ''
                       @ show_nat (index + 1) @ '': '' @ debug_text line)
                    # ini_errors debug_text (Suc index) seen_section lines)
         else if \<not> seen_section
         then [''File contains no section headers. file: '' @ quoted ''<string>'' @ '', line: ''
                 @ show_nat (index + 1) @ '' '' @ debug_text line]
         else if \<not> (CHR ''='' \<in> set trimmed \<or> CHR '':'' \<in> set trimmed)
         then [''Source contains parsing errors: '' @ quoted ''<string>'' @ '' [line ''
                 @ show_nat (index + 1) @ '']: '' @ debug_text line]
         else ini_errors debug_text (Suc index) seen_section lines)"

definition validate_ini_text :: "(string \<Rightarrow> string) \<Rightarrow> string \<Rightarrow> string list" where
  "validate_ini_text debug_text config_text = ini_errors debug_text 0 False (lines_of config_text)"

subsection \<open>A setting that was written is read back\<close>

definition plain_name :: "string \<Rightarrow> bool" where
  "plain_name s \<longleftrightarrow> s \<noteq> [] \<and> list_all (\<lambda>c. is_ascii_alpha c \<or> is_ascii_digit c \<or> c = CHR ''_'') s"

text \<open>
  The section headers of a text are tidy: no header has blanks or further brackets within its brackets.
\<close>

definition tidy_line :: "string \<Rightarrow> bool" where
  "tidy_line line \<longleftrightarrow> enclosed_in_brackets (trim line) \<longrightarrow>
     (let inner = butlast (tl (trim line))
      in trim inner = inner \<and> CHR ''['' \<notin> set inner \<and> CHR '']'' \<notin> set inner)"

definition tidy_text :: "string \<Rightarrow> bool" where
  "tidy_text s \<longleftrightarrow> list_all tidy_line (lines_of s)"

lemma ws_tail_after:
  assumes "ws_tail r = 0" "r \<noteq> []" "code x < 128"
  shows "ws_tail (r @ x # t) = 0"
proof -
  have "\<not> ws2 x c" "\<not> ws3 a x c" "\<not> ws3 x b c" for a b c
    using assms(3) by (auto simp: ws2_def ws3_def)
  then show ?thesis
    using assms(1,2) by (cases r rule: ws_tail.cases; cases t) (auto split: if_splits)
qed

lemma ws_tail_trimmed: "trim v = v \<Longrightarrow> ws_tail (rev v) = 0"
proof -
  assume "trim v = v"
  then have "trim_end v = v" by (metis trim_def trim_end_idem)
  then have "strip ws_tail (rev v) = rev v" by (simp add: trim_end_def rev_swap)
  then show ?thesis using strip_done [of ws_tail "rev v"] by auto
qed

lemma trim_fixI: "ws_head s = 0 \<Longrightarrow> ws_tail (rev s) = 0 \<Longrightarrow> trim s = s"
  by (simp add: trim_def trim_end_def trim_start_fix strip_fix)

lemma ws_head_ascii: "code c < 128 \<Longrightarrow> \<not> ws1 c \<Longrightarrow> ws_head (c # s) = 0"
  by (cases "c # s" rule: ws_head.cases) (auto simp: ws2_def ws3_def)

lemma ws_tail_ascii: "code c < 128 \<Longrightarrow> \<not> ws1 c \<Longrightarrow> ws_tail (c # s) = 0"
  by (cases "c # s" rule: ws_tail.cases) (auto simp: ws2_def ws3_def)

definition name_char :: "char \<Rightarrow> bool" where
  "name_char c \<longleftrightarrow> is_ascii_alpha c \<or> is_ascii_digit c \<or> c = CHR ''_''"

lemma name_charD:
  assumes "name_char c"
  shows "code c < 128" "\<not> ws1 c" "c \<notin> {CHR ''['', CHR '']'', CHR ''#'', CHR '';'', CHR ''='', CHR '':'', lf}"
  using assms by (auto simp: name_char_def is_ascii_alpha_def is_ascii_digit_def ws1_def code_def)

lemma plain_nameD:
  assumes "plain_name s"
  shows "s \<noteq> []" "c \<in> set s \<Longrightarrow> name_char c" "trim s = s"
proof -
  show "s \<noteq> []" and c: "c \<in> set s \<Longrightarrow> name_char c" for c
    using assms by (auto simp: plain_name_def name_char_def list_all_iff)
  then have "name_char (hd s)" "name_char (last s)" by simp_all
  moreover have "hd s # tl s = s" "last s # rev (butlast s) = rev s"
    using \<open>s \<noteq> []\<close> by (simp, cases s rule: rev_cases) simp_all
  ultimately show "trim s = s"
    using name_charD ws_head_ascii [of "hd s" "tl s"] ws_tail_ascii [of "last s" "rev (butlast s)"]
    by (intro trim_fixI) simp_all
qed

text \<open>What the lines of a joined text are, up to the blanks at their ends.\<close>

lemma split_on_part: "d \<notin> set x \<Longrightarrow> split_on d (x @ d # s) = x # split_on d s"
  by (induction x) auto

lemma split_on_join: "ls \<noteq> [] \<Longrightarrow> \<forall>l\<in>set ls. d \<notin> set l \<Longrightarrow> split_on d (join [d] ls @ [d]) = ls @ [[]]"
  by (induction "[d]" ls rule: join.induct) (simp_all add: split_on_part)

lemma split_on_parts: "l \<in> set (split_on d s) \<Longrightarrow> d \<notin> set l"
  by (induction s arbitrary: l) (auto split: if_splits list.splits)

lemma lines_of_parts: "l \<in> set (lines_of s) \<Longrightarrow> lf \<notin> set l"
  using split_on_parts [of _ lf s]
  by (auto simp: lines_of_def Let_def strip_cr_def split: if_splits dest: in_set_butlastD)

lemma lines_of_joined: "ls \<noteq> [] \<Longrightarrow> \<forall>l\<in>set ls. lf \<notin> set l \<Longrightarrow> lines_of (join [lf] ls @ [lf]) = map strip_cr ls"
  by (simp add: lines_of_def split_on_join butlast_append)

lemma trim_end_cr: "trim_end (s @ [cr]) = trim_end s"
proof -
  have "ws_tail (cr # rev s) = 1"
    by (cases "cr # rev s" rule: ws_tail.cases) (auto simp: ws1_def code_def)
  then show ?thesis by (simp add: trim_end_def strip.simps [of ws_tail "cr # rev s"])
qed

lemma ws_head_cr: "s \<noteq> [] \<Longrightarrow> ws_head (s @ [cr]) = ws_head s"
proof -
  have "\<not> ws2 a cr" "\<not> ws3 a b cr" for a b by (auto simp: ws2_def ws3_def code_def)
  then show "s \<noteq> [] \<Longrightarrow> ?thesis" by (cases s rule: ws_head.cases) auto
qed

lemma ws_head_length: "ws_head s \<le> length s"
  by (cases s rule: ws_head.cases) auto

lemma trim_start_cr: "trim_start (s @ [cr]) = (if trim_start s = [] then [] else trim_start s @ [cr])"
proof (induction "length s" arbitrary: s rule: less_induct)
  case less
  have blank: "strip ws_head [cr] = []"
    by (simp add: strip.simps [of ws_head "[cr]"] ws1_def code_def)
  show ?case
  proof (cases "s = [] \<or> ws_head s = 0")
    case True
    then show ?thesis using blank by (auto simp: trim_start_def strip_fix ws_head_cr)
  next
    case False
    let ?r = "drop (ws_head s) s"
    have "strip ws_head (?r @ [cr]) = (if strip ws_head ?r = [] then [] else strip ws_head ?r @ [cr])"
      using less [of ?r] False by (simp add: trim_start_def)
    moreover have "strip ws_head (s @ [cr]) = strip ws_head (?r @ [cr])"
      using False ws_head_length [of s] by (simp add: strip.simps [of ws_head "s @ [cr]"] ws_head_cr)
    moreover have "strip ws_head s = strip ws_head ?r"
      using False by (simp add: strip.simps [of ws_head s])
    ultimately show ?thesis by (simp add: trim_start_def)
  qed
qed

lemma trim_strip_cr [simp]: "trim (strip_cr l) = trim l"
proof (cases "l \<noteq> [] \<and> last l = cr")
  case True
  then obtain m where "l = m @ [cr]" by (metis append_butlast_last_id)
  then show ?thesis
    by (simp add: strip_cr_def trim_def trim_start_cr trim_end_cr)
qed (auto simp: strip_cr_def)

lemma section_value_trimmed:
  "(\<And>l. trim (f l) = trim l) \<Longrightarrow> section_value section keys b (map f ls) = section_value section keys b ls"
  by (induction ls arbitrary: b) (auto simp: Let_def split: option.split)

text \<open>The two functions see the same headers and keys.\<close>

lemma bracketed:
  assumes "enclosed_in_brackets l"
  obtains inner where "l = CHR ''['' # inner @ [CHR '']'']" "butlast (tl l) = inner"
proof -
  have l: "l \<noteq> []" "hd l = CHR ''[''" "last l = CHR '']''"
    using assms by (auto simp: enclosed_in_brackets_def starts_with_def take_Suc_conv_app_nth hd_conv_nth split: list.splits)
  then have "tl l \<noteq> []" by (cases l) auto
  with l have "l = CHR ''['' # butlast (tl l) @ [CHR '']'']"
    by (metis append_butlast_last_id last_tl list.collapse)
  then show ?thesis using that by blast
qed

lemma dropWhile_outer: "P c \<Longrightarrow> \<forall>x\<in>set xs. \<not> P x \<Longrightarrow> \<not> P d \<Longrightarrow> dropWhile P (c # xs @ [d]) = xs @ [d]"
  by (cases xs) auto

lemma tidy_header_name:
  assumes "tidy_line l"
  shows "section_header_name (trim l) =
    (if enclosed_in_brackets (trim l) then Some (to_ascii_lowercase (butlast (tl (trim l)))) else None)"
proof (cases "enclosed_in_brackets (trim l)")
  case True
  then obtain inner where l: "trim l = CHR ''['' # inner @ [CHR '']'']" and i: "butlast (tl (trim l)) = inner"
    by (rule bracketed)
  have inner: "trim inner = inner" "CHR ''['' \<notin> set inner" "CHR '']'' \<notin> set inner"
    using assms True by (auto simp: tidy_line_def i Let_def)
  have "dropWhile (\<lambda>c. c = CHR ''['') (trim l) = inner @ [CHR '']'']"
    using inner(2) by (cases inner) (auto simp: l)
  moreover have "dropWhile (\<lambda>c. c = CHR '']'') (rev (inner @ [CHR '']''])) = rev inner"
    using inner(3) by (cases "rev inner") (auto simp flip: set_rev [of inner])
  moreover have "\<not> starts_with ''[['' (trim l)"
    using inner(2) by (cases inner) (auto simp: l starts_with_def)
  ultimately show ?thesis using True inner(1) by (simp add: section_header_name_def i)
qed (simp add: section_header_name_def)

lemma scan_started:
  "scan_section n index ls (Some st) = r \<Longrightarrow> \<exists>body rest. ls = body @ rest
     \<and> r = (Some st, index + length body) \<and> (\<forall>l\<in>set body. section_header_name (trim l) = None)"
proof (induction ls arbitrary: index)
  case (Cons l ls)
  show ?case
  proof (cases "section_header_name (trim l)")
    case None
    then have "scan_section n (Suc index) ls (Some st) = r" using Cons.prems by simp
    from Cons.IH [OF this] obtain body rest where "ls = body @ rest" "r = (Some st, Suc index + length body)"
      "\<forall>l\<in>set body. section_header_name (trim l) = None" by blast
    with None show ?thesis by (intro exI [of _ "l # body"] exI [of _ rest]) simp
  next
    case (Some a)
    then show ?thesis using Cons.prems by (intro exI [of _ "[]"] exI [of _ "l # ls"]) simp
  qed
qed simp

lemma scan_found:
  "scan_section n index ls None = (Some st, e) \<Longrightarrow> \<exists>p h body rest. ls = p @ h # body @ rest
     \<and> st = index + length p \<and> e = Suc st + length body \<and> section_header_name (trim h) = Some n
     \<and> (\<forall>l\<in>set p. section_header_name (trim l) \<noteq> Some n) \<and> (\<forall>l\<in>set body. section_header_name (trim l) = None)"
proof (induction ls arbitrary: index)
  case (Cons l ls)
  show ?case
  proof (cases "section_header_name (trim l) = Some n")
    case True
    then have "scan_section n (Suc index) ls (Some index) = (Some st, e)" using Cons.prems by simp
    from scan_started [OF this] True show ?thesis by (fastforce intro: exI [of _ "[]"])
  next
    case False
    then have "scan_section n (Suc index) ls None = (Some st, e)" using Cons.prems by (auto split: option.splits if_splits)
    from Cons.IH [OF this] obtain p h body rest where "ls = p @ h # body @ rest" "st = Suc index + length p"
      "e = Suc st + length body" "section_header_name (trim h) = Some n"
      "\<forall>l\<in>set p. section_header_name (trim l) \<noteq> Some n" "\<forall>l\<in>set body. section_header_name (trim l) = None"
      by blast
    with False show ?thesis by (intro exI [of _ "l # p"] exI [of _ h] exI [of _ body] exI [of _ rest]) simp
  qed
qed simp

lemma scan_missing:
  "scan_section n index ls None = (None, e) \<Longrightarrow> l \<in> set ls \<Longrightarrow> section_header_name (trim l) \<noteq> Some n"
proof (induction ls arbitrary: index)
  case (Cons a ls)
  have "section_header_name (trim a) \<noteq> Some n"
  proof
    assume "section_header_name (trim a) = Some n"
    then have "scan_section n (Suc index) ls (Some index) = (None, e)" using Cons.prems(1) by simp
    from scan_started [OF this] show False by simp
  qed
  then show ?case
    using Cons.prems Cons.IH [of "Suc index"] by (auto split: option.splits if_splits)
qed simp

lemma eq_ignore_case_plain: "plain_name k \<Longrightarrow> eq_ignore_ascii_case s k \<longleftrightarrow> to_ascii_lowercase s = to_ascii_lowercase k"
  by (simp add: eq_ignore_ascii_case_def)

lemma header_is_no_comment: "enclosed_in_brackets l \<Longrightarrow> l \<noteq> [] \<and> \<not> is_ini_comment l"
  by (cases l) (auto simp: enclosed_in_brackets_def is_ini_comment_def starts_with_def)

lemma skip_line:
  assumes "tidy_line l" "section_header_name (trim l) \<noteq> Some (to_ascii_lowercase section)"
  shows "section_value section keys False (l # ls) = section_value section keys False ls"
  using assms header_is_no_comment [of "trim l"]
  by (auto simp: Let_def tidy_header_name eq_ignore_ascii_case_def)

lemma skip_before:
  assumes "\<forall>l\<in>set p. tidy_line l" "\<forall>l\<in>set p. section_header_name (trim l) \<noteq> Some (to_ascii_lowercase section)"
  shows "section_value section keys False (p @ ls) = section_value section keys False ls"
  using assms
proof (induction p)
  case (Cons l p)
  then have "section_value section keys False (l # p @ ls) = section_value section keys False (p @ ls)"
    by (intro skip_line) auto
  with Cons show ?case by (simp del: section_value.simps)
qed simp

lemma skip_other_key:
  assumes "tidy_line l" "section_header_name (trim l) = None" "setting_key_of l \<noteq> Some (to_ascii_lowercase key)"
  shows "section_value section [key] True (l # ls) = section_value section [key] True ls"
  using assms
  by (auto simp: Let_def tidy_header_name eq_ignore_ascii_case_def setting_key_of_def or_else_def
      split: option.splits if_splits)

lemma skip_within:
  assumes "\<forall>l\<in>set body. tidy_line l" "\<forall>l\<in>set body. section_header_name (trim l) = None"
    "\<forall>l\<in>set body. setting_key_of l \<noteq> Some (to_ascii_lowercase key)"
  shows "section_value section [key] True (body @ ls) = section_value section [key] True ls"
  using assms
proof (induction body)
  case (Cons l body)
  then have "section_value section [key] True (l # body @ ls) = section_value section [key] True (body @ ls)"
    by (intro skip_other_key) auto
  with Cons show ?case by (simp del: section_value.simps)
qed simp

lemma enter_section:
  assumes "tidy_line l" "section_header_name (trim l) = Some (to_ascii_lowercase section)"
  shows "section_value section keys b (l # ls) = section_value section keys True ls"
  using assms header_is_no_comment [of "trim l"]
  by (auto simp: Let_def tidy_header_name eq_ignore_ascii_case_def split: if_splits)

text \<open>The line the setting is written to, and the header of a section that is new.\<close>

lemma name_head: "plain_name k \<Longrightarrow> \<exists>c t. k = c # t \<and> name_char c"
  using plain_nameD by (cases k) auto

lemma rendered_trimmed:
  assumes "plain_name key" "trim v = v" "v \<noteq> []"
  shows "trim (key @ '' = '' @ v) = key @ '' = '' @ v"
proof (rule trim_fixI)
  obtain c t where k: "key = c # t" "name_char c" using name_head [OF assms(1)] by blast
  show "ws_head (key @ '' = '' @ v) = 0"
    using ws_head_ascii [of c "t @ '' = '' @ v"] name_charD [OF k(2)] by (simp add: k)
  show "ws_tail (rev (key @ '' = '' @ v)) = 0"
    using ws_tail_after [OF ws_tail_trimmed [OF assms(2)], of "CHR '' ''" "rev (key @ '' ='')"] assms(3)
    by (simp add: code_def)
qed

lemma split_at_append: "d \<notin> set x \<Longrightarrow> split_once_at d (x @ d # y) = Some (x, y)"
  by (simp add: split_once_at_def takeWhile_append dropWhile_append)

lemma trim_blank_end: "plain_name key \<Longrightarrow> trim (key @ '' '') = key"
proof -
  assume k: "plain_name key"
  then obtain c t where c: "key = c # t" "name_char c" using name_head by blast
  have "trim_start (key @ '' '') = key @ '' ''"
    using ws_head_ascii [of c "t @ '' ''"] name_charD [OF c(2)] by (simp add: c(1) trim_start_fix)
  moreover have "ws_tail (CHR '' '' # rev key) = 1"
    by (cases "CHR '' '' # rev key" rule: ws_tail.cases) (auto simp: ws1_def code_def)
  then have "trim_end (key @ '' '') = trim_end key"
    by (simp add: trim_end_def strip.simps [of ws_tail "CHR '' '' # rev key"])
  moreover have "trim_end key = key"
    using plain_nameD(3) [OF k] by (metis trim_def trim_end_idem)
  ultimately show ?thesis by (simp add: trim_def)
qed

lemma trim_blank_start: "trim (CHR '' '' # v) = trim v"
proof -
  have "ws_head (CHR '' '' # v) = 1"
    by (cases "CHR '' '' # v" rule: ws_head.cases) (auto simp: ws1_def code_def)
  then show ?thesis by (simp add: trim_def trim_start_def strip.simps [of ws_head "CHR '' '' # v"])
qed

lemma read_rendered:
  assumes "plain_name key" "trim v = v" "v \<noteq> []"
  shows "section_value section [key] True ((key @ '' = '' @ v) # ls) = Some v"
proof -
  obtain c t where c: "key = c # t" "name_char c" using name_head [OF assms(1)] by blast
  have "\<not> enclosed_in_brackets (key @ '' = '' @ v)" "\<not> is_ini_comment (key @ '' = '' @ v)"
    using name_charD [OF c(2)] by (auto simp: c(1) enclosed_in_brackets_def is_ini_comment_def starts_with_def)
  moreover have "CHR ''='' \<notin> set key" using plain_nameD [OF assms(1)] name_charD by blast
  then have "split_once_at (CHR ''='') ((key @ '' '') @ CHR ''='' # CHR '' '' # v) = Some (key @ '' '', CHR '' '' # v)"
    by (intro split_at_append) simp
  ultimately show ?thesis
    using assms(2,3)
    by (simp add: Let_def rendered_trimmed [OF assms, simplified] eq_ignore_ascii_case_def trim_blank_end [OF assms(1)]
        trim_blank_start trimmed_text_def)
qed

lemma replaced_setting:
  "replace_setting k rendered body = Some body' \<Longrightarrow> \<exists>before l after. body = before @ l # after
     \<and> body' = before @ rendered # after \<and> (\<forall>l\<in>set before. setting_key_of l \<noteq> Some k)"
proof (induction body arbitrary: body')
  case (Cons a body)
  show ?case
  proof (cases "setting_key_of a = Some k")
    case True
    then show ?thesis using Cons.prems by (intro exI [of _ "[]"] exI [of _ a] exI [of _ body]) simp
  next
    case False
    then obtain rest where r: "replace_setting k rendered body = Some rest" "body' = a # rest" using Cons.prems by auto
    from Cons.IH [OF r(1)] obtain before l after where "body = before @ l # after" "rest = before @ rendered # after"
      "\<forall>l\<in>set before. setting_key_of l \<noteq> Some k" by blast
    with False r(2) show ?thesis by (intro exI [of _ "a # before"] exI [of _ l] exI [of _ after]) simp
  qed
qed simp

lemma new_header:
  assumes "plain_name section"
  shows "tidy_line (''['' @ section @ '']'')"
    "section_header_name (trim (''['' @ section @ '']'')) = Some (to_ascii_lowercase section)"
proof -
  let ?h = "''['' @ section @ '']''"
  have h: "trim ?h = ?h"
  proof (rule trim_fixI)
    show "ws_head ?h = 0"
      using ws_head_ascii [of "CHR ''[''" "section @ '']''"] by (simp add: ws1_def code_def)
    show "ws_tail (rev ?h) = 0"
      using ws_tail_ascii [of "CHR '']''" "rev section @ ''[''"] by (simp add: ws1_def code_def)
  qed
  have "CHR ''['' \<notin> set section" "CHR '']'' \<notin> set section"
    using plain_nameD [OF assms] name_charD by blast+
  then show tidy: "tidy_line ?h"
    using plain_nameD [OF assms] h by (simp add: tidy_line_def Let_def)
  show "section_header_name (trim ?h) = Some (to_ascii_lowercase section)"
    using tidy_header_name [OF tidy] h by (simp add: enclosed_in_brackets_def starts_with_def)
qed

lemma setting_read_back:
  assumes names: "plain_name section" "plain_name key"
    and v: "trim v = v" "v \<noteq> []" "lf \<notin> set v" and tidy: "tidy_text content"
  shows "config_text_section_value (upsert_ini_setting content section key v) section [key] = Some v"
proof -
  let ?ls = "lines_of content" and ?n = "to_ascii_lowercase section" and ?r = "key @ '' = '' @ v"
  have lines: "\<forall>l\<in>set ?ls. lf \<notin> set l \<and> tidy_line l"
    using lines_of_parts tidy by (auto simp: tidy_text_def list_all_iff)
  have no_lf: "lf \<notin> set ?r" "lf \<notin> set (''['' @ section @ '']'')"
    using plain_nameD [OF names(1)] plain_nameD [OF names(2)] name_charD v(3) by fastforce+
  have rendered: "section_value section [key] True (?r # ls) = Some v" for ls
    using read_rendered [OF names(2) v(1,2)] by (simp del: section_value.simps)
  have reread: "config_text_section_value (join [lf] ls @ [lf]) section [key] = section_value section [key] False ls"
    if "ls \<noteq> []" and "\<forall>l\<in>set ls. lf \<notin> set l" for ls
    using that by (simp add: config_text_section_value_def lines_of_joined section_value_trimmed)
  obtain start e where scan: "scan_section ?n 0 ?ls None = (start, e)" by fastforce
  show ?thesis
  proof (cases start)
    case None
    let ?b = "if ?ls \<noteq> [] \<and> trim (last ?ls) \<noteq> [] then [[]] else []"
    have "\<forall>l\<in>set ?ls. section_header_name (trim l) \<noteq> Some ?n" using scan_missing scan None by blast
    then have "section_value section [key] False (?ls @ ?b @ [''['' @ section @ '']'', ?r]) = Some v"
      using lines skip_before [of ?ls "section" "[key]"] skip_before [of ?b "section" "[key]"]
        enter_section [OF new_header [OF names(1)]] rendered
      by (simp add: tidy_line_def enclosed_in_brackets_def starts_with_def section_header_name_def del: section_value.simps)
    moreover have "\<forall>l\<in>set (?ls @ ?b @ [''['' @ section @ '']'', ?r]). lf \<notin> set l"
      using lines no_lf by auto
    moreover have "upsert_ini_setting content section key v
        = join [lf] (?ls @ ?b @ [''['' @ section @ '']'', ?r]) @ [lf]"
      using scan None names by (cases "?ls = []") (auto simp: upsert_ini_setting_def Let_def plain_nameD)
    ultimately show ?thesis
      using reread [of "?ls @ ?b @ [''['' @ section @ '']'', ?r]"] by (simp del: section_value.simps join.simps)
  next
    case (Some st)
    from scan_found [OF scan [unfolded Some]] obtain p h body rest where ls: "?ls = p @ h # body @ rest"
      "st = length p" "e = Suc st + length body" "section_header_name (trim h) = Some ?n"
      "\<forall>l\<in>set p. section_header_name (trim l) \<noteq> Some ?n" "\<forall>l\<in>set body. section_header_name (trim l) = None"
      by auto
    have enter: "section_value section [key] False ((p @ [h]) @ xs) = section_value section [key] True xs" for xs
      using lines ls skip_before [of p "section" "[key]" "h # xs"] enter_section [of h "section" "[key]" False xs]
      by (simp del: section_value.simps)
    obtain body' where new: "upsert_ini_setting content section key v = join [lf] ((p @ [h]) @ body' @ rest) @ [lf]"
        "body' = ?r # body \<or> replace_setting (to_ascii_lowercase key) ?r body = Some body'"
      using scan Some names
      by (cases "replace_setting (to_ascii_lowercase key) ?r body")
        (auto simp: upsert_ini_setting_def Let_def plain_nameD ls)
    have "section_value section [key] True (body' @ rest) = Some v \<and> set body' \<subseteq> insert ?r (set body)"
      using new(2)
    proof
      assume "replace_setting (to_ascii_lowercase key) ?r body = Some body'"
      then obtain before l after where "body = before @ l # after" "body' = before @ ?r # after"
          "\<forall>l\<in>set before. setting_key_of l \<noteq> Some (to_ascii_lowercase key)"
        using replaced_setting by blast
      with lines ls rendered skip_within [of before key "section" "?r # after @ rest"] show ?thesis
        by (auto simp del: section_value.simps)
    qed (use rendered in \<open>auto simp del: section_value.simps\<close>)
    moreover have "\<forall>l\<in>set ((p @ [h]) @ body' @ rest). lf \<notin> set l"
      using lines ls no_lf calculation by auto
    ultimately show ?thesis
      using reread [of "(p @ [h]) @ body' @ rest"] enter by (simp add: new(1) del: section_value.simps)
  qed
qed

text \<open>The value that is written may end its line: one with a line break in it adds settings of its own.\<close>

lemma written_value_may_add_a_section:
  "config_text_section_value (upsert_ini_setting [] ''hub'' ''name'' (''x'' @ [lf] @ ''[api]'' @ [lf] @ ''key = y''))
     ''api'' [''key''] = Some ''y''"
  by code_simp

end
