(* ===== verification/Kill_Switch.thy ===== *)
theory Kill_Switch
  imports Server_Auth Config_Text
begin

text \<open>
  The first-run setup and the kill switch (\<open>crates/r3akt-rch-server/src/lib.rs\<close>): two arms and a PIN
  authorize a purge, which empties the database and deletes the files of the hub.  A request takes the
  readings of the clock in the order of the code; \<open>iso8601\<close> writes a time, \<open>disk_host\<close>
  says what the file system answers.  The answer of the setup, and what stops the services, are left out.
\<close>

subsection \<open>What a purge erases\<close>

definition MAX_USIZE :: nat where "MAX_USIZE = 2 ^ 64 - 1"

definition usize_add :: "nat \<Rightarrow> nat \<Rightarrow> nat" where
  "usize_add a b = min MAX_USIZE (a + b)"

definition usize_mul :: "nat \<Rightarrow> nat \<Rightarrow> nat" where
  "usize_mul a b = min MAX_USIZE (a * b)"

definition u16_add :: "nat \<Rightarrow> nat \<Rightarrow> nat" where
  "u16_add a b = min 65535 (a + b)"

text \<open>To evaluate these, the bounds are taken in binary.\<close>

lemma bounded_code [code]:
  "usize_add a b = nat (min (2 ^ 64 - 1) (int a + int b))"
  "usize_mul a b = nat (min (2 ^ 64 - 1) (int a * int b))"
  "u16_add a b = nat (min 65535 (int a + int b))"
proof -
  have small: "min m n = nat (min (int m) (int n))" for m n by (simp add: min_def)
  have max: "int MAX_USIZE = 2 ^ 64 - 1" by (simp add: MAX_USIZE_def)
  show "usize_add a b = nat (min (2 ^ 64 - 1) (int a + int b))"
    "usize_mul a b = nat (min (2 ^ 64 - 1) (int a * int b))"
    "u16_add a b = nat (min 65535 (int a + int b))"
    by (simp_all only: usize_add_def usize_mul_def u16_add_def small max of_nat_add of_nat_mult of_nat_numeral)
qed

definition table_counts :: "rch_database \<Rightarrow> (string \<times> nat) list" where
  "table_counts db =
     [(''rch_topics'', length (db_topics db)), (''rch_subscribers'', length (db_subscribers db)),
      (''rch_messages'', length (db_messages db)), (''rch_clients'', length (db_clients db)),
      (''rch_identity_announces'', length (db_identity_announces db)),
      (''rch_identity_states'', length (db_identity_states db)),
      (''rch_identity_rem_modes'', length (db_identity_rem_modes db)),
      (''rch_audit_events'', length (db_audit_events db)), (''rch_system_events'', length (db_system_events db)),
      (''rch_telemetry_records'', length (db_telemetry_records db)),
      (''rch_markers'', length (db_markers db)), (''rch_zones'', length (db_zones db)),
      (''rch_missions'', length (db_missions db)), (''rch_mission_changes'', length (db_mission_changes db)),
      (''rch_log_entries'', length (db_log_entries db)),
      (''rch_file_attachments'', length (db_file_attachments db)),
      (''rch_eam_snapshots'', length (db_eam_snapshots db)), (''rch_teams'', length (db_teams db)),
      (''rch_mission_team_links'', length (db_mission_team_links db)),
      (''rch_mission_zone_links'', length (db_mission_zone_links db)),
      (''rch_mission_marker_links'', length (db_mission_marker_links db)),
      (''rch_team_members'', length (db_team_members db)),
      (''rch_team_member_client_links'', length (db_team_member_client_links db)),
      (''rch_assets'', length (db_assets db)), (''rch_skills'', length (db_skills db)),
      (''rch_team_member_skills'', length (db_team_member_skills db)),
      (''rch_task_skill_requirements'', length (db_task_skill_requirements db)),
      (''rch_assignments'', length (db_assignments db)),
      (''rch_assignment_asset_links'', length (db_assignment_asset_links db)),
      (''rch_checklists'', length (db_checklists db)),
      (''rch_checklist_templates'', length (db_checklist_templates db)),
      (''rch_checklist_columns'', length (db_checklist_columns db)),
      (''rch_checklist_tasks'', length (db_checklist_tasks db)),
      (''rch_checklist_cells'', length (db_checklist_cells db)),
      (''rch_checklist_feed_publications'', length (db_checklist_feed_publications db)),
      (''rch_command_results'', length (db_command_results db)),
      (''rch_identity_capabilities'', length (db_identity_capabilities db)),
      (''rch_mission_access_assignments'', length (db_mission_access_assignments db)),
      (''rch_subject_operation_rights'', length (db_subject_operation_rights db)),
      (''rch_domain_events'', 0), (''rch_outbound_jobs'', 0),
      (''rch_settings'', length (db_settings db))]"

record wipe_report =
  wr_tables :: "(string \<times> nat) list"
  wr_rows_deleted :: nat

text \<open>No code writes to the tables \<open>rch_domain_events\<close> and \<open>rch_outbound_jobs\<close>.  The
  migrations that follow a wipe have been applied when the database was opened, so they do nothing.\<close>

definition database_wipe_preview :: "rch_database \<Rightarrow> wipe_report" where
  "database_wipe_preview db =
     \<lparr>wr_tables = table_counts db, wr_rows_deleted = fold (\<lambda>(_, n) rows. usize_add rows n) (table_counts db) 0\<rparr>"

definition wipe_database :: "rch_database \<Rightarrow> rch_database \<times> wipe_report" where
  "wipe_database db = (empty_database, database_wipe_preview db)"

datatype artifact_kind = ArtifactDatabase | ArtifactConfiguration | ArtifactIdentity | ArtifactAttachment

type_synonym artifact_candidate = "path \<times> artifact_kind"

definition path_text :: "path \<Rightarrow> string" where
  "path_text p = ''/'' @ join ''/'' p"

definition path_parent :: "path \<Rightarrow> path option" where
  "path_parent p = (if p = [] then None else Some (butlast p))"

definition sqlite_sidecar_paths :: "path \<Rightarrow> path list" where
  "sqlite_sidecar_paths p = map (\<lambda>s. butlast p @ [(if p = [] then [] else last p) @ s]) [''-wal'', ''-shm'', ''-journal'']"

definition database_candidates :: "path \<Rightarrow> artifact_candidate list" where
  "database_candidates p = map (\<lambda>q. (q, ArtifactDatabase)) (sqlite_sidecar_paths p @ [p])"

definition known_hub_runtime_candidates :: "path \<Rightarrow> artifact_candidate list" where
  "known_hub_runtime_candidates folder =
     concat (map (\<lambda>file_name. database_candidates (folder @ [file_name]))
       [''rch_state.sqlite3'', ''rth_api.sqlite'', ''telemetry.db''])
     @ map (\<lambda>file_name. (folder @ [file_name], ArtifactIdentity)) [''identity'', ''reticulumd.identity'']"

definition known_reticulum_runtime_candidates :: "path \<Rightarrow> artifact_candidate list" where
  "known_reticulum_runtime_candidates folder =
     database_candidates (folder @ [''reticulumd.db''])
     @ map (\<lambda>file_name. (folder @ [file_name], if file_name = ''config'' then ArtifactConfiguration else ArtifactIdentity))
         [''identity'', ''reticulumd.identity'', ''config'']"

definition attachment_storage_path :: "server_paths \<Rightarrow> string \<Rightarrow> path option" where
  "attachment_storage_path paths category =
     (let dirname = (if category = ''file'' then Some ''files'' else if category = ''image'' then Some ''images'' else None)
      in case dirname of
           None \<Rightarrow> None
         | Some dirname \<Rightarrow>
             (case or_else (pa_storage_dir paths) (Option.bind (pa_sqlite_path paths) path_parent) of
                Some dir \<Rightarrow> Some (dir @ [dirname])
              | None \<Rightarrow> map_option (\<lambda>dir. dir @ [''RTH_Store'', dirname]) (pa_current_dir paths)))"

definition when_some :: "'a option \<Rightarrow> ('a \<Rightarrow> 'b list) \<Rightarrow> 'b list" where
  "when_some x f = (case x of None \<Rightarrow> [] | Some y \<Rightarrow> f y)"

fun first_of_each_path :: "path list \<Rightarrow> artifact_candidate list \<Rightarrow> artifact_candidate list" where
  "first_of_each_path seen [] = []"
| "first_of_each_path seen ((p, kind) # candidates) =
     (if p \<in> set seen then first_of_each_path seen candidates
      else (p, kind) # first_of_each_path (p # seen) candidates)"

definition kill_switch_artifact_candidates :: "server_paths \<Rightarrow> artifact_candidate list" where
  "kill_switch_artifact_candidates paths =
     first_of_each_path []
       (when_some (pa_sqlite_path paths) (\<lambda>p. database_candidates p
            @ when_some (path_parent p) known_hub_runtime_candidates)
        @ when_some (pa_managed_reticulumd_db_path paths) database_candidates
        @ when_some (pa_config_path paths) (\<lambda>p. [(p, ArtifactConfiguration)])
        @ when_some (pa_reticulum_config_path paths) (\<lambda>p. (p, ArtifactConfiguration)
            # when_some (path_parent p) known_reticulum_runtime_candidates)
        @ when_some (pa_managed_config_path paths) (\<lambda>p. [(p, ArtifactConfiguration)])
        @ concat (map (\<lambda>category. when_some (attachment_storage_path paths category) (\<lambda>p. [(p, ArtifactAttachment)]))
            [''file'', ''image''])
        @ when_some (Option.bind (pa_sqlite_path paths) path_parent) (\<lambda>parent.
            map (\<lambda>dirname. (parent @ [dirname], ArtifactAttachment)) [''files'', ''images'']))"

record artifact_report =
  ar_database_files :: nat
  ar_configuration_files :: nat
  ar_identity_files :: nat
  ar_attachment_files :: nat
  ar_deleted_paths :: "string list"

definition no_artifacts :: artifact_report where
  "no_artifacts = \<lparr>ar_database_files = 0, ar_configuration_files = 0, ar_identity_files = 0,
     ar_attachment_files = 0, ar_deleted_paths = []\<rparr>"

definition total_files :: "artifact_report \<Rightarrow> nat" where
  "total_files r = usize_add (usize_add (usize_add (ar_database_files r) (ar_configuration_files r))
     (ar_identity_files r)) (ar_attachment_files r)"

fun count_artifact :: "artifact_kind \<Rightarrow> artifact_report \<Rightarrow> artifact_report" where
  "count_artifact ArtifactDatabase r = r\<lparr>ar_database_files := usize_add (ar_database_files r) 1\<rparr>"
| "count_artifact ArtifactConfiguration r = r\<lparr>ar_configuration_files := usize_add (ar_configuration_files r) 1\<rparr>"
| "count_artifact ArtifactIdentity r = r\<lparr>ar_identity_files := usize_add (ar_identity_files r) 1\<rparr>"
| "count_artifact ArtifactAttachment r = r\<lparr>ar_attachment_files := usize_add (ar_attachment_files r) 1\<rparr>"

definition kill_switch_artifact_preview :: "app_state \<Rightarrow> artifact_report" where
  "kill_switch_artifact_preview a =
     fold (\<lambda>(p, kind) report. if hm_contains (ap_disk a) p then count_artifact kind report else report)
       (kill_switch_artifact_candidates (ap_paths a)) no_artifacts"

datatype removal = RemovalDone | RemovalNotFound | RemovalFailed string

record disk_host =
  dh_removal :: "path \<Rightarrow> removal"
  dh_write_error :: "path \<Rightarrow> string option"
  dh_read_error :: "path \<Rightarrow> string"
  dh_debug_text :: "string \<Rightarrow> string"

definition remove_from_disk :: "path \<Rightarrow> disk \<Rightarrow> disk" where
  "remove_from_disk p d = hm_retain (\<lambda>q _. take (length p) q \<noteq> p) d"

fun delete_candidates ::
  "disk_host \<Rightarrow> artifact_candidate list \<Rightarrow> disk \<times> artifact_report \<times> string list
     \<Rightarrow> disk \<times> artifact_report \<times> string list" where
  "delete_candidates dh [] r = r"
| "delete_candidates dh ((p, kind) # candidates) (d, report, errors) =
     delete_candidates dh candidates
       (if \<not> hm_contains d p then (d, report, errors)
        else case dh_removal dh p of
               RemovalDone \<Rightarrow> (remove_from_disk p d,
                 count_artifact kind (report\<lparr>ar_deleted_paths := ar_deleted_paths report @ [path_text p]\<rparr>), errors)
             | RemovalNotFound \<Rightarrow> (d, report, errors)
             | RemovalFailed err \<Rightarrow> (d, report, errors @ [path_text p @ '': '' @ err]))"

definition delete_kill_switch_artifacts :: "disk_host \<Rightarrow> app_state \<Rightarrow> artifact_report app_op" where
  "delete_kill_switch_artifacts dh a =
     (let (d, report, errors) =
            delete_candidates dh (kill_switch_artifact_candidates (ap_paths a)) (ap_disk a, no_artifacts, [])
      in (a\<lparr>ap_disk := d\<rparr>,
          if errors = [] then Inr report
          else Inl (Internal (''kill switch artifact deletion failed: '' @ join ''; '' errors))))"

subsection \<open>Progress\<close>

definition mode_text :: "kill_switch_mode \<Rightarrow> string" where
  "mode_text mode = (case mode of Idle \<Rightarrow> ''idle'' | Armed \<Rightarrow> ''armed'' | Authorized \<Rightarrow> ''authorized''
     | Deleting \<Rightarrow> ''deleting'' | PurgeCompleted \<Rightarrow> ''completed'' | PurgeFailed \<Rightarrow> ''failed'')"

fun advance_targets :: "kill_switch_mode \<Rightarrow> nat \<Rightarrow> nat \<Rightarrow> kill_switch_target list \<Rightarrow> kill_switch_target list" where
  "advance_targets mode progress cumulative_weight [] = []"
| "advance_targets mode progress cumulative_weight (target # targets) =
     (let start = cumulative_weight;
          end_weight = u16_add cumulative_weight (kt_weight target);
          (state, erased) =
            (if mode = PurgeCompleted then (''erased'', kt_total target)
             else if mode = PurgeFailed
             then (if kt_state target = ''erasing'' then ''failed'' else kt_state target, kt_erased target)
             else if mode = Deleting \<and> progress \<ge> end_weight then (''erased'', kt_total target)
             else if mode = Deleting \<and> progress > start
             then (let span = max 1 (end_weight - start);
                       local_progress = min (progress - start) span
                   in (''erasing'', usize_mul (kt_total target) local_progress div span))
             else (''queued'', 0))
      in target\<lparr>kt_state := state, kt_erased := erased\<rparr> # advance_targets mode progress end_weight targets)"

definition advance_kill_switch_targets ::
  "kill_switch_target list \<Rightarrow> kill_switch_mode \<Rightarrow> nat \<Rightarrow> kill_switch_target list" where
  "advance_kill_switch_targets targets mode progress_percent = advance_targets mode progress_percent 0 targets"

definition grouped_kill_switch_targets ::
  "wipe_report \<Rightarrow> artifact_report \<Rightarrow> kill_switch_mode \<Rightarrow> nat \<Rightarrow> kill_switch_target list" where
  "grouped_kill_switch_targets report artifacts mode progress_percent =
     (let group = (\<lambda>(id, label, short, weight, tables, override_total).
            \<lparr>kt_id = id, kt_label = label, kt_short = short,
             kt_total = unwrap_or override_total
               (sum_list (map snd (filter (\<lambda>(table, _). table \<in> set tables) (wr_tables report)))),
             kt_erased = 0, kt_unit = ''records'', kt_state = ''queued'', kt_weight = weight\<rparr>)
      in advance_kill_switch_targets (map group
           [(''mission'', ''Mission graph'', ''MG'', 24,
             [''rch_markers'', ''rch_zones'', ''rch_missions'', ''rch_mission_changes'', ''rch_log_entries'',
              ''rch_eam_snapshots'', ''rch_teams'', ''rch_mission_team_links'', ''rch_mission_zone_links'',
              ''rch_mission_marker_links'', ''rch_team_members'', ''rch_team_member_client_links'',
              ''rch_assets'', ''rch_skills'', ''rch_team_member_skills'', ''rch_task_skill_requirements'',
              ''rch_assignments'', ''rch_assignment_asset_links''], None),
            (''checklists'', ''Checklist state'', ''CL'', 16,
             [''rch_checklists'', ''rch_checklist_templates'', ''rch_checklist_columns'', ''rch_checklist_tasks'',
              ''rch_checklist_cells'', ''rch_checklist_feed_publications'', ''rch_command_results''], None),
            (''messaging'', ''Topics and messages'', ''TX'', 20,
             [''rch_topics'', ''rch_subscribers'', ''rch_messages'', ''rch_clients'', ''rch_identity_announces'',
              ''rch_identity_states'', ''rch_identity_rem_modes'', ''rch_outbound_jobs''], None),
            (''telemetry'', ''Runtime telemetry'', ''RT'', 12,
             [''rch_audit_events'', ''rch_system_events'', ''rch_telemetry_records'', ''rch_domain_events''], None),
            (''database-files'', ''Database files'', ''DB'', 14, [''rch_file_attachments'', ''rch_settings''],
             Some (usize_add (ar_database_files artifacts) (ar_attachment_files artifacts))),
            (''runtime-secrets'', ''Config and identity'', ''ID'', 14, [],
             Some (usize_add (ar_configuration_files artifacts) (ar_identity_files artifacts)))])
           mode progress_percent)"

definition KILL_SWITCH_AUTHORIZATION_TTL_MS :: int where "KILL_SWITCH_AUTHORIZATION_TTL_MS = 120000"
definition KILL_SWITCH_PROGRESS_WINDOW_MS :: int where "KILL_SWITCH_PROGRESS_WINDOW_MS = 18000"

text \<open>The division of \<open>i64\<close> rounds to zero; the result is clamped to positive numbers anyway.\<close>

definition kill_switch_elapsed_progress :: "int \<Rightarrow> nat" where
  "kill_switch_elapsed_progress elapsed_ms =
     nat (max 1 (min 96 (sat_i64 (elapsed_ms * 96) div KILL_SWITCH_PROGRESS_WINDOW_MS)))"

definition kill_switch_auth_active :: "kill_switch_runtime \<Rightarrow> int \<Rightarrow> bool" where
  "kill_switch_auth_active runtime now_ms =
     is_some_and (ks_authorized_at_ts_ms runtime)
       (\<lambda>authorized_at. sat_i64 (now_ms - authorized_at) \<le> KILL_SWITCH_AUTHORIZATION_TTL_MS)"

subsection \<open>The status\<close>

definition target_value :: "kill_switch_target \<Rightarrow> json" where
  "target_value t =
     JObj [(''id'', JStr (kt_id t)), (''label'', JStr (kt_label t)), (''short'', JStr (kt_short t)),
           (''total'', JInt (int (kt_total t))), (''erased'', JInt (int (kt_erased t))),
           (''unit'', JStr (kt_unit t)), (''state'', JStr (kt_state t)), (''weight'', JInt (int (kt_weight t)))]"

definition status_value ::
  "(int \<Rightarrow> string) \<Rightarrow> kill_switch_runtime \<Rightarrow> string \<Rightarrow> json \<Rightarrow> json \<Rightarrow> json \<Rightarrow> nat \<Rightarrow> string
     \<Rightarrow> kill_switch_target list \<Rightarrow> json" where
  "status_value iso8601 runtime state_name pin_enrolled pin_created_at initial_pin progress_percent message targets =
     (let opt_time = (\<lambda>t. jopt (map_option iso8601 t))
      in JObj [(''state'', JStr state_name), (''arm_a'', JBool (ks_arm_a runtime)),
               (''arm_b'', JBool (ks_arm_b runtime)), (''pin_enrolled'', pin_enrolled),
               (''pin_created_at'', pin_created_at), (''initial_pin'', initial_pin),
               (''authorized_at'', opt_time (ks_authorized_at_ts_ms runtime)),
               (''purge_started_at'', opt_time (ks_purge_started_at_ts_ms runtime)),
               (''progress_percent'', JInt (int progress_percent)), (''message'', JStr message),
               (''targets'', JArr (map target_value targets)),
               (''updated_at'', JStr (iso8601 (ks_updated_at_ts_ms runtime)))])"

definition deleting_progress :: "kill_switch_runtime \<Rightarrow> int \<Rightarrow> nat" where
  "deleting_progress runtime now_ms =
     max (kill_switch_elapsed_progress
           (sat_i64 (now_ms - unwrap_or (ks_purge_started_at_ts_ms runtime) now_ms)))
       (ks_progress_percent runtime)"

definition expire_authorization :: "int \<Rightarrow> kill_switch_runtime \<Rightarrow> kill_switch_runtime" where
  "expire_authorization now_ms runtime =
     (if ks_mode runtime = Authorized \<and> \<not> kill_switch_auth_active runtime now_ms
      then runtime\<lparr>ks_authorized_at_ts_ms := None,
                   ks_mode := (if ks_arm_a runtime \<and> ks_arm_b runtime then Armed else Idle),
                   ks_message := ''PIN authorization expired; re-enter PIN before purge.'',
                   ks_updated_at_ts_ms := now_ms\<rparr>
      else runtime)"

definition kill_switch_status_payload ::
  "secret_host \<Rightarrow> (int \<Rightarrow> string) \<Rightarrow> int \<Rightarrow> app_state \<Rightarrow> json app_op" where
  "kill_switch_status_payload sh iso8601 now_ms a =
     (let runtime = ap_kill_switch a
      in if ks_mode runtime \<in> {Deleting, PurgeCompleted, PurgeFailed}
         then (let progress_percent = (if ks_mode runtime = Deleting then deleting_progress runtime now_ms
                                       else ks_progress_percent runtime)
               in (a, Inr (status_value iso8601 runtime (mode_text (ks_mode runtime)) (JBool False) JNull JNull
                     progress_percent (ks_message runtime)
                     (advance_kill_switch_targets (ks_targets runtime) (ks_mode runtime) progress_percent))))
         else
           try_st (load_kill_switch_pin sh a) (\<lambda>a secret.
             let runtime = ap_kill_switch a;
                 runtime = (if ks_updated_at_ts_ms runtime = 0 then runtime\<lparr>ks_updated_at_ts_ms := now_ms\<rparr> else runtime)
             in case secret of
                  None \<Rightarrow>
                    (let runtime = runtime\<lparr>ks_arm_a := False, ks_arm_b := False, ks_authorized_at_ts_ms := None,
                           ks_mode := Idle, ks_initial_pin_reveal := None,
                           ks_message := (if ks_message runtime = []
                             then ''First-run setup must configure a kill switch PIN before purge controls unlock.''
                             else ks_message runtime)\<rparr>
                     in (a\<lparr>ap_kill_switch := runtime\<rparr>,
                         Inr (status_value iso8601 runtime (mode_text Idle) (JBool False) JNull JNull
                           (ks_progress_percent runtime) (ks_message runtime) [])))
                | Some secret \<Rightarrow>
                    try_st (with_required_core_store_write (\<lambda>db. (db, database_wipe_preview db)) a) (\<lambda>a preview.
                      let artifacts = kill_switch_artifact_preview a;
                          runtime = expire_authorization now_ms runtime;
                          targets = grouped_kill_switch_targets preview artifacts (ks_mode runtime)
                            (ks_progress_percent runtime);
                          state_name = mode_text (if ks_mode runtime = Idle \<and> ks_arm_a runtime \<and> ks_arm_b runtime
                            then Armed else ks_mode runtime);
                          message = (if ks_message runtime = []
                            then ''Dual-arm controls are idle. Enter the configured PIN to authorize purge.''
                            else ks_message runtime)
                      in (a\<lparr>ap_kill_switch := runtime\<rparr>,
                          Inr (status_value iso8601 runtime state_name (JBool True)
                            (JStr (iso8601 (sc_created_at_ts_ms secret))) (jopt (ks_initial_pin_reveal runtime))
                            (ks_progress_percent runtime) message targets)))))"

subsection \<open>The requests\<close>

definition controls_locked :: api_error where
  "controls_locked = BadRequest ''Kill switch controls are locked while purge is active or completed''"

definition arm_runtime :: "bool \<Rightarrow> bool \<Rightarrow> int \<Rightarrow> kill_switch_runtime \<Rightarrow> api_error + kill_switch_runtime" where
  "arm_runtime arm_a arm_b now_ms runtime =
     (if ks_mode runtime \<in> {Deleting, PurgeCompleted} then Inl controls_locked
      else Inr (runtime\<lparr>ks_arm_a := arm_a, ks_arm_b := arm_b, ks_authorized_at_ts_ms := None,
        ks_progress_percent := 0, ks_mode := (if arm_a \<and> arm_b then Armed else Idle),
        ks_message := (if arm_a \<and> arm_b
          then ''Dual-arm gates engaged. PIN authorization is required.''
          else ''Dual-arm controls are idle. Enter the configured PIN to authorize purge.''),
        ks_updated_at_ts_ms := now_ms\<rparr>))"

text \<open>A request of the kill switch changes the runtime under its lock.\<close>

definition change_runtime ::
  "(kill_switch_runtime \<Rightarrow> api_error + kill_switch_runtime) \<Rightarrow> app_state \<Rightarrow> unit app_op" where
  "change_runtime f a =
     try_in a (f (ap_kill_switch a)) (\<lambda>runtime. (a\<lparr>ap_kill_switch := runtime\<rparr>, Inr ()))"

text \<open>The readings of the clock of a request, in the order of the code.\<close>

type_synonym clock = "nat \<Rightarrow> int"

definition kill_switch_arm ::
  "secret_host \<Rightarrow> (int \<Rightarrow> string) \<Rightarrow> clock \<Rightarrow> bool \<Rightarrow> bool \<Rightarrow> app_state \<Rightarrow> json app_op" where
  "kill_switch_arm sh iso8601 clock arm_a arm_b a =
     try_st (require_kill_switch_pin sh a) (\<lambda>a _.
     try_st (change_runtime (arm_runtime arm_a arm_b (clock 0)) a) (\<lambda>a _.
       kill_switch_status_payload sh iso8601 (clock 1) a))"

definition well_formed_pin :: "string \<Rightarrow> bool" where
  "well_formed_pin pin \<longleftrightarrow> length pin = 6 \<and> list_all is_ascii_digit pin"

definition authorize_runtime :: "int \<Rightarrow> kill_switch_runtime \<Rightarrow> api_error + kill_switch_runtime" where
  "authorize_runtime now_ms runtime =
     (if \<not> ks_arm_a runtime \<or> \<not> ks_arm_b runtime
      then Inl (BadRequest ''Both kill switch arms must be enabled before PIN authorization'')
      else if ks_mode runtime \<in> {Deleting, PurgeCompleted} then Inl controls_locked
      else Inr (runtime\<lparr>ks_mode := Authorized, ks_authorized_at_ts_ms := Some now_ms,
        ks_initial_pin_reveal := None,
        ks_message := ''PIN accepted. Final purge command is authorized for this session.'',
        ks_updated_at_ts_ms := now_ms\<rparr>))"

definition PIN_SURFACE :: string where "PIN_SURFACE = ''kill-switch-pin''"

definition check_pin ::
  "secret_host \<Rightarrow> string \<Rightarrow> clock \<Rightarrow> socket_addr option \<Rightarrow> string \<Rightarrow> app_state \<Rightarrow> unit app_op" where
  "check_pin sh drawn_salt clock client_addr pin a =
     try_st (ensure_auth_attempt_allowed PIN_SURFACE client_addr (clock 0) a) (\<lambda>a _.
     let pin = trim pin
     in if \<not> well_formed_pin pin
        then try_st (record_auth_failure PIN_SURFACE client_addr (clock 1) a) (\<lambda>a _.
          (a, Inl (BadRequest ''Kill switch PIN must contain exactly six digits'')))
        else
          try_st (require_kill_switch_pin sh a) (\<lambda>a secret.
          try_in a (verify_versioned_secret sh (sc_salt secret) (sc_hash secret) pin) (\<lambda>valid.
            if \<not> valid
            then try_st (record_auth_failure PIN_SURFACE client_addr (clock 1) a) (\<lambda>a _.
              (a, Inl (UnauthorizedWithDetail ''Kill switch PIN rejected'')))
            else
              try_st (if is_argon2id_phc (sc_hash secret) then (a, Inr ())
                  else try_in a (argon2id_hash sh drawn_salt pin) (\<lambda>hash.
                    save_kill_switch_pin_secret (sc_salt secret) hash (sc_created_at_ts_ms secret) a)) (\<lambda>a _.
                (clear_auth_failures PIN_SURFACE client_addr a, Inr ())))))"

definition kill_switch_authorize ::
  "secret_host \<Rightarrow> string \<Rightarrow> (int \<Rightarrow> string) \<Rightarrow> clock \<Rightarrow> socket_addr option \<Rightarrow> string \<Rightarrow> app_state \<Rightarrow> json app_op" where
  "kill_switch_authorize sh drawn_salt iso8601 clock client_addr pin a =
     try_st (check_pin sh drawn_salt clock client_addr pin a) (\<lambda>a _.
     try_st (change_runtime (authorize_runtime (clock 1)) a) (\<lambda>a _.
       kill_switch_status_payload sh iso8601 (clock 2) a))"

definition purge_runtime ::
  "wipe_report \<Rightarrow> artifact_report \<Rightarrow> int \<Rightarrow> kill_switch_runtime \<Rightarrow> api_error + kill_switch_runtime" where
  "purge_runtime preview artifacts now_ms runtime =
     (if ks_mode runtime = Deleting then Inr runtime
      else if \<not> ks_arm_a runtime \<or> \<not> ks_arm_b runtime
      then Inl (BadRequest ''Both kill switch arms must be enabled before purge'')
      else if \<not> kill_switch_auth_active runtime now_ms
      then Inl (UnauthorizedWithDetail ''Kill switch PIN authorization is missing or expired'')
      else Inr (runtime\<lparr>ks_mode := Deleting, ks_purge_started_at_ts_ms := Some now_ms,
        ks_purge_completed_at_ts_ms := None, ks_failed_at_ts_ms := None, ks_progress_percent := 1,
        ks_rows_deleted := wr_rows_deleted preview,
        ks_targets := grouped_kill_switch_targets preview artifacts Idle 0,
        ks_message := ''Deleting databases, configuration files, and Reticulum identity.'',
        ks_last_error := None, ks_updated_at_ts_ms := now_ms\<rparr>))"

text \<open>The worker of a purge is a step of its own, after the request that starts it.\<close>

definition kill_switch_purge :: "secret_host \<Rightarrow> (int \<Rightarrow> string) \<Rightarrow> clock \<Rightarrow> app_state \<Rightarrow> json app_op" where
  "kill_switch_purge sh iso8601 clock a =
     try_st (require_kill_switch_pin sh a) (\<lambda>a _.
     try_st (with_required_core_store_write (\<lambda>db. (db, database_wipe_preview db)) a) (\<lambda>a preview.
     try_st (change_runtime (purge_runtime preview (kill_switch_artifact_preview a) (clock 0)) a) (\<lambda>a _.
       kill_switch_status_payload sh iso8601 (clock 1) a)))"

definition kill_switch_status :: "secret_host \<Rightarrow> (int \<Rightarrow> string) \<Rightarrow> clock \<Rightarrow> app_state \<Rightarrow> json app_op" where
  "kill_switch_status sh iso8601 clock a = kill_switch_status_payload sh iso8601 (clock 0) a"

subsection \<open>The worker of a purge\<close>

fun api_error_text :: "api_error \<Rightarrow> string" where
  "api_error_text (BadRequest s) = s"
| "api_error_text (Unprocessable s) = s"
| "api_error_text (PydanticValidation _) = ''validation error''"
| "api_error_text (NotFound s) = s"
| "api_error_text (PayloadTooLarge s) = s"
| "api_error_text (ServiceUnavailable s) = s"
| "api_error_text (Conflict s) = s"
| "api_error_text Unauthorized = ''Unauthorized''"
| "api_error_text (UnauthorizedWithDetail s) = s"
| "api_error_text (TooManyRequests s _) = s"
| "api_error_text (Internal s) = s"

definition completed_runtime :: "wipe_report \<Rightarrow> artifact_report \<Rightarrow> int \<Rightarrow> kill_switch_runtime \<Rightarrow> kill_switch_runtime" where
  "completed_runtime report artifacts now_ms runtime =
     runtime\<lparr>ks_mode := PurgeCompleted, ks_purge_completed_at_ts_ms := Some now_ms, ks_failed_at_ts_ms := None,
       ks_authorized_at_ts_ms := None, ks_progress_percent := 100, ks_rows_deleted := wr_rows_deleted report,
       ks_targets := grouped_kill_switch_targets report artifacts PurgeCompleted 100,
       ks_message := ''Kill switch purge complete. '' @ show_nat (wr_rows_deleted report)
         @ '' persisted rows and '' @ show_nat (total_files artifacts) @ '' runtime files erased.'',
       ks_last_error := None, ks_updated_at_ts_ms := now_ms\<rparr>"

definition failed_runtime :: "api_error \<Rightarrow> int \<Rightarrow> kill_switch_runtime \<Rightarrow> kill_switch_runtime" where
  "failed_runtime err now_ms runtime =
     runtime\<lparr>ks_mode := PurgeFailed, ks_failed_at_ts_ms := Some now_ms,
       ks_progress_percent := min 96 (ks_progress_percent runtime),
       ks_message := ''Database purge failed: '' @ api_error_text err,
       ks_last_error := Some (api_error_text err), ks_updated_at_ts_ms := now_ms,
       ks_targets := map (\<lambda>t. if kt_state t = ''erasing'' then t\<lparr>kt_state := ''failed''\<rparr> else t)
         (advance_kill_switch_targets (ks_targets runtime) Deleting (ks_progress_percent runtime))\<rparr>"

text \<open>The lists the server keeps in memory are no part of this state; emptying them is left out.\<close>

definition run_kill_switch_purge_worker ::
  "disk_host \<Rightarrow> api_error + unit \<Rightarrow> int \<Rightarrow> app_state \<Rightarrow> app_state" where
  "run_kill_switch_purge_worker dh stop_runtime_services now_ms a =
     (let (a, r) =
            try_in a stop_runtime_services (\<lambda>_.
            try_st (with_required_core_store_write_unchecked wipe_database a) (\<lambda>a report.
            try_st (delete_kill_switch_artifacts dh a) (\<lambda>a artifacts. (a, Inr (report, artifacts)))))
      in a\<lparr>ap_kill_switch :=
             (case r of
                Inr (report, artifacts) \<Rightarrow> completed_runtime report artifacts now_ms (ap_kill_switch a)
              | Inl err \<Rightarrow> failed_runtime err now_ms (ap_kill_switch a))\<rparr>)"

subsection \<open>The first-run setup\<close>

record setup_payload =
  sp_hub_name :: string
  sp_remote_password :: string
  sp_kill_switch_pin :: string
  sp_reticulum_config_text :: "string option"

definition read_config_file :: "disk_host \<Rightarrow> path \<Rightarrow> app_state \<Rightarrow> api_error + string" where
  "read_config_file dh p a =
     (case hm_get (ap_disk a) p of
        None \<Rightarrow> Inr []
      | Some (DiskFile text) \<Rightarrow> if valid_utf8 text then Inr text else Inl (Internal (dh_read_error dh p))
      | Some DiskDirectory \<Rightarrow> Inl (Internal (dh_read_error dh p)))"

definition create_dir_all :: "path \<Rightarrow> disk \<Rightarrow> disk" where
  "create_dir_all p d =
     fold (\<lambda>n d. if hm_contains d (take n p) then d else hm_insert (take n p) DiskDirectory d) [1..<length p + 1] d"

definition write_config_file_for_setup :: "disk_host \<Rightarrow> path \<Rightarrow> string \<Rightarrow> app_state \<Rightarrow> unit app_op" where
  "write_config_file_for_setup dh p body a =
     (case dh_write_error dh p of
        Some err \<Rightarrow> (a, Inl (Internal err))
      | None \<Rightarrow> (a\<lparr>ap_disk := hm_insert p (DiskFile body) (create_dir_all (butlast p) (ap_disk a))\<rparr>, Inr ()))"

definition validate_setup ::
  "disk_host \<Rightarrow> setup_payload \<Rightarrow> app_state \<Rightarrow> api_error + (string \<times> string \<times> string)" where
  "validate_setup dh payload a =
     (let hub_name = trim (sp_hub_name payload); remote_password = trim (sp_remote_password payload);
          pin = trim (sp_kill_switch_pin payload)
      in if hub_name = [] then Inl (BadRequest ''Hub name is required'')
         else if char_count hub_name > 80 then Inl (BadRequest ''Hub name must be 80 characters or fewer'')
         else if length remote_password < 8
         then Inl (BadRequest ''Remote access password must contain at least eight characters'')
         else if \<not> well_formed_pin pin then Inl (BadRequest ''Kill switch PIN must contain exactly six digits'')
         else (case sp_reticulum_config_text payload of
                 None \<Rightarrow> Inr (hub_name, remote_password, pin)
               | Some text \<Rightarrow>
                   (let errors = validate_ini_text (dh_debug_text dh) text
                    in if errors \<noteq> []
                       then Inl (BadRequest (''Invalid Reticulum configuration payload: '' @ join ''; '' errors))
                       else if trim text \<noteq> [] \<and> pa_reticulum_config_path (ap_paths a) = None
                       then Inl (BadRequest
                         ''Reticulum configuration path is required before setup can save TCP interfaces'')
                       else Inr (hub_name, remote_password, pin))))"

definition save_hub_name_to_config :: "disk_host \<Rightarrow> string \<Rightarrow> app_state \<Rightarrow> unit app_op" where
  "save_hub_name_to_config dh hub_name a =
     (case pa_config_path (ap_paths a) of
        None \<Rightarrow> (a, Inr ())
      | Some p \<Rightarrow>
          try_in a (read_config_file dh p a) (\<lambda>current.
            write_config_file_for_setup dh p (upsert_ini_setting current ''hub'' ''name'' hub_name) a))"

definition save_reticulum_config :: "disk_host \<Rightarrow> string option \<Rightarrow> app_state \<Rightarrow> unit app_op" where
  "save_reticulum_config dh text a =
     (case (pa_reticulum_config_path (ap_paths a), text) of
        (Some p, Some text) \<Rightarrow> write_config_file_for_setup dh p text a
      | _ \<Rightarrow> (a, Inr ()))"

text \<open>The identifiers and salts drawn for the password and the PIN; the setup reads the clock for each
  of them and for the runtime.\<close>

definition enroll_secrets ::
  "secret_host \<Rightarrow> (nat \<Rightarrow> string) \<Rightarrow> (nat \<Rightarrow> string) \<Rightarrow> clock \<Rightarrow> string \<Rightarrow> string \<Rightarrow> string \<Rightarrow> app_state \<Rightarrow> unit app_op" where
  "enroll_secrets sh drawn_uuid drawn_salt clock hub_name remote_password pin a =
     try_st (with_required_core_store_write (\<lambda>db. (set_setting_value ''hub_name'' hub_name db, ())) a) (\<lambda>a _.
     try_st (save_remote_access_password sh (drawn_uuid 0) (drawn_salt 0) remote_password (clock 0) a) (\<lambda>a _.
     try_st (save_kill_switch_pin sh (drawn_uuid 1) (drawn_salt 1) (clock 1) pin a) (\<lambda>a _.
       (a\<lparr>ap_kill_switch := (ap_kill_switch a)\<lparr>ks_initial_pin_reveal := None,
            ks_message := ''Kill switch PIN enrolled by first-run setup.'',
            ks_updated_at_ts_ms := clock 2\<rparr>\<rparr>, Inr ()))))"

definition first_run_setup_complete ::
  "secret_host \<Rightarrow> disk_host \<Rightarrow> (nat \<Rightarrow> string) \<Rightarrow> (nat \<Rightarrow> string) \<Rightarrow> clock \<Rightarrow> setup_payload \<Rightarrow> app_state \<Rightarrow> unit app_op" where
  "first_run_setup_complete sh dh drawn_uuid drawn_salt clock payload a =
     try_st (load_kill_switch_pin sh a) (\<lambda>a enrolled.
       if enrolled \<noteq> None
       then (a, Inl (Conflict ''First-run setup has already enrolled a kill switch PIN''))
       else
         try_in a (validate_setup dh payload a) (\<lambda>(hub_name, remote_password, pin).
         try_st (save_hub_name_to_config dh hub_name a) (\<lambda>a _.
         try_st (save_reticulum_config dh (sp_reticulum_config_text payload) a) (\<lambda>a _.
           enroll_secrets sh drawn_uuid drawn_salt clock hub_name remote_password pin a))))"

end
