(* ===== verification/Kill_Switch_Rules.thy ===== *)
theory Kill_Switch_Rules
  imports Kill_Switch
begin

text \<open>
  What access to the server and the kill switch rest on: secrets are compared byte by byte, a failure
  is counted against the client that made it, and a purge starts only under an accepted PIN.
\<close>

subsection \<open>Secrets\<close>

lemma byte_word_inj: "(byte_word c XOR byte_word d = 0) = (c = d)"
proof
  assume "byte_word c XOR byte_word d = 0"
  then have "byte_word c = byte_word d" by (auto simp: bit_eq_iff bit_xor_iff)
  then have "code c mod 256 = code d mod 256"
    by (simp add: byte_word_def word_of_nat_eq_iff take_bit_eq_mod)
  then show "c = d" by (simp add: code_def)
qed simp

lemma or_zero: "(a OR b = 0) = (a = 0 \<and> b = (0 :: 8 word))"
  by (simp add: or_eq_0_iff)

lemma fold_or_zero:
  "fold (\<lambda>(l, r) acc. acc OR (byte_word l XOR byte_word r)) xs (acc :: 8 word) = 0
     \<longleftrightarrow> acc = 0 \<and> (\<forall>(l, r)\<in>set xs. l = r)"
  by (induction xs arbitrary: acc) (auto simp: or_zero byte_word_inj)

lemma secure_string_eq_iff: "secure_string_eq l r = (l = r)"
  by (auto simp: secure_string_eq_def fold_or_zero list_eq_iff_zip_eq)

lemma read_store [simp]:
  "with_required_core_store_write (\<lambda>db. (db, f db)) a =
    (a, if ks_mode (ap_kill_switch a) \<in> {Deleting, PurgeCompleted}
        then Inl (ServiceUnavailable ''RCH persistence is locked by kill switch purge'')
        else case ap_store a of None \<Rightarrow> Inl (ServiceUnavailable ''RCH SQLite state unavailable'')
          | Some db \<Rightarrow> Inr (f db))"
  by (simp add: with_required_core_store_write_def with_required_core_store_write_unchecked_def
      ensure_kill_switch_persistence_unlocked_def try_in_def split: option.split)

lemma load_secret_state [simp]: "fst (load_secret sh ss a) = a"
  by (simp add: load_secret_def try_st_def split: option.split)

lemma load_secret_result:
  "snd (load_secret sh ss a) = Inr secret \<Longrightarrow> ks_mode (ap_kill_switch a) \<notin> {Deleting, PurgeCompleted}"
  by (auto simp: load_secret_def try_st_def split: if_splits option.splits)

lemma load_secret_cases:
  obtains err where "load_secret sh ss a = (a, Inl err)"
  | secret where "load_secret sh ss a = (a, Inr secret)"
proof (cases "load_secret sh ss a")
  case (Pair b r)
  then have "b = a" using load_secret_state [of sh ss a] by simp
  with Pair show ?thesis using that by (cases r) auto
qed

lemma require_pin_state [simp]: "fst (require_kill_switch_pin sh a) = a"
  by (cases rule: load_secret_cases [of sh KILL_SWITCH_PIN_SETTINGS a])
    (auto simp: require_kill_switch_pin_def load_kill_switch_pin_def try_st_def)

lemma require_pin_secret:
  "snd (require_kill_switch_pin sh a) = Inr secret \<Longrightarrow> load_kill_switch_pin sh a = (a, Inr (Some secret))"
  by (cases rule: load_secret_cases [of sh KILL_SWITCH_PIN_SETTINGS a])
    (auto simp: require_kill_switch_pin_def load_kill_switch_pin_def try_st_def ok_or_def split: option.splits)

subsection \<open>What the requests do to the kill switch\<close>

lemma throttle_frame [simp]:
  "ap_kill_switch (fst (ensure_auth_attempt_allowed su addr now a)) = ap_kill_switch a"
  "ap_kill_switch (fst (record_auth_failure su addr now a)) = ap_kill_switch a"
  "ap_kill_switch (clear_auth_failures su addr a) = ap_kill_switch a"
  "ap_store (fst (ensure_auth_attempt_allowed su addr now a)) = ap_store a"
  "ap_store (fst (record_auth_failure su addr now a)) = ap_store a"
  "ap_store (clear_auth_failures su addr a) = ap_store a"
  "ap_api_key (fst (ensure_auth_attempt_allowed su addr now a)) = ap_api_key a"
  by (simp_all add: ensure_auth_attempt_allowed_def record_auth_failure_def clear_auth_failures_def Let_def split: option.split)

lemma write_frame [simp]:
  "ap_kill_switch (fst (with_required_core_store_write f a)) = ap_kill_switch a"
  "ap_auth_throttle (fst (with_required_core_store_write f a)) = ap_auth_throttle a"
  "ap_kill_switch (fst (with_required_core_store_write_unchecked f a)) = ap_kill_switch a"
  by (simp_all add: with_required_core_store_write_def with_required_core_store_write_unchecked_def
      try_in_def split: option.split sum.split prod.split)

lemma save_frame [simp]:
  "ap_kill_switch (fst (save_secret ss secret a)) = ap_kill_switch a"
  "ap_auth_throttle (fst (save_secret ss secret a)) = ap_auth_throttle a"
  by (simp_all add: save_secret_def)

lemma try_st_frame:
  "p (fst m) = x \<Longrightarrow> (\<And>a r. p a = x \<Longrightarrow> p (fst (k a r)) = x) \<Longrightarrow> p (fst (try_st m k)) = x"
  by (auto simp: try_st_def split: prod.splits sum.splits)

lemma try_in_frame: "p a = x \<Longrightarrow> (\<And>r. p (fst (k r)) = x) \<Longrightarrow> p (fst (try_in a r k)) = x"
  by (simp add: try_in_def split: sum.splits)

lemmas save_pin_defs = save_kill_switch_pin_secret_def save_kill_switch_pin_def
  save_remote_access_password_with_created_at_def save_remote_access_password_def

lemma save_pin_frame [simp]:
  "ap_kill_switch (fst (save_kill_switch_pin_secret salt hash t a)) = ap_kill_switch a"
  "ap_kill_switch (fst (save_kill_switch_pin sh u salt now pin a)) = ap_kill_switch a"
  "ap_kill_switch (fst (save_remote_access_password_with_created_at sh u salt pw t a)) = ap_kill_switch a"
  by (auto simp: save_pin_defs Let_def intro!: try_st_frame [where p = ap_kill_switch] try_in_frame [where p = ap_kill_switch])

lemma check_pin_frame [simp]: "ap_kill_switch (fst (check_pin sh salt clock addr pin a)) = ap_kill_switch a"
  unfolding check_pin_def Let_def
  by (auto intro!: try_st_frame [where p = ap_kill_switch] try_in_frame [where p = ap_kill_switch])

lemma check_pin_accepts:
  assumes "check_pin sh salt clock addr pin a = (b, Inr u)"
  obtains secret where "load_kill_switch_pin sh a = (a, Inr (Some secret))"
    "verify_versioned_secret sh (sc_salt secret) (sc_hash secret) (trim pin) = Inr True" "well_formed_pin (trim pin)"
proof -
  obtain a1 where a1: "ensure_auth_attempt_allowed PIN_SURFACE addr (clock 0) a = (a1, Inr ())"
    using assms by (cases "ensure_auth_attempt_allowed PIN_SURFACE addr (clock 0) a")
      (auto simp: check_pin_def try_st_def split: sum.splits)
  have same: "ap_kill_switch a1 = ap_kill_switch a" "ap_store a1 = ap_store a"
    using throttle_frame(1,4) [of PIN_SURFACE addr "clock 0" a] a1 by simp_all
  have pin: "well_formed_pin (trim pin)"
    using assms a1 by (auto simp: check_pin_def try_st_def Let_def split: if_splits prod.splits sum.splits)
  obtain secret where secret: "snd (require_kill_switch_pin sh a1) = Inr secret"
    "verify_versioned_secret sh (sc_salt secret) (sc_hash secret) (trim pin) = Inr True"
    using assms a1 pin
    by (cases "require_kill_switch_pin sh a1")
      (auto simp: check_pin_def try_st_def try_in_def Let_def split: if_splits prod.splits sum.splits)
  from require_pin_secret [OF this(1)] have "snd (load_kill_switch_pin sh a) = Inr (Some secret)"
    using same by (auto simp: load_kill_switch_pin_def load_secret_def try_st_def split: if_splits option.splits)
  then have "load_kill_switch_pin sh a = (a, Inr (Some secret))"
    using load_secret_state [of sh KILL_SWITCH_PIN_SETTINGS a] by (simp add: load_kill_switch_pin_def prod_eq_iff)
  with secret(2) pin show ?thesis using that by blast
qed

subsection \<open>What the server may do next\<close>

text \<open>
  Every request about access and the kill switch, the worker of a purge, and a change of the database by
  any other request, in any order.
\<close>

datatype hub_call =
    ArmCall clock bool bool
  | AuthorizeCall string clock "socket_addr option" string
  | PurgeCall clock
  | StatusCall clock
  | WorkerCall "api_error + unit" int
  | SetupCall "nat \<Rightarrow> string" "nat \<Rightarrow> string" clock setup_payload
  | HttpCall string string int int bool http_headers "socket_addr option"
  | WsCall string string int int "string option" "string option" "socket_addr option"
  | StoreCall "rch_database \<Rightarrow> rch_database"

fun serve_call ::
  "secret_host \<Rightarrow> disk_host \<Rightarrow> (int \<Rightarrow> string) \<Rightarrow> hub_call \<Rightarrow> app_state \<Rightarrow> app_state" where
  "serve_call sh dh iso8601 (ArmCall clock arm_a arm_b) a = fst (kill_switch_arm sh iso8601 clock arm_a arm_b a)"
| "serve_call sh dh iso8601 (AuthorizeCall salt clock addr pin) a =
     fst (kill_switch_authorize sh salt iso8601 clock addr pin a)"
| "serve_call sh dh iso8601 (PurgeCall clock) a = fst (kill_switch_purge sh iso8601 clock a)"
| "serve_call sh dh iso8601 (StatusCall clock) a = fst (kill_switch_status sh iso8601 clock a)"
| "serve_call sh dh iso8601 (WorkerCall stopped now_ms) a = run_kill_switch_purge_worker dh stopped now_ms a"
| "serve_call sh dh iso8601 (SetupCall uuid salt clock payload) a =
     fst (first_run_setup_complete sh dh uuid salt clock payload a)"
| "serve_call sh dh iso8601 (HttpCall uuid salt now failed exempt headers addr) a =
     fst (require_http_auth sh uuid salt now failed exempt headers addr a)"
| "serve_call sh dh iso8601 (WsCall uuid salt now failed api_key token addr) a =
     fst (validate_ws_credentials sh uuid salt now failed api_key token addr a)"
| "serve_call sh dh iso8601 (StoreCall change) a =
     fst (with_required_core_store_write (\<lambda>db. (change db, ())) a)"

definition serve_calls ::
  "secret_host \<Rightarrow> disk_host \<Rightarrow> (int \<Rightarrow> string) \<Rightarrow> hub_call list \<Rightarrow> app_state \<Rightarrow> app_state" where
  "serve_calls sh dh iso8601 calls a = fold (serve_call sh dh iso8601) calls a"

lemma serve_calls_simps [simp]:
  "serve_calls sh dh iso8601 [] a = a"
  "serve_calls sh dh iso8601 (calls @ [c]) a = serve_call sh dh iso8601 c (serve_calls sh dh iso8601 calls a)"
  by (simp_all add: serve_calls_def)

text \<open>
  No request but an authorization gives one: whatever else is done keeps the time of the last, or
  forgets it.
\<close>

definition no_new_authorization :: "kill_switch_runtime \<Rightarrow> kill_switch_runtime \<Rightarrow> bool" where
  "no_new_authorization r r' \<longleftrightarrow>
     ks_authorized_at_ts_ms r' \<in> {None, ks_authorized_at_ts_ms r} \<and> (ks_mode r' = Deleting \<longrightarrow> ks_mode r = Deleting)"

lemma no_new_refl [simp]: "no_new_authorization r r"
  by (simp add: no_new_authorization_def)

lemma no_new_trans: "no_new_authorization r s \<Longrightarrow> no_new_authorization s t \<Longrightarrow> no_new_authorization r t"
  by (auto simp: no_new_authorization_def)

definition stamped :: "int \<Rightarrow> kill_switch_runtime \<Rightarrow> kill_switch_runtime" where
  "stamped now r = (if ks_updated_at_ts_ms r = 0 then r\<lparr>ks_updated_at_ts_ms := now\<rparr> else r)"

definition unarmed :: "kill_switch_runtime \<Rightarrow> kill_switch_runtime" where
  "unarmed r = r\<lparr>ks_arm_a := False, ks_arm_b := False, ks_authorized_at_ts_ms := None, ks_mode := Idle,
     ks_initial_pin_reveal := None, ks_message := (if ks_message r = []
       then ''First-run setup must configure a kill switch PIN before purge controls unlock.'' else ks_message r)\<rparr>"

lemma status_runtime:
  "ap_kill_switch (fst (kill_switch_status_payload sh iso8601 now a)) =
    (if ks_mode (ap_kill_switch a) \<in> {Deleting, PurgeCompleted, PurgeFailed} then ap_kill_switch a
     else case snd (load_kill_switch_pin sh a) of
            Inl _ \<Rightarrow> ap_kill_switch a
          | Inr None \<Rightarrow> unarmed (stamped now (ap_kill_switch a))
          | Inr (Some _) \<Rightarrow> expire_authorization now (stamped now (ap_kill_switch a)))"
proof (cases "ks_mode (ap_kill_switch a) \<in> {Deleting, PurgeCompleted, PurgeFailed}")
  case True
  then show ?thesis by (simp add: kill_switch_status_payload_def Let_def)
next
  case False
  note unfold = kill_switch_status_payload_def load_kill_switch_pin_def try_st_def Let_def
  show ?thesis
  proof (cases rule: load_secret_cases [of sh KILL_SWITCH_PIN_SETTINGS a])
    case 1
    then show ?thesis using False by (simp only: unfold) simp
  next
    case (2 secret)
    have store: "\<exists>db. ap_store a = Some db"
      using 2 by (auto simp: load_secret_def try_st_def split: if_splits option.splits)
    show ?thesis
    proof (cases secret)
      case None
      then show ?thesis using False 2 by (simp only: unfold) (simp add: stamped_def unarmed_def)
    next
      case (Some s)
      then show ?thesis using False 2 store
        by (simp only: unfold) (auto simp: stamped_def simp del: One_nat_def)
    qed
  qed
qed

lemma status_no_new:
  "no_new_authorization (ap_kill_switch a) (ap_kill_switch (fst (kill_switch_status_payload sh iso8601 now a)))"
  by (auto simp: status_runtime no_new_authorization_def expire_authorization_def stamped_def unarmed_def
      split: sum.splits option.splits if_splits)

lemma change_then_status:
  assumes "\<And>r'. f (ap_kill_switch a) = Inr r' \<Longrightarrow> no_new_authorization (ap_kill_switch a) r'"
  shows "no_new_authorization (ap_kill_switch a)
    (ap_kill_switch (fst (try_st (change_runtime f a) (\<lambda>a _. kill_switch_status_payload sh iso8601 now a))))"
proof (cases "f (ap_kill_switch a)")
  case (Inr r')
  show ?thesis
    using no_new_trans [OF assms [OF Inr], of "ap_kill_switch (fst (kill_switch_status_payload sh iso8601 now (a\<lparr>ap_kill_switch := r'\<rparr>)))"]
      status_no_new [of "a\<lparr>ap_kill_switch := r'\<rparr>"]
    by (simp add: change_runtime_def try_st_def try_in_def Inr)
qed (simp add: change_runtime_def try_st_def try_in_def)

lemma no_new_frame: "ap_kill_switch b = ap_kill_switch a \<Longrightarrow> no_new_authorization (ap_kill_switch a) (ap_kill_switch b)"
  by simp

lemma access_frame [simp]:
  "ap_kill_switch (fst (validate_stored_remote_password sh u salt pw a)) = ap_kill_switch a"
  "ap_kill_switch (fst (validate_credentials sh u salt now failed su key token addr a)) = ap_kill_switch a"
proof -
  show pw: "ap_kill_switch (fst (validate_stored_remote_password sh u salt pw a)) = ap_kill_switch a" for a pw
    unfolding validate_stored_remote_password_def load_stored_remote_password_def
    by (auto intro!: try_st_frame [where p = ap_kill_switch] try_in_frame [where p = ap_kill_switch] split: option.split)
  show "ap_kill_switch (fst (validate_credentials sh u salt now failed su key token addr a)) = ap_kill_switch a"
    unfolding validate_credentials_def Let_def
    by (auto intro!: try_st_frame [where p = ap_kill_switch] simp: pw)
qed

lemma detail_frame [simp]: "fst (http_auth_failure_detail sh addr a) = a"
  by (cases rule: load_secret_cases [of sh REMOTE_ACCESS_PASSWORD_SETTINGS a])
    (auto simp: http_auth_failure_detail_def remote_password_configured_def load_stored_remote_password_def
      try_st_def Let_def)

lemma http_frame [simp]:
  "ap_kill_switch (fst (require_http_auth sh u salt now failed exempt headers addr a)) = ap_kill_switch a"
proof -
  obtain b r where v: "validate_http_headers sh u salt now failed headers addr a = (b, r)" by fastforce
  then have "ap_kill_switch b = ap_kill_switch a"
    using access_frame(2) by (metis fst_conv validate_http_headers_def)
  moreover obtain r' where "http_auth_failure_detail sh addr b = (b, r')"
    using detail_frame [of sh addr b] by (metis prod.collapse)
  ultimately show ?thesis
    by (auto simp: require_http_auth_def v split: sum.splits bool.splits)
qed

lemma config_frame [simp]:
  "ap_kill_switch (fst (write_config_file_for_setup dh p body a)) = ap_kill_switch a"
  "ap_kill_switch (fst (save_hub_name_to_config dh name a)) = ap_kill_switch a"
  "ap_kill_switch (fst (save_reticulum_config dh text a)) = ap_kill_switch a"
  by (auto simp: write_config_file_for_setup_def save_hub_name_to_config_def save_reticulum_config_def try_in_def
      split: option.split sum.split)

definition authorization :: "app_state \<Rightarrow> kill_switch_mode \<times> int option" where
  "authorization b = (ks_mode (ap_kill_switch b), ks_authorized_at_ts_ms (ap_kill_switch b))"

lemma authorization_ops [simp]:
  "authorization (fst (load_secret sh ss a)) = authorization a"
  "authorization (fst (save_hub_name_to_config dh name a)) = authorization a"
  "authorization (fst (save_reticulum_config dh text a)) = authorization a"
  "authorization (fst (with_required_core_store_write f a)) = authorization a"
  "authorization (fst (save_remote_access_password_with_created_at sh u salt pw t a)) = authorization a"
  "authorization (fst (save_kill_switch_pin sh u salt now pin a)) = authorization a"
  "authorization (a\<lparr>ap_kill_switch := (ap_kill_switch a)\<lparr>ks_initial_pin_reveal := None, ks_message := m,
      ks_updated_at_ts_ms := now\<rparr>\<rparr>) = authorization a"
  by (simp_all add: authorization_def)

lemma setup_no_new: "no_new_authorization (ap_kill_switch a) (ap_kill_switch (fst (first_run_setup_complete sh dh u salt clock payload a)))"
proof -
  have "authorization (fst (first_run_setup_complete sh dh u salt clock payload a)) = authorization a"
    unfolding first_run_setup_complete_def load_kill_switch_pin_def save_remote_access_password_def enroll_secrets_def
    by (auto intro!: try_st_frame [where p = authorization] try_in_frame [where p = authorization] split: prod.split)
  then show ?thesis by (simp add: no_new_authorization_def authorization_def)
qed

lemma worker_no_new: "no_new_authorization (ap_kill_switch a) (ap_kill_switch (run_kill_switch_purge_worker dh stopped now a))"
proof -
  let ?m = "try_in a stopped (\<lambda>_. try_st (with_required_core_store_write_unchecked wipe_database a) (\<lambda>a report.
            try_st (delete_kill_switch_artifacts dh a) (\<lambda>a artifacts. (a, Inr (report, artifacts)))))"
  have "ap_kill_switch (fst (delete_kill_switch_artifacts dh b)) = ap_kill_switch b" for b
    by (simp add: delete_kill_switch_artifacts_def Let_def split: prod.split)
  then have "ap_kill_switch (fst ?m) = ap_kill_switch a"
    by (auto intro!: try_st_frame [where p = ap_kill_switch] try_in_frame [where p = ap_kill_switch])
  then show ?thesis
    by (auto simp: run_kill_switch_purge_worker_def no_new_authorization_def completed_runtime_def failed_runtime_def
        Let_def split: prod.splits sum.splits)
qed

text \<open>An authorization is given by the PIN that is stored.\<close>

definition pin_accepted :: "secret_host \<Rightarrow> string \<Rightarrow> app_state \<Rightarrow> bool" where
  "pin_accepted sh pin a \<longleftrightarrow> well_formed_pin (trim pin)
     \<and> (\<exists>secret. load_kill_switch_pin sh a = (a, Inr (Some secret))
           \<and> verify_versioned_secret sh (sc_salt secret) (sc_hash secret) (trim pin) = Inr True)"

lemma authorize_call:
  "no_new_authorization (ap_kill_switch a) (ap_kill_switch (fst (kill_switch_authorize sh salt iso8601 clock addr pin a)))
   \<or> pin_accepted sh pin a
     \<and> ks_authorized_at_ts_ms (ap_kill_switch (fst (kill_switch_authorize sh salt iso8601 clock addr pin a))) \<in> {None, Some (clock 1)}
     \<and> ks_mode (ap_kill_switch (fst (kill_switch_authorize sh salt iso8601 clock addr pin a))) \<noteq> Deleting"
proof -
  obtain b r where c: "check_pin sh salt clock addr pin a = (b, r)" by fastforce
  then have b: "ap_kill_switch b = ap_kill_switch a" using check_pin_frame by (metis fst_conv)
  show ?thesis
  proof (cases "\<exists>r'. r = Inr () \<and> authorize_runtime (clock 1) (ap_kill_switch b) = Inr r'")
    case True
    then obtain r' where r': "r = Inr ()" "authorize_runtime (clock 1) (ap_kill_switch b) = Inr r'" by blast
    obtain secret where "load_kill_switch_pin sh a = (a, Inr (Some secret))"
      "verify_versioned_secret sh (sc_salt secret) (sc_hash secret) (trim pin) = Inr True" "well_formed_pin (trim pin)"
      using check_pin_accepts c r'(1) by blast
    then have "pin_accepted sh pin a" by (auto simp: pin_accepted_def)
    moreover have "no_new_authorization r'
        (ap_kill_switch (fst (kill_switch_authorize sh salt iso8601 clock addr pin a)))"
      using c r' status_no_new [of "b\<lparr>ap_kill_switch := r'\<rparr>" sh iso8601 "clock 2"]
      by (simp add: kill_switch_authorize_def change_runtime_def try_st_def try_in_def)
    moreover have "ks_authorized_at_ts_ms r' = Some (clock 1)" "ks_mode r' = Authorized"
      using r'(2) by (auto simp: authorize_runtime_def split: if_splits)
    ultimately show ?thesis by (auto simp: no_new_authorization_def)
  next
    case False
    then have "ap_kill_switch (fst (kill_switch_authorize sh salt iso8601 clock addr pin a)) = ap_kill_switch a"
      using b c by (cases r) (auto simp: kill_switch_authorize_def change_runtime_def try_st_def try_in_def split: sum.splits)
    then show ?thesis by simp
  qed
qed

lemma try_st_pair: "try_st (a, Inr x) k = k a x" "try_st (a, Inl e) k = (a, Inl e)"
  by (simp_all add: try_st_def)

lemma arm_no_new: "arm_runtime x y now r = Inr r' \<Longrightarrow> no_new_authorization r r'"
  unfolding arm_runtime_def
  by (cases "ks_mode r \<in> {Deleting, PurgeCompleted}"; cases "x \<and> y") (auto simp: no_new_authorization_def)

lemma arm_call: "no_new_authorization (ap_kill_switch a) (ap_kill_switch (fst (kill_switch_arm sh iso8601 clock x y a)))"
proof -
  obtain r where r: "require_kill_switch_pin sh a = (a, r)" using require_pin_state [of sh a] by (metis prod.collapse)
  show ?thesis
  proof (cases r)
    case (Inr s)
    show ?thesis
      by (simp only: kill_switch_arm_def r Inr try_st_pair) (rule change_then_status, rule arm_no_new)
  qed (simp only: kill_switch_arm_def r try_st_pair fst_conv no_new_refl)
qed

lemma purge_open:
  assumes "require_kill_switch_pin sh a = (a, Inr s)" "ap_store a = Some db" "ks_mode (ap_kill_switch a) \<notin> {Deleting, PurgeCompleted}"
  shows "kill_switch_purge sh iso8601 clock a
    = try_st (change_runtime (purge_runtime (database_wipe_preview db) (kill_switch_artifact_preview a) (clock 0)) a)
        (\<lambda>a _. kill_switch_status_payload sh iso8601 (clock 1) a)"
  using assms(3) by (simp only: kill_switch_purge_def assms(1,2) try_st_pair read_store option.case if_False)

lemma purge_shut:
  assumes "require_kill_switch_pin sh a = (a, r)" "\<not> (\<exists>s db. r = Inr s \<and> ap_store a = Some db \<and> ks_mode (ap_kill_switch a) \<notin> {Deleting, PurgeCompleted})"
  shows "fst (kill_switch_purge sh iso8601 clock a) = a"
proof (cases r)
  case (Inr s)
  with assms(2) consider "ks_mode (ap_kill_switch a) \<in> {Deleting, PurgeCompleted}" | "ap_store a = None" by blast
  then show ?thesis
    by cases (simp_all only: kill_switch_purge_def assms(1) Inr try_st_pair read_store option.case if_True fst_conv
        simp_thms split: if_splits)
qed (simp only: kill_switch_purge_def assms(1) try_st_pair fst_conv)

lemma purge_call:
  "no_new_authorization (ap_kill_switch a) (ap_kill_switch (fst (kill_switch_purge sh iso8601 clock a)))
   \<or> ks_arm_a (ap_kill_switch a) \<and> ks_arm_b (ap_kill_switch a) \<and> kill_switch_auth_active (ap_kill_switch a) (clock 0)
     \<and> ks_authorized_at_ts_ms (ap_kill_switch (fst (kill_switch_purge sh iso8601 clock a)))
         \<in> {None, ks_authorized_at_ts_ms (ap_kill_switch a)}"
proof -
  obtain r where r: "require_kill_switch_pin sh a = (a, r)" using require_pin_state [of sh a] by (metis prod.collapse)
  show ?thesis
  proof (cases "\<exists>s db. r = Inr s \<and> ap_store a = Some db \<and> ks_mode (ap_kill_switch a) \<notin> {Deleting, PurgeCompleted}")
    case True
    then obtain s db where s: "r = Inr s" "ap_store a = Some db" "ks_mode (ap_kill_switch a) \<notin> {Deleting, PurgeCompleted}"
      by blast
    let ?f = "purge_runtime (database_wipe_preview db) (kill_switch_artifact_preview a) (clock 0)"
    have out: "kill_switch_purge sh iso8601 clock a
        = try_st (change_runtime ?f a) (\<lambda>a _. kill_switch_status_payload sh iso8601 (clock 1) a)"
      using purge_open r s by simp
    show ?thesis
    proof (cases "?f (ap_kill_switch a)")
      case (Inr r')
      then have new: "ks_arm_a (ap_kill_switch a)" "ks_arm_b (ap_kill_switch a)" "kill_switch_auth_active (ap_kill_switch a) (clock 0)"
          "ks_authorized_at_ts_ms r' = ks_authorized_at_ts_ms (ap_kill_switch a)"
        using s(3) by (auto simp: purge_runtime_def split: if_splits)
      have "ap_kill_switch (fst (kill_switch_purge sh iso8601 clock a))
          = ap_kill_switch (fst (kill_switch_status_payload sh iso8601 (clock 1) (a\<lparr>ap_kill_switch := r'\<rparr>)))"
        by (simp add: out change_runtime_def try_st_def try_in_def Inr)
      then show ?thesis
        using new status_no_new [of "a\<lparr>ap_kill_switch := r'\<rparr>" sh iso8601 "clock 1"] by (simp add: no_new_authorization_def)
    qed (simp add: out change_runtime_def try_st_def try_in_def)
  next
    case False
    with r have "fst (kill_switch_purge sh iso8601 clock a) = a" by (rule purge_shut)
    then show ?thesis by simp
  qed
qed

text \<open>What one request can do to the authorization, and when one starts a purge.\<close>

lemma call_authorization:
  "no_new_authorization (ap_kill_switch a) (ap_kill_switch (serve_call sh dh iso8601 c a))
   \<or> (\<exists>salt clock addr pin. c = AuthorizeCall salt clock addr pin \<and> pin_accepted sh pin a
        \<and> ks_authorized_at_ts_ms (ap_kill_switch (serve_call sh dh iso8601 c a)) \<in> {None, Some (clock 1)}
        \<and> ks_mode (ap_kill_switch (serve_call sh dh iso8601 c a)) \<noteq> Deleting)
   \<or> (\<exists>clock. c = PurgeCall clock \<and> ks_arm_a (ap_kill_switch a) \<and> ks_arm_b (ap_kill_switch a)
        \<and> kill_switch_auth_active (ap_kill_switch a) (clock 0)
        \<and> ks_authorized_at_ts_ms (ap_kill_switch (serve_call sh dh iso8601 c a))
            \<in> {None, ks_authorized_at_ts_ms (ap_kill_switch a)})"
proof (cases c)
  case (ArmCall clock x y)
  then show ?thesis using arm_call by simp
next
  case (AuthorizeCall salt clock addr pin)
  then show ?thesis using authorize_call [of a sh salt iso8601 clock addr pin] by simp
next
  case (PurgeCall clock)
  then show ?thesis using purge_call [of a sh iso8601 clock] by simp
next
  case (StatusCall clock)
  then show ?thesis using status_no_new by (simp add: kill_switch_status_def)
next
  case (WorkerCall stopped now)
  then show ?thesis using worker_no_new by simp
next
  case (SetupCall uuid salt clock payload)
  then show ?thesis using setup_no_new by simp
qed (simp_all add: validate_ws_credentials_def)

lemma authorization_was_given:
  assumes "ap_kill_switch a = default_kill_switch"
    and "ks_authorized_at_ts_ms (ap_kill_switch (serve_calls sh dh iso8601 calls a)) = Some t"
  shows "\<exists>before salt clock addr pin after. calls = before @ AuthorizeCall salt clock addr pin # after
    \<and> clock 1 = t \<and> pin_accepted sh pin (serve_calls sh dh iso8601 before a)"
  using assms(2)
proof (induction calls rule: rev_induct)
  case Nil
  then show ?case using assms(1) by (simp add: default_kill_switch_def)
next
  case (snoc c calls)
  let ?s = "serve_calls sh dh iso8601 calls a"
  show ?case
  proof (cases "ks_authorized_at_ts_ms (ap_kill_switch ?s) = Some t")
    case True
    from snoc.IH [OF this] obtain before salt clock addr pin after
      where "calls = before @ AuthorizeCall salt clock addr pin # after" "clock 1 = t"
        "pin_accepted sh pin (serve_calls sh dh iso8601 before a)" by blast
    then show ?thesis by (metis append.assoc append_Cons)
  next
    case False
    then obtain salt clock addr pin where "c = AuthorizeCall salt clock addr pin" "pin_accepted sh pin ?s" "clock 1 = t"
      using snoc.prems call_authorization [of ?s sh dh iso8601 c]
      by (auto simp: no_new_authorization_def simp del: serve_call.simps)
    then show ?thesis by blast
  qed
qed

lemma fresh_pin_for_purge:
  assumes "ap_kill_switch a = default_kill_switch"
    and "ks_mode (ap_kill_switch (serve_calls sh dh iso8601 calls a)) \<noteq> Deleting"
    and "ks_mode (ap_kill_switch (serve_calls sh dh iso8601 (calls @ [c]) a)) = Deleting"
  shows "\<exists>purge before salt clock addr pin after. c = PurgeCall purge
    \<and> calls = before @ AuthorizeCall salt clock addr pin # after
    \<and> pin_accepted sh pin (serve_calls sh dh iso8601 before a)
    \<and> sat_i64 (purge 0 - clock 1) \<le> 120000
    \<and> ks_arm_a (ap_kill_switch (serve_calls sh dh iso8601 calls a))
    \<and> ks_arm_b (ap_kill_switch (serve_calls sh dh iso8601 calls a))"
proof -
  let ?s = "serve_calls sh dh iso8601 calls a"
  obtain purge where purge: "c = PurgeCall purge" "ks_arm_a (ap_kill_switch ?s)" "ks_arm_b (ap_kill_switch ?s)"
      "kill_switch_auth_active (ap_kill_switch ?s) (purge 0)"
    using assms(2,3) call_authorization [of ?s sh dh iso8601 c]
    by (auto simp: no_new_authorization_def simp del: serve_call.simps)
  then obtain t where "ks_authorized_at_ts_ms (ap_kill_switch ?s) = Some t" "sat_i64 (purge 0 - t) \<le> 120000"
    by (auto simp: kill_switch_auth_active_def is_some_and_def KILL_SWITCH_AUTHORIZATION_TTL_MS_def split: option.splits)
  with authorization_was_given [OF assms(1)] purge show ?thesis by blast
qed

end
