(* ===== verification/Guess_Limit.thy ===== *)
theory Guess_Limit
  imports Kill_Switch_Rules
begin

text \<open>
  How often a client may guess the PIN of the kill switch: whatever other requests the server serves in
  between, its wrong guesses come in groups of five at most within five minutes, until one is right.
\<close>

subsection \<open>What leaves the failures of a client alone\<close>

definition window_of :: "string \<Rightarrow> app_state \<Rightarrow> auth_failure_window option" where
  "window_of key a = hm_get (ap_auth_throttle a) key"

lemma unchecked_throttle [simp]: "ap_auth_throttle (fst (with_required_core_store_write_unchecked f a)) = ap_auth_throttle a"
  by (simp add: with_required_core_store_write_unchecked_def split: option.split prod.split)

lemma throttle_same [simp]:
  "ap_auth_throttle (fst (load_secret sh ss a)) = ap_auth_throttle a"
  "ap_auth_throttle (fst (change_runtime f a)) = ap_auth_throttle a"
  "ap_auth_throttle (fst (save_kill_switch_pin_secret salt hash t a)) = ap_auth_throttle a"
  "ap_auth_throttle (fst (save_kill_switch_pin sh u salt now pin a)) = ap_auth_throttle a"
  "ap_auth_throttle (fst (save_remote_access_password_with_created_at sh u salt pw t a)) = ap_auth_throttle a"
  "ap_auth_throttle (fst (save_hub_name_to_config dh name a)) = ap_auth_throttle a"
  "ap_auth_throttle (fst (save_reticulum_config dh text a)) = ap_auth_throttle a"
  by (auto simp: change_runtime_def save_pin_defs write_config_file_for_setup_def save_hub_name_to_config_def
      save_reticulum_config_def Let_def split: option.split sum.split
      intro!: try_st_frame [where p = ap_auth_throttle] try_in_frame [where p = ap_auth_throttle])

lemma status_throttle [simp]: "ap_auth_throttle (fst (kill_switch_status_payload sh iso8601 now a)) = ap_auth_throttle a"
proof -
  have set: "ap_auth_throttle (a\<lparr>ap_kill_switch := r\<rparr>) = ap_auth_throttle a" for a r by simp
  show ?thesis
    unfolding kill_switch_status_payload_def load_kill_switch_pin_def Let_def
    by (auto intro!: try_st_frame [where p = ap_auth_throttle] split: option.split simp del: read_store)
qed

lemma purge_worker_throttle [simp]: "ap_auth_throttle (run_kill_switch_purge_worker dh stopped now a) = ap_auth_throttle a"
proof -
  let ?m = "try_in a stopped (\<lambda>_. try_st (with_required_core_store_write_unchecked wipe_database a) (\<lambda>a report.
            try_st (delete_kill_switch_artifacts dh a) (\<lambda>a artifacts. (a, Inr (report, artifacts)))))"
  have "ap_auth_throttle (fst (delete_kill_switch_artifacts dh b)) = ap_auth_throttle b" for b
    by (simp add: delete_kill_switch_artifacts_def Let_def split: prod.split)
  then have "ap_auth_throttle (fst ?m) = ap_auth_throttle a"
    by (auto intro!: try_st_frame [where p = ap_auth_throttle] try_in_frame [where p = ap_auth_throttle])
  moreover obtain b r where "?m = (b, r)" by fastforce
  ultimately show ?thesis by (simp add: run_kill_switch_purge_worker_def)
qed

lemma requests_throttle [simp]:
  "ap_auth_throttle (fst (kill_switch_arm sh iso8601 clock x y a)) = ap_auth_throttle a"
  "ap_auth_throttle (fst (kill_switch_purge sh iso8601 clock a)) = ap_auth_throttle a"
  "ap_auth_throttle (fst (first_run_setup_complete sh dh uuid salts clock payload a)) = ap_auth_throttle a"
proof -
  have pin: "ap_auth_throttle (fst (require_kill_switch_pin sh a)) = ap_auth_throttle a" by simp
  show "ap_auth_throttle (fst (kill_switch_arm sh iso8601 clock x y a)) = ap_auth_throttle a"
    unfolding kill_switch_arm_def by (intro try_st_frame [where p = ap_auth_throttle]) simp_all
  show "ap_auth_throttle (fst (kill_switch_purge sh iso8601 clock a)) = ap_auth_throttle a"
    unfolding kill_switch_purge_def by (intro try_st_frame [where p = ap_auth_throttle]) (simp_all del: read_store)
  show "ap_auth_throttle (fst (first_run_setup_complete sh dh uuid salts clock payload a)) = ap_auth_throttle a"
    unfolding first_run_setup_complete_def load_kill_switch_pin_def save_remote_access_password_def enroll_secrets_def
    by (auto intro!: try_st_frame [where p = ap_auth_throttle] try_in_frame [where p = ap_auth_throttle] split: prod.split)
qed

lemma other_window [simp]:
  assumes "auth_throttle_key su addr \<noteq> key"
  shows "window_of key (fst (ensure_auth_attempt_allowed su addr now a)) = window_of key a"
    "window_of key (fst (record_auth_failure su addr now a)) = window_of key a"
    "window_of key (clear_auth_failures su addr a) = window_of key a"
  using assms
  by (simp_all add: window_of_def ensure_auth_attempt_allowed_def record_auth_failure_def clear_auth_failures_def Let_def
      split: option.split)

lemma same_throttle_window: "ap_auth_throttle b = ap_auth_throttle a \<Longrightarrow> window_of key b = window_of key a"
  by (simp add: window_of_def)

lemma password_throttle [simp]: "ap_auth_throttle (fst (validate_stored_remote_password sh u salt pw a)) = ap_auth_throttle a"
  unfolding validate_stored_remote_password_def load_stored_remote_password_def
  by (auto intro!: try_st_frame [where p = ap_auth_throttle] try_in_frame [where p = ap_auth_throttle] split: option.split)

lemma password_window [simp]: "window_of key (fst (validate_stored_remote_password sh u salt pw a)) = window_of key a"
  by (rule same_throttle_window) simp

lemma credentials_window:
  assumes "auth_throttle_key su addr \<noteq> key"
  shows "window_of key (fst (validate_credentials sh u salt now failed su api_key token addr a)) = window_of key a"
  unfolding validate_credentials_def Let_def
  using assms by (auto intro!: try_st_frame [where p = "window_of key"])

lemma surfaces [simp]:
  "auth_throttle_key ''http'' addr \<noteq> auth_throttle_key PIN_SURFACE addr'"
  "auth_throttle_key ''websocket'' addr \<noteq> auth_throttle_key PIN_SURFACE addr'"
  by (simp_all add: auth_throttle_key_def PIN_SURFACE_def)

lemma http_window:
  "window_of (auth_throttle_key PIN_SURFACE who) (fst (require_http_auth sh u salt now failed exempt headers addr a))
   = window_of (auth_throttle_key PIN_SURFACE who) a"
proof -
  obtain b r where v: "validate_http_headers sh u salt now failed headers addr a = (b, r)" by fastforce
  then have "window_of (auth_throttle_key PIN_SURFACE who) b = window_of (auth_throttle_key PIN_SURFACE who) a"
    using credentials_window [of "''http''" addr "auth_throttle_key PIN_SURFACE who"]
    by (metis fst_conv surfaces(1) validate_http_headers_def)
  moreover obtain r' where "http_auth_failure_detail sh addr b = (b, r')"
    using detail_frame [of sh addr b] by (metis prod.collapse)
  ultimately show ?thesis
    by (auto simp: require_http_auth_def v split: sum.splits bool.splits)
qed

subsection \<open>Guesses\<close>

text \<open>A wrong guess is a PIN that is no PIN, or not the one that is stored.\<close>

definition wrong_guess :: "secret_host \<Rightarrow> string \<Rightarrow> app_state \<Rightarrow> bool" where
  "wrong_guess sh pin a \<longleftrightarrow> \<not> well_formed_pin (trim pin)
     \<or> (case snd (load_kill_switch_pin sh a) of
          Inr (Some secret) \<Rightarrow> verify_versioned_secret sh (sc_salt secret) (sc_hash secret) (trim pin) = Inr False
        | _ \<Rightarrow> False)"

definition attempt_allowed :: "socket_addr option \<Rightarrow> int \<Rightarrow> app_state \<Rightarrow> bool" where
  "attempt_allowed addr now a \<longleftrightarrow> snd (ensure_auth_attempt_allowed PIN_SURFACE addr now a) = Inr ()"

lemma attempt_cases:
  obtains "\<not> attempt_allowed addr now a" "ensure_auth_attempt_allowed PIN_SURFACE addr now a = (a, Inl rate_limit_error)"
  | b where "attempt_allowed addr now a" "ensure_auth_attempt_allowed PIN_SURFACE addr now a = (b, Inr ())"
      "ap_store b = ap_store a" "ap_kill_switch b = ap_kill_switch a"
proof -
  obtain b r where e: "ensure_auth_attempt_allowed PIN_SURFACE addr now a = (b, r)" by fastforce
  then have "ap_store b = ap_store a" "ap_kill_switch b = ap_kill_switch a"
    using throttle_frame(1,4) [of PIN_SURFACE addr now a] by simp_all
  moreover have "b = a \<and> r = Inl rate_limit_error \<or> r = Inr ()"
    using e by (auto simp: ensure_auth_attempt_allowed_def Let_def split: option.splits if_splits)
  ultimately show ?thesis using that e by (auto simp: attempt_allowed_def)
qed

lemma same_secret:
  assumes "ap_store b = ap_store a" "ap_kill_switch b = ap_kill_switch a"
  shows "snd (load_kill_switch_pin sh b) = snd (load_kill_switch_pin sh a)"
  using assms by (simp add: load_kill_switch_pin_def load_secret_def try_st_def split: option.split)

lemma wrong_guess_recorded:
  assumes "ensure_auth_attempt_allowed PIN_SURFACE addr (clock 0) a = (b, Inr ())"
    and "ap_store b = ap_store a" "ap_kill_switch b = ap_kill_switch a" and "wrong_guess sh pin a"
  shows "fst (check_pin sh salt clock addr pin a) = fst (record_auth_failure PIN_SURFACE addr (clock 1) b)"
proof (cases "well_formed_pin (trim pin)")
  case False
  then show ?thesis by (simp add: check_pin_def assms(1) try_st_def Let_def split: prod.split sum.split)
next
  case True
  then obtain secret where s: "snd (load_kill_switch_pin sh a) = Inr (Some secret)"
      "verify_versioned_secret sh (sc_salt secret) (sc_hash secret) (trim pin) = Inr False"
    using assms(4) by (auto simp: wrong_guess_def split: sum.splits option.splits)
  then have "load_kill_switch_pin sh b = (b, Inr (Some secret))"
    using same_secret [OF assms(2,3), of sh] load_secret_state [of sh KILL_SWITCH_PIN_SETTINGS b]
    by (simp add: load_kill_switch_pin_def prod_eq_iff)
  then have "require_kill_switch_pin sh b = (b, Inr secret)"
    by (simp add: require_kill_switch_pin_def try_st_def ok_or_def)
  then show ?thesis
    using True s(2) by (simp add: check_pin_def assms(1) try_st_def try_in_def Let_def split: prod.split sum.split)
qed

lemma no_guess_forgets:
  assumes "ensure_auth_attempt_allowed PIN_SURFACE addr (clock 0) a = (b, Inr ())"
    and "ap_store b = ap_store a" "ap_kill_switch b = ap_kill_switch a"
    and "\<not> wrong_guess sh pin a" "\<not> pin_accepted sh pin a"
  shows "fst (check_pin sh salt clock addr pin a) = b"
proof -
  have pin: "well_formed_pin (trim pin)" using assms(4) by (simp add: wrong_guess_def)
  obtain r where r: "require_kill_switch_pin sh b = (b, r)" using require_pin_state [of sh b] by (metis prod.collapse)
  show ?thesis
  proof (cases r)
    case (Inr secret)
    then have s: "snd (load_kill_switch_pin sh a) = Inr (Some secret)"
      using require_pin_secret [of sh b secret] r same_secret [OF assms(2,3), of sh] by simp
    then have "load_kill_switch_pin sh a = (a, Inr (Some secret))"
      using load_secret_state [of sh KILL_SWITCH_PIN_SETTINGS a] by (simp add: load_kill_switch_pin_def prod_eq_iff)
    then obtain err where "verify_versioned_secret sh (sc_salt secret) (sc_hash secret) (trim pin) = Inl err"
      using assms(4,5) pin s
      by (cases "verify_versioned_secret sh (sc_salt secret) (sc_hash secret) (trim pin)")
        (auto simp: wrong_guess_def pin_accepted_def)
    then show ?thesis using pin r Inr by (simp add: check_pin_def assms(1) try_st_def try_in_def Let_def)
  qed (use pin r in \<open>simp add: check_pin_def assms(1) try_st_def Let_def\<close>)
qed

lemma authorize_throttle [simp]:
  "ap_auth_throttle (fst (kill_switch_authorize sh salt iso8601 clock addr pin a))
   = ap_auth_throttle (fst (check_pin sh salt clock addr pin a))"
  unfolding kill_switch_authorize_def
  by (intro try_st_frame [where p = ap_auth_throttle]) simp_all

subsection \<open>The failures kept for a client are its recent wrong guesses\<close>

definition spaced :: "int list \<Rightarrow> bool" where
  "spaced gs \<longleftrightarrow> (\<forall>i. i + 5 < length gs \<longrightarrow> gs ! i + 300000 \<le> gs ! (i + 5))"

definition sane_time :: "int \<Rightarrow> bool" where
  "sane_time t \<longleftrightarrow> 0 \<le> t \<and> t \<le> 2 ^ 53"

definition rested :: "int list \<Rightarrow> int \<Rightarrow> bool" where
  "rested gs now \<longleftrightarrow> (5 \<le> length gs \<longrightarrow> gs ! (length gs - 5) + 300000 \<le> now)"

definition tracks :: "int list \<Rightarrow> auth_failure_window option \<Rightarrow> int \<Rightarrow> bool" where
  "tracks gs w now \<longleftrightarrow> sorted gs \<and> (\<forall>g\<in>set gs. sane_time g \<and> g \<le> now) \<and> spaced gs
     \<and> (case w of None \<Rightarrow> gs = []
        | Some w \<Rightarrow> (\<exists>c. c + 300000 \<le> now \<and> fw_failures w = filter (\<lambda>g. c \<le> g) gs)
            \<and> (rested gs now \<or> (\<exists>u. fw_locked_until_ts_ms w = Some u \<and> rested gs u)))"

lemma rested_mono: "rested gs now \<Longrightarrow> now \<le> later \<Longrightarrow> rested gs later"
  by (auto simp: rested_def)

lemma tracks_later: "tracks gs w now \<Longrightarrow> now \<le> later \<Longrightarrow> tracks gs w later"
  by (cases w) (auto simp: tracks_def intro: rested_mono order_trans)

lemma sat_sane: "sane_time a \<Longrightarrow> sane_time b \<Longrightarrow> sat_i64 (a - b) = a - b" "sane_time a \<Longrightarrow> sat_i64 (a + 300000) = a + 300000"
  by (simp_all add: sane_time_def sat_i64_def i64_min_def i64_max_def)

lemma recent_sane:
  assumes "sane_time now" "\<forall>f\<in>set fs. sane_time f"
  shows "recent_failures now fs = filter (\<lambda>f. now - 300000 \<le> f) fs"
  unfolding recent_failures_def
  by (rule filter_cong) (use assms in \<open>auto simp: sat_sane AUTH_FAILURE_WINDOW_MS_def\<close>)

lemma recent_of_tracked:
  assumes "sane_time now" "\<forall>g\<in>set gs. sane_time g" "c + 300000 \<le> now"
  shows "recent_failures now (filter (\<lambda>g. c \<le> g) gs) = filter (\<lambda>g. now - 300000 \<le> g) gs"
  using assms by (subst recent_sane) (auto intro!: filter_cong)

lemma tracks_ensure:
  assumes tracked: "tracks gs (window_of (auth_throttle_key su addr) a) now0" and "now0 \<le> now" "sane_time now"
    and run: "ensure_auth_attempt_allowed su addr now a = (b, Inr ())"
  shows "tracks gs (window_of (auth_throttle_key su addr) b) now \<and> rested gs now"
proof (cases "window_of (auth_throttle_key su addr) a")
  case None
  with tracked have "gs = []" by (simp add: tracks_def)
  moreover have "b = a" using run None by (simp add: ensure_auth_attempt_allowed_def window_of_def Let_def)
  ultimately show ?thesis using None by (simp add: tracks_def spaced_def rested_def)
next
  case (Some w)
  from tracks_later [OF tracked assms(2)] Some have t: "tracks gs (Some w) now" by simp
  have free: "\<not> is_some_and (fw_locked_until_ts_ms w) (\<lambda>until. until > now)"
    using run Some by (auto simp: ensure_auth_attempt_allowed_def window_of_def Let_def split: if_splits)
  have w: "window_of (auth_throttle_key su addr) b
      = Some \<lparr>fw_failures = recent_failures now (fw_failures w), fw_locked_until_ts_ms = None\<rparr>"
    using run Some free by (auto simp: ensure_auth_attempt_allowed_def window_of_def Let_def)
  have "rested gs now"
    using t free by (auto simp: tracks_def is_some_and_def intro: rested_mono split: option.splits)
  moreover obtain c where "c + 300000 \<le> now" "fw_failures w = filter (\<lambda>g. c \<le> g) gs" "\<forall>g\<in>set gs. sane_time g"
    using t by (auto simp: tracks_def)
  then have "recent_failures now (fw_failures w) = filter (\<lambda>g. now - 300000 \<le> g) gs"
    using recent_of_tracked assms(3) by simp
  ultimately show ?thesis
    using t by (simp add: tracks_def w) (rule exI [of _ "now - 300000"], simp)
qed

lemma fifth_last_is_old:
  fixes gs :: "int list"
  assumes "sorted gs" "5 \<le> length gs" "length (filter (\<lambda>g. c \<le> g) gs) < 5"
  shows "gs ! (length gs - 5) < c"
proof (rule ccontr)
  assume "\<not> ?thesis"
  then have last: "c \<le> gs ! (length gs - 5)" by simp
  let ?r = "drop (length gs - 5) gs"
  have "c \<le> g" if member: "g \<in> set ?r" for g
  proof -
    obtain i where i: "i < length ?r" "?r ! i = g" using member unfolding in_set_conv_nth by blast
    then have "g = gs ! (length gs - 5 + i)" "length gs - 5 + i < length gs" by auto
    then show ?thesis using last sorted_nth_mono [OF assms(1), of "length gs - 5" "length gs - 5 + i"] by simp
  qed
  then have "filter (\<lambda>g. c \<le> g) ?r = ?r" by simp
  then have "length (filter (\<lambda>g. c \<le> g) (take (length gs - 5) gs @ ?r)) \<ge> length ?r" by (simp del: append_take_drop_id)
  then show False using assms(2,3) by simp
qed

lemma spaced_snoc: "spaced gs \<Longrightarrow> rested gs now \<Longrightarrow> spaced (gs @ [now])"
proof -
  assume s: "spaced gs" and r: "rested gs now"
  have "(gs @ [now]) ! i + 300000 \<le> (gs @ [now]) ! (i + 5)" if "i + 5 < length (gs @ [now])" for i
  proof (cases "i + 5 < length gs")
    case False
    then have "i = length gs - 5" "i + 5 = length gs" "5 \<le> length gs" using that by auto
    then show ?thesis using r by (simp add: rested_def nth_append)
  qed (use s in \<open>simp add: spaced_def nth_append\<close>)
  then show ?thesis by (simp add: spaced_def)
qed

lemma tracks_record:
  assumes tracked: "tracks gs (window_of (auth_throttle_key su addr) b) now" and r: "rested gs now"
    and time: "now \<le> later" "sane_time later"
  shows "tracks (gs @ [later]) (window_of (auth_throttle_key su addr) (fst (record_auth_failure su addr later b))) later"
proof -
  let ?w = "unwrap_or (window_of (auth_throttle_key su addr) b) \<lparr>fw_failures = [], fw_locked_until_ts_ms = None\<rparr>"
  let ?gs = "gs @ [later]"
  have gs: "sorted gs" "\<forall>g\<in>set gs. sane_time g \<and> g \<le> later" "spaced gs"
    using tracked time by (auto simp: tracks_def)
  have fs: "\<exists>c. c + 300000 \<le> later \<and> fw_failures ?w = filter (\<lambda>g. c \<le> g) gs"
  proof (cases "window_of (auth_throttle_key su addr) b")
    case None
    with tracked have "gs = []" by (simp add: tracks_def)
    with None show ?thesis by (intro exI [of _ "later - 300000"]) (simp add: unwrap_or_def)
  next
    case (Some w)
    with tracked obtain c where "c + 300000 \<le> now" "fw_failures w = filter (\<lambda>g. c \<le> g) gs" by (auto simp: tracks_def)
    with Some time show ?thesis by (intro exI [of _ c]) (simp add: unwrap_or_def)
  qed
  then have recent: "recent_failures later (fw_failures ?w) @ [later] = filter (\<lambda>g. later - 300000 \<le> g) ?gs"
    using recent_of_tracked [OF time(2)] gs(2) by auto
  have window: "window_of (auth_throttle_key su addr) (fst (record_auth_failure su addr later b))
      = Some \<lparr>fw_failures = filter (\<lambda>g. later - 300000 \<le> g) ?gs, fw_locked_until_ts_ms =
          if length (filter (\<lambda>g. later - 300000 \<le> g) ?gs) \<ge> 5 then Some (later + 300000) else fw_locked_until_ts_ms ?w\<rparr>"
    using sat_sane(2) [OF time(2)] recent
    by (auto simp: record_auth_failure_def window_of_def Let_def AUTH_FAILURE_LIMIT_def AUTH_LOCKOUT_MS_def
        intro!: auth_failure_window.equality)
  have sorted: "sorted ?gs" using gs by (simp add: sorted_append)
  have "rested ?gs later \<or> (length (filter (\<lambda>g. later - 300000 \<le> g) ?gs) \<ge> 5 \<and> rested ?gs (later + 300000))"
  proof (cases "5 \<le> length ?gs \<and> 5 \<le> length (filter (\<lambda>g. later - 300000 \<le> g) ?gs)")
    case True
    moreover have "?gs ! (length ?gs - 5) \<in> set ?gs" using True by (intro nth_mem) auto
    then have "?gs ! (length ?gs - 5) \<le> later" using gs(2) by auto
    ultimately show ?thesis by (simp add: rested_def)
  next
    case False
    then show ?thesis
      using fifth_last_is_old [OF sorted, of "later - 300000"] by (fastforce simp: rested_def)
  qed
  then show ?thesis
    using gs time(2) sorted spaced_snoc [OF gs(3) rested_mono [OF r time(1)]]
    by (auto simp: tracks_def window intro!: exI [of _ "later - 300000"])
qed

subsection \<open>Runs\<close>

text \<open>What happens in a run: the wrong guesses of a client, with their times, and its right ones.\<close>

definition guess_of :: "secret_host \<Rightarrow> string \<Rightarrow> hub_call \<Rightarrow> app_state \<Rightarrow> int list" where
  "guess_of sh client c a =
     (case c of
        AuthorizeCall salt clock addr pin \<Rightarrow>
          if auth_throttle_key PIN_SURFACE addr = client \<and> attempt_allowed addr (clock 0) a \<and> wrong_guess sh pin a
          then [clock 1] else []
      | _ \<Rightarrow> [])"

definition hit_of :: "secret_host \<Rightarrow> string \<Rightarrow> hub_call \<Rightarrow> app_state \<Rightarrow> int list" where
  "hit_of sh client c a =
     (case c of
        AuthorizeCall salt clock addr pin \<Rightarrow>
          if auth_throttle_key PIN_SURFACE addr = client \<and> attempt_allowed addr (clock 0) a \<and> pin_accepted sh pin a
          then [clock 1] else []
      | _ \<Rightarrow> [])"

definition readings_of :: "string \<Rightarrow> hub_call \<Rightarrow> int list" where
  "readings_of client c =
     (case c of
        AuthorizeCall salt clock addr pin \<Rightarrow>
          if auth_throttle_key PIN_SURFACE addr = client then [clock 0, clock 1] else []
      | _ \<Rightarrow> [])"

definition readings :: "string \<Rightarrow> hub_call list \<Rightarrow> int list" where
  "readings client calls = concat (map (readings_of client) calls)"

lemma readings_simps [simp]: "readings client [] = []" "readings client (calls @ [c]) = readings client calls @ readings_of client c"
  by (simp_all add: readings_def)

fun log_of ::
  "(hub_call \<Rightarrow> app_state \<Rightarrow> int list) \<Rightarrow> secret_host \<Rightarrow> disk_host \<Rightarrow> (int \<Rightarrow> string) \<Rightarrow> hub_call list \<Rightarrow> app_state
     \<Rightarrow> int list" where
  "log_of f sh dh iso8601 [] a = []"
| "log_of f sh dh iso8601 (c # calls) a = f c a @ log_of f sh dh iso8601 calls (serve_call sh dh iso8601 c a)"

lemma log_of_snoc [simp]:
  "log_of f sh dh iso8601 (calls @ [c]) a = log_of f sh dh iso8601 calls a @ f c (serve_calls sh dh iso8601 calls a)"
  by (induction calls arbitrary: a) (simp_all add: serve_calls_def)

lemma other_call_window:
  assumes "readings_of (auth_throttle_key PIN_SURFACE who) c = []"
  shows "window_of (auth_throttle_key PIN_SURFACE who) (serve_call sh dh iso8601 c a)
    = window_of (auth_throttle_key PIN_SURFACE who) a"
proof (cases c)
  case (AuthorizeCall salt clock addr pin)
  then have other: "auth_throttle_key PIN_SURFACE addr \<noteq> auth_throttle_key PIN_SURFACE who"
    using assms by (auto simp: readings_of_def split: if_splits)
  have saved: "window_of key (fst (save_kill_switch_pin_secret salt hash t b)) = window_of key b" for key salt hash t b
    by (rule same_throttle_window) simp
  have "window_of (auth_throttle_key PIN_SURFACE who) (fst (check_pin sh salt clock addr pin a))
      = window_of (auth_throttle_key PIN_SURFACE who) a"
    unfolding check_pin_def Let_def using other
    by (auto intro!: try_st_frame [where p = "window_of (auth_throttle_key PIN_SURFACE who)"]
        try_in_frame [where p = "window_of (auth_throttle_key PIN_SURFACE who)"] simp: saved)
  then show ?thesis using AuthorizeCall by (simp add: window_of_def)
next
  case (WsCall u salt now failed api_key token addr)
  then show ?thesis
    by (simp add: validate_ws_credentials_def credentials_window)
next
  case (HttpCall u salt now failed exempt headers addr)
  then show ?thesis by (simp add: http_window)
qed (simp_all add: http_window same_throttle_window kill_switch_status_def window_of_def)

lemma authorize_tracks:
  assumes tracked: "tracks gs (window_of (auth_throttle_key PIN_SURFACE addr) a) now"
    and time: "now \<le> clock 0" "clock 0 \<le> clock 1" "sane_time (clock 0)" "sane_time (clock 1)"
    and no_hit: "\<not> (attempt_allowed addr (clock 0) a \<and> pin_accepted sh pin a)"
  shows "tracks (gs @ (if attempt_allowed addr (clock 0) a \<and> wrong_guess sh pin a then [clock 1] else []))
    (window_of (auth_throttle_key PIN_SURFACE addr) (fst (kill_switch_authorize sh salt iso8601 clock addr pin a))) (clock 1)"
proof (cases rule: attempt_cases [of addr "clock 0" a])
  case 1
  then have "fst (check_pin sh salt clock addr pin a) = a" by (simp add: check_pin_def try_st_def)
  then show ?thesis
    using 1 tracks_later [OF tracked, of "clock 1"] time by (simp add: window_of_def)
next
  case (2 b)
  note b = tracks_ensure [OF tracked time(1,3) 2(2)]
  show ?thesis
  proof (cases "wrong_guess sh pin a")
    case True
    then show ?thesis
      using 2 tracks_record [OF conjunct1 [OF b] conjunct2 [OF b] time(2,4)] wrong_guess_recorded [where clock = clock, OF 2(2,3,4)]
      by (simp add: window_of_def)
  next
    case False
    then have "fst (check_pin sh salt clock addr pin a) = b"
      using no_guess_forgets [where clock = clock, OF 2(2,3,4)] no_hit 2(1) by blast
    then show ?thesis
      using False tracks_later [OF conjunct1 [OF b] time(2)] by (simp add: window_of_def)
  qed
qed

lemma run_tracks:
  assumes "window_of (auth_throttle_key PIN_SURFACE who) a = None"
    and "sorted (readings (auth_throttle_key PIN_SURFACE who) calls)"
    and "\<forall>t\<in>set (readings (auth_throttle_key PIN_SURFACE who) calls). sane_time t"
    and "log_of (hit_of sh (auth_throttle_key PIN_SURFACE who)) sh dh iso8601 calls a = []"
  shows "tracks (log_of (guess_of sh (auth_throttle_key PIN_SURFACE who)) sh dh iso8601 calls a)
     (window_of (auth_throttle_key PIN_SURFACE who) (serve_calls sh dh iso8601 calls a))
     (if readings (auth_throttle_key PIN_SURFACE who) calls = [] then 0
      else last (readings (auth_throttle_key PIN_SURFACE who) calls))"
  using assms(2-4)
proof (induction calls rule: rev_induct)
  case Nil
  then show ?case using assms(1) by (simp add: tracks_def spaced_def)
next
  case (snoc c calls)
  let ?k = "auth_throttle_key PIN_SURFACE who"
  let ?s = "serve_calls sh dh iso8601 calls a"
  let ?gs = "log_of (guess_of sh ?k) sh dh iso8601 calls a"
  let ?r = "readings ?k calls"
  let ?now = "if ?r = [] then 0 else last ?r"
  have tracked: "tracks ?gs (window_of ?k ?s) ?now"
    using snoc.IH snoc.prems by (simp add: sorted_append)
  show ?case
  proof (cases "readings_of ?k c = []")
    case True
    then have "guess_of sh ?k c ?s = []" by (auto simp: readings_of_def guess_of_def split: hub_call.splits if_splits)
    then show ?thesis using tracked other_call_window [OF True] by (simp add: True split del: if_split cong: if_cong)
  next
    case False
    then obtain salt clock addr pin where c: "c = AuthorizeCall salt clock addr pin" "auth_throttle_key PIN_SURFACE addr = ?k"
      by (auto simp: readings_of_def split: hub_call.splits if_splits)
    then have reads: "readings_of ?k c = [clock 0, clock 1]" by (simp add: readings_of_def)
    have "sorted (?r @ [clock 0, clock 1])" using snoc.prems(1) reads by simp
    then have order: "clock 0 \<le> clock 1" "\<forall>t\<in>set ?r. t \<le> clock 0" by (auto simp: sorted_append)
    have sane: "sane_time (clock 0)" "sane_time (clock 1)" using snoc.prems(2) reads by auto
    have "?now \<le> clock 0" using order(2) sane(1) by (cases "?r = []") (auto simp: sane_time_def)
    moreover have "\<not> (attempt_allowed addr (clock 0) ?s \<and> pin_accepted sh pin ?s)"
      using snoc.prems(3) c by (auto simp: hit_of_def split: if_splits)
    ultimately have "tracks (?gs @ (if attempt_allowed addr (clock 0) ?s \<and> wrong_guess sh pin ?s then [clock 1] else []))
        (window_of ?k (fst (kill_switch_authorize sh salt iso8601 clock addr pin ?s))) (clock 1)"
      using authorize_tracks [of ?gs addr ?s ?now clock sh pin salt iso8601] tracked c(2) order(1) sane by simp
    moreover have "guess_of sh ?k c ?s = (if attempt_allowed addr (clock 0) ?s \<and> wrong_guess sh pin ?s then [clock 1] else [])"
      "serve_call sh dh iso8601 c ?s = fst (kill_switch_authorize sh salt iso8601 clock addr pin ?s)"
      using c by (simp_all add: guess_of_def)
    ultimately show ?thesis by (simp add: reads split del: if_split)
  qed
qed

lemma guesses_spaced:
  assumes "window_of (auth_throttle_key PIN_SURFACE who) a = None"
    and "sorted (readings (auth_throttle_key PIN_SURFACE who) calls)"
    and "\<forall>t\<in>set (readings (auth_throttle_key PIN_SURFACE who) calls). sane_time t"
    and "log_of (hit_of sh (auth_throttle_key PIN_SURFACE who)) sh dh iso8601 calls a = []"
  shows "spaced (log_of (guess_of sh (auth_throttle_key PIN_SURFACE who)) sh dh iso8601 calls a)"
  using run_tracks [OF assms] by (simp add: tracks_def)

end
