(* ===== verification/Access_Rules.thy ===== *)
theory Access_Rules
  imports Kill_Switch_Rules Sqlite_Rules
begin

text \<open>
  Who gets in, what the first-run setup leaves, and what a purge does.
\<close>

subsection \<open>Credentials\<close>

definition locked_out :: "string \<Rightarrow> socket_addr option \<Rightarrow> int \<Rightarrow> app_state \<Rightarrow> bool" where
  "locked_out surface addr now a \<longleftrightarrow>
     is_some_and (Option.bind (hm_get (ap_auth_throttle a) (auth_throttle_key surface addr)) fw_locked_until_ts_ms)
       (\<lambda>until. until > now)"

text \<open>A password that is stored in the old way opens when its new hash can be made.\<close>

definition password_opens :: "secret_host \<Rightarrow> string \<Rightarrow> string option \<Rightarrow> app_state \<Rightarrow> bool" where
  "password_opens sh drawn_salt supplied a \<longleftrightarrow>
     (\<exists>pw secret. map_option trim supplied = Some pw \<and> pw \<noteq> []
        \<and> load_stored_remote_password sh a = (a, Inr (Some secret))
        \<and> (if is_argon2id_phc (sc_hash secret) then sh_argon2_verify sh (sc_hash secret) pw = Inr True
           else password_hash sh (sc_salt secret) pw = sc_hash secret
             \<and> (\<exists>hash. sh_argon2_hash sh drawn_salt pw = Inr hash)))"

lemma verify_True:
  "verify_versioned_secret sh salt hash v = Inr True \<longleftrightarrow>
    (if is_argon2id_phc hash then sh_argon2_verify sh hash v = Inr True else password_hash sh salt v = hash)"
  by (auto simp: verify_versioned_secret_def secure_string_eq_iff split: sum.splits)

lemma loaded_unlocked:
  assumes "load_secret sh ss a = (a, Inr secret)"
  shows "ks_mode (ap_kill_switch a) \<notin> {Deleting, PurgeCompleted}" "\<exists>db. ap_store a = Some db"
  using assms by (auto simp: load_secret_def try_st_def split: if_splits option.splits)

lemma write_succeeds:
  assumes "ks_mode (ap_kill_switch a) \<notin> {Deleting, PurgeCompleted}" "ap_store a = Some db"
  shows "with_required_core_store_write f a = (a\<lparr>ap_store := Some (fst (f db))\<rparr>, Inr (snd (f db)))"
  using assms by (simp add: with_required_core_store_write_def with_required_core_store_write_unchecked_def
      ensure_kill_switch_persistence_unlocked_def try_in_def split: prod.split)

lemma save_secret_succeeds:
  assumes "ks_mode (ap_kill_switch a) \<notin> {Deleting, PurgeCompleted}" "ap_store a = Some db"
  shows "snd (save_secret ss secret a) = Inr ()"
  by (simp only: save_secret_def write_succeeds [OF assms] snd_conv)

lemma password_valid:
  "snd (validate_stored_remote_password sh u drawn_salt supplied a) = Inr True \<longleftrightarrow> password_opens sh drawn_salt supplied a"
proof (cases "filter_opt (\<lambda>v. v \<noteq> []) (map_option trim supplied)")
  case None
  then show ?thesis
    by (auto simp: validate_stored_remote_password_def password_opens_def filter_opt_def split: option.splits if_splits)
next
  case (Some pw)
  then have pw: "map_option trim supplied = Some pw" "pw \<noteq> []" by (auto simp: filter_opt_def split: option.splits if_splits)
  note unfold = validate_stored_remote_password_def load_stored_remote_password_def password_opens_def Some option.case
  show ?thesis
  proof (cases rule: load_secret_cases [of sh REMOTE_ACCESS_PASSWORD_SETTINGS a])
    case (1 err)
    then show ?thesis by (simp add: unfold try_st_def)
  next
    case (2 secret)
    show ?thesis
    proof (cases secret)
      case None
      then show ?thesis using 2 by (simp add: unfold try_st_def)
    next
      case (Some s)
      obtain db where store: "ap_store a = Some db" using loaded_unlocked(2) [OF 2] by blast
      have unlocked: "ks_mode (ap_kill_switch a) \<notin> {Deleting, PurgeCompleted}" by (rule loaded_unlocked(1) [OF 2])
      have saved: "snd (save_remote_access_password_with_created_at sh u drawn_salt pw t a) = Inr x \<Longrightarrow>
          \<exists>hash. sh_argon2_hash sh drawn_salt pw = Inr hash"
        "sh_argon2_hash sh drawn_salt pw = Inr hash \<Longrightarrow>
          \<exists>x. snd (save_remote_access_password_with_created_at sh u drawn_salt pw t a) = Inr x" for t x hash
        using save_secret_succeeds [OF unlocked store]
        by (auto simp: save_remote_access_password_with_created_at_def argon2id_hash_def try_in_def try_st_def Let_def
            split: sum.splits prod.splits) (metis snd_conv sum.distinct(1))+
      have stored: "load_secret sh REMOTE_ACCESS_PASSWORD_SETTINGS a = (a, Inr (Some s))" using 2 Some by simp
      have "snd (validate_stored_remote_password sh u drawn_salt supplied a) = Inr True
          \<longleftrightarrow> verify_versioned_secret sh (sc_salt s) (sc_hash s) pw = Inr True
            \<and> (is_argon2id_phc (sc_hash s) \<or> (\<exists>x. snd (save_remote_access_password_with_created_at sh u drawn_salt pw (sc_created_at_ts_ms s) a) = Inr x))"
        using stored store
        by (auto simp: unfold try_st_def try_in_def split: sum.splits prod.splits if_splits)
      then show ?thesis
        using saved [where t = "sc_created_at_ts_ms s"] stored pw
        by (auto simp: password_opens_def load_stored_remote_password_def verify_True)
    qed
  qed
qed

lemma ensure_allows:
  "snd (ensure_auth_attempt_allowed su addr now a) = (if locked_out su addr now a then Inl rate_limit_error else Inr ())"
  by (auto simp: ensure_auth_attempt_allowed_def locked_out_def Let_def is_some_and_def split: option.splits)

lemma same_password:
  assumes "ap_store b = ap_store a" "ap_kill_switch b = ap_kill_switch a"
  shows "password_opens sh salt supplied b \<longleftrightarrow> password_opens sh salt supplied a"
proof -
  have "snd (load_stored_remote_password sh b) = snd (load_stored_remote_password sh a)"
    using assms by (simp add: load_stored_remote_password_def load_secret_def try_st_def split: option.split)
  moreover have "fst (load_stored_remote_password sh b) = b" "fst (load_stored_remote_password sh a) = a"
    by (simp_all add: load_stored_remote_password_def)
  ultimately have "load_stored_remote_password sh b = (b, r) \<longleftrightarrow> load_stored_remote_password sh a = (a, r)" for r
    by (metis prod.collapse fst_conv snd_conv)
  then show ?thesis by (simp add: password_opens_def)
qed

lemma credentials_accepted:
  "snd (validate_credentials sh u salt now failed su api_key token addr a) = Inr True \<longleftrightarrow>
     is_local_client_addr addr \<or> addr = None \<and> ap_api_key a = None
     \<or> \<not> locked_out su addr now a
       \<and> ((\<exists>key. ap_api_key a = Some key \<and> (api_key = Some key \<or> token = Some key))
          \<or> password_opens sh salt (or_else api_key token) a)"
proof (cases "is_local_client_addr addr \<or> addr = None \<and> ap_api_key a = None")
  case True
  then show ?thesis by (auto simp: validate_credentials_def)
next
  case remote: False
  obtain b r where e: "ensure_auth_attempt_allowed su addr now a = (b, r)" by fastforce
  then have b: "ap_store b = ap_store a" "ap_kill_switch b = ap_kill_switch a" "ap_api_key b = ap_api_key a"
    using throttle_frame(1,4,7) [of su addr now a] by simp_all
  have r: "r = (if locked_out su addr now a then Inl rate_limit_error else Inr ())"
    using ensure_allows [of su addr now a] e by simp
  show ?thesis
  proof (cases "locked_out su addr now a")
    case True
    then show ?thesis using remote e r by (simp add: validate_credentials_def try_st_def)
  next
    case False
    obtain c v where p: "validate_stored_remote_password sh u salt (or_else api_key token) b = (c, v)" by fastforce
    have v: "v = Inr True \<longleftrightarrow> password_opens sh salt (or_else api_key token) a"
      using password_valid [of sh u salt "or_else api_key token" b] p same_password [OF b(1,2)] by simp
    show ?thesis
      using remote e r False b(3) p v
      by (auto simp: validate_credentials_def try_st_def is_some_and_def Let_def split: option.splits sum.splits prod.splits if_splits)
  qed
qed

subsection \<open>The first-run setup\<close>

lemma digits_of_show: "digits_value (show_nat n) 0 = Some n \<and> show_nat n \<noteq> [] \<and> is_ascii_digit (hd (show_nat n))"
  using show_nat_digits [of n] show_nat_not_Nil [of n] by (intro conjI) (auto simp: list_all_iff)

lemma parse_show: "in_i64 t \<Longrightarrow> parse_i64 (show_int t) = Some t"
proof -
  assume t: "in_i64 t"
  have pos: "parse_i64 (show_nat n) = (if in_i64 (int n) then Some (int n) else None)" for n
  proof -
    obtain c r where c: "show_nat n = c # r" "is_ascii_digit c" using digits_of_show [of n] by (cases "show_nat n") auto
    then have "code c \<noteq> 45" "code c \<noteq> 43" by (auto simp: is_ascii_digit_def)
    then show ?thesis using digits_of_show [of n] c by (simp add: parse_i64_def)
  qed
  have minus: "code (CHR ''-'') = 45" by (simp add: code_def)
  show ?thesis
  proof (cases "t < 0")
    case True
    then show ?thesis using t digits_of_show [of "nat (- t)"] by (simp add: show_int_def parse_i64_def minus)
  qed (use t in \<open>simp add: show_int_def pos\<close>)
qed

lemma parse_stored:
  assumes "sc_salt secret \<noteq> []" "sc_hash secret \<noteq> []" "in_i64 (sc_created_at_ts_ms secret)"
  shows "parse_secret sh ss (Some (sc_salt secret)) (Some (sc_hash secret)) (Some (show_int (sc_created_at_ts_ms secret)))
    = Inr (Some secret)"
  using assms by (simp add: parse_secret_def parse_show)

text \<open>Hashes are in the format of Argon2id, and one is that of the value it was made of.\<close>

definition lawful_secrets :: "secret_host \<Rightarrow> bool" where
  "lawful_secrets sh \<longleftrightarrow> (\<forall>salt v hash. sh_argon2_hash sh salt v = Inr hash
     \<longrightarrow> is_argon2id_phc hash \<and> sh_argon2_verify sh hash v = Inr True)"

lemma phc_not_empty: "is_argon2id_phc hash \<Longrightarrow> hash \<noteq> []"
  by (auto simp: is_argon2id_phc_def starts_with_def)

definition put_secret :: "secret_settings \<Rightarrow> stored_secret \<Rightarrow> rch_database \<Rightarrow> rch_database" where
  "put_secret ss secret db = set_setting_value (ss_created_at ss) (show_int (sc_created_at_ts_ms secret))
     (set_setting_value (ss_hash ss) (sc_hash secret) (set_setting_value (ss_salt ss) (sc_salt secret) db))"

lemma save_secret_store:
  "save_secret ss secret a = with_required_core_store_write (\<lambda>db. (put_secret ss secret db, ())) a"
  by (simp add: save_secret_def put_secret_def)

definition setup_store :: "string \<Rightarrow> stored_secret \<Rightarrow> stored_secret \<Rightarrow> rch_database \<Rightarrow> rch_database" where
  "setup_store hub_name password pin db =
     put_secret KILL_SWITCH_PIN_SETTINGS pin (put_secret REMOTE_ACCESS_PASSWORD_SETTINGS password
       (set_setting_value ''hub_name'' hub_name db))"

lemma setup_settings:
  "setting_value ''hub_name'' (setup_store hub_name password pin db) = Some hub_name"
  "ks_mode (ap_kill_switch b) \<notin> {Deleting, PurgeCompleted} \<Longrightarrow> ap_store b = Some (setup_store hub_name password pin db)
   \<Longrightarrow> sc_salt pin \<noteq> [] \<Longrightarrow> sc_hash pin \<noteq> [] \<Longrightarrow> in_i64 (sc_created_at_ts_ms pin)
   \<Longrightarrow> load_kill_switch_pin sh b = (b, Inr (Some pin))"
  "ks_mode (ap_kill_switch b) \<notin> {Deleting, PurgeCompleted} \<Longrightarrow> ap_store b = Some (setup_store hub_name password pin db)
   \<Longrightarrow> sc_salt password \<noteq> [] \<Longrightarrow> sc_hash password \<noteq> [] \<Longrightarrow> in_i64 (sc_created_at_ts_ms password)
   \<Longrightarrow> load_stored_remote_password sh b = (b, Inr (Some password))"
  by (simp_all add: setup_store_def put_secret_def KILL_SWITCH_PIN_SETTINGS_def REMOTE_ACCESS_PASSWORD_SETTINGS_def
      load_kill_switch_pin_def load_stored_remote_password_def load_secret_def try_st_def
      parse_secret_def parse_show)

lemma setup_frame [simp]:
  "ap_store (fst (write_config_file_for_setup dh p body a)) = ap_store a"
  "ap_store (fst (save_hub_name_to_config dh name a)) = ap_store a"
  "ap_store (fst (save_reticulum_config dh text a)) = ap_store a"
  by (auto simp: write_config_file_for_setup_def save_hub_name_to_config_def save_reticulum_config_def try_in_def
      split: option.split sum.split)

lemma try_st_ok: "try_st m k = (b, Inr x) \<Longrightarrow> (\<And>a y. m = (a, Inr y) \<Longrightarrow> k a y = (b, Inr x) \<Longrightarrow> thesis) \<Longrightarrow> thesis"
  by (auto simp: try_st_def split: prod.splits sum.splits)

lemma try_in_ok: "try_in a r k = (b, Inr x) \<Longrightarrow> (\<And>y. r = Inr y \<Longrightarrow> k y = (b, Inr x) \<Longrightarrow> thesis) \<Longrightarrow> thesis"
  by (auto simp: try_in_def split: sum.splits)

lemma saved_secret:
  assumes "with_required_core_store_write f a = (b, Inr x)" "ap_store a = Some db"
  shows "ap_store b = Some (fst (f db))" "ap_kill_switch b = ap_kill_switch a"
    "ks_mode (ap_kill_switch a) \<notin> {Deleting, PurgeCompleted}"
  using assms
  by (auto simp: with_required_core_store_write_def with_required_core_store_write_unchecked_def
      ensure_kill_switch_persistence_unlocked_def try_in_def split: if_splits prod.splits)

lemma enrolled:
  assumes "enroll_secrets sh uuid salt clock hub pw pin a = (b, Inr ())" "ap_store a = Some db"
  obtains pw_hash pin_hash where
    "ap_store b = Some (setup_store hub \<lparr>sc_salt = uuid 0, sc_hash = pw_hash, sc_created_at_ts_ms = clock 0\<rparr>
       \<lparr>sc_salt = uuid 1, sc_hash = pin_hash, sc_created_at_ts_ms = clock 1\<rparr> db)"
    "sh_argon2_hash sh (salt 0) pw = Inr pw_hash" "sh_argon2_hash sh (salt 1) pin = Inr pin_hash"
    "ks_mode (ap_kill_switch b) \<notin> {Deleting, PurgeCompleted}"
proof -
  obtain a1 a2 a3 x y where steps: "with_required_core_store_write (\<lambda>db. (set_setting_value ''hub_name'' hub db, ())) a = (a1, Inr ())"
      "save_remote_access_password sh (uuid 0) (salt 0) pw (clock 0) a1 = (a2, Inr x)"
      "save_kill_switch_pin sh (uuid 1) (salt 1) (clock 1) pin a2 = (a3, Inr y)"
      "b = a3\<lparr>ap_kill_switch := (ap_kill_switch a3)\<lparr>ks_initial_pin_reveal := None,
            ks_message := ''Kill switch PIN enrolled by first-run setup.'', ks_updated_at_ts_ms := clock 2\<rparr>\<rparr>"
    using assms(1) unfolding enroll_secrets_def by (elim try_st_ok) auto
  note hub = saved_secret [OF steps(1) assms(2)]
  obtain pw_hash where pw: "sh_argon2_hash sh (salt 0) pw = Inr pw_hash"
    and w2: "with_required_core_store_write (\<lambda>db. (put_secret REMOTE_ACCESS_PASSWORD_SETTINGS
        \<lparr>sc_salt = uuid 0, sc_hash = pw_hash, sc_created_at_ts_ms = clock 0\<rparr> db, ())) a1 = (a2, Inr ())"
    using steps(2) unfolding save_pin_defs save_secret_store argon2id_hash_def Let_def
    by (elim try_in_ok try_st_ok) (auto split: sum.splits)
  note pw2 = saved_secret [OF w2 hub(1)]
  obtain pin_hash where pin: "sh_argon2_hash sh (salt 1) pin = Inr pin_hash"
    and w3: "with_required_core_store_write (\<lambda>db. (put_secret KILL_SWITCH_PIN_SETTINGS
        \<lparr>sc_salt = uuid 1, sc_hash = pin_hash, sc_created_at_ts_ms = clock 1\<rparr> db, ())) a2 = (a3, Inr ())"
    using steps(3) unfolding save_pin_defs save_secret_store argon2id_hash_def Let_def
    by (elim try_in_ok try_st_ok) (auto split: sum.splits)
  note pin2 = saved_secret [OF w3 pw2(1)]
  show thesis
    by (rule that [OF _ pw pin]) (use pin2 steps(4) in \<open>simp_all add: setup_store_def\<close>)
qed

lemma setup_result:
  assumes "first_run_setup_complete sh dh uuid salt clock payload a = (b, Inr ())"
  obtains db pw_hash pin_hash where
    "ap_store b = Some (setup_store (trim (sp_hub_name payload))
       \<lparr>sc_salt = uuid 0, sc_hash = pw_hash, sc_created_at_ts_ms = clock 0\<rparr>
       \<lparr>sc_salt = uuid 1, sc_hash = pin_hash, sc_created_at_ts_ms = clock 1\<rparr> db)"
    "sh_argon2_hash sh (salt 0) (trim (sp_remote_password payload)) = Inr pw_hash"
    "sh_argon2_hash sh (salt 1) (trim (sp_kill_switch_pin payload)) = Inr pin_hash"
    "ks_mode (ap_kill_switch b) \<notin> {Deleting, PurgeCompleted}"
    "well_formed_pin (trim (sp_kill_switch_pin payload))" "8 \<le> length (trim (sp_remote_password payload))"
proof -
  obtain a1 hub pw pin a2 a3 where steps: "load_kill_switch_pin sh a = (a1, Inr None)"
      "validate_setup dh payload a1 = Inr (hub, pw, pin)" "save_hub_name_to_config dh hub a1 = (a2, Inr ())"
      "save_reticulum_config dh (sp_reticulum_config_text payload) a2 = (a3, Inr ())"
      "enroll_secrets sh uuid salt clock hub pw pin a3 = (b, Inr ())"
    using assms unfolding first_run_setup_complete_def
    by (elim try_st_ok) (auto split: if_splits elim!: try_in_ok try_st_ok)
  have a1: "a1 = a" using steps(1) load_secret_state [of sh KILL_SWITCH_PIN_SETTINGS a] by (simp add: load_kill_switch_pin_def)
  then obtain db where db: "ap_store a1 = Some db"
    using loaded_unlocked(2) [of sh KILL_SWITCH_PIN_SETTINGS a None] steps(1) by (auto simp: load_kill_switch_pin_def)
  then have "ap_store a3 = Some db"
    using setup_frame(2) [of dh hub a1] setup_frame(3) [of dh "sp_reticulum_config_text payload" a2] steps(3,4) by simp
  from enrolled [OF steps(5) this] obtain pw_hash pin_hash where
    "ap_store b = Some (setup_store hub \<lparr>sc_salt = uuid 0, sc_hash = pw_hash, sc_created_at_ts_ms = clock 0\<rparr>
       \<lparr>sc_salt = uuid 1, sc_hash = pin_hash, sc_created_at_ts_ms = clock 1\<rparr> db)"
    "sh_argon2_hash sh (salt 0) pw = Inr pw_hash" "sh_argon2_hash sh (salt 1) pin = Inr pin_hash"
    "ks_mode (ap_kill_switch b) \<notin> {Deleting, PurgeCompleted}" by blast
  moreover have "hub = trim (sp_hub_name payload)" "pw = trim (sp_remote_password payload)" "pin = trim (sp_kill_switch_pin payload)"
      "well_formed_pin pin" "8 \<le> length pw"
    using steps(2) by (auto simp: validate_setup_def Let_def split: if_splits option.splits)
  ultimately show thesis using that by blast
qed

lemma setup_enrolled:
  assumes "lawful_secrets sh" and run: "first_run_setup_complete sh dh uuid salt clock payload a = (b, Inr ())"
    and drawn: "uuid 0 \<noteq> []" "uuid 1 \<noteq> []" "in_i64 (clock 0)" "in_i64 (clock 1)"
  shows "pin_accepted sh (sp_kill_switch_pin payload) b"
    and "password_opens sh drawn_salt (Some (sp_remote_password payload)) b"
    and "first_run_setup_complete sh dh' uuid' salt' clock' payload' b
      = (b, Inl (Conflict ''First-run setup has already enrolled a kill switch PIN''))"
    and "\<exists>db. ap_store b = Some db \<and> setting_value ''hub_name'' db = Some (trim (sp_hub_name payload))"
proof -
  obtain db pw_hash pin_hash where b: "ap_store b = Some (setup_store (trim (sp_hub_name payload))
       \<lparr>sc_salt = uuid 0, sc_hash = pw_hash, sc_created_at_ts_ms = clock 0\<rparr>
       \<lparr>sc_salt = uuid 1, sc_hash = pin_hash, sc_created_at_ts_ms = clock 1\<rparr> db)"
    and hash: "sh_argon2_hash sh (salt 0) (trim (sp_remote_password payload)) = Inr pw_hash"
      "sh_argon2_hash sh (salt 1) (trim (sp_kill_switch_pin payload)) = Inr pin_hash"
    and mode: "ks_mode (ap_kill_switch b) \<notin> {Deleting, PurgeCompleted}"
    and texts: "well_formed_pin (trim (sp_kill_switch_pin payload))" "8 \<le> length (trim (sp_remote_password payload))"
    by (rule setup_result [OF run])
  have phc: "is_argon2id_phc pw_hash" "sh_argon2_verify sh pw_hash (trim (sp_remote_password payload)) = Inr True"
      "is_argon2id_phc pin_hash" "sh_argon2_verify sh pin_hash (trim (sp_kill_switch_pin payload)) = Inr True"
    using assms(1) hash by (auto simp: lawful_secrets_def)
  note pin = setup_settings(2) [OF mode b, unfolded stored_secret.simps, OF drawn(2) phc_not_empty [OF phc(3)] drawn(4), of sh]
  note pw = setup_settings(3) [OF mode b, unfolded stored_secret.simps, OF drawn(1) phc_not_empty [OF phc(1)] drawn(3), of sh]
  show "pin_accepted sh (sp_kill_switch_pin payload) b"
    using pin phc texts by (auto simp: pin_accepted_def verify_True)
  show "password_opens sh drawn_salt (Some (sp_remote_password payload)) b"
    using pw phc texts by (auto simp: password_opens_def)
  show "first_run_setup_complete sh dh' uuid' salt' clock' payload' b
      = (b, Inl (Conflict ''First-run setup has already enrolled a kill switch PIN''))"
    by (simp add: first_run_setup_complete_def pin try_st_def)
  show "\<exists>db. ap_store b = Some db \<and> setting_value ''hub_name'' db = Some (trim (sp_hub_name payload))"
    using b setup_settings(1) by blast
qed

subsection \<open>A purge\<close>

definition gone :: "path \<Rightarrow> disk \<Rightarrow> bool" where
  "gone p d \<longleftrightarrow> (\<forall>q. take (length p) q = p \<longrightarrow> hm_get d q = None)"

lemma on_disk_after [simp]:
  "hm_get (remove_from_disk p d) q = (if take (length p) q = p then None else hm_get d q)"
  unfolding remove_from_disk_def hm_retain_def hm_get_def by (induction d) auto

lemma removed_gone: "gone p (remove_from_disk p d)"
  by (simp add: gone_def)

lemma gone_stays: "gone p d \<Longrightarrow> gone p (remove_from_disk q d)"
  by (simp add: gone_def)

text \<open>What is on a disk is in directories that are on it.\<close>

definition rooted :: "disk \<Rightarrow> bool" where
  "rooted d \<longleftrightarrow> (\<forall>q. hm_contains d q \<longrightarrow> (\<forall>n. 0 < n \<and> n \<le> length q \<longrightarrow> hm_contains d (take n q)))"

lemma rooted_remove: "rooted d \<Longrightarrow> rooted (remove_from_disk p d)"
  unfolding rooted_def
proof (intro allI impI)
  fix q n
  assume d: "\<forall>q. hm_contains d q \<longrightarrow> (\<forall>n. 0 < n \<and> n \<le> length q \<longrightarrow> hm_contains d (take n q))"
    and q: "hm_contains (remove_from_disk p d) q" and n: "0 < n \<and> n \<le> length q"
  have "take (length p) q \<noteq> p" "hm_contains d q" using q by (auto simp: hm_contains_def split: if_splits)
  moreover have "take (length p) q = p" if beneath: "take (length p) (take n q) = p"
  proof -
    have "length p \<le> n" using arg_cong [OF beneath, of length] n by auto
    then show ?thesis using beneath by (simp add: min_def)
  qed
  ultimately show "hm_contains (remove_from_disk p d) (take n q)"
    using d n by (auto simp: hm_contains_def)
qed

lemma missing_beneath:
  assumes "rooted d" "\<not> hm_contains d p" "p \<noteq> []"
  shows "gone p d"
  unfolding gone_def
proof (intro allI impI)
  fix q assume q: "take (length p) q = p"
  then have "length p \<le> length q" by (metis length_take min.cobounded1)
  then have "hm_contains d q \<longrightarrow> hm_contains d p" using assms(1,3) q unfolding rooted_def by fastforce
  then show "hm_get d q = None" using assms(2) by (auto simp: hm_contains_def)
qed

definition proper_paths :: "artifact_candidate list \<Rightarrow> bool" where
  "proper_paths cs \<longleftrightarrow> (\<forall>c\<in>set cs. fst c \<noteq> [])"

lemma proper_simps [simp]:
  "proper_paths []" "proper_paths (c # cs) \<longleftrightarrow> fst c \<noteq> [] \<and> proper_paths cs"
  "proper_paths (cs @ ds) \<longleftrightarrow> proper_paths cs \<and> proper_paths ds"
  "proper_paths (when_some x f) \<longleftrightarrow> (case x of None \<Rightarrow> True | Some y \<Rightarrow> proper_paths (f y))"
  by (auto simp: proper_paths_def when_some_def split: option.split)

lemma proper_database [simp]: "p \<noteq> [] \<Longrightarrow> proper_paths (database_candidates p)"
  by (auto simp: proper_paths_def database_candidates_def sqlite_sidecar_paths_def)

lemma proper_folders [simp]: "proper_paths (known_hub_runtime_candidates p)" "proper_paths (known_reticulum_runtime_candidates p)"
  by (simp_all add: known_hub_runtime_candidates_def known_reticulum_runtime_candidates_def)

lemma storage_not_empty: "attachment_storage_path ps category = Some p \<Longrightarrow> p \<noteq> []"
  by (auto simp: attachment_storage_path_def Let_def split: option.splits if_splits)

definition proper_configuration :: "server_paths \<Rightarrow> bool" where
  "proper_configuration ps \<longleftrightarrow> pa_config_path ps \<noteq> Some [] \<and> pa_reticulum_config_path ps \<noteq> Some []
     \<and> pa_managed_config_path ps \<noteq> Some [] \<and> pa_sqlite_path ps \<noteq> Some [] \<and> pa_managed_reticulumd_db_path ps \<noteq> Some []"

lemma candidate_paths:
  assumes "proper_configuration ps"
  shows "proper_paths (kill_switch_artifact_candidates ps)"
proof -
  have first: "proper_paths cs \<Longrightarrow> proper_paths (first_of_each_path seen cs)" for seen cs
    by (induction seen cs rule: first_of_each_path.induct) auto
  have "proper_paths (when_some (attachment_storage_path ps category) (\<lambda>p. [(p, ArtifactAttachment)]))" for category
    using storage_not_empty by (auto split: option.split)
  then show ?thesis
    unfolding kill_switch_artifact_candidates_def
    using assms by (intro first) (auto simp: proper_configuration_def split: option.split)
qed

lemma delete_candidates_gone:
  assumes "\<forall>p. dh_removal dh p = RemovalDone" "proper_paths cs"
  shows "rooted d \<Longrightarrow> delete_candidates dh cs (d, report, errors) = (d', report', errors')
    \<Longrightarrow> errors' = errors \<and> (\<forall>c\<in>set cs. gone (fst c) d') \<and> (\<forall>p. gone p d \<longrightarrow> gone p d')"
  using assms(2)
proof (induction cs arbitrary: d report)
  case (Cons c cs)
  obtain p kind where c: "c = (p, kind)" by fastforce
  show ?case
  proof (cases "hm_contains d p")
    case True
    then show ?thesis
      using Cons.IH [of "remove_from_disk p d"] Cons.prems assms(1) rooted_remove removed_gone [of p d] gone_stays
      by (simp add: c)
  next
    case False
    then have "gone p d" using missing_beneath [of d p] Cons.prems c by simp
    then show ?thesis using Cons.IH [of d] Cons.prems False by (simp add: c)
  qed
qed simp

definition without_worker :: "hub_call list \<Rightarrow> bool" where
  "without_worker calls \<longleftrightarrow> list_all (\<lambda>c. case c of WorkerCall _ _ \<Rightarrow> False | _ \<Rightarrow> True) calls"

lemma purge_result:
  assumes "\<forall>p. dh_removal dh p = RemovalDone" "rooted (ap_disk a)" "proper_configuration (ap_paths a)" "ap_store a = Some db"
    and b: "b = run_kill_switch_purge_worker dh (Inr ()) now a"
  shows "ks_mode (ap_kill_switch b) = PurgeCompleted" "ap_store b = Some empty_database"
    "\<forall>(p, kind)\<in>set (kill_switch_artifact_candidates (ap_paths a)). gone p (ap_disk b)"
proof -
  obtain d report errors where del: "delete_candidates dh (kill_switch_artifact_candidates (ap_paths a)) (ap_disk a, no_artifacts, [])
      = (d, report, errors)" by (metis prod_cases3)
  note g = delete_candidates_gone [OF assms(1) candidate_paths [OF assms(3)] assms(2) del]
  have "b = a\<lparr>ap_store := Some empty_database, ap_disk := d, ap_kill_switch :=
      completed_runtime (database_wipe_preview db) report now (ap_kill_switch a)\<rparr>"
    using g del assms(4) by (simp add: b run_kill_switch_purge_worker_def try_in_def try_st_def
        with_required_core_store_write_unchecked_def wipe_database_def delete_kill_switch_artifacts_def)
  then show "ks_mode (ap_kill_switch b) = PurgeCompleted" "ap_store b = Some empty_database"
    "\<forall>(p, kind)\<in>set (kill_switch_artifact_candidates (ap_paths a)). gone p (ap_disk b)"
    using g by (auto simp: completed_runtime_def)
qed

text \<open>After a purge nothing is stored any more.\<close>

definition locked_with :: "hub_store \<Rightarrow> app_state \<Rightarrow> bool" where
  "locked_with st a \<longleftrightarrow> ks_mode (ap_kill_switch a) = PurgeCompleted \<and> ap_store a = st"

lemma locked_store:
  assumes "locked_with st a"
  shows "with_required_core_store_write f a = (a, Inl (ServiceUnavailable ''RCH persistence is locked by kill switch purge''))"
  using assms by (simp add: with_required_core_store_write_def ensure_kill_switch_persistence_unlocked_def try_in_def
      locked_with_def)

lemma locked_secret:
  "locked_with st a \<Longrightarrow> load_secret sh ss a = (a, Inl (ServiceUnavailable ''RCH persistence is locked by kill switch purge''))"
  by (simp add: load_secret_def locked_store try_st_def del: read_store)

lemma locked_pin:
  "locked_with st a \<Longrightarrow> require_kill_switch_pin sh a = (a, Inl (ServiceUnavailable ''RCH persistence is locked by kill switch purge''))"
  by (simp add: require_kill_switch_pin_def load_kill_switch_pin_def locked_secret try_st_def)

lemma locked_throttle [simp]:
  "locked_with st (fst (ensure_auth_attempt_allowed su addr now a)) = locked_with st a"
  "locked_with st (fst (record_auth_failure su addr now a)) = locked_with st a"
  "locked_with st (clear_auth_failures su addr a) = locked_with st a"
  by (simp_all add: locked_with_def)

lemma locked_try: "locked_with st (fst m) \<Longrightarrow> (\<And>a r. locked_with st a \<Longrightarrow> locked_with st (fst (k a r))) \<Longrightarrow> locked_with st (fst (try_st m k))"
  by (auto simp: try_st_def split: prod.splits sum.splits)

lemma locked_password: "locked_with st a \<Longrightarrow> fst (validate_stored_remote_password sh u salt pw a) = a"
  by (simp add: validate_stored_remote_password_def load_stored_remote_password_def locked_secret try_st_def split: option.split)

lemma if_fst: "P (fst x) \<Longrightarrow> P (fst y) \<Longrightarrow> P (fst (if b then x else y))"
  by simp

lemma locked_credentials:
  "locked_with st a \<Longrightarrow> locked_with st (fst (validate_credentials sh u salt now failed su key token addr a))"
  unfolding validate_credentials_def Let_def
  by (intro if_fst [where P = "locked_with st"] locked_try) (simp_all add: locked_password)

lemma locked_call:
  assumes "locked_with st a" "without_worker [c]"
  shows "locked_with st (serve_call sh dh iso8601 c a)"
proof (cases c)
  case (ArmCall clock x y)
  then show ?thesis using assms(1) by (simp add: kill_switch_arm_def locked_pin try_st_def)
next
  case (AuthorizeCall salt clock addr pin)
  have check: "locked_with st (fst (check_pin sh salt clock addr pin a)) \<and> (\<exists>e. snd (check_pin sh salt clock addr pin a) = Inl e)"
  proof -
    obtain b r where e: "ensure_auth_attempt_allowed PIN_SURFACE addr (clock 0) a = (b, r)" by fastforce
    then have b: "locked_with st b" using locked_throttle(1) [of st PIN_SURFACE addr "clock 0" a] assms(1) by simp
    obtain d v where "record_auth_failure PIN_SURFACE addr (clock 1) b = (d, v)" "locked_with st d"
      using locked_throttle(2) [of st PIN_SURFACE addr "clock 1" b] b by (metis prod.collapse)
    then show ?thesis
      using e b by (cases r; cases v) (auto simp: check_pin_def try_st_def Let_def locked_pin)
  qed
  then obtain d err where "check_pin sh salt clock addr pin a = (d, Inl err)" "locked_with st d" by (metis prod.collapse)
  then show ?thesis using AuthorizeCall by (simp add: kill_switch_authorize_def try_st_def)
next
  case (PurgeCall clock)
  then show ?thesis using assms(1) by (simp add: kill_switch_purge_def locked_pin try_st_def)
next
  case (StatusCall clock)
  then show ?thesis using assms(1) by (simp add: kill_switch_status_def kill_switch_status_payload_def Let_def locked_with_def)
next
  case (WorkerCall stopped now)
  then show ?thesis using assms(2) by (simp add: without_worker_def)
next
  case (SetupCall uuid salt clock payload)
  then show ?thesis using assms(1)
    by (simp add: first_run_setup_complete_def load_kill_switch_pin_def locked_secret try_st_def)
next
  case (StoreCall f)
  then show ?thesis using assms(1) by (simp add: locked_store)
next
  case (HttpCall u salt now failed exempt headers addr)
  obtain b r where v: "validate_http_headers sh u salt now failed headers addr a = (b, r)" by fastforce
  then have "locked_with st b"
    using locked_credentials [OF assms(1)] by (metis fst_conv validate_http_headers_def)
  moreover obtain r' where "http_auth_failure_detail sh addr b = (b, r')"
    using detail_frame [of sh addr b] by (metis prod.collapse)
  ultimately show ?thesis
    using HttpCall assms(1) by (auto simp: require_http_auth_def v split: sum.splits bool.splits)
next
  case (WsCall u salt now failed api_key token addr)
  then show ?thesis using locked_credentials [OF assms(1)] by (simp add: validate_ws_credentials_def)
qed

lemma locked_calls: "locked_with st a \<Longrightarrow> without_worker calls \<Longrightarrow> locked_with st (serve_calls sh dh iso8601 calls a)"
proof (induction calls rule: rev_induct)
  case (snoc c calls)
  then show ?case
    using locked_call [of st "serve_calls sh dh iso8601 calls a" c] by (simp add: without_worker_def)
qed simp

text \<open>While a purge runs a request for another is refused; the answer the code has for it is not reached.\<close>

lemma purge_while_deleting:
  "ks_mode (ap_kill_switch a) = Deleting \<Longrightarrow>
    kill_switch_purge sh iso8601 clock a = (a, Inl (ServiceUnavailable ''RCH persistence is locked by kill switch purge''))"
  by (simp add: kill_switch_purge_def require_kill_switch_pin_def load_kill_switch_pin_def load_secret_def try_st_def)

text \<open>A full save of the tables keeps no secret.\<close>

lemma save_topic_settings: "save_topic_snapshot_tables options sn db = Inr db' \<Longrightarrow> db_settings db' = db_settings db"
  by (auto simp: save_topic_snapshot_tables_def Let_def and_then_eq_Inr split: if_splits)
lemma save_registry_settings: "save_registry_snapshot_tables sn db = Inr db' \<Longrightarrow> db_settings db' = db_settings db"
  by (auto simp: save_registry_snapshot_tables_def save_skill_assignment_snapshot_tables_def save_checklist_snapshot_tables_def Let_def and_then_eq_Inr split: if_splits)

lemma no_secret_preserved: "''kill_switch_pin_hash'' \<notin> fst ` set (settings_with_prefix ''reticulumd_'' db)"
proof -
  have "\<not> sql_like (CHR ''r'' # ps) (CHR ''k'' # cs)" for ps cs
    by (subst sql_like.simps) (simp add: ascii_lower_def code_def)
  then have "\<not> sql_like (''reticulumd_'' @ ''%'') ''kill_switch_pin_hash''" by simp
  then show ?thesis
    by (auto simp: settings_with_prefix_def split: sql_value.splits if_splits)
qed

lemma full_save_forgets_pin:
  assumes "save_to_sqlite s db = Inr db'"
  shows "setting_value ''kill_switch_pin_hash'' db' = None"
proof -
  obtain db1 db2 where steps: "save_topic_snapshot_tables \<lparr>preserve_identity_announces = False\<rparr> (snapshot s)
        (clear_snapshot_tables \<lparr>preserve_identity_announces = False\<rparr> db) = Inr db1"
      "save_registry_snapshot_tables (snapshot s) db1 = Inr db2"
    using assms by (auto simp: save_to_sqlite_def save_snapshot_def save_snapshot_with_options_def Let_def and_then_eq_Inr)
  have "db_settings db2 = []"
    using save_topic_settings [OF steps(1)] save_registry_settings [OF steps(2)]
    by (simp add: clear_snapshot_tables_def empty_database_def)
  then obtain db3 where "db' = fold (\<lambda>(key, v). set_setting_value key v) (settings_with_prefix ''reticulumd_'' db) db3"
      "db_settings db3 = [(setting_columns ''schema_version'', RCH_SQLITE_SCHEMA_VERSION),
         (setting_columns ''authorization_required'', bool_setting (sn_authorization_required (snapshot s)))]"
    using assms steps
    by (auto simp: save_to_sqlite_def save_snapshot_def save_snapshot_with_options_def Let_def and_then_eq_Inr
        sql_insert_def split: if_splits)
  then show ?thesis
    by (simp add: setting_value_fold [OF no_secret_preserved]) (simp add: setting_value_def setting_columns_def sql_cell_def)
qed
end
