(* ===== verification/Access_Samples.thy ===== *)
theory Access_Samples
  imports Guess_Limit Access_Rules
begin

text \<open>
  A server to run examples on: the hash of a secret is the secret itself behind the mark of its format,
  every file can be written and removed, and the database is empty or has the PIN 123456.
\<close>

definition sample_secret_host :: secret_host where
  "sample_secret_host =
     \<lparr>sh_sha256_lower_hex = id, sh_argon2_hash = (\<lambda>salt v. Inr (''$argon2id$'' @ v)),
      sh_argon2_verify = (\<lambda>hash v. Inr (hash = ''$argon2id$'' @ v)), sh_parse_int_error = (\<lambda>_. [])\<rparr>"

definition sample_disk_host :: disk_host where
  "sample_disk_host =
     \<lparr>dh_removal = (\<lambda>_. RemovalDone), dh_write_error = (\<lambda>_. None), dh_read_error = (\<lambda>_. []), dh_debug_text = id\<rparr>"

definition sample_paths :: server_paths where
  "sample_paths =
     \<lparr>pa_sqlite_path = Some [''d'', ''db''], pa_managed_reticulumd_db_path = None, pa_config_path = None,
      pa_reticulum_config_path = None, pa_managed_config_path = None, pa_storage_dir = None, pa_current_dir = None\<rparr>"

definition sample_server :: app_state where
  "sample_server =
     \<lparr>ap_store = Some empty_database, ap_api_key = None, ap_auth_throttle = [], ap_kill_switch = default_kill_switch,
      ap_paths = sample_paths,
      ap_disk = [([''d''], DiskDirectory), ([''d'', ''db''], DiskFile [])]\<rparr>"

lemma sample_lawful: "lawful_secrets sample_secret_host"
  by (simp add: lawful_secrets_def sample_secret_host_def is_argon2id_phc_def starts_with_def)

definition sample_pin :: stored_secret where
  "sample_pin = \<lparr>sc_salt = ''u'', sc_hash = ''$argon2id$123456'', sc_created_at_ts_ms = 1\<rparr>"

definition enrolled_server :: app_state where
  "enrolled_server = sample_server\<lparr>ap_store := Some (put_secret KILL_SWITCH_PIN_SETTINGS sample_pin empty_database)\<rparr>"

lemma sample_rooted: "rooted (ap_disk sample_server)"
proof -
  have on: "hm_contains (ap_disk sample_server) q \<longleftrightarrow> q = [''d''] \<or> q = [''d'', ''db'']" for q
    by (simp add: sample_server_def hm_contains_def hm_get_def)
  show ?thesis
    unfolding rooted_def
  proof (intro allI impI)
    fix q n assume q: "hm_contains (ap_disk sample_server) q" and n: "0 < n \<and> n \<le> length q"
    then have "q = [''d''] \<and> n = 1 \<or> q = [''d'', ''db''] \<and> (n = 1 \<or> n = 2)"
      unfolding on by (elim disjE; simp; linarith?)
    then show "hm_contains (ap_disk sample_server) (take n q)" by (elim disjE conjE) (simp_all add: on)
  qed
qed

lemma sample_configuration: "proper_configuration (ap_paths sample_server)"
  by (simp add: proper_configuration_def sample_server_def sample_paths_def)

lemma sample_setup_done:
  "snd (first_run_setup_complete sample_secret_host sample_disk_host (\<lambda>_. ''u'') (\<lambda>_. ''s'') (\<lambda>_. 1)
     \<lparr>sp_hub_name = ''hub'', sp_remote_password = ''password'', sp_kill_switch_pin = ''123456'',
      sp_reticulum_config_text = None\<rparr> sample_server) = Inr ()" by code_simp

lemma enrolled_pin:
  assumes "ap_store a = ap_store enrolled_server" "ks_mode (ap_kill_switch a) \<notin> {Deleting, PurgeCompleted}"
  shows "load_kill_switch_pin sh a = (a, Inr (Some sample_pin))" "require_kill_switch_pin sh a = (a, Inr sample_pin)"
proof -
  show "load_kill_switch_pin sh a = (a, Inr (Some sample_pin))"
    using assms by (simp add: enrolled_server_def load_kill_switch_pin_def load_secret_def try_st_def put_secret_def
        KILL_SWITCH_PIN_SETTINGS_def sample_pin_def parse_secret_def parse_show in_i64_def i64_min_def i64_max_def)
  then show "require_kill_switch_pin sh a = (a, Inr sample_pin)"
    by (simp add: require_kill_switch_pin_def try_st_def ok_or_def)
qed

lemma read_same [simp]: "fst (with_required_core_store_write (\<lambda>db. (db, f db)) a) = a"
  by simp

lemma status_store [simp]: "ap_store (fst (kill_switch_status_payload sh iso8601 now a)) = ap_store a"
  unfolding kill_switch_status_payload_def load_kill_switch_pin_def Let_def
  by (auto intro!: try_st_frame [where p = ap_store] split: option.split simp del: read_store)

subsection \<open>A purge\<close>

lemma sample_arm:
  fixes iso8601 :: "int \<Rightarrow> string"
  defines "s \<equiv> fst (kill_switch_arm sample_secret_host iso8601 (\<lambda>_. 2) True True enrolled_server)"
  shows "ap_store s = ap_store enrolled_server" "ap_auth_throttle s = []"
    "ks_mode (ap_kill_switch s) = Armed" "ks_arm_a (ap_kill_switch s)" "ks_arm_b (ap_kill_switch s)"
proof -
  let ?r = "(ap_kill_switch enrolled_server)\<lparr>ks_arm_a := True, ks_arm_b := True, ks_authorized_at_ts_ms := None,
    ks_progress_percent := 0, ks_mode := Armed, ks_message := ''Dual-arm gates engaged. PIN authorization is required.'',
    ks_updated_at_ts_ms := 2\<rparr>"
  let ?b = "enrolled_server\<lparr>ap_kill_switch := ?r\<rparr>"
  have idle: "ks_mode (ap_kill_switch enrolled_server) = Idle" by (simp add: enrolled_server_def sample_server_def default_kill_switch_def)
  have pin: "require_kill_switch_pin sample_secret_host enrolled_server = (enrolled_server, Inr sample_pin)"
    by (rule enrolled_pin(2)) (simp_all add: idle)
  have s: "s = fst (kill_switch_status_payload sample_secret_host iso8601 2 ?b)"
    by (simp only: s_def kill_switch_arm_def pin try_st_pair change_runtime_def arm_runtime_def try_in_def)
      (simp add: idle try_st_pair)
  show "ap_store s = ap_store enrolled_server" by (simp add: s)
  show "ap_auth_throttle s = []" by (simp add: s enrolled_server_def sample_server_def)
  have "ap_kill_switch s = expire_authorization 2 (stamped 2 ?r)"
    using enrolled_pin(1) [of ?b sample_secret_host] by (simp add: s status_runtime)
  then show "ks_mode (ap_kill_switch s) = Armed" "ks_arm_a (ap_kill_switch s)" "ks_arm_b (ap_kill_switch s)"
    by (simp_all add: expire_authorization_def stamped_def)
qed

lemma sample_check:
  assumes "ap_store s = ap_store enrolled_server" "ap_auth_throttle s = []"
    and "ks_mode (ap_kill_switch s) \<notin> {Deleting, PurgeCompleted}"
  shows "check_pin sample_secret_host salt clock None ''123456'' s = (clear_auth_failures PIN_SURFACE None s, Inr ())"
proof -
  have open_window: "ensure_auth_attempt_allowed PIN_SURFACE None (clock 0) s = (s, Inr ())"
    using assms(2) by (simp add: ensure_auth_attempt_allowed_def hm_get_def)
  have pin: "trim ''123456'' = ''123456''" "well_formed_pin ''123456''" by code_simp+
  have valid: "verify_versioned_secret sample_secret_host (sc_salt sample_pin) (sc_hash sample_pin) ''123456'' = Inr True"
      "is_argon2id_phc (sc_hash sample_pin)" by code_simp+
  show ?thesis
    by (simp add: check_pin_def open_window try_st_pair Let_def pin enrolled_pin(2) [OF assms(1,3)] valid try_in_def)
qed

lemma sample_purge:
  fixes iso8601 :: "int \<Rightarrow> string"
  defines "s \<equiv> serve_calls sample_secret_host sample_disk_host iso8601
    [ArmCall (\<lambda>_. 2) True True, AuthorizeCall ''s'' (\<lambda>_. 3) None ''123456''] enrolled_server"
  shows "ks_mode (ap_kill_switch s) = Authorized"
    "ks_mode (ap_kill_switch (serve_call sample_secret_host sample_disk_host iso8601 (PurgeCall (\<lambda>_. 4)) s)) = Deleting"
proof -
  let ?a = "fst (kill_switch_arm sample_secret_host iso8601 (\<lambda>_. 2) True True enrolled_server)"
  note armed = sample_arm [of iso8601]
  let ?c = "clear_auth_failures PIN_SURFACE None ?a"
  let ?r = "(ap_kill_switch ?a)\<lparr>ks_mode := Authorized, ks_authorized_at_ts_ms := Some 3, ks_initial_pin_reveal := None,
        ks_message := ''PIN accepted. Final purge command is authorized for this session.'', ks_updated_at_ts_ms := 3\<rparr>"
  let ?b = "?c\<lparr>ap_kill_switch := ?r\<rparr>"
  have check: "check_pin sample_secret_host ''s'' (\<lambda>_. 3) None ''123456'' ?a = (?c, Inr ())"
    by (rule sample_check [OF armed(1,2)]) (simp add: armed(3))
  have "authorize_runtime 3 (ap_kill_switch ?c) = Inr ?r" by (simp add: authorize_runtime_def armed)
  then have s: "s = fst (kill_switch_status_payload sample_secret_host iso8601 3 ?b)"
    by (simp add: s_def serve_calls_def kill_switch_authorize_def check try_st_pair change_runtime_def try_in_def
        del: throttle_frame)
  have "load_kill_switch_pin sample_secret_host ?b = (?b, Inr (Some sample_pin))"
    by (rule enrolled_pin(1)) (simp_all add: armed)
  then have "ap_kill_switch s = expire_authorization 3 (stamped 3 ?r)" by (simp add: s status_runtime)
  then have r: "ap_kill_switch s = ?r"
    by (simp add: expire_authorization_def stamped_def kill_switch_auth_active_def is_some_and_def sat_i64_def i64_min_def
        i64_max_def KILL_SWITCH_AUTHORIZATION_TTL_MS_def)
  then show mode: "ks_mode (ap_kill_switch s) = Authorized" by simp
  have store: "ap_store s = ap_store enrolled_server" by (simp add: s armed)
  obtain db where db: "ap_store s = Some db" by (simp add: store enrolled_server_def)
  have "kill_switch_auth_active (ap_kill_switch s) 4"
    by (simp add: r kill_switch_auth_active_def is_some_and_def sat_i64_def i64_min_def i64_max_def
        KILL_SWITCH_AUTHORIZATION_TTL_MS_def)
  then obtain r' where r': "purge_runtime (database_wipe_preview db) (kill_switch_artifact_preview s) 4 (ap_kill_switch s) = Inr r'"
      "ks_mode r' = Deleting"
    by (simp add: purge_runtime_def mode) (simp add: r armed)
  have "require_kill_switch_pin sample_secret_host s = (s, Inr sample_pin)"
    by (rule enrolled_pin(2)) (simp_all add: store mode)
  from purge_open [OF this db, of iso8601 "\<lambda>_. 4"] mode
  have "serve_call sample_secret_host sample_disk_host iso8601 (PurgeCall (\<lambda>_. 4)) s
      = fst (kill_switch_status_payload sample_secret_host iso8601 4 (s\<lparr>ap_kill_switch := r'\<rparr>))"
    by (simp add: change_runtime_def try_in_def r'(1) try_st_pair)
  then show "ks_mode (ap_kill_switch (serve_call sample_secret_host sample_disk_host iso8601 (PurgeCall (\<lambda>_. 4)) s)) = Deleting"
    by (simp add: status_runtime r'(2))
qed

subsection \<open>Guesses\<close>

text \<open>A PIN that is none touches the failures of its client only.\<close>

definition bad_guess :: "int \<Rightarrow> hub_call" where
  "bad_guess t = AuthorizeCall ''s'' (\<lambda>_. t) None ''0''"

lemma bad_guess_call:
  "serve_call sh dh iso8601 (bad_guess t) a =
    (if attempt_allowed None t a then fst (record_auth_failure PIN_SURFACE None t (fst (ensure_auth_attempt_allowed PIN_SURFACE None t a)))
     else a)"
proof -
  have pin: "\<not> well_formed_pin (trim ''0'')" by code_simp
  then have wrong: "wrong_guess sh ''0'' a" by (simp add: wrong_guess_def)
  have refused: "\<exists>e. snd (check_pin sh ''s'' (\<lambda>_. t) None ''0'' a) = Inl e"
    using pin by (auto simp: check_pin_def try_st_def Let_def split: prod.split sum.split)
  then have "fst (kill_switch_authorize sh ''s'' iso8601 (\<lambda>_. t) None ''0'' a) = fst (check_pin sh ''s'' (\<lambda>_. t) None ''0'' a)"
    by (auto simp: kill_switch_authorize_def try_st_def split: prod.split sum.split)
  moreover have "fst (check_pin sh ''s'' (\<lambda>_. t) None ''0'' a) = (if attempt_allowed None t a
      then fst (record_auth_failure PIN_SURFACE None t (fst (ensure_auth_attempt_allowed PIN_SURFACE None t a))) else a)"
  proof (cases rule: attempt_cases [of None t a])
    case 1
    then show ?thesis by (simp add: check_pin_def try_st_def)
  next
    case (2 b)
    then show ?thesis using wrong_guess_recorded [where clock = "\<lambda>_. t" and addr = None, OF _ 2(3,4) wrong] by simp
  qed
  ultimately show ?thesis by (simp add: bad_guess_def)
qed

lemma guess_allowed:
  assumes "hm_get (ap_auth_throttle a) (auth_throttle_key PIN_SURFACE None) = w"
  shows "attempt_allowed None t a = (case w of None \<Rightarrow> True | Some w \<Rightarrow>
      \<not> is_some_and (fw_locked_until_ts_ms w) (\<lambda>until. until > t))"
  using assms by (auto simp: attempt_allowed_def ensure_auth_attempt_allowed_def Let_def split: option.split)

definition with_failures :: "int list \<Rightarrow> int option \<Rightarrow> app_state \<Rightarrow> app_state" where
  "with_failures fs u a = a\<lparr>ap_auth_throttle :=
     [(auth_throttle_key PIN_SURFACE None, \<lparr>fw_failures = fs, fw_locked_until_ts_ms = u\<rparr>)]\<rparr>"

lemma first_guess:
  "ap_auth_throttle a = [] \<Longrightarrow> serve_call sh dh iso8601 (bad_guess t) a = with_failures [t] None a"
  by (simp add: bad_guess_call guess_allowed hm_get_def ensure_auth_attempt_allowed_def record_auth_failure_def
      unwrap_or_def recent_failures_def AUTH_FAILURE_LIMIT_def with_failures_def hm_insert_def)

lemma next_guess:
  "serve_call sh dh iso8601 (bad_guess t) (with_failures fs u a) =
    (if is_some_and u (\<lambda>until. until > t) then with_failures fs u a
     else let fs = recent_failures t fs @ [t]
       in with_failures fs (if length fs \<ge> 5 then Some (sat_i64 (t + 300000)) else None) a)"
proof -
  have twice: "recent_failures t (recent_failures t fs) = recent_failures t fs" by (simp add: recent_failures_def)
  have get: "hm_get (ap_auth_throttle (with_failures fs u a)) (auth_throttle_key PIN_SURFACE None)
      = Some \<lparr>fw_failures = fs, fw_locked_until_ts_ms = u\<rparr>" by (simp add: with_failures_def hm_get_def)
  have allowed: "attempt_allowed None t (with_failures fs u a) \<longleftrightarrow> \<not> is_some_and u (\<lambda>until. until > t)"
    by (simp add: guess_allowed [OF get])
  show ?thesis
  proof (cases "is_some_and u (\<lambda>until. until > t)")
    case True
    then show ?thesis by (simp add: bad_guess_call allowed)
  next
    case False
    then have "fst (ensure_auth_attempt_allowed PIN_SURFACE None t (with_failures fs u a))
        = with_failures (recent_failures t fs) None a"
      by (simp add: ensure_auth_attempt_allowed_def get Let_def) (simp add: with_failures_def hm_insert_def)
    moreover have "fst (record_auth_failure PIN_SURFACE None t (with_failures (recent_failures t fs) None a))
        = (let fs = recent_failures t fs @ [t]
           in with_failures fs (if length fs \<ge> 5 then Some (sat_i64 (t + 300000)) else None) a)"
      by (simp add: record_auth_failure_def hm_get_def hm_insert_def with_failures_def unwrap_or_def
          AUTH_FAILURE_LIMIT_def AUTH_LOCKOUT_MS_def Let_def twice)
    ultimately show ?thesis using False by (simp add: bad_guess_call allowed)
  qed
qed

lemma guess_of_bad [simp]:
  "guess_of sh (auth_throttle_key PIN_SURFACE None) (bad_guess t) a = (if attempt_allowed None t a then [t] else [])"
proof -
  have "\<not> well_formed_pin (trim ''0'')" by code_simp
  then show ?thesis by (simp add: guess_of_def bad_guess_def wrong_guess_def)
qed

lemma hit_of_bad [simp]: "hit_of sh client (bad_guess t) a = []"
proof -
  have "\<not> well_formed_pin (trim ''0'')" by code_simp
  then show ?thesis by (simp add: hit_of_def bad_guess_def pin_accepted_def)
qed

lemma readings_bad [simp]: "readings_of (auth_throttle_key PIN_SURFACE None) (bad_guess t) = [t, t]"
  by (simp add: readings_of_def bad_guess_def)

lemma guess_allowed_next [simp]: "attempt_allowed None t (with_failures fs u a) \<longleftrightarrow> \<not> is_some_and u (\<lambda>until. until > t)"
  by (simp add: guess_allowed [of _ "Some \<lparr>fw_failures = fs, fw_locked_until_ts_ms = u\<rparr>"] with_failures_def hm_get_def)

lemma sample_guess_log:
  "log_of (guess_of sh (auth_throttle_key PIN_SURFACE None)) sh dh iso8601 (map bad_guess [1, 2, 3, 4, 5, 6, 300005]) sample_server
   = [1, 2, 3, 4, 5, 300005]"
proof -
  have start: "ap_auth_throttle sample_server = []" by (simp add: sample_server_def)
  have ok: "attempt_allowed None 1 sample_server" by (simp add: guess_allowed start hm_get_def)
  show ?thesis
    by (simp add: first_guess [OF start] ok next_guess recent_failures_def AUTH_FAILURE_WINDOW_MS_def sat_i64_def i64_min_def
        i64_max_def is_some_and_def Let_def)
qed

end
