(* ===== verification/Tak.thy ===== *)
theory Tak
  imports Framing Protocol Csv_Text "HOL-Library.Sublist" "HOL-Library.While_Combinator"
begin

unbundle bit_operations_syntax

text \<open>
  The TAK connector (\<open>crates/r3akt-tak-connector/src\<close>): locations, chat messages and keepalives of
  the hub as cursor-on-target events, the bounded queue they wait in, and the services that send them
  and receive the events of others.  Parameters stand for the libraries: the calendar and the parser of
  RFC 3339 (\<open>chrono\<close>), the events of an XML reader (\<open>quick_xml\<close>), the encoding of a
  protobuf message (\<open>prost\<close>) and the socket a payload is written to or read from.  Where a time
  leaves the range of the library, the code panics and the model answers \<open>None\<close>.
\<close>

subsection \<open>Errors and configuration\<close>

datatype tak_connector_error =
    EmptyChatContent
  | QueueFull
  | UnsupportedScheme string
  | InvalidCotUrl string
  | TakSend string
  | ServiceStopped
  | TakWorker string

fun tak_error_text :: "tak_connector_error \<Rightarrow> string" where
  "tak_error_text EmptyChatContent = ''chat content is required to build a CoT event''"
| "tak_error_text QueueFull = ''TAK outbound queue is full''"
| "tak_error_text (UnsupportedScheme scheme) = ''unsupported TAK COT URL scheme: '' @ scheme"
| "tak_error_text (InvalidCotUrl url) = ''invalid TAK COT URL: '' @ url"
| "tak_error_text (TakSend message) = ''TAK send failed: '' @ message"
| "tak_error_text ServiceStopped = ''TAK service is not running''"
| "tak_error_text (TakWorker message) = ''TAK worker lifecycle failed: '' @ message"

record tak_connection_config =
  tcc_cot_url :: string
  tcc_callsign :: string
  tcc_poll_interval_seconds :: f64
  tcc_keepalive_interval_seconds :: f64
  tcc_tls_client_cert :: "string option"
  tcc_tls_client_key :: "string option"
  tcc_tls_ca :: "string option"
  tcc_tls_insecure :: bool
  tcc_tls_client_password :: "string option"
  tcc_pytak_tls_dont_verify :: "8 word"
  tcc_tak_proto :: "8 word"
  tcc_fts_compat :: "8 word"

definition default_tak_config :: tak_connection_config where
  "default_tak_config =
     \<lparr>tcc_cot_url = ''tcp://127.0.0.1:8087'', tcc_callsign = ''R3AKT'',
      tcc_poll_interval_seconds = Fin 30, tcc_keepalive_interval_seconds = Fin 60,
      tcc_tls_client_cert = None, tcc_tls_client_key = None, tcc_tls_ca = None,
      tcc_tls_insecure = True, tcc_tls_client_password = None, tcc_pytak_tls_dont_verify = 1,
      tcc_tak_proto = 0, tcc_fts_compat = 1\<rparr>"

text \<open>The calendar of an instant, and how a number that is no integer is shown.\<close>

record cot_calendar =
  cal_year :: int
  cal_month :: nat
  cal_day :: nat
  cal_hour :: nat
  cal_minute :: nat
  cal_second :: nat
  cal_nanosecond :: nat

record tak_host =
  th_calendar :: "instant \<Rightarrow> cot_calendar"
  th_show_fraction :: "rat \<Rightarrow> string"
  th_parse_rfc3339 :: "string \<Rightarrow> instant option"

subsection \<open>Times\<close>

definition padded :: "nat \<Rightarrow> int \<Rightarrow> string" where
  "padded width n =
     (let sign = (if n < 0 then ''-'' else []); digits = show_nat (nat \<bar>n\<bar>)
      in sign @ replicate (width - length sign - length digits) (CHR ''0'') @ digits)"

definition cot_date :: "cot_calendar \<Rightarrow> string" where
  "cot_date c =
     padded 4 (cal_year c) @ ''-'' @ padded 2 (int (cal_month c)) @ ''-'' @ padded 2 (int (cal_day c)) @ ''T''
     @ padded 2 (int (cal_hour c)) @ '':'' @ padded 2 (int (cal_minute c)) @ '':'' @ padded 2 (int (cal_second c))"

definition format_cot_seconds :: "tak_host \<Rightarrow> instant \<Rightarrow> string" where
  "format_cot_seconds th t = cot_date (th_calendar th t) @ ''Z''"

definition format_cot_millis :: "tak_host \<Rightarrow> instant \<Rightarrow> string" where
  "format_cot_millis th t =
     cot_date (th_calendar th t) @ ''.'' @ padded 3 (int (cal_nanosecond (th_calendar th t) div 1000000)) @ ''Z''"

definition format_cot_micros :: "tak_host \<Rightarrow> instant \<Rightarrow> string" where
  "format_cot_micros th t =
     cot_date (th_calendar th t) @ ''.'' @ padded 6 (int (cal_nanosecond (th_calendar th t) div 1000)) @ ''Z''"

text \<open>
  \<open>Duration::from_secs_f64\<close>, in nanoseconds, panics out of range; \<open>chrono\<close>'s duration
  takes at most \<open>i64::MAX\<close> milliseconds.
\<close>

fun duration_from_secs_f64 :: "f64 \<Rightarrow> nat option" where
  "duration_from_secs_f64 (Fin r) =
     (let nanos = round_even (r * 10 ^ 9)
      in if 0 \<le> r \<and> nanos < 2 ^ 64 * 10 ^ 9 then Some (nat nanos) else None)"
| "duration_from_secs_f64 _ = None"

definition duration_from_std :: "nat \<Rightarrow> nat option" where
  "duration_from_std nanos = (if int nanos \<le> i64_max * 10 ^ 6 then Some nanos else None)"

definition add_nanos :: "instant \<Rightarrow> nat \<Rightarrow> instant option" where
  "add_nanos t nanos = (let u = t + int nanos in if u \<le> max_utc then Some u else None)"

subsection \<open>Texts of an event\<close>

definition replace_char_by :: "char \<Rightarrow> string \<Rightarrow> string \<Rightarrow> string" where
  "replace_char_by c text s = concat (map (\<lambda>x. if x = c then text else [x]) s)"

definition escape_attr :: "string \<Rightarrow> string" where
  "escape_attr s =
     replace_char_by (CHR ''>'') ''&gt;'' (replace_char_by (CHR ''<'') ''&lt;''
       (replace_char_by (CHR 0x22) ''&quot;'' (replace_char_by (CHR ''&'') ''&amp;'' s)))"

definition escape_text :: "string \<Rightarrow> string" where
  "escape_text s =
     replace_char_by (CHR ''>'') ''&gt;'' (replace_char_by (CHR ''<'') ''&lt;''
       (replace_char_by (CHR ''&'') ''&amp;'' s))"

definition sanitize_flow_tag_name :: "string \<Rightarrow> string" where
  "sanitize_flow_tag_name s =
     (let sanitized = map (\<lambda>c. if is_ascii_digit c \<or> is_ascii_alpha c \<or> c \<in> set ''_-.'' then c else CHR ''-'')
                        (filter (\<lambda>c. \<not> is_continuation c) s)
      in if sanitized = [] then ''R3AKT'' else sanitized)"

fun format_float :: "tak_host \<Rightarrow> f64 \<Rightarrow> string" where
  "format_float th (Fin r) =
     (if r = of_int \<lfloor>r\<rfloor> then show_int \<lfloor>r\<rfloor> @ ''.0'' else th_show_fraction th r)"
| "format_float th PosInf = ''inf''"
| "format_float th NegInf = ''-inf''"
| "format_float th NaN = ''NaN''"

definition tak_normalize_hash :: "string option \<Rightarrow> string" where
  "tak_normalize_hash peer_hash = replace_char_by (CHR '':'') [] (trim (unwrap_or peer_hash []))"

definition uid_from_hash :: "string option \<Rightarrow> string \<Rightarrow> string" where
  "uid_from_hash peer_hash fallback_callsign =
     (let normalized = tak_normalize_hash peer_hash
      in if normalized = [] then fallback_callsign else normalized)"

subsection \<open>The address of the server\<close>

record cot_url =
  cu_scheme :: string
  cu_host_port :: string

definition split_once_text :: "string \<Rightarrow> string \<Rightarrow> (string \<times> string) option" where
  "split_once_text d s = map_option (\<lambda>n. (take n s, drop (n + length d) s)) (find_window d s)"

definition parse_cot_url :: "string \<Rightarrow> tak_connector_error + cot_url" where
  "parse_cot_url url =
     (case split_once_text ''://'' url of
        None \<Rightarrow> Inl (InvalidCotUrl url)
      | Some (scheme, rest) \<Rightarrow>
          (let host_port_path = hd (split_on (CHR ''/'') rest);
               host_port = trim (last (split_on (CHR ''@'') host_port_path))
           in if scheme = [] \<or> host_port = [] then Inl (InvalidCotUrl url)
              else Inr \<lparr>cu_scheme = to_ascii_lowercase scheme, cu_host_port = host_port\<rparr>))"

definition tls_server_name :: "cot_url \<Rightarrow> tak_connector_error + string" where
  "tls_server_name url =
     (let host = (case strip_prefix ''['' (cu_host_port url) of
           Some rest \<Rightarrow> map_option fst (split_once_at (CHR '']'') rest)
         | None \<Rightarrow> or_else (map_option fst (split_once_at (CHR '':'') (cu_host_port url))) (Some (cu_host_port url)))
      in case filter_opt (\<lambda>h. h \<noteq> []) host of
           None \<Rightarrow> Inl (InvalidCotUrl (cu_host_port url)) | Some h \<Rightarrow> Inr h)"

definition cot_endpoint :: "string \<Rightarrow> string option" where
  "cot_endpoint url =
     (case parse_cot_url url of Inl _ \<Rightarrow> None | Inr parsed \<Rightarrow> Some (cu_host_port parsed @ '':'' @ cu_scheme parsed))"

subsection \<open>Events\<close>

record location_snapshot =
  ls_latitude :: f64
  ls_longitude :: f64
  ls_altitude :: f64
  ls_speed :: f64
  ls_bearing :: f64
  ls_accuracy :: f64
  ls_updated_at :: instant
  ls_peer_hash :: "string option"

record chat_event_input =
  ch_content :: string
  ch_sender_label :: string
  ch_topic_id :: "string option"
  ch_source_hash :: "string option"
  ch_timestamp :: instant
  ch_message_uuid :: "string option"

definition xml_attribute :: "string \<times> string \<Rightarrow> string" where
  "xml_attribute nv = '' '' @ fst nv @ ''='' @ [CHR 0x22] @ snd nv @ [CHR 0x22]"

definition xml_attributes :: "(string \<times> string) list \<Rightarrow> string" where
  "xml_attributes attrs = concat (map xml_attribute attrs)"

definition open_tag :: "string \<Rightarrow> (string \<times> string) list \<Rightarrow> string" where
  "open_tag name attrs = ''<'' @ name @ xml_attributes attrs @ ''>''"

definition empty_tag :: "string \<Rightarrow> (string \<times> string) list \<Rightarrow> string" where
  "empty_tag name attrs = ''<'' @ name @ xml_attributes attrs @ '' />''"

definition close_tag :: "string \<Rightarrow> string" where
  "close_tag name = ''</'' @ name @ ''>''"

definition location_stale :: "tak_connection_config \<Rightarrow> instant \<Rightarrow> instant option" where
  "location_stale config now =
     (case duration_from_secs_f64 (f64_mul (f64_max (tcc_poll_interval_seconds config) (Fin 1)) (Fin 2)) of
        None \<Rightarrow> None
      | Some nanos \<Rightarrow> add_nanos now (unwrap_or (duration_from_std nanos) (2 * 10 ^ 9)))"

definition build_location_xml ::
  "tak_host \<Rightarrow> tak_connection_config \<Rightarrow> location_snapshot \<Rightarrow> instant \<Rightarrow> string option \<Rightarrow> string option" where
  "build_location_xml th config snap now identity_label =
     (let uid = uid_from_hash (ls_peer_hash snap) (tcc_callsign config);
          callsign = unwrap_or (filter_opt (\<lambda>v. v \<noteq> []) (map_option trim identity_label)) uid;
          endpoint = (case cot_endpoint (tcc_cot_url config) of
             None \<Rightarrow> [] | Some v \<Rightarrow> [(''endpoint'', escape_attr v)])
      in map_option (\<lambda>stale.
           open_tag ''event'' [(''version'', ''2.0''), (''uid'', escape_attr uid), (''type'', ''a-f-G-U-C''),
             (''how'', ''h-g-i-g-o''), (''time'', format_cot_seconds th now),
             (''start'', format_cot_seconds th (ls_updated_at snap)), (''stale'', format_cot_seconds th stale)]
           @ empty_tag ''point'' [(''lat'', format_float th (ls_latitude snap)), (''lon'', format_float th (ls_longitude snap)),
             (''hae'', format_float th (ls_altitude snap)), (''ce'', format_float th (ls_accuracy snap)),
             (''le'', format_float th (ls_accuracy snap))]
           @ open_tag ''detail'' []
           @ empty_tag ''takv'' [(''version'', ''0.44.0''), (''platform'', ''RetTAK''), (''os'', ''ubuntu''),
             (''device'', ''not your business'')]
           @ empty_tag ''contact'' ((''callsign'', escape_attr callsign) # endpoint)
           @ empty_tag ''__group'' [(''name'', ''Yellow''), (''role'', ''Team Member'')]
           @ empty_tag ''track'' [(''course'', format_float th (ls_bearing snap)), (''speed'', format_float th (ls_speed snap))]
           @ empty_tag ''uid'' [(''Droid'', escape_attr callsign)]
           @ empty_tag ''status'' [(''battery'', format_float th (Fin 0))]
           @ close_tag ''detail'' @ close_tag ''event'')
         (location_stale config now))"

text \<open>A chat event: what precedes its text, and what follows it.\<close>

definition chat_head :: "tak_host \<Rightarrow> string \<Rightarrow> string \<Rightarrow> string \<Rightarrow> string \<Rightarrow> instant \<Rightarrow> instant \<Rightarrow> string" where
  "chat_head th sender_uid sender_label chatroom message_id timestamp stale =
     (let event_uid = ''GeoChat.'' @ sender_uid @ ''.'' @ chatroom @ ''.'' @ message_id;
          remarks_source = (if sender_uid = [] then ''LXMF.CLIENT'' else ''LXMF.CLIENT.'' @ sender_uid);
          room = escape_attr chatroom; sender = escape_attr sender_uid
      in open_tag ''event'' [(''version'', ''2.0''), (''uid'', escape_attr event_uid), (''type'', ''b-t-f''),
             (''how'', ''h-g-i-g-o''), (''time'', format_cot_millis th timestamp),
             (''start'', format_cot_millis th timestamp), (''stale'', format_cot_millis th stale),
             (''access'', ''Undefined'')]
         @ empty_tag ''point'' [(''lat'', ''0.0''), (''lon'', ''0.0''), (''hae'', ''9999999.0''), (''ce'', ''9999999.0''),
             (''le'', ''9999999.0'')]
         @ open_tag ''detail'' []
         @ open_tag ''__chat'' [(''id'', room), (''chatroom'', room), (''senderCallsign'', escape_attr sender_label),
             (''groupOwner'', ''false''), (''messageId'', escape_attr message_id)]
         @ empty_tag ''chatgrp'' [(''id'', room), (''uid0'', sender), (''uid1'', room)]
         @ close_tag ''__chat''
         @ empty_tag ''link'' [(''uid'', sender), (''type'', ''a-f-G-U-C-I''), (''relation'', ''p-p'')]
         @ open_tag ''remarks'' [(''source'', escape_attr remarks_source), (''sourceID'', sender), (''to'', room),
             (''time'', format_cot_millis th timestamp)])"

definition chat_tail :: string where
  "chat_tail =
     close_tag ''remarks''
     @ open_tag ''marti'' [] @ empty_tag ''dest'' [] @ close_tag ''marti''
     @ empty_tag ''__serverdestination'' []
     @ close_tag ''detail'' @ close_tag ''event''"

definition build_chat_xml ::
  "tak_host \<Rightarrow> tak_connection_config \<Rightarrow> string \<Rightarrow> chat_event_input \<Rightarrow> (tak_connector_error + string) option" where
  "build_chat_xml th config drawn_id input =
     (let content = trim (ch_content input)
      in if content = [] then Some (Inl EmptyChatContent)
         else map_option (\<lambda>stale. Inr (chat_head th
                (uid_from_hash (ch_source_hash input) (tcc_callsign config)) (ch_sender_label input)
                (unwrap_or (ch_topic_id input) ''All Chat Rooms'') (unwrap_or (ch_message_uuid input) drawn_id)
                (ch_timestamp input) stale @ escape_text content @ chat_tail))
              (add_seconds (ch_timestamp input) (24 * 60 * 60)))"

definition build_ping_xml :: "tak_host \<Rightarrow> tak_connection_config \<Rightarrow> instant \<Rightarrow> string option" where
  "build_ping_xml th config now =
     (let flow_tag_name = sanitize_flow_tag_name (tcc_callsign config) @ ''-v0.0.0''
      in map_option (\<lambda>stale.
           ''<?xml'' @ xml_attributes [(''version'', ''1.0''), (''encoding'', ''UTF-8''), (''standalone'', ''yes'')]
           @ '' ?>'' @ [lf]
           @ open_tag ''event'' [(''version'', ''2.0''), (''type'', ''t-x-d-d''), (''uid'', ''takPing''), (''how'', ''m-g''),
               (''time'', format_cot_micros th now), (''start'', format_cot_micros th now),
               (''stale'', format_cot_micros th stale)]
           @ empty_tag ''point'' [(''lat'', ''0.0''), (''lon'', ''0.0''), (''le'', ''9999999.0''), (''hae'', ''9999999.0''),
               (''ce'', ''9999999.0'')]
           @ open_tag ''detail'' [] @ empty_tag ''_flow-tags_'' [(flow_tag_name, format_cot_micros th now)]
           @ close_tag ''detail'' @ close_tag ''event'')
         (add_seconds now 120))"

definition build_keepalive_xml :: "tak_host \<Rightarrow> instant \<Rightarrow> string option" where
  "build_keepalive_xml th now =
     map_option (\<lambda>stale.
       empty_tag ''event'' [(''version'', ''2.0''), (''type'', ''t-x-d-d''), (''uid'', ''takPong''), (''how'', ''m-g''),
         (''time'', format_cot_micros th now), (''start'', format_cot_micros th now),
         (''stale'', format_cot_micros th stale)])
       (add_seconds now (60 * 60))"

subsection \<open>Received events\<close>

text \<open>
  What the XML reader reports of a text, up to its end.  An attribute is \<open>None\<close> when it is
  malformed, its value when it cannot be decoded.
\<close>

type_synonym xml_element = "string \<times> (string \<times> string option) option list"

datatype xml_event = XmlStart xml_element | XmlEmpty xml_element | XmlEnd | XmlOther | XmlError

record cot_point =
  pt_lat :: f64
  pt_lon :: f64
  pt_hae :: f64
  pt_ce :: f64
  pt_le :: f64

definition default_point :: cot_point where
  "default_point = \<lparr>pt_lat = Fin 0, pt_lon = Fin 0, pt_hae = Fin 0, pt_ce = Fin 0, pt_le = Fin 0\<rparr>"

record inbound_cot_event =
  ic_version :: string
  ic_uid :: string
  ic_event_type :: string
  ic_how :: string
  ic_time :: string
  ic_start :: string
  ic_stale :: string
  ic_access :: "string option"
  ic_point :: cot_point

datatype inbound_cot_result = ParsedCot inbound_cot_event | RawCot string

text \<open>\<open>xml_attr\<close>: \<open>None\<close> is the error, \<open>Some None\<close> an attribute that is not there.\<close>

fun xml_attr :: "(string \<times> string option) option list \<Rightarrow> string \<Rightarrow> string option option" where
  "xml_attr [] key = Some None"
| "xml_attr (None # attrs) key = None"
| "xml_attr (Some (name, v) # attrs) key =
     (if name = key then map_option Some v else xml_attr attrs key)"

definition xml_attr_or :: "string \<Rightarrow> (string \<times> string option) option list \<Rightarrow> string \<Rightarrow> string option" where
  "xml_attr_or d attrs key = map_option (\<lambda>v. unwrap_or v d) (xml_attr attrs key)"

definition event_from_xml_start :: "xml_element \<Rightarrow> inbound_cot_event option" where
  "event_from_xml_start element =
     (let attr = xml_attr_or [] (snd element)
      in case (attr ''version'', attr ''uid'', attr ''type'', attr ''how'', attr ''time'', attr ''start'',
               attr ''stale'', xml_attr (snd element) ''access'') of
           (Some version, Some uid, Some event_type, Some how, Some time, Some start, Some stale, Some access) \<Rightarrow>
             Some \<lparr>ic_version = version, ic_uid = uid, ic_event_type = event_type, ic_how = how, ic_time = time,
                   ic_start = start, ic_stale = stale, ic_access = access, ic_point = default_point\<rparr>
         | _ \<Rightarrow> None)"

definition point_from_xml_start :: "xml_element \<Rightarrow> cot_point option" where
  "point_from_xml_start element =
     (let coordinate = (\<lambda>key. case xml_attr_or ''0'' (snd element) key of None \<Rightarrow> None | Some v \<Rightarrow> f64_parse v)
      in case (coordinate ''lat'', coordinate ''lon'', coordinate ''hae'', coordinate ''ce'', coordinate ''le'') of
           (Some lat, Some lon, Some hae, Some ce, Some le) \<Rightarrow>
             Some \<lparr>pt_lat = lat, pt_lon = lon, pt_hae = hae, pt_ce = ce, pt_le = le\<rparr>
         | _ \<Rightarrow> None)"

text \<open>The root element of the text, with its depth, once it has been seen.\<close>

definition see_element ::
  "nat \<Rightarrow> xml_element \<Rightarrow> (inbound_cot_event \<times> nat) option \<Rightarrow> (inbound_cot_event \<times> nat) option option" where
  "see_element depth element seen =
     (case seen of
        None \<Rightarrow> map_option (\<lambda>found. Some (found, depth)) (event_from_xml_start element)
      | Some (found, root_depth) \<Rightarrow>
          if depth = root_depth + 1 \<and> fst element = ''point'' then
            map_option (\<lambda>point. Some (found\<lparr>ic_point := point\<rparr>, root_depth)) (point_from_xml_start element)
          else Some seen)"

fun read_cot_event :: "xml_event list \<Rightarrow> nat \<Rightarrow> (inbound_cot_event \<times> nat) option \<Rightarrow> inbound_cot_event option" where
  "read_cot_event [] depth seen = map_option fst seen"
| "read_cot_event (XmlStart element # events) depth seen =
     (case see_element (depth + 1) element seen of
        None \<Rightarrow> None | Some seen \<Rightarrow> read_cot_event events (depth + 1) seen)"
| "read_cot_event (XmlEmpty element # events) depth seen =
     (case see_element (depth + 1) element seen of
        None \<Rightarrow> None | Some seen \<Rightarrow> read_cot_event events depth seen)"
| "read_cot_event (XmlEnd # events) depth seen = read_cot_event events (depth - 1) seen"
| "read_cot_event (XmlOther # events) depth seen = read_cot_event events depth seen"
| "read_cot_event (XmlError # events) depth seen = None"

definition parse_inbound_cot_event :: "(string \<Rightarrow> xml_event list) \<Rightarrow> string \<Rightarrow> inbound_cot_event option" where
  "parse_inbound_cot_event read raw = read_cot_event (read raw) 0 None"

text \<open>
  \<open>String::from_utf8_lossy\<close>: a replacement character for every longest start of a character that
  does not go on.
\<close>

definition lossy_char :: "string \<Rightarrow> nat + nat" where
  "lossy_char s =
     (case s of [] \<Rightarrow> Inl 1
      | c # rest \<Rightarrow>
          (case utf8_tail c of
             None \<Rightarrow> Inl 1
           | Some ranges \<Rightarrow>
               (let (n, done) = match_tail ranges rest in if done then Inr (Suc n) else Inl (Suc n))))"

lemma lossy_char_positive: "lossy_char s = Inr n \<Longrightarrow> 0 < n" "lossy_char s = Inl n \<Longrightarrow> 0 < n"
  by (auto simp: lossy_char_def Let_def split: list.splits option.splits prod.splits if_splits)

function from_utf8_lossy :: "string \<Rightarrow> string" where
  "from_utf8_lossy s =
     (if s = [] then []
      else case lossy_char s of
             Inr n \<Rightarrow> take n s @ from_utf8_lossy (drop n s)
           | Inl n \<Rightarrow> [CHR 0xEF, CHR 0xBF, CHR 0xBD] @ from_utf8_lossy (drop n s))"
  by auto

termination from_utf8_lossy
  by (relation "measure length") (auto dest: lossy_char_positive)

declare from_utf8_lossy.simps [simp del]

definition parse_inbound_cot_payload :: "(string \<Rightarrow> xml_event list) \<Rightarrow> string \<Rightarrow> bool \<Rightarrow> inbound_cot_result" where
  "parse_inbound_cot_payload read bytes parse =
     (let raw = from_utf8_lossy bytes
      in if \<not> parse then RawCot raw
         else case parse_inbound_cot_event read raw of None \<Rightarrow> RawCot raw | Some found \<Rightarrow> ParsedCot found)"

subsection \<open>Payloads on the wire\<close>

text \<open>A protobuf message with its length in front, seven bits a byte, the lowest first.\<close>

definition varint_step :: "64 word \<times> string \<Rightarrow> 64 word \<times> string" where
  "varint_step = (\<lambda>(v, output).
     (drop_bit 7 v,
      output @ [char_of (if drop_bit 7 v \<noteq> 0 then unat (v AND 0x7f) + 0x80 else unat (v AND 0x7f))]))"

text \<open>The loop writes a byte before it looks whether it is done.\<close>

definition encode_u64_varint :: "64 word \<Rightarrow> string \<Rightarrow> string option" where
  "encode_u64_varint v output =
     map_option snd (while_option (\<lambda>(v, _). v \<noteq> 0) varint_step (varint_step (v, output)))"

record tak_proto_event =
  tp_type :: string
  tp_access :: string
  tp_uid :: string
  tp_send_time :: "64 word"
  tp_start_time :: "64 word"
  tp_stale_time :: "64 word"
  tp_how :: string
  tp_point :: cot_point
  tp_detail :: "string option"

definition parse_cot_timestamp_millis :: "tak_host \<Rightarrow> string \<Rightarrow> 64 word option" where
  "parse_cot_timestamp_millis th text =
     (case th_parse_rfc3339 th text of
        None \<Rightarrow> None
      | Some t \<Rightarrow> (let millis = t div 10 ^ 6 in if millis < 0 then None else Some (word_of_int millis)))"

definition cot_detail_xml :: "string \<Rightarrow> string option" where
  "cot_detail_xml xml =
     (case find_window ''<detail'' xml of
        None \<Rightarrow> None
      | Some detail_start \<Rightarrow>
          (case find_window ''>'' (drop detail_start xml) of
             None \<Rightarrow> None
           | Some tag_end \<Rightarrow>
               (let content = drop (detail_start + tag_end + 1) xml
                in case find_window ''</detail>'' content of
                     None \<Rightarrow> None
                   | Some content_length \<Rightarrow>
                       filter_opt (\<lambda>detail. detail \<noteq> []) (Some (trim (take content_length content))))))"

definition cot_xml_to_tak_proto_frame ::
  "tak_host \<Rightarrow> (string \<Rightarrow> xml_event list) \<Rightarrow> (tak_proto_event \<Rightarrow> string) \<Rightarrow> string \<Rightarrow> string option" where
  "cot_xml_to_tak_proto_frame th read encode xml =
     (case parse_inbound_cot_event read xml of
        None \<Rightarrow> None
      | Some found \<Rightarrow>
          (case (parse_cot_timestamp_millis th (ic_time found), parse_cot_timestamp_millis th (ic_start found),
                 parse_cot_timestamp_millis th (ic_stale found)) of
             (Some send_time, Some start_time, Some stale_time) \<Rightarrow>
               (let message = \<lparr>tp_type = ic_event_type found, tp_access = unwrap_or (ic_access found) [],
                      tp_uid = ic_uid found, tp_send_time = send_time, tp_start_time = start_time,
                      tp_stale_time = stale_time, tp_how = ic_how found, tp_point = ic_point found,
                      tp_detail = cot_detail_xml xml\<rparr>;
                    proto_payload = encode message
                in map_option (\<lambda>header. header @ proto_payload)
                     (encode_u64_varint (of_nat (length proto_payload)) [CHR 0xBF]))
           | _ \<Rightarrow> None))"

subsection \<open>The queue\<close>

datatype cot_payload_kind = LocationCot | ChatCot | PingCot | KeepaliveCot

record cot_payload =
  cp_kind :: cot_payload_kind
  cp_xml :: string

text \<open>The counters are \<open>u64\<close> and stop at their greatest value.\<close>

definition saturating_add :: "nat \<Rightarrow> nat \<Rightarrow> nat" where
  "saturating_add a b = min (a + b) (2 ^ 64 - 1)"

record tak_outbound_queue =
  tq_capacity :: nat
  tq_pending :: "cot_payload list"
  tq_enqueued :: nat
  tq_dropped_full :: nat

definition new_tak_queue :: "nat \<Rightarrow> tak_outbound_queue" where
  "new_tak_queue capacity = \<lparr>tq_capacity = capacity, tq_pending = [], tq_enqueued = 0, tq_dropped_full = 0\<rparr>"

definition tak_push :: "cot_payload \<Rightarrow> tak_outbound_queue \<Rightarrow> tak_outbound_queue \<times> (tak_connector_error + unit)" where
  "tak_push payload q =
     (if tq_capacity q \<le> length (tq_pending q) then
        (q\<lparr>tq_dropped_full := saturating_add (tq_dropped_full q) 1\<rparr>, Inl QueueFull)
      else (q\<lparr>tq_pending := tq_pending q @ [payload], tq_enqueued := saturating_add (tq_enqueued q) 1\<rparr>, Inr ()))"

definition tak_pop :: "tak_outbound_queue \<Rightarrow> tak_outbound_queue \<times> cot_payload option" where
  "tak_pop q = (case tq_pending q of [] \<Rightarrow> (q, None) | p # ps \<Rightarrow> (q\<lparr>tq_pending := ps\<rparr>, Some p))"

text \<open>What a call has built to send, the error of building it, or a panic.\<close>

type_synonym built_payload = "(tak_connector_error + cot_payload) option"

definition location_payload ::
  "tak_host \<Rightarrow> tak_connection_config \<Rightarrow> location_snapshot \<Rightarrow> instant \<Rightarrow> string option \<Rightarrow> built_payload" where
  "location_payload th config snap now label =
     map_option (\<lambda>xml. Inr \<lparr>cp_kind = LocationCot, cp_xml = xml\<rparr>) (build_location_xml th config snap now label)"

definition chat_payload ::
  "tak_host \<Rightarrow> tak_connection_config \<Rightarrow> string \<Rightarrow> chat_event_input \<Rightarrow> built_payload" where
  "chat_payload th config drawn_id input =
     map_option (\<lambda>r. case r of Inl e \<Rightarrow> Inl e | Inr xml \<Rightarrow> Inr \<lparr>cp_kind = ChatCot, cp_xml = xml\<rparr>)
       (build_chat_xml th config drawn_id input)"

definition ping_payload :: "tak_host \<Rightarrow> tak_connection_config \<Rightarrow> instant \<Rightarrow> built_payload" where
  "ping_payload th config now =
     map_option (\<lambda>xml. Inr \<lparr>cp_kind = PingCot, cp_xml = xml\<rparr>) (build_ping_xml th config now)"

definition keepalive_payload :: "tak_host \<Rightarrow> instant \<Rightarrow> built_payload" where
  "keepalive_payload th now =
     map_option (\<lambda>xml. Inr \<lparr>cp_kind = KeepaliveCot, cp_xml = xml\<rparr>) (build_keepalive_xml th now)"

definition enqueue_payload ::
  "tak_connector_error + cot_payload \<Rightarrow> tak_outbound_queue \<Rightarrow> tak_outbound_queue \<times> (tak_connector_error + unit)" where
  "enqueue_payload built q = (case built of Inl e \<Rightarrow> (q, Inl e) | Inr payload \<Rightarrow> tak_push payload q)"

record tak_queue_stats =
  qs_capacity :: nat
  qs_pending :: nat
  qs_enqueued :: nat
  qs_dropped_full :: nat

definition queue_stats :: "tak_outbound_queue \<Rightarrow> tak_queue_stats" where
  "queue_stats q =
     \<lparr>qs_capacity = tq_capacity q, qs_pending = length (tq_pending q), qs_enqueued = tq_enqueued q,
      qs_dropped_full = tq_dropped_full q\<rparr>"

text \<open>A sender writes a payload to the world it acts on, or fails.\<close>

type_synonym 'w tak_sender = "cot_payload \<Rightarrow> 'w \<Rightarrow> 'w \<times> (tak_connector_error + unit)"

fun drain_payloads ::
  "'w tak_sender \<Rightarrow> cot_payload list \<Rightarrow> nat \<Rightarrow> 'w \<Rightarrow> 'w \<times> cot_payload list \<times> (tak_connector_error + nat)" where
  "drain_payloads send [] sent w = (w, [], Inr sent)"
| "drain_payloads send (payload # pending) sent w =
     (case send payload w of
        (w, Inl e) \<Rightarrow> (w, payload # pending, Inl e)
      | (w, Inr _) \<Rightarrow> drain_payloads send pending (Suc sent) w)"

definition drain_queue_to_sender ::
  "'w tak_sender \<Rightarrow> tak_outbound_queue \<Rightarrow> 'w \<Rightarrow> 'w \<times> tak_outbound_queue \<times> (tak_connector_error + nat)" where
  "drain_queue_to_sender send q w =
     (let (w, pending, r) = drain_payloads send (tq_pending q) 0 w in (w, q\<lparr>tq_pending := pending\<rparr>, r))"

subsection \<open>The service that sends\<close>

datatype tak_service_state = TakStopped | TakRunning

record tak_service =
  sv_config :: tak_connection_config
  sv_queue :: tak_outbound_queue
  sv_state :: tak_service_state
  sv_total_sent :: nat
  sv_total_failed :: nat
  sv_last_error :: "string option"

record tak_service_status =
  ss_state :: tak_service_state
  ss_queue :: tak_queue_stats
  ss_total_sent :: nat
  ss_total_failed :: nat
  ss_last_error :: "string option"

record tak_dispatch_report =
  dr_enqueued :: bool
  dr_sent :: nat
  dr_status :: tak_service_status
  dr_error :: "string option"

definition new_tak_service :: "tak_connection_config \<Rightarrow> nat \<Rightarrow> tak_service" where
  "new_tak_service config queue_capacity =
     \<lparr>sv_config = config, sv_queue = new_tak_queue (max queue_capacity 1), sv_state = TakStopped,
      sv_total_sent = 0, sv_total_failed = 0, sv_last_error = None\<rparr>"

definition start_tak_service :: "tak_service \<Rightarrow> tak_service" where
  "start_tak_service s = s\<lparr>sv_state := TakRunning\<rparr>"

definition stop_tak_service :: "tak_service \<Rightarrow> tak_service" where
  "stop_tak_service s = s\<lparr>sv_state := TakStopped\<rparr>"

definition tak_status :: "tak_service \<Rightarrow> tak_service_status" where
  "tak_status s =
     \<lparr>ss_state = sv_state s, ss_queue = queue_stats (sv_queue s), ss_total_sent = sv_total_sent s,
      ss_total_failed = sv_total_failed s, ss_last_error = sv_last_error s\<rparr>"

definition tak_failure :: "bool \<Rightarrow> tak_connector_error \<Rightarrow> tak_service \<Rightarrow> tak_service \<times> tak_dispatch_report" where
  "tak_failure enqueued e s =
     (let s = s\<lparr>sv_total_failed := saturating_add (sv_total_failed s) 1, sv_last_error := Some (tak_error_text e)\<rparr>
      in (s, \<lparr>dr_enqueued = enqueued, dr_sent = 0, dr_status = tak_status s,
              dr_error = Some (tak_error_text e)\<rparr>))"

definition flush_after_enqueue ::
  "'w tak_sender \<Rightarrow> tak_connector_error + unit \<Rightarrow> tak_service \<Rightarrow> 'w \<Rightarrow> 'w \<times> tak_service \<times> tak_dispatch_report" where
  "flush_after_enqueue send enqueue_result s w =
     (case enqueue_result of
        Inl e \<Rightarrow> (w, tak_failure False e s)
      | Inr _ \<Rightarrow>
          (case drain_queue_to_sender send (sv_queue s) w of
             (w, q, Inr sent) \<Rightarrow>
               (let s = s\<lparr>sv_queue := q, sv_total_sent := saturating_add (sv_total_sent s) sent, sv_last_error := None\<rparr>
                in (w, s, \<lparr>dr_enqueued = True, dr_sent = sent, dr_status = tak_status s, dr_error = None\<rparr>))
           | (w, q, Inl e) \<Rightarrow> (w, tak_failure True e (s\<lparr>sv_queue := q\<rparr>))))"

text \<open>
  \<open>enqueue_chat\<close>, \<open>enqueue_location\<close>, \<open>enqueue_ping\<close>, \<open>enqueue_keepalive\<close> and
  \<open>flush_once\<close> of the service: an error of the call itself when the service is stopped.
\<close>

type_synonym 'w tak_answer = "('w \<times> tak_service \<times> (tak_connector_error + tak_dispatch_report)) option"

definition enqueue_built ::
  "'w tak_sender \<Rightarrow> built_payload \<Rightarrow> tak_service \<Rightarrow> 'w \<Rightarrow> 'w tak_answer" where
  "enqueue_built send built s w =
     (if sv_state s \<noteq> TakRunning then Some (w, s, Inl ServiceStopped)
      else map_option (\<lambda>built.
             (let (q, enqueue_result) = enqueue_payload built (sv_queue s);
                  (w, s, report) = flush_after_enqueue send enqueue_result (s\<lparr>sv_queue := q\<rparr>) w
              in (w, s, Inr report))) built)"

definition flush_once :: "'w tak_sender \<Rightarrow> tak_service \<Rightarrow> 'w \<Rightarrow> 'w tak_answer" where
  "flush_once send s w =
     (if sv_state s \<noteq> TakRunning then Some (w, s, Inl ServiceStopped)
      else (let (w, s, report) = flush_after_enqueue send (Inr ()) s w in Some (w, s, Inr report)))"

subsection \<open>The worker that sends\<close>

definition TAK_WORKER_MAX_BACKOFF :: nat where
  "TAK_WORKER_MAX_BACKOFF = 30 * 10 ^ 9"

text \<open>Intervals are in nanoseconds; doubling one saturates far beyond the greatest backoff.\<close>

definition tak_worker_interval_after_report :: "nat \<Rightarrow> nat \<Rightarrow> tak_dispatch_report \<Rightarrow> nat" where
  "tak_worker_interval_after_report current_interval base_interval report =
     (if dr_error report \<noteq> None then min (current_interval * 2) TAK_WORKER_MAX_BACKOFF else base_interval)"

record tak_worker =
  wk_last_ping :: "nat option"
  wk_last_keepalive :: "nat option"
  wk_interval :: nat

text \<open>\<open>if let Ok(report)\<close>: the interval after a report, and whether it reports an error.\<close>

fun note_report :: "nat \<Rightarrow> nat \<Rightarrow> bool \<Rightarrow> tak_connector_error + tak_dispatch_report \<Rightarrow> nat \<times> bool" where
  "note_report base interval failed (Inl e) = (interval, failed)"
| "note_report base interval failed (Inr report) =
     (tak_worker_interval_after_report interval base report, dr_error report \<noteq> None)"

definition tak_due :: "nat \<Rightarrow> nat \<Rightarrow> nat option \<Rightarrow> bool" where
  "tak_due now keepalive_interval last_sent =
     (case last_sent of None \<Rightarrow> True | Some l \<Rightarrow> keepalive_interval \<le> now - l)"

definition worker_flush ::
  "'w tak_sender \<Rightarrow> nat \<Rightarrow> tak_worker \<Rightarrow> tak_service \<Rightarrow> 'w \<Rightarrow> ('w \<times> tak_service \<times> tak_worker \<times> bool) option" where
  "worker_flush send base k s w =
     (if sv_state s = TakRunning \<and> tq_pending (sv_queue s) \<noteq> [] then
        map_option (\<lambda>(w, s, r).
            let (interval, failed) = note_report base (wk_interval k) False r
            in (w, s, k\<lparr>wk_interval := interval\<rparr>, failed)) (flush_once send s w)
      else Some (w, s, k, False))"

definition worker_ping ::
  "tak_host \<Rightarrow> 'w tak_sender \<Rightarrow> nat \<Rightarrow> nat \<Rightarrow> nat \<Rightarrow> instant \<Rightarrow> tak_worker \<Rightarrow> tak_service \<Rightarrow> 'w
     \<Rightarrow> ('w \<times> tak_service \<times> tak_worker \<times> bool) option" where
  "worker_ping th send base keepalive_interval now utc k s w =
     (if tak_due now keepalive_interval (wk_last_ping k) then
        map_option (\<lambda>(w, s, r).
            let (interval, failed) = note_report base (wk_interval k) False r
            in (w, s, k\<lparr>wk_interval := interval, wk_last_ping := Some now\<rparr>, failed))
          (enqueue_built send (ping_payload th (sv_config s) utc) s w)
      else Some (w, s, k, False))"

definition worker_keepalive ::
  "tak_host \<Rightarrow> 'w tak_sender \<Rightarrow> nat \<Rightarrow> nat \<Rightarrow> nat \<Rightarrow> instant \<Rightarrow> tak_worker \<Rightarrow> tak_service \<Rightarrow> 'w
     \<Rightarrow> ('w \<times> tak_service \<times> tak_worker) option" where
  "worker_keepalive th send base keepalive_interval now utc k s w =
     (if tak_due now keepalive_interval (wk_last_keepalive k) then
        map_option (\<lambda>(w, s, r).
            let (interval, failed) = note_report base (wk_interval k) False r
            in (w, s, k\<lparr>wk_interval := interval, wk_last_keepalive := Some now\<rparr>))
          (enqueue_built send (keepalive_payload th utc) s w)
      else Some (w, s, k))"

text \<open>One turn of the loop; the clock is read once for the ping and once for the keepalive.\<close>

definition tak_worker_turn ::
  "tak_host \<Rightarrow> 'w tak_sender \<Rightarrow> nat \<Rightarrow> nat \<Rightarrow> nat \<Rightarrow> instant \<Rightarrow> instant \<Rightarrow> tak_worker \<Rightarrow> tak_service \<Rightarrow> 'w
     \<Rightarrow> ('w \<times> tak_service \<times> tak_worker) option" where
  "tak_worker_turn th send base keepalive_interval now utc_ping utc_keepalive k s w =
     (case worker_flush send base k s w of
        None \<Rightarrow> None
      | Some (w, s, k, send_failed) \<Rightarrow>
          if sv_state s \<noteq> TakRunning \<or> send_failed then Some (w, s, k)
          else (case worker_ping th send base keepalive_interval now utc_ping k s w of
                  None \<Rightarrow> None
                | Some (w, s, k, send_failed) \<Rightarrow>
                    if send_failed then Some (w, s, k)
                    else worker_keepalive th send base keepalive_interval now utc_keepalive k s w))"

definition spawn_tak_worker :: "nat \<Rightarrow> tak_service \<Rightarrow> (nat \<times> nat \<times> tak_worker \<times> tak_service) option" where
  "spawn_tak_worker retry_interval s =
     map_option (\<lambda>keepalive_interval.
       let base = max retry_interval (10 ^ 6)
       in (base, keepalive_interval, \<lparr>wk_last_ping = None, wk_last_keepalive = None, wk_interval = base\<rparr>,
           start_tak_service s))
       (duration_from_secs_f64 (f64_max (tcc_keepalive_interval_seconds (sv_config s)) (Fin 1)))"

subsection \<open>The service that receives\<close>

datatype inbound_result_kind = ParsedKind | RawKind

record tak_inbound_service =
  ib_parse_inbound :: bool
  ib_state :: tak_service_state
  ib_total_received :: nat
  ib_total_failed :: nat
  ib_last_error :: "string option"
  ib_last_result_kind :: "inbound_result_kind option"

record tak_inbound_report =
  ir_received :: bool
  ir_result :: "inbound_cot_result option"
  ir_status :: tak_inbound_service
  ir_error :: "string option"

type_synonym 'w tak_receiver = "'w \<Rightarrow> 'w \<times> (tak_connector_error + string option)"

definition new_tak_inbound :: "bool \<Rightarrow> tak_inbound_service" where
  "new_tak_inbound parse_inbound =
     \<lparr>ib_parse_inbound = parse_inbound, ib_state = TakStopped, ib_total_received = 0, ib_total_failed = 0,
      ib_last_error = None, ib_last_result_kind = None\<rparr>"

definition result_kind :: "inbound_cot_result \<Rightarrow> inbound_result_kind" where
  "result_kind r = (case r of ParsedCot _ \<Rightarrow> ParsedKind | RawCot _ \<Rightarrow> RawKind)"

text \<open>The status of the service is its own state.\<close>

definition poll_once ::
  "(string \<Rightarrow> xml_event list) \<Rightarrow> 'w tak_receiver \<Rightarrow> tak_inbound_service \<Rightarrow> 'w
     \<Rightarrow> 'w \<times> tak_inbound_service \<times> (tak_connector_error + tak_inbound_report)" where
  "poll_once read receive s w =
     (if ib_state s \<noteq> TakRunning then (w, s, Inl ServiceStopped)
      else (case receive w of
         (w, Inr (Some payload)) \<Rightarrow>
           (let result = parse_inbound_cot_payload read payload (ib_parse_inbound s);
                s = s\<lparr>ib_total_received := saturating_add (ib_total_received s) 1, ib_last_error := None,
                      ib_last_result_kind := Some (result_kind result)\<rparr>
            in (w, s, Inr \<lparr>ir_received = True, ir_result = Some result, ir_status = s, ir_error = None\<rparr>))
       | (w, Inr None) \<Rightarrow> (w, s, Inr \<lparr>ir_received = False, ir_result = None, ir_status = s, ir_error = None\<rparr>)
       | (w, Inl e) \<Rightarrow>
           (let s = s\<lparr>ib_total_failed := saturating_add (ib_total_failed s) 1,
                      ib_last_error := Some (tak_error_text e)\<rparr>
            in (w, s, Inr \<lparr>ir_received = False, ir_result = None, ir_status = s,
                           ir_error = Some (tak_error_text e)\<rparr>))))"

definition tak_inbound_interval_after_report :: "nat \<Rightarrow> nat \<Rightarrow> tak_inbound_report \<Rightarrow> nat" where
  "tak_inbound_interval_after_report current_interval base_interval report =
     (if ir_error report \<noteq> None then min (current_interval * 2) TAK_WORKER_MAX_BACKOFF else base_interval)"

definition inbound_worker_turn ::
  "(string \<Rightarrow> xml_event list) \<Rightarrow> 'w tak_receiver \<Rightarrow> nat \<Rightarrow> nat \<Rightarrow> tak_inbound_service \<Rightarrow> 'w
     \<Rightarrow> 'w \<times> tak_inbound_service \<times> nat" where
  "inbound_worker_turn read receive base interval s w =
     (case poll_once read receive s w of
        (w, s, Inl _) \<Rightarrow> (w, s, interval)
      | (w, s, Inr report) \<Rightarrow> (w, s, tak_inbound_interval_after_report interval base report))"

end
