(* ===== verification/Tak_Rules.thy ===== *)
theory Tak_Rules
  imports Tak
begin

text \<open>
  What the TAK connector guarantees: the payloads of its queue reach the sender in the order they were
  accepted and none is lost or doubled, the texts of an event cannot become markup, and the length in
  front of a payload can be read back.
\<close>

subsection \<open>Calls of the service\<close>

datatype tak_call =
    StartTak
  | StopTak
  | SendLocation location_snapshot instant "string option"
  | SendChat string chat_event_input
  | SendPing instant
  | SendKeepalive instant
  | FlushTak

fun call_payload :: "tak_host \<Rightarrow> tak_connection_config \<Rightarrow> tak_call \<Rightarrow> built_payload" where
  "call_payload th config (SendLocation snap now label) = location_payload th config snap now label"
| "call_payload th config (SendChat drawn_id input) = chat_payload th config drawn_id input"
| "call_payload th config (SendPing now) = ping_payload th config now"
| "call_payload th config (SendKeepalive now) = keepalive_payload th now"
| "call_payload th config _ = None"

fun run_tak_call :: "tak_host \<Rightarrow> 'w tak_sender \<Rightarrow> tak_call \<Rightarrow> tak_service \<Rightarrow> 'w \<Rightarrow> ('w \<times> tak_service) option" where
  "run_tak_call th send StartTak s w = Some (w, start_tak_service s)"
| "run_tak_call th send StopTak s w = Some (w, stop_tak_service s)"
| "run_tak_call th send FlushTak s w = map_option (\<lambda>(w, s, _). (w, s)) (flush_once send s w)"
| "run_tak_call th send call s w =
     map_option (\<lambda>(w, s, _). (w, s)) (enqueue_built send (call_payload th (sv_config s) call) s w)"

fun run_tak_calls :: "tak_host \<Rightarrow> 'w tak_sender \<Rightarrow> tak_call list \<Rightarrow> tak_service \<Rightarrow> 'w \<Rightarrow> ('w \<times> tak_service) option" where
  "run_tak_calls th send [] s w = Some (w, s)"
| "run_tak_calls th send (call # calls) s w =
     (case run_tak_call th send call s w of None \<Rightarrow> None | Some (w, s) \<Rightarrow> run_tak_calls th send calls s w)"

text \<open>What the queue accepts of a call: its payload, when the service runs and there is room.\<close>

definition tak_accepts :: "tak_host \<Rightarrow> tak_call \<Rightarrow> tak_service \<Rightarrow> cot_payload list" where
  "tak_accepts th call s =
     (if sv_state s = TakRunning \<and> length (tq_pending (sv_queue s)) < tq_capacity (sv_queue s) then
        (case call_payload th (sv_config s) call of Some (Inr payload) \<Rightarrow> [payload] | _ \<Rightarrow> [])
      else [])"

fun tak_accepted :: "tak_host \<Rightarrow> 'w tak_sender \<Rightarrow> tak_call list \<Rightarrow> tak_service \<Rightarrow> 'w \<Rightarrow> cot_payload list" where
  "tak_accepted th send [] s w = []"
| "tak_accepted th send (call # calls) s w =
     tak_accepts th call s @
     (case run_tak_call th send call s w of None \<Rightarrow> [] | Some (w, s) \<Rightarrow> tak_accepted th send calls s w)"

text \<open>A sender that writes down what it has delivered.\<close>

definition logged :: "'w tak_sender \<Rightarrow> ('w \<times> cot_payload list) tak_sender" where
  "logged send payload x =
     (case x of (w, delivered) \<Rightarrow>
        (case send payload w of
           (w, Inl e) \<Rightarrow> ((w, delivered), Inl e)
         | (w, Inr u) \<Rightarrow> ((w, delivered @ [payload]), Inr u)))"

lemma logged_simps [simp]:
  "logged send p (w, sent) = (case send p w of (w, Inl e) \<Rightarrow> ((w, sent), Inl e) | (w, Inr u) \<Rightarrow> ((w, sent @ [p]), Inr ()))"
  by (simp add: logged_def)

lemma drain_logged:
  "drain_payloads (logged send) ps n (w, sent) = ((w', sent'), ps', r) \<Longrightarrow>
     sent' @ ps' = sent @ ps \<and> length ps' \<le> length ps \<and> (\<forall>k. r = Inr k \<longrightarrow> ps' = [] \<and> k = n + length ps)"
  by (induction ps arbitrary: n w sent) (fastforce split: prod.splits sum.splits)+

lemma flush_logged:
  assumes "flush_after_enqueue (logged send) r s (w, sent) = ((w', sent'), s', report)"
  shows "sent' @ tq_pending (sv_queue s') = sent @ tq_pending (sv_queue s)"
    and "length (tq_pending (sv_queue s')) \<le> length (tq_pending (sv_queue s))"
    and "tq_capacity (sv_queue s') = tq_capacity (sv_queue s)" and "tq_enqueued (sv_queue s') = tq_enqueued (sv_queue s)"
    and "dr_error report = None \<Longrightarrow> tq_pending (sv_queue s') = []"
  using assms drain_logged [of send "tq_pending (sv_queue s)" 0 w sent]
  by (auto simp: flush_after_enqueue_def tak_failure_def drain_queue_to_sender_def Let_def split: sum.splits prod.splits)

definition tak_queue_ok :: "tak_service \<Rightarrow> bool" where
  "tak_queue_ok s \<longleftrightarrow>
     length (tq_pending (sv_queue s)) \<le> tq_capacity (sv_queue s) \<and> tq_enqueued (sv_queue s) < 2 ^ 64"

lemma enqueue_logged:
  assumes "enqueue_built (logged send) built s (w, sent) = Some ((w', sent'), s', r)"
  shows "sent' @ tq_pending (sv_queue s') = sent @ tq_pending (sv_queue s)
      @ (if sv_state s = TakRunning \<and> length (tq_pending (sv_queue s)) < tq_capacity (sv_queue s)
         then (case built of Some (Inr payload) \<Rightarrow> [payload] | _ \<Rightarrow> []) else [])
    \<and> (tak_queue_ok s \<longrightarrow> tak_queue_ok s')"
proof (cases "sv_state s = TakRunning")
  case running: True
  with assms obtain b q e report where b: "built = Some b" and q: "enqueue_payload b (sv_queue s) = (q, e)"
    and f: "flush_after_enqueue (logged send) e (s\<lparr>sv_queue := q\<rparr>) (w, sent) = ((w', sent'), s', report)"
    using prod.exhaust [of "enqueue_payload z (sv_queue s)" for z]
    by (cases built; cases "enqueue_payload (the built) (sv_queue s)")
       (auto simp: enqueue_built_def Let_def split: prod.splits)
  note flush_logged [OF f]
  then show ?thesis
    using b q running
    by (auto simp: enqueue_payload_def tak_push_def tak_queue_ok_def saturating_add_def split: sum.splits if_splits)
qed (use assms in \<open>auto simp: enqueue_built_def\<close>)

lemma call_logged:
  assumes "run_tak_call th (logged send) call s (w, sent) = Some ((w', sent'), s')"
  shows "sent' @ tq_pending (sv_queue s') = sent @ tq_pending (sv_queue s) @ tak_accepts th call s
    \<and> (tak_queue_ok s \<longrightarrow> tak_queue_ok s')"
proof -
  have enqueued: "?thesis" if "run_tak_call th (logged send) call s (w, sent) =
      map_option (\<lambda>(w, s, _). (w, s)) (enqueue_built (logged send) (call_payload th (sv_config s) call) s (w, sent))"
  proof -
    from assms that obtain r where
      "enqueue_built (logged send) (call_payload th (sv_config s) call) s (w, sent) = Some ((w', sent'), s', r)"
      by auto
    from enqueue_logged [OF this] show ?thesis by (simp add: tak_accepts_def)
  qed
  show ?thesis
  proof (cases call)
    case flush: FlushTak
    show ?thesis
    proof (cases "sv_state s = TakRunning")
      case True
      with assms flush obtain report where
        "flush_after_enqueue (logged send) (Inr ()) s (w, sent) = ((w', sent'), s', report)"
        by (auto simp: flush_once_def split: prod.splits)
      from flush_logged [OF this] flush show ?thesis by (auto simp: tak_accepts_def tak_queue_ok_def)
    next
      case False
      with assms flush show ?thesis by (auto simp: flush_once_def tak_accepts_def)
    qed
  next
    case StartTak
    with assms show ?thesis by (auto simp: start_tak_service_def tak_accepts_def tak_queue_ok_def)
  next
    case StopTak
    with assms show ?thesis by (auto simp: stop_tak_service_def tak_accepts_def tak_queue_ok_def)
  qed (use enqueued in auto)
qed

lemma calls_logged:
  assumes "run_tak_calls th (logged send) calls s (w, sent) = Some ((w', sent'), s')"
  shows "sent' @ tq_pending (sv_queue s') = sent @ tq_pending (sv_queue s) @ tak_accepted th (logged send) calls s (w, sent)
    \<and> (tak_queue_ok s \<longrightarrow> tak_queue_ok s')"
  using assms
proof (induction calls arbitrary: s w sent)
  case (Cons call calls)
  then obtain w1 sent1 s1 where one: "run_tak_call th (logged send) call s (w, sent) = Some ((w1, sent1), s1)"
    and rest: "run_tak_calls th (logged send) calls s1 (w1, sent1) = Some ((w', sent'), s')"
    by (auto split: option.splits)
  from call_logged [OF one] Cons.IH [OF rest] one show ?case by auto
qed simp

text \<open>A service that is stopped sends nothing and changes nothing until it is started.\<close>

lemma stopped_call:
  "sv_state s = TakStopped \<Longrightarrow> call \<noteq> StartTak \<Longrightarrow> run_tak_call th send call s w = Some (w, s)"
  by (cases call) (auto simp: enqueue_built_def flush_once_def stop_tak_service_def)

text \<open>A flush that reports no error leaves the queue empty.\<close>

lemma flushed_empty:
  assumes "flush_once (logged send) s (w, sent) = Some ((w', sent'), s', Inr report)" and "dr_error report = None"
  shows "tq_pending (sv_queue s') = [] \<and> sent' = sent @ tq_pending (sv_queue s)"
proof -
  from assms(1) have "flush_after_enqueue (logged send) (Inr ()) s (w, sent) = ((w', sent'), s', report)"
    by (auto simp: flush_once_def split: if_splits prod.splits)
  from flush_logged [OF this] assms(2) show ?thesis by simp
qed

subsection \<open>Texts are no markup\<close>

definition escape_attr_char :: "char \<Rightarrow> string" where
  "escape_attr_char c =
     (if c = CHR ''&'' then ''&amp;'' else if c = CHR 0x22 then ''&quot;'' else if c = CHR ''<'' then ''&lt;''
      else if c = CHR ''>'' then ''&gt;'' else [c])"

definition escape_text_char :: "char \<Rightarrow> string" where
  "escape_text_char c =
     (if c = CHR ''&'' then ''&amp;'' else if c = CHR ''<'' then ''&lt;''
      else if c = CHR ''>'' then ''&gt;'' else [c])"

lemma replace_char_by_simps [simp]:
  "replace_char_by c t [] = []" "replace_char_by c t (x # s) = (if x = c then t else [x]) @ replace_char_by c t s"
  "replace_char_by c t (s @ s') = replace_char_by c t s @ replace_char_by c t s'"
  by (simp_all add: replace_char_by_def)

lemma escape_attr_chars: "escape_attr s = concat (map escape_attr_char s)"
  by (induction s) (simp_all add: escape_attr_def escape_attr_char_def)

lemma escape_text_chars: "escape_text s = concat (map escape_text_char s)"
  by (induction s) (simp_all add: escape_text_def escape_text_char_def)

text \<open>What an XML reader makes of the entities.\<close>

function unescape :: "string \<Rightarrow> string" where
  "unescape s =
     (case s of [] \<Rightarrow> []
      | c # r \<Rightarrow>
          if take 5 s = ''&amp;'' then CHR ''&'' # unescape (drop 5 s)
          else if take 6 s = ''&quot;'' then CHR 0x22 # unescape (drop 6 s)
          else if take 4 s = ''&lt;'' then CHR ''<'' # unescape (drop 4 s)
          else if take 4 s = ''&gt;'' then CHR ''>'' # unescape (drop 4 s)
          else c # unescape r)"
  by auto

termination unescape by (relation "measure length") auto

declare unescape.simps [simp del]

lemma unescape_attr_char: "unescape (escape_attr_char c @ s) = c # unescape s"
  by (subst unescape.simps) (auto simp: escape_attr_char_def)

lemma unescape_text_char: "unescape (escape_text_char c @ s) = c # unescape s"
  by (subst unescape.simps) (auto simp: escape_text_char_def)

lemma unescape_Nil [simp]: "unescape [] = []" by (subst unescape.simps) simp

lemma unescape_attr: "unescape (escape_attr s) = s"
  by (induction s) (simp_all add: escape_attr_chars unescape_attr_char)

lemma unescape_text: "unescape (escape_text s) = s"
  by (induction s) (simp_all add: escape_text_chars unescape_text_char)

lemma escape_text_no_bracket: "CHR ''<'' \<notin> set (escape_text s)"
  by (induction s) (simp_all add: escape_text_chars escape_text_char_def)

text \<open>The characters that make markup.\<close>

definition markup_chars :: string where "markup_chars = [CHR ''<'', CHR ''>'', CHR 0x22]"

definition markup :: "string \<Rightarrow> string" where
  "markup s = filter (\<lambda>c. c \<in> set markup_chars) s"

lemma markup_simps [simp]:
  "markup [] = []" "markup (s @ t) = markup s @ markup t"
  "markup (c # s) = (if c \<in> set markup_chars then c # markup s else markup s)"
  by (simp_all add: markup_def)

lemma markup_escape_attr [simp]: "markup (escape_attr s) = []"
  by (induction s) (simp_all add: escape_attr_chars escape_attr_char_def markup_chars_def)

lemma markup_digits [simp]: "markup (show_nat n) = []"
proof -
  have "list_all (\<lambda>c. c \<notin> set markup_chars) (show_nat n)"
    using show_nat_digits [of n] by (auto simp: list_all_iff markup_chars_def is_ascii_digit_def code_def)
  then show ?thesis by (simp add: markup_def filter_empty_conv list_all_iff)
qed

lemma markup_replicate: "markup (replicate n c) = (if c \<in> set markup_chars then replicate n c else [])"
  by (simp add: markup_def)

lemma markup_padded [simp]: "markup (padded n i) = []"
  by (simp add: padded_def Let_def markup_replicate markup_chars_def)

lemma markup_date [simp]:
  "markup (format_cot_seconds th t) = []" "markup (format_cot_millis th t) = []" "markup (format_cot_micros th t) = []"
  by (simp_all add: format_cot_seconds_def format_cot_millis_def format_cot_micros_def cot_date_def markup_chars_def)

lemma markup_attribute [simp]: "markup (xml_attribute (n, v)) = markup n @ CHR 0x22 # markup v @ [CHR 0x22]"
  by (simp add: xml_attribute_def markup_chars_def)

lemma markup_attributes [simp]:
  "markup (xml_attributes []) = []"
  "markup (xml_attributes (nv # attrs)) = markup (xml_attribute nv) @ markup (xml_attributes attrs)"
  by (simp_all add: xml_attributes_def)

text \<open>The markup of a tag with some attributes, and the tags of a chat event around its text.\<close>

definition tag_markup :: "nat \<Rightarrow> string" where
  "tag_markup attributes = ''<'' @ replicate (2 * attributes) (CHR 0x22) @ ''>''"

lemma markup_tag:
  "markup name = [] \<Longrightarrow> list_all (\<lambda>(n, v). markup n = [] \<and> markup v = []) attrs \<Longrightarrow>
     markup (open_tag name attrs) = tag_markup (length attrs) \<and> markup (empty_tag name attrs) = tag_markup (length attrs)"
proof -
  assume name: "markup name = []" and attrs: "list_all (\<lambda>(n, v). markup n = [] \<and> markup v = []) attrs"
  from attrs have "markup (xml_attributes attrs) = replicate (2 * length attrs) (CHR 0x22)"
    by (induction attrs) auto
  with name show ?thesis by (simp add: open_tag_def empty_tag_def tag_markup_def markup_chars_def)
qed

lemma markup_close [simp]: "markup name = [] \<Longrightarrow> markup (close_tag name) = tag_markup 0"
  by (simp add: close_tag_def tag_markup_def markup_chars_def)

definition chat_opening :: string where
  "chat_opening = concat (map tag_markup [8, 5, 0, 5, 3, 0, 3, 4])"

definition chat_closing :: string where
  "chat_closing = concat (map tag_markup [0, 0, 0, 0, 0, 0, 0])"

lemma chat_markup_fixed:
  "markup (chat_head th u l r m t t') = chat_opening" "markup chat_tail = chat_closing"
  by (simp_all add: chat_head_def chat_tail_def Let_def chat_opening_def chat_closing_def markup_tag markup_chars_def eval_nat_numeral)

lemma chat_event_parts:
  assumes "build_chat_xml th config drawn_id input = Some (Inr xml)"
  shows "\<exists>before. xml = before @ escape_text (trim (ch_content input)) @ chat_tail \<and> markup before = chat_opening"
  using assms by (auto simp: build_chat_xml_def Let_def chat_markup_fixed split: if_splits)

subsection \<open>The length in front of a payload\<close>

fun varint_bytes :: "nat \<Rightarrow> string" where
  "varint_bytes n = (if n < 128 then [char_of n] else char_of (n mod 128 + 128) # varint_bytes (n div 128))"

declare varint_bytes.simps [simp del]

text \<open>How a reader takes a length off the front of a text.\<close>

fun read_varint :: "string \<Rightarrow> (nat \<times> string) option" where
  "read_varint [] = None"
| "read_varint (c # s) =
     (if code c < 128 then Some (code c, s)
      else map_option (\<lambda>(n, rest). (code c - 128 + 128 * n, rest)) (read_varint s))"

lemma unat_varint_parts: "unat (drop_bit 7 v) = unat v div 128" "unat (v AND 0x7f) = unat v mod 128" for v :: "64 word"
proof -
  have "(127 :: nat) = mask 7" by (simp add: mask_eq_exp_minus_1)
  then have "unat v AND 127 = take_bit 7 (unat v)" by (simp only: take_bit_eq_mask)
  then have "unat v AND 127 = unat v mod 128" by (simp add: take_bit_eq_mod)
  then show "unat (v AND 0x7f) = unat v mod 128" by (simp add: unsigned_and_eq)
  show "unat (drop_bit 7 v) = unat v div 128"
    by (simp only: unat_drop_bit_eq) (simp add: drop_bit_eq_div)
qed

lemma varint_loop:
  "map_option snd (while_option (\<lambda>(v, _). v \<noteq> 0) varint_step (varint_step (v, out)))
     = Some (out @ varint_bytes (unat v))"
proof (induction "unat v" arbitrary: v out rule: less_induct)
  case less
  show ?case
  proof (cases "unat v < 128")
    case True
    then have "unat (drop_bit 7 v) = 0" by (simp only: unat_varint_parts div_less)
    then have "drop_bit 7 v = 0" by (simp only: unat_eq_0)
    then show ?thesis
      using True by (simp add: varint_step_def while_option_unfold varint_bytes.simps unat_varint_parts)
  next
    case False
    then have "unat (drop_bit 7 v) \<noteq> 0" by (simp add: unat_varint_parts)
    then have nz: "drop_bit 7 v \<noteq> 0" by auto
    let ?o = "out @ [char_of (unat v mod 128 + 128)]"
    have step: "varint_step (v, out) = (drop_bit 7 v, ?o)"
      using nz by (simp add: varint_step_def unat_varint_parts)
    have "unat (drop_bit 7 v) < unat v" using False by (simp add: unat_varint_parts)
    from less [OF this, of ?o] nz False show ?thesis
      by (simp add: step while_option_unfold [of _ _ "(drop_bit 7 v, ?o)"] varint_bytes.simps [of "unat v"] unat_varint_parts)
  qed
qed

lemma encode_varint: "encode_u64_varint v out = Some (out @ varint_bytes (unat v))"
  by (simp add: encode_u64_varint_def varint_loop)

lemma read_varint_bytes: "read_varint (varint_bytes n @ rest) = Some (n, rest)"
proof (induction n rule: less_induct)
  case (less n)
  show ?case
  proof (cases "n < 128")
    case True
    then show ?thesis by (simp add: varint_bytes.simps code_char_of)
  next
    case False
    have "n mod 128 < 128" by simp
    then have "n mod 128 + 128 < 256" by linarith
    then have "code (char_of (n mod 128 + 128)) = n mod 128 + 128" by (rule code_char_of)
    with False less [of "n div 128"] show ?thesis by (simp add: varint_bytes.simps [of n])
  qed
qed

lemma varint_length: "n < 128 ^ Suc k \<Longrightarrow> length (varint_bytes n) \<le> Suc k \<and> varint_bytes n \<noteq> []"
proof (induction k arbitrary: n)
  case 0
  then show ?case by (simp add: varint_bytes.simps)
next
  case (Suc k)
  show ?case
  proof (cases "n < 128")
    case False
    have "n div 128 < 128 ^ Suc k" using Suc.prems by (simp add: less_mult_imp_div_less)
    with Suc.IH [of "n div 128"] False show ?thesis by (simp add: varint_bytes.simps [of n])
  qed (simp add: varint_bytes.simps)
qed

lemma varint_fits: "1 \<le> length (varint_bytes (unat v)) \<and> length (varint_bytes (unat v)) \<le> 10" for v :: "64 word"
proof -
  have "unat v < 2 ^ 64" using unsigned_less [of v] by simp
  then have "unat v < 128 ^ Suc 9" by simp
  from varint_length [OF this] show ?thesis by (cases "varint_bytes (unat v)") simp_all
qed

subsection \<open>A sample\<close>

definition sample_tak_host :: tak_host where
  "sample_tak_host =
     \<lparr>th_calendar = (\<lambda>_. \<lparr>cal_year = 2023, cal_month = 11, cal_day = 14, cal_hour = 22, cal_minute = 13,
                          cal_second = 20, cal_nanosecond = 0\<rparr>),
      th_show_fraction = (\<lambda>_. ''0.5''), th_parse_rfc3339 = (\<lambda>_. None)\<rparr>"

lemma sample_keepalive: "\<exists>payload. keepalive_payload sample_tak_host 0 = Some (Inr payload)"
  by (simp add: keepalive_payload_def build_keepalive_xml_def add_seconds_def max_utc_def)

text \<open>A sender that fails the first time.\<close>

definition late_sender :: "nat tak_sender" where
  "late_sender payload w = (Suc w, if w = 0 then Inl (TakSend ''connection refused'') else Inr ())"

definition sample_chat :: chat_event_input where
  "sample_chat =
     \<lparr>ch_content = ''</remarks><b>'', ch_sender_label = ''Al'', ch_topic_id = None, ch_source_hash = Some ''ab:cd'',
      ch_timestamp = 0, ch_message_uuid = Some ''m1''\<rparr>"

lemma late_run:
  "\<exists>payload s. run_tak_calls sample_tak_host (logged late_sender) [StartTak, SendKeepalive 0, SendKeepalive 0]
      (new_tak_service default_tak_config 4) (0, []) = Some ((3, [payload, payload]), s)"
proof -
  obtain payload where "keepalive_payload sample_tak_host 0 = Some (Inr payload)" using sample_keepalive by blast
  then show ?thesis
    by (simp add: new_tak_service_def new_tak_queue_def start_tak_service_def enqueue_built_def enqueue_payload_def
          tak_push_def flush_after_enqueue_def drain_queue_to_sender_def late_sender_def tak_failure_def Let_def)
qed

end
