(* ===== verification/Spec2Isabelle.thy ===== *)
theory Spec2Isabelle
  imports Atomicity Progress Identity_Directory Hub_Service Access_Samples Tak_Rules
begin

text \<open>
  A model of the Reticulum Telemetry Hub: its command core, the crate \<open>src/crates/r3akt-rch-core\<close>
  with the parts of \<open>r3akt-profile-rch\<close> it is built on, and around it the wire protocol
  (\<open>r3akt-protocol\<close>), the identity directory (\<open>r3akt-identity\<close>), the bridge
  (\<open>r3akt-rch-bridge\<close>), the store, the access control, the setup and the kill switch of the
  server (\<open>r3akt-rch-server\<close>) and the connector to TAK servers (\<open>r3akt-tak-connector\<close>).  The hub keeps the shared state of a field team
  (topics and subscriptions, markers and zones, missions, logs, teams, assets, assignments, emergency
  reports, checklists) in one value, \<open>RchCore\<close>, and changes it by commands that peers send over the
  Reticulum network and by calls of the application.  \<open>handle_command\<close> runs a command of the
  application once per identifier; \<open>handle_mission_sync_command\<close>, \<open>handle_checklist_sync_command\<close> and
  \<open>handle_rem_registry_sync_command\<close> check the source's rights first and answer with responses.  All of
  them end in \<open>apply_command\<close>, which hands the command to the component its type names.

  How the model corresponds to the code.  \<open>RchCore\<close> is the record \<open>rch_core\<close> of State; a
  \<open>HashMap\<close> or \<open>BTreeMap\<close> is an association list (\<open>hmap\<close>, Hash_Store) and a method
  \<open>&mut self -> Result<T>\<close> a function from the state to the state and a sum of a \<open>core_error\<close>
  and the value: an early return leaves the state as the code has it at that point, so partial writes of
  failing commands show.  A text is a list of bytes; an \<open>i64\<close> is an \<open>int\<close> with the wrap-around
  written out where the code can overflow; an \<open>f64\<close> is the type of Doubles, rationals rounded to
  nearest even.  The clock, the random UUIDs, and the libraries for RFC 3339, base64, CSV and UUID
  parsing are the record \<open>host\<close>, an argument of every operation that uses them; UUIDs are numbered by
  the counter \<open>next_uuid\<close>, which stands for the random source and is no field of the code.  Where a
  property needs something of them it says so: \<open>uuid_canonical\<close> (parsing a UUID gives its canonical
  text) and \<open>lawful_host\<close> (a UUID the host draws parses to itself), both documented behaviour of the
  \<open>uuid\<close> crate.

  The theories, in the order of the code:
    \<^item> Prelude, Hash_Store, Text, Doubles: results and the rules \<open>keeps\<close> for "every outcome of this
      operation has the property", stores, byte texts, doubles.
    \<^item> Args, Normalize, Commands, Mecp, Csv_Text: argument readers, normal forms and role tables, the
      envelopes and command tables, the MECP message decoder, CSV text (\<open>text.rs\<close>).
    \<^item> State, Listings: the state and the JSON values commands answer with.
    \<^item> Authorization, Rights, Roster, Topics, Markers, Missions, Logs, Teams, Assets, Assignments, Eam,
      RemDirectory, Checklists: one theory per component, its operations with its invariant, that its
      commands keep it, and its frame (what its commands leave alone).
    \<^item> Checklist_Frame, Checklist_Rules, Progress: interfaces for the many checklist commands, the
      specification of the summary of a checklist, and its percentage.
    \<^item> Dispatch: \<open>apply_command\<close> and the handlers.
    \<^item> Invariants, Reachable: the invariant of the whole state, and the runs of the hub; the locales
      \<open>command_invariant\<close>, \<open>step_invariant\<close>, \<open>run_invariant\<close> and \<open>admin_blind\<close> say what a property
      needs to hold along every run, and are interpreted on \<open>core_ok\<close>, on the tables of Storable, on a
      stored result, on the rights and on a banned identity.
    \<^item> Snapshot, Storable: \<open>snapshot\<close> and \<open>from_snapshot\<close>, and that every reachable state survives them.
    \<^item> Safety, Atomicity: rights, stored results, banned identities, and commands that fail.
    \<^item> Protocol, Ingest, Identity_Directory: envelopes, their reading as commands and messages and what
      ingesting them does; applications of nodes and the trust they earn.
    \<^item> Sqlite, Sqlite_Rules, Durability, Restart: the tables of the store, saving and loading, that every
      reachable state survives the store, and the relation \<open>stores\<close> between a database and a core.
    \<^item> Deltas, Delta_Rules, Hub_Store, Hub_Service: the rows a command changes; the locale \<open>payload_table\<close>,
      interpreted on every table, says when a delta leaves the rows of the state after; how the server
      runs a command on its store, and the core \<open>serves\<close> says a database stands for.
    \<^item> Config_Text, Server_Auth, Kill_Switch: how the server reads and writes its configuration texts, the
      credentials and secrets it asks for and the throttle on failures (\<open>auth.rs\<close>), and the requests and
      the worker of the kill switch with the first-run setup, on the record \<open>app_state\<close>.
    \<^item> Kill_Switch_Rules, Guess_Limit, Access_Rules: runs of the server (\<open>serve_calls\<close> of a list of
      \<open>hub_call\<close>), the authorization a purge rests on, the distance of wrong guesses, who is admitted,
      what a purge leaves and what a setup stores.
    \<^item> Framing, Bridge: length headers and HTTP around a remote call, and the bridge process.
    \<^item> Tak, Tak_Rules: the TAK connector, its events, queue, services and workers; that accepted payloads
      are delivered in order, that texts are no markup, that lengths are read back.
    \<^item> Samples, Access_Samples: the concrete hosts, commands and states of the witnesses.

  The recursions of the model follow the data, except the walk along the parents of a mission, whose
  measure is the number of missions not seen yet, and the loop that writes the length of a TAK payload,
  which is a \<open>while_option\<close> and is proved to end; no fuel is used.

  Not modelled: the SQL engine (a table is a list of rows with a primary key), the msgpack, JSON and
  protobuf codecs and the sockets (parameters), the migration from the Python hub (SQL and file I/O), the
  other HTTP and WebSocket handlers of the server and its outbound queue, the RNS transport (a process
  around a library), the user interface.  A request of the server is one step: requests that overlap, and
  locks poisoned by a panic, are left out.  The hash functions SHA-256 and Argon2id are the record
  \<open>secret_host\<close>, of which \<open>lawful_secrets\<close> says what the setup relies on (an Argon2id hash is accepted
  for the text it was made from), and what the file system answers is the record \<open>disk_host\<close>.
\<close>

section \<open>Commands of peers\<close>

text \<open>
  C1. When the hub asks for authorization, a mission command changes the state only for a source that
  has the capability the command needs, as a capability of its own or by a role or right in a mission
  the command is about.
\<close>

theorem authorization_gate:
  assumes "handle_mission_sync_command h c s = (t, rs)" and "t \<noteq> s"
    and "authorization_required s" and "cmd_type c \<in> set mission_commands"
  shows "\<exists>cap. required_capability (cmd_type c) = Some cap
    \<and> (has_identity_capability s (src_rns_identity (cmd_source c)) cap
       \<or> has_mission_access_operation h s c cap)"
proof -
  from assms(1,2) have "\<nexists>r. rs = [r]" using mission_sync_refused by blast
  moreover have "answered c rs" using mission_sync_answered [of c h s] assms(1) by simp
  ultimately obtain r r' where "rs = [r, r']" unfolding answered_def by blast
  with assms show ?thesis by (intro mission_sync_authorized) auto
qed

theorem authorization_gate_witness:
  "\<exists>cap. required_capability ''mission.join'' = Some cap
    \<and> (has_identity_capability guarded_core ''abcd'' cap
       \<or> has_mission_access_operation sample_host guarded_core (sample_command ''mission.join'' JNull) cap)"
proof -
  let ?c = "sample_command ''mission.join'' JNull"
  have "fst (handle_mission_sync_command sample_host ?c guarded_core) \<noteq> guarded_core"
    "authorization_required guarded_core" "''mission.join'' \<in> set mission_commands"
    by (rule sample_values)+
  then show ?thesis
    using authorization_gate [of sample_host ?c guarded_core] by (simp add: sample_command_def prod_eq_iff)
qed



text \<open>
  C3. A command identifier handled once is never run again: in every later state of the hub, whatever
  happened since, \<open>handle_command\<close> answers with the stored result and changes nothing.
\<close>

theorem handled_once_for_all:
  assumes "handle_command h c s = (t, out)" and "(step parse)\<^sup>*\<^sup>* t u" and "cmd_id c' = cmd_id c"
  shows "handle_command h' c' u = (u, \<lparr>out_result = out_result out, out_event = None\<rparr>)"
  using assms by (rule handled_once)

theorem handled_once_for_all_witness:
  "\<exists>out. let t = fst (handle_command run_host (sample_command ''mission.join'' JNull) new_core);
            u = set_authorization_required True t
        in handle_command run_host (sample_command ''mission.leave'' JNull) u = (u, \<lparr>out_result = out, out_event = None\<rparr>)"
proof -
  let ?c = "sample_command ''mission.join'' JNull"
  let ?t = "fst (handle_command run_host ?c new_core)"
  have "(step (uuid_parse run_host))\<^sup>*\<^sup>* ?t (set_authorization_required True ?t)"
    by (rule r_into_rtranclp) (rule step.require [OF refl])
  from handled_once_for_all [OF prod.collapse [symmetric] this, of "sample_command ''mission.leave'' JNull" run_host]
  show ?thesis by (auto simp: Let_def sample_command_def)
qed

text \<open>
  C4. A mission command is answered by one rejection, or by an acceptance followed by a result or a
  rejection, each with the identifier of the command.
\<close>

theorem responses_answer_the_command: "answered c (snd (handle_mission_sync_command h c s))"
  by (rule mission_sync_answered)

text \<open>
  C5. The command tables agree: a command type is handed to a component exactly when it is a mission
  or a checklist command, and every one of them that is not a command of the REM registry needs a
  capability.
\<close>

theorem tables_agree:
  "(first_arm dispatch_arms t \<noteq> None \<longleftrightarrow> is_supported_mission_command t \<or> is_supported_checklist_command t)
   \<and> (required_capability t \<noteq> None \<longleftrightarrow> is_supported_mission_command t \<and> t \<notin> set rem_registry_commands
        \<or> t \<in> set mission_commands)
   \<and> (checklist_required_capability t \<noteq> None \<longleftrightarrow> is_supported_checklist_command t)"
  using dispatched_iff [of t] required_capability_iff [of t] checklist_required_capability_iff [of t]
  by (auto simp: is_supported_mission_command_def is_supported_rem_registry_command_def)

section \<open>Who may do what\<close>

text \<open>
  C6. An operation is authorized exactly when a capability, a right or a role grants it and no right
  denies it: a denial wins over every grant.
\<close>

theorem authorization_rules:
  "authorize_identity_operation s i operation m \<longleftrightarrow>
     operation_granted s i m operation \<and> \<not> operation_denied s i m operation"
  by (rule authorize_iff)

section \<open>Missions and the map\<close>



text \<open>
  C8. A parent is accepted exactly when it exists and is no descendant of the mission.
\<close>

theorem parent_accepted_iff:
  "mission_forest s \<Longrightarrow> ensure_parent_chain_acyclic s u (Some p) = Inr () \<longleftrightarrow>
     hm_contains (missions s) p \<and> (p, u) \<notin> (parents s)\<^sup>*"
  by (rule ensure_parent_iff)

theorem parent_accepted_iff_witness:
  "ensure_parent_chain_acyclic new_core ''a'' (Some ''b'') = Inr () \<longleftrightarrow>
     hm_contains (missions new_core) ''b'' \<and> (''b'', ''a'') \<notin> (parents new_core)\<^sup>*"
  by (rule parent_accepted_iff) (simp add: new_core_def mission_forest_def parents_def acyclic_def)


section \<open>Texts\<close>


section \<open>The directory of teams\<close>

text \<open>
  C11. A message to a team goes to the REM peers of its members, no other, and only when the source is
  itself a member and the team is a canonical one.
\<close>

theorem routing_reaches_the_team:
  "d \<in> set (rem_team_routing_destinations h s source t) \<longleftrightarrow>
     canonical_team_for_uid t \<noteq> None \<and> t \<in> set (shared_team_uids_for_rem_source s source)
     \<and> team_destination s source t d"
  by (rule routing_destinations_iff)

section \<open>The state of the hub\<close>

text \<open>
  C12. Every state the hub can reach, by commands of peers and the calls of the application, is
  sound: the tables of every component satisfy its invariant.
\<close>

theorem reachable_states_are_sound:
  assumes "reachable (uuid_parse h) s" and "uuid_canonical h"
  shows "core_ok h s"
  using assms by (rule reachable_core_ok)

theorem reachable_states_are_sound_witness: "core_ok run_host sample_core"
  using sample_core_reachable run_host_canonical by (rule reachable_states_are_sound)

text \<open>
  C13. Saving a reachable state and loading it again gives the same tables: nothing is lost, and the
  checks of the loader refuse nothing the hub has stored.
\<close>

theorem reachable_states_reload:
  assumes "reachable (uuid_parse h) s" and "uuid_canonical h"
  shows "\<exists>t. from_snapshot h (snapshot s) = Inr t \<and> same_tables s t"
  using assms by (intro from_snapshot_saved reachable_storable)

theorem reachable_states_reload_witness:
  "\<exists>t. from_snapshot run_host (snapshot sample_core) = Inr t \<and> same_tables sample_core t"
  using sample_core_reachable run_host_canonical by (rule reachable_states_reload)

text \<open>
  C14. No command of a peer, whatever handler it enters by, changes a capability, an operation right,
  the state of an identity or whether the hub asks for authorization.
\<close>

theorem commands_change_no_rights:
  "security_tables (fst (handle_command h c s)) = security_tables s
   \<and> security_tables (fst (handle_mission_sync_command h c s)) = security_tables s
   \<and> security_tables (fst (handle_checklist_sync_command h c s)) = security_tables s"
  by (simp add: security.inv_handle security.inv_mission_sync security.inv_checklist_sync)

text \<open>
  C15. A banned or blackholed identity that is not on the roster does not get there by any command.
\<close>

theorem banned_identity_stays_out:
  assumes "identity_blocked s n" and "\<not> hm_contains (clients s) n"
  shows "\<not> hm_contains (clients (fst (handle_command h c s))) n
    \<and> \<not> hm_contains (clients (fst (handle_mission_sync_command h c s))) n"
  using assms banned.inv_handle [OF TrueI, of n s h c] banned.inv_mission_sync [OF TrueI, of n s h c]
  by (simp add: stays_out_def)

theorem banned_identity_stays_out_witness:
  "\<not> hm_contains (clients (fst (handle_mission_sync_command run_host (sample_command ''mission.join'' JNull)
     (fst (set_identity_state run_host ''abcd'' True False new_core))))) ''abcd''"
proof -
  let ?s = "fst (set_identity_state run_host ''abcd'' True False new_core)"
  have "identity_blocked ?s ''abcd''" "\<not> hm_contains (clients ?s) ''abcd''" by (rule sample_values)+
  then show ?thesis using banned_identity_stays_out by blast
qed







text \<open>
  C19. Numbers of a reachable state are in range: the priority of a mission from 0 to 100, the level
  of a skill and of a requirement from 0 to 10, the confidence of a report from 0 to 1 and its time to
  live not negative.
\<close>

theorem numbers_in_range:
  assumes "reachable (uuid_parse h) s" and "uuid_canonical h"
  shows "(\<forall>k m p. hm_get (missions s) k = Some m \<longrightarrow> mi_mission_priority m = Some p \<longrightarrow> 0 \<le> p \<and> p \<le> 100)
    \<and> (\<forall>k r. hm_get (team_member_skills s) k = Some r \<longrightarrow> 0 \<le> ts_level r \<and> ts_level r \<le> 10)
    \<and> (\<forall>k r. hm_get (task_skill_requirements s) k = Some r \<longrightarrow> 0 \<le> rq_minimum_level r \<and> rq_minimum_level r \<le> 10)
    \<and> (\<forall>k e c. hm_get (eam_snapshots s) k = Some e \<longrightarrow> ea_confidence e = Some c \<longrightarrow> f64_le (Fin 0) c \<and> f64_le c (Fin 1))
    \<and> (\<forall>k e n. hm_get (eam_snapshots s) k = Some e \<longrightarrow> ea_ttl_seconds e = Some n \<longrightarrow> 0 \<le> n)"
proof -
  note I = core_okD [OF reachable_core_ok [OF assms]]
  have "is_none_or (ea_confidence e) (\<lambda>c. f64_le (Fin 0) c \<and> f64_le c (Fin 1)) \<and> is_none_or (ea_ttl_seconds e) (\<lambda>n. 0 \<le> n)"
    if "hm_get (eam_snapshots s) k = Some e" for k e
    using I(13) that by (simp add: eams_ok_def eam_ok_def)
  then show ?thesis
    using I(5,10) by (force simp: missions_ok_def mission_ok_def skills_ok_def)
qed

theorem numbers_in_range_witness:
  "\<exists>m p. hm_get (missions mission_core) ''m1'' = Some m \<and> mi_mission_priority m = Some p \<and> 0 \<le> p \<and> p \<le> 100"
proof -
  obtain m where "hm_get (missions mission_core) ''m1'' = Some m" "mi_mission_priority m = Some 7"
    using mission_core_priority by auto
  with numbers_in_range [OF mission_core_reachable run_host_canonical] show ?thesis by blast
qed

text \<open>
  C20. A team member and a callsign have at most one report in force, whose overall status is the
  worst of its parts: red if one is red, else yellow if one is yellow, and unknown only if all are.
\<close>

theorem one_report_in_force:
  assumes "reachable (uuid_parse h) s" and "uuid_canonical h"
  shows "(\<forall>k k' e e'. hm_get (eam_snapshots s) k = Some e \<longrightarrow> hm_get (eam_snapshots s) k' = Some e' \<longrightarrow>
        ea_deleted_ts_ms e = None \<longrightarrow> ea_deleted_ts_ms e' = None \<longrightarrow>
        ea_team_member_uid e = ea_team_member_uid e' \<or> ea_callsign e = ea_callsign e' \<longrightarrow> k = k')
    \<and> (\<forall>k e. hm_get (eam_snapshots s) k = Some e \<longrightarrow>
        (ea_overall_status e = ''Red'' \<longleftrightarrow> ''Red'' \<in> set (status_list (eam_parts e)))
        \<and> (ea_overall_status e = ''Yellow'' \<longleftrightarrow>
             ''Red'' \<notin> set (status_list (eam_parts e)) \<and> ''Yellow'' \<in> set (status_list (eam_parts e)))
        \<and> (ea_overall_status e = ''Unknown'' \<longleftrightarrow> set (status_list (eam_parts e)) \<subseteq> {''Unknown''}))"
proof -
  have ok: "eams_ok s" by (rule core_okD(13) [OF reachable_core_ok [OF assms]])
  have worst: "ea_overall_status e = aggregate_eam_status (eam_parts e)" if "hm_get (eam_snapshots s) k = Some e" for k e
    using ok that by (simp add: eams_ok_def eam_ok_def)
  have "same_subject e e' \<Longrightarrow> k = k'" if "hm_get (eam_snapshots s) k = Some e" "hm_get (eam_snapshots s) k' = Some e'" for k k' e e'
    using ok that unfolding eams_ok_def by blast
  then show ?thesis
    using worst by (auto simp: same_subject_def aggregate_eam_status_def Let_def list_ex_iff)
qed

theorem one_report_in_force_witness:
  "\<not> (\<exists>k k' e e'. hm_get (eam_snapshots mission_core) k = Some e \<and> hm_get (eam_snapshots mission_core) k' = Some e'
     \<and> ea_deleted_ts_ms e = None \<and> ea_deleted_ts_ms e' = None \<and> ea_callsign e = ea_callsign e' \<and> k \<noteq> k')"
  using one_report_in_force [OF mission_core_reachable run_host_canonical] by blast

section \<open>Snapshots\<close>

text \<open>
  C21. A snapshot loads exactly when the topic identifiers of its topics and the destinations and
  topics of its subscriptions have normal forms, and these are distinct.
\<close>

theorem snapshot_loads_iff:
  assumes "uuid_canonical h"
  shows "(\<exists>t. from_snapshot h sn = Inr t) \<longleftrightarrow>
    (\<forall>r \<in> set (sn_topics sn). topic_id_of h r \<noteq> None) \<and> distinct (map (topic_id_of h) (sn_topics sn))
    \<and> (\<forall>r \<in> set (sn_subscribers sn). subscription_of h r \<noteq> None)
    \<and> distinct (map (subscription_of h) (sn_subscribers sn))"
  using assms by (rule from_snapshot_iff)

theorem snapshot_loads_iff_witness: "\<exists>t. from_snapshot run_host (snapshot new_core) = Inr t"
proof -
  have "sn_topics (snapshot new_core) = []" "sn_subscribers (snapshot new_core) = []"
    by (simp_all add: snapshot_def no_values list_topics_def new_core_def)
  with snapshot_loads_iff [OF run_host_canonical, of "snapshot new_core"] show ?thesis by simp
qed

section \<open>Handling a command\<close>

text \<open>
  C22. A checklist command changes the state of a hub that asks for authorization only for a source
  that has the capability the command needs, itself or through a mission the checklist belongs to.
\<close>

theorem checklist_gate:
  assumes "handle_checklist_sync_command h c s = (t, rs)" and "t \<noteq> s" and "authorization_required s"
  shows "\<exists>cap. checklist_required_capability (cmd_type c) = Some cap
    \<and> (has_identity_capability s (src_rns_identity (cmd_source c)) cap \<or> has_checklist_access_operation h s c cap)"
  using assms by (rule checklist_sync_authorized)

theorem checklist_gate_witness:
  "fst (handle_checklist_sync_command run_host sample_checklist_command guarded_core) = guarded_core"
proof (rule ccontr)
  assume changed: "\<not> ?thesis"
  have "authorization_required guarded_core" by (rule sample_values)
  from checklist_gate [OF prod.collapse [symmetric] changed this]
  obtain cap where "checklist_required_capability (cmd_type sample_checklist_command) = Some cap"
    and granted: "has_identity_capability guarded_core (src_rns_identity (cmd_source sample_checklist_command)) cap
       \<or> has_checklist_access_operation run_host guarded_core sample_checklist_command cap" by blast
  moreover have "checklist_required_capability (cmd_type sample_checklist_command) = Some ''checklist.write''" by (rule sample_values)
  moreover have "\<not> has_identity_capability guarded_core (src_rns_identity (cmd_source sample_checklist_command)) ''checklist.write''"
    "\<not> has_checklist_access_operation run_host guarded_core sample_checklist_command ''checklist.write''" by (rule sample_values)+
  ultimately show False by simp
qed



section \<open>Rights, messages and texts\<close>



section \<open>Envelopes and identities\<close>

text \<open>
  C25. A command that arrives in an envelope runs once: an envelope with the identifier of an earlier
  one, whatever command it carries and however much later, changes nothing and answers no event.
\<close>

theorem envelope_runs_once:
  assumes "env_payload e = Command p" and "env_payload e' = Command p'" and "env_id e' = env_id e"
    and "(step parse)\<^sup>*\<^sup>* (fst (ingest_protocol_envelope m h e s)) u"
  shows "ingest_protocol_envelope m' h' e' u = (u, Inr None)"
proof -
  obtain c where c: "command_from_protocol e (utc_now_rfc3339 h) = Inr c" using assms(1) by simp
  obtain c' where c': "command_from_protocol e' (utc_now_rfc3339 h') = Inr c'" using assms(2) by simp
  have "cmd_id c' = cmd_id c"
    using command_from_protocol_Inr [OF c] command_from_protocol_Inr [OF c'] assms(3) by simp
  with assms(4) have "handle_command h' c' u = (u, \<lparr>out_result = out_result (snd (handle_command h c s)), out_event = None\<rparr>)"
    unfolding ingest_command [OF assms(1) c] fst_conv by (intro handled_once [OF prod.collapse [symmetric]])
  then show ?thesis by (simp add: ingest_command [OF assms(2) c'])
qed

theorem envelope_runs_once_witness:
  "\<forall>m. let e = new_envelope ''e1'' 0 ''abcd'' BroadcastDestination ''rch''
                (Command \<lparr>pc_name = ''mission.join'', pc_args = JNull, pc_correlation_id = None\<rparr>);
            t = fst (ingest_protocol_envelope m run_host e new_core)
        in ingest_protocol_envelope m run_host e t = (t, Inr None)"
proof
  fix m
  let ?p = "\<lparr>pc_name = ''mission.join'', pc_args = JNull, pc_correlation_id = None\<rparr>"
  have "env_payload (new_envelope ''e1'' 0 ''abcd'' BroadcastDestination ''rch'' (Command ?p)) = Command ?p"
    by (simp add: new_envelope_def)
  from envelope_runs_once [OF this this refl rtranclp.rtrancl_refl]
  show "let e = new_envelope ''e1'' 0 ''abcd'' BroadcastDestination ''rch'' (Command ?p);
            t = fst (ingest_protocol_envelope m run_host e new_core)
        in ingest_protocol_envelope m run_host e t = (t, Inr None)"
    by (simp add: Let_def)
qed

text \<open>
  C26. A directory of node identities trusts a node exactly when an acceptance of it was given while an
  application of it stood, and it has not been revoked since.
\<close>

theorem trust_is_earned: "trusts (run_calls calls) n \<longleftrightarrow> trust_earned n calls"
  by (rule trusts_run)

section \<open>The store\<close>

text \<open>
  C27. A reachable state saved to the database is loaded back from it with the same tables, and nothing
  is loaded exactly when there was nothing to save: no insertion breaks a primary key, no identifier is
  too large for its column, and no row is lost to the order they are read in.
\<close>

theorem reachable_states_are_durable:
  assumes "reachable (uuid_parse h) s" and "uuid_canonical h"
  shows "\<exists>db'. save_to_sqlite s db = Inr db'
    \<and> (snapshot_is_empty (snapshot s) \<and> load_from_sqlite h db' = Inr None
       \<or> (\<exists>t. load_from_sqlite h db' = Inr (Some t) \<and> same_tables s t))"
  using store_round_trip [OF reachable_storable [OF assms], of db] reachable_sound [OF assms]
  by (auto simp: sound_def split: if_splits)

theorem reachable_states_are_durable_witness:
  "\<exists>db' t. save_to_sqlite sample_core empty_database = Inr db'
     \<and> load_from_sqlite run_host db' = Inr (Some t) \<and> same_tables sample_core t"
proof -
  have "subscribers sample_core \<noteq> []" using sample_values(1) by (auto simp: hm_contains_def)
  then have "\<not> snapshot_is_empty (snapshot sample_core)"
    by (simp add: snapshot_is_empty_def snapshot_def no_values)
  with reachable_states_are_durable [OF sample_core_reachable run_host_canonical, of empty_database]
  show ?thesis by blast
qed

section \<open>The server\<close>

text \<open>
  C28. A command on the registry that a peer sends to the server runs on the core the server loads from
  its database and answers what that core answers; the database it leaves serves the core after the
  command, without the messages, events and results the server does not keep for commands, as long as
  no key of several columns contains the separator U+001F.
\<close>

theorem network_commands_are_served:
  assumes "serves h db s" and "lawful_host (uuid_parse h) h" and "uuid_canonical h"
    and "first_arm dispatch_arms (pc_name command) = Some component" and "component \<in> registry_components"
  shows "\<exists>core t answer db'. from_snapshot h (load_r3akt_read_snapshot db) = Inr core \<and> same_tables s core
    \<and> handle_mission_sync_command h (mission_sync_command_from_reticulumd rfc3339 e command) core = (t, ia_responses answer)
    \<and> process_reticulumd_inbound_mission_sync_command h rfc3339 e command False (Some db) = (Some db', Inr answer)
    \<and> (separable_snapshot (load_r3akt_read_snapshot db) \<and> separable_snapshot (snapshot t) \<longrightarrow> serves h db' (forget t))"
  using assms by (rule network_command_served)

theorem network_commands_are_served_witness:
  "\<exists>t db' answer. process_reticulumd_inbound_mission_sync_command run_host (\<lambda>_. []) sample_listing_envelope
       sample_listing False (Some empty_database) = (Some db', Inr answer) \<and> serves run_host db' (forget t)"
proof -
  let ?c = "mission_sync_command_from_reticulumd (\<lambda>_. []) sample_listing_envelope sample_listing"
  let ?r = "handle_mission_sync_command run_host ?c new_core"
  have arm: "first_arm dispatch_arms (pc_name sample_listing) = Some MissionCommands"
    and loaded: "from_snapshot run_host (load_r3akt_read_snapshot empty_database) = Inr new_core"
    and before: "separable_snapshot (load_r3akt_read_snapshot empty_database)"
    and after: "separable_snapshot (snapshot (fst ?r))"
    by code_simp+
  have component: "MissionCommands \<in> registry_components" by (simp add: registry_components_def)
  from network_commands_are_served [OF serves_empty run_host_lawful run_host_canonical arm component,
      of "\<lambda>_. []" sample_listing_envelope]
  show ?thesis using before after by (force simp: loaded)
qed

section \<open>Access, setup and the kill switch\<close>


text \<open>
  C30. A client that guesses the PIN of the kill switch has at most five wrong guesses looked at within five
  minutes, whatever other requests the server serves in between, until one of its guesses is right: the
  sixth comes five minutes after the first or later.  The clock is one that does not go back.
\<close>

theorem guesses_are_limited:
  fixes sh dh iso8601 calls a who
  defines "client \<equiv> auth_throttle_key PIN_SURFACE who"
  defines "guesses \<equiv> log_of (guess_of sh client) sh dh iso8601 calls a"
  assumes "window_of client a = None"
    and "sorted (readings client calls)" and "\<forall>t\<in>set (readings client calls). sane_time t"
    and "log_of (hit_of sh client) sh dh iso8601 calls a = []"
    and "i + 5 < length guesses"
  shows "guesses ! i + 300000 \<le> guesses ! (i + 5)"
  using guesses_spaced [OF assms(3-6) [unfolded client_def]] assms(7)
  by (simp add: spaced_def guesses_def client_def)

theorem guesses_are_limited_witness:
  "([1, 2, 3, 4, 5, 300005] :: int list) ! 0 + 300000 \<le> [1, 2, 3, 4, 5, 300005] ! (0 + 5)"
proof -
  let ?calls = "map bad_guess [1, 2, 3, 4, 5, 6, 300005]" and ?k = "auth_throttle_key PIN_SURFACE None"
  have "log_of (hit_of sample_secret_host ?k) sample_secret_host sample_disk_host (\<lambda>_. []) ?calls sample_server = []"
    "window_of ?k sample_server = None"
    by (simp_all add: window_of_def sample_server_def hm_get_def)
  moreover have "sorted (readings ?k ?calls)" "\<forall>t\<in>set (readings ?k ?calls). sane_time t"
    by (simp_all add: readings_def sane_time_def)
  ultimately show ?thesis
    using guesses_are_limited [of None sample_server ?calls sample_secret_host sample_disk_host "\<lambda>_. []" 0]
    by (simp add: sample_guess_log)
qed

text \<open>
  C31. A purge starts only by a request for it, when both arms are engaged and a PIN was accepted at most
  two minutes before: the PIN that was stored then.
\<close>

theorem purge_needs_fresh_pin:
  assumes "ap_kill_switch a = default_kill_switch"
    and "ks_mode (ap_kill_switch (serve_calls sh dh iso8601 calls a)) \<noteq> Deleting"
    and "ks_mode (ap_kill_switch (serve_calls sh dh iso8601 (calls @ [c]) a)) = Deleting"
  shows "\<exists>purge before salt clock addr pin after. c = PurgeCall purge
    \<and> calls = before @ AuthorizeCall salt clock addr pin # after
    \<and> pin_accepted sh pin (serve_calls sh dh iso8601 before a)
    \<and> sat_i64 (purge 0 - clock 1) \<le> 120000
    \<and> ks_arm_a (ap_kill_switch (serve_calls sh dh iso8601 calls a))
    \<and> ks_arm_b (ap_kill_switch (serve_calls sh dh iso8601 calls a))"
  using assms by (rule fresh_pin_for_purge)

theorem purge_needs_fresh_pin_witness:
  "pin_accepted sample_secret_host ''123456''
     (serve_calls sample_secret_host sample_disk_host (\<lambda>_. []) [ArmCall (\<lambda>_. 2) True True] enrolled_server)"
proof -
  let ?calls = "[ArmCall (\<lambda>_. 2) True True, AuthorizeCall ''s'' (\<lambda>_. 3) None ''123456'']"
  have "ap_kill_switch enrolled_server = default_kill_switch" by (simp add: enrolled_server_def sample_server_def)
  moreover have "ks_mode (ap_kill_switch (serve_calls sample_secret_host sample_disk_host (\<lambda>_. []) ?calls enrolled_server)) \<noteq> Deleting"
    using sample_purge(1) [of "\<lambda>_. []"] by simp
  moreover have "ks_mode (ap_kill_switch (serve_calls sample_secret_host sample_disk_host (\<lambda>_. [])
      (?calls @ [PurgeCall (\<lambda>_. 4)]) enrolled_server)) = Deleting"
    using sample_purge(2) [of "\<lambda>_. []"] by (simp only: serve_calls_simps)
  ultimately obtain before salt clock addr pin after where
      "?calls = before @ AuthorizeCall salt clock addr pin # after"
      "pin_accepted sample_secret_host pin (serve_calls sample_secret_host sample_disk_host (\<lambda>_. []) before enrolled_server)"
    using purge_needs_fresh_pin by blast
  moreover from this(1) have "before = [ArmCall (\<lambda>_. 2) True True] \<and> pin = ''123456''"
    by (cases before; cases "tl before") (auto simp: append_eq_Cons_conv Cons_eq_append_conv)
  ultimately show ?thesis by simp
qed







section \<open>The bridge\<close>

text \<open>
  C35. A command that reaches the bridge with a sender changes the core only when the sender is not
  blank and is the source the command names, however the two are spelled, or the command names none.
\<close>

theorem bridge_checks_the_sender:
  assumes "fst (handle_request h (MissionCommandRequest c (Some i)) s) \<noteq> s
    \<or> fst (handle_request h (ChecklistCommandRequest c (Some i)) s) \<noteq> s"
  shows "trim i \<noteq> [] \<and> to_ascii_lowercase (trim (src_rns_identity (cmd_source c)))
    \<in> {[], to_ascii_lowercase (trim i)}"
  using assms
  by (auto simp: handle_mission_request_def handle_checklist_request_def reject_source_mismatch_def Let_def
      to_ascii_lowercase_def split: if_splits option.splits)

theorem bridge_checks_the_sender_witness:
  "fst (handle_request run_host (MissionCommandRequest (sample_command ''mission.join'' JNull) (Some ''ffff'')) new_core)
   = new_core"
proof (rule ccontr)
  assume "\<not> ?thesis"
  then have "to_ascii_lowercase (trim (src_rns_identity (cmd_source (sample_command ''mission.join'' JNull))))
      \<in> {[], to_ascii_lowercase (trim ''ffff'')}"
    using bridge_checks_the_sender by blast
  moreover have "to_ascii_lowercase (trim (src_rns_identity (cmd_source (sample_command ''mission.join'' JNull)))) = ''abcd''"
    "to_ascii_lowercase (trim ''ffff'') = ''ffff''" by code_simp+
  ultimately show False by simp
qed

text \<open>
  C36. Every call of the bridge, from an empty database on, leaves the rows of a sound core in the
  database, and none fails because of the store: what one call has written the next can read.
\<close>

theorem bridge_runs_are_durable:
  assumes "uuid_canonical h" and "\<forall>(h', input) \<in> set calls. lawful_host (uuid_parse h) h'"
    and "bridge_calls decode encode calls empty_database = (db, answers)"
  shows "(\<exists>s. stores h db s) \<and> (\<forall>e. Inl (BridgeCore e) \<notin> set answers)"
  using stores_empty assms by (intro bridge_calls_stored) auto

theorem bridge_runs_are_durable_witness:
  "\<exists>s. stores run_host (fst (bridge_calls (\<lambda>_. Inr (GrantCapability ''ab'' ''topic.read'')) (\<lambda>_. Inr ''ok'')
     [(run_host, ''{}''), (run_host, ''{}'')] empty_database)) s"
  using bridge_runs_are_durable [OF run_host_canonical _ prod.collapse [symmetric],
      of "[(run_host, ''{}''), (run_host, ''{}'')]"] run_host_lawful by simp

text \<open>
  C37. A remote call to a peer that reads and answers in the same framing returns the peer's answer to
  the very request: the length headers, the HTTP header and its content length are read back as they
  were written.
\<close>

theorem remote_call_answered:
  assumes "serialize_q q = Inr p" and "length p < 2 ^ 32" and "deserialize_q p = Inr q"
    and "serialize_r (answer q) = Inr p'" and "length p' < 2 ^ 32" and "deserialize_r p' = Inr (answer q)"
    and "plain endpoint" and "length endpoint < 2 ^ 60"
  shows "rpc_call serialize_q deserialize_r (\<lambda>_. answer_post deserialize_q serialize_r answer) endpoint q
    = Some (Inr (answer q))"
  using assms by (rule rpc_answered)

theorem remote_call_answered_witness:
  "rpc_call Inr Inr (\<lambda>_. answer_post Inr Inr rev) ''127.0.0.1:4242'' ''status'' = Some (Inr ''sutats'')"
  by (rule trans [OF remote_call_answered [where p = "''status''" and p' = "''sutats''"]])
     (simp_all add: plain_simps code_def)

section \<open>The TAK connector\<close>

text \<open>
  C38. What the TAK service has accepted reaches the sender in that order, each payload once: after any
  calls, from a new service on, the payloads delivered and then those waiting are exactly the ones
  accepted, and no more wait than the queue has room for.
\<close>

theorem tak_payloads_in_order:
  assumes "run_tak_calls th (logged send) calls (new_tak_service config capacity) (w, []) = Some ((w', delivered), s)"
  shows "delivered @ tq_pending (sv_queue s) = tak_accepted th (logged send) calls (new_tak_service config capacity) (w, [])
    \<and> length (tq_pending (sv_queue s)) \<le> tq_capacity (sv_queue s)"
  using calls_logged [OF assms] by (simp add: new_tak_service_def new_tak_queue_def tak_queue_ok_def)

theorem tak_payloads_in_order_witness:
  "\<exists>payload s. run_tak_calls sample_tak_host (logged late_sender) [StartTak, SendKeepalive 0, SendKeepalive 0]
       (new_tak_service default_tak_config 4) (0, []) = Some ((3, [payload, payload]), s)
     \<and> [payload, payload] @ tq_pending (sv_queue s) =
       tak_accepted sample_tak_host (logged late_sender) [StartTak, SendKeepalive 0, SendKeepalive 0]
         (new_tak_service default_tak_config 4) (0, [])"
proof -
  from late_run show ?thesis
    by (elim exE) (rule exI, rule exI, rule conjI, assumption, rule conjunct1, rule tak_payloads_in_order)
qed

text \<open>
  C39. The text and the names of a chat message cannot become markup of its event: the brackets and
  quotes of the event are the same whatever they are, and the text is read back from between its tags.
\<close>

theorem chat_text_is_no_markup:
  assumes "build_chat_xml th config drawn_id input = Some (Inr xml)"
  shows "\<exists>before after. xml = before @ escape_text (trim (ch_content input)) @ after
    \<and> markup before = chat_opening \<and> markup after = chat_closing
    \<and> CHR ''<'' \<notin> set (escape_text (trim (ch_content input)))
    \<and> unescape (escape_text (trim (ch_content input))) = trim (ch_content input)"
  using chat_event_parts [OF assms] escape_text_no_bracket unescape_text chat_markup_fixed(2) by blast

theorem chat_text_is_no_markup_witness:
  "CHR ''<'' \<notin> set (escape_text (trim (ch_content sample_chat)))"
proof -
  let ?m = "build_chat_xml sample_tak_host default_tak_config ''id'' sample_chat"
  have "\<exists>xml. ?m = Some (Inr xml)"
    by (simp add: build_chat_xml_def sample_chat_def add_seconds_def max_utc_def Let_def) code_simp
  then obtain xml where "?m = Some (Inr xml)" by blast
  from chat_text_is_no_markup [OF this] show ?thesis by blast
qed

text \<open>
  C40. The loop that writes the length of a payload ends for every length, after one to ten bytes, and
  a reader takes the same length off the front of what follows.
\<close>

theorem length_loop_ends:
  "\<exists>bytes. encode_u64_varint v output = Some (output @ bytes) \<and> 1 \<le> length bytes \<and> length bytes \<le> 10
     \<and> read_varint (bytes @ rest) = Some (unat v, rest)"
  using varint_fits [of v] by (simp add: encode_varint read_varint_bytes)

section \<open>Further results\<close>

text \<open>
  A topic, marker, skill or asset command that fails leaves the state as it was, but for UUIDs
  drawn.
\<close>

theorem failed_commands_change_nothing:
  assumes "component \<in> {TopicCommands, MarkerCommands, SkillCommands, AssetCommands}"
    and "run_component component h c s = (t, Inl e)"
  shows "\<exists>n. t = s\<lparr>next_uuid := n\<rparr>"
  using assms atomic_topics [of s h c] atomic_markers [of s h c] atomic_skills [of s h c] atomic_assets [of s h c]
  by (auto simp: atomic_def only_uuid_def)

theorem failed_commands_change_nothing_witness:
  "\<exists>n. fst (run_component TopicCommands run_host (sample_command ''topic.delete'' (JObj [(''topic_id'', JStr ''ops'')])) new_core)
     = new_core\<lparr>next_uuid := n\<rparr>"
proof -
  let ?m = "run_component TopicCommands run_host (sample_command ''topic.delete'' (JObj [(''topic_id'', JStr ''ops'')])) new_core"
  have "snd ?m = Inl TopicNotFound" by (rule sample_values)
  then have "?m = (fst ?m, Inl TopicNotFound)" by (simp add: prod_eq_iff)
  from failed_commands_change_nothing [OF _ this] show ?thesis by simp
qed

text \<open>
  Granting a capability gives it to that identity, however the identity is written, and to no
  other; revoking takes exactly it away.
\<close>

theorem grants_and_revocations:
  "(has_identity_capability (grant_identity_capability i cap s) j cap' \<longleftrightarrow>
      has_identity_capability s j cap'
      \<or> (normalize_hash (Some j) \<noteq> None \<and> normalize_hash (Some j) = normalize_hash (Some i) \<and> cap' = cap))
   \<and> (has_identity_capability (fst (revoke_identity_capability i cap s)) j cap' \<longleftrightarrow>
      has_identity_capability s j cap' \<and> \<not> (normalize_hash (Some j) = normalize_hash (Some i) \<and> cap' = cap))"
  using capability_granted capability_revoked by blast

text \<open>
  The effective operations of an identity are listed in order, each once, and are those that are
  granted and not denied.
\<close>

theorem effective_operations_listed:
  "sorted (resolve_effective_operations s i m) \<and> distinct (resolve_effective_operations s i m)
   \<and> set (resolve_effective_operations s i m) =
       {operation. operation_granted s i m operation \<and> \<not> operation_denied s i m operation}"
  by (simp add: effective_operations_sorted effective_operations_distinct effective_operations_set)

text \<open>
  A message sent to the hub is stored once, at the end, with its content and its normalized topic
  and destination; it fans out when it has a topic, goes to its destination when it has only that, and
  is broadcast otherwise.
\<close>

theorem message_is_stored:
  assumes "record_message h message_id content topic dest sender s = (t, Inr ev)"
  shows "\<exists>m. messages t = messages s @ [m] \<and> mg_message_id m = message_id \<and> mg_content m = content
    \<and> mg_topic_id m = normalize_topic_id h topic \<and> mg_destination m = normalize_hash dest
    \<and> (mg_delivery_mode m = Fanout \<longleftrightarrow> mg_topic_id m \<noteq> None)
    \<and> (mg_delivery_mode m = Targeted \<longleftrightarrow> mg_topic_id m = None \<and> mg_destination m \<noteq> None)
    \<and> (\<forall>k. mg_topic_id m = Some k \<longrightarrow> hm_contains (topics s) k)"
  using assms by (auto simp: record_message_def Let_def result_eqs hm_contains_def split: option.splits)

theorem message_is_stored_witness:
  "\<exists>m. messages (fst (record_message run_host ''m1'' ''hello'' None None ''abcd'' new_core)) = messages new_core @ [m]
     \<and> mg_content m = ''hello''"
proof -
  let ?r = "record_message run_host ''m1'' ''hello'' None None ''abcd'' new_core"
  have "\<exists>ev. snd ?r = Inr ev"
    by (simp add: record_message_def Let_def normalize_topic_id_def ensure_def) code_simp
  then obtain ev where "?r = (fst ?r, Inr ev)" by (auto simp: prod_eq_iff)
  from message_is_stored [OF this] show ?thesis by blast
qed

text \<open>
  Normal forms are their own normal forms: of an identity, a topic identifier and the two parts
  of a subscription.
\<close>

theorem normal_forms_are_stable:
  assumes "uuid_canonical h"
  shows "(normalize_hash v = Some a \<longrightarrow> normalize_hash (Some a) = Some a)
    \<and> (normalize_topic_id h v = Some b \<longrightarrow> normalize_topic_id h (Some b) = Some b)
    \<and> (normalize_subscriber_node_id v = Some c \<longrightarrow> normalize_subscriber_node_id (Some c) = Some c)
    \<and> (normalize_subscriber_topic_id h w = Some d \<longrightarrow> normalize_subscriber_topic_id h d = Some d)"
  using assms normalize_hash_again normalize_topic_id_again normalize_subscriber_node_id_again
    normalize_subscriber_topic_id_again by blast

theorem normal_forms_are_stable_witness:
  "normalize_hash (Some '' AB '') = Some ''ab'' \<and> normalize_hash (Some ''ab'') = Some ''ab''"
proof -
  have "normalize_hash (Some '' AB '') = Some ''ab''" by code_simp
  with normal_forms_are_stable [OF run_host_canonical, of "Some '' AB ''" "''ab''"] show ?thesis by blast
qed

text \<open>
  The peer registry has exactly one candidate for every identity with an admitted announce, taken
  from its announces, and it is a destination announce when the identity has one.
\<close>

theorem registry_has_every_peer:
  "(\<forall>i c. hm_get (rem_candidates admitted recs []) i = Some c \<longrightarrow>
      fst c \<in> set recs \<and> announce_identity (fst c) = Some i \<and> admitted (fst c) i)
   \<and> (\<forall>rec \<in> set recs. \<forall>i. announce_identity rec = Some i \<and> admitted rec i \<longrightarrow>
        (\<exists>c. hm_get (rem_candidates admitted recs []) i = Some c
           \<and> (announce_source rec = ''destination'' \<longrightarrow> snd c = ''destination'')))"
  using rem_candidates_complete [of admitted recs] by (auto simp: candidates_for_def candidate_ok_def split_beta)

theorem registry_has_every_peer_witness: "hm_get (rem_candidates (\<lambda>_ _. True) [] []) ''abcd'' = None"
  using registry_has_every_peer [of "\<lambda>_ _. True" "[]"] by (cases "hm_get (rem_candidates (\<lambda>_ _. True) [] []) ''abcd''") auto

text \<open>
  The links of assignments to assets are those of the assignments' own lists, in every reachable
  state.
\<close>

theorem asset_links_agree:
  assumes "reachable (uuid_parse h) s" and "uuid_canonical h"
  shows "(k, a) \<in> set (assignment_asset_links s) \<longleftrightarrow>
    (\<exists>r. hm_get (assignments s) k = Some r \<and> a \<in> set (an_assets r))"
  using core_okD(11) [OF reachable_core_ok [OF assms]] by (simp add: assignments_ok_def links_agree_def)

theorem asset_links_agree_witness:
  "(''x'', ''y'') \<in> set (assignment_asset_links sample_core) \<longleftrightarrow>
    (\<exists>r. hm_get (assignments sample_core) ''x'' = Some r \<and> ''y'' \<in> set (an_assets r))"
  using sample_core_reachable run_host_canonical by (rule asset_links_agree)

end
